(* ===== verification/Prelude.thy ===== *)
theory Prelude
  imports Main "HOL-Library.Word"
begin

unbundle bit_operations_syntax

text \<open>
  Shared vocabulary of the development: the machine integer types, the exceptions the debugger
  throws, the state-and-exception programs every stateful C++ function is translated into, their
  weakest preconditions, and the little-endian view of a 64-bit word.

  A C++ function that mutates objects and may throw is a value of type \<open>('s, 'a) prog\<close>: it maps
  a state to an outcome and the state it leaves behind. A thrown exception keeps the mutations made
  before the throw, as in C++. \<open>Diverged\<close> is the outcome of a loop that used up its fuel; no
  handler catches it.
\<close>

named_theorems wp_simps \<open>weakest preconditions of the program combinators\<close>
named_theorems terminates_intros \<open>programs that always return or throw\<close>
named_theorems keeps_intros \<open>invariant preservation of the program combinators\<close>

type_synonym u8 = "8 word"
type_synonym u16 = "16 word"
type_synonym u32 = "32 word"
type_synonym u64 = "64 word"
type_synonym pid = int

text \<open>The exception classes of the sources, with their messages.\<close>

datatype exn =
    LogicError string
  | InvalidArgument string
  | RuntimeError string
  | OutOfRange string
  | PtraceError string nat    \<comment> \<open>operation and errno\<close>
  | SystemError string nat    \<comment> \<open>runtime\_error built from an operation and errno\<close>
  | UndefinedBehaviour string \<comment> \<open>an out-of-bounds access or a signed overflow, not an exception\<close>

datatype 'a outcome = Ok 'a | Throw exn | Diverged

type_synonym ('s, 'a) prog = "'s \<Rightarrow> 'a outcome \<times> 's"

text \<open>\<^verbatim>\<open>std::isspace\<close> in the classic locale.\<close>

definition is_space :: "char \<Rightarrow> bool" where
  "is_space c \<longleftrightarrow> of_char c \<in> {9, 10, 11, 12, 13, 32 :: nat}"

section \<open>Program combinators\<close>

definition returnM :: "'a \<Rightarrow> ('s, 'a) prog" where
  "returnM a = (\<lambda>s. (Ok a, s))"

definition throwM :: "exn \<Rightarrow> ('s, 'a) prog" where
  "throwM e = (\<lambda>s. (Throw e, s))"

definition divergeM :: "('s, 'a) prog" where
  "divergeM = (\<lambda>s. (Diverged, s))"

definition bindM :: "('s, 'a) prog \<Rightarrow> ('a \<Rightarrow> ('s, 'b) prog) \<Rightarrow> ('s, 'b) prog" where
  "bindM m f = (\<lambda>s. case m s of
     (Ok a, s') \<Rightarrow> f a s'
   | (Throw e, s') \<Rightarrow> (Throw e, s')
   | (Diverged, s') \<Rightarrow> (Diverged, s'))"

definition thenM :: "('s, 'a) prog \<Rightarrow> ('s, 'b) prog \<Rightarrow> ('s, 'b) prog" where
  "thenM m n = bindM m (\<lambda>_. n)"

text \<open>\<open>catchM m h\<close> is \<^verbatim>\<open>try { m } catch (e) { h(e) }\<close>.\<close>

definition catchM :: "('s, 'a) prog \<Rightarrow> (exn \<Rightarrow> ('s, 'a) prog) \<Rightarrow> ('s, 'a) prog" where
  "catchM m h = (\<lambda>s. case m s of
     (Ok a, s') \<Rightarrow> (Ok a, s')
   | (Throw e, s') \<Rightarrow> h e s'
   | (Diverged, s') \<Rightarrow> (Diverged, s'))"

definition getM :: "('s, 's) prog" where
  "getM = (\<lambda>s. (Ok s, s))"

definition modifyM :: "('s \<Rightarrow> 's) \<Rightarrow> ('s, unit) prog" where
  "modifyM f = (\<lambda>s. (Ok (), f s))"

definition whenM :: "bool \<Rightarrow> ('s, unit) prog \<Rightarrow> ('s, unit) prog" where
  "whenM b m = (if b then m else returnM ())"

text \<open>What a run that returned went through.\<close>

lemma Ok_run:
  "bindM m f s = (Ok b, s'') \<longleftrightarrow> (\<exists>a s'. m s = (Ok a, s') \<and> f a s' = (Ok b, s''))"
  "throwM e s = (Ok b, s'') \<longleftrightarrow> False" "returnM c s = (Ok b, s'') \<longleftrightarrow> c = b \<and> s = s''"
  "catchM n h s = (Ok b, s'') \<longleftrightarrow> n s = (Ok b, s'') \<or> (\<exists>e s'. n s = (Throw e, s') \<and> h e s' = (Ok b, s''))"
  "getM s = (Ok t, s'') \<longleftrightarrow> s = t \<and> s = s''"
  by (auto simp: bindM_def throwM_def returnM_def catchM_def getM_def split: prod.splits outcome.splits)

lemmas run_simps = bindM_def thenM_def returnM_def throwM_def getM_def modifyM_def

text \<open>A range-based \<^verbatim>\<open>for\<close> loop over a container that the body does not restructure.\<close>

fun forM :: "'a list \<Rightarrow> ('a \<Rightarrow> ('s, unit) prog) \<Rightarrow> ('s, unit) prog" where
  "forM [] f = returnM ()"
| "forM (x # xs) f = thenM (f x) (forM xs f)"

text \<open>A loop whose body ends the loop with \<open>Some\<close> value and goes on with \<open>None\<close>, run for at most
  \<open>n\<close> turns.\<close>

fun loopM :: "nat \<Rightarrow> ('s, 'r option) prog \<Rightarrow> ('s, 'r) prog" where
  "loopM 0 body = divergeM"
| "loopM (Suc n) body = bindM body (\<lambda>r. case r of Some x \<Rightarrow> returnM x | None \<Rightarrow> loopM n body)"

section \<open>Weakest preconditions\<close>

text \<open>
  \<open>wp m Q E s\<close>: from \<open>s\<close>, if \<open>m\<close> returns then \<open>Q\<close> holds of the value and the state,
  and if it throws then \<open>E\<close> holds of the exception and the state.
\<close>

definition wp :: "('s, 'a) prog \<Rightarrow> ('a \<Rightarrow> 's \<Rightarrow> bool) \<Rightarrow> (exn \<Rightarrow> 's \<Rightarrow> bool) \<Rightarrow> 's \<Rightarrow> bool" where
  "wp m Q E s = (case m s of
     (Ok a, s') \<Rightarrow> Q a s'
   | (Throw e, s') \<Rightarrow> E e s'
   | (Diverged, s') \<Rightarrow> True)"

text \<open>The rules are stated without the state, so that they also rewrite under the binders of
  \<open>wp_bindM\<close>.\<close>

lemma wp_returnM [wp_simps]: "wp (returnM a) Q E = Q a"
  by (simp add: wp_def returnM_def fun_eq_iff)

lemma wp_throwM [wp_simps]: "wp (throwM e) Q E = E e"
  by (simp add: wp_def throwM_def fun_eq_iff)

lemma wp_divergeM [wp_simps]: "wp divergeM Q E = (\<lambda>_. True)"
  by (simp add: wp_def divergeM_def fun_eq_iff)

lemma wp_bindM [wp_simps]: "wp (bindM m f) Q E = wp m (\<lambda>a. wp (f a) Q E) E"
  by (auto simp: wp_def bindM_def fun_eq_iff split: prod.splits outcome.splits)

lemma wp_thenM [wp_simps]: "wp (thenM m n) Q E = wp m (\<lambda>_. wp n Q E) E"
  by (simp add: thenM_def wp_bindM)

lemma wp_catchM [wp_simps]: "wp (catchM m h) Q E = wp m Q (\<lambda>e. wp (h e) Q E)"
  by (auto simp: wp_def catchM_def fun_eq_iff split: prod.splits outcome.splits)

lemma wp_getM [wp_simps]: "wp getM Q E = (\<lambda>s. Q s s)"
  by (simp add: wp_def getM_def fun_eq_iff)

lemma wp_modifyM [wp_simps]: "wp (modifyM f) Q E = (\<lambda>s. Q () (f s))"
  by (simp add: wp_def modifyM_def fun_eq_iff)

lemma wp_whenM [wp_simps]:
  "wp (whenM b m) Q E = (\<lambda>s. (b \<longrightarrow> wp m Q E s) \<and> (\<not> b \<longrightarrow> Q () s))"
  by (simp add: whenM_def wp_returnM fun_eq_iff)

lemma wp_if [wp_simps]:
  "wp (if b then m else n) Q E = (\<lambda>s. (b \<longrightarrow> wp m Q E s) \<and> (\<not> b \<longrightarrow> wp n Q E s))"
  by (simp add: fun_eq_iff)

lemma wp_case_option [wp_simps]:
  "wp (case x of None \<Rightarrow> m | Some y \<Rightarrow> f y) Q E
     = (\<lambda>s. (x = None \<longrightarrow> wp m Q E s) \<and> (\<forall>y. x = Some y \<longrightarrow> wp (f y) Q E s))"
  by (cases x) (auto simp: fun_eq_iff)

lemma wp_Let [wp_simps]: "wp (let x = v in m x) Q E = wp (m v) Q E"
  by simp

lemma wp_case_prod [wp_simps]: "wp (case_prod f x) Q E = wp (f (fst x) (snd x)) Q E"
  by (simp add: case_prod_beta)

lemma wp_mono:
  assumes "wp m Q E s"
    and "\<And>a s'. Q a s' \<Longrightarrow> Q' a s'"
    and "\<And>e s'. E e s' \<Longrightarrow> E' e s'"
  shows "wp m Q' E' s"
  using assms by (auto simp: wp_def split: prod.splits outcome.splits)

lemma wp_conj:
  assumes "wp m Q E s" and "wp m Q' E' s"
  shows "wp m (\<lambda>a s'. Q a s' \<and> Q' a s') (\<lambda>e s'. E e s' \<and> E' e s') s"
  using assms by (auto simp: wp_def split: prod.splits outcome.splits)

lemma wp_triv [simp]: "wp m (\<lambda>_ _. True) (\<lambda>_ _. True) s"
  by (auto simp: wp_def split: prod.splits outcome.splits)

lemma wp_const: "P \<Longrightarrow> wp m (\<lambda>_ _. P) (\<lambda>_ _. P) s"
  by (auto simp: wp_def split: prod.splits outcome.splits)

lemma wp_OkD: "wp m Q E s \<Longrightarrow> m s = (Ok a, s') \<Longrightarrow> Q a s'"
  by (simp add: wp_def)

lemma wp_ThrowD: "wp m Q E s \<Longrightarrow> m s = (Throw e, s') \<Longrightarrow> E e s'"
  by (simp add: wp_def)

section \<open>Invariants kept by a program\<close>

text \<open>\<open>keeps I m\<close>: \<open>m\<close> preserves \<open>I\<close> whether it returns or throws.\<close>

definition keeps :: "('s \<Rightarrow> bool) \<Rightarrow> ('s, 'a) prog \<Rightarrow> bool" where
  "keeps I m \<longleftrightarrow> (\<forall>s. I s \<longrightarrow> wp m (\<lambda>_. I) (\<lambda>_. I) s)"

lemma keepsI: "(\<And>s. I s \<Longrightarrow> wp m (\<lambda>_. I) (\<lambda>_. I) s) \<Longrightarrow> keeps I m"
  by (simp add: keeps_def)

lemma keepsD: "keeps I m \<Longrightarrow> I s \<Longrightarrow> wp m (\<lambda>_. I) (\<lambda>_. I) s"
  by (simp add: keeps_def)

lemma keeps_Ok: "keeps I m \<Longrightarrow> I s \<Longrightarrow> m s = (Ok a, s') \<Longrightarrow> I s'"
  by (auto dest: keepsD wp_OkD)

lemma keeps_Throw: "keeps I m \<Longrightarrow> I s \<Longrightarrow> m s = (Throw e, s') \<Longrightarrow> I s'"
  by (auto dest: keepsD wp_ThrowD)

lemma keeps_returnM [keeps_intros]: "keeps I (returnM a)"
  by (simp add: keeps_def wp_simps)

lemma keeps_throwM [keeps_intros]: "keeps I (throwM e)"
  by (simp add: keeps_def wp_simps)

lemma keeps_divergeM [keeps_intros]: "keeps I divergeM"
  by (simp add: keeps_def wp_simps)

lemma keeps_bindM [keeps_intros]:
  "keeps I m \<Longrightarrow> (\<And>a. keeps I (f a)) \<Longrightarrow> keeps I (bindM m f)"
  by (auto simp: keeps_def wp_simps intro: wp_mono)

lemma keeps_thenM [keeps_intros]: "keeps I m \<Longrightarrow> keeps I n \<Longrightarrow> keeps I (thenM m n)"
  by (simp add: thenM_def keeps_bindM)

lemma keeps_catchM [keeps_intros]:
  "keeps I m \<Longrightarrow> (\<And>e. keeps I (h e)) \<Longrightarrow> keeps I (catchM m h)"
  by (auto simp: keeps_def wp_simps intro: wp_mono)

lemma keeps_getM [keeps_intros]: "keeps I getM"
  by (simp add: keeps_def wp_simps)

lemma keeps_modifyM: "(\<And>s. I s \<Longrightarrow> I (f s)) \<Longrightarrow> keeps I (modifyM f)"
  by (simp add: keeps_def wp_simps)

lemma keeps_whenM [keeps_intros]: "(b \<Longrightarrow> keeps I m) \<Longrightarrow> keeps I (whenM b m)"
  by (simp add: keeps_def wp_simps)

lemma keeps_if [keeps_intros]:
  "(b \<Longrightarrow> keeps I m) \<Longrightarrow> (\<not> b \<Longrightarrow> keeps I n) \<Longrightarrow> keeps I (if b then m else n)"
  by simp

lemma keeps_case_option [keeps_intros]:
  "(x = None \<Longrightarrow> keeps I m) \<Longrightarrow> (\<And>y. x = Some y \<Longrightarrow> keeps I (f y))
     \<Longrightarrow> keeps I (case x of None \<Rightarrow> m | Some y \<Rightarrow> f y)"
  by (cases x) auto

lemma keeps_case_prod [keeps_intros]: "(\<And>a b. keeps I (f a b)) \<Longrightarrow> keeps I (case_prod f x)"
  by (simp add: case_prod_beta)

lemma keeps_Let [keeps_intros]: "keeps I (m v) \<Longrightarrow> keeps I (let x = v in m x)"
  by simp

lemma keeps_forM [keeps_intros]: "(\<And>x. x \<in> set xs \<Longrightarrow> keeps I (f x)) \<Longrightarrow> keeps I (forM xs f)"
  by (induction xs) (auto intro: keeps_returnM keeps_thenM)

lemma wp_forM_inv:
  assumes "\<And>x s. x \<in> set xs \<Longrightarrow> I s \<Longrightarrow> wp (f x) (\<lambda>_. I) E s" and "I s"
  shows "wp (forM xs f) (\<lambda>_. I) E s"
  using assms
proof (induction xs arbitrary: s)
  case Nil
  then show ?case by (simp add: wp_simps)
next
  case (Cons x xs)
  have "wp (f x) (\<lambda>_. I) E s" using Cons.prems by simp
  then have "wp (f x) (\<lambda>_. wp (forM xs f) (\<lambda>_. I) E) E s"
    by (rule wp_mono) (rule Cons.IH, use Cons.prems in auto)
  then show ?case by (simp add: wp_simps)
qed

lemma wp_keeps: "keeps I m \<Longrightarrow> I s \<Longrightarrow> wp m Q E s \<Longrightarrow>
    wp m (\<lambda>a s'. Q a s' \<and> I s') (\<lambda>e s'. E e s' \<and> I s') s"
  by (rule wp_conj) (auto dest: keepsD)

section \<open>Total correctness\<close>

text \<open>\<open>terminates m\<close>: \<open>m\<close> returns or throws from every state. \<open>twp\<close> is \<open>wp\<close> without the escape for
  a loop that used up its fuel.\<close>

definition terminates :: "('s, 'a) prog \<Rightarrow> bool" where
  "terminates m \<longleftrightarrow> (\<forall>s. fst (m s) \<noteq> Diverged)"

definition twp :: "('s, 'a) prog \<Rightarrow> ('a \<Rightarrow> 's \<Rightarrow> bool) \<Rightarrow> (exn \<Rightarrow> 's \<Rightarrow> bool) \<Rightarrow> 's \<Rightarrow> bool" where
  "twp m Q E s = (case m s of
     (Ok a, s') \<Rightarrow> Q a s'
   | (Throw e, s') \<Rightarrow> E e s'
   | (Diverged, s') \<Rightarrow> False)"

lemma twpI: "terminates m \<Longrightarrow> wp m Q E s \<Longrightarrow> twp m Q E s"
  by (cases "m s") (auto simp: terminates_def twp_def wp_def split: outcome.split dest: spec [of _ s])

lemma twp_OkD: "twp m Q E s \<Longrightarrow> m s = (Ok a, s') \<Longrightarrow> Q a s'"
  by (simp add: twp_def)

lemma twp_cases:
  assumes "twp m Q E s"
  obtains (returns) a s' where "m s = (Ok a, s')" and "Q a s'"
    | (throws) e s' where "m s = (Throw e, s')" and "E e s'"
  using assms by (auto simp: twp_def split: prod.splits outcome.splits)

lemma terminates_returnM [terminates_intros]: "terminates (returnM a)"
  by (simp add: terminates_def returnM_def)

lemma terminates_throwM [terminates_intros]: "terminates (throwM e)"
  by (simp add: terminates_def throwM_def)

lemma terminates_getM [terminates_intros]: "terminates getM"
  by (simp add: terminates_def getM_def)

lemma terminates_modifyM [terminates_intros]: "terminates (modifyM f)"
  by (simp add: terminates_def modifyM_def)

lemma terminates_bindM [terminates_intros]:
  "terminates m \<Longrightarrow> (\<And>a. terminates (f a)) \<Longrightarrow> terminates (bindM m f)"
  by (auto simp: terminates_def bindM_def split: prod.split outcome.split) (metis fst_conv)

lemma terminates_thenM [terminates_intros]: "terminates m \<Longrightarrow> terminates n \<Longrightarrow> terminates (thenM m n)"
  by (simp add: thenM_def terminates_bindM)

lemma terminates_catchM [terminates_intros]:
  "terminates m \<Longrightarrow> (\<And>e. terminates (h e)) \<Longrightarrow> terminates (catchM m h)"
  by (auto simp: terminates_def catchM_def split: prod.split outcome.split) (metis fst_conv)

lemma terminates_whenM [terminates_intros]: "terminates m \<Longrightarrow> terminates (whenM b m)"
  by (simp add: whenM_def terminates_returnM)

lemma terminates_if [terminates_intros]:
  "(b \<Longrightarrow> terminates m) \<Longrightarrow> (\<not> b \<Longrightarrow> terminates n) \<Longrightarrow> terminates (if b then m else n)"
  by simp

lemma terminates_case_option [terminates_intros]:
  "terminates m \<Longrightarrow> (\<And>y. terminates (f y)) \<Longrightarrow> terminates (case x of None \<Rightarrow> m | Some y \<Rightarrow> f y)"
  by (cases x) auto

lemma terminates_case_prod [terminates_intros]: "(\<And>a b. terminates (f a b)) \<Longrightarrow> terminates (case_prod f x)"
  by (simp add: case_prod_beta)

lemma terminates_forM [terminates_intros]: "(\<And>x. terminates (f x)) \<Longrightarrow> terminates (forM xs f)"
  by (induction xs) (auto intro: terminates_returnM terminates_thenM)

text \<open>Total correctness composes, and a loop whose measure is below its fuel ends.\<close>

lemma twp_wp: "twp m Q E s \<Longrightarrow> wp m Q E s"
  by (auto simp: twp_def wp_def split: prod.splits outcome.splits)

lemma twp_mono:
  assumes "twp m Q E s" and "\<And>a s'. Q a s' \<Longrightarrow> Q' a s'" and "\<And>e s'. E e s' \<Longrightarrow> E' e s'"
  shows "twp m Q' E' s"
  using assms by (auto simp: twp_def split: prod.splits outcome.splits)

lemma twp_bindM: "twp (bindM m f) Q E = twp m (\<lambda>a. twp (f a) Q E) E"
  by (auto simp: twp_def bindM_def fun_eq_iff split: prod.splits outcome.splits)

lemma twp_thenM: "twp (thenM m n) Q E = twp m (\<lambda>_. twp n Q E) E"
  by (simp add: thenM_def twp_bindM)

lemma twp_returnM: "twp (returnM a) Q E = Q a"
  by (simp add: twp_def returnM_def fun_eq_iff)

lemma twp_throwM: "twp (throwM e) Q E = E e"
  by (simp add: twp_def throwM_def fun_eq_iff)

lemma twp_getM: "twp getM Q E = (\<lambda>s. Q s s)"
  by (simp add: twp_def getM_def fun_eq_iff)

lemma twp_modifyM: "twp (modifyM f) Q E = (\<lambda>s. Q () (f s))"
  by (simp add: twp_def modifyM_def fun_eq_iff)

lemma twp_catchM: "twp (catchM m h) Q E = twp m Q (\<lambda>e. twp (h e) Q E)"
  by (auto simp: twp_def catchM_def fun_eq_iff split: prod.splits outcome.splits)

lemma twp_if:
  "twp (if b then m else n) Q E = (\<lambda>s. (b \<longrightarrow> twp m Q E s) \<and> (\<not> b \<longrightarrow> twp n Q E s))"
  by (simp add: fun_eq_iff)

lemma twp_whenM: "twp (whenM b m) Q E = (\<lambda>s. (b \<longrightarrow> twp m Q E s) \<and> (\<not> b \<longrightarrow> Q () s))"
  by (simp add: whenM_def twp_returnM fun_eq_iff)

lemma twp_case_option:
  "twp (case x of None \<Rightarrow> m | Some y \<Rightarrow> f y) Q E =
     (\<lambda>s. (x = None \<longrightarrow> twp m Q E s) \<and> (\<forall>y. x = Some y \<longrightarrow> twp (f y) Q E s))"
  by (cases x) (auto simp: fun_eq_iff)

lemma twp_case_prod: "twp (case_prod f x) Q E = twp (f (fst x) (snd x)) Q E"
  by (simp add: case_prod_beta)

lemmas twp_simps = twp_bindM twp_thenM twp_returnM twp_throwM twp_getM twp_modifyM twp_catchM twp_if twp_whenM
  twp_case_option twp_case_prod

lemma twp_loopM:
  assumes body: "\<And>s. I s \<Longrightarrow> twp body
      (\<lambda>r s'. case r of Some x \<Rightarrow> Q x s' | None \<Rightarrow> I s' \<and> \<mu> s' < (\<mu> s :: nat)) E s"
    and "I s" and "\<mu> s < n"
  shows "twp (loopM n body) Q E s"
  using assms(2,3)
proof (induction n arbitrary: s)
  case 0
  then show ?case by simp
next
  case (Suc n)
  show ?case
    unfolding loopM.simps twp_bindM
    by (rule twp_mono [OF body [OF Suc.prems(1)]])
      (use Suc in \<open>auto simp: twp_returnM split: option.splits\<close>)
qed

section \<open>Running a part of the state\<close>

text \<open>
  \<open>zoomM getp setp m\<close> runs \<open>m\<close> on the part of the state that \<open>getp\<close> reads and writes the
  part back with \<open>setp\<close>, also when \<open>m\<close> throws.
\<close>

definition zoomM :: "('s \<Rightarrow> 'p) \<Rightarrow> ('p \<Rightarrow> 's \<Rightarrow> 's) \<Rightarrow> ('p, 'a) prog \<Rightarrow> ('s, 'a) prog" where
  "zoomM getp setp m = (\<lambda>s. case m (getp s) of (r, p) \<Rightarrow> (r, setp p s))"

lemma wp_zoomM [wp_simps]:
  "wp (zoomM getp setp m) Q E
     = (\<lambda>s. wp m (\<lambda>a p. Q a (setp p s)) (\<lambda>e p. E e (setp p s)) (getp s))"
  by (auto simp: wp_def zoomM_def fun_eq_iff split: prod.splits outcome.splits)

lemma twp_zoomM:
  "twp (zoomM getp setp m) Q E =
     (\<lambda>s. twp m (\<lambda>a p. Q a (setp p s)) (\<lambda>e p. E e (setp p s)) (getp s))"
  by (auto simp: twp_def zoomM_def fun_eq_iff split: prod.splits outcome.splits)

lemma terminates_zoomM [terminates_intros]: "terminates m \<Longrightarrow> terminates (zoomM getp setp m)"
  by (simp add: terminates_def zoomM_def split: prod.split) (metis fst_conv)

text \<open>\<open>with_local l m\<close> runs \<open>m\<close> with a local variable that starts as \<open>l\<close> and is dropped at the end.\<close>

definition with_local :: "'l \<Rightarrow> ('s \<times> 'l, 'a) prog \<Rightarrow> ('s, 'a) prog" where
  "with_local l m = (\<lambda>s. case m (s, l) of (r, s') \<Rightarrow> (r, fst s'))"

lemma wp_with_local [wp_simps]:
  "wp (with_local l m) Q E = (\<lambda>s. wp m (\<lambda>a s'. Q a (fst s')) (\<lambda>e s'. E e (fst s')) (s, l))"
  by (auto simp: wp_def with_local_def fun_eq_iff split: prod.splits outcome.splits)

lemma twp_with_local:
  "twp (with_local l m) Q E =
     (\<lambda>s. twp m (\<lambda>a s'. Q a (fst s')) (\<lambda>e s'. E e (fst s')) (s, l))"
  by (auto simp: twp_def with_local_def fun_eq_iff split: prod.splits outcome.splits)

section \<open>Bytes of words\<close>

text \<open>Byte \<open>i\<close> of a word, \<open>i = 0\<close> the least significant: the C++ expression
  \<^verbatim>\<open>(word >> (8 * i)) & 0xff\<close> narrowed to a byte.\<close>

definition byte_of :: "nat \<Rightarrow> u64 \<Rightarrow> u8" where
  "byte_of i w = ucast (drop_bit (8 * i) w AND 0xff)"

definition word_bytes :: "u64 \<Rightarrow> u8 list" where
  "word_bytes w = map (\<lambda>i. byte_of i w) [0..<8]"

text \<open>The little-endian number a byte list spells.\<close>

fun le_word :: "u8 list \<Rightarrow> u64" where
  "le_word [] = 0"
| "le_word (b # bs) = ucast b OR push_bit 8 (le_word bs)"

lemma bit_ucast64: "bit (ucast (b :: u8) :: u64) n \<longleftrightarrow> n < 8 \<and> bit b n"
  using bit_imp_le_length [of b n] by (auto simp: bit_simps)

lemma bit_0xff: "bit (0xff :: u64) n \<longleftrightarrow> n < 8"
proof -
  have "bit (mask 8 :: u64) n \<longleftrightarrow> n < 8"
    by (subst bit_mask_iff) auto
  moreover have "(mask 8 :: u64) = 0xff" by (simp add: mask_eq_exp_minus_1)
  ultimately show ?thesis by (simp only:)
qed

lemma bit_byte_of: "bit (byte_of i w) n \<longleftrightarrow> n < 8 \<and> bit w (8 * i + n)"
proof -
  have "bit (byte_of i w) n \<longleftrightarrow> n < 8 \<and> bit (drop_bit (8 * i) w AND 0xff) n"
    unfolding byte_of_def by (subst bit_unsigned_iff) auto
  then show ?thesis by (auto simp only: bit_and_iff bit_drop_bit_eq comp_apply bit_0xff)
qed

lemma bit_le_word:
  "length bs \<le> 8 \<Longrightarrow> bit (le_word bs) n \<longleftrightarrow> n div 8 < length bs \<and> bit (bs ! (n div 8)) (n mod 8)"
proof (induction bs arbitrary: n)
  case Nil
  then show ?case by simp
next
  case (Cons b bs)
  show ?case
  proof (cases "n < 8")
    case True
    then show ?thesis by (auto simp: bit_or_iff bit_push_bit_iff bit_ucast64)
  next
    case False
    then obtain m where m: "n = m + 8" by (metis add.commute le_add_diff_inverse not_less)
    have "bit (le_word (b # bs)) n \<longleftrightarrow> n < 64 \<and> bit (le_word bs) m"
      using False m by (simp add: bit_or_iff bit_push_bit_iff bit_ucast64)
    also have "bit (le_word bs) m \<longleftrightarrow> m div 8 < length bs \<and> bit (bs ! (m div 8)) (m mod 8)"
      using Cons by simp
    also have "n < 64 \<and> m div 8 < length bs \<and> bit (bs ! (m div 8)) (m mod 8)
        \<longleftrightarrow> n div 8 < length (b # bs) \<and> bit ((b # bs) ! (n div 8)) (n mod 8)"
      using Cons.prems m by (auto simp: div_add_self2)
    finally show ?thesis .
  qed
qed

lemma byte_of_le_word [simp]:
  assumes "length bs \<le> 8" and "i < length bs"
  shows "byte_of i (le_word bs) = bs ! i"
proof (rule bit_word_eqI)
  fix n assume "n < LENGTH(8)"
  with assms show "bit (byte_of i (le_word bs)) n = bit (bs ! i) n"
    by (simp add: bit_byte_of bit_le_word)
qed

lemma word_eq_bytesI:
  assumes "\<And>i. i < 8 \<Longrightarrow> byte_of i v = byte_of i w"
  shows "v = w"
proof (rule bit_word_eqI)
  fix n assume "n < LENGTH(64)"
  then have "n div 8 < 8" by simp
  then have "bit (byte_of (n div 8) v) (n mod 8) = bit (byte_of (n div 8) w) (n mod 8)"
    by (simp add: assms)
  then show "bit v n = bit w n"
    by (simp add: bit_byte_of)
qed

lemma le_word_word_bytes [simp]: "le_word (word_bytes w) = w"
  by (rule word_eq_bytesI) (simp add: word_bytes_def)

lemma length_word_bytes [simp]: "length (word_bytes w) = 8"
  by (simp add: word_bytes_def)

lemma nth_word_bytes [simp]: "i < 8 \<Longrightarrow> word_bytes w ! i = byte_of i w"
  by (simp add: word_bytes_def)

text \<open>The read-modify-write expression of \<^verbatim>\<open>lowlevel::write_byte\<close> replaces byte 0 alone.\<close>

lemma byte_of_replace_low:
  "byte_of i ((w AND NOT 0xff) OR ucast b) = (if i = 0 then b else byte_of i w)" if "i < 8"
proof (rule bit_word_eqI)
  fix n :: nat assume n: "n < LENGTH(8)"
  show "bit (byte_of i ((w AND NOT 0xff) OR ucast b)) n = bit (if i = 0 then b else byte_of i w) n"
  proof (cases "i = 0")
    case True
    with n show ?thesis
      by (simp only: bit_byte_of bit_or_iff bit_and_iff bit_not_iff bit_0xff bit_ucast64) simp
  next
    case False
    then have "\<not> 8 * i + n < 8" by simp
    moreover have "2 ^ (8 * i + n) \<noteq> (0 :: u64)" using n that by (simp add: exp_eq_zero_iff)
    ultimately show ?thesis using False
      by (simp only: bit_byte_of bit_or_iff bit_and_iff bit_not_iff_eq bit_0xff bit_ucast64 if_False)
        simp
  qed
qed

section \<open>Numbers in messages\<close>

text \<open>\<^verbatim>\<open>std::to_string\<close> of an unsigned number.\<close>

fun to_string :: "nat \<Rightarrow> string" where
  "to_string n = (if n < 10 then [char_of (48 + n)] else to_string (n div 10) @ [char_of (48 + n mod 10)])"

declare to_string.simps [simp del]

section \<open>Small facts on options and lists\<close>

lemma option_case_eq_Some:
  "(case x of None \<Rightarrow> None | Some y \<Rightarrow> f y) = Some z \<longleftrightarrow> (\<exists>y. x = Some y \<and> f y = Some z)"
  by (cases x) auto

lemma find_SomeD: "find P xs = Some x \<Longrightarrow> P x \<and> x \<in> set xs"
  by (auto simp: find_Some_iff)

end
