(* ===== verification/StdMap.thy ===== *)
theory StdMap
  imports Prelude "HOL-Library.Product_Lexorder"
begin

text \<open>
  \<^verbatim>\<open>std::map\<close>: an association list in strictly ascending key order, which is also the order the
  range-based \<^verbatim>\<open>for\<close> loops of the sources visit. The locale \<open>ordered_map\<close> states the laws the
  components rely on; it is interpreted on the association list below.
\<close>

type_synonym ('k, 'v) smap = "('k \<times> 'v) list"

definition smap_wf :: "('k::linorder, 'v) smap \<Rightarrow> bool" where
  "smap_wf m \<longleftrightarrow> sorted_wrt (<) (map fst m)"

definition smap_empty :: "('k, 'v) smap" where
  "smap_empty = []"

text \<open>\<^verbatim>\<open>find\<close> and \<^verbatim>\<open>count\<close>.\<close>

definition smap_find :: "('k, 'v) smap \<Rightarrow> 'k \<Rightarrow> 'v option" where
  "smap_find m k = map_of m k"

definition smap_count :: "('k, 'v) smap \<Rightarrow> 'k \<Rightarrow> nat" where
  "smap_count m k = (if smap_find m k = None then 0 else 1)"

text \<open>\<^verbatim>\<open>m[k] = v\<close>: replaces the value of a present key.\<close>

fun smap_assign :: "'k::linorder \<Rightarrow> 'v \<Rightarrow> ('k, 'v) smap \<Rightarrow> ('k, 'v) smap" where
  "smap_assign k v [] = [(k, v)]"
| "smap_assign k v ((l, w) # m) =
     (if k < l then (k, v) # (l, w) # m
      else if k = l then (k, v) # m
      else (l, w) # smap_assign k v m)"

text \<open>\<^verbatim>\<open>emplace\<close> and \<^verbatim>\<open>try_emplace\<close>: keep the value of a present key.\<close>

definition smap_emplace :: "'k::linorder \<Rightarrow> 'v \<Rightarrow> ('k, 'v) smap \<Rightarrow> ('k, 'v) smap" where
  "smap_emplace k v m = (if smap_find m k = None then smap_assign k v m else m)"

definition smap_erase :: "'k \<Rightarrow> ('k, 'v) smap \<Rightarrow> ('k, 'v) smap" where
  "smap_erase k m = filter (\<lambda>(l, w). l \<noteq> k) m"

definition smap_keys :: "('k, 'v) smap \<Rightarrow> 'k list" where
  "smap_keys m = map fst m"

text \<open>A loop that rewrites every mapped value in place.\<close>

definition smap_map :: "('k \<Rightarrow> 'v \<Rightarrow> 'w) \<Rightarrow> ('k, 'v) smap \<Rightarrow> ('k, 'w) smap" where
  "smap_map f m = map (\<lambda>(k, v). (k, f k v)) m"

section \<open>The map interface\<close>

locale ordered_map =
  fixes empty :: "'m"
    and find_key :: "'m \<Rightarrow> 'k::linorder \<Rightarrow> 'v option"
    and assign :: "'k \<Rightarrow> 'v \<Rightarrow> 'm \<Rightarrow> 'm"
    and erase :: "'k \<Rightarrow> 'm \<Rightarrow> 'm"
    and keys :: "'m \<Rightarrow> 'k list"
    and wf :: "'m \<Rightarrow> bool"
  assumes find_empty: "find_key empty k = None"
    and find_assign: "wf m \<Longrightarrow> find_key (assign k v m) l = (if l = k then Some v else find_key m l)"
    and find_erase: "wf m \<Longrightarrow> find_key (erase k m) l = (if l = k then None else find_key m l)"
    and keys_find: "wf m \<Longrightarrow> set (keys m) = {k. find_key m k \<noteq> None}"
    and keys_sorted: "wf m \<Longrightarrow> sorted_wrt (<) (keys m)"
    and wf_empty: "wf empty"
    and wf_assign: "wf m \<Longrightarrow> wf (assign k v m)"
    and wf_erase: "wf m \<Longrightarrow> wf (erase k m)"
begin

lemma find_assign_dom: "wf m \<Longrightarrow> dom (find_key (assign k v m)) = insert k (dom (find_key m))"
  by (auto simp: find_assign dom_def)

lemma find_erase_dom: "wf m \<Longrightarrow> dom (find_key (erase k m)) = dom (find_key m) - {k}"
  by (auto simp: find_erase dom_def)

lemma erase_assign_absent:
  "wf m \<Longrightarrow> find_key m k = None \<Longrightarrow> find_key (erase k (assign k v m)) = find_key m"
  by (auto simp: find_erase find_assign wf_assign)

lemma finite_find_dom: "wf m \<Longrightarrow> finite (dom (find_key m))"
proof -
  assume "wf m"
  then have "dom (find_key m) = set (keys m)" by (auto simp: keys_find)
  then show ?thesis by simp
qed

lemma distinct_keys: "wf m \<Longrightarrow> distinct (keys m)"
  using keys_sorted strict_sorted_iff by blast

end

section \<open>The association list implements it\<close>

lemma smap_find_Nil [simp]: "smap_find [] k = None"
  by (simp add: smap_find_def)

lemma smap_find_Cons [simp]:
  "smap_find ((l, w) # m) k = (if k = l then Some w else smap_find m k)"
  by (simp add: smap_find_def)

lemma smap_wf_Nil [simp]: "smap_wf []"
  by (simp add: smap_wf_def)

lemma smap_wf_Cons [simp]:
  "smap_wf ((k, v) # m) \<longleftrightarrow> (\<forall>l \<in> fst ` set m. k < l) \<and> smap_wf m"
  by (auto simp: smap_wf_def)

lemma smap_wf_sorted: "smap_wf m \<Longrightarrow> sorted_wrt (<) (map fst m)"
  by (simp add: smap_wf_def)

lemma smap_find_None: "smap_find m k = None \<longleftrightarrow> k \<notin> fst ` set m"
  by (simp add: smap_find_def map_of_eq_None_iff)

lemma smap_find_SomeD: "smap_find m k = Some v \<Longrightarrow> (k, v) \<in> set m"
  by (simp add: smap_find_def map_of_SomeD)

lemma smap_wf_distinct: "smap_wf m \<Longrightarrow> distinct (map fst m)"
  by (simp add: smap_wf_def strict_sorted_iff)

lemma smap_find_mem: "smap_wf m \<Longrightarrow> (k, v) \<in> set m \<longleftrightarrow> smap_find m k = Some v"
  by (simp add: smap_find_def smap_wf_distinct)

lemma smap_find_assign:
  "smap_wf m \<Longrightarrow> smap_find (smap_assign k v m) l = (if l = k then Some v else smap_find m l)"
  by (induction k v m rule: smap_assign.induct) (auto simp: smap_find_None)

lemma smap_find_assign_same [simp]: "smap_find (smap_assign k v m) k = Some v"
  by (induction k v m rule: smap_assign.induct) auto

lemma smap_fst_assign: "fst ` set (smap_assign k v m) = insert k (fst ` set m)"
  by (induction k v m rule: smap_assign.induct) auto

lemma smap_wf_assign: "smap_wf m \<Longrightarrow> smap_wf (smap_assign k v m)"
  by (induction k v m rule: smap_assign.induct) (auto simp: smap_fst_assign)

lemma smap_find_erase: "smap_find (smap_erase k m) l = (if l = k then None else smap_find m l)"
  by (induction m) (auto simp: smap_erase_def)

lemma smap_wf_erase: "smap_wf m \<Longrightarrow> smap_wf (smap_erase k m)"
  by (induction m) (auto simp: smap_erase_def)

lemma smap_find_map: "smap_find (smap_map f m) k = map_option (f k) (smap_find m k)"
  by (induction m) (auto simp: smap_map_def)

lemma smap_keys_map [simp]: "smap_keys (smap_map f m) = smap_keys m"
  by (induction m) (auto simp: smap_map_def smap_keys_def)

lemma smap_wf_map [simp]: "smap_wf (smap_map f m) = smap_wf m"
proof -
  have "map fst (smap_map f m) = map fst m"
    by (simp add: smap_map_def case_prod_beta comp_def)
  then show ?thesis by (simp add: smap_wf_def)
qed

interpretation std: ordered_map smap_empty smap_find smap_assign smap_erase smap_keys smap_wf
  by unfold_locales
    (auto simp: smap_empty_def smap_find_assign smap_find_erase smap_wf_assign smap_wf_erase
      smap_keys_def smap_find_None smap_wf_sorted)

lemmas smap_find_simps = std.find_assign smap_find_erase smap_find_map std.find_empty

lemma smap_find_emplace:
  "smap_wf m \<Longrightarrow> smap_find (smap_emplace k v m) l =
     (if l = k \<and> smap_find m k = None then Some v else smap_find m l)"
  by (auto simp: smap_emplace_def smap_find_simps)

lemma smap_wf_emplace: "smap_wf m \<Longrightarrow> smap_wf (smap_emplace k v m)"
  by (simp add: smap_emplace_def std.wf_assign)

lemma length_smap_assign: "length (smap_assign k v m) \<le> length m + 1"
  by (induction k v m rule: smap_assign.induct) auto

lemma length_smap_emplace: "length (smap_emplace k v m) \<le> length m + 1"
  using length_smap_assign [of k v m] by (simp add: smap_emplace_def)

lemma length_smap_erase: "length (smap_erase k m) \<le> length m"
  by (simp add: smap_erase_def)

lemma length_smap_erase_present: "smap_find m k = Some v \<Longrightarrow> length (smap_erase k m) < length m"
  unfolding smap_erase_def by (rule length_filter_less [where x = "(k, v)"]) (auto dest: smap_find_SomeD)

lemma set_smap_erase: "set (smap_erase k m) \<subseteq> set m"
  by (auto simp: smap_erase_def)

lemma set_smap_emplace: "set (smap_emplace k v m) \<subseteq> insert (k, v) (set m)"
proof -
  have "set (smap_assign k v m) \<subseteq> insert (k, v) (set m)"
    by (induction k v m rule: smap_assign.induct) auto
  then show ?thesis by (auto simp: smap_emplace_def)
qed

lemmas smap_wf_simps = std.wf_assign std.wf_erase smap_wf_emplace std.wf_empty

lemma smap_empty_find: "smap_find smap_empty = Map.empty"
  by (rule ext) (simp add: smap_empty_def)

end
