(* ===== verification/Ptrace.thy ===== *)
theory Ptrace
  imports StdMap
begin

text \<open>
  The system-call boundary: \<^verbatim>\<open>src/src/ptrace/ptrace.cpp\<close> (namespace \<open>lowlevel\<close>).

  The kernel is not part of the repository. It is the parameter \<open>os\<close>, a record with one function
  per system call the sources make, over an arbitrary kernel state \<open>'k\<close>. A call yields the C return
  value (as the 64 bits of a \<^verbatim>\<open>long\<close>) and the value of \<^verbatim>\<open>errno\<close> after it. What the theorems need of the
  kernel's memory calls is the hypothesis \<open>shared_memory_laws\<close>, which states the documented
  behaviour of \<^verbatim>\<open>PTRACE_PEEKDATA\<close> and \<^verbatim>\<open>PTRACE_POKEDATA\<close> on the tasks of one address space.
\<close>

unbundle bit_operations_syntax

text \<open>\<^verbatim>\<open>user_regs_struct\<close> of \<^verbatim>\<open>sys/user.h\<close>, in its order.\<close>

record user_regs =
  r15 :: u64
  r14 :: u64
  r13 :: u64
  r12 :: u64
  rbp :: u64
  rbx :: u64
  r11 :: u64
  r10 :: u64
  r9 :: u64
  r8 :: u64
  rax :: u64
  rcx :: u64
  rdx :: u64
  rsi :: u64
  rdi :: u64
  orig_rax :: u64
  rip :: u64
  seg_cs :: u64
  eflags :: u64
  rsp :: u64
  seg_ss :: u64
  fs_base :: u64
  gs_base :: u64
  seg_ds :: u64
  seg_es :: u64
  seg_fs :: u64
  seg_gs :: u64

definition zero_regs :: user_regs where
  "zero_regs = \<lparr>r15 = 0, r14 = 0, r13 = 0, r12 = 0, rbp = 0, rbx = 0, r11 = 0, r10 = 0, r9 = 0,
     r8 = 0, rax = 0, rcx = 0, rdx = 0, rsi = 0, rdi = 0, orig_rax = 0, rip = 0, seg_cs = 0,
     eflags = 0, rsp = 0, seg_ss = 0, fs_base = 0, gs_base = 0, seg_ds = 0, seg_es = 0,
     seg_fs = 0, seg_gs = 0\<rparr>"

type_synonym sysret = "u64 \<times> nat"

record 'k os =
  k_traceme :: "'k \<Rightarrow> sysret \<times> 'k"
  k_attach :: "pid \<Rightarrow> 'k \<Rightarrow> sysret \<times> 'k"
  k_detach :: "pid \<Rightarrow> int \<Rightarrow> 'k \<Rightarrow> sysret \<times> 'k"
  k_setoptions :: "pid \<Rightarrow> u64 \<Rightarrow> 'k \<Rightarrow> sysret \<times> 'k"
  k_geteventmsg :: "pid \<Rightarrow> 'k \<Rightarrow> sysret \<times> u64"
  k_cont :: "pid \<Rightarrow> int \<Rightarrow> 'k \<Rightarrow> sysret \<times> 'k"
  k_singlestep :: "pid \<Rightarrow> int \<Rightarrow> 'k \<Rightarrow> sysret \<times> 'k"
  k_getregs :: "pid \<Rightarrow> 'k \<Rightarrow> sysret \<times> user_regs"
  k_setregs :: "pid \<Rightarrow> user_regs \<Rightarrow> 'k \<Rightarrow> sysret \<times> 'k"
  k_peekuser :: "pid \<Rightarrow> nat \<Rightarrow> 'k \<Rightarrow> sysret"          \<comment> \<open>offset into \<^verbatim>\<open>struct user\<close>\<close>
  k_pokeuser :: "pid \<Rightarrow> nat \<Rightarrow> u64 \<Rightarrow> 'k \<Rightarrow> sysret \<times> 'k"
  k_peekdata :: "pid \<Rightarrow> u64 \<Rightarrow> 'k \<Rightarrow> sysret"
  k_pokedata :: "pid \<Rightarrow> u64 \<Rightarrow> u64 \<Rightarrow> 'k \<Rightarrow> sysret \<times> 'k"
  k_waitpid :: "pid \<Rightarrow> 'k \<Rightarrow> (pid \<times> nat \<times> nat) \<times> 'k"  \<comment> \<open>result, status, errno\<close>
  k_kill :: "pid \<Rightarrow> int \<Rightarrow> 'k \<Rightarrow> 'k"
  k_fork :: "'k \<Rightarrow> (pid \<times> nat) \<times> 'k"                  \<comment> \<open>result in the parent, errno\<close>
  k_task_dir :: "pid \<Rightarrow> 'k \<Rightarrow> string list option"       \<comment> \<open>names in \<^verbatim>\<open>/proc/<pid>/task\<close>\<close>
  k_task_exists :: "pid \<Rightarrow> pid \<Rightarrow> 'k \<Rightarrow> bool"           \<comment> \<open>\<^verbatim>\<open>/proc/<pid>/task/<tid>\<close>\<close>
  k_read_exe :: "pid \<Rightarrow> 'k \<Rightarrow> string option"            \<comment> \<open>link target of \<^verbatim>\<open>/proc/<pid>/exe\<close>\<close>

text \<open>\<open>offsetof(struct user, u_debugreg)\<close> of the x86-64 ABI.\<close>

abbreviation (input) u_debugreg_offset :: nat where
  "u_debugreg_offset \<equiv> 848"

abbreviation (input) ESRCH :: nat where "ESRCH \<equiv> 3"
abbreviation (input) EINTR :: nat where "EINTR \<equiv> 4"

section \<open>Requests\<close>

text \<open>The shape shared by the requests that fail exactly when \<^verbatim>\<open>ptrace\<close> returns -1.\<close>

definition ptrace_request :: "string \<Rightarrow> ('k \<Rightarrow> sysret \<times> 'k) \<Rightarrow> ('k, unit) prog" where
  "ptrace_request operation call = (\<lambda>k. case call k of
     ((value, err), k') \<Rightarrow> (if value = -1 then Throw (PtraceError operation err) else Ok (), k'))"

definition debug_register_offset :: "nat \<Rightarrow> ('k, nat) prog" where
  "debug_register_offset index =
     (if index \<ge> 8 then throwM (InvalidArgument ''x86 debug register index is out of range'')
      else returnM (u_debugreg_offset + index * 8))"

definition ll_traceme :: "'k os \<Rightarrow> ('k, unit) prog" where
  "ll_traceme os = ptrace_request ''PTRACE_TRACEME'' (k_traceme os)"

definition ll_attach :: "'k os \<Rightarrow> pid \<Rightarrow> ('k, unit) prog" where
  "ll_attach os t = ptrace_request ''PTRACE_ATTACH'' (k_attach os t)"

definition ll_detach :: "'k os \<Rightarrow> pid \<Rightarrow> int \<Rightarrow> ('k, unit) prog" where
  "ll_detach os t signal = ptrace_request ''PTRACE_DETACH'' (k_detach os t signal)"

definition ll_set_options :: "'k os \<Rightarrow> pid \<Rightarrow> u64 \<Rightarrow> ('k, unit) prog" where
  "ll_set_options os t options = ptrace_request ''PTRACE_SETOPTIONS'' (k_setoptions os t options)"

definition ll_get_event_message :: "'k os \<Rightarrow> pid \<Rightarrow> ('k, u64) prog" where
  "ll_get_event_message os t = (\<lambda>k. case k_geteventmsg os t k of
     ((value, err), message) \<Rightarrow>
       (if value = -1 then Throw (PtraceError ''PTRACE_GETEVENTMSG'' err) else Ok message, k))"

definition ll_continue_process :: "'k os \<Rightarrow> pid \<Rightarrow> int \<Rightarrow> ('k, unit) prog" where
  "ll_continue_process os t signal = ptrace_request ''PTRACE_CONT'' (k_cont os t signal)"

definition ll_single_step :: "'k os \<Rightarrow> pid \<Rightarrow> int \<Rightarrow> ('k, unit) prog" where
  "ll_single_step os t signal = ptrace_request ''PTRACE_SINGLESTEP'' (k_singlestep os t signal)"

definition ll_get_registers :: "'k os \<Rightarrow> pid \<Rightarrow> ('k, user_regs) prog" where
  "ll_get_registers os t = (\<lambda>k. case k_getregs os t k of
     ((value, err), regs) \<Rightarrow>
       (if value = -1 then Throw (PtraceError ''PTRACE_GETREGS'' err) else Ok regs, k))"

definition ll_set_registers :: "'k os \<Rightarrow> pid \<Rightarrow> user_regs \<Rightarrow> ('k, unit) prog" where
  "ll_set_registers os t regs = ptrace_request ''PTRACE_SETREGS'' (k_setregs os t regs)"

text \<open>\<^verbatim>\<open>PEEKUSER\<close> and \<^verbatim>\<open>PEEKDATA\<close> return the data itself, so -1 is an error only with a non-zero
  \<^verbatim>\<open>errno\<close>, which the code clears before the call.\<close>

definition ll_get_debug_register :: "'k os \<Rightarrow> pid \<Rightarrow> nat \<Rightarrow> ('k, u64) prog" where
  "ll_get_debug_register os t index =
     bindM (debug_register_offset index) (\<lambda>offset.
     (\<lambda>k. case k_peekuser os t offset k of
        (value, err) \<Rightarrow>
          (if value = -1 \<and> err \<noteq> 0 then Throw (PtraceError ''PTRACE_PEEKUSER'' err) else Ok value, k)))"

definition ll_set_debug_register :: "'k os \<Rightarrow> pid \<Rightarrow> nat \<Rightarrow> u64 \<Rightarrow> ('k, unit) prog" where
  "ll_set_debug_register os t index value =
     bindM (debug_register_offset index) (\<lambda>offset.
       ptrace_request ''PTRACE_POKEUSER'' (k_pokeuser os t offset value))"

definition ll_peek_word :: "'k os \<Rightarrow> pid \<Rightarrow> u64 \<Rightarrow> ('k, u64) prog" where
  "ll_peek_word os t address = (\<lambda>k. case k_peekdata os t address k of
     (value, err) \<Rightarrow>
       (if value = -1 \<and> err \<noteq> 0 then Throw (PtraceError ''PTRACE_PEEKDATA'' err) else Ok value, k))"

definition ll_poke_word :: "'k os \<Rightarrow> pid \<Rightarrow> u64 \<Rightarrow> u64 \<Rightarrow> ('k, unit) prog" where
  "ll_poke_word os t address value =
     ptrace_request ''PTRACE_POKEDATA'' (k_pokedata os t address value)"

section \<open>Memory access built on words\<close>

text \<open>The outer loop of \<^verbatim>\<open>read_memory\<close> from a given offset; \<open>chunk\<close> bytes of each word are kept.\<close>

function ll_read_loop :: "'k os \<Rightarrow> pid \<Rightarrow> u64 \<Rightarrow> nat \<Rightarrow> nat \<Rightarrow> u8 list \<Rightarrow> ('k, u8 list) prog" where
  "ll_read_loop os t address len offset result =
     (if offset < len
      then bindM (ll_peek_word os t (address + of_nat offset)) (\<lambda>word.
             let chunk = min 8 (len - offset)
             in ll_read_loop os t address len (offset + 8)
                  (result @ map (\<lambda>i. byte_of i word) [0..<chunk]))
      else returnM result)"
  by pat_completeness auto
termination
  by (relation "measure (\<lambda>(os, t, address, len, offset, result). len - offset)") auto

declare ll_read_loop.simps [simp del]

definition ll_read_memory :: "'k os \<Rightarrow> pid \<Rightarrow> u64 \<Rightarrow> nat \<Rightarrow> ('k, u8 list) prog" where
  "ll_read_memory os t address len = ll_read_loop os t address len 0 []"

definition ll_read_byte :: "'k os \<Rightarrow> pid \<Rightarrow> u64 \<Rightarrow> ('k, u8) prog" where
  "ll_read_byte os t address =
     bindM (ll_peek_word os t address) (\<lambda>word. returnM (byte_of 0 word))"

definition ll_write_byte :: "'k os \<Rightarrow> pid \<Rightarrow> u64 \<Rightarrow> u8 \<Rightarrow> ('k, unit) prog" where
  "ll_write_byte os t address value =
     bindM (ll_peek_word os t address) (\<lambda>current.
       ll_poke_word os t address ((current AND NOT 0xff) OR ucast value))"

section \<open>What is relied on of the kernel's memory calls\<close>

text \<open>
  \<open>mem k\<close> is the contents of one address space in kernel state \<open>k\<close>, \<open>None\<close> where nothing is
  mapped; \<open>tasks\<close> are the ids that share it. \<^verbatim>\<open>PTRACE_PEEKDATA\<close> reads the little-endian word at an
  address and fails with a non-zero \<^verbatim>\<open>errno\<close> when a byte of it is unmapped; \<^verbatim>\<open>PTRACE_POKEDATA\<close> stores a
  word, or fails and stores nothing; writing registers of a task does not write memory.
\<close>

definition word_mapped :: "(u64 \<Rightarrow> u8 option) \<Rightarrow> u64 \<Rightarrow> bool" where
  "word_mapped m a \<longleftrightarrow> (\<forall>i \<in> set [0..<8]. m (a + of_nat i) \<noteq> None)"

definition word_at :: "(u64 \<Rightarrow> u8 option) \<Rightarrow> u64 \<Rightarrow> u64" where
  "word_at m a = le_word (map (\<lambda>i. the (m (a + of_nat i))) [0..<8])"

definition store_word :: "(u64 \<Rightarrow> u8 option) \<Rightarrow> u64 \<Rightarrow> u64 \<Rightarrow> (u64 \<Rightarrow> u8 option)" where
  "store_word m a v = (\<lambda>x. if unat (x - a) < 8 then Some (byte_of (unat (x - a)) v) else m x)"

definition shared_memory_laws :: "'k os \<Rightarrow> pid set \<Rightarrow> ('k \<Rightarrow> u64 \<Rightarrow> u8 option) \<Rightarrow> bool" where
  "shared_memory_laws os tasks mem \<longleftrightarrow>
     (\<forall>t k a. t \<in> tasks \<longrightarrow>
        (if word_mapped (mem k) a then k_peekdata os t a k = (word_at (mem k) a, 0)
         else fst (k_peekdata os t a k) = -1 \<and> snd (k_peekdata os t a k) \<noteq> 0)) \<and>
     (\<forall>t k a v. t \<in> tasks \<longrightarrow>
        (case k_pokedata os t a v k of ((r, e), k') \<Rightarrow>
           mem k' = (if r = -1 then mem k else store_word (mem k) a v))) \<and>
     (\<forall>t k regs. mem (snd (k_setregs os t regs k)) = mem k) \<and>
     (\<forall>t k off v. mem (snd (k_pokeuser os t off v k)) = mem k)"

lemma word_mapped_first: "word_mapped m a \<Longrightarrow> m a \<noteq> None"
  unfolding word_mapped_def by (drule bspec [where x = 0]) auto

lemma byte_of_word_at:
  assumes "word_mapped m a" and "i < 8"
  shows "m (a + of_nat i) = Some (byte_of i (word_at m a))"
  using assms by (auto simp: word_mapped_def word_at_def)

lemma unat_lt8_offset: "unat (x - a :: u64) = i \<Longrightarrow> x = a + of_nat i"
proof -
  assume "unat (x - a) = i"
  then have "of_nat i = x - a" by (metis of_nat_unat ucast_id)
  then show "x = a + of_nat i" by simp
qed

text \<open>Storing the word with byte 0 replaced changes one address.\<close>

lemma store_word_replace_low:
  assumes "word_mapped m a"
  shows "store_word m a ((word_at m a AND NOT 0xff) OR ucast b) = m(a \<mapsto> b)"
proof
  fix x
  show "store_word m a ((word_at m a AND NOT 0xff) OR ucast b) x = (m(a \<mapsto> b)) x"
  proof (cases "unat (x - a) < 8")
    case True
    define i where "i = unat (x - a)"
    have x: "x = a + of_nat i" using i_def by (simp add: unat_lt8_offset)
    have i: "i < 8" using True i_def by simp
    have "x = a \<longleftrightarrow> i = 0" using i_def by (auto simp: unat_eq_0)
    moreover have "m x = Some (byte_of i (word_at m a))"
      using byte_of_word_at [OF assms i] x by simp
    moreover have "store_word m a ((word_at m a AND NOT 0xff) OR ucast b) x
        = Some (byte_of i ((word_at m a AND NOT 0xff) OR ucast b))"
      using True by (simp only: store_word_def i_def if_True)
    ultimately show ?thesis
      using byte_of_replace_low [OF i, of "word_at m a" b]
      by (cases "i = 0") (simp_all only: fun_upd_apply if_True if_False simp_thms)
  next
    case False
    then have "x \<noteq> a" by auto
    with False show ?thesis by (simp add: store_word_def)
  qed
qed

lemma wp_ptrace_request [wp_simps]:
  "wp (ptrace_request operation call) Q E = (\<lambda>k.
     case call k of ((v, err), k') \<Rightarrow>
        if v = -1 then E (PtraceError operation err) k' else Q () k')"
  by (simp add: wp_def ptrace_request_def fun_eq_iff split: prod.splits)

lemma wp_debug_register_offset [wp_simps]:
  "wp (debug_register_offset index) Q E = (\<lambda>k.
      if index \<ge> 8 then E (InvalidArgument ''x86 debug register index is out of range'') k
      else Q (u_debugreg_offset + index * 8) k)"
  by (simp add: debug_register_offset_def wp_simps)

lemma wp_ll_peek_word [wp_simps]:
  "wp (ll_peek_word os t a) Q E = (\<lambda>k.
      case k_peekdata os t a k of (v, err) \<Rightarrow>
        if v = -1 \<and> err \<noteq> 0 then E (PtraceError ''PTRACE_PEEKDATA'' err) k else Q v k)"
  by (auto simp: wp_def ll_peek_word_def fun_eq_iff split: prod.splits)

lemma wp_ll_get_registers [wp_simps]:
  "wp (ll_get_registers os t) Q E = (\<lambda>k.
      case k_getregs os t k of ((v, err), regs) \<Rightarrow>
        if v = -1 then E (PtraceError ''PTRACE_GETREGS'' err) k else Q regs k)"
  by (simp add: wp_def ll_get_registers_def fun_eq_iff split: prod.splits)

lemma wp_ll_get_event_message [wp_simps]:
  "wp (ll_get_event_message os t) Q E = (\<lambda>k.
      case k_geteventmsg os t k of ((v, err), message) \<Rightarrow>
        if v = -1 then E (PtraceError ''PTRACE_GETEVENTMSG'' err) k else Q message k)"
  by (simp add: wp_def ll_get_event_message_def fun_eq_iff split: prod.splits)

section \<open>Every request returns or throws\<close>

lemma terminates_ptrace_request [terminates_intros]: "terminates (ptrace_request operation call)"
  by (simp add: terminates_def ptrace_request_def split: prod.split)

lemma terminates_ll_peek_word [terminates_intros]: "terminates (ll_peek_word os t a)"
  by (simp add: terminates_def ll_peek_word_def split: prod.split)

lemma terminates_ll_queries [terminates_intros]:
  "terminates (ll_get_registers os t)" "terminates (ll_get_event_message os t)"
  by (simp_all add: terminates_def ll_get_registers_def ll_get_event_message_def split: prod.split)

lemma terminates_ll_get_debug_register [terminates_intros]: "terminates (ll_get_debug_register os t i)"
  unfolding ll_get_debug_register_def debug_register_offset_def
  by (intro terminates_intros) (simp add: terminates_def split: prod.split)

lemma terminates_ll_set_debug_register [terminates_intros]: "terminates (ll_set_debug_register os t i v)"
  unfolding ll_set_debug_register_def debug_register_offset_def by (intro terminates_intros)

lemma terminates_ll_bytes [terminates_intros]:
  "terminates (ll_read_byte os t a)" "terminates (ll_write_byte os t a b)"
  unfolding ll_read_byte_def ll_write_byte_def ll_poke_word_def by (intro terminates_intros)+

lemma terminates_ll_read_loop: "terminates (ll_read_loop os t a len offset acc)"
proof (induction os t a len offset acc rule: ll_read_loop.induct)
  case (1 os t a len offset acc)
  then show ?case
    by (subst ll_read_loop.simps) (auto simp: Let_def intro!: terminates_intros)
qed

lemma terminates_ll_misc [terminates_intros]:
  "terminates (ll_read_memory os t a len)" "terminates (ll_set_registers os t regs)"
  "terminates (ll_detach os t sig)" "terminates (ll_set_options os t opts)"
  "terminates (ll_continue_process os t sig)" "terminates (ll_single_step os t sig)"
  by (simp_all add: ll_read_memory_def ll_set_registers_def ll_detach_def ll_set_options_def
      ll_continue_process_def ll_single_step_def terminates_ll_read_loop terminates_ptrace_request)

section \<open>Byte-granular access\<close>

lemma ll_peek_word_spec:
  assumes "shared_memory_laws os tasks mem" and "t \<in> tasks"
  shows "ll_peek_word os t a k =
    (if word_mapped (mem k) a then (Ok (word_at (mem k) a), k)
     else (Throw (PtraceError ''PTRACE_PEEKDATA'' (snd (k_peekdata os t a k))), k))"
proof -
  have "if word_mapped (mem k) a then k_peekdata os t a k = (word_at (mem k) a, 0)
        else fst (k_peekdata os t a k) = -1 \<and> snd (k_peekdata os t a k) \<noteq> 0"
    using assms by (simp add: shared_memory_laws_def)
  then show ?thesis
    by (cases "k_peekdata os t a k") (simp add: ll_peek_word_def split: if_splits)
qed

lemma shared_memory_poke:
  assumes "shared_memory_laws os tasks mem" and "t \<in> tasks"
  shows "case k_pokedata os t a v k of ((r, e), k') \<Rightarrow>
           mem k' = (if r = -1 then mem k else store_word (mem k) a v)"
  using assms by (simp add: shared_memory_laws_def)

lemma ll_read_byte_spec:
  assumes "shared_memory_laws os tasks mem" and "t \<in> tasks"
  shows "wp (ll_read_byte os t a) (\<lambda>b k'. k' = k \<and> word_mapped (mem k) a \<and> mem k a = Some b)
           (\<lambda>_ k'. k' = k \<and> \<not> word_mapped (mem k) a) k"
proof -
  have "wp (ll_peek_word os t a) (\<lambda>w k'. k' = k \<and> word_mapped (mem k) a \<and> mem k a = Some (byte_of 0 w))
           (\<lambda>_ k'. k' = k \<and> \<not> word_mapped (mem k) a) k"
    using byte_of_word_at [of "mem k" a 0]
    by (simp add: wp_def ll_peek_word_spec [OF assms])
  then show ?thesis by (simp add: ll_read_byte_def wp_simps del: wp_ll_peek_word)
qed

lemma wp_ll_write_byte:
  assumes "shared_memory_laws os tasks mem" and "t \<in> tasks"
    and ok: "\<And>k'. mem k' = (mem k)(a \<mapsto> b) \<Longrightarrow> word_mapped (mem k) a \<Longrightarrow> Q () k'"
    and err: "\<And>e k'. mem k' = mem k \<Longrightarrow> E e k'"
  shows "wp (ll_write_byte os t a b) Q E k"
proof (cases "word_mapped (mem k) a")
  case True
  let ?v = "(word_at (mem k) a AND NOT 0xff) OR ucast b"
  have peek: "ll_peek_word os t a k = (Ok (word_at (mem k) a), k)"
    using True by (simp add: ll_peek_word_spec [OF assms(1,2)])
  obtain r e k' where poke: "k_pokedata os t a ?v k = ((r, e), k')"
    by (metis prod.collapse)
  then have "mem k' = (if r = -1 then mem k else store_word (mem k) a ?v)"
    using shared_memory_poke [OF assms(1,2), where a = a and v = ?v and k = k] by (simp only: prod.case)
  then have mem': "mem k' = (if r = -1 then mem k else (mem k)(a \<mapsto> b))"
    using True by (simp only: store_word_replace_low)
  have "wp (ll_poke_word os t a ?v) Q E k"
    unfolding ll_poke_word_def wp_ptrace_request poke using mem' True by (auto intro: ok err)
  then show ?thesis by (simp add: ll_write_byte_def wp_def bindM_def peek)
next
  case False
  then show ?thesis
    by (simp add: ll_write_byte_def wp_def bindM_def ll_peek_word_spec [OF assms(1,2)] err)
qed

section \<open>Range reads\<close>

text \<open>The words a range read touches: one at every multiple of eight below the length.\<close>

definition range_mapped :: "(u64 \<Rightarrow> u8 option) \<Rightarrow> u64 \<Rightarrow> nat \<Rightarrow> bool" where
  "range_mapped m a len \<longleftrightarrow> (\<forall>j. 8 * j < len \<longrightarrow> word_mapped m (a + of_nat (8 * j)))"

lemma ll_read_loop_spec:
  assumes laws: "shared_memory_laws os tasks mem" "t \<in> tasks"
    and "offset = 8 * j" and "range_mapped (mem k) a len"
  shows "ll_read_loop os t a len offset acc k =
    (Ok (acc @ map (\<lambda>i. the (mem k (a + of_nat i))) [offset..<len]), k)"
  using assms(3)
proof (induction "len - offset" arbitrary: offset acc j rule: less_induct)
  case less
  show ?case
  proof (cases "offset < len")
    case False
    then show ?thesis by (simp add: ll_read_loop.simps returnM_def)
  next
    case True
    let ?w = "word_at (mem k) (a + of_nat offset)"
    let ?chunk = "min 8 (len - offset)"
    have mapped: "word_mapped (mem k) (a + of_nat offset)"
      using True less.prems assms(4) by (simp add: range_mapped_def)
    have bytes: "map (\<lambda>i. byte_of i ?w) [0..<?chunk]
        = map (\<lambda>i. the (mem k (a + of_nat i))) [offset..<offset + ?chunk]"
    proof (rule nth_equalityI)
      fix i assume "i < length (map (\<lambda>i. byte_of i ?w) [0..<?chunk])"
      then show "map (\<lambda>i. byte_of i ?w) [0..<?chunk] ! i
          = map (\<lambda>i. the (mem k (a + of_nat i))) [offset..<offset + ?chunk] ! i"
        using byte_of_word_at [OF mapped, of i] by (simp add: add.assoc)
    qed simp
    have split: "[offset..<len] = [offset..<offset + ?chunk] @ [offset + 8..<len]"
    proof (cases "len - offset \<le> 8")
      case False
      then have "[offset..<len] = [offset..<offset + 8] @ [offset + 8..<offset + 8 + (len - offset - 8)]"
        by (subst upt_add_eq_append [symmetric]) auto
      with False show ?thesis by (simp add: min_def)
    qed (use True in \<open>auto simp: min_def\<close>)
    have IH: "ll_read_loop os t a len (offset + 8) acc' k
        = (Ok (acc' @ map (\<lambda>i. the (mem k (a + of_nat i))) [offset + 8..<len]), k)" for acc'
      by (rule less.hyps [where j = "Suc j"]) (use True less.prems in auto)
    show ?thesis
      using True
      by (subst ll_read_loop.simps)
        (simp add: bindM_def ll_peek_word_spec [OF laws] mapped Let_def IH bytes split)
  qed
qed

lemma ll_read_loop_fails:
  assumes laws: "shared_memory_laws os tasks mem" "t \<in> tasks"
    and "offset = 8 * j" and "i \<ge> j" and "8 * i < len"
    and "\<not> word_mapped (mem k) (a + of_nat (8 * i))"
  shows "\<exists>e. ll_read_loop os t a len offset acc k = (Throw e, k)"
  using assms(3,4)
proof (induction "len - offset" arbitrary: offset acc j rule: less_induct)
  case less
  have lt: "offset < len" using less.prems assms(5) by simp
  show ?case
  proof (cases "word_mapped (mem k) (a + of_nat offset)")
    case False
    then show ?thesis
      using lt by (subst ll_read_loop.simps) (simp add: bindM_def ll_peek_word_spec [OF laws])
  next
    case True
    then have "i \<ge> Suc j" using less.prems assms(6) by (cases "i = j") auto
    then have "\<exists>e. ll_read_loop os t a len (offset + 8) acc' k = (Throw e, k)" for acc'
      by (intro less.hyps [where j = "Suc j"]) (use lt less.prems in auto)
    then show ?thesis
      using lt True
      by (subst ll_read_loop.simps) (simp add: bindM_def ll_peek_word_spec [OF laws] Let_def)
  qed
qed

end
