(* ===== verification/Process.thy ===== *)
theory Process
  imports Ptrace
begin

text \<open>
  \<^verbatim>\<open>Process\<close> (\<^verbatim>\<open>src/src/process/process.hpp\<close>, \<^verbatim>\<open>process.cpp\<close>): the traced task group, its aggregate
  state and the wait-status machine. Methods are programs over the object and the kernel. The
  loops around \<^verbatim>\<open>waitpid\<close> take fuel, because a kernel may interrupt the call any number of times.
  The invariant \<open>process_wf\<close> ties the aggregate state to the task table.
\<close>

datatype process_state = PS_Running | PS_Stopped | PS_Exited | PS_Signaled | PS_Detached
datatype process_origin = Launched | Attached
datatype wait_kind = WK_Stopped | WK_Exited | WK_Signaled

record wait_event =
  we_kind :: wait_kind
  we_value :: nat
  we_tid :: pid
  we_ptrace_event :: nat
  we_new_tid :: "pid option"

record process =
  p_pid :: pid
  p_current_tid :: pid
  p_state :: process_state
  p_origin :: process_origin
  p_task_states :: "(pid, process_state) smap"
  p_exit_code :: "nat option"
  p_termination_signal :: "nat option"

record 'k pworld =
  proc :: process
  pkern :: 'k

abbreviation (input) SIGTRAP :: nat where "SIGTRAP \<equiv> 5"
abbreviation (input) SIGKILL :: nat where "SIGKILL \<equiv> 9"
abbreviation (input) SIGSTOP :: nat where "SIGSTOP \<equiv> 19"
abbreviation (input) PTRACE_EVENT_FORK :: nat where "PTRACE_EVENT_FORK \<equiv> 1"
abbreviation (input) PTRACE_EVENT_VFORK :: nat where "PTRACE_EVENT_VFORK \<equiv> 2"
abbreviation (input) PTRACE_EVENT_CLONE :: nat where "PTRACE_EVENT_CLONE \<equiv> 3"
abbreviation (input) PTRACE_EVENT_EXEC :: nat where "PTRACE_EVENT_EXEC \<equiv> 4"
abbreviation (input) PTRACE_EVENT_VFORK_DONE :: nat where "PTRACE_EVENT_VFORK_DONE \<equiv> 5"
abbreviation (input) PTRACE_O_TRACEFORK :: u64 where "PTRACE_O_TRACEFORK \<equiv> 2"
abbreviation (input) PTRACE_O_TRACEVFORK :: u64 where "PTRACE_O_TRACEVFORK \<equiv> 4"
abbreviation (input) PTRACE_O_TRACECLONE :: u64 where "PTRACE_O_TRACECLONE \<equiv> 8"
abbreviation (input) PTRACE_O_TRACEEXEC :: u64 where "PTRACE_O_TRACEEXEC \<equiv> 0x10"
abbreviation (input) PTRACE_O_TRACEVFORKDONE :: u64 where "PTRACE_O_TRACEVFORKDONE \<equiv> 0x20"
abbreviation (input) PTRACE_O_EXITKILL :: u64 where "PTRACE_O_EXITKILL \<equiv> 0x100000"
abbreviation (input) PID_MAX :: nat where "PID_MAX \<equiv> 2147483647"

text \<open>The \<^verbatim>\<open>sys/wait.h\<close> macros on a non-negative status.\<close>

definition WIFEXITED :: "nat \<Rightarrow> bool" where "WIFEXITED status \<longleftrightarrow> status mod 128 = 0"
definition WEXITSTATUS :: "nat \<Rightarrow> nat" where "WEXITSTATUS status = status div 256 mod 256"
definition WTERMSIG :: "nat \<Rightarrow> nat" where "WTERMSIG status = status mod 128"
definition WIFSIGNALED :: "nat \<Rightarrow> bool" where
  "WIFSIGNALED status \<longleftrightarrow> status mod 128 \<noteq> 0 \<and> status mod 128 \<noteq> 127"
definition WIFSTOPPED :: "nat \<Rightarrow> bool" where "WIFSTOPPED status \<longleftrightarrow> status mod 256 = 127"
definition WSTOPSIG :: "nat \<Rightarrow> nat" where "WSTOPSIG status = WEXITSTATUS status"
definition status_event :: "nat \<Rightarrow> nat" where "status_event status = status div 65536"

unbundle bit_operations_syntax

section \<open>Object operations\<close>

definition on_pkern :: "('k, 'a) prog \<Rightarrow> ('k pworld, 'a) prog" where
  "on_pkern = zoomM pkern (\<lambda>k w. w\<lparr>pkern := k\<rparr>)"

definition modify_proc :: "(process \<Rightarrow> process) \<Rightarrow> ('k pworld, unit) prog" where
  "modify_proc f = modifyM (\<lambda>w. w\<lparr>proc := f (proc w)\<rparr>)"

text \<open>The private constructor.\<close>

definition new_process :: "pid \<Rightarrow> process_origin \<Rightarrow> process" where
  "new_process p origin = \<lparr>p_pid = p, p_current_tid = p, p_state = PS_Running, p_origin = origin,
     p_task_states = smap_emplace p PS_Running smap_empty, p_exit_code = None,
     p_termination_signal = None\<rparr>"

definition tids :: "process \<Rightarrow> pid list" where
  "tids p = smap_keys (p_task_states p)"

definition task_state :: "process \<Rightarrow> pid \<Rightarrow> process_state option" where
  "task_state p tid = smap_find (p_task_states p) tid"

definition update_aggregate_state :: "process \<Rightarrow> process" where
  "update_aggregate_state p =
    (if p_task_states p = [] then p
     else if (\<exists>(t, s) \<in> set (p_task_states p). s = PS_Stopped) then p\<lparr>p_state := PS_Stopped\<rparr>
     else p\<lparr>p_state := PS_Running\<rparr>)"

definition select_current_task :: "process \<Rightarrow> process" where
  "select_current_task p =
    (case find (\<lambda>(t, s). s = PS_Stopped) (p_task_states p) of
       Some (t, s) \<Rightarrow> p\<lparr>p_current_tid := t\<rparr>
     | None \<Rightarrow> (case p_task_states p of
         [] \<Rightarrow> p\<lparr>p_current_tid := -1\<rparr>
       | (t, s) # _ \<Rightarrow> p\<lparr>p_current_tid := t\<rparr>))"

definition mark_running :: "pid \<Rightarrow> process \<Rightarrow> process" where
  "mark_running tid p =
    (case smap_find (p_task_states p) tid of
       None \<Rightarrow> p
     | Some _ \<Rightarrow> update_aggregate_state
         (p\<lparr>p_task_states := smap_assign tid PS_Running (p_task_states p)\<rparr>))"

definition become_stopped :: "pid \<Rightarrow> process \<Rightarrow> process" where
  "become_stopped tid p = p\<lparr>p_task_states := smap_emplace tid PS_Stopped smap_empty, p_pid := tid,
     p_current_tid := tid, p_state := PS_Stopped, p_exit_code := None, p_termination_signal := None\<rparr>"

definition collapse_after_exec :: "pid \<Rightarrow> ('k pworld, unit) prog" where
  "collapse_after_exec tid =
    (if tid \<le> 0 then throwM (InvalidArgument ''exec collapse requires a positive tid'')
     else modify_proc (become_stopped tid))"

definition adopt_stopped_process :: "pid \<Rightarrow> ('k pworld, unit) prog" where
  "adopt_stopped_process p =
    (if p \<le> 0 then throwM (InvalidArgument ''process adoption requires a positive pid'')
     else modify_proc (become_stopped p))"

text \<open>The static factory for a retained process returns a fresh object.\<close>

definition adopt_stopped :: "pid \<Rightarrow> process_origin \<Rightarrow> ('s, process) prog" where
  "adopt_stopped p origin =
    (if p \<le> 0 then throwM (InvalidArgument ''stopped process adoption requires a positive pid'')
     else returnM (become_stopped p (new_process p origin)))"

definition select_tid :: "pid \<Rightarrow> ('k pworld, unit) prog" where
  "select_tid tid = bindM getM (\<lambda>w. let p = proc w in
    if p_state p \<noteq> PS_Stopped then throwM (LogicError ''thread selection requires a stopped tracee'')
    else if (\<exists>(t, s) \<in> set (p_task_states p). s \<noteq> PS_Stopped)
      then throwM (LogicError ''thread selection requires every traced thread to be stopped'')
    else case smap_find (p_task_states p) tid of
      None \<Rightarrow> throwM (InvalidArgument ''cannot select an untracked thread'')
    | Some s \<Rightarrow> if s \<noteq> PS_Stopped then throwM (LogicError ''cannot select a running thread'')
        else modify_proc (\<lambda>p. p\<lparr>p_current_tid := tid\<rparr>))"

section \<open>Waiting\<close>

text \<open>\<^verbatim>\<open>do { waitpid } while (result == -1 && errno == EINTR)\<close>.\<close>

fun waitpid_retry :: "'k os \<Rightarrow> nat \<Rightarrow> pid \<Rightarrow> ('k, pid \<times> nat \<times> nat) prog" where
  "waitpid_retry os 0 t = divergeM"
| "waitpid_retry os (Suc n) t = (\<lambda>k. case k_waitpid os t k of ((result, status, err), k') \<Rightarrow>
     if result = -1 \<and> err = EINTR then waitpid_retry os n t k'
     else (Ok (result, status, err), k'))"

text \<open>The part of \<^verbatim>\<open>wait_for\<close> after a task has left: drop it, or end the process.\<close>

definition task_gone :: "pid \<Rightarrow> process_state \<Rightarrow> process \<Rightarrow> process" where
  "task_gone t terminal p =
    (let p' = p\<lparr>p_task_states := smap_erase t (p_task_states p)\<rparr> in
     if p_task_states p' = [] then p'\<lparr>p_current_tid := -1, p_state := terminal\<rparr>
     else select_current_task (update_aggregate_state p'))"

definition wait_exited :: "pid \<Rightarrow> nat \<Rightarrow> ('k pworld, wait_event) prog" where
  "wait_exited t status = (let code = WEXITSTATUS status in
    thenM (modify_proc (\<lambda>p. if t = p_pid p then p\<lparr>p_exit_code := Some code\<rparr> else p))
    (thenM (modify_proc (task_gone t PS_Exited))
    (returnM \<lparr>we_kind = WK_Exited, we_value = code, we_tid = t, we_ptrace_event = 0,
       we_new_tid = None\<rparr>)))"

definition wait_signaled :: "pid \<Rightarrow> nat \<Rightarrow> ('k pworld, wait_event) prog" where
  "wait_signaled t status = (let signal = WTERMSIG status in
    thenM (modify_proc (\<lambda>p. if t = p_pid p then p\<lparr>p_termination_signal := Some signal\<rparr> else p))
    (thenM (modify_proc (task_gone t PS_Signaled))
    (returnM \<lparr>we_kind = WK_Signaled, we_value = signal, we_tid = t, we_ptrace_event = 0,
       we_new_tid = None\<rparr>)))"

definition valid_pid_message :: "u64 \<Rightarrow> bool" where
  "valid_pid_message message \<longleftrightarrow> message \<noteq> 0 \<and> unat message \<le> PID_MAX"

definition wait_stopped :: "'k os \<Rightarrow> pid \<Rightarrow> nat \<Rightarrow> ('k pworld, wait_event) prog" where
  "wait_stopped os t status =
    thenM (modify_proc (\<lambda>p. p\<lparr>p_task_states := smap_assign t PS_Stopped (p_task_states p),
                              p_state := PS_Stopped\<rparr>))
    (let ev = status_event status;
         result = (\<lambda>new_tid. \<lparr>we_kind = WK_Stopped, we_value = WSTOPSIG status, we_tid = t,
                                we_ptrace_event = ev, we_new_tid = new_tid\<rparr>) in
     if ev = PTRACE_EVENT_CLONE then
       bindM (on_pkern (ll_get_event_message os t)) (\<lambda>message.
       if \<not> valid_pid_message message
       then throwM (RuntimeError ''PTRACE_EVENT_CLONE returned an invalid task id'')
       else thenM (modify_proc (\<lambda>p. p\<lparr>p_task_states :=
                smap_emplace (uint message) PS_Running (p_task_states p)\<rparr>))
            (returnM (result (Some (uint message)))))
     else returnM (result None))"

text \<open>What \<^verbatim>\<open>wait_for\<close> does with a task id and a status that \<^verbatim>\<open>waitpid\<close> returned.\<close>

definition record_wait :: "'k os \<Rightarrow> pid \<Rightarrow> nat \<Rightarrow> ('k pworld, wait_event) prog" where
  "record_wait os t status =
    bindM getM (\<lambda>w.
    thenM (whenM (smap_find (p_task_states (proc w)) t = None \<and> WIFSTOPPED status \<and>
                  k_task_exists os (p_pid (proc w)) t (pkern w))
       (modify_proc (\<lambda>p. p\<lparr>p_task_states := smap_emplace t PS_Running (p_task_states p)\<rparr>)))
    (bindM getM (\<lambda>w.
     if smap_find (p_task_states (proc w)) t = None
     then throwM (RuntimeError ''waitpid returned an event for an untracked task'')
     else thenM (modify_proc (\<lambda>p. p\<lparr>p_current_tid := t\<rparr>))
      (if WIFEXITED status then wait_exited t status
       else if WIFSIGNALED status then wait_signaled t status
       else if WIFSTOPPED status then wait_stopped os t status
       else throwM (RuntimeError ''waitpid returned an unsupported process state'')))))"

definition wait_for :: "'k os \<Rightarrow> nat \<Rightarrow> pid \<Rightarrow> ('k pworld, wait_event) prog" where
  "wait_for os n requested =
    bindM (on_pkern (waitpid_retry os n requested)) (\<lambda>(t, status, err).
    if t = -1 then throwM (SystemError ''waitpid'' err) else record_wait os t status)"

definition wait_any :: "'k os \<Rightarrow> nat \<Rightarrow> ('k pworld, wait_event) prog" where
  "wait_any os n = wait_for os n (-1)"

definition wait_current :: "'k os \<Rightarrow> nat \<Rightarrow> ('k pworld, wait_event) prog" where
  "wait_current os n = bindM getM (\<lambda>w.
    if p_current_tid (proc w) \<le> 0
    then throwM (LogicError ''cannot wait without an active tracee task'')
    else wait_for os n (p_current_tid (proc w)))"

section \<open>Detaching and cleanup\<close>

definition erase_task :: "pid \<Rightarrow> ('k pworld, unit) prog" where
  "erase_task t = modify_proc (\<lambda>p. p\<lparr>p_task_states := smap_erase t (p_task_states p)\<rparr>)"

definition is_esrch :: "exn \<Rightarrow> bool" where
  "is_esrch e = (case e of PtraceError operation err \<Rightarrow> err = ESRCH | _ \<Rightarrow> False)"

text \<open>The loop of \<^verbatim>\<open>detach\<close>: every task is released; the first error other than \<^verbatim>\<open>ESRCH\<close> is kept.\<close>

fun detach_tasks :: "'k os \<Rightarrow> pid \<Rightarrow> int \<Rightarrow> pid list \<Rightarrow> exn option \<Rightarrow> ('k pworld, exn option) prog" where
  "detach_tasks os signal_tid signal [] first_error = returnM first_error"
| "detach_tasks os signal_tid signal (t # ts) first_error =
    bindM (catchM
      (thenM (on_pkern (ll_detach os t (if t = signal_tid then signal else 0)))
        (thenM (erase_task t) (returnM first_error)))
      (\<lambda>e. if is_esrch e then thenM (erase_task t) (returnM first_error)
           else returnM (case first_error of None \<Rightarrow> Some e | Some f \<Rightarrow> Some f)))
    (\<lambda>error. detach_tasks os signal_tid signal ts error)"

definition detach_order :: "process \<Rightarrow> pid list" where
  "detach_order p = filter (\<lambda>t. t \<noteq> p_current_tid p) (tids p) @
     (if smap_count (p_task_states p) (p_current_tid p) \<noteq> 0 then [p_current_tid p] else [])"

definition finish_detach :: "process \<Rightarrow> process" where
  "finish_detach p =
    (if p_task_states p = [] then p\<lparr>p_state := PS_Detached, p_current_tid := -1, p_pid := -1\<rparr>
     else select_current_task (update_aggregate_state p))"

definition detach :: "'k os \<Rightarrow> int \<Rightarrow> ('k pworld, unit) prog" where
  "detach os signal = bindM getM (\<lambda>w. let p = proc w in
    if p_origin p \<noteq> Attached
    then throwM (LogicError ''detach is only valid for an attached process'')
    else if p_state p \<noteq> PS_Stopped then throwM (LogicError ''detach requires a stopped process'')
    else if (\<exists>(t, s) \<in> set (p_task_states p). s \<noteq> PS_Stopped)
    then throwM (LogicError ''detach requires every traced thread to be stopped'')
    else bindM (detach_tasks os (p_current_tid p) signal (detach_order p) None) (\<lambda>first_error.
      thenM (modify_proc finish_detach)
      (case first_error of None \<Rightarrow> returnM () | Some e \<Rightarrow> throwM e)))"

text \<open>The fallback loop of \<^verbatim>\<open>cleanup\<close>: release every stopped task that lets itself be released.\<close>

fun release_stopped :: "'k os \<Rightarrow> (pid \<times> process_state) list \<Rightarrow> ('k pworld, unit) prog" where
  "release_stopped os [] = returnM ()"
| "release_stopped os ((t, s) # ts) =
    thenM (whenM (s = PS_Stopped)
      (catchM (thenM (on_pkern (ll_detach os t 0)) (erase_task t))
        (\<lambda>e. whenM (is_esrch e) (erase_task t))))
    (release_stopped os ts)"

fun reap_children :: "'k os \<Rightarrow> nat \<Rightarrow> ('k pworld, unit) prog" where
  "reap_children os 0 = divergeM"
| "reap_children os (Suc n) =
    bindM (on_pkern (waitpid_retry os (Suc n) (-1))) (\<lambda>(t, status, err).
      if t = -1 then returnM ()
      else thenM (erase_task t) (reap_children os n))"

definition forget_tasks :: "process_state \<Rightarrow> process \<Rightarrow> process" where
  "forget_tasks final p =
     p\<lparr>p_task_states := smap_empty, p_current_tid := -1, p_pid := -1, p_state := final\<rparr>"

definition cleanup :: "'k os \<Rightarrow> nat \<Rightarrow> ('k pworld, unit) prog" where
  "cleanup os n = bindM getM (\<lambda>w. let p = proc w in
    if p_pid p \<le> 0 \<or> p_state p = PS_Exited \<or> p_state p = PS_Signaled \<or> p_state p = PS_Detached
    then returnM ()
    else if p_origin p = Attached then
      (if p_state p = PS_Stopped
       then catchM (detach os 0)
         (\<lambda>_. bindM getM (\<lambda>w. thenM (release_stopped os (p_task_states (proc w)))
                (modify_proc (forget_tasks PS_Detached))))
       else modify_proc (forget_tasks PS_Detached))
    else thenM (on_pkern (modifyM (k_kill os (p_pid p) (int SIGKILL))))
      (thenM (reap_children os n) (modify_proc (forget_tasks PS_Exited))))"

text \<open>The destructor of a \<^verbatim>\<open>Process\<close> object outside the world's active process.\<close>

definition destroy_process :: "'k os \<Rightarrow> nat \<Rightarrow> process \<Rightarrow> ('k, unit) prog" where
  "destroy_process os n p = (\<lambda>k. case cleanup os n \<lparr>proc = p, pkern = k\<rparr> of (r, w) \<Rightarrow> (r, pkern w))"

section \<open>Launch and attach\<close>

text \<open>
  Parent side of \<^verbatim>\<open>launch\<close>. The branch after \<^verbatim>\<open>fork\<close> that calls \<^verbatim>\<open>traceme\<close> and \<^verbatim>\<open>execv\<close> runs in the child
  and never returns here. The local object's destructor runs \<^verbatim>\<open>cleanup\<close> when the function throws.
\<close>

definition launch :: "'k os \<Rightarrow> nat \<Rightarrow> ('k pworld, unit) prog" where
  "launch os n =
    bindM (on_pkern (\<lambda>k. case k_fork os k of (r, k') \<Rightarrow> (Ok r, k'))) (\<lambda>(child, err).
    if child = -1 then throwM (SystemError ''fork'' err) else
    thenM (modify_proc (\<lambda>_. new_process child Launched))
    (catchM
      (bindM (wait_any os n) (\<lambda>initial.
        if we_kind initial \<noteq> WK_Stopped \<or> we_value initial \<noteq> SIGTRAP \<or> we_tid initial \<noteq> child
        then throwM (RuntimeError ''tracee did not stop with SIGTRAP after exec'')
        else on_pkern (ll_set_options os child (PTRACE_O_EXITKILL OR PTRACE_O_TRACECLONE))))
      (\<lambda>e. thenM (cleanup os n) (throwM e))))"

text \<open>\<^verbatim>\<open>std::stoll(name, &consumed, 10)\<close>: \<open>None\<close> where it throws.\<close>

definition digit_value :: "char \<Rightarrow> nat option" where
  "digit_value c = (let v = of_char c :: nat in if 48 \<le> v \<and> v \<le> 57 then Some (v - 48) else None)"

fun decimal_prefix :: "string \<Rightarrow> nat list" where
  "decimal_prefix [] = []"
| "decimal_prefix (c # cs) = (case digit_value c of None \<Rightarrow> [] | Some d \<Rightarrow> d # decimal_prefix cs)"

definition stoll :: "string \<Rightarrow> (int \<times> nat) option" where
  "stoll name =
    (let spaces = length (takeWhile is_space name);
         rest = drop spaces name;
         signed = (case rest of c # _ \<Rightarrow> c = CHR ''-'' \<or> c = CHR ''+'' | [] \<Rightarrow> False);
         negative = (case rest of c # _ \<Rightarrow> c = CHR ''-'' | [] \<Rightarrow> False);
         digits = decimal_prefix (if signed then tl rest else rest);
         magnitude = foldl (\<lambda>acc d. acc * 10 + int d) 0 digits;
         v = (if negative then - magnitude else magnitude)
     in if digits = [] \<or> v < - (2 ^ 63) \<or> v \<ge> 2 ^ 63 then None
        else Some (v, spaces + (if signed then 1 else 0) + length digits))"

definition parse_tid :: "string \<Rightarrow> pid option" where
  "parse_tid name = (case stoll name of
     None \<Rightarrow> None
   | Some (v, consumed) \<Rightarrow>
       if consumed \<noteq> length name \<or> v \<le> 0 \<or> v > int PID_MAX then None else Some v)"

definition thread_ids :: "'k os \<Rightarrow> pid \<Rightarrow> ('k, pid list) prog" where
  "thread_ids os leader = (\<lambda>k. case k_task_dir os leader k of
     None \<Rightarrow> (Throw (RuntimeError ''cannot enumerate tracee threads''), k)
   | Some names \<Rightarrow> (Ok (remdups_adj (sort (List.map_filter parse_tid names))), k))"

abbreviation (input) kMaxAttachDiscoveryPasses :: nat where "kMaxAttachDiscoveryPasses \<equiv> 64"
abbreviation (input) kMaxAttachTasks :: nat where "kMaxAttachTasks \<equiv> 4096"

text \<open>The loop body of \<^verbatim>\<open>attach\<close> for one observed task.\<close>

definition attach_task :: "'k os \<Rightarrow> nat \<Rightarrow> pid \<Rightarrow> ('k pworld, unit) prog" where
  "attach_task os n tid = bindM getM (\<lambda>w.
    if smap_count (p_task_states (proc w)) tid \<noteq> 0 then returnM ()
    else if length (p_task_states (proc w)) \<ge> kMaxAttachTasks
    then throwM (RuntimeError ''attach thread count exceeds supported bound'')
    else bindM (catchM (thenM (on_pkern (ll_attach os tid)) (returnM True))
                 (\<lambda>e. if is_esrch e then returnM False else throwM e)) (\<lambda>attached.
      whenM attached
        (thenM (modify_proc (\<lambda>p. p\<lparr>p_task_states := smap_emplace tid PS_Running (p_task_states p)\<rparr>))
        (bindM (wait_for os n tid) (\<lambda>initial.
          if we_kind initial \<noteq> WK_Stopped \<or> we_value initial \<noteq> SIGSTOP \<or> we_tid initial \<noteq> tid
          then throwM (RuntimeError ''attached tracee thread did not stop with SIGSTOP'')
          else on_pkern (ll_set_options os tid PTRACE_O_TRACECLONE))))))"

text \<open>The end of a pass: \<open>False\<close> is \<^verbatim>\<open>continue\<close>, \<open>True\<close> is \<^verbatim>\<open>return process\<close>.\<close>

definition attach_settle :: "pid \<Rightarrow> pid list \<Rightarrow> ('k pworld, bool) prog" where
  "attach_settle p after = bindM getM (\<lambda>w.
     if after = [] \<or> (\<exists>t \<in> set after. smap_count (p_task_states (proc w)) t = 0)
     then returnM False
     else if smap_count (p_task_states (proc w)) p = 0
     then throwM (RuntimeError ''thread-group leader exited during attach'')
     else thenM (modify_proc (\<lambda>q. update_aggregate_state (q\<lparr>p_current_tid := p\<rparr>)))
      (bindM getM (\<lambda>w.
       if p_state (proc w) \<noteq> PS_Stopped
       then throwM (RuntimeError ''attach did not stop every traced thread'')
       else returnM True)))"

fun attach_passes :: "'k os \<Rightarrow> nat \<Rightarrow> pid \<Rightarrow> nat \<Rightarrow> ('k pworld, unit) prog" where
  "attach_passes os n p 0 = throwM (RuntimeError ''attach thread discovery did not converge'')"
| "attach_passes os n p (Suc passes) =
    bindM (on_pkern (thread_ids os p)) (\<lambda>observed.
    if observed = [] then throwM (RuntimeError ''attach target has no live threads'') else
    thenM (forM observed (attach_task os n))
    (bindM (on_pkern (thread_ids os p)) (\<lambda>after.
     bindM (attach_settle p after) (\<lambda>complete.
     if complete then returnM () else attach_passes os n p passes))))"

definition attach :: "'k os \<Rightarrow> nat \<Rightarrow> pid \<Rightarrow> ('k pworld, unit) prog" where
  "attach os n p =
    (if p \<le> 0 then throwM (InvalidArgument ''attach requires a positive pid'')
     else thenM (modify_proc (\<lambda>_. (new_process p Attached)
            \<lparr>p_task_states := smap_empty, p_current_tid := -1, p_state := PS_Running\<rparr>))
       (catchM (attach_passes os n p kMaxAttachDiscoveryPasses)
         (\<lambda>e. thenM (cleanup os n) (throwM e))))"


section \<open>The process invariant\<close>

text \<open>
  Tasks are running or stopped; the aggregate state is \<open>PS_Stopped\<close> exactly when some task is
  stopped; the current task, if there is one, is tracked.
\<close>

definition aggregate :: "(pid, process_state) smap \<Rightarrow> process_state" where
  "aggregate m = (if (\<exists>(t, s) \<in> set m. s = PS_Stopped) then PS_Stopped else PS_Running)"

definition live_tasks :: "(pid, process_state) smap \<Rightarrow> bool" where
  "live_tasks m \<longleftrightarrow> smap_wf m \<and> (\<forall>(t, s) \<in> set m. s = PS_Running \<or> s = PS_Stopped)"

definition process_wf :: "process \<Rightarrow> bool" where
  "process_wf p \<longleftrightarrow>
     live_tasks (p_task_states p) \<and>
     (if p_task_states p = [] then p_state p \<noteq> PS_Stopped
      else p_state p = aggregate (p_task_states p)) \<and>
     (p_current_tid p \<noteq> -1 \<longrightarrow> task_state p (p_current_tid p) \<noteq> None)"

abbreviation pworld_wf :: "'k pworld \<Rightarrow> bool" where
  "pworld_wf w \<equiv> process_wf (proc w)"

lemma process_wf_stopped_iff:
  assumes "process_wf p"
  shows "p_state p = PS_Stopped \<longleftrightarrow> (\<exists>t. task_state p t = Some PS_Stopped)"
proof -
  have "smap_wf (p_task_states p)" using assms by (simp add: process_wf_def live_tasks_def)
  then show ?thesis
    using assms by (auto simp: process_wf_def aggregate_def task_state_def smap_find_mem smap_find_def
        split: if_splits)
qed

lemma live_tasks_find:
  "live_tasks m \<longleftrightarrow> smap_wf m \<and> (\<forall>t s. smap_find m t = Some s \<longrightarrow> s = PS_Running \<or> s = PS_Stopped)"
  by (force simp: live_tasks_def simp flip: smap_find_mem)

lemma live_tasks_wf: "live_tasks m \<Longrightarrow> smap_wf m"
  by (simp add: live_tasks_def)

lemma live_tasks_assign:
  "live_tasks m \<Longrightarrow> s = PS_Running \<or> s = PS_Stopped \<Longrightarrow> live_tasks (smap_assign t s m)"
  by (auto simp: live_tasks_find smap_find_simps smap_wf_simps)

lemma live_tasks_emplace:
  "live_tasks m \<Longrightarrow> s = PS_Running \<or> s = PS_Stopped \<Longrightarrow> live_tasks (smap_emplace t s m)"
  by (simp add: smap_emplace_def live_tasks_assign)

lemma live_tasks_erase: "live_tasks m \<Longrightarrow> live_tasks (smap_erase t m)"
  by (auto simp: live_tasks_find smap_find_simps smap_wf_simps)

lemma live_tasks_empty: "live_tasks smap_empty"
  by (simp add: live_tasks_def smap_empty_def)

lemmas live_tasks_intros =
  live_tasks_assign live_tasks_emplace live_tasks_erase live_tasks_empty

lemma aggregate_find:
  "smap_wf m \<Longrightarrow> aggregate m = PS_Stopped \<longleftrightarrow> (\<exists>t. smap_find m t = Some PS_Stopped)"
  by (auto simp: aggregate_def simp flip: smap_find_mem)

lemma aggregate_Nil [simp]: "aggregate [] = PS_Running"
  by (simp add: aggregate_def)

lemma aggregate_cases: "aggregate m = PS_Stopped \<or> aggregate m = PS_Running"
  by (simp add: aggregate_def)

lemma update_aggregate_state_eq:
  "update_aggregate_state p =
     (if p_task_states p = [] then p else p\<lparr>p_state := aggregate (p_task_states p)\<rparr>)"
  by (auto simp: update_aggregate_state_def aggregate_def)

lemma smap_assign_not_Nil [simp]: "smap_assign k v m \<noteq> []"
  by (cases m) (auto split: if_splits)

lemma smap_find_not_Nil: "smap_find m k = Some v \<Longrightarrow> m \<noteq> []"
  by auto

lemma smap_emplace_not_Nil [simp]: "smap_emplace k v m \<noteq> []"
  by (auto simp: smap_emplace_def)

lemma aggregate_emplace_running:
  assumes "smap_wf m"
  shows "aggregate (smap_emplace t PS_Running m) = aggregate m"
proof -
  have "aggregate (smap_emplace t PS_Running m) = PS_Stopped \<longleftrightarrow> aggregate m = PS_Stopped"
    using assms by (auto simp: aggregate_find smap_find_emplace smap_wf_simps)
  then show ?thesis using aggregate_cases by metis
qed

lemma select_current_task_fields [simp]:
  "p_task_states (select_current_task p) = p_task_states p"
  "p_state (select_current_task p) = p_state p"
  "p_pid (select_current_task p) = p_pid p"
  "p_origin (select_current_task p) = p_origin p"
  by (auto simp: select_current_task_def split: option.splits list.splits)

lemma select_current_task_member:
  "p_current_tid (select_current_task p) = -1 \<or>
   p_current_tid (select_current_task p) \<in> fst ` set (p_task_states p)"
proof (cases "find (\<lambda>(t, s). s = PS_Stopped) (p_task_states p)")
  case None
  then show ?thesis by (auto simp: select_current_task_def split: list.splits)
next
  case (Some ts)
  then have "fst ts \<in> fst ` set (p_task_states p)" by (auto dest: find_SomeD)
  with Some show ?thesis by (cases ts) (simp add: select_current_task_def)
qed

lemma select_current_task_tracked:
  "p_current_tid (select_current_task p) \<noteq> -1 \<Longrightarrow>
    task_state (select_current_task p) (p_current_tid (select_current_task p)) \<noteq> None"
  using select_current_task_member [of p] by (simp add: task_state_def smap_find_None)

text \<open>The selected task is a stopped one whenever there is one.\<close>

lemma select_current_task_stopped:
  assumes "smap_wf (p_task_states p)" and "aggregate (p_task_states p) = PS_Stopped"
  shows "task_state (select_current_task p) (p_current_tid (select_current_task p)) = Some PS_Stopped"
proof -
  obtain t s where f: "find (\<lambda>(t, s). s = PS_Stopped) (p_task_states p) = Some (t, s)"
    using assms(2) by (cases "find (\<lambda>(t, s). s = PS_Stopped) (p_task_states p)")
      (auto simp: aggregate_def find_None_iff split: if_splits)
  then have "s = PS_Stopped \<and> (t, s) \<in> set (p_task_states p)"
    by (auto dest: find_SomeD)
  with f assms(1) show ?thesis
    by (simp add: select_current_task_def task_state_def smap_find_mem)
qed

section \<open>Every operation keeps it\<close>

lemma wp_modify_proc [wp_simps]:
  "wp (modify_proc f) Q E = (\<lambda>w. Q () (w\<lparr>proc := f (proc w)\<rparr>))"
  by (simp add: modify_proc_def wp_simps)

lemma wp_on_pkern [wp_simps]:
  "wp (on_pkern m) Q E =
     (\<lambda>w. wp m (\<lambda>a k. Q a (w\<lparr>pkern := k\<rparr>)) (\<lambda>e k. E e (w\<lparr>pkern := k\<rparr>)) (pkern w))"
  by (simp add: on_pkern_def wp_simps)

lemma keeps_on_pkern [keeps_intros]: "keeps pworld_wf (on_pkern m)"
  by (rule keepsI) (auto simp: wp_simps intro: wp_mono [OF wp_triv])

lemma keeps_modify_proc: "(\<And>p. process_wf p \<Longrightarrow> process_wf (f p)) \<Longrightarrow> keeps pworld_wf (modify_proc f)"
  by (simp add: keeps_def wp_simps)

lemma aggregate_singleton [simp]: "aggregate (smap_emplace t s smap_empty) = (if s = PS_Stopped then PS_Stopped else PS_Running)"
  by (simp add: aggregate_def smap_emplace_def smap_empty_def)

lemma become_stopped_wf: "process_wf (become_stopped p q)"
  by (auto simp: become_stopped_def process_wf_def live_tasks_intros task_state_def smap_find_emplace
      smap_wf_simps aggregate_find smap_empty_find)

lemma new_process_wf: "process_wf (new_process p origin)"
  by (auto simp: new_process_def process_wf_def live_tasks_intros task_state_def smap_find_emplace
      smap_wf_simps smap_empty_find)

lemma mark_running_wf: "process_wf p \<Longrightarrow> process_wf (mark_running t p)"
  by (auto simp: mark_running_def update_aggregate_state_eq process_wf_def live_tasks_intros
      task_state_def smap_find_simps live_tasks_wf split: option.splits if_splits)

lemma reselect_wf:
  assumes "live_tasks (p_task_states p)" and "p_task_states p \<noteq> []"
  shows "process_wf (select_current_task (update_aggregate_state p))"
  using assms select_current_task_tracked [of "update_aggregate_state p"]
  by (simp add: process_wf_def update_aggregate_state_eq live_tasks_wf)

lemma task_gone_wf:
  assumes "process_wf p" and "terminal \<noteq> PS_Stopped"
  shows "process_wf (task_gone t terminal p)"
proof -
  have live: "live_tasks (smap_erase t (p_task_states p))"
    using assms(1) by (simp add: process_wf_def live_tasks_intros)
  then show ?thesis
    using assms(2) reselect_wf [of "p\<lparr>p_task_states := smap_erase t (p_task_states p)\<rparr>"]
    by (auto simp: task_gone_def Let_def process_wf_def live_tasks_intros)
qed

lemma track_task_wf:
  assumes "process_wf p" and "p_task_states p = [] \<Longrightarrow> p_state p = PS_Running"
  shows "process_wf (p\<lparr>p_task_states := smap_emplace t PS_Running (p_task_states p)\<rparr>)"
  using assms
  by (auto simp: process_wf_def live_tasks_intros task_state_def smap_find_emplace live_tasks_wf
      aggregate_emplace_running split: if_splits)

text \<open>
  A stop reported by \<^verbatim>\<open>waitpid\<close> is recorded for a task already in the table, or for one the kernel
  lists under the process.
\<close>

lemma stop_task_wf:
  assumes "live_tasks (p_task_states p)"
  shows "process_wf (p\<lparr>p_current_tid := t, p_task_states := smap_assign t PS_Stopped (p_task_states p),
                       p_state := PS_Stopped\<rparr>)"
proof -
  have "aggregate (smap_assign t PS_Stopped (p_task_states p)) = PS_Stopped"
    using assms by (auto simp: aggregate_find live_tasks_wf smap_find_simps smap_wf_simps)
  with assms show ?thesis
    by (auto simp: process_wf_def live_tasks_intros task_state_def smap_find_simps live_tasks_wf)
qed

lemma exit_fields_wf [simp]:
  "process_wf (p\<lparr>p_exit_code := c\<rparr>) = process_wf p"
  "process_wf (p\<lparr>p_termination_signal := c\<rparr>) = process_wf p"
  by (simp_all add: process_wf_def task_state_def)

lemma select_tracked_wf:
  "process_wf p \<Longrightarrow> task_state p t \<noteq> None \<Longrightarrow> process_wf (p\<lparr>p_current_tid := t\<rparr>)"
  by (simp add: process_wf_def task_state_def)

lemma wp_wait_stopped_wf:
  assumes "live_tasks (p_task_states p)"
  shows "wp (wait_stopped os t status) (\<lambda>_. pworld_wf) (\<lambda>_. pworld_wf)
           (w\<lparr>proc := p\<lparr>p_current_tid := t\<rparr>\<rparr>)"
proof -
  let ?p = "p\<lparr>p_current_tid := t, p_task_states := smap_assign t PS_Stopped (p_task_states p),
              p_state := PS_Stopped\<rparr>"
  have wf: "process_wf ?p" by (rule stop_task_wf [OF assms])
  have wf2: "process_wf (?p\<lparr>p_task_states := smap_emplace m PS_Running (p_task_states ?p)\<rparr>)" for m
    by (rule track_task_wf [OF wf]) simp
  show ?thesis
    unfolding wait_stopped_def wp_thenM wp_modify_proc Let_def wp_if wp_bindM wp_on_pkern
      wp_ll_get_event_message wp_returnM wp_throwM
    using wf wf2 by (simp split: prod.split)
qed

lemma stopped_not_ended: "WIFSTOPPED status \<Longrightarrow> \<not> WIFEXITED status \<and> \<not> WIFSIGNALED status"
proof -
  assume "WIFSTOPPED status"
  then have "status mod 256 = 127" by (simp add: WIFSTOPPED_def)
  then have "status mod 128 = 127" using mod_mod_cancel [of 128 256 status] by simp
  then show ?thesis by (simp add: WIFEXITED_def WIFSIGNALED_def)
qed

lemma wp_wait_ended_wf:
  assumes "process_wf p" and "task_state p t \<noteq> None"
  shows "wp (wait_exited t status) (\<lambda>_. pworld_wf) (\<lambda>_. pworld_wf) (w\<lparr>proc := p\<lparr>p_current_tid := t\<rparr>\<rparr>)"
    and "wp (wait_signaled t status) (\<lambda>_. pworld_wf) (\<lambda>_. pworld_wf) (w\<lparr>proc := p\<lparr>p_current_tid := t\<rparr>\<rparr>)"
  using select_tracked_wf [OF assms]
  by (auto simp: wait_exited_def wait_signaled_def Let_def wp_simps intro!: task_gone_wf)

lemma keeps_record_wait [keeps_intros]: "keeps pworld_wf (record_wait os t status)"
proof (rule keepsI)
  fix w :: "'a pworld"
  assume wf: "pworld_wf w"
  then have live: "live_tasks (p_task_states (proc w))" by (simp add: process_wf_def)
  note tracked = live_tasks_emplace [OF live, of PS_Running t]
  have found: "smap_find (smap_emplace t PS_Running (p_task_states (proc w))) t \<noteq> None"
    using live by (auto simp: smap_find_emplace live_tasks_wf)
  show "wp (record_wait os t status) (\<lambda>_. pworld_wf) (\<lambda>_. pworld_wf) w"
    using wf live tracked found stopped_not_ended [of status]
    by (auto simp: record_wait_def wp_simps task_state_def
        intro!: wp_wait_stopped_wf wp_wait_ended_wf select_tracked_wf)
qed

lemma keeps_wait_for [keeps_intros]: "keeps pworld_wf (wait_for os n requested)"
  unfolding wait_for_def by (intro keeps_intros)

lemma keeps_wait_any [keeps_intros]: "keeps pworld_wf (wait_any os n)"
  unfolding wait_any_def by (intro keeps_intros)

lemma keeps_wait_current [keeps_intros]: "keeps pworld_wf (wait_current os n)"
  unfolding wait_current_def by (intro keeps_intros)

lemma keeps_select_tid [keeps_intros]: "keeps pworld_wf (select_tid t)"
  by (rule keepsI)
    (auto simp: select_tid_def Let_def wp_simps task_state_def intro!: select_tracked_wf)

lemma keeps_collapse_after_exec [keeps_intros]: "keeps pworld_wf (collapse_after_exec t)"
  by (rule keepsI) (auto simp: collapse_after_exec_def wp_simps intro: become_stopped_wf)

lemma keeps_adopt_stopped_process [keeps_intros]: "keeps pworld_wf (adopt_stopped_process t)"
  by (rule keepsI) (auto simp: adopt_stopped_process_def wp_simps intro: become_stopped_wf)

subsection \<open>Detach and cleanup\<close>

abbreviation pworld_live :: "'k pworld \<Rightarrow> bool" where
  "pworld_live w \<equiv> live_tasks (p_task_states (proc w))"

lemma wp_erase_task [wp_simps]:
  "wp (erase_task t) Q E =
     (\<lambda>w. Q () (w\<lparr>proc := (proc w)\<lparr>p_task_states := smap_erase t (p_task_states (proc w))\<rparr>\<rparr>))"
  by (simp add: erase_task_def wp_simps)

text \<open>The release loop swallows every exception.\<close>

lemma wp_detach_tasks:
  "pworld_live w \<Longrightarrow> wp (detach_tasks os st sig ts fe) (\<lambda>_. pworld_live) (\<lambda>_ _. False) w"
proof (induction ts arbitrary: fe w)
  case Nil
  then show ?case by (simp add: wp_simps)
next
  case (Cons t ts)
  show ?case
    using Cons.prems
    by (auto simp: wp_simps ll_detach_def live_tasks_erase intro!: Cons.IH split: prod.splits)
qed

lemma finish_detach_wf: "live_tasks (p_task_states p) \<Longrightarrow> process_wf (finish_detach p)"
  using reselect_wf [of p] by (auto simp: finish_detach_def process_wf_def)

lemma keeps_detach [keeps_intros]: "keeps pworld_wf (detach os signal)"
proof (rule keepsI)
  fix w :: "'a pworld"
  assume wf: "pworld_wf w"
  have "wp (detach_tasks os st signal ts None) (\<lambda>fe w. process_wf (finish_detach (proc w))) (\<lambda>_ _. False) w" for st ts
    using wf by (intro wp_mono [OF wp_detach_tasks] finish_detach_wf) (simp_all add: process_wf_def)
  then have "wp (detach_tasks os st signal ts None)
      (\<lambda>fe. wp (thenM (modify_proc finish_detach) (case fe of None \<Rightarrow> returnM () | Some e \<Rightarrow> throwM e))
        (\<lambda>_. pworld_wf) (\<lambda>_. pworld_wf)) (\<lambda>_. pworld_wf) w" for st ts
    by (rule wp_mono) (auto simp: wp_simps)
  then show "wp (detach os signal) (\<lambda>_. pworld_wf) (\<lambda>_. pworld_wf) w"
    using wf by (simp add: detach_def Let_def wp_bindM wp_getM wp_if wp_throwM)
qed

lemma wp_release_stopped:
  "wp (release_stopped os ts) (\<lambda>_ _. True) (\<lambda>_ _. False) w"
  by (induction ts arbitrary: w)
    (auto simp: wp_simps ll_detach_def split: prod.splits)

lemma wp_waitpid_retry_no_throw: "wp (waitpid_retry os n t) (\<lambda>_ _. True) (\<lambda>_ _. False) k"
proof (induction n arbitrary: k)
  case 0
  then show ?case by (simp add: wp_simps)
next
  case (Suc n)
  obtain result status err k' where r: "k_waitpid os t k = ((result, status, err), k')"
    by (metis prod.collapse)
  show ?case
    using Suc [of k'] r by (cases "result = -1 \<and> err = EINTR") (simp_all add: wp_def)
qed

lemma wp_reap_children: "wp (reap_children os n) (\<lambda>_ _. True) (\<lambda>_ _. False) w"
proof (induction n arbitrary: w)
  case 0
  then show ?case by (simp add: wp_simps)
next
  case (Suc n)
  show ?case
    by (simp add: wp_simps del: waitpid_retry.simps)
      (rule wp_mono [OF wp_waitpid_retry_no_throw], auto simp: Suc)
qed

lemma forget_tasks_wf: "final \<noteq> PS_Stopped \<Longrightarrow> process_wf (forget_tasks final p)"
  by (simp add: forget_tasks_def process_wf_def smap_empty_def live_tasks_def)

text \<open>\<^verbatim>\<open>cleanup\<close> is \<^verbatim>\<open>noexcept\<close>: it never throws.\<close>

lemma wp_cleanup:
  assumes "pworld_wf w"
  shows "wp (cleanup os n) (\<lambda>_. pworld_wf) (\<lambda>_ _. False) w"
proof -
  have "wp (detach os 0) (\<lambda>_. pworld_wf) (\<lambda>_. wp (bindM getM (\<lambda>w. thenM (release_stopped os (p_task_states (proc w)))
                (modify_proc (forget_tasks PS_Detached)))) (\<lambda>_. pworld_wf) (\<lambda>_ _. False)) w"
    using keepsD [OF keeps_detach assms]
    by (rule wp_mono)
      (auto simp: wp_simps forget_tasks_wf intro!: wp_mono [OF wp_release_stopped])
  then show ?thesis
    using assms
    by (auto simp: cleanup_def Let_def wp_simps forget_tasks_wf intro!: wp_mono [OF wp_reap_children])
qed

subsection \<open>Launch and attach\<close>

text \<open>Between the passes of \<^verbatim>\<open>attach\<close> a process without tasks is still marked running.\<close>

definition attaching :: "process \<Rightarrow> bool" where
  "attaching p \<longleftrightarrow> process_wf p \<and> (p_task_states p = [] \<longrightarrow> p_state p = PS_Running)"

lemma keeps_attaching_on_pkern: "keeps (\<lambda>w. attaching (proc w)) (on_pkern m)"
  by (rule keepsI) (auto simp: wp_simps intro: wp_mono [OF wp_triv])

text \<open>A stop event leaves its task in the table.\<close>

lemma wp_record_wait_stopped:
  "wp (record_wait os t status)
     (\<lambda>r w. we_kind r = WK_Stopped \<longrightarrow> p_task_states (proc w) \<noteq> []) (\<lambda>_ _. True) w"
  by (auto simp: record_wait_def wait_exited_def wait_signaled_def wait_stopped_def Let_def wp_simps
      split: prod.splits)

lemma wp_wait_for_stopped:
  "wp (wait_for os n t) (\<lambda>r w. we_kind r = WK_Stopped \<longrightarrow> p_task_states (proc w) \<noteq> []) (\<lambda>_ _. True) w"
  by (simp add: wait_for_def wp_simps)
    (rule wp_mono [OF wp_triv], auto intro: wp_record_wait_stopped)

lemma wp_attach_task:
  assumes "attaching (proc w)"
  shows "wp (attach_task os n tid) (\<lambda>_ w. attaching (proc w)) (\<lambda>_. pworld_wf) w"
proof -
  let ?w = "\<lambda>k. w\<lparr>pkern := k, proc := (proc w)
    \<lparr>p_task_states := smap_emplace tid PS_Running (p_task_states (proc w))\<rparr>\<rparr>"
  have wf: "pworld_wf (?w k)" for k
    using assms track_task_wf [of "proc w" tid] by (simp add: attaching_def)
  have "wp (wait_for os n tid) (\<lambda>r w. (we_kind r = WK_Stopped \<longrightarrow> p_task_states (proc w) \<noteq> []) \<and> pworld_wf w)
      (\<lambda>_ w. True \<and> pworld_wf w) (?w k)" for k
    by (rule wp_keeps [OF keeps_wait_for wf wp_wait_for_stopped])
  then have "wp (wait_for os n tid) (\<lambda>r. wp (if we_kind r \<noteq> WK_Stopped \<or> we_value r \<noteq> SIGSTOP \<or> we_tid r \<noteq> tid
          then throwM (RuntimeError ''attached tracee thread did not stop with SIGSTOP'')
          else on_pkern (ll_set_options os tid PTRACE_O_TRACECLONE))
        (\<lambda>_ w. attaching (proc w)) (\<lambda>_. pworld_wf)) (\<lambda>_. pworld_wf) (?w k)" for k
    by (rule wp_mono)
      (auto simp: wp_simps attaching_def ll_set_options_def split: prod.splits)
  then show ?thesis
    using assms
    by (auto simp: attach_task_def wp_bindM wp_getM wp_if wp_returnM wp_throwM wp_catchM wp_thenM
        wp_on_pkern ll_attach_def wp_ptrace_request wp_whenM wp_modify_proc attaching_def
        split: prod.splits)
qed

lemma wp_thread_ids [wp_simps]:
  "wp (thread_ids os leader) Q E = (\<lambda>k. case k_task_dir os leader k of
     None \<Rightarrow> E (RuntimeError ''cannot enumerate tracee threads'') k
   | Some names \<Rightarrow> Q (remdups_adj (sort (List.map_filter parse_tid names))) k)"
  by (simp add: wp_def thread_ids_def fun_eq_iff split: option.splits)

lemma wp_bind_thread_ids:
  assumes "\<And>e. E e w" and "\<And>ids. wp (f ids) Q E w"
  shows "wp (bindM (on_pkern (thread_ids os p)) f) Q E w"
  using assms by (auto simp: wp_simps split: option.splits)

lemma wp_attach_settle:
  assumes "attaching (proc w)"
  shows "wp (attach_settle p after)
     (\<lambda>complete w. if complete
        then pworld_wf w \<and> p_state (proc w) = PS_Stopped \<and> p_current_tid (proc w) = p \<and>
             (\<forall>t \<in> insert p (set after). task_state (proc w) t \<noteq> None)
        else attaching (proc w)) (\<lambda>_. pworld_wf) w"
  using assms
  by (auto simp: attach_settle_def wp_simps attaching_def process_wf_def update_aggregate_state_eq
      task_state_def smap_count_def split: if_splits)

lemma wp_attach_passes:
  "attaching (proc w) \<Longrightarrow> wp (attach_passes os n p passes)
     (\<lambda>_ w. pworld_wf w \<and> p_state (proc w) = PS_Stopped \<and> p_current_tid (proc w) = p) (\<lambda>_. pworld_wf) w"
proof (induction passes arbitrary: w)
  case 0
  then show ?case by (simp add: wp_simps attaching_def)
next
  case (Suc passes)
  let ?Q = "\<lambda>_ w. pworld_wf w \<and> p_state (proc w) = PS_Stopped \<and> p_current_tid (proc w) = p"
  have settle: "wp (bindM (attach_settle p after) (\<lambda>complete.
      if complete then returnM () else attach_passes os n p passes)) ?Q (\<lambda>_. pworld_wf) w"
    if "attaching (proc w)" for after and w :: "'a pworld"
    unfolding wp_bindM
    by (rule wp_mono [OF wp_attach_settle [OF that]]) (auto simp: wp_simps intro: Suc.IH)
  have "wp (forM observed (attach_task os n)) (\<lambda>_ w. attaching (proc w)) (\<lambda>_. pworld_wf) w"
    if "attaching (proc w)" for observed and w :: "'a pworld"
    using that by (intro wp_forM_inv wp_attach_task)
  then have loop: "wp (forM observed (attach_task os n)) (\<lambda>_. wp (bindM (on_pkern (thread_ids os p)) (\<lambda>after.
      bindM (attach_settle p after) (\<lambda>complete. if complete then returnM () else attach_passes os n p passes)))
      ?Q (\<lambda>_. pworld_wf)) (\<lambda>_. pworld_wf) w"
    if "attaching (proc w)" for observed and w :: "'a pworld"
    by (rule wp_mono) (use that in \<open>auto simp: attaching_def intro!: settle wp_bind_thread_ids\<close>)
  show ?case
    unfolding attach_passes.simps(2)
  proof (rule wp_bind_thread_ids)
    show "pworld_wf w" using Suc.prems by (simp add: attaching_def)
    then show "wp (if observed = [] then throwM (RuntimeError ''attach target has no live threads'')
        else thenM (forM observed (attach_task os n)) (bindM (on_pkern (thread_ids os p)) (\<lambda>after.
          bindM (attach_settle p after) (\<lambda>complete. if complete then returnM () else attach_passes os n p passes))))
        ?Q (\<lambda>_. pworld_wf) w" for observed
      using loop [OF Suc.prems, of observed] by (simp add: wp_if wp_throwM wp_thenM)
  qed
qed

text \<open>A process that could be attached is stopped at its leader; otherwise it has been cleaned up.\<close>

lemma wp_attach:
  assumes "pworld_wf w"
  shows "wp (attach os n p)
     (\<lambda>_ w. pworld_wf w \<and> p_state (proc w) = PS_Stopped \<and> p_current_tid (proc w) = p) (\<lambda>_. pworld_wf) w"
proof -
  let ?p0 = "(new_process p Attached)\<lparr>p_task_states := smap_empty, p_current_tid := -1, p_state := PS_Running\<rparr>"
  have "attaching (proc (w\<lparr>proc := ?p0\<rparr>))"
    by (simp add: attaching_def process_wf_def live_tasks_empty smap_empty_def [symmetric])
  from wp_attach_passes [OF this]
  have "wp (attach_passes os n p kMaxAttachDiscoveryPasses)
     (\<lambda>_ w. pworld_wf w \<and> p_state (proc w) = PS_Stopped \<and> p_current_tid (proc w) = p)
     (\<lambda>e. wp (thenM (cleanup os n) (throwM e)) (\<lambda>_ w. pworld_wf w \<and> p_state (proc w) = PS_Stopped \<and> p_current_tid (proc w) = p) (\<lambda>_. pworld_wf))
     (w\<lparr>proc := ?p0\<rparr>)"
    by (rule wp_mono) (auto simp: wp_simps intro!: wp_mono [OF wp_cleanup])
  then show ?thesis
    using assms by (simp add: attach_def wp_if wp_throwM wp_thenM wp_catchM wp_modify_proc
        del: attach_passes.simps)
qed

lemma keeps_attach [keeps_intros]: "keeps pworld_wf (attach os n p)"
  by (rule keepsI) (auto intro: wp_mono [OF wp_attach])

lemma keeps_cleanup [keeps_intros]: "keeps pworld_wf (cleanup os n)"
  by (rule keepsI) (auto intro: wp_mono [OF wp_cleanup])

lemma keeps_launch [keeps_intros]: "keeps pworld_wf (launch os n)"
  unfolding launch_def
  by (intro keeps_intros keeps_modify_proc new_process_wf)

section \<open>Interrupted waits\<close>

text \<open>If the kernel interrupts \<open>m\<close> calls and answers the next one, any fuel above \<open>m\<close> suffices.\<close>

definition wait_state :: "'k os \<Rightarrow> pid \<Rightarrow> 'k \<Rightarrow> 'k" where
  "wait_state os t k = snd (k_waitpid os t k)"

definition interrupted :: "'k os \<Rightarrow> pid \<Rightarrow> 'k \<Rightarrow> bool" where
  "interrupted os t k = (case fst (k_waitpid os t k) of (result, status, err) \<Rightarrow> result = -1 \<and> err = EINTR)"

text \<open>C30. The retry loop around \<^verbatim>\<open>waitpid\<close> ends with the first answer that is not an interruption: if the
  kernel interrupts \<open>m\<close> calls and answers the next one, any fuel above \<open>m\<close> returns that answer, and
  the kernel has been asked exactly \<open>m + 1\<close> times.\<close>

theorem waitpid_retry_answers:
  assumes "\<And>i. i < m \<Longrightarrow> interrupted os t ((wait_state os t ^^ i) k)"
    and "\<not> interrupted os t ((wait_state os t ^^ m) k)" and "m < n"
  shows "waitpid_retry os n t k =
    (Ok (fst (k_waitpid os t ((wait_state os t ^^ m) k))), (wait_state os t ^^ Suc m) k)"
  using assms
proof (induction m arbitrary: n k)
  case 0
  then show ?case
    by (cases n) (auto simp: interrupted_def wait_state_def split: prod.splits)
next
  case (Suc m)
  then obtain n' where n: "n = Suc n'" "m < n'" by (cases n) auto
  have "interrupted os t k" using Suc.prems(1) [of 0] by simp
  then have "waitpid_retry os n t k = waitpid_retry os n' t (wait_state os t k)"
    by (auto simp: n interrupted_def wait_state_def split: prod.splits)
  also have "\<dots> = (Ok (fst (k_waitpid os t ((wait_state os t ^^ m) (wait_state os t k)))),
      (wait_state os t ^^ Suc m) (wait_state os t k))"
    using Suc.prems(1)[of "Suc i" for i] Suc.prems(2) n(2)
    by (intro Suc.IH) (auto simp: funpow_swap1)
  finally show ?case by (simp add: funpow_swap1)
qed

end
