(* ===== verification/Registers.thy ===== *)
theory Registers
  imports Ptrace
begin

text \<open>
  Named access to the general-purpose registers: \<^verbatim>\<open>src/src/registers/registers.cpp\<close>. The macro
  expansions of the source are the \<open>if\<close> chains below, in its order.
\<close>

definition register_value :: "user_regs \<Rightarrow> string \<Rightarrow> u64 option" where
  "register_value r name =
    (if name = ''rax'' then Some (rax r) else if name = ''rbx'' then Some (rbx r)
     else if name = ''rcx'' then Some (rcx r) else if name = ''rdx'' then Some (rdx r)
     else if name = ''rsi'' then Some (rsi r) else if name = ''rdi'' then Some (rdi r)
     else if name = ''rbp'' then Some (rbp r) else if name = ''rsp'' then Some (rsp r)
     else if name = ''r8'' then Some (r8 r) else if name = ''r9'' then Some (r9 r)
     else if name = ''r10'' then Some (r10 r) else if name = ''r11'' then Some (r11 r)
     else if name = ''r12'' then Some (r12 r) else if name = ''r13'' then Some (r13 r)
     else if name = ''r14'' then Some (r14 r) else if name = ''r15'' then Some (r15 r)
     else if name = ''rip'' then Some (rip r) else if name = ''eflags'' then Some (eflags r)
     else None)"

text \<open>The C++ function updates its argument and returns whether the name was accepted.\<close>

definition assign_general_purpose_register ::
  "user_regs \<Rightarrow> string \<Rightarrow> u64 \<Rightarrow> bool \<times> user_regs" where
  "assign_general_purpose_register r name v =
    (if name = ''rax'' then (True, r\<lparr>rax := v\<rparr>) else if name = ''rbx'' then (True, r\<lparr>rbx := v\<rparr>)
     else if name = ''rcx'' then (True, r\<lparr>rcx := v\<rparr>) else if name = ''rdx'' then (True, r\<lparr>rdx := v\<rparr>)
     else if name = ''rsi'' then (True, r\<lparr>rsi := v\<rparr>) else if name = ''rdi'' then (True, r\<lparr>rdi := v\<rparr>)
     else if name = ''rbp'' then (True, r\<lparr>rbp := v\<rparr>) else if name = ''rsp'' then (True, r\<lparr>rsp := v\<rparr>)
     else if name = ''r8'' then (True, r\<lparr>r8 := v\<rparr>) else if name = ''r9'' then (True, r\<lparr>r9 := v\<rparr>)
     else if name = ''r10'' then (True, r\<lparr>r10 := v\<rparr>) else if name = ''r11'' then (True, r\<lparr>r11 := v\<rparr>)
     else if name = ''r12'' then (True, r\<lparr>r12 := v\<rparr>) else if name = ''r13'' then (True, r\<lparr>r13 := v\<rparr>)
     else if name = ''r14'' then (True, r\<lparr>r14 := v\<rparr>) else if name = ''r15'' then (True, r\<lparr>r15 := v\<rparr>)
     else (False, r))"

definition general_purpose_registers :: "user_regs \<Rightarrow> (string \<times> u64) list" where
  "general_purpose_registers r =
    [(''rax'', rax r), (''rbx'', rbx r), (''rcx'', rcx r), (''rdx'', rdx r),
     (''rsi'', rsi r), (''rdi'', rdi r), (''rbp'', rbp r), (''rsp'', rsp r),
     (''r8'', r8 r), (''r9'', r9 r), (''r10'', r10 r), (''r11'', r11 r),
     (''r12'', r12 r), (''r13'', r13 r), (''r14'', r14 r), (''r15'', r15 r),
     (''rip'', rip r), (''eflags'', eflags r)]"

lemma register_value_listed: "register_value r name = map_of (general_purpose_registers r) name"
  by (simp add: register_value_def general_purpose_registers_def)

definition writable_register :: "string \<Rightarrow> bool" where
  "writable_register name \<longleftrightarrow> name \<in> set (map fst (take 16 (general_purpose_registers undefined)))"

lemma writable_register_iff:
  "writable_register name \<longleftrightarrow> name \<in> {''rax'', ''rbx'', ''rcx'', ''rdx'', ''rsi'', ''rdi'', ''rbp'',
     ''rsp'', ''r8'', ''r9'', ''r10'', ''r11'', ''r12'', ''r13'', ''r14'', ''r15''}"
  by (simp add: writable_register_def general_purpose_registers_def)

lemma assign_register_accepts: "fst (assign_general_purpose_register r name v) = writable_register name"
  by (simp add: assign_general_purpose_register_def writable_register_iff)

lemma assign_register_rejects:
  "\<not> writable_register name \<Longrightarrow> assign_general_purpose_register r name v = (False, r)"
  by (simp add: assign_general_purpose_register_def writable_register_iff)

text \<open>The sixteen accepted names, one equation each.\<close>

text \<open>Writing a named register and reading registers back: the written register has the new value and
  every other named register, the instruction pointer and the flags included, keeps its own.\<close>

theorem register_value_assign:
  assumes "writable_register name"
  shows "register_value (snd (assign_general_purpose_register r name v)) n =
    (if n = name then Some v else register_value r n)"
  using assms unfolding writable_register_iff insert_iff empty_iff
  by (elim disjE)
    (simp_all add: assign_general_purpose_register_def register_value_def)

theorem register_value_assign_witness:
  "\<forall>r. register_value (snd (assign_general_purpose_register r ''rbx'' 7)) ''rbx'' = Some 7"
  using register_value_assign [of "''rbx''" _ 7 "''rbx''"] by (simp add: writable_register_iff)

end
