(* ===== verification/Debugger.thy ===== *)
theory Debugger
  imports Process Registers
begin

text \<open>
  \<^verbatim>\<open>Debugger\<close> (\<^verbatim>\<open>src/src/debugger/debugger.hpp\<close>, \<^verbatim>\<open>debugger.cpp\<close>, \<^verbatim>\<open>memory_mutation.cpp\<close>): the breakpoint
  table and its displaced-step state machine, the hardware watchpoint, stop classification, the
  fork policies and the registry of retained processes. This theory holds the definitions; the
  theories that import it prove what they keep.

  The fields a fork can park in the registry are the record \<open>domain\<close>; the debugger extends it, so
  that \<open>swap_active_process\<close> can exchange them field by field, as the source does.
\<close>

unbundle bit_operations_syntax

datatype stop_reason =
    SR_InitialExec | SR_Attached | SR_Exec | SR_ThreadCreated | SR_ThreadExited | SR_ThreadSignaled
  | SR_ProcessExited | SR_ProcessSignaled | SR_Breakpoint | SR_Watchpoint | SR_SingleStep | SR_Signal
  | SR_Trap | SR_Exited | SR_Signaled

datatype signal_policy = Suppress | Forward
datatype process_event_kind = PE_None | PE_Fork | PE_Vfork
datatype fork_follow_policy = Follow_Parent | Follow_Child | Follow_Both

record stop_info =
  si_reason :: stop_reason
  si_value :: nat
  si_breakpoint_address :: "u64 option"
  si_watchpoint_id :: "nat option"
  si_watchpoint_address :: "u64 option"
  si_tid :: pid
  si_new_tid :: "pid option"
  si_former_tid :: "pid option"
  si_process_event :: process_event_kind
  si_parent_pid :: "pid option"
  si_child_pid :: "pid option"
  si_retains_child :: bool
  si_sequence :: u64

record breakpoint =
  bp_id :: nat
  bp_address :: u64
  bp_original_byte :: u8
  bp_installed :: bool

record watchpoint =
  w_id :: nat
  w_address :: u64
  w_length :: nat

record pending_breakpoint_step =
  ps_address :: u64
  ps_tid :: pid

record debug_register_snapshot =
  dr_tid :: pid
  dr0 :: u64
  dr6 :: u64
  dr7 :: u64

record process_info =
  pi_pid :: pid
  pi_state :: process_state
  pi_active :: bool

record thread_info =
  ti_tid :: pid
  ti_state :: process_state
  ti_active :: bool

record domain =
  d_process :: process
  d_stop_info :: stop_info
  d_executable_path :: string
  d_pending_thread_starts :: "pid set"
  d_pending_signals :: "(pid, nat) smap"
  d_breakpoints :: "(u64, breakpoint) smap"
  d_breakpoint_ids :: "(nat, u64) smap"
  d_register_snapshots :: "(pid \<times> u64, user_regs) smap"
  d_pending_step :: "pending_breakpoint_step option"
  d_watchpoint :: "watchpoint option"
  d_watchpoint_snapshot :: "debug_register_snapshot option"

record debugger = domain +
  fork_policy :: fork_follow_policy
  next_breakpoint_id :: nat
  next_watchpoint_id :: nat
  retained_processes :: "(pid, domain) smap"

record 'k world =
  dbg :: debugger
  stop_sequence :: u64
  kern :: 'k

abbreviation (input) kInt3 :: u8 where "kInt3 \<equiv> 0xcc"
abbreviation (input) kDr6Breakpoint0 :: u64 where "kDr6Breakpoint0 \<equiv> 1"
abbreviation (input) kDr7Slot0EnableMask :: u64 where "kDr7Slot0EnableMask \<equiv> 0x3"
abbreviation (input) kDr7Slot0ControlMask :: u64 where "kDr7Slot0ControlMask \<equiv> 0xf0000"
abbreviation (input) kMaxProcessDomains :: nat where "kMaxProcessDomains \<equiv> 3"

section \<open>Access to the parts of the world\<close>

definition on_kern :: "('k, 'a) prog \<Rightarrow> ('k world, 'a) prog" where
  "on_kern = zoomM kern (\<lambda>k w. w\<lparr>kern := k\<rparr>)"

definition on_process :: "('k pworld, 'a) prog \<Rightarrow> ('k world, 'a) prog" where
  "on_process = zoomM (\<lambda>w. \<lparr>proc = d_process (dbg w), pkern = kern w\<rparr>)
     (\<lambda>p w. w\<lparr>dbg := (dbg w)\<lparr>d_process := proc p\<rparr>, kern := pkern p\<rparr>)"

definition dbgM :: "('k world, debugger) prog" where
  "dbgM = bindM getM (\<lambda>w. returnM (dbg w))"

definition modify_dbg :: "(debugger \<Rightarrow> debugger) \<Rightarrow> ('k world, unit) prog" where
  "modify_dbg f = modifyM (\<lambda>w. w\<lparr>dbg := f (dbg w)\<rparr>)"

section \<open>Helpers of the anonymous namespace\<close>

definition watchpoint_length_encoding :: "nat \<Rightarrow> ('s, u64) prog" where
  "watchpoint_length_encoding len =
    (if len = 1 then returnM 0 else if len = 2 then returnM 1
     else if len = 4 then returnM 3 else if len = 8 then returnM 2
     else throwM (InvalidArgument ''write watchpoint length must be 1, 2, 4, or 8 bytes''))"

text \<open>The default member initializer of \<^verbatim>\<open>StopInfo::sequence\<close> draws the next number.\<close>

definition next_stop_sequence :: "('k world, u64) prog" where
  "next_stop_sequence = (\<lambda>w. (Ok (stop_sequence w + 1), w\<lparr>stop_sequence := stop_sequence w + 1\<rparr>))"

text \<open>A \<^verbatim>\<open>StopInfo\<close> with the defaults of its declaration.\<close>

definition blank_stop :: "stop_reason \<Rightarrow> nat \<Rightarrow> pid \<Rightarrow> u64 \<Rightarrow> stop_info" where
  "blank_stop reason value tid seqno = \<lparr>si_reason = reason, si_value = value,
     si_breakpoint_address = None, si_watchpoint_id = None, si_watchpoint_address = None,
     si_tid = tid, si_new_tid = None, si_former_tid = None, si_process_event = PE_None,
     si_parent_pid = None, si_child_pid = None, si_retains_child = False, si_sequence = seqno\<rparr>"

definition make_stop :: "stop_reason \<Rightarrow> nat \<Rightarrow> pid \<Rightarrow> ('k world, stop_info) prog" where
  "make_stop reason value tid = bindM next_stop_sequence (\<lambda>seqno.
     returnM (blank_stop reason value tid seqno))"

definition process_executable :: "'k os \<Rightarrow> pid \<Rightarrow> ('k, string) prog" where
  "process_executable os p = (\<lambda>k. case k_read_exe os p k of
     None \<Rightarrow> (Throw (SystemError ''read_symlink'' 0), k) | Some path \<Rightarrow> (Ok path, k))"

definition tracing_options :: "process_origin \<Rightarrow> u64" where
  "tracing_options origin =
    (let options = PTRACE_O_TRACECLONE OR PTRACE_O_TRACEEXEC OR PTRACE_O_TRACEFORK OR
                   PTRACE_O_TRACEVFORK OR PTRACE_O_TRACEVFORKDONE
     in if origin = Launched then options OR PTRACE_O_EXITKILL else options)"

definition transient_vfork_child_options :: "process_origin \<Rightarrow> u64" where
  "transient_vfork_child_options origin =
    (if origin = Launched then PTRACE_O_TRACEEXEC OR PTRACE_O_EXITKILL else PTRACE_O_TRACEEXEC)"

definition wait_for_unfollowed_child_stop :: "'k os \<Rightarrow> nat \<Rightarrow> pid \<Rightarrow> ('k, unit) prog" where
  "wait_for_unfollowed_child_stop os n child =
    bindM (waitpid_retry os n child) (\<lambda>(result, status, err).
    if result \<noteq> child
    then throwM (RuntimeError ''failed to consume process child's initial ptrace stop'')
    else if \<not> WIFSTOPPED status
    then throwM (RuntimeError ''process child did not enter an initial ptrace stop'')
    else returnM ())"

definition wait_for_transient_child :: "'k os \<Rightarrow> nat \<Rightarrow> pid \<Rightarrow> ('k, nat) prog" where
  "wait_for_transient_child os n child =
    bindM (waitpid_retry os n child) (\<lambda>(result, status, err).
    if result \<noteq> child then throwM (RuntimeError ''failed to wait for transient vfork child'')
    else returnM status)"

definition terminal_process_state :: "process_state \<Rightarrow> bool" where
  "terminal_process_state s \<longleftrightarrow> s = PS_Exited \<or> s = PS_Signaled \<or> s = PS_Detached"

text \<open>\<^verbatim>\<open>dr7 & ~(kDr7Slot0EnableMask | kDr7Slot0ControlMask)\<close>.\<close>

definition disable_slot0 :: "u64 \<Rightarrow> u64" where
  "disable_slot0 v = v AND NOT (kDr7Slot0EnableMask OR kDr7Slot0ControlMask)"

text \<open>The register sequence that puts a snapshot back into a task: disable slot 0 first, then
  address, status and finally the saved control word.\<close>

definition put_debug_registers :: "'k os \<Rightarrow> pid \<Rightarrow> u64 \<Rightarrow> u64 \<Rightarrow> u64 \<Rightarrow> u64 \<Rightarrow> ('k, unit) prog" where
  "put_debug_registers os t disabled a0 a6 a7 =
    thenM (ll_set_debug_register os t 7 disabled)
    (thenM (ll_set_debug_register os t 0 a0)
    (thenM (ll_set_debug_register os t 6 a6)
    (ll_set_debug_register os t 7 a7)))"

definition restore_snapshot :: "'k os \<Rightarrow> pid \<Rightarrow> debug_register_snapshot \<Rightarrow> ('k, unit) prog" where
  "restore_snapshot os t snapshot =
    bindM (ll_get_debug_register os t 7) (\<lambda>current_dr7.
    put_debug_registers os t (disable_slot0 current_dr7) (dr0 snapshot) (dr6 snapshot) (dr7 snapshot))"

text \<open>Copying an armed watchpoint from the forking task to its child.\<close>

definition copy_watchpoint_registers :: "'k os \<Rightarrow> pid \<Rightarrow> pid \<Rightarrow> ('k, unit) prog" where
  "copy_watchpoint_registers os t child =
    bindM (ll_get_debug_register os t 0) (\<lambda>armed_dr0.
    bindM (ll_get_debug_register os t 6) (\<lambda>armed_dr6.
    bindM (ll_get_debug_register os t 7) (\<lambda>armed_dr7.
    bindM (ll_get_debug_register os child 7) (\<lambda>child_dr7.
    put_debug_registers os child (disable_slot0 child_dr7) armed_dr0
      (armed_dr6 AND NOT kDr6Breakpoint0) armed_dr7))))"

text \<open>\<^verbatim>\<open>try { detach(child, SIGKILL); } catch (...) { kill(child, SIGKILL); }\<close>.\<close>

definition abandon_child :: "'k os \<Rightarrow> pid \<Rightarrow> ('k world, unit) prog" where
  "abandon_child os child =
    on_kern (catchM (ll_detach os child (int SIGKILL)) (\<lambda>_. modifyM (k_kill os child (int SIGKILL))))"

definition refuse_child :: "'k os \<Rightarrow> pid \<Rightarrow> exn \<Rightarrow> ('k world, 'a) prog" where
  "refuse_child os child e = thenM (abandon_child os child) (throwM e)"

section \<open>Construction and queries\<close>

definition init_debugger :: "process \<Rightarrow> stop_info \<Rightarrow> string \<Rightarrow> debugger" where
  "init_debugger p initial_stop path =
    \<lparr>d_process = p, d_stop_info = initial_stop, d_executable_path = path,
     d_pending_thread_starts = {}, d_pending_signals = smap_empty, d_breakpoints = smap_empty,
     d_breakpoint_ids = smap_empty, d_register_snapshots = smap_empty, d_pending_step = None,
     d_watchpoint = None, d_watchpoint_snapshot = None, fork_policy = Follow_Parent,
     next_breakpoint_id = 1, next_watchpoint_id = 1, retained_processes = smap_empty\<rparr>"

text \<open>A local \<^verbatim>\<open>Process\<close> destroyed by an exception runs its \<^verbatim>\<open>cleanup\<close>.\<close>

definition debugger_launch :: "'k os \<Rightarrow> nat \<Rightarrow> ('k world, unit) prog" where
  "debugger_launch os n =
    thenM (on_process (launch os n))
    (bindM dbgM (\<lambda>d. let p = d_process d in
     catchM
      (thenM (on_kern (ll_set_options os (p_current_tid p) (tracing_options Launched)))
      (bindM (make_stop SR_InitialExec SIGTRAP (p_current_tid p)) (\<lambda>initial.
       bindM (on_kern (process_executable os (p_pid p))) (\<lambda>path.
       modify_dbg (\<lambda>_. init_debugger p initial path)))))
      (\<lambda>e. thenM (on_process (cleanup os n)) (throwM e))))"

definition debugger_attach :: "'k os \<Rightarrow> nat \<Rightarrow> pid \<Rightarrow> ('k world, unit) prog" where
  "debugger_attach os n q =
    thenM (on_process (attach os n q))
    (bindM dbgM (\<lambda>d. let p = d_process d in
     catchM
      (thenM (forM (tids p) (\<lambda>t. on_kern (ll_set_options os t (tracing_options Attached))))
      (bindM (make_stop SR_Attached SIGSTOP (p_current_tid p)) (\<lambda>initial.
       bindM (on_kern (process_executable os q)) (\<lambda>path.
       modify_dbg (\<lambda>_. init_debugger p initial path)))))
      (\<lambda>e. thenM (on_process (cleanup os n)) (throwM e))))"

definition stopped_tid :: "('k world, pid) prog" where
  "stopped_tid = bindM dbgM (\<lambda>d. let p = d_process d in
    if p_state p \<noteq> PS_Stopped then throwM (LogicError ''operation requires a stopped tracee'')
    else if p_current_tid p \<le> 0 \<or> task_state p (p_current_tid p) \<noteq> Some PS_Stopped
    then throwM (LogicError ''no active stopped tracee thread'')
    else returnM (p_current_tid p))"

definition set_fork_follow_policy :: "fork_follow_policy \<Rightarrow> ('k world, unit) prog" where
  "set_fork_follow_policy policy = bindM dbgM (\<lambda>d. let p = d_process d in
    if retained_processes d \<noteq> [] then
      (if policy \<noteq> Follow_Both
       then throwM (LogicError ''cannot change fork follow policy while process domains are retained'')
       else modify_dbg (\<lambda>d. d\<lparr>fork_policy := policy\<rparr>))
    else if policy = Follow_Both \<and> p_origin p \<noteq> Launched
    then throwM (LogicError ''simultaneous fork ownership is currently supported for launched tracees only'')
    else if policy = Follow_Both \<and> (tids p \<noteq> [p_current_tid p] \<or> p_current_tid p \<noteq> p_pid p)
    then throwM (LogicError ''simultaneous fork ownership currently requires a single-thread parent'')
    else if policy = Follow_Both \<and> (d_breakpoints d \<noteq> [] \<or> d_pending_step d \<noteq> None)
    then throwM (LogicError ''simultaneous fork ownership requires software breakpoints to be armed after fork'')
    else modify_dbg (\<lambda>d. d\<lparr>fork_policy := policy\<rparr>))"

definition processes :: "debugger \<Rightarrow> process_info list" where
  "processes d =
    (if p_pid (d_process d) > 0
     then [\<lparr>pi_pid = p_pid (d_process d), pi_state = p_state (d_process d), pi_active = True\<rparr>] else [])
    @ map (\<lambda>(p, dmn). \<lparr>pi_pid = p, pi_state = p_state (d_process dmn), pi_active = False\<rparr>)
        (filter (\<lambda>(p, dmn). p > 0) (retained_processes d))"

definition first_stopped_retained_process :: "debugger \<Rightarrow> pid option" where
  "first_stopped_retained_process d =
     map_option fst (find (\<lambda>(p, dmn). p_state (d_process dmn) = PS_Stopped) (retained_processes d))"

text \<open>\<open>parked d\<close> and \<open>unpark\<close> are the two directions of the field-by-field swap. When the registry
  refuses the node, its destructor cleans up the process it holds.\<close>

definition parked :: "debugger \<Rightarrow> domain" where
  "parked d = \<lparr>d_process = d_process d, d_stop_info = d_stop_info d,
     d_executable_path = d_executable_path d, d_pending_thread_starts = d_pending_thread_starts d,
     d_pending_signals = d_pending_signals d, d_breakpoints = d_breakpoints d,
     d_breakpoint_ids = d_breakpoint_ids d, d_register_snapshots = d_register_snapshots d,
     d_pending_step = d_pending_step d, d_watchpoint = d_watchpoint d,
     d_watchpoint_snapshot = d_watchpoint_snapshot d\<rparr>"

definition unpark :: "domain \<Rightarrow> debugger \<Rightarrow> debugger" where
  "unpark dmn d = d\<lparr>d_process := d_process dmn, d_stop_info := d_stop_info dmn,
     d_executable_path := d_executable_path dmn,
     d_pending_thread_starts := d_pending_thread_starts dmn,
     d_pending_signals := d_pending_signals dmn, d_breakpoints := d_breakpoints dmn,
     d_breakpoint_ids := d_breakpoint_ids dmn, d_register_snapshots := d_register_snapshots dmn,
     d_pending_step := d_pending_step dmn, d_watchpoint := d_watchpoint dmn,
     d_watchpoint_snapshot := d_watchpoint_snapshot dmn\<rparr>"

definition swap_active_process :: "'k os \<Rightarrow> nat \<Rightarrow> pid \<Rightarrow> ('k world, unit) prog" where
  "swap_active_process os n p = bindM dbgM (\<lambda>d.
    case smap_find (retained_processes d) p of
      None \<Rightarrow> throwM (LogicError ''no retained process is available for selection'')
    | Some dmn \<Rightarrow>
        let rest = smap_erase p (retained_processes d); old_active_pid = p_pid (d_process d) in
        thenM (modify_dbg (\<lambda>d. (unpark dmn d)\<lparr>retained_processes := rest\<rparr>))
        (if smap_find rest old_active_pid \<noteq> None
         then thenM (on_kern (destroy_process os n (d_process d)))
           (throwM (LogicError ''active process identity collided with retained registry''))
         else modify_dbg (\<lambda>d'. d'\<lparr>retained_processes :=
                smap_emplace old_active_pid (parked d) rest\<rparr>)))"

definition select_process :: "'k os \<Rightarrow> nat \<Rightarrow> pid \<Rightarrow> ('k world, unit) prog" where
  "select_process os n p = bindM dbgM (\<lambda>d.
    if p = p_pid (d_process d) then returnM ()
    else case smap_find (retained_processes d) p of
      None \<Rightarrow> throwM (InvalidArgument ''cannot select an untracked process'')
    | Some selected \<Rightarrow>
        if p_state (d_process d) \<noteq> PS_Stopped
        then throwM (LogicError ''process selection requires the active process to be stopped'')
        else if p_state (d_process selected) \<noteq> PS_Stopped
        then throwM (LogicError ''cannot select a process that is not stopped'')
        else if d_pending_step d \<noteq> None
        then throwM (LogicError ''cannot switch processes while a breakpoint displaced step is pending'')
        else thenM (swap_active_process os n p)
          (bindM next_stop_sequence (\<lambda>s.
           modify_dbg (\<lambda>d. d\<lparr>d_stop_info := (d_stop_info d)\<lparr>si_sequence := s\<rparr>\<rparr>))))"

definition threads :: "debugger \<Rightarrow> thread_info list" where
  "threads d = List.map_filter (\<lambda>t. map_option (\<lambda>s. \<lparr>ti_tid = t, ti_state = s,
       ti_active = (t = p_current_tid (d_process d))\<rparr>) (task_state (d_process d) t)) (tids (d_process d))"

definition select_thread :: "pid \<Rightarrow> ('k world, unit) prog" where
  "select_thread tid = bindM dbgM (\<lambda>d.
    if (case d_pending_step d of None \<Rightarrow> False | Some p \<Rightarrow> ps_tid p \<noteq> tid)
    then throwM (LogicError ''cannot switch threads while a breakpoint displaced step is pending'')
    else on_process (select_tid tid))"

definition registers :: "'k os \<Rightarrow> ('k world, user_regs) prog" where
  "registers os = bindM stopped_tid (\<lambda>t. on_kern (ll_get_registers os t))"

definition breakpoint_register_snapshot :: "debugger \<Rightarrow> pid \<Rightarrow> u64 \<Rightarrow> user_regs option" where
  "breakpoint_register_snapshot d tid address = smap_find (d_register_snapshots d) (tid, address)"

definition set_register :: "'k os \<Rightarrow> string \<Rightarrow> u64 \<Rightarrow> ('k world, unit) prog" where
  "set_register os name v =
    bindM stopped_tid (\<lambda>tid.
    bindM (on_kern (ll_get_registers os tid)) (\<lambda>regs.
    case assign_general_purpose_register regs name v of (accepted, regs') \<Rightarrow>
      if \<not> accepted
      then throwM (InvalidArgument (''unknown or read-only general-purpose register: '' @ name))
      else on_kern (ll_set_registers os tid regs')))"

definition read_memory :: "'k os \<Rightarrow> u64 \<Rightarrow> nat \<Rightarrow> ('k world, u8 list) prog" where
  "read_memory os address len = bindM stopped_tid (\<lambda>t. on_kern (ll_read_memory os t address len))"

section \<open>Breakpoints\<close>

definition add_breakpoint :: "'k os \<Rightarrow> u64 \<Rightarrow> ('k world, nat) prog" where
  "add_breakpoint os address = bindM dbgM (\<lambda>d.
    if fork_policy d = Follow_Both \<and> retained_processes d = []
    then throwM (LogicError ''process-scoped managed breakpoints can only be armed after fork retention'')
    else bindM stopped_tid (\<lambda>tid.
    if smap_count (d_breakpoints d) address \<noteq> 0
    then throwM (InvalidArgument ''a breakpoint already exists at that address'')
    else bindM (on_kern (ll_read_byte os tid address)) (\<lambda>original.
    thenM (on_kern (ll_write_byte os tid address kInt3))
    (let i = next_breakpoint_id d in
     thenM (modify_dbg (\<lambda>d. d\<lparr>next_breakpoint_id := i + 1,
        d_breakpoints := smap_emplace address \<lparr>bp_id = i, bp_address = address,
          bp_original_byte = original, bp_installed = True\<rparr> (d_breakpoints d),
        d_breakpoint_ids := smap_emplace i address (d_breakpoint_ids d)\<rparr>))
     (returnM i)))))"

text \<open>What \<^verbatim>\<open>remove_breakpoint\<close> and \<^verbatim>\<open>discard_breakpoint\<close> do to the tables.\<close>

definition forget_breakpoint :: "nat \<Rightarrow> u64 \<Rightarrow> debugger \<Rightarrow> debugger" where
  "forget_breakpoint i address d =
    (let d1 = (case d_pending_step d of
                 None \<Rightarrow> d
               | Some p \<Rightarrow> if ps_address p = address then d\<lparr>d_pending_step := None\<rparr> else d)
     in d1\<lparr>d_breakpoints := smap_erase address (d_breakpoints d1),
           d_breakpoint_ids := smap_erase i (d_breakpoint_ids d1)\<rparr>)"

definition remove_breakpoint :: "'k os \<Rightarrow> nat \<Rightarrow> ('k world, bool) prog" where
  "remove_breakpoint os i = bindM dbgM (\<lambda>d.
    case smap_find (d_breakpoint_ids d) i of
      None \<Rightarrow> returnM False
    | Some address \<Rightarrow>
        thenM (case smap_find (d_breakpoints d) address of
            None \<Rightarrow> returnM ()
          | Some bp \<Rightarrow> whenM (bp_installed bp \<and> p_state (d_process d) = PS_Stopped)
              (bindM stopped_tid (\<lambda>t. on_kern (ll_write_byte os t address (bp_original_byte bp)))))
        (thenM (modify_dbg (forget_breakpoint i address)) (returnM True)))"

definition discard_breakpoint :: "nat \<Rightarrow> ('k world, bool) prog" where
  "discard_breakpoint i = bindM dbgM (\<lambda>d.
    case smap_find (d_breakpoint_ids d) i of
      None \<Rightarrow> returnM False
    | Some address \<Rightarrow> thenM (modify_dbg (forget_breakpoint i address)) (returnM True))"

definition breakpoints :: "debugger \<Rightarrow> breakpoint list" where
  "breakpoints d = map snd (d_breakpoints d)"

definition set_installed :: "bool \<Rightarrow> u64 \<Rightarrow> debugger \<Rightarrow> debugger" where
  "set_installed b address d = (case smap_find (d_breakpoints d) address of
     None \<Rightarrow> d
   | Some bp \<Rightarrow> d\<lparr>d_breakpoints := smap_assign address (bp\<lparr>bp_installed := b\<rparr>) (d_breakpoints d)\<rparr>)"

text \<open>One turn of the loop of \<^verbatim>\<open>restore_all_breakpoints\<close>.\<close>

definition restore_breakpoint :: "'k os \<Rightarrow> pid \<Rightarrow> u64 \<times> breakpoint \<Rightarrow> ('k world, unit) prog" where
  "restore_breakpoint os tid = (\<lambda>(address, bp). whenM (bp_installed bp)
     (thenM (on_kern (ll_write_byte os tid address (bp_original_byte bp)))
       (modify_dbg (set_installed False address))))"

definition restore_all_breakpoints :: "'k os \<Rightarrow> ('k world, unit) prog" where
  "restore_all_breakpoints os = bindM stopped_tid (\<lambda>tid.
    bindM dbgM (\<lambda>d.
    thenM (forM (d_breakpoints d) (restore_breakpoint os tid))
    (modify_dbg (\<lambda>d. d\<lparr>d_pending_step := None\<rparr>))))"

definition reinsert_breakpoint :: "'k os \<Rightarrow> u64 \<Rightarrow> pid \<Rightarrow> ('k world, unit) prog" where
  "reinsert_breakpoint os address tid = bindM dbgM (\<lambda>d.
    case smap_find (d_breakpoints d) address of
      None \<Rightarrow> returnM ()
    | Some bp \<Rightarrow> if bp_installed bp then returnM ()
        else thenM (on_kern (ll_write_byte os tid address kInt3))
          (modify_dbg (set_installed True address)))"

definition prepare_breakpoint_hit :: "'k os \<Rightarrow> u64 \<Rightarrow> user_regs \<Rightarrow> pid \<Rightarrow> ('k world, unit) prog" where
  "prepare_breakpoint_hit os address regs tid = bindM dbgM (\<lambda>d.
    case smap_find (d_breakpoints d) address of
      None \<Rightarrow> throwM (LogicError ''attempted to prepare an unknown breakpoint hit'')
    | Some bp \<Rightarrow> if \<not> bp_installed bp
        then throwM (LogicError ''attempted to prepare an unknown breakpoint hit'')
        else let regs' = regs\<lparr>rip := address\<rparr> in
          thenM (modify_dbg (\<lambda>d. d\<lparr>d_register_snapshots :=
             smap_assign (tid, address) regs' (d_register_snapshots d)\<rparr>))
          (thenM (on_kern (ll_set_registers os tid regs'))
          (thenM (on_kern (ll_write_byte os tid address (bp_original_byte bp)))
          (thenM (modify_dbg (set_installed False address))
          (modify_dbg (\<lambda>d. d\<lparr>d_pending_step := Some \<lparr>ps_address = address, ps_tid = tid\<rparr>\<rparr>))))))"

section \<open>Watchpoints\<close>

definition add_write_watchpoint :: "'k os \<Rightarrow> u64 \<Rightarrow> nat \<Rightarrow> ('k world, nat) prog" where
  "add_write_watchpoint os address len =
    bindM stopped_tid (\<lambda>tid.
    bindM dbgM (\<lambda>d.
    if d_watchpoint d \<noteq> None
    then throwM (InvalidArgument ''only one hardware watchpoint is currently supported'')
    else bindM (watchpoint_length_encoding len) (\<lambda>length_encoding.
    if unat address mod len \<noteq> 0
    then throwM (InvalidArgument ''write watchpoint address must be naturally aligned'')
    else bindM (on_kern (ll_get_debug_register os tid 0)) (\<lambda>v0.
    bindM (on_kern (ll_get_debug_register os tid 6)) (\<lambda>v6.
    bindM (on_kern (ll_get_debug_register os tid 7)) (\<lambda>v7.
    if v7 AND kDr7Slot0EnableMask \<noteq> 0
    then throwM (RuntimeError ''hardware debug-register slot 0 is already in use'')
    else let disabled_dr7 = disable_slot0 v7;
             configured_dr7 = disabled_dr7 OR 1 OR push_bit 16 1 OR push_bit 18 length_encoding in
      thenM (catchM
        (on_kern (put_debug_registers os tid disabled_dr7 address (v6 AND NOT kDr6Breakpoint0)
           configured_dr7))
        (\<lambda>e. thenM (catchM (on_kern (put_debug_registers os tid disabled_dr7 v0 v6 v7))
               (\<lambda>_. returnM ())) (throwM e)))
      (let i = next_watchpoint_id d in
       thenM (modify_dbg (\<lambda>d. d\<lparr>next_watchpoint_id := i + 1,
          d_watchpoint := Some \<lparr>w_id = i, w_address = address, w_length = len\<rparr>,
          d_watchpoint_snapshot := Some \<lparr>dr_tid = tid, dr0 = v0, dr6 = v6, dr7 = v7\<rparr>\<rparr>))
       (returnM i))))))))"

definition restore_watchpoint_registers :: "'k os \<Rightarrow> ('k world, unit) prog" where
  "restore_watchpoint_registers os = bindM dbgM (\<lambda>d.
    case d_watchpoint_snapshot d of
      None \<Rightarrow> returnM ()
    | Some snapshot \<Rightarrow>
        if task_state (d_process d) (dr_tid snapshot) \<noteq> Some PS_Stopped
        then throwM (LogicError ''watchpoint owner thread must be stopped before restore'')
        else on_kern (restore_snapshot os (dr_tid snapshot) snapshot))"

definition remove_watchpoint :: "'k os \<Rightarrow> nat \<Rightarrow> ('k world, bool) prog" where
  "remove_watchpoint os i = bindM dbgM (\<lambda>d.
    if (case d_watchpoint d of None \<Rightarrow> True | Some w \<Rightarrow> w_id w \<noteq> i) then returnM False
    else if p_state (d_process d) \<noteq> PS_Stopped
    then throwM (LogicError ''watchpoints can only be modified while the tracee is stopped'')
    else thenM (restore_watchpoint_registers os)
      (thenM (modify_dbg (\<lambda>d. d\<lparr>d_watchpoint := None, d_watchpoint_snapshot := None\<rparr>))
      (returnM True)))"

definition watchpoints :: "debugger \<Rightarrow> watchpoint list" where
  "watchpoints d = (case d_watchpoint d of None \<Rightarrow> [] | Some w \<Rightarrow> [w])"

definition classify_watchpoint_stop :: "'k os \<Rightarrow> pid \<Rightarrow> ('k world, stop_info option) prog" where
  "classify_watchpoint_stop os tid = bindM dbgM (\<lambda>d.
    case (d_watchpoint d, d_watchpoint_snapshot d) of
      (Some w, Some snapshot) \<Rightarrow>
        if dr_tid snapshot \<noteq> tid then returnM None
        else bindM (on_kern (ll_get_debug_register os tid 6)) (\<lambda>v6.
          if v6 AND kDr6Breakpoint0 = 0 then returnM None
          else thenM (on_kern (ll_set_debug_register os tid 6 (v6 AND NOT kDr6Breakpoint0)))
            (bindM (make_stop SR_Watchpoint SIGTRAP tid) (\<lambda>info.
             returnM (Some (info\<lparr>si_watchpoint_id := Some (w_id w),
                                  si_watchpoint_address := Some (w_address w)\<rparr>)))))
    | _ \<Rightarrow> returnM None)"

section \<open>Discarding state\<close>

definition discard_image_state :: "debugger \<Rightarrow> debugger" where
  "discard_image_state d = d\<lparr>d_breakpoints := smap_empty, d_breakpoint_ids := smap_empty,
     d_register_snapshots := smap_empty, d_pending_step := None, d_watchpoint := None,
     d_watchpoint_snapshot := None, d_pending_thread_starts := {}, d_pending_signals := smap_empty\<rparr>"

definition discard_breakpoint_register_snapshots :: "pid \<Rightarrow> debugger \<Rightarrow> debugger" where
  "discard_breakpoint_register_snapshots tid d =
     d\<lparr>d_register_snapshots := filter (\<lambda>((t, a), r). t \<noteq> tid) (d_register_snapshots d)\<rparr>"

section \<open>Stop classification\<close>

definition resume_signal :: "signal_policy \<Rightarrow> pid \<Rightarrow> debugger \<Rightarrow> nat" where
  "resume_signal policy tid d =
    (if policy \<noteq> Forward then 0
     else case smap_find (d_pending_signals d) tid of None \<Rightarrow> 0 | Some s \<Rightarrow> s)"

definition wait_active_process :: "'k os \<Rightarrow> nat \<Rightarrow> ('k world, wait_event) prog" where
  "wait_active_process os n = bindM dbgM (\<lambda>d.
    if retained_processes d \<noteq> [] then on_process (wait_current os n) else on_process (wait_any os n))"

text \<open>\<^verbatim>\<open>stop_info_ = info; return stop_info_;\<close> The classifiers return \<open>Some info\<close> where the source returns
  and \<open>None\<close> where it continues its loop.\<close>

definition report :: "stop_info \<Rightarrow> ('k world, stop_info option) prog" where
  "report info = thenM (modify_dbg (\<lambda>d. d\<lparr>d_stop_info := info\<rparr>)) (returnM (Some info))"

definition forget_task :: "pid \<Rightarrow> debugger \<Rightarrow> debugger" where
  "forget_task t d =
    (let d1 = discard_breakpoint_register_snapshots t
           (d\<lparr>d_pending_thread_starts := d_pending_thread_starts d - {t},
              d_pending_signals := smap_erase t (d_pending_signals d)\<rparr>)
     in case d_watchpoint_snapshot d1 of
          None \<Rightarrow> d1
        | Some s \<Rightarrow> if dr_tid s = t then d1\<lparr>d_watchpoint := None, d_watchpoint_snapshot := None\<rparr> else d1)"

text \<open>An exited or signaled task. The two branches of the source differ in the reasons they report:
  for a process with a stopped survivor, for the last process, for a thread.\<close>

definition classify_task_end ::
  "'k os \<Rightarrow> nat \<Rightarrow> stop_reason \<Rightarrow> stop_reason \<Rightarrow> stop_reason \<Rightarrow> wait_event \<Rightarrow> ('k world, stop_info option) prog" where
  "classify_task_end os n survivor_reason last_reason thread_reason event =
    thenM (modify_dbg (forget_task (we_tid event)))
    (bindM dbgM (\<lambda>d.
     if tids (d_process d) = [] then
       (case first_stopped_retained_process d of
          Some survivor \<Rightarrow>
            let terminal_pid = p_pid (d_process d) in
            bindM (make_stop survivor_reason (we_value event) (we_tid event)) (\<lambda>terminal.
            thenM (modify_dbg (\<lambda>d. d\<lparr>d_stop_info := terminal\<rparr>))
            (thenM (swap_active_process os n survivor)
            (thenM (modify_dbg (\<lambda>d. d\<lparr>retained_processes :=
                smap_erase terminal_pid (retained_processes d)\<rparr>))
            (report terminal))))
        | None \<Rightarrow> bindM (make_stop last_reason (we_value event) (we_tid event)) report)
     else if p_state (d_process d) \<noteq> PS_Stopped then returnM None
     else bindM (make_stop thread_reason (we_value event) (we_tid event)) report))"

definition classify_exec :: "'k os \<Rightarrow> wait_event \<Rightarrow> ('k world, stop_info option) prog" where
  "classify_exec os event =
    bindM (on_kern (ll_get_event_message os (we_tid event))) (\<lambda>message.
    if message \<noteq> 0 \<and> unat message > PID_MAX
    then throwM (RuntimeError ''PTRACE_EVENT_EXEC returned an invalid former task id'')
    else let former_tid = (if message \<noteq> 0 then Some (uint message) else None) in
    thenM (on_process (collapse_after_exec (we_tid event)))
    (thenM (modify_dbg discard_image_state)
    (bindM dbgM (\<lambda>d.
    thenM (on_kern (ll_set_options os (we_tid event) (tracing_options (p_origin (d_process d)))))
    (bindM (on_kern (process_executable os (p_pid (d_process d)))) (\<lambda>path.
    thenM (modify_dbg (\<lambda>d. d\<lparr>d_executable_path := path\<rparr>))
    (bindM (make_stop SR_Exec SIGTRAP (we_tid event)) (\<lambda>info.
     report (info\<lparr>si_former_tid := former_tid\<rparr>)))))))))"

text \<open>The inner loop over the transient vfork child: it ends when the child is gone or execs.\<close>

fun run_vfork_child :: "'k os \<Rightarrow> nat \<Rightarrow> pid \<Rightarrow> ('k, unit) prog" where
  "run_vfork_child os 0 child = divergeM"
| "run_vfork_child os (Suc n) child =
    bindM (wait_for_transient_child os (Suc n) child) (\<lambda>status.
    if WIFEXITED status \<or> WIFSIGNALED status then returnM ()
    else if \<not> WIFSTOPPED status
    then throwM (RuntimeError ''vfork child entered an unsupported wait state'')
    else if status_event status = PTRACE_EVENT_EXEC then ll_detach os child 0
    else if status_event status \<noteq> 0
    then throwM (RuntimeError ''vfork child produced an unsupported ptrace event before VM release'')
    else if WSTOPSIG status = SIGTRAP
    then throwM (RuntimeError ''vfork child trapped before releasing the shared address space'')
    else thenM (ll_continue_process os child (int (WSTOPSIG status)))
      (run_vfork_child os n child))"

definition process_stop :: "pid \<Rightarrow> process_event_kind \<Rightarrow> pid \<Rightarrow> pid \<Rightarrow> bool \<Rightarrow>
    ('k world, stop_info option) prog" where
  "process_stop tid kind parent child retains =
    bindM (make_stop SR_Trap SIGTRAP tid) (\<lambda>info.
    report (info\<lparr>si_process_event := kind, si_parent_pid := Some parent, si_child_pid := Some child,
                 si_retains_child := retains\<rparr>))"

definition snapshot_of_task :: "debugger \<Rightarrow> pid \<Rightarrow> debug_register_snapshot option" where
  "snapshot_of_task d t = (case d_watchpoint_snapshot d of
     None \<Rightarrow> None | Some s \<Rightarrow> if dr_tid s = t then Some s else None)"

definition classify_vfork :: "'k os \<Rightarrow> nat \<Rightarrow> wait_event \<Rightarrow> ('k world, stop_info option) prog" where
  "classify_vfork os n event =
    bindM (on_kern (ll_get_event_message os (we_tid event))) (\<lambda>message.
    if \<not> valid_pid_message message
    then throwM (RuntimeError ''PTRACE_EVENT_VFORK returned an invalid child process id'')
    else let child = uint message in
    thenM (on_kern (wait_for_unfollowed_child_stop os n child))
    (bindM dbgM (\<lambda>d.
    thenM (catchM
      (thenM (case snapshot_of_task d (we_tid event) of
          None \<Rightarrow> returnM () | Some s \<Rightarrow> on_kern (restore_snapshot os child s))
      (thenM (on_kern (ll_set_options os child
                (transient_vfork_child_options (p_origin (d_process d)))))
      (thenM (on_kern (ll_continue_process os child 0))
      (on_kern (run_vfork_child os n child)))))
      (refuse_child os child))
    (thenM (on_kern (ll_continue_process os (we_tid event) 0))
    (thenM (on_process (modify_proc (mark_running (we_tid event))))
    (bindM (on_process (wait_any os n)) (\<lambda>done.
     if we_kind done \<noteq> WK_Stopped \<or> we_tid done \<noteq> we_tid event \<or>
        we_ptrace_event done \<noteq> PTRACE_EVENT_VFORK_DONE
     then throwM (RuntimeError ''followed parent did not stop at PTRACE_EVENT_VFORK_DONE'')
     else bindM (on_kern (ll_get_event_message os (we_tid done))) (\<lambda>done_message.
     if uint done_message \<noteq> child
     then throwM (RuntimeError ''PTRACE_EVENT_VFORK_DONE did not match the released child'')
     else bindM dbgM (\<lambda>d.
       process_stop (we_tid event) PE_Vfork (p_pid (d_process d)) child False)))))))))"

text \<open>\<^verbatim>\<open>ForkFollowPolicy::Both\<close>: keep the child as a retained domain.\<close>

definition retain_child :: "'k os \<Rightarrow> nat \<Rightarrow> pid \<Rightarrow> pid \<Rightarrow> ('k world, unit) prog" where
  "retain_child os n tid child = bindM dbgM (\<lambda>d.
    thenM (on_kern (ll_set_options os child (tracing_options (p_origin (d_process d)))))
    (bindM (case d_watchpoint d of
        None \<Rightarrow> returnM (None, None)
      | Some wpt \<Rightarrow> (case snapshot_of_task d tid of
            None \<Rightarrow> throwM (LogicError ''watchpoint ownership does not match the process that forked'')
          | Some s \<Rightarrow> thenM (on_kern (copy_watchpoint_registers os tid child))
              (returnM (Some wpt, Some (s\<lparr>dr_tid := child\<rparr>))))) (\<lambda>(child_watchpoint, child_snapshot).
    bindM (make_stop SR_Trap SIGSTOP child) (\<lambda>child_stop.
    bindM (adopt_stopped child (p_origin (d_process d))) (\<lambda>p.
    if smap_find (retained_processes d) child \<noteq> None
    then thenM (on_kern (destroy_process os n p))
      (throwM (LogicError ''fork child process identity already exists in registry''))
    else modify_dbg (\<lambda>d. d\<lparr>retained_processes := smap_emplace child
      \<lparr>d_process = p, d_stop_info = child_stop, d_executable_path = d_executable_path d,
       d_pending_thread_starts = {}, d_pending_signals = smap_empty, d_breakpoints = smap_empty,
       d_breakpoint_ids = smap_empty, d_register_snapshots = smap_empty, d_pending_step = None,
       d_watchpoint = child_watchpoint, d_watchpoint_snapshot = child_snapshot\<rparr>
      (retained_processes d)\<rparr>))))))"

definition classify_fork_both :: "'k os \<Rightarrow> nat \<Rightarrow> pid \<Rightarrow> pid \<Rightarrow> ('k world, stop_info option) prog" where
  "classify_fork_both os n tid child = bindM dbgM (\<lambda>d.
    let p = d_process d; parent = p_pid p in
    if p_origin p \<noteq> Launched
    then refuse_child os child (RuntimeError ''simultaneous fork ownership is currently supported for launched tracees only'')
    else if tids p \<noteq> [tid] \<or> tid \<noteq> parent
    then refuse_child os child (RuntimeError ''simultaneous fork ownership currently requires a single-thread active process'')
    else if 1 + length (retained_processes d) \<ge> kMaxProcessDomains
    then refuse_child os child (RuntimeError ''simultaneous fork ownership currently supports at most three process domains'')
    else if d_breakpoints d \<noteq> [] \<or> d_pending_step d \<noteq> None
    then refuse_child os child (LogicError ''simultaneous fork ownership requires software breakpoints to be armed after fork'')
    else thenM (catchM (retain_child os n tid child) (refuse_child os child))
      (process_stop tid PE_Fork parent child True))"

text \<open>Writing the saved bytes of the installed breakpoints through task \<open>t\<close>, table unchanged.\<close>

definition unpatch_task :: "'k os \<Rightarrow> pid \<Rightarrow> (u64, breakpoint) smap \<Rightarrow> ('k world, unit) prog" where
  "unpatch_task os t bps = forM bps (\<lambda>(address, bp).
     whenM (bp_installed bp) (on_kern (ll_write_byte os t address (bp_original_byte bp))))"

text \<open>\<^verbatim>\<open>ForkFollowPolicy::Child\<close>: hand the session over to the child and release the parent.\<close>

definition follow_child :: "'k os \<Rightarrow> pid \<Rightarrow> pid \<Rightarrow> ('k world, bool) prog" where
  "follow_child os tid child = bindM dbgM (\<lambda>d.
    thenM (on_kern (ll_set_options os child (tracing_options (p_origin (d_process d)))))
    (thenM (unpatch_task os tid (d_breakpoints d))
    (let transfer_watchpoint = (snapshot_of_task d tid \<noteq> None) in
     thenM (whenM transfer_watchpoint (on_kern (copy_watchpoint_registers os tid child)))
     (thenM (whenM (d_watchpoint_snapshot d \<noteq> None) (restore_watchpoint_registers os))
     (thenM (on_kern (ll_detach os tid 0))
     (thenM (on_process (adopt_stopped_process child))
     (returnM transfer_watchpoint)))))))"

definition after_handoff :: "bool \<Rightarrow> pid \<Rightarrow> debugger \<Rightarrow> debugger" where
  "after_handoff transfer_watchpoint child d =
    (let d1 = (if transfer_watchpoint
               then d\<lparr>d_watchpoint_snapshot := map_option (\<lambda>s. s\<lparr>dr_tid := child\<rparr>) (d_watchpoint_snapshot d)\<rparr>
               else d\<lparr>d_watchpoint := None, d_watchpoint_snapshot := None\<rparr>)
     in d1\<lparr>d_pending_thread_starts := {}, d_pending_signals := smap_empty,
           d_register_snapshots := smap_empty\<rparr>)"

definition classify_fork_child :: "'k os \<Rightarrow> pid \<Rightarrow> pid \<Rightarrow> ('k world, stop_info option) prog" where
  "classify_fork_child os tid child = bindM dbgM (\<lambda>d.
    let p = d_process d; parent = p_pid p in
    if p_origin p \<noteq> Launched
    then refuse_child os child (RuntimeError ''follow-child fork handoff is currently supported for launched tracees only'')
    else if tids p \<noteq> [tid] \<or> tid \<noteq> parent
    then refuse_child os child (RuntimeError ''follow-child fork handoff currently requires a single-thread parent'')
    else bindM (catchM (follow_child os tid child) (refuse_child os child)) (\<lambda>transfer_watchpoint.
      thenM (modify_dbg (after_handoff transfer_watchpoint child))
      (process_stop child PE_Fork parent child False)))"

text \<open>\<^verbatim>\<open>ForkFollowPolicy::Parent\<close>: clean the child's copy of the image and release it.\<close>

definition classify_fork_parent :: "'k os \<Rightarrow> pid \<Rightarrow> pid \<Rightarrow> ('k world, stop_info option) prog" where
  "classify_fork_parent os tid child = bindM dbgM (\<lambda>d.
    let parent = p_pid (d_process d) in
    thenM (catchM
      (thenM (unpatch_task os child (d_breakpoints d))
      (thenM (case snapshot_of_task d tid of
          None \<Rightarrow> returnM () | Some s \<Rightarrow> on_kern (restore_snapshot os child s))
      (on_kern (ll_detach os child 0))))
      (\<lambda>e. thenM (catchM (on_kern (ll_detach os child (int SIGKILL))) (\<lambda>_. returnM ())) (throwM e)))
    (process_stop tid PE_Fork parent child False))"

definition classify_fork :: "'k os \<Rightarrow> nat \<Rightarrow> wait_event \<Rightarrow> ('k world, stop_info option) prog" where
  "classify_fork os n event =
    bindM (on_kern (ll_get_event_message os (we_tid event))) (\<lambda>message.
    if \<not> valid_pid_message message
    then throwM (RuntimeError ''PTRACE_EVENT_FORK returned an invalid child process id'')
    else let child = uint message in
    thenM (on_kern (wait_for_unfollowed_child_stop os n child))
    (bindM dbgM (\<lambda>d.
     if fork_policy d = Follow_Both then classify_fork_both os n (we_tid event) child
     else if fork_policy d = Follow_Child then classify_fork_child os (we_tid event) child
     else classify_fork_parent os (we_tid event) child)))"

definition classify_clone :: "wait_event \<Rightarrow> ('k world, stop_info option) prog" where
  "classify_clone event = (case we_new_tid event of
     None \<Rightarrow> throwM (RuntimeError ''clone event did not provide a new thread id'')
   | Some t \<Rightarrow> bindM dbgM (\<lambda>d.
       if d_watchpoint d \<noteq> None
       then throwM (RuntimeError ''thread creation while a hardware watchpoint is active is unsupported'')
       else thenM (modify_dbg (\<lambda>d. d\<lparr>d_pending_thread_starts := insert t (d_pending_thread_starts d)\<rparr>))
         (returnM None)))"

text \<open>The tail of the classifier: signals, watchpoints, single steps and breakpoint traps.\<close>

definition classify_trap :: "'k os \<Rightarrow> pid \<Rightarrow> ('k world, stop_info option) prog" where
  "classify_trap os tid =
    bindM (on_kern (ll_get_registers os tid)) (\<lambda>regs.
    bindM dbgM (\<lambda>d.
    let candidate = rip regs - 1 in
    if rip regs > 0 \<and> (case smap_find (d_breakpoints d) candidate of
                          None \<Rightarrow> False | Some bp \<Rightarrow> bp_installed bp)
    then thenM (prepare_breakpoint_hit os candidate regs tid)
      (bindM (make_stop SR_Breakpoint SIGTRAP tid) (\<lambda>info.
       report (info\<lparr>si_breakpoint_address := Some candidate\<rparr>)))
    else bindM (make_stop SR_Trap SIGTRAP tid) report))"

definition classify_stop :: "'k os \<Rightarrow> bool \<Rightarrow> wait_event \<Rightarrow> ('k world, stop_info option) prog" where
  "classify_stop os expected_single_step event = bindM dbgM (\<lambda>d.
    let tid = we_tid event; signal = we_value event in
    if tid \<in> d_pending_thread_starts d then
      thenM (modify_dbg (\<lambda>d. d\<lparr>d_pending_thread_starts := d_pending_thread_starts d - {tid}\<rparr>))
      (bindM (make_stop SR_ThreadCreated signal tid) (\<lambda>info. report (info\<lparr>si_new_tid := Some tid\<rparr>)))
    else if signal \<noteq> SIGTRAP then
      thenM (modify_dbg (\<lambda>d. d\<lparr>d_pending_signals := smap_assign tid signal (d_pending_signals d)\<rparr>))
      (bindM (make_stop SR_Signal signal tid) report)
    else bindM (classify_watchpoint_stop os tid) (\<lambda>w.
      case w of
        Some info \<Rightarrow> report info
      | None \<Rightarrow> if expected_single_step then bindM (make_stop SR_SingleStep SIGTRAP tid) report
          else classify_trap os tid))"

definition classify_event :: "'k os \<Rightarrow> nat \<Rightarrow> bool \<Rightarrow> wait_event \<Rightarrow> ('k world, stop_info option) prog" where
  "classify_event os n expected_single_step event =
    (if we_kind event = WK_Exited
     then classify_task_end os n SR_ProcessExited SR_Exited SR_ThreadExited event
     else if we_kind event = WK_Signaled
     then classify_task_end os n SR_ProcessSignaled SR_Signaled SR_ThreadSignaled event
     else if we_ptrace_event event = PTRACE_EVENT_EXEC then classify_exec os event
     else if we_ptrace_event event = PTRACE_EVENT_VFORK then classify_vfork os n event
     else if we_ptrace_event event = PTRACE_EVENT_VFORK_DONE
     then throwM (RuntimeError ''unexpected standalone PTRACE_EVENT_VFORK_DONE'')
     else if we_ptrace_event event = PTRACE_EVENT_FORK then classify_fork os n event
     else if we_ptrace_event event = PTRACE_EVENT_CLONE then classify_clone event
     else classify_stop os expected_single_step event)"

fun wait_and_classify :: "'k os \<Rightarrow> nat \<Rightarrow> bool \<Rightarrow> ('k world, stop_info) prog" where
  "wait_and_classify os 0 expected = divergeM"
| "wait_and_classify os (Suc n) expected =
    bindM (wait_active_process os (Suc n)) (\<lambda>event.
    bindM (classify_event os (Suc n) expected event) (\<lambda>r.
    case r of Some info \<Rightarrow> returnM info | None \<Rightarrow> wait_and_classify os n expected))"

section \<open>Execution control\<close>

text \<open>The end of a displaced step: reinsert, clear the mark, publish the stop.\<close>

definition end_displaced_step ::
  "'k os \<Rightarrow> u64 \<Rightarrow> pid \<Rightarrow> bool \<Rightarrow> stop_info \<Rightarrow> ('k world, stop_info) prog" where
  "end_displaced_step os address reinsert_tid expose_single_step info =
    thenM (whenM (reinsert_tid > 0) (reinsert_breakpoint os address reinsert_tid))
    (thenM (modify_dbg (\<lambda>d. d\<lparr>d_pending_step := None\<rparr>))
    (thenM (whenM (expose_single_step \<and> si_reason info = SR_SingleStep)
             (modify_dbg (\<lambda>d. d\<lparr>d_stop_info := info\<rparr>)))
    (returnM info)))"

definition step_over_pending_breakpoint ::
  "'k os \<Rightarrow> nat \<Rightarrow> bool \<Rightarrow> pending_breakpoint_step \<Rightarrow> ('k world, stop_info) prog" where
  "step_over_pending_breakpoint os n expose_single_step pending =
    thenM (on_kern (ll_single_step os (ps_tid pending) 0))
    (thenM (on_process (modify_proc (mark_running (ps_tid pending))))
    (bindM (wait_and_classify os n True) (\<lambda>info.
     if si_reason info = SR_Exec then returnM info
     else bindM dbgM (\<lambda>d.
       bindM (if task_state (d_process d) (ps_tid pending) = Some PS_Stopped
              then returnM (ps_tid pending)
              else if p_state (d_process d) = PS_Stopped then stopped_tid
              else returnM (-1)) (\<lambda>reinsert_tid.
       end_displaced_step os (ps_address pending) reinsert_tid expose_single_step info)))))"

text \<open>Resuming the current task with \<open>resume\<close> (\<^verbatim>\<open>PTRACE_CONT\<close> or \<^verbatim>\<open>PTRACE_SINGLESTEP\<close>).\<close>

definition resume_current ::
  "'k os \<Rightarrow> nat \<Rightarrow> (pid \<Rightarrow> int \<Rightarrow> ('k, unit) prog) \<Rightarrow> bool \<Rightarrow> signal_policy \<Rightarrow> ('k world, stop_info) prog" where
  "resume_current os n resume expected policy =
    bindM stopped_tid (\<lambda>tid.
    bindM dbgM (\<lambda>d.
    thenM (on_kern (resume tid (int (resume_signal policy tid d))))
    (thenM (modify_dbg (\<lambda>d. d\<lparr>d_pending_signals := smap_erase tid (d_pending_signals d)\<rparr>))
    (thenM (on_process (modify_proc (mark_running tid)))
    (wait_and_classify os n expected)))))"

definition continue_execution :: "'k os \<Rightarrow> nat \<Rightarrow> signal_policy \<Rightarrow> ('k world, stop_info) prog" where
  "continue_execution os n policy = bindM dbgM (\<lambda>d.
    if p_state (d_process d) \<noteq> PS_Stopped
    then throwM (LogicError ''continue requires a stopped tracee'')
    else case d_pending_step d of
      None \<Rightarrow> resume_current os n (ll_continue_process os) False policy
    | Some pending \<Rightarrow> bindM stopped_tid (\<lambda>t.
        if ps_tid pending \<noteq> t
        then throwM (LogicError ''pending breakpoint step belongs to a different thread'')
        else bindM (step_over_pending_breakpoint os n False pending) (\<lambda>internal.
          if si_reason internal \<noteq> SR_SingleStep then returnM internal
          else resume_current os n (ll_continue_process os) False policy)))"

definition single_step :: "'k os \<Rightarrow> nat \<Rightarrow> signal_policy \<Rightarrow> ('k world, stop_info) prog" where
  "single_step os n policy = bindM dbgM (\<lambda>d.
    if p_state (d_process d) \<noteq> PS_Stopped
    then throwM (LogicError ''single-step requires a stopped tracee'')
    else case d_pending_step d of
      None \<Rightarrow> resume_current os n (ll_single_step os) True policy
    | Some pending \<Rightarrow> bindM stopped_tid (\<lambda>t.
        if ps_tid pending \<noteq> t
        then throwM (LogicError ''pending breakpoint step belongs to a different thread'')
        else step_over_pending_breakpoint os n True pending))"

definition debugger_detach :: "'k os \<Rightarrow> signal_policy \<Rightarrow> ('k world, unit) prog" where
  "debugger_detach os policy = bindM dbgM (\<lambda>d.
    if retained_processes d \<noteq> []
    then throwM (LogicError ''detach is not yet supported for a multi-process session'')
    else if p_origin (d_process d) \<noteq> Attached
    then throwM (LogicError ''detach is only valid for an attached process'')
    else if p_state (d_process d) \<noteq> PS_Stopped
    then throwM (LogicError ''detach requires a stopped tracee'')
    else bindM stopped_tid (\<lambda>tid.
      let signal = int (resume_signal policy tid d) in
      thenM (restore_all_breakpoints os)
      (thenM (restore_watchpoint_registers os)
      (thenM (on_process (detach os signal))
      (modify_dbg discard_image_state)))))"

text \<open>The body of the destructor: a session that retains processes kills them; an attached stopped
  session restores and detaches. The destructors of the members run after it.\<close>

definition destroy_debugger :: "'k os \<Rightarrow> nat \<Rightarrow> ('k world, unit) prog" where
  "destroy_debugger os n = bindM dbgM (\<lambda>d.
    if retained_processes d \<noteq> [] then
      thenM (whenM (\<not> terminal_process_state (p_state (d_process d)) \<and> p_pid (d_process d) > 0)
        (on_kern (modifyM (k_kill os (p_pid (d_process d)) (int SIGKILL)))))
      (forM (retained_processes d) (\<lambda>(p, dmn).
        whenM (\<not> terminal_process_state (p_state (d_process dmn)) \<and> p > 0)
          (on_kern (modifyM (k_kill os p (int SIGKILL))))))
    else if p_origin (d_process d) \<noteq> Attached \<or> p_state (d_process d) \<noteq> PS_Stopped
    then returnM ()
    else catchM (thenM (restore_all_breakpoints os)
        (thenM (restore_watchpoint_registers os) (on_process (detach os 0))))
      (\<lambda>_. returnM ()))"

text \<open>The whole destruction of a session: the destructor body, then the members in reverse order of
  declaration, the registry before the active process.\<close>

definition delete_debugger :: "'k os \<Rightarrow> nat \<Rightarrow> ('k world, unit) prog" where
  "delete_debugger os n = thenM (destroy_debugger os n) (bindM dbgM (\<lambda>d.
    thenM (forM (retained_processes d) (\<lambda>(p, dmn). on_kern (destroy_process os n (d_process dmn))))
    (on_process (cleanup os n))))"

section \<open>Memory writes\<close>

abbreviation (input) kMaxMemoryWriteBytes :: nat where "kMaxMemoryWriteBytes \<equiv> 4096"

definition range_contains :: "u64 \<Rightarrow> nat \<Rightarrow> u64 \<Rightarrow> bool" where
  "range_contains address len target \<longleftrightarrow>
     len \<noteq> 0 \<and> target \<ge> address \<and> unat (target - address) < len"

text \<open>The offsets of a write, each with its address and byte.\<close>

definition write_cells :: "u64 \<Rightarrow> u8 list \<Rightarrow> (u64 \<times> u8) list" where
  "write_cells address bytes = zip (map (\<lambda>i. address + of_nat i) [0..<length bytes]) bytes"

text \<open>The first loop: a breakpoint byte in the range must be installed; its new saved byte is noted.\<close>

fun saved_byte_updates :: "(u64, breakpoint) smap \<Rightarrow> (u64 \<times> u8) list \<Rightarrow> (u64 \<times> u8) list option" where
  "saved_byte_updates bps [] = Some []"
| "saved_byte_updates bps ((current, b) # cells) =
    (case smap_find bps current of
       None \<Rightarrow> saved_byte_updates bps cells
     | Some bp \<Rightarrow> if \<not> bp_installed bp then None
         else map_option (\<lambda>us. (current, b) # us) (saved_byte_updates bps cells))"

definition set_original_byte :: "u64 \<Rightarrow> u8 \<Rightarrow> debugger \<Rightarrow> debugger" where
  "set_original_byte address b d = (case smap_find (d_breakpoints d) address of
     None \<Rightarrow> d
   | Some bp \<Rightarrow> d\<lparr>d_breakpoints := smap_assign address (bp\<lparr>bp_original_byte := b\<rparr>) (d_breakpoints d)\<rparr>)"

definition write_cell :: "'k os \<Rightarrow> pid \<Rightarrow> (u64, breakpoint) smap \<Rightarrow> u64 \<times> u8 \<Rightarrow> ('k world, unit) prog" where
  "write_cell os tid bps = (\<lambda>(current, b).
     if (case smap_find bps current of None \<Rightarrow> False | Some bp \<Rightarrow> bp_installed bp) then returnM ()
     else on_kern (ll_write_byte os tid current b))"

definition write_memory :: "'k os \<Rightarrow> u64 \<Rightarrow> u8 list \<Rightarrow> ('k world, unit) prog" where
  "write_memory os address bytes =
    bindM stopped_tid (\<lambda>tid.
    if bytes = [] then throwM (InvalidArgument ''memory write must contain at least one byte'')
    else if length bytes > kMaxMemoryWriteBytes
    then throwM (InvalidArgument ''memory write exceeds the 4096-byte bound'')
    else if address > - 1 - of_nat (length bytes - 1)
    then throwM (InvalidArgument ''memory write range overflows the address space'')
    else bindM dbgM (\<lambda>d.
    if (case d_pending_step d of None \<Rightarrow> False
          | Some p \<Rightarrow> range_contains address (length bytes) (ps_address p))
    then throwM (LogicError ''cannot write memory overlapping a pending breakpoint displaced step'')
    else case saved_byte_updates (d_breakpoints d) (write_cells address bytes) of
      None \<Rightarrow> throwM (LogicError ''cannot write memory overlapping a temporarily restored breakpoint byte'')
    | Some updates \<Rightarrow>
        thenM (forM (write_cells address bytes) (write_cell os tid (d_breakpoints d)))
        (forM updates (\<lambda>(a, b). modify_dbg (set_original_byte a b)))))"

end
