(* ===== verification/DebuggerInv.thy ===== *)
theory DebuggerInv
  imports Debugger
begin

text \<open>
  The structural invariant of \<^verbatim>\<open>Debugger\<close>: the two breakpoint tables are inverse to each other, ids are
  below the next id, a pending displaced step belongs to a breakpoint whose byte is restored, the
  parked processes have no step pending, and at most three process domains exist. Every operation
  keeps it, whatever the kernel answers and also when the operation throws.
\<close>

section \<open>The invariant\<close>

definition table_wf ::
  "nat \<Rightarrow> (u64, breakpoint) smap \<Rightarrow> (nat, u64) smap \<Rightarrow> pending_breakpoint_step option \<Rightarrow> bool" where
  "table_wf next_id bps ids pending \<longleftrightarrow>
     smap_wf bps \<and> smap_wf ids \<and>
     (\<forall>a bp. smap_find bps a = Some bp \<longrightarrow> bp_address bp = a \<and> smap_find ids (bp_id bp) = Some a) \<and>
     (\<forall>i a. smap_find ids i = Some a \<longrightarrow>
        i < next_id \<and> (\<exists>bp. smap_find bps a = Some bp \<and> bp_id bp = i)) \<and>
     (\<forall>p. pending = Some p \<longrightarrow> (\<exists>bp. smap_find bps (ps_address p) = Some bp \<and> \<not> bp_installed bp))"

definition domain_wf :: "nat \<Rightarrow> 'a domain_scheme \<Rightarrow> bool" where
  "domain_wf next_id d \<longleftrightarrow>
     process_wf (d_process d) \<and>
     table_wf next_id (d_breakpoints d) (d_breakpoint_ids d) (d_pending_step d)"

definition dbg_wf :: "debugger \<Rightarrow> bool" where
  "dbg_wf d \<longleftrightarrow>
     domain_wf (next_breakpoint_id d) d \<and>
     smap_wf (retained_processes d) \<and>
     length (retained_processes d) < kMaxProcessDomains \<and>
     (\<forall>(p, dmn) \<in> set (retained_processes d).
        domain_wf (next_breakpoint_id d) dmn \<and> d_pending_step dmn = None)"

abbreviation world_wf :: "'k world \<Rightarrow> bool" where
  "world_wf w \<equiv> dbg_wf (dbg w)"

section \<open>Tables\<close>

lemma table_wf_empty [simp]: "table_wf n smap_empty smap_empty None"
  by (simp add: table_wf_def smap_wf_simps smap_empty_find)

lemma table_wf_clear_pending: "table_wf n bps ids p \<Longrightarrow> table_wf n bps ids None"
  by (simp add: table_wf_def)

lemma table_wf_mono: "table_wf n bps ids p \<Longrightarrow> n \<le> m \<Longrightarrow> table_wf m bps ids p"
  unfolding table_wf_def by fastforce

lemma table_wf_add:
  assumes "table_wf n bps ids p" and "smap_find bps a = None"
  shows "table_wf (n + 1) (smap_emplace a \<lparr>bp_id = n, bp_address = a, bp_original_byte = b,
           bp_installed = i\<rparr> bps) (smap_emplace n a ids) p"
proof -
  have fresh: "smap_find ids n = None"
  proof (rule ccontr)
    assume "smap_find ids n \<noteq> None"
    then obtain x where "smap_find ids n = Some x" by blast
    with assms(1) show False by (auto simp: table_wf_def)
  qed
  show ?thesis
    using assms fresh unfolding table_wf_def
    by (auto simp: smap_find_emplace smap_wf_simps) (fastforce, metis less_SucI)+
qed

lemma table_wf_remove:
  assumes "table_wf n bps ids p" and "smap_find ids i = Some a"
    and "\<And>q. p' = Some q \<Longrightarrow> p = Some q \<and> ps_address q \<noteq> a"
  shows "table_wf n (smap_erase a bps) (smap_erase i ids) p'"
  using assms unfolding table_wf_def
  by (auto simp: smap_find_erase smap_wf_simps) (metis option.inject)+

text \<open>Changing the saved byte or the installed flag of a listed breakpoint.\<close>

lemma table_wf_update:
  assumes "table_wf n bps ids p" and "smap_find bps a = Some bp"
    and "bp_id bp' = bp_id bp" and "bp_address bp' = bp_address bp"
    and "\<And>q. p' = Some q \<Longrightarrow> (if ps_address q = a then \<not> bp_installed bp'
           else \<exists>x. smap_find bps (ps_address q) = Some x \<and> \<not> bp_installed x)"
  shows "table_wf n (smap_assign a bp' bps) ids p'"
  using assms unfolding table_wf_def
  by (auto simp: smap_find_assign smap_wf_simps split: if_splits) (metis option.inject)

section \<open>Weakest preconditions of the world's parts\<close>

lemma wp_on_kern [wp_simps]:
  "wp (on_kern m) Q E =
     (\<lambda>w. wp m (\<lambda>a k. Q a (w\<lparr>kern := k\<rparr>)) (\<lambda>e k. E e (w\<lparr>kern := k\<rparr>)) (kern w))"
  by (simp add: on_kern_def wp_simps)

lemma wp_on_process [wp_simps]:
  "wp (on_process m) Q E =
     (\<lambda>w. wp m (\<lambda>a p. Q a (w\<lparr>dbg := (dbg w)\<lparr>d_process := proc p\<rparr>, kern := pkern p\<rparr>))
              (\<lambda>e p. E e (w\<lparr>dbg := (dbg w)\<lparr>d_process := proc p\<rparr>, kern := pkern p\<rparr>))
              \<lparr>proc = d_process (dbg w), pkern = kern w\<rparr>)"
  by (simp add: on_process_def wp_simps)

lemma wp_dbgM [wp_simps]: "wp dbgM Q E = (\<lambda>w. Q (dbg w) w)"
  by (simp add: dbgM_def wp_simps)

lemma wp_modify_dbg [wp_simps]: "wp (modify_dbg f) Q E = (\<lambda>w. Q () (w\<lparr>dbg := f (dbg w)\<rparr>))"
  by (simp add: modify_dbg_def wp_simps)

lemma wp_next_stop_sequence [wp_simps]:
  "wp next_stop_sequence Q E =
     (\<lambda>w. Q (stop_sequence w + 1) (w\<lparr>stop_sequence := stop_sequence w + 1\<rparr>))"
  by (simp add: wp_def next_stop_sequence_def fun_eq_iff)

lemma wp_make_stop [wp_simps]:
  "wp (make_stop r v t) Q E = (\<lambda>w. Q (blank_stop r v t (stop_sequence w + 1))
     (w\<lparr>stop_sequence := stop_sequence w + 1\<rparr>))"
  by (simp add: make_stop_def wp_simps)

lemma wp_stopped_tid [wp_simps]:
  "wp stopped_tid Q E = (\<lambda>w. let p = d_process (dbg w) in
     if p_state p \<noteq> PS_Stopped then E (LogicError ''operation requires a stopped tracee'') w
     else if p_current_tid p \<le> 0 \<or> task_state p (p_current_tid p) \<noteq> Some PS_Stopped
     then E (LogicError ''no active stopped tracee thread'') w
     else Q (p_current_tid p) w)"
  by (auto simp: stopped_tid_def wp_simps Let_def fun_eq_iff)

text \<open>Programs about which only the frame matters.\<close>

lemma wp_any: "(\<And>a s. Q a s) \<Longrightarrow> (\<And>e s. E e s) \<Longrightarrow> wp m Q E s"
  by (auto simp: wp_def split: prod.splits outcome.splits)

lemma wp_on_kern_frame:
  "(\<And>a k. Q a (w\<lparr>kern := k\<rparr>)) \<Longrightarrow> (\<And>e k. E e (w\<lparr>kern := k\<rparr>)) \<Longrightarrow> wp (on_kern m) Q E w"
  by (simp add: wp_on_kern wp_any)

lemma keeps_on_kern [keeps_intros]: "(\<And>w k. I w \<Longrightarrow> I (w\<lparr>kern := k\<rparr>)) \<Longrightarrow> keeps I (on_kern m)"
  by (rule keepsI) (auto intro: wp_on_kern_frame)

lemma keeps_dbgM [keeps_intros]: "keeps I dbgM"
  by (simp add: keeps_def wp_simps)

lemma keeps_on_process:
  assumes "keeps pworld_wf m"
  shows "keeps world_wf (on_process m)"
proof (rule keepsI)
  fix w :: "'a world"
  assume wf: "world_wf w"
  let ?p = "\<lparr>proc = d_process (dbg w), pkern = kern w\<rparr>"
  have restored: "dbg_wf ((dbg w)\<lparr>d_process := q\<rparr>)" if "process_wf q" for q
    using wf that by (simp add: dbg_wf_def domain_wf_def)
  have "pworld_wf ?p" using wf by (simp add: dbg_wf_def domain_wf_def)
  from keepsD [OF assms this] have "wp m (\<lambda>_. pworld_wf) (\<lambda>_. pworld_wf) ?p" .
  then show "wp (on_process m) (\<lambda>_. world_wf) (\<lambda>_. world_wf) w"
    unfolding wp_on_process by (rule wp_mono) (simp_all add: restored)
qed

lemma keeps_modify_dbg: "(\<And>d. dbg_wf d \<Longrightarrow> dbg_wf (f d)) \<Longrightarrow> keeps world_wf (modify_dbg f)"
  by (simp add: keeps_def wp_simps)

lemma keeps_make_stop [keeps_intros]: "keeps world_wf (make_stop r v t)"
  by (simp add: keeps_def wp_simps)

lemma keeps_next_stop_sequence [keeps_intros]: "keeps world_wf next_stop_sequence"
  by (simp add: keeps_def wp_simps)

lemma keeps_stopped_tid [keeps_intros]: "keeps I stopped_tid"
  by (simp add: keeps_def wp_simps Let_def)

section \<open>Field updates that leave the invariant alone\<close>

lemma domain_wf_updates [simp]:
  "domain_wf n (d\<lparr>d_stop_info := s\<rparr>) = domain_wf n d"
  "domain_wf n (d\<lparr>d_executable_path := e\<rparr>) = domain_wf n d"
  "domain_wf n (d\<lparr>d_pending_thread_starts := ts\<rparr>) = domain_wf n d"
  "domain_wf n (d\<lparr>d_pending_signals := ps\<rparr>) = domain_wf n d"
  "domain_wf n (d\<lparr>d_register_snapshots := rs\<rparr>) = domain_wf n d"
  "domain_wf n (d\<lparr>d_watchpoint := wpt\<rparr>) = domain_wf n d"
  "domain_wf n (d\<lparr>d_watchpoint_snapshot := ws\<rparr>) = domain_wf n d"
  by (simp_all add: domain_wf_def)

lemma domain_wf_updates2 [simp]:
  "domain_wf n (d\<lparr>fork_policy := f\<rparr>) = domain_wf n d"
  "domain_wf n (d\<lparr>next_breakpoint_id := i\<rparr>) = domain_wf n d"
  "domain_wf n (d\<lparr>next_watchpoint_id := i\<rparr>) = domain_wf n d"
  "domain_wf n (d\<lparr>retained_processes := r\<rparr>) = domain_wf n d"
  by (simp_all add: domain_wf_def)

lemma dbg_wf_updates [simp]:
  "dbg_wf (d\<lparr>d_stop_info := s\<rparr>) = dbg_wf d"
  "dbg_wf (d\<lparr>d_executable_path := e\<rparr>) = dbg_wf d"
  "dbg_wf (d\<lparr>d_pending_thread_starts := ts\<rparr>) = dbg_wf d"
  "dbg_wf (d\<lparr>d_pending_signals := ps\<rparr>) = dbg_wf d"
  "dbg_wf (d\<lparr>d_register_snapshots := rs\<rparr>) = dbg_wf d"
  "dbg_wf (d\<lparr>d_watchpoint := wpt\<rparr>) = dbg_wf d"
  "dbg_wf (d\<lparr>d_watchpoint_snapshot := ws\<rparr>) = dbg_wf d"
  "dbg_wf (d\<lparr>fork_policy := f\<rparr>) = dbg_wf d"
  "dbg_wf (d\<lparr>next_watchpoint_id := i\<rparr>) = dbg_wf d"
  by (simp_all add: dbg_wf_def)

lemma dbg_wf_table: "dbg_wf d \<Longrightarrow> table_wf (next_breakpoint_id d) (d_breakpoints d) (d_breakpoint_ids d) (d_pending_step d)"
  by (simp add: dbg_wf_def domain_wf_def)

lemma dbg_wf_set_table:
  assumes "dbg_wf d"
    and "table_wf (next_breakpoint_id d) (d_breakpoints d') (d_breakpoint_ids d') (d_pending_step d')"
    and "d_process d' = d_process d" and "next_breakpoint_id d' = next_breakpoint_id d"
    and "retained_processes d' = retained_processes d"
  shows "dbg_wf d'"
  using assms by (simp add: dbg_wf_def domain_wf_def)

lemma dbg_wf_clear_pending: "dbg_wf d \<Longrightarrow> dbg_wf (d\<lparr>d_pending_step := None\<rparr>)"
  by (rule dbg_wf_set_table) (auto dest: dbg_wf_table table_wf_clear_pending)

lemma domain_wf_mono: "domain_wf n d \<Longrightarrow> n \<le> m \<Longrightarrow> domain_wf m d"
  by (auto simp: domain_wf_def intro: table_wf_mono)

section \<open>Breakpoint operations\<close>

lemma dbg_wf_add:
  assumes "dbg_wf d" and "smap_find (d_breakpoints d) a = None"
  shows "dbg_wf (d\<lparr>next_breakpoint_id := next_breakpoint_id d + 1,
        d_breakpoints := smap_emplace a \<lparr>bp_id = next_breakpoint_id d, bp_address = a,
          bp_original_byte = b, bp_installed = i\<rparr> (d_breakpoints d),
        d_breakpoint_ids := smap_emplace (next_breakpoint_id d) a (d_breakpoint_ids d)\<rparr>)"
  using assms table_wf_add [OF dbg_wf_table [OF assms(1)] assms(2), of b i]
  by (auto simp: dbg_wf_def domain_wf_def intro: table_wf_mono)

lemma keeps_add_breakpoint [keeps_intros]: "keeps world_wf (add_breakpoint os a)"
  by (rule keepsI)
    (auto simp: add_breakpoint_def wp_simps Let_def smap_count_def split: if_splits
      intro!: wp_any dbg_wf_add [simplified])

lemma forget_breakpoint_wf:
  assumes "dbg_wf d" and "smap_find (d_breakpoint_ids d) i = Some a"
  shows "dbg_wf (forget_breakpoint i a d)"
proof -
  let ?p = "(case d_pending_step d of None \<Rightarrow> None
             | Some q \<Rightarrow> if ps_address q = a then None else Some q)"
  have "table_wf (next_breakpoint_id d) (smap_erase a (d_breakpoints d)) (smap_erase i (d_breakpoint_ids d)) ?p"
    by (rule table_wf_remove [OF dbg_wf_table [OF assms(1)] assms(2)]) (auto split: option.splits if_splits)
  then show ?thesis
    by (intro dbg_wf_set_table [OF assms(1)])
      (auto simp: forget_breakpoint_def Let_def split: option.splits if_splits)
qed

lemma keeps_remove_breakpoint [keeps_intros]: "keeps world_wf (remove_breakpoint os i)"
  by (rule keepsI)
    (auto simp: remove_breakpoint_def wp_simps Let_def forget_breakpoint_wf intro!: wp_any)

lemma keeps_discard_breakpoint [keeps_intros]: "keeps world_wf (discard_breakpoint i)"
  by (rule keepsI) (auto simp: discard_breakpoint_def wp_simps forget_breakpoint_wf)

lemma set_installed_wf:
  assumes "dbg_wf d"
    and "b \<Longrightarrow> (\<And>q. d_pending_step d = Some q \<Longrightarrow> ps_address q \<noteq> a)"
  shows "dbg_wf (set_installed b a d)"
proof (cases "smap_find (d_breakpoints d) a")
  case None
  with assms show ?thesis by (simp add: set_installed_def)
next
  case (Some bp)
  note tab = dbg_wf_table [OF assms(1)]
  have "table_wf (next_breakpoint_id d) (smap_assign a (bp\<lparr>bp_installed := b\<rparr>) (d_breakpoints d))
          (d_breakpoint_ids d) (d_pending_step d)"
    by (rule table_wf_update [OF tab Some]) (use assms(2) tab in \<open>auto simp: table_wf_def\<close>)
  with Some show ?thesis
    by (intro dbg_wf_set_table [OF assms(1)]) (auto simp: set_installed_def)
qed

lemma keeps_restore_breakpoint [keeps_intros]: "keeps world_wf (restore_breakpoint os tid x)"
  by (cases x) (auto simp: restore_breakpoint_def intro!: keeps_intros keeps_modify_dbg set_installed_wf)

lemma keeps_restore_all_breakpoints [keeps_intros]: "keeps world_wf (restore_all_breakpoints os)"
  unfolding restore_all_breakpoints_def
  by (intro keeps_intros keeps_modify_dbg dbg_wf_clear_pending) auto

text \<open>A write of the byte loses no breakpoint; the flag and the pending mark change together.\<close>

lemma prepare_tables_wf:
  assumes "dbg_wf d" and "smap_find (d_breakpoints d) a = Some bp"
  shows "dbg_wf ((set_installed False a d)\<lparr>d_pending_step := Some \<lparr>ps_address = a, ps_tid = t\<rparr>\<rparr>)"
proof -
  note tab = dbg_wf_table [OF assms(1)]
  have "table_wf (next_breakpoint_id d) (smap_assign a (bp\<lparr>bp_installed := False\<rparr>) (d_breakpoints d))
          (d_breakpoint_ids d) (Some \<lparr>ps_address = a, ps_tid = t\<rparr>)"
    by (rule table_wf_update [OF tab assms(2)]) auto
  with assms(2) show ?thesis
    by (intro dbg_wf_set_table [OF assms(1)]) (auto simp: set_installed_def)
qed

lemma keeps_prepare_breakpoint_hit [keeps_intros]: "keeps world_wf (prepare_breakpoint_hit os a regs t)"
proof (rule keepsI)
  fix w :: "'a world"
  assume wf: "world_wf w"
  show "wp (prepare_breakpoint_hit os a regs t) (\<lambda>_. world_wf) (\<lambda>_. world_wf) w"
    using wf prepare_tables_wf [where d = "(dbg w)\<lparr>d_register_snapshots := rs\<rparr>" for rs]
    by (auto simp: prepare_breakpoint_hit_def wp_simps Let_def intro!: wp_any)
qed

lemma set_original_byte_wf:
  assumes "dbg_wf d"
  shows "dbg_wf (set_original_byte a b d)"
proof (cases "smap_find (d_breakpoints d) a")
  case None
  with assms show ?thesis by (simp add: set_original_byte_def)
next
  case (Some bp)
  note tab = dbg_wf_table [OF assms(1)]
  have "table_wf (next_breakpoint_id d) (smap_assign a (bp\<lparr>bp_original_byte := b\<rparr>) (d_breakpoints d))
          (d_breakpoint_ids d) (d_pending_step d)"
    by (rule table_wf_update [OF tab Some]) (use Some tab in \<open>auto simp: table_wf_def\<close>)
  with Some show ?thesis
    by (intro dbg_wf_set_table [OF assms(1)]) (auto simp: set_original_byte_def)
qed

lemma keeps_write_memory [keeps_intros]: "keeps world_wf (write_memory os a bytes)"
  unfolding write_memory_def write_cell_def
  by (intro keeps_intros keeps_modify_dbg set_original_byte_wf) auto

section \<open>Retained processes\<close>

lemma domain_wf_parked: "domain_wf n (parked d) = domain_wf n d"
  by (simp add: domain_wf_def parked_def)

lemma parked_pending [simp]: "d_pending_step (parked d) = d_pending_step d"
  by (simp add: parked_def)

text \<open>The parts of the invariant that concern the registry.\<close>

definition registry_wf :: "nat \<Rightarrow> (pid, domain) smap \<Rightarrow> bool" where
  "registry_wf next_id r \<longleftrightarrow> smap_wf r \<and> length r < kMaxProcessDomains \<and>
     (\<forall>(p, dmn) \<in> set r. domain_wf next_id dmn \<and> d_pending_step dmn = None)"

lemma dbg_wf_registry:
  "dbg_wf d \<longleftrightarrow> domain_wf (next_breakpoint_id d) d \<and>
     registry_wf (next_breakpoint_id d) (retained_processes d)"
  by (auto simp: dbg_wf_def registry_wf_def)

lemma registry_wf_erase: "registry_wf n r \<Longrightarrow> registry_wf n (smap_erase p r)"
  using set_smap_erase [of p r] length_smap_erase [of p r]
  by (auto simp: registry_wf_def smap_wf_simps)

lemma registry_wf_emplace:
  assumes "registry_wf n r" and "1 + length r < kMaxProcessDomains"
    and "domain_wf n dmn" and "d_pending_step dmn = None"
  shows "registry_wf n (smap_emplace p dmn r)"
  using assms set_smap_emplace [of p dmn r] length_smap_emplace [of p dmn r]
  by (auto simp: registry_wf_def smap_wf_simps)

lemma registry_wf_find:
  "registry_wf n r \<Longrightarrow> smap_find r p = Some dmn \<Longrightarrow> domain_wf n dmn \<and> d_pending_step dmn = None"
  by (auto simp: registry_wf_def dest: smap_find_SomeD)

lemma domain_wf_unpark: "domain_wf n (unpark dmn d) = domain_wf n dmn"
  by (simp add: domain_wf_def unpark_def)

lemma unpark_fields [simp]:
  "next_breakpoint_id (unpark dmn d) = next_breakpoint_id d"
  "retained_processes (unpark dmn d) = retained_processes d"
  by (simp_all add: unpark_def)

lemma wp_swap_active_process:
  assumes "dbg_wf (dbg w)"
    and none: "\<And>p. smap_find (retained_processes (dbg w)) p = None \<Longrightarrow>
        E (LogicError ''no retained process is available for selection'') w"
    and collide: "\<And>e d' k. dbg_wf d' \<Longrightarrow> E e (w\<lparr>dbg := d', kern := k\<rparr>)"
    and swapped: "\<And>dmn rest. smap_find (retained_processes (dbg w)) p = Some dmn \<Longrightarrow>
        rest = smap_erase p (retained_processes (dbg w)) \<Longrightarrow>
        dbg_wf ((unpark dmn (dbg w))\<lparr>retained_processes := rest\<rparr>) \<Longrightarrow>
        1 + length rest < kMaxProcessDomains \<Longrightarrow>
        smap_find rest (p_pid (d_process (dbg w))) = None \<Longrightarrow>
        Q () (w\<lparr>dbg := (unpark dmn (dbg w))\<lparr>retained_processes :=
          smap_emplace (p_pid (d_process (dbg w))) (parked (dbg w)) rest\<rparr>\<rparr>)"
  shows "wp (swap_active_process os n p) Q E w"
proof (cases "smap_find (retained_processes (dbg w)) p")
  case None
  then show ?thesis by (simp add: swap_active_process_def wp_simps none)
next
  case (Some dmn)
  let ?r = "retained_processes (dbg w)" and ?rest = "smap_erase p (retained_processes (dbg w))"
  have reg: "registry_wf (next_breakpoint_id (dbg w)) ?r" using assms(1) by (simp add: dbg_wf_registry)
  have wf: "dbg_wf ((unpark dmn (dbg w))\<lparr>retained_processes := ?rest\<rparr>)"
    using registry_wf_find [OF reg Some] registry_wf_erase [OF reg]
    by (simp add: dbg_wf_registry domain_wf_unpark)
  have len: "1 + length ?rest < kMaxProcessDomains"
    using length_smap_erase_present [OF Some] reg by (simp add: registry_wf_def)
  show ?thesis
    using Some swapped [OF Some refl wf len]
    by (auto simp: swap_active_process_def wp_simps Let_def intro!: wp_any collide [OF wf])
qed

lemma keeps_select_process [keeps_intros]: "keeps world_wf (select_process os n p)"
proof (rule keepsI)
  fix w :: "'a world"
  assume wf: "world_wf w"
  have "wp (swap_active_process os n p) (\<lambda>_. world_wf) (\<lambda>_. world_wf) w"
    if "d_pending_step (dbg w) = None"
    by (rule wp_swap_active_process [OF wf])
      (use wf that in \<open>auto simp: dbg_wf_registry domain_wf_unpark domain_wf_parked intro!: registry_wf_emplace\<close>)
  then show "wp (select_process os n p) (\<lambda>_. world_wf) (\<lambda>_. world_wf) w"
    using wf by (auto simp: select_process_def wp_simps intro: wp_mono)
qed

section \<open>Classification\<close>

lemma forget_task_wf: "dbg_wf d \<Longrightarrow> dbg_wf (forget_task t d)"
  by (auto simp: forget_task_def discard_breakpoint_register_snapshots_def Let_def split: option.splits)

lemma discard_image_state_wf: "dbg_wf d \<Longrightarrow> dbg_wf (discard_image_state d)"
  by (simp add: discard_image_state_def dbg_wf_def domain_wf_def)

lemma after_handoff_wf: "dbg_wf d \<Longrightarrow> dbg_wf (after_handoff b c d)"
  by (simp add: after_handoff_def Let_def)

lemma keeps_report [keeps_intros]: "keeps world_wf (report info)"
  unfolding report_def by (intro keeps_intros keeps_modify_dbg) simp

lemma keeps_process_stop [keeps_intros]: "keeps world_wf (process_stop t k p c r)"
  unfolding process_stop_def by (intro keeps_intros)

lemma smap_erase_emplace_absent:
  "smap_find m k = None \<Longrightarrow> smap_wf m \<Longrightarrow> smap_erase k (smap_emplace k v m) = m"
proof -
  assume "smap_find m k = None" and "smap_wf m"
  then have "smap_erase k (smap_assign k v m) = m"
    by (induction k v m rule: smap_assign.induct)
      (auto simp: smap_erase_def filter_id_conv smap_find_None)
  with \<open>smap_find m k = None\<close> show ?thesis by (simp add: smap_emplace_def)
qed

text \<open>The terminal process is parked by the swap and dropped at once, so a displaced step it may
  have had pending does not survive in the registry.\<close>

lemma wp_drop_terminal:
  assumes "world_wf w" and "tp = p_pid (d_process (dbg w))"
  shows "wp (thenM (swap_active_process os n s) (thenM (modify_dbg (\<lambda>d. d\<lparr>retained_processes :=
           smap_erase tp (retained_processes d)\<rparr>)) (report info))) (\<lambda>_. world_wf) (\<lambda>_. world_wf) w"
  unfolding wp_thenM
  by (rule wp_swap_active_process [OF assms(1)])
    (use assms in \<open>auto simp: wp_simps report_def smap_erase_emplace_absent dbg_wf_def smap_wf_simps\<close>)

lemma keeps_classify_task_end [keeps_intros]: "keeps world_wf (classify_task_end os n r1 r2 r3 event)"
proof (rule keepsI)
  fix w :: "'a world"
  assume "world_wf w"
  then have wf: "dbg_wf (forget_task t (dbg w))" for t by (rule forget_task_wf)
  show "wp (classify_task_end os n r1 r2 r3 event) (\<lambda>_. world_wf) (\<lambda>_. world_wf) w"
    using wf unfolding classify_task_end_def wp_thenM [of "modify_dbg _"] wp_modify_dbg wp_bindM [of dbgM]
      wp_dbgM wp_if wp_case_option wp_returnM Let_def
    by (auto simp: wp_bindM [of "make_stop _ _ _"] wp_make_stop wp_thenM [of "modify_dbg _"]
        wp_modify_dbg wp_drop_terminal intro!: keepsD [where I = world_wf, OF keeps_report])
qed

lemma keeps_classify_exec [keeps_intros]: "keeps world_wf (classify_exec os event)"
  unfolding classify_exec_def
  by (intro keeps_intros keeps_modify_dbg keeps_on_process discard_image_state_wf) auto

lemma keeps_abandon_child [keeps_intros]: "keeps world_wf (abandon_child os child)"
  unfolding abandon_child_def by (intro keeps_intros) simp

lemma keeps_refuse_child [keeps_intros]: "keeps world_wf (refuse_child os child e)"
  unfolding refuse_child_def by (intro keeps_intros)

lemma keeps_modify_mark_running [keeps_intros]: "keeps pworld_wf (modify_proc (mark_running t))"
  by (intro keeps_modify_proc mark_running_wf)

lemma keeps_classify_vfork [keeps_intros]: "keeps world_wf (classify_vfork os n event)"
  unfolding classify_vfork_def
  by (intro keeps_intros keeps_on_process) auto

lemma wp_retain_child:
  assumes "world_wf w" and "1 + length (retained_processes (dbg w)) < kMaxProcessDomains"
  shows "wp (retain_child os n t child) (\<lambda>_. world_wf) (\<lambda>_. world_wf) w"
  using assms
  by (auto simp: retain_child_def wp_simps adopt_stopped_def dbg_wf_registry
      domain_wf_def [of _ "\<lparr>d_process = _, d_stop_info = _, d_executable_path = _, d_pending_thread_starts = _,
        d_pending_signals = _, d_breakpoints = _, d_breakpoint_ids = _, d_register_snapshots = _,
        d_pending_step = _, d_watchpoint = _, d_watchpoint_snapshot = _\<rparr>"] become_stopped_wf
      intro!: wp_any registry_wf_emplace)

lemma keeps_classify_fork_both [keeps_intros]: "keeps world_wf (classify_fork_both os n t child)"
proof (rule keepsI)
  fix w :: "'a world"
  assume wf: "world_wf w"
  have refuse: "wp (refuse_child os child e) (\<lambda>_. world_wf) (\<lambda>_. world_wf) w'"
    if "world_wf w'" for e and w' :: "'a world"
    by (rule keepsD [OF keeps_refuse_child that])
  have retained: "wp (catchM (retain_child os n t child) (refuse_child os child)) (\<lambda>_. world_wf) (\<lambda>_. world_wf) w"
    if "1 + length (retained_processes (dbg w)) < kMaxProcessDomains"
    unfolding wp_catchM by (rule wp_mono [OF wp_retain_child [OF wf that]]) (auto intro: refuse)
  have "wp (thenM (catchM (retain_child os n t child) (refuse_child os child)) (process_stop t PE_Fork p child True))
      (\<lambda>_. world_wf) (\<lambda>_. world_wf) w"
    if "1 + length (retained_processes (dbg w)) < kMaxProcessDomains" for p
    unfolding wp_thenM
    by (rule wp_mono [OF retained [OF that]]) (auto intro: keepsD [OF keeps_process_stop])
  then show "wp (classify_fork_both os n t child) (\<lambda>_. world_wf) (\<lambda>_. world_wf) w"
    unfolding classify_fork_both_def wp_bindM wp_dbgM Let_def wp_if
    using wf by (auto intro: refuse)
qed

lemma keeps_unpatch_task [keeps_intros]: "keeps world_wf (unpatch_task os t bps)"
  unfolding unpatch_task_def by (intro keeps_intros) simp

lemma keeps_restore_watchpoint_registers [keeps_intros]: "keeps world_wf (restore_watchpoint_registers os)"
  unfolding restore_watchpoint_registers_def by (intro keeps_intros) simp

lemma keeps_follow_child [keeps_intros]: "keeps world_wf (follow_child os t child)"
  unfolding follow_child_def Let_def by (intro keeps_intros keeps_on_process) auto

lemma keeps_classify_fork_child [keeps_intros]: "keeps world_wf (classify_fork_child os t child)"
  unfolding classify_fork_child_def by (intro keeps_intros keeps_modify_dbg after_handoff_wf)

lemma keeps_classify_fork_parent [keeps_intros]: "keeps world_wf (classify_fork_parent os t child)"
  unfolding classify_fork_parent_def by (intro keeps_intros) auto

lemma keeps_classify_fork [keeps_intros]: "keeps world_wf (classify_fork os n event)"
  unfolding classify_fork_def by (intro keeps_intros) auto

lemma keeps_classify_clone [keeps_intros]: "keeps world_wf (classify_clone event)"
  unfolding classify_clone_def by (intro keeps_intros keeps_modify_dbg) auto

lemma keeps_classify_watchpoint_stop [keeps_intros]: "keeps world_wf (classify_watchpoint_stop os t)"
  unfolding classify_watchpoint_stop_def prod.case by (intro keeps_intros) auto

lemma keeps_classify_trap [keeps_intros]: "keeps world_wf (classify_trap os t)"
  unfolding classify_trap_def Let_def by (intro keeps_intros) auto

lemma keeps_classify_stop [keeps_intros]: "keeps world_wf (classify_stop os expected event)"
  unfolding classify_stop_def Let_def by (intro keeps_intros keeps_modify_dbg) auto

lemma keeps_classify_event [keeps_intros]: "keeps world_wf (classify_event os n expected event)"
  unfolding classify_event_def by (intro keeps_intros)

lemma keeps_wait_active_process [keeps_intros]: "keeps world_wf (wait_active_process os n)"
  unfolding wait_active_process_def by (intro keeps_intros keeps_on_process)

lemma keeps_wait_and_classify [keeps_intros]: "keeps world_wf (wait_and_classify os n expected)"
  by (induction n) (auto intro!: keeps_intros)

section \<open>Execution control\<close>

lemma reinserted_wf:
  assumes "dbg_wf d"
  shows "dbg_wf ((set_installed b a d)\<lparr>d_pending_step := None\<rparr>)"
proof -
  let ?d = "set_installed b a (d\<lparr>d_pending_step := None\<rparr>)"
  have "dbg_wf ?d" by (rule set_installed_wf [OF dbg_wf_clear_pending [OF assms]]) simp
  moreover have "(set_installed b a d)\<lparr>d_pending_step := None\<rparr> = ?d"
    by (simp add: set_installed_def split: option.split)
  ultimately show ?thesis by simp
qed

text \<open>Reinsertion sets the flag while the step is still marked pending; clearing the mark follows
  without a chance to throw in between.\<close>

lemma keeps_end_displaced_step [keeps_intros]: "keeps world_wf (end_displaced_step os a t expose info)"
  by (rule keepsI)
    (auto simp: end_displaced_step_def reinsert_breakpoint_def wp_simps reinserted_wf dbg_wf_clear_pending
      intro!: wp_any)

lemma keeps_step_over_pending_breakpoint [keeps_intros]:
  "keeps world_wf (step_over_pending_breakpoint os n expose pending)"
  unfolding step_over_pending_breakpoint_def by (intro keeps_intros keeps_on_process) auto

lemma keeps_resume_current [keeps_intros]: "keeps world_wf (resume_current os n resume expected policy)"
  unfolding resume_current_def by (intro keeps_intros keeps_modify_dbg keeps_on_process) auto

lemma keeps_continue_execution [keeps_intros]: "keeps world_wf (continue_execution os n policy)"
  unfolding continue_execution_def by (intro keeps_intros)

lemma keeps_single_step [keeps_intros]: "keeps world_wf (single_step os n policy)"
  unfolding single_step_def by (intro keeps_intros)

lemma keeps_debugger_detach [keeps_intros]: "keeps world_wf (debugger_detach os policy)"
  unfolding debugger_detach_def Let_def
  by (intro keeps_intros keeps_modify_dbg keeps_on_process discard_image_state_wf)

lemma keeps_select_thread [keeps_intros]: "keeps world_wf (select_thread t)"
  unfolding select_thread_def by (intro keeps_intros keeps_on_process)

lemma keeps_set_fork_follow_policy [keeps_intros]: "keeps world_wf (set_fork_follow_policy policy)"
  unfolding set_fork_follow_policy_def by (intro keeps_intros keeps_modify_dbg) auto

lemma keeps_set_register [keeps_intros]: "keeps world_wf (set_register os name v)"
  unfolding set_register_def by (intro keeps_intros) auto

lemma keeps_remove_watchpoint [keeps_intros]: "keeps world_wf (remove_watchpoint os i)"
  unfolding remove_watchpoint_def by (intro keeps_intros keeps_modify_dbg) auto

lemma keeps_watchpoint_length_encoding [keeps_intros]: "keeps I (watchpoint_length_encoding len)"
  unfolding watchpoint_length_encoding_def by (intro keeps_intros)

lemma keeps_add_write_watchpoint [keeps_intros]: "keeps world_wf (add_write_watchpoint os a len)"
  unfolding add_write_watchpoint_def Let_def by (intro keeps_intros keeps_modify_dbg) auto

lemma init_debugger_wf: "process_wf p \<Longrightarrow> dbg_wf (init_debugger p s path)"
  by (simp add: init_debugger_def dbg_wf_def domain_wf_def smap_wf_simps) (simp add: smap_empty_def)

section \<open>Sessions\<close>

text \<open>The public commands of \<^verbatim>\<open>Debugger\<close>.\<close>

datatype command =
    Cmd_add_breakpoint u64
  | Cmd_remove_breakpoint nat
  | Cmd_discard_breakpoint nat
  | Cmd_add_write_watchpoint u64 nat
  | Cmd_remove_watchpoint nat
  | Cmd_continue signal_policy
  | Cmd_single_step signal_policy
  | Cmd_detach signal_policy
  | Cmd_select_thread pid
  | Cmd_select_process pid
  | Cmd_set_fork_follow_policy fork_follow_policy
  | Cmd_set_register string u64
  | Cmd_write_memory u64 "u8 list"

definition voidM :: "('s, 'a) prog \<Rightarrow> ('s, unit) prog" where
  "voidM m = bindM m (\<lambda>_. returnM ())"

fun run_command :: "'k os \<Rightarrow> nat \<Rightarrow> command \<Rightarrow> ('k world, unit) prog" where
  "run_command os n (Cmd_add_breakpoint a) = voidM (add_breakpoint os a)"
| "run_command os n (Cmd_remove_breakpoint i) = voidM (remove_breakpoint os i)"
| "run_command os n (Cmd_discard_breakpoint i) = voidM (discard_breakpoint i)"
| "run_command os n (Cmd_add_write_watchpoint a l) = voidM (add_write_watchpoint os a l)"
| "run_command os n (Cmd_remove_watchpoint i) = voidM (remove_watchpoint os i)"
| "run_command os n (Cmd_continue p) = voidM (continue_execution os n p)"
| "run_command os n (Cmd_single_step p) = voidM (single_step os n p)"
| "run_command os n (Cmd_detach p) = debugger_detach os p"
| "run_command os n (Cmd_select_thread t) = select_thread t"
| "run_command os n (Cmd_select_process p) = select_process os n p"
| "run_command os n (Cmd_set_fork_follow_policy p) = set_fork_follow_policy p"
| "run_command os n (Cmd_set_register r v) = set_register os r v"
| "run_command os n (Cmd_write_memory a bs) = write_memory os a bs"

text \<open>
  A session starts with a successful launch or attach. A command may return or throw; the caller
  (the command line) catches exceptions and goes on. Between commands the kernel may move on its
  own, which is any change of the kernel state.
\<close>

inductive session :: "'k os \<Rightarrow> 'k world \<Rightarrow> bool" for os where
  launched: "process_wf (d_process (dbg w)) \<Longrightarrow> debugger_launch os n w = (Ok (), w') \<Longrightarrow> session os w'"
| attached: "process_wf (d_process (dbg w)) \<Longrightarrow> debugger_attach os n p w = (Ok (), w') \<Longrightarrow> session os w'"
| returned: "session os w \<Longrightarrow> run_command os n c w = (Ok (), w') \<Longrightarrow> session os w'"
| threw: "session os w \<Longrightarrow> run_command os n c w = (Throw e, w') \<Longrightarrow> session os w'"
| kernel_moved: "session os w \<Longrightarrow> session os (w\<lparr>kern := k\<rparr>)"

lemma keeps_voidM [keeps_intros]: "keeps I m \<Longrightarrow> keeps I (voidM m)"
  unfolding voidM_def by (intro keeps_intros)

lemma keeps_run_command: "keeps world_wf (run_command os n c)"
  by (cases c) (auto intro!: keeps_intros)

text \<open>The two constructors of a session establish the invariant.\<close>

lemma wp_on_process_wf:
  assumes "keeps pworld_wf m" and "process_wf (d_process (dbg w))"
    and "\<And>a w'. process_wf (d_process (dbg w')) \<Longrightarrow> Q a w'"
  shows "wp (on_process m) Q (\<lambda>_ _. True) w"
proof -
  have "wp m (\<lambda>_. pworld_wf) (\<lambda>_. pworld_wf) \<lparr>proc = d_process (dbg w), pkern = kern w\<rparr>"
    by (rule keepsD [OF assms(1)]) (simp add: assms(2))
  then show ?thesis
    unfolding wp_on_process by (rule wp_mono) (auto intro: assms(3))
qed

lemma wp_start:
  assumes "process_wf (d_process (dbg w))" and "keeps pworld_wf m"
  shows "wp (thenM (on_process m) (bindM dbgM (\<lambda>d. let p = d_process d in
       catchM (thenM (f p) (bindM (make_stop r v (p_current_tid p)) (\<lambda>initial.
         bindM (g p) (\<lambda>path. modify_dbg (\<lambda>_. init_debugger p initial path)))))
      (\<lambda>e. thenM (h p) (throwM e))))) (\<lambda>_. world_wf) (\<lambda>_ _. True) w"
  unfolding wp_thenM [of "on_process m"]
  by (rule wp_on_process_wf [OF assms(2,1)])
    (auto simp: wp_simps init_debugger_wf Let_def intro!: wp_any)

lemma launched_wf:
  assumes "process_wf (d_process (dbg w))" and "debugger_launch os n w = (Ok (), w')"
  shows "world_wf w'"
  by (rule wp_OkD [OF wp_start [OF assms(1) keeps_launch] assms(2) [unfolded debugger_launch_def]])

lemma attached_wf:
  assumes "process_wf (d_process (dbg w))" and "debugger_attach os n p w = (Ok (), w')"
  shows "world_wf w'"
  unfolding debugger_attach_def
  by (rule wp_OkD [OF wp_start [OF assms(1) keeps_attach, where g = "\<lambda>_. on_kern (process_executable os p)"]
        assms(2) [unfolded debugger_attach_def]])

lemma session_wf: "session os w \<Longrightarrow> world_wf w"
proof (induction rule: session.induct)
  case (launched w n w')
  then show ?case by (rule launched_wf)
next
  case (attached w n p w')
  then show ?case by (rule attached_wf)
next
  case (returned w n c w')
  then show ?case by (blast intro: keeps_Ok [OF keeps_run_command])
next
  case (threw w n c e w')
  then show ?case by (blast intro: keeps_Throw [OF keeps_run_command])
next
  case (kernel_moved w k)
  then show ?case by simp
qed

end
