(* ===== verification/DebuggerMemory.thy ===== *)
theory DebuggerMemory
  imports DebuggerInv
begin

text \<open>
  What the breakpoint and memory commands of \<^verbatim>\<open>Debugger\<close> do to the tracee's memory. The program's
  view of memory is the real memory with the byte under every installed INT3 replaced by the saved
  original. Arming, removing and stepping over breakpoints never change that view, and a memory
  write changes it at the written addresses alone.
\<close>

section \<open>The program's view\<close>

definition program_view :: "(u64, breakpoint) smap \<Rightarrow> (u64 \<Rightarrow> u8 option) \<Rightarrow> u64 \<Rightarrow> u8 option" where
  "program_view bps m a = (case smap_find bps a of
     None \<Rightarrow> m a
   | Some bp \<Rightarrow> if bp_installed bp then Some (bp_original_byte bp) else m a)"

text \<open>Every installed breakpoint has its INT3 in memory.\<close>

definition patched :: "(u64, breakpoint) smap \<Rightarrow> (u64 \<Rightarrow> u8 option) \<Rightarrow> bool" where
  "patched bps m \<longleftrightarrow> (\<forall>a bp. smap_find bps a = Some bp \<longrightarrow> bp_installed bp \<longrightarrow> m a = Some kInt3)"

abbreviation view_of :: "('k \<Rightarrow> u64 \<Rightarrow> u8 option) \<Rightarrow> 'k world \<Rightarrow> u64 \<Rightarrow> u8 option" where
  "view_of mem w \<equiv> program_view (d_breakpoints (dbg w)) (mem (kern w))"

abbreviation patched_in :: "('k \<Rightarrow> u64 \<Rightarrow> u8 option) \<Rightarrow> 'k world \<Rightarrow> bool" where
  "patched_in mem w \<equiv> patched (d_breakpoints (dbg w)) (mem (kern w))"

text \<open>The memory calls of all tasks of the active process act on one memory.\<close>

abbreviation owns_memory :: "'k os \<Rightarrow> ('k \<Rightarrow> u64 \<Rightarrow> u8 option) \<Rightarrow> 'k world \<Rightarrow> bool" where
  "owns_memory os mem w \<equiv> shared_memory_laws os (set (tids (d_process (dbg w)))) mem"

lemma task_state_tids: "task_state p t = Some s \<Longrightarrow> t \<in> set (tids p)"
  by (auto simp: task_state_def tids_def smap_keys_def dest: smap_find_SomeD intro: rev_image_eqI)

lemma dbg_wf_smap: "dbg_wf d \<Longrightarrow> smap_wf (d_breakpoints d)"
  by (simp add: dbg_wf_def domain_wf_def table_wf_def)

lemma dbg_wf_ids: "dbg_wf d \<Longrightarrow> smap_wf (d_breakpoint_ids d)"
  by (simp add: dbg_wf_def domain_wf_def table_wf_def)

lemma dbg_wf_id_find:
  "dbg_wf d \<Longrightarrow> smap_find (d_breakpoint_ids d) i = Some a \<Longrightarrow>
     \<exists>bp. smap_find (d_breakpoints d) a = Some bp \<and> bp_id bp = i"
  by (simp add: dbg_wf_def domain_wf_def table_wf_def)

section \<open>One byte through the world\<close>

lemma wp_world_write_byte:
  assumes "shared_memory_laws os tasks mem" and "t \<in> tasks"
    and "\<And>k'. mem k' = (mem (kern w))(a \<mapsto> b) \<Longrightarrow> Q () (w\<lparr>kern := k'\<rparr>)"
    and "\<And>e k'. mem k' = mem (kern w) \<Longrightarrow> E e (w\<lparr>kern := k'\<rparr>)"
  shows "wp (on_kern (ll_write_byte os t a b)) Q E w"
  unfolding wp_on_kern by (rule wp_ll_write_byte [OF assms(1,2)]) (auto intro: assms(3,4))

lemma wp_world_read_byte:
  assumes "shared_memory_laws os tasks mem" and "t \<in> tasks"
    and "\<And>b. mem (kern w) a = Some b \<Longrightarrow> Q b w"
    and "\<And>e. E e w"
  shows "wp (on_kern (ll_read_byte os t a)) Q E w"
  unfolding wp_on_kern
  by (rule wp_mono [OF ll_read_byte_spec [OF assms(1,2)]]) (auto intro: assms(3,4))

lemma wp_world_set_registers:
  assumes "shared_memory_laws os tasks mem"
    and "\<And>k'. mem k' = mem (kern w) \<Longrightarrow> Q () (w\<lparr>kern := k'\<rparr>)"
    and "\<And>e k'. mem k' = mem (kern w) \<Longrightarrow> E e (w\<lparr>kern := k'\<rparr>)"
  shows "wp (on_kern (ll_set_registers os t regs)) Q E w"
proof -
  obtain r e k' where set: "k_setregs os t regs (kern w) = ((r, e), k')" by (metis prod.collapse)
  moreover have "mem (snd (k_setregs os t regs (kern w))) = mem (kern w)"
    using assms(1) by (simp add: shared_memory_laws_def)
  ultimately have "mem k' = mem (kern w)" by simp
  then show ?thesis
    unfolding wp_on_kern ll_set_registers_def wp_ptrace_request set by (auto intro: assms(2,3))
qed

text \<open>The precondition of every memory command: the stopped task belongs to the process.\<close>

lemma wp_stopped_task:
  assumes "\<And>t. t \<in> set (tids (d_process (dbg w))) \<Longrightarrow>
      p_state (d_process (dbg w)) = PS_Stopped \<Longrightarrow> Q t w"
    and "\<And>e. E e w"
  shows "wp stopped_tid Q E w"
  unfolding wp_stopped_tid Let_def by (auto intro: assms(1) task_state_tids assms(2))

section \<open>The memory commands return or throw\<close>

lemma terminates_parts [terminates_intros]:
  "terminates m \<Longrightarrow> terminates (on_kern m)" "terminates dbgM" "terminates (modify_dbg f)"
  "terminates stopped_tid"
  unfolding on_kern_def dbgM_def modify_dbg_def stopped_tid_def Let_def
  by (intro terminates_intros | assumption)+

lemma terminates_memory_commands [terminates_intros]:
  "terminates (add_breakpoint os a)" "terminates (remove_breakpoint os i)"
  "terminates (prepare_breakpoint_hit os a regs t)" "terminates (reinsert_breakpoint os a t)"
  "terminates (restore_all_breakpoints os)" "terminates (write_memory os a bytes)"
  "terminates (read_memory os a len)"
  unfolding add_breakpoint_def remove_breakpoint_def prepare_breakpoint_hit_def
    reinsert_breakpoint_def restore_all_breakpoints_def restore_breakpoint_def write_memory_def
    write_cell_def read_memory_def Let_def
  by (intro terminates_intros)+

section \<open>Arming and removing\<close>

lemma wp_add_breakpoint:
  assumes laws: "owns_memory os mem w"
  shows "wp (add_breakpoint os a)
    (\<lambda>i w'. \<exists>b. mem (kern w) a = Some b \<and> smap_find (d_breakpoints (dbg w)) a = None \<and>
       mem (kern w') = (mem (kern w))(a \<mapsto> kInt3) \<and> i = next_breakpoint_id (dbg w) \<and>
       p_state (d_process (dbg w)) = PS_Stopped \<and>
       dbg w' = (dbg w)\<lparr>next_breakpoint_id := i + 1,
         d_breakpoints := smap_emplace a \<lparr>bp_id = i, bp_address = a, bp_original_byte = b,
           bp_installed = True\<rparr> (d_breakpoints (dbg w)),
         d_breakpoint_ids := smap_emplace i a (d_breakpoint_ids (dbg w))\<rparr>)
    (\<lambda>_ w'. mem (kern w') = mem (kern w) \<and> dbg w' = dbg w) w"
  unfolding add_breakpoint_def Let_def
  by (auto simp: wp_simps smap_count_def simp del: wp_stopped_tid wp_on_kern
      intro!: wp_stopped_task wp_world_read_byte [OF laws] wp_world_write_byte [OF laws] split: option.splits)

text \<open>What removal does to memory: it writes back the byte of an installed breakpoint of a stopped
  process, and nothing otherwise.\<close>

lemma wp_remove_breakpoint:
  assumes laws: "owns_memory os mem w"
  shows "wp (remove_breakpoint os i)
    (\<lambda>r w'. case smap_find (d_breakpoint_ids (dbg w)) i of
       None \<Rightarrow> \<not> r \<and> w' = w
     | Some a \<Rightarrow> r \<and> dbg w' = forget_breakpoint i a (dbg w) \<and>
         mem (kern w') = (case smap_find (d_breakpoints (dbg w)) a of
            None \<Rightarrow> mem (kern w)
          | Some bp \<Rightarrow> if bp_installed bp \<and> p_state (d_process (dbg w)) = PS_Stopped
              then (mem (kern w))(a \<mapsto> bp_original_byte bp) else mem (kern w)))
    (\<lambda>_ w'. mem (kern w') = mem (kern w) \<and> dbg w' = dbg w) w"
  unfolding remove_breakpoint_def
  by (auto simp: wp_simps simp del: wp_stopped_tid wp_on_kern
      intro!: wp_stopped_task wp_world_write_byte [OF laws])

section \<open>How table and memory updates act on the view\<close>

lemma view_emplace_installed:
  assumes "smap_wf bps" and "smap_find bps a = None" and "m a = Some b"
    and "bp_installed bp" and "bp_original_byte bp = b"
  shows "program_view (smap_emplace a bp bps) (m(a \<mapsto> c)) = program_view bps m"
  using assms by (auto simp: program_view_def smap_find_emplace fun_eq_iff split: option.split)

lemma patched_emplace:
  assumes "smap_wf bps" and "smap_find bps a = None" and "patched bps m"
  shows "patched (smap_emplace a bp bps) (m(a \<mapsto> kInt3))"
  using assms by (auto simp: patched_def smap_find_emplace)

lemma view_erase_restored:
  assumes "smap_find bps a = Some bp"
  shows "program_view (smap_erase a bps) (if bp_installed bp then m(a \<mapsto> bp_original_byte bp) else m)
     = program_view bps m"
  using assms by (auto simp: program_view_def smap_find_simps fun_eq_iff split: option.split)

lemma patched_erase:
  assumes "patched bps m"
  shows "patched (smap_erase a bps) (m(a := v))"
  using assms by (auto simp: patched_def smap_find_simps)

lemma patched_erase_same: "patched bps m \<Longrightarrow> patched (smap_erase a bps) m"
  by (auto simp: patched_def smap_find_simps)

lemma forget_breakpoint_tables [simp]:
  "d_breakpoints (forget_breakpoint i a d) = smap_erase a (d_breakpoints d)"
  "d_breakpoint_ids (forget_breakpoint i a d) = smap_erase i (d_breakpoint_ids d)"
  "d_process (forget_breakpoint i a d) = d_process d"
  "next_breakpoint_id (forget_breakpoint i a d) = next_breakpoint_id d"
  by (simp_all add: forget_breakpoint_def Let_def split: option.split)

lemma view_set_installed:
  assumes "smap_wf bps" and "smap_find bps a = Some bp" and "bp_installed bp"
  shows "program_view (smap_assign a (bp\<lparr>bp_installed := False\<rparr>) bps) (m(a \<mapsto> bp_original_byte bp))
     = program_view bps m"
  using assms by (auto simp: program_view_def smap_find_simps fun_eq_iff split: option.split)

lemma view_set_reinstalled:
  assumes "smap_wf bps" and "smap_find bps a = Some bp" and "\<not> bp_installed bp"
    and "m a = Some (bp_original_byte bp)"
  shows "program_view (smap_assign a (bp\<lparr>bp_installed := True\<rparr>) bps) (m(a \<mapsto> c)) = program_view bps m"
  using assms by (auto simp: program_view_def smap_find_simps fun_eq_iff split: option.split)

lemma patched_set_reinstalled:
  assumes "smap_wf bps" and "patched bps m"
  shows "patched (smap_assign a bp bps) (m(a \<mapsto> kInt3))"
  using assms by (auto simp: patched_def smap_find_simps)

lemma patched_set_uninstalled:
  assumes "smap_wf bps" and "patched bps m"
  shows "patched (smap_assign a (bp\<lparr>bp_installed := False\<rparr>) bps) (m(a \<mapsto> b))"
  using assms by (auto simp: patched_def smap_find_simps)

section \<open>The view across the breakpoint commands\<close>

lemma add_breakpoint_view:
  assumes "owns_memory os mem w" and "world_wf w" and "patched_in mem w"
  shows "wp (add_breakpoint os a)
    (\<lambda>_ w'. view_of mem w' = view_of mem w \<and> patched_in mem w' \<and> mem (kern w') a = Some kInt3)
    (\<lambda>_ w'. mem (kern w') = mem (kern w) \<and> dbg w' = dbg w) w"
  by (rule wp_mono [OF wp_add_breakpoint [OF assms(1)]])
    (use assms(2,3) in \<open>auto simp: view_emplace_installed patched_emplace dbg_wf_smap\<close>)

lemma remove_breakpoint_view:
  assumes "owns_memory os mem w" and "world_wf w" and "patched_in mem w"
    and "p_state (d_process (dbg w)) = PS_Stopped"
  shows "wp (remove_breakpoint os i)
    (\<lambda>_ w'. view_of mem w' = view_of mem w \<and> patched_in mem w' \<and>
       smap_find (d_breakpoint_ids (dbg w')) i = None)
    (\<lambda>_ w'. mem (kern w') = mem (kern w) \<and> dbg w' = dbg w) w"
proof (rule wp_mono [OF wp_remove_breakpoint [OF assms(1)]], goal_cases)
  case (1 r w')
  show ?case
  proof (cases "smap_find (d_breakpoint_ids (dbg w)) i")
    case None
    with 1 assms(3) show ?thesis by simp
  next
    case (Some a)
    then obtain bp where "smap_find (d_breakpoints (dbg w)) a = Some bp"
      using dbg_wf_id_find [OF assms(2)] by blast
    with Some 1 assms(3,4) show ?thesis
      using view_erase_restored [of "d_breakpoints (dbg w)" a bp "mem (kern w)"]
      by (auto simp: patched_erase patched_erase_same smap_find_simps split: if_splits)
  qed
qed

text \<open>Arming and then removing gives back the memory and the tables.\<close>

lemma dbg_wf_fresh_id: "dbg_wf d \<Longrightarrow> smap_find (d_breakpoint_ids d) (next_breakpoint_id d) = None"
proof (rule ccontr)
  assume wf: "dbg_wf d" and "smap_find (d_breakpoint_ids d) (next_breakpoint_id d) \<noteq> None"
  then obtain a where "smap_find (d_breakpoint_ids d) (next_breakpoint_id d) = Some a" by blast
  with wf show False by (auto simp: dbg_wf_def domain_wf_def table_wf_def)
qed

lemma add_remove_breakpoint:
  assumes "owns_memory os mem w" and wf: "world_wf w"
  shows "wp (bindM (add_breakpoint os a) (remove_breakpoint os))
    (\<lambda>r w'. r \<and> mem (kern w') = mem (kern w) \<and>
       d_breakpoints (dbg w') = d_breakpoints (dbg w) \<and>
       d_breakpoint_ids (dbg w') = d_breakpoint_ids (dbg w))
    (\<lambda>_ _. True) w"
  unfolding wp_bindM
proof (rule wp_mono [OF wp_add_breakpoint [OF assms(1)]], goal_cases)
  case (1 i w')
  then obtain b where b: "mem (kern w) a = Some b" "smap_find (d_breakpoints (dbg w)) a = None"
      "mem (kern w') = (mem (kern w))(a \<mapsto> kInt3)" "i = next_breakpoint_id (dbg w)"
      "p_state (d_process (dbg w)) = PS_Stopped"
    and d: "dbg w' = (dbg w)\<lparr>next_breakpoint_id := i + 1,
         d_breakpoints := smap_emplace a \<lparr>bp_id = i, bp_address = a, bp_original_byte = b,
           bp_installed = True\<rparr> (d_breakpoints (dbg w)),
         d_breakpoint_ids := smap_emplace i a (d_breakpoint_ids (dbg w))\<rparr>" by blast
  have laws: "owns_memory os mem w'" using assms(1) d by simp
  have "(mem (kern w))(a \<mapsto> b) = mem (kern w)" using b(1) by auto
  then show ?case
    by (intro wp_mono [OF wp_remove_breakpoint [OF laws]])
      (use wf b d in \<open>auto simp: smap_find_emplace dbg_wf_smap dbg_wf_ids dbg_wf_fresh_id
         smap_erase_emplace_absent\<close>)
qed auto

section \<open>Hits, reinsertion and restoring everything\<close>

lemma set_installed_fields [simp]:
  "d_process (set_installed b a d) = d_process d"
  "d_pending_step (set_installed b a d) = d_pending_step d"
  by (simp_all add: set_installed_def split: option.split)

lemma set_installed_table:
  "smap_find (d_breakpoints d) a = Some bp \<Longrightarrow>
     d_breakpoints (set_installed b a d) = smap_assign a (bp\<lparr>bp_installed := b\<rparr>) (d_breakpoints d)"
  by (simp add: set_installed_def)

lemma prepare_breakpoint_hit_view:
  assumes laws: "shared_memory_laws os tasks mem" "t \<in> tasks"
    and "world_wf w" and "patched_in mem w"
  shows "wp (prepare_breakpoint_hit os a regs t)
    (\<lambda>_ w'. view_of mem w' = view_of mem w \<and> patched_in mem w' \<and>
       mem (kern w') a = view_of mem w a \<and>
       d_pending_step (dbg w') = Some \<lparr>ps_address = a, ps_tid = t\<rparr> \<and>
       breakpoint_register_snapshot (dbg w') t a = Some (regs\<lparr>rip := a\<rparr>))
    (\<lambda>_ w'. view_of mem w' = view_of mem w \<and> patched_in mem w' \<and>
       d_pending_step (dbg w') = d_pending_step (dbg w)) w"
  unfolding prepare_breakpoint_hit_def Let_def
  using assms(3,4) dbg_wf_smap [OF assms(3)]
  by (auto simp: wp_simps set_installed_table view_set_installed patched_set_uninstalled
      breakpoint_register_snapshot_def set_installed_def program_view_def
      simp del: wp_on_kern
      intro!: wp_world_set_registers [OF laws(1)] wp_world_write_byte [OF laws])

lemma reinsert_breakpoint_view:
  assumes laws: "shared_memory_laws os tasks mem" "t \<in> tasks"
    and "world_wf w" and "patched_in mem w"
    and bp: "smap_find (d_breakpoints (dbg w)) a = Some bp" "mem (kern w) a = Some (bp_original_byte bp)"
      "\<not> bp_installed bp"
  shows "wp (reinsert_breakpoint os a t)
    (\<lambda>_ w'. view_of mem w' = view_of mem w \<and> patched_in mem w' \<and> mem (kern w') a = Some kInt3)
    (\<lambda>_ w'. mem (kern w') = mem (kern w) \<and> dbg w' = dbg w) w"
  unfolding reinsert_breakpoint_def
  using assms(3,4) dbg_wf_smap [OF assms(3)] bp
  by (auto simp: wp_simps set_installed_table view_set_reinstalled patched_set_reinstalled
      simp del: wp_on_kern intro!: wp_world_write_byte [OF laws])

text \<open>The loop of \<^verbatim>\<open>restore_all_breakpoints\<close> over a part \<open>xs\<close> of the table.\<close>

definition uninstall :: "u64 set \<Rightarrow> (u64, breakpoint) smap \<Rightarrow> u64 \<Rightarrow> breakpoint option" where
  "uninstall as bps a = (if a \<in> as then map_option (\<lambda>bp. bp\<lparr>bp_installed := False\<rparr>) (smap_find bps a)
     else smap_find bps a)"

lemma uninstall_assign:
  "smap_wf bps \<Longrightarrow> smap_find bps a = Some bp \<Longrightarrow>
     smap_find (smap_assign a (bp\<lparr>bp_installed := False\<rparr>) bps) = uninstall {a} bps"
  by (auto simp: uninstall_def smap_find_simps fun_eq_iff)

lemma uninstall_none:
  "smap_find bps a = Some bp \<Longrightarrow> \<not> bp_installed bp \<Longrightarrow> uninstall {a} bps = smap_find bps"
  by (cases bp) (auto simp: uninstall_def fun_eq_iff)

lemma wp_restore_breakpoint:
  assumes laws: "shared_memory_laws os tasks mem" "t \<in> tasks"
    and "smap_wf (d_breakpoints (dbg w))" and "smap_find (d_breakpoints (dbg w)) a = Some bp"
  shows "wp (restore_breakpoint os t (a, bp))
    (\<lambda>_ w'. view_of mem w' = view_of mem w \<and> smap_wf (d_breakpoints (dbg w')) \<and>
       smap_find (d_breakpoints (dbg w')) = uninstall {a} (d_breakpoints (dbg w)))
    (\<lambda>_ w'. view_of mem w' = view_of mem w) w"
  unfolding restore_breakpoint_def using assms(3,4)
  by (auto simp: wp_simps set_installed_table view_set_installed uninstall_assign uninstall_none
      smap_wf_simps
      simp del: wp_on_kern intro!: wp_world_write_byte [OF laws])

lemma wp_restore_loop:
  assumes laws: "shared_memory_laws os tasks mem" "t \<in> tasks"
    and "smap_wf (d_breakpoints (dbg w))" and "distinct (map fst xs)"
    and "\<forall>(a, bp) \<in> set xs. smap_find (d_breakpoints (dbg w)) a = Some bp"
  shows "wp (forM xs (restore_breakpoint os t))
    (\<lambda>_ w'. view_of mem w' = view_of mem w \<and> smap_wf (d_breakpoints (dbg w')) \<and>
       smap_find (d_breakpoints (dbg w')) = uninstall (fst ` set xs) (d_breakpoints (dbg w)))
    (\<lambda>_ w'. view_of mem w' = view_of mem w) w"
  using assms(3-5)
proof (induction xs arbitrary: w)
  case Nil
  then show ?case by (simp add: wp_simps uninstall_def fun_eq_iff)
next
  case (Cons x xs)
  obtain a bp where x: "x = (a, bp)" by (cases x)
  have head: "smap_find (d_breakpoints (dbg w)) a = Some bp" using Cons.prems x by simp
  show ?case
    unfolding forM.simps wp_thenM x
  proof (rule wp_mono [OF wp_restore_breakpoint [OF laws Cons.prems(1) head]], goal_cases)
    case (1 u w')
    have "b \<noteq> a" if "(b, bq) \<in> set xs" for b bq using Cons.prems(2) x that by force
    with 1 Cons.prems(3) have tail: "\<forall>(b, bq) \<in> set xs. smap_find (d_breakpoints (dbg w')) b = Some bq"
      by (auto simp: uninstall_def)
    from 1 Cons.prems(2) show ?case
      by (intro wp_mono [OF Cons.IH [OF _ _ tail]])
        (auto simp: uninstall_def fun_eq_iff option.map_comp comp_def)
  qed auto
qed

lemma view_uninstalled:
  assumes "\<forall>a bp. smap_find bps a = Some bp \<longrightarrow> \<not> bp_installed bp"
  shows "program_view bps m = m"
  using assms by (auto simp: program_view_def fun_eq_iff split: option.split)

lemma restore_all_breakpoints_view:
  assumes laws: "owns_memory os mem w" and wf: "world_wf w"
  shows "wp (restore_all_breakpoints os)
    (\<lambda>_ w'. mem (kern w') = view_of mem w \<and> d_pending_step (dbg w') = None \<and>
       (\<forall>a. smap_find (d_breakpoints (dbg w')) a =
          map_option (\<lambda>bp. bp\<lparr>bp_installed := False\<rparr>) (smap_find (d_breakpoints (dbg w)) a)))
    (\<lambda>_ w'. view_of mem w' = view_of mem w) w"
proof -
  let ?bps = "d_breakpoints (dbg w)"
  have all: "uninstall (fst ` set ?bps) ?bps a =
      map_option (\<lambda>bp. bp\<lparr>bp_installed := False\<rparr>) (smap_find ?bps a)" for a
    using smap_find_None [of ?bps a] by (auto simp: uninstall_def)
  have "wp (forM ?bps (restore_breakpoint os t))
      (\<lambda>_ w'. mem (kern w') = view_of mem w \<and>
         (\<forall>a. smap_find (d_breakpoints (dbg w')) a =
            map_option (\<lambda>bp. bp\<lparr>bp_installed := False\<rparr>) (smap_find ?bps a)))
      (\<lambda>_ w'. view_of mem w' = view_of mem w) w"
    if t: "t \<in> set (tids (d_process (dbg w)))" for t
  proof (rule wp_mono [OF wp_restore_loop [OF laws t]], goal_cases)
    case (4 u w')
    then have find: "smap_find (d_breakpoints (dbg w')) a =
        map_option (\<lambda>bp. bp\<lparr>bp_installed := False\<rparr>) (smap_find ?bps a)" for a
      by (simp add: all)
    then have "program_view (d_breakpoints (dbg w')) (mem (kern w')) = mem (kern w')"
      by (intro view_uninstalled) auto
    with 4 find show ?case by simp
  qed (use wf in \<open>auto simp: smap_find_mem dbg_wf_smap smap_wf_distinct\<close>)
  then show ?thesis
    unfolding restore_all_breakpoints_def
    by (auto simp: wp_simps simp del: wp_stopped_tid intro!: wp_stopped_task elim!: wp_mono)
qed

section \<open>Memory writes\<close>

abbreviation breakpoint_installed :: "(u64, breakpoint) smap \<Rightarrow> u64 \<Rightarrow> bool" where
  "breakpoint_installed bps a \<equiv> (case smap_find bps a of None \<Rightarrow> False | Some bp \<Rightarrow> bp_installed bp)"

text \<open>What the second loop of \<^verbatim>\<open>write_memory\<close> leaves in memory.\<close>

definition written :: "(u64, breakpoint) smap \<Rightarrow> (u64 \<times> u8) list \<Rightarrow> (u64 \<Rightarrow> u8 option) \<Rightarrow> u64 \<Rightarrow> u8 option" where
  "written bps cells m a = (if breakpoint_installed bps a then m a else
     case map_of cells a of None \<Rightarrow> m a | Some b \<Rightarrow> Some b)"

lemma written_Nil: "written bps [] m = m"
  by (simp add: written_def fun_eq_iff)

lemma written_Cons:
  assumes "a \<notin> fst ` set cells"
  shows "written bps ((a, b) # cells) m =
    written bps cells (if breakpoint_installed bps a then m else m(a \<mapsto> b))"
proof -
  have "map_of cells a = None" using assms by (simp add: map_of_eq_None_iff)
  then show ?thesis by (auto simp: written_def fun_eq_iff split: option.split)
qed

lemma wp_write_cell:
  assumes laws: "shared_memory_laws os tasks mem" "t \<in> tasks"
  shows "wp (write_cell os t bps (a, b))
    (\<lambda>_ w'. dbg w' = dbg w \<and> mem (kern w') =
       (if breakpoint_installed bps a then mem (kern w) else (mem (kern w))(a \<mapsto> b)))
    (\<lambda>_ w'. dbg w' = dbg w \<and> mem (kern w') = mem (kern w)) w"
  unfolding write_cell_def prod.case
  by (auto simp: wp_simps simp del: wp_on_kern intro!: wp_world_write_byte [OF laws])

text \<open>A failing write has stored a prefix of the cells.\<close>

lemma wp_write_cells:
  assumes laws: "shared_memory_laws os tasks mem" "t \<in> tasks"
    and "distinct (map fst cells)"
  shows "wp (forM cells (write_cell os t bps))
    (\<lambda>_ w'. dbg w' = dbg w \<and> mem (kern w') = written bps cells (mem (kern w)))
    (\<lambda>_ w'. dbg w' = dbg w \<and> (\<exists>n < length cells. mem (kern w') = written bps (take n cells) (mem (kern w)))) w"
  using assms(3)
proof (induction cells arbitrary: w)
  case Nil
  then show ?case by (simp add: wp_simps written_Nil)
next
  case (Cons c cells)
  obtain a b where c: "c = (a, b)" by (cases c)
  have fresh: "a \<notin> fst ` set cells" using Cons.prems c by simp
  have fresh_take: "a \<notin> fst ` set (take n cells)" for n
    using fresh by (meson image_mono in_mono set_take_subset)
  show ?case
    unfolding forM.simps wp_thenM c
  proof (rule wp_mono [OF wp_write_cell [OF laws]], goal_cases)
    case (1 u w')
    then show ?case
    proof (intro wp_mono [OF Cons.IH], goal_cases)
      case (3 e w'')
      then obtain n where "n < length cells"
        "mem (kern w'') = written bps (take n cells) (mem (kern w'))" by blast
      with 1 3 show ?case
        by (intro conjI exI [of _ "Suc n"]) (auto simp: written_Cons [OF fresh_take])
    qed (use Cons.prems in \<open>auto simp: written_Cons [OF fresh]\<close>)
  next
    case (2 e w')
    then show ?case by (auto intro!: exI [of _ 0] simp: written_Nil)
  qed
qed

text \<open>The third loop only edits saved bytes.\<close>

definition rebyte :: "(u64 \<times> u8) list \<Rightarrow> (u64, breakpoint) smap \<Rightarrow> u64 \<Rightarrow> breakpoint option" where
  "rebyte us bps a = map_option (\<lambda>bp. case map_of us a of
     None \<Rightarrow> bp | Some b \<Rightarrow> bp\<lparr>bp_original_byte := b\<rparr>) (smap_find bps a)"

lemma set_original_byte_find:
  "smap_wf (d_breakpoints d) \<Longrightarrow>
    smap_wf (d_breakpoints (set_original_byte a b d)) \<and>
    smap_find (d_breakpoints (set_original_byte a b d)) = rebyte [(a, b)] (d_breakpoints d)"
  by (auto simp: set_original_byte_def rebyte_def smap_find_simps smap_wf_simps fun_eq_iff
      map_option.id [unfolded id_def] split: option.split)

lemma wp_saved_byte_loop:
  assumes "distinct (map fst us)" and "smap_wf (d_breakpoints (dbg w))"
  shows "wp (forM us (\<lambda>(a, b). modify_dbg (set_original_byte a b)))
    (\<lambda>_ w'. kern w' = kern w \<and> smap_find (d_breakpoints (dbg w')) = rebyte us (d_breakpoints (dbg w)))
    (\<lambda>_ _. False) w"
  using assms
proof (induction us arbitrary: w)
  case Nil
  then show ?case by (simp add: wp_simps rebyte_def fun_eq_iff map_option.id [unfolded id_def])
next
  case (Cons u us)
  obtain a b where u: "u = (a, b)" by (cases u)
  let ?w = "w\<lparr>dbg := set_original_byte a b (dbg w)\<rparr>"
  have step: "smap_wf (d_breakpoints (dbg ?w))"
    "smap_find (d_breakpoints (dbg ?w)) = rebyte [(a, b)] (d_breakpoints (dbg w))"
    using set_original_byte_find [OF Cons.prems(2)] by simp_all
  have "map_of us a = None" using Cons.prems u by (simp add: map_of_eq_None_iff)
  with step(2) have "rebyte us (d_breakpoints (dbg ?w)) = rebyte (u # us) (d_breakpoints (dbg w))"
    by (auto simp: rebyte_def u fun_eq_iff option.map_comp intro!: option.map_cong split: option.split)
  with Cons.IH [OF _ step(1)] Cons.prems(1) show ?case by (simp add: u wp_simps)
qed

text \<open>The first loop accepts a write only when every breakpoint in the range is installed.\<close>

lemma saved_byte_updates_Some:
  assumes "saved_byte_updates bps cells = Some us" and "distinct (map fst cells)"
  shows "distinct (map fst us) \<and> fst ` set us \<subseteq> fst ` set cells \<and>
    (\<forall>a. map_of us a = (if smap_find bps a = None then None else map_of cells a)) \<and>
    (\<forall>a bp. a \<in> fst ` set cells \<longrightarrow> smap_find bps a = Some bp \<longrightarrow> bp_installed bp)"
  using assms
proof (induction bps cells arbitrary: us rule: saved_byte_updates.induct)
  case (2 bps c b cells)
  show ?case
  proof (cases "smap_find bps c")
    case None
    then have "saved_byte_updates bps cells = Some us" using 2(3) by simp
    from 2(1) [OF None this] 2(4) None show ?thesis by auto
  next
    case (Some bp)
    with 2(3) obtain us' where us': "us = (c, b) # us'" "saved_byte_updates bps cells = Some us'"
        "bp_installed bp"
      by (auto split: if_splits)
    with 2(2) [OF Some] 2(4) have
      "distinct (map fst us') \<and> fst ` set us' \<subseteq> fst ` set cells \<and>
       (\<forall>a. map_of us' a = (if smap_find bps a = None then None else map_of cells a)) \<and>
       (\<forall>a bp. a \<in> fst ` set cells \<longrightarrow> smap_find bps a = Some bp \<longrightarrow> bp_installed bp)" by simp
    with Some us' 2(4) show ?thesis by auto
  qed
qed simp

lemma view_rebyte:
  assumes "smap_find bps' = rebyte us bps" and "saved_byte_updates bps cells = Some us"
    and "distinct (map fst cells)"
  shows "program_view bps' (written bps cells m) = program_view bps m ++ map_of cells"
proof
  fix a
  note us = saved_byte_updates_Some [OF assms(2,3)]
  have inst: "smap_find bps a = Some bp \<Longrightarrow> map_of cells a = Some b \<Longrightarrow> bp_installed bp" for bp b
    using us map_of_SomeD [of cells a b] by (force intro: rev_image_eqI)
  show "program_view bps' (written bps cells m) a = (program_view bps m ++ map_of cells) a"
    using us inst
    by (auto simp: program_view_def assms(1) rebyte_def written_def map_add_def split: option.splits)
qed

lemma patched_rebyte:
  assumes "smap_find bps' = rebyte us bps" and "patched bps m"
  shows "patched bps' (written bps cells m)"
  using assms by (auto simp: patched_def rebyte_def written_def split: option.splits)

text \<open>The cells of an accepted write are pairwise distinct: the range does not wrap.\<close>

lemma write_cells_distinct: "length bytes \<le> kMaxMemoryWriteBytes \<Longrightarrow> distinct (map fst (write_cells a bytes))"
proof -
  assume le: "length bytes \<le> kMaxMemoryWriteBytes"
  have "inj_on (\<lambda>i. a + of_nat i) {0..<length bytes}"
  proof (rule inj_onI)
    fix i j assume "i \<in> {0..<length bytes}" "j \<in> {0..<length bytes}"
      and "a + of_nat i = a + of_nat j"
    with le have "i < 2 ^ 64" "j < 2 ^ 64" "unat (of_nat i :: u64) = unat (of_nat j :: u64)" by auto
    then show "i = j" by (simp add: unat_of_nat)
  qed
  then show ?thesis by (simp add: write_cells_def distinct_map)
qed

lemma write_memory_view:
  assumes laws: "owns_memory os mem w" and wf: "world_wf w" and patch: "patched_in mem w"
  shows "wp (write_memory os a bytes)
    (\<lambda>_ w'. view_of mem w' = view_of mem w ++ map_of (write_cells a bytes) \<and> patched_in mem w')
    (\<lambda>_ w'. dbg w' = dbg w \<and> (\<exists>n \<le> length bytes.
       mem (kern w') = written (d_breakpoints (dbg w)) (take n (write_cells a bytes)) (mem (kern w)))) w"
proof -
  let ?bps = "d_breakpoints (dbg w)" and ?cells = "write_cells a bytes"
  have len: "length ?cells = length bytes" by (simp add: write_cells_def)
  have body: "wp (thenM (forM ?cells (write_cell os t ?bps)) (forM us (\<lambda>(a, b). modify_dbg (set_original_byte a b))))
      (\<lambda>_ w'. view_of mem w' = view_of mem w ++ map_of ?cells \<and> patched_in mem w')
      (\<lambda>_ w'. dbg w' = dbg w \<and> (\<exists>n \<le> length bytes. mem (kern w') = written ?bps (take n ?cells) (mem (kern w)))) w"
    if t: "t \<in> set (tids (d_process (dbg w)))" and us: "saved_byte_updates ?bps ?cells = Some us"
      and le: "length bytes \<le> kMaxMemoryWriteBytes" for t us
    unfolding wp_thenM
  proof (rule wp_mono [OF wp_write_cells [OF laws t write_cells_distinct [OF le]]], goal_cases)
    case (1 u w1)
    note facts = saved_byte_updates_Some [OF us write_cells_distinct [OF le]]
    from 1 have "smap_wf (d_breakpoints (dbg w1))" using wf by (simp add: dbg_wf_smap)
    from wp_saved_byte_loop [OF conjunct1 [OF facts] this] show ?case
    proof (rule wp_mono, goal_cases)
      case (1 u2 w2)
      with \<open>dbg w1 = dbg w \<and> _\<close> show ?case
        using view_rebyte [OF _ us write_cells_distinct [OF le]] patched_rebyte [OF _ patch] by simp
    qed simp
  next
    case (2 e w1)
    then show ?case using len by (metis less_imp_le)
  qed
  have unchanged: "\<exists>n \<le> length bytes. mem (kern w) = written ?bps (take n ?cells) (mem (kern w))"
    by (rule exI [of _ 0]) (simp add: written_Nil)
  show ?thesis
    unfolding write_memory_def
    by (auto simp: wp_simps unchanged written_Nil simp del: wp_stopped_tid wp_thenM
        intro!: wp_stopped_task body)
qed

end
