(* ===== verification/ReferenceKernel.thy ===== *)
theory ReferenceKernel
  imports Ptrace
begin

text \<open>
  A small concrete kernel with one address space, against which the hypotheses on the kernel
  parameter can be checked and concrete sessions can be run: byte-granular memory, the registers and
  debug registers of each task, and a queue of pending \<^verbatim>\<open>waitpid\<close> answers. It is the instance the
  concrete examples of the development use; no general theorem mentions it.
\<close>

unbundle bit_operations_syntax

record ref_kernel =
  rk_mem :: "u64 \<Rightarrow> u8 option"
  rk_regs :: "pid \<Rightarrow> user_regs"
  rk_user :: "pid \<Rightarrow> nat \<Rightarrow> u64"
  rk_events :: "(pid \<times> nat) list"
  rk_message :: u64
  rk_killed :: "pid list"

abbreviation (input) EIO :: nat where "EIO \<equiv> 5"
abbreviation (input) ECHILD :: nat where "ECHILD \<equiv> 10"

definition ref_os :: "pid \<Rightarrow> ref_kernel os" where
  "ref_os child = \<lparr>
     k_traceme = (\<lambda>k. ((0, 0), k)),
     k_attach = (\<lambda>t k. ((0, 0), k)),
     k_detach = (\<lambda>t sig k. ((0, 0), k)),
     k_setoptions = (\<lambda>t opts k. ((0, 0), k)),
     k_geteventmsg = (\<lambda>t k. ((0, 0), rk_message k)),
     k_cont = (\<lambda>t sig k. ((0, 0), k)),
     k_singlestep = (\<lambda>t sig k. ((0, 0), k)),
     k_getregs = (\<lambda>t k. ((0, 0), rk_regs k t)),
     k_setregs = (\<lambda>t regs k. ((0, 0), k\<lparr>rk_regs := (rk_regs k)(t := regs)\<rparr>)),
     k_peekuser = (\<lambda>t off k. (rk_user k t off, 0)),
     k_pokeuser = (\<lambda>t off v k. ((0, 0), k\<lparr>rk_user := (rk_user k)(t := (rk_user k t)(off := v))\<rparr>)),
     k_peekdata = (\<lambda>t a k. if word_mapped (rk_mem k) a then (word_at (rk_mem k) a, 0) else (-1, EIO)),
     k_pokedata = (\<lambda>t a v k. if word_mapped (rk_mem k) a
         then ((0, 0), k\<lparr>rk_mem := store_word (rk_mem k) a v\<rparr>) else ((-1, EIO), k)),
     k_waitpid = (\<lambda>t k. case rk_events k of
         [] \<Rightarrow> ((-1, 0, ECHILD), k)
       | (p, status) # rest \<Rightarrow> ((p, status, 0), k\<lparr>rk_events := rest\<rparr>)),
     k_kill = (\<lambda>t sig k. k\<lparr>rk_killed := rk_killed k @ [t]\<rparr>),
     k_fork = (\<lambda>k. ((child, 0), k)),
     k_task_dir = (\<lambda>p k. Some [''77'']),
     k_task_exists = (\<lambda>p t k. True),
     k_read_exe = (\<lambda>p k. Some ''/bin/tracee'')\<rparr>"

definition ref_state :: "(u64 \<Rightarrow> u8 option) \<Rightarrow> (pid \<times> nat) list \<Rightarrow> ref_kernel" where
  "ref_state m events = \<lparr>rk_mem = m, rk_regs = (\<lambda>_. zero_regs), rk_user = (\<lambda>_ _. 0),
     rk_events = events, rk_message = 0, rk_killed = []\<rparr>"

text \<open>Memory mapped from \<open>base\<close> on with the bytes of a list.\<close>

definition image_at :: "u64 \<Rightarrow> u8 list \<Rightarrow> u64 \<Rightarrow> u8 option" where
  "image_at base bytes a =
     (if unat (a - base) < length bytes then Some (bytes ! unat (a - base)) else None)"

lemma ref_shared_memory: "shared_memory_laws (ref_os c) tasks rk_mem"
  by (simp add: shared_memory_laws_def ref_os_def split: prod.splits)

end
