(* ===== verification/ExampleSession.thy ===== *)
theory ExampleSession
  imports DebuggerMemory ReferenceKernel
begin

text \<open>
  A concrete debugging session on the reference kernel, the one the theorems are applied to: a launched
  tracee stopped at its first instruction, without and with an installed breakpoint, and the equations
  that run programs on it.
\<close>

section \<open>A concrete session\<close>

text \<open>The equations that run a concrete program on the reference kernel.\<close>

lemmas monad_run = bindM_def thenM_def catchM_def returnM_def throwM_def getM_def modifyM_def whenM_def
  zoomM_def divergeM_def on_pkern_def modify_proc_def on_process_def on_kern_def dbgM_def modify_dbg_def
  ptrace_request_def Let_def

lemmas wait_run = wait_for_def wait_any_def record_wait_def wait_stopped_def WIFSTOPPED_def WIFEXITED_def
  WIFSIGNALED_def WSTOPSIG_def WEXITSTATUS_def WTERMSIG_def status_event_def

lemmas smap_run = smap_emplace_def smap_find_def smap_empty_def smap_erase_def smap_count_def

lemmas kernel_run = ref_os_def ref_state_def new_process_def ll_set_options_def ll_attach_def

lemmas attach_run = attach_def attach_passes.simps(2) [of _ _ _ 63, simplified] attach_task_def attach_settle_def
  thread_ids_def parse_tid_def stoll_def digit_value_def is_space_def List.map_filter_def update_aggregate_state_def

lemmas launch_run = debugger_launch_def launch_def init_debugger_def make_stop_def next_stop_sequence_def
  process_executable_def

text \<open>A launched tracee, stopped at its first instruction, with sixteen mapped bytes at
  \<open>0x401000\<close>: the state the examples below start from.\<close>

definition example_image :: "u8 list" where
  "example_image = [0x55, 0x48, 0x89, 0xe5, 0xb8, 0x2a, 0, 0, 0, 0x5d, 0xc3, 0x90, 0x90, 0x90, 0x90,
     0x90, 0x90, 0x90, 0x90, 0x90, 0x90, 0x90, 0x90, 0x90]"

definition example_kernel :: ref_kernel where
  "example_kernel = ref_state (image_at 0x401000 example_image) [(77, 0x57f)]"

definition example_world :: "ref_kernel world" where
  "example_world = \<lparr>dbg = init_debugger (become_stopped 77 (new_process 77 Launched))
       (blank_stop SR_InitialExec SIGTRAP 77 1) ''/bin/tracee'',
     stop_sequence = 1, kern = example_kernel\<rparr>"

text \<open>The same session with an installed breakpoint at \<open>0x401004\<close>.\<close>

definition example_breakpoint :: breakpoint where
  "example_breakpoint = \<lparr>bp_id = 1, bp_address = 0x401004, bp_original_byte = 0xb8, bp_installed = True\<rparr>"

definition example_armed :: "ref_kernel world" where
  "example_armed = example_world\<lparr>
     dbg := (dbg example_world)\<lparr>next_breakpoint_id := 2,
       d_breakpoints := smap_emplace 0x401004 example_breakpoint smap_empty,
       d_breakpoint_ids := smap_emplace 1 0x401004 smap_empty\<rparr>,
     kern := ref_state (image_at 0x401000 (example_image[4 := 0xcc])) []\<rparr>"

lemma example_laws: "owns_memory (ref_os 77) rk_mem w"
  by (rule ref_shared_memory)

lemma example_wf: "world_wf example_world"
  by (simp add: example_world_def init_debugger_wf become_stopped_wf)

lemma example_patched: "patched_in rk_mem example_world"
  by (simp add: example_world_def init_debugger_def patched_def smap_empty_find)

lemma example_armed_patched: "patched_in rk_mem example_armed"
proof -
  have "rk_mem (kern example_armed) 0x401004 = Some kInt3" by code_simp
  then show ?thesis
    by (auto simp: patched_def example_armed_def smap_find_emplace smap_empty_find smap_wf_simps split: if_splits)
qed

lemma example_armed_wf: "world_wf example_armed"
  using dbg_wf_add [of "dbg example_world" "0x401004" "0xb8" True] example_wf
  by (simp add: example_armed_def example_breakpoint_def example_world_def init_debugger_def smap_empty_find
      numeral_2_eq_2)

definition example_launched :: "ref_kernel world" where
  "example_launched = snd (debugger_launch (ref_os 77) (Suc 0) example_world)"

lemma example_launched_session: "session (ref_os 77) example_launched"
proof (rule session.launched [where w = example_world and n = "Suc 0"])
  show "process_wf (d_process (dbg example_world))"
    by (simp add: example_world_def init_debugger_def become_stopped_wf)
  have "fst (debugger_launch (ref_os 77) (Suc 0) example_world) = Ok ()"
    by (simp add: launch_run monad_run wait_run smap_run kernel_run example_world_def example_kernel_def)
  then show "debugger_launch (ref_os 77) (Suc 0) example_world = (Ok (), example_launched)"
    by (simp add: example_launched_def prod_eq_iff)
qed

text \<open>A stack with two caller frames, linked by saved frame pointers.\<close>

definition example_stack :: "u8 list" where
  "example_stack = word_bytes 0x7010 @ word_bytes 0x401009 @ word_bytes 0 @ word_bytes 0x40100a"

definition example_unwind :: "ref_kernel world" where
  "example_unwind = example_world\<lparr>kern := (ref_state (image_at 0x7000 example_stack) [])
     \<lparr>rk_regs := (\<lambda>_. zero_regs\<lparr>rip := 0x401004, rbp := 0x7000\<rparr>)\<rparr>\<rparr>"

end
