(* ===== verification/CallDecoder.thy ===== *)
theory CallDecoder
  imports Prelude
begin

text \<open>
  The near-call length decoder of \<^verbatim>\<open>src/src/x86/call_decoder.cpp\<close>, used by source-level \<open>next\<close>,
  and its agreement with a reference description of the x86-64 encoding (opcode, ModRM, SIB and
  displacement bytes).
\<close>

unbundle bit_operations_syntax

text \<open>\<^verbatim>\<open>ByteReader\<close>: the byte at an offset from the instruction, if it can be read.\<close>

type_synonym byte_reader = "nat \<Rightarrow> u8 option"

definition modrm_mod :: "u8 \<Rightarrow> u8" where "modrm_mod m = drop_bit 6 m AND 3"
definition modrm_reg :: "u8 \<Rightarrow> u8" where "modrm_reg m = drop_bit 3 m AND 7"
definition modrm_rm :: "u8 \<Rightarrow> u8" where "modrm_rm m = m AND 7"

definition decode_supported_near_call_length :: "byte_reader \<Rightarrow> nat option" where
  "decode_supported_near_call_length read_byte =
    (case read_byte 0 of None \<Rightarrow> None | Some first \<Rightarrow>
     if first = 0xe8 then Some 5
     else if first = 0x41 \<or> first = 0x48 \<or> first = 0x49 then
       (case (read_byte 1, read_byte 2) of
          (Some opcode, Some modrm_byte) \<Rightarrow>
            if opcode \<noteq> 0xff then None
            else if modrm_reg modrm_byte = 2 \<and> modrm_mod modrm_byte = 3 then Some 3
            else None
        | _ \<Rightarrow> None)
     else if first \<noteq> 0xff then None
     else (case read_byte 1 of None \<Rightarrow> None | Some modrm_byte \<Rightarrow>
       let md = modrm_mod modrm_byte; reg = modrm_reg modrm_byte; rm = modrm_rm modrm_byte in
       if reg \<noteq> 2 then None
       else if md = 3 then Some 2
       else if md = 0 \<and> rm = 5 then Some 6
       else if md = 0 \<and> rm = 4 then
         (case read_byte 2 of None \<Rightarrow> None | Some sib \<Rightarrow>
            Some (if sib AND 7 = 5 then 7 else 3))
       else if md = 0 then Some 2
       else if md = 1 then Some (if rm = 4 then 4 else 3)
       else if md = 2 then Some (if rm = 4 then 7 else 6)
       else None))"

text \<open>The same function on a reader that runs in a state and may throw, as \<^verbatim>\<open>std::function\<close> readers of a
  live process do: which bytes are read, and in which order.\<close>

definition decode_near_call :: "(nat \<Rightarrow> ('s, u8 option) prog) \<Rightarrow> ('s, nat option) prog" where
  "decode_near_call read_byte = bindM (read_byte 0) (\<lambda>first. case first of
     None \<Rightarrow> returnM None
   | Some first \<Rightarrow>
     if first = 0xe8 then returnM (Some 5)
     else if first = 0x41 \<or> first = 0x48 \<or> first = 0x49 then
       bindM (read_byte 1) (\<lambda>opcode. bindM (read_byte 2) (\<lambda>modrm_byte.
         returnM (case (opcode, modrm_byte) of
           (Some opc, Some m) \<Rightarrow> if opc \<noteq> 0xff then None
             else if modrm_reg m = 2 \<and> modrm_mod m = 3 then Some 3 else None
         | _ \<Rightarrow> None)))
     else if first \<noteq> 0xff then returnM None
     else bindM (read_byte 1) (\<lambda>modrm_byte. case modrm_byte of
       None \<Rightarrow> returnM None
     | Some m \<Rightarrow>
       let md = modrm_mod m; reg = modrm_reg m; rm = modrm_rm m in
       if reg \<noteq> 2 then returnM None
       else if md = 3 then returnM (Some 2)
       else if md = 0 \<and> rm = 5 then returnM (Some 6)
       else if md = 0 \<and> rm = 4 then bindM (read_byte 2) (\<lambda>sib.
         returnM (map_option (\<lambda>s. if s AND 7 = 5 then 7 else 3) sib))
       else if md = 0 then returnM (Some 2)
       else if md = 1 then returnM (Some (if rm = 4 then 4 else 3))
       else if md = 2 then returnM (Some (if rm = 4 then 7 else 6))
       else returnM None))"

text \<open>On a reader that always answers, it is the plain decoder.\<close>

lemma decode_near_call_pure:
  assumes "\<And>i. read_byte i s = (Ok (f i), s)"
  shows "decode_near_call read_byte s = (Ok (decode_supported_near_call_length f), s)"
  using assms
  by (auto simp: decode_near_call_def decode_supported_near_call_length_def bindM_def returnM_def Let_def
      split: option.split)

section \<open>Reference encoding\<close>

text \<open>
  A ModRM operand occupies the ModRM byte, a SIB byte when a memory operand has \<open>rm = 4\<close>, and a
  displacement fixed by \<open>mod\<close>, \<open>rm\<close> and the SIB base. This is the table of the architecture,
  not of the decoder.
\<close>

definition has_sib :: "u8 \<Rightarrow> bool" where
  "has_sib m \<longleftrightarrow> modrm_mod m \<noteq> 3 \<and> modrm_rm m = 4"

definition disp_length :: "u8 \<Rightarrow> u8 \<Rightarrow> nat" where
  "disp_length m sib =
    (if modrm_mod m = 1 then 1
     else if modrm_mod m = 2 then 4
     else if modrm_mod m = 0 \<and> (modrm_rm m = 5 \<or> has_sib m \<and> sib AND 7 = 5) then 4
     else 0)"

text \<open>The supported near calls as an abstract syntax, and their encodings.\<close>

datatype near_call =
    CallRel32 "u8 list"                     \<comment> \<open>four displacement bytes\<close>
  | CallIndirect u8 "u8 option" "u8 list"   \<comment> \<open>ModRM, SIB, displacement\<close>
  | CallRexReg u8 u8                        \<comment> \<open>REX prefix, ModRM\<close>

fun valid_call :: "near_call \<Rightarrow> bool" where
  "valid_call (CallRel32 d) = (length d = 4)"
| "valid_call (CallIndirect m s d) =
     (modrm_reg m = 2 \<and> has_sib m = (s \<noteq> None) \<and>
      length d = disp_length m (case s of None \<Rightarrow> 0 | Some b \<Rightarrow> b))"
| "valid_call (CallRexReg rex m) =
     ((rex = 0x41 \<or> rex = 0x48 \<or> rex = 0x49) \<and> modrm_reg m = 2 \<and> modrm_mod m = 3)"

fun encode_call :: "near_call \<Rightarrow> u8 list" where
  "encode_call (CallRel32 d) = 0xe8 # d"
| "encode_call (CallIndirect m s d) =
     [0xff, m] @ (case s of None \<Rightarrow> [] | Some b \<Rightarrow> [b]) @ d"
| "encode_call (CallRexReg rex m) = [rex, 0xff, m]"

text \<open>A reader over a byte sequence.\<close>

definition list_reader :: "u8 list \<Rightarrow> byte_reader" where
  "list_reader bs i = (if i < length bs then Some (bs ! i) else None)"

lemma two_bits: "(m AND 3 :: u8) \<in> {0, 1, 2, 3}"
proof -
  have "unat (m AND 3) \<le> unat (3 :: u8)"
    by (rule word_and_le1 [THEN word_le_nat_alt [THEN iffD1]])
  then have "unat (m AND 3) \<in> {0, 1, 2, 3}" by auto
  then have "unat (m AND 3) = unat (0 :: u8) \<or> unat (m AND 3) = unat (1 :: u8) \<or>
      unat (m AND 3) = unat (2 :: u8) \<or> unat (m AND 3) = unat (3 :: u8)" by simp
  then show ?thesis unfolding word_unat_eq_iff [symmetric] by blast
qed

lemma modrm_mod_cases: "modrm_mod m = 0 \<or> modrm_mod m = 1 \<or> modrm_mod m = 2 \<or> modrm_mod m = 3"
  using two_bits [of "drop_bit 6 m"] by (simp add: modrm_mod_def)

text \<open>Every supported near CALL, that is \<^verbatim>\<open>E8 rel32\<close>, \<^verbatim>\<open>FF /2\<close> with any ModRM, SIB and
  displacement, and \<^verbatim>\<open>REX FF /2\<close> through a register, is decoded to exactly the length of its
  encoding, whatever follows it in memory.\<close>

theorem decode_encoded:
  assumes "valid_call c"
  shows "decode_supported_near_call_length (list_reader (encode_call c @ rest))
           = Some (length (encode_call c))"
proof (cases c)
  case (CallRel32 d)
  with assms show ?thesis by (simp add: decode_supported_near_call_length_def list_reader_def)
next
  case (CallRexReg rex m)
  with assms show ?thesis
    by (auto simp: decode_supported_near_call_length_def list_reader_def)
next
  case (CallIndirect m s d)
  with assms have v: "modrm_reg m = 2" "has_sib m = (s \<noteq> None)"
    "length d = disp_length m (case s of None \<Rightarrow> 0 | Some b \<Rightarrow> b)" by auto
  show ?thesis
  proof (cases s)
    case None
    with v CallIndirect modrm_mod_cases [of m] show ?thesis
      by (auto simp: decode_supported_near_call_length_def list_reader_def has_sib_def
          disp_length_def Let_def)
  next
    case (Some b)
    with v CallIndirect modrm_mod_cases [of m] show ?thesis
      by (auto simp: decode_supported_near_call_length_def list_reader_def has_sib_def
          disp_length_def Let_def)
  qed
qed

theorem decode_encoded_witness:
  "decode_supported_near_call_length (list_reader (encode_call (CallIndirect 0x54 (Some 0x24) [0x10]) @ [0x90, 0x90]))
     = Some (length (encode_call (CallIndirect 0x54 (Some 0x24) [0x10])))"
proof -
  have "valid_call (CallIndirect 0x54 (Some 0x24) [0x10])" by code_simp
  then show ?thesis by (rule decode_encoded)
qed

text \<open>Conversely, a decoded length is the length of an encoding that agrees with every byte read.\<close>

definition agrees :: "u8 list \<Rightarrow> byte_reader \<Rightarrow> bool" where
  "agrees bs rd \<longleftrightarrow> (\<forall>i < length bs. rd i = None \<or> rd i = Some (bs ! i))"

definition fill :: "byte_reader \<Rightarrow> nat \<Rightarrow> nat \<Rightarrow> u8 list" where
  "fill rd from n = map (\<lambda>i. case rd (from + i) of None \<Rightarrow> 0 | Some b \<Rightarrow> b) [0..<n]"

lemma length_fill [simp]: "length (fill rd from n) = n"
  by (simp add: fill_def)

lemma agrees_fill: "agrees bs rd \<Longrightarrow> agrees (bs @ fill rd (length bs) n) rd"
  by (auto simp: agrees_def nth_append fill_def split: option.splits)

lemma agrees_Nil [simp]: "agrees [] rd"
  by (simp add: agrees_def)

lemma agrees_snoc: "agrees bs rd \<Longrightarrow> rd (length bs) = Some b \<Longrightarrow> agrees (bs @ [b]) rd"
  by (auto simp: agrees_def nth_append less_Suc_eq)

lemma agrees1: "rd 0 = Some a \<Longrightarrow> agrees [a] rd"
  using agrees_snoc [of "[]"] by simp

lemma agrees2: "rd 0 = Some a \<Longrightarrow> rd 1 = Some b \<Longrightarrow> agrees [a, b] rd"
  using agrees_snoc [of "[a]"] agrees1 by fastforce

lemma agrees3: "rd 0 = Some a \<Longrightarrow> rd 1 = Some b \<Longrightarrow> rd 2 = Some c \<Longrightarrow> agrees [a, b, c] rd"
  using agrees_snoc [of "[a, b]"] agrees2 by (fastforce simp: numeral_2_eq_2)

lemma decode_indirect_call:
  assumes "rd 0 = Some 0xff" and "rd 1 = Some m"
    and "decode_supported_near_call_length rd = Some n"
  shows "\<exists>c. valid_call c \<and> n = length (encode_call c) \<and> agrees (encode_call c) rd"
proof (cases "has_sib m")
  case False
  let ?c = "CallIndirect m None (fill rd 2 (disp_length m 0))"
  have "agrees (encode_call ?c) rd"
    using agrees_fill [OF agrees2 [of rd "0xff" m, OF assms(1,2)]] by (simp add: numeral_2_eq_2)
  moreover have "valid_call ?c \<and> n = length (encode_call ?c)"
    using assms False modrm_mod_cases [of m]
    by (auto simp: decode_supported_near_call_length_def has_sib_def disp_length_def Let_def
        split: if_splits)
  ultimately show ?thesis by blast
next
  case True
  define sib where "sib = (case rd 2 of None \<Rightarrow> 0 | Some b \<Rightarrow> b)"
  let ?c = "CallIndirect m (Some sib) (fill rd 3 (disp_length m sib))"
  have "agrees [0xff, m, sib] rd"
    using assms(1,2) by (auto simp: agrees_def sib_def less_Suc_eq numeral_eq_Suc split: option.splits)
  then have "agrees (encode_call ?c) rd"
    using agrees_fill [of "[0xff, m, sib]" rd] by (simp add: numeral_3_eq_3)
  moreover have "valid_call ?c \<and> n = length (encode_call ?c)"
    using assms True modrm_mod_cases [of m]
    by (auto simp: decode_supported_near_call_length_def has_sib_def disp_length_def Let_def sib_def
        split: if_splits option.splits)
  ultimately show ?thesis by blast
qed

text \<open>The decoder never accepts anything else: a returned length is the length of some supported near
  CALL whose encoding agrees with every byte the reader provides, so that the address after it is
  the return address of that call.\<close>

theorem decode_supported_is_call:
  assumes "decode_supported_near_call_length rd = Some n"
  shows "\<exists>c. valid_call c \<and> n = length (encode_call c) \<and> agrees (encode_call c) rd"
proof -
  obtain b where b: "rd 0 = Some b"
    using assms by (auto simp: decode_supported_near_call_length_def split: option.splits)
  consider "b = 0xe8" | "b = 0xff" | "b = 0x41 \<or> b = 0x48 \<or> b = 0x49"
    using assms b by (auto simp: decode_supported_near_call_length_def split: if_splits)
  then show ?thesis
  proof cases
    case 1
    let ?c = "CallRel32 (fill rd 1 4)"
    have "valid_call ?c \<and> n = length (encode_call ?c)"
      using 1 assms b by (simp add: decode_supported_near_call_length_def)
    moreover have "agrees (encode_call ?c) rd"
      using agrees_fill [OF agrees1 [of rd b, OF b], of 4] 1 by simp
    ultimately show ?thesis by blast
  next
    case 2
    then obtain m where "rd 1 = Some m"
      using assms b by (auto simp: decode_supported_near_call_length_def split: option.splits)
    with 2 b assms show ?thesis by (simp add: decode_indirect_call)
  next
    case 3
    then obtain m where m: "rd 1 = Some 0xff" "rd 2 = Some m" "modrm_reg m = 2" "modrm_mod m = 3" "n = 3"
      using assms b
      by (auto simp: decode_supported_near_call_length_def split: option.splits if_splits)
    let ?c = "CallRexReg b m"
    have "agrees (encode_call ?c) rd"
      using agrees3 [of rd b "0xff" m, OF b m(1,2)] by simp
    with 3 m have "valid_call ?c \<and> n = length (encode_call ?c) \<and> agrees (encode_call ?c) rd" by simp
    then show ?thesis by blast
  qed
qed

theorem decode_supported_is_call_witness:
  "\<exists>c. valid_call c \<and> 3 = length (encode_call c) \<and> agrees (encode_call c) (list_reader [0x41, 0xff, 0xd3])"
proof -
  have "decode_supported_near_call_length (list_reader [0x41, 0xff, 0xd3]) = Some 3" by code_simp
  then show ?thesis by (rule decode_supported_is_call)
qed

end
