(* ===== verification/FramePointer.thy ===== *)
theory FramePointer
  imports DebuggerMemory
begin

text \<open>
  The frame-pointer unwinder of \<^verbatim>\<open>src/src/unwind/frame_pointer.cpp\<close>. Its loop needs no fuel: every turn
  moves to a strictly larger frame pointer, so the distance to the end of the address space is a
  measure. The reference description is the relation \<open>frame_chain\<close> on the tracee's memory.
\<close>

datatype unwind_stop_reason = EndOfChain | FrameLimit | InvalidFramePointer | MemoryReadError

record stack_frame =
  sf_ip :: u64
  sf_fp :: u64

record backtrace =
  bt_frames :: "stack_frame list"
  bt_stop_reason :: unwind_stop_reason

definition read_u64_at :: "u8 list \<Rightarrow> nat \<Rightarrow> u64" where
  "read_u64_at bytes offset = le_word (take 8 (drop offset bytes))"

definition is_ptrace_error :: "exn \<Rightarrow> bool" where
  "is_ptrace_error e = (case e of PtraceError operation err \<Rightarrow> True | _ \<Rightarrow> False)"

text \<open>One \<^verbatim>\<open>try { read_memory } catch (PtraceError)\<close>: \<open>None\<close> is the caught error.\<close>

definition read_frame :: "'k os \<Rightarrow> u64 \<Rightarrow> ('k world, u8 list option) prog" where
  "read_frame os fp = catchM
     (bindM (read_memory os fp 16) (\<lambda>bytes. returnM (Some bytes)))
     (\<lambda>e. if is_ptrace_error e then returnM None else throwM e)"

lemma distance_decreases:
  "\<not> q \<le> p \<Longrightarrow> 18446744073709551616 - unat q < 18446744073709551616 - unat p" for p q :: u64
proof -
  assume "\<not> q \<le> p"
  then have "unat p < unat q" by (simp add: word_less_nat_alt not_le)
  moreover have "unat q < 2 ^ LENGTH(64)" by (rule unsigned_less)
  ultimately show ?thesis by simp
qed

function unwind_loop ::
  "'k os \<Rightarrow> nat \<Rightarrow> u64 \<Rightarrow> u64 \<Rightarrow> stack_frame list \<Rightarrow> ('k world, backtrace) prog" where
  "unwind_loop os max_frames max_span fp frames =
    (if fp = 0 then returnM \<lparr>bt_frames = frames, bt_stop_reason = EndOfChain\<rparr>
     else if unat fp mod 8 \<noteq> 0
     then returnM \<lparr>bt_frames = frames, bt_stop_reason = InvalidFramePointer\<rparr>
     else bindM (read_frame os fp) (\<lambda>data. case data of
       None \<Rightarrow> returnM \<lparr>bt_frames = frames, bt_stop_reason = MemoryReadError\<rparr>
     | Some frame_data \<Rightarrow>
         if read_u64_at frame_data 8 = 0
         then returnM \<lparr>bt_frames = frames, bt_stop_reason = EndOfChain\<rparr>
         else if read_u64_at frame_data 0 = 0
         then returnM \<lparr>bt_frames = frames @ [\<lparr>sf_ip = read_u64_at frame_data 8, sf_fp = 0\<rparr>],
                bt_stop_reason = EndOfChain\<rparr>
         else if read_u64_at frame_data 0 \<le> fp \<or> read_u64_at frame_data 0 - fp > max_span
         then returnM \<lparr>bt_frames = frames, bt_stop_reason = InvalidFramePointer\<rparr>
         else if length frames + 1 \<ge> max_frames
         then returnM \<lparr>bt_frames = frames @
                  [\<lparr>sf_ip = read_u64_at frame_data 8, sf_fp = read_u64_at frame_data 0\<rparr>],
                bt_stop_reason = FrameLimit\<rparr>
         else unwind_loop os max_frames max_span (read_u64_at frame_data 0)
                (frames @ [\<lparr>sf_ip = read_u64_at frame_data 8, sf_fp = read_u64_at frame_data 0\<rparr>])))"
  by pat_completeness auto
termination
  by (relation "measure (\<lambda>(os, max_frames, max_span, fp, frames). 2 ^ 64 - unat fp)")
    (simp_all add: distance_decreases)

declare unwind_loop.simps [simp del]

definition unwind_frame_pointers :: "'k os \<Rightarrow> nat \<Rightarrow> u64 \<Rightarrow> ('k world, backtrace) prog" where
  "unwind_frame_pointers os max_frames max_span =
    (if max_frames = 0
     then throwM (InvalidArgument ''frame-pointer unwind requires a non-zero frame limit'')
     else if max_span = 0
     then throwM (InvalidArgument ''frame-pointer unwind requires a non-zero frame span'')
     else bindM (registers os) (\<lambda>regs.
       let frames = [\<lparr>sf_ip = rip regs, sf_fp = rbp regs\<rparr>] in
       if max_frames = 1 then returnM \<lparr>bt_frames = frames, bt_stop_reason = FrameLimit\<rparr>
       else unwind_loop os max_frames max_span (rbp regs) frames))"

definition unwind_stop_reason_name :: "unwind_stop_reason \<Rightarrow> string" where
  "unwind_stop_reason_name reason = (case reason of
     EndOfChain \<Rightarrow> ''end of frame chain''
   | FrameLimit \<Rightarrow> ''frame limit reached''
   | InvalidFramePointer \<Rightarrow> ''invalid frame pointer''
   | MemoryReadError \<Rightarrow> ''frame memory is unreadable'')"

section \<open>Reading through the debugger\<close>

lemma ll_read_memory_spec:
  assumes "shared_memory_laws os tasks mem" and "t \<in> tasks" and "range_mapped (mem k) a len"
  shows "ll_read_memory os t a len k = (Ok (map (\<lambda>i. the (mem k (a + of_nat i))) [0..<len]), k)"
  using ll_read_loop_spec [OF assms(1,2), of 0 0 k a len "[]"] assms(3)
  by (simp add: ll_read_memory_def)

lemma ll_read_memory_fails:
  assumes "shared_memory_laws os tasks mem" and "t \<in> tasks" and "\<not> range_mapped (mem k) a len"
  shows "\<exists>e. ll_read_memory os t a len k = (Throw e, k)"
proof -
  from assms(3) obtain i where "8 * i < len" "\<not> word_mapped (mem k) (a + of_nat (8 * i))"
    by (auto simp: range_mapped_def)
  then show ?thesis
    using ll_read_loop_fails [OF assms(1,2), of 0 0 i len k a "[]"] by (simp add: ll_read_memory_def)
qed

text \<open>The session is stopped at a task of the active process.\<close>

definition stopped_at_task :: "'k world \<Rightarrow> bool" where
  "stopped_at_task w \<longleftrightarrow> (let p = d_process (dbg w) in
     p_state p = PS_Stopped \<and> p_current_tid p > 0 \<and> task_state p (p_current_tid p) = Some PS_Stopped)"

lemma stopped_tid_ok:
  "stopped_at_task w \<Longrightarrow> stopped_tid w = (Ok (p_current_tid (d_process (dbg w))), w)"
  by (simp add: stopped_tid_def stopped_at_task_def dbgM_def getM_def bindM_def returnM_def Let_def)

lemma stopped_at_task_tid: "stopped_at_task w \<Longrightarrow> p_current_tid (d_process (dbg w)) \<in> set (tids (d_process (dbg w)))"
  by (auto simp: stopped_at_task_def Let_def intro: task_state_tids)

lemma read_memory_ok:
  assumes "owns_memory os mem w" and "stopped_at_task w" and "range_mapped (mem (kern w)) a len"
  shows "read_memory os a len w = (Ok (map (\<lambda>i. the (mem (kern w) (a + of_nat i))) [0..<len]), w)"
  using ll_read_memory_spec [OF assms(1) stopped_at_task_tid [OF assms(2)] assms(3)]
  by (simp add: read_memory_def bindM_def stopped_tid_ok [OF assms(2)] on_kern_def zoomM_def)

lemma read_memory_fails:
  assumes "owns_memory os mem w" and "stopped_at_task w" and "\<not> range_mapped (mem (kern w)) a len"
  shows "\<exists>e. read_memory os a len w = (Throw e, w)"
  using ll_read_memory_fails [OF assms(1) stopped_at_task_tid [OF assms(2)] assms(3)]
  by (auto simp: read_memory_def bindM_def stopped_tid_ok [OF assms(2)] on_kern_def zoomM_def)

lemma range_mapped_two:
  assumes "word_mapped m a" and "word_mapped m (a + 8)"
  shows "range_mapped m a 16"
  unfolding range_mapped_def
proof (intro allI impI)
  fix j :: nat assume "8 * j < 16"
  then consider "j = 0" | "j = 1" by linarith
  then show "word_mapped m (a + of_nat (8 * j))" using assms by cases auto
qed

lemma read_frame_ok:
  assumes "owns_memory os mem w" and "stopped_at_task w"
    and "word_mapped (mem (kern w)) fp" and "word_mapped (mem (kern w)) (fp + 8)"
  shows "\<exists>bytes. read_frame os fp w = (Ok (Some bytes), w) \<and>
    read_u64_at bytes 0 = word_at (mem (kern w)) fp \<and> read_u64_at bytes 8 = word_at (mem (kern w)) (fp + 8)"
proof -
  let ?b = "map (\<lambda>i. the (mem (kern w) (fp + of_nat i))) [0..<16]"
  have "read_memory os fp 16 w = (Ok ?b, w)"
    by (rule read_memory_ok [OF assms(1,2) range_mapped_two [OF assms(3,4)]])
  then have "read_frame os fp w = (Ok (Some ?b), w)"
    by (simp add: read_frame_def catchM_def bindM_def returnM_def)
  moreover have "read_u64_at ?b 0 = word_at (mem (kern w)) fp"
    by (simp add: read_u64_at_def word_at_def take_map)
  moreover have "take 8 (drop 8 ?b) = map (\<lambda>i. the (mem (kern w) (fp + 8 + of_nat i))) [0..<8]"
    by (rule nth_equalityI) (simp_all add: algebra_simps)
  ultimately show ?thesis by (auto simp: read_u64_at_def word_at_def)
qed

section \<open>Reference: chains of saved frame pointers\<close>

text \<open>
  \<open>frame_chain m span fp frames\<close>: from the frame at \<open>fp\<close>, memory links the listed callers, each
  frame above the previous one by at most \<open>span\<close>, up to the frame whose saved pointer is zero.
\<close>

inductive frame_chain :: "(u64 \<Rightarrow> u8 option) \<Rightarrow> u64 \<Rightarrow> u64 \<Rightarrow> stack_frame list \<Rightarrow> bool" for m span where
  outermost: "fp \<noteq> 0 \<Longrightarrow> unat fp mod 8 = 0 \<Longrightarrow> word_mapped m fp \<Longrightarrow> word_mapped m (fp + 8) \<Longrightarrow>
    word_at m fp = 0 \<Longrightarrow> word_at m (fp + 8) = ra \<Longrightarrow> ra \<noteq> 0 \<Longrightarrow>
    frame_chain m span fp [\<lparr>sf_ip = ra, sf_fp = 0\<rparr>]"
| linked: "fp \<noteq> 0 \<Longrightarrow> unat fp mod 8 = 0 \<Longrightarrow> word_mapped m fp \<Longrightarrow> word_mapped m (fp + 8) \<Longrightarrow>
    word_at m fp = caller \<Longrightarrow> word_at m (fp + 8) = ra \<Longrightarrow> ra \<noteq> 0 \<Longrightarrow>
    fp < caller \<Longrightarrow> caller - fp \<le> span \<Longrightarrow> frame_chain m span caller frames \<Longrightarrow>
    frame_chain m span fp (\<lparr>sf_ip = ra, sf_fp = caller\<rparr> # frames)"

inductive_cases frame_chain_NilE: "frame_chain m span fp []"
inductive_cases frame_chain_ConsE: "frame_chain m span fp (f # frames)"

lemma unwind_loop_follows_chain:
  assumes laws: "owns_memory os mem w" "stopped_at_task w"
    and "frame_chain (mem (kern w)) span fp frames"
    and "length acc + length frames < max_frames"
  shows "unwind_loop os max_frames span fp acc w =
    (Ok \<lparr>bt_frames = acc @ frames, bt_stop_reason = EndOfChain\<rparr>, w)"
  using assms(3,4)
proof (induction fp frames arbitrary: acc rule: frame_chain.induct)
  case (outermost fp ra)
  with read_frame_ok [OF laws, of fp] show ?case
    by (subst unwind_loop.simps) (auto simp: bindM_def returnM_def)
next
  case (linked fp caller ra frames)
  from linked.hyps have "caller \<noteq> 0" by auto
  moreover have "\<not> caller \<le> fp" "\<not> caller - fp > span" using linked.hyps by auto
  ultimately show ?case
    using read_frame_ok [OF laws linked.hyps(3,4)] linked.hyps linked.prems linked.IH
    by (subst unwind_loop.simps) (auto simp: bindM_def)
qed

section \<open>What every backtrace satisfies\<close>

text \<open>Each frame lies strictly above its callee and at most \<open>span\<close> away, except the outermost one,
  whose saved pointer is zero.\<close>

fun ascending :: "u64 \<Rightarrow> u64 \<Rightarrow> stack_frame list \<Rightarrow> bool" where
  "ascending span fp [] = True"
| "ascending span fp (f # fs) =
    (sf_ip f \<noteq> 0 \<and> (if sf_fp f = 0 then fs = [] else
       fp < sf_fp f \<and> sf_fp f - fp \<le> span \<and> ascending span (sf_fp f) fs))"

lemma read_frame_keeps: "wp (read_frame os fp) (\<lambda>_ w'. dbg w' = dbg w) (\<lambda>_ w'. dbg w' = dbg w) w"
  unfolding read_frame_def read_memory_def
  by (auto simp: wp_simps Let_def intro!: wp_any)

lemma unwind_loop_ascending:
  assumes "length acc < max_frames"
  shows "wp (unwind_loop os max_frames span fp acc)
    (\<lambda>bt w'. \<exists>frames. bt_frames bt = acc @ frames \<and> ascending span fp frames \<and>
       length (bt_frames bt) \<le> max_frames) (\<lambda>_ _. True) w"
  using assms
proof (induction os max_frames span fp acc arbitrary: w rule: unwind_loop.induct)
  case (1 os max_frames span fp acc)
  have step: "wp (unwind_loop os max_frames span (read_u64_at d 0)
        (acc @ [\<lparr>sf_ip = read_u64_at d 8, sf_fp = read_u64_at d 0\<rparr>]))
      (\<lambda>bt w'. \<exists>frames. bt_frames bt = acc @ frames \<and> ascending span fp frames \<and>
         length (bt_frames bt) \<le> max_frames) (\<lambda>_ _. True) w'"
    if "fp \<noteq> 0" "\<not> unat fp mod 8 \<noteq> 0" "read_u64_at d 8 \<noteq> 0" "read_u64_at d 0 \<noteq> 0"
      "\<not> (read_u64_at d 0 \<le> fp \<or> read_u64_at d 0 - fp > span)" "\<not> length acc + 1 \<ge> max_frames" for d w'
    by (rule wp_mono [OF "1.IH" [of d]])
      (use that in \<open>auto simp: not_le not_less\<close>)
  show ?case
    using "1.prems" step
    by (subst unwind_loop.simps)
      (auto simp: wp_simps not_le not_less intro!: wp_mono [OF read_frame_keeps])
qed

section \<open>The unwinder\<close>

lemma terminates_read_frame [terminates_intros]: "terminates (read_frame os fp)"
  unfolding read_frame_def by (intro terminates_intros)

lemma terminates_unwind_loop [terminates_intros]: "terminates (unwind_loop os max_frames span fp acc)"
proof (induction os max_frames span fp acc rule: unwind_loop.induct)
  case (1 os max_frames span fp acc)
  show ?case
    by (subst unwind_loop.simps) (intro terminates_intros "1.IH"; assumption)
qed

lemma terminates_registers [terminates_intros]: "terminates (registers os)"
  unfolding registers_def by (intro terminates_intros)

text \<open>C31. The backtrace of a well-linked stack is complete and exact: when the saved frame pointers
  form an ascending chain that ends in a zero pointer and fits the limits, the unwinder returns the
  current frame followed by precisely the frames of the chain, and leaves the session unchanged.\<close>

theorem unwind_frame_pointers_follows_chain:
  assumes "shared_memory_laws os (set (tids (d_process (dbg w)))) mem" and "stopped_at_task w"
    and "registers os w = (Ok regs, w)" and "frame_chain (mem (kern w)) span (rbp regs) frames"
    and "Suc (length frames) < max_frames" and "span \<noteq> 0"
  shows "unwind_frame_pointers os max_frames span w =
    (Ok \<lparr>bt_frames = \<lparr>sf_ip = rip regs, sf_fp = rbp regs\<rparr> # frames, bt_stop_reason = EndOfChain\<rparr>, w)"
  using unwind_loop_follows_chain [OF assms(1,2,4), of "[\<lparr>sf_ip = rip regs, sf_fp = rbp regs\<rparr>]" max_frames] assms(3,5,6)
  by (simp add: unwind_frame_pointers_def bindM_def)

text \<open>C32. On any stack, corrupted ones included, the unwinder ends; it never returns more frames than
  the limit, the first frame is the current one, and the frame pointers of the rest strictly ascend
  in steps of at most the span, so that no frame is reported twice.\<close>

theorem unwind_frame_pointers_bounded:
  "twp (unwind_frame_pointers os max_frames span)
    (\<lambda>bt _. length (bt_frames bt) \<le> max_frames \<and>
       (\<exists>f rest. bt_frames bt = f # rest \<and> ascending span (sf_fp f) rest)) (\<lambda>_ _. True) w"
proof (rule twpI)
  show "terminates (unwind_frame_pointers os max_frames span)"
    unfolding unwind_frame_pointers_def Let_def by (intro terminates_intros)
  show "wp (unwind_frame_pointers os max_frames span)
    (\<lambda>bt _. length (bt_frames bt) \<le> max_frames \<and>
       (\<exists>f rest. bt_frames bt = f # rest \<and> ascending span (sf_fp f) rest)) (\<lambda>_ _. True) w"
    unfolding unwind_frame_pointers_def Let_def
    by (auto simp: wp_simps registers_def Let_def split: prod.split
        intro!: wp_mono [OF unwind_loop_ascending])
qed

end
