(* ===== verification/ByteCursor.thy ===== *)
theory ByteCursor
  imports Prelude
begin

text \<open>
  Bounded reading of byte sequences: the template helpers \<^verbatim>\<open>read_at\<close>, \<^verbatim>\<open>read_scalar\<close>, \<^verbatim>\<open>read_c_string\<close>,
  \<^verbatim>\<open>read_uleb\<close> and \<^verbatim>\<open>read_sleb\<close> that \<^verbatim>\<open>eh_frame.cpp\<close> and \<^verbatim>\<open>line_table.cpp\<close> each define for themselves.
  The two copies differ in their messages and in the SLEB128 overflow check, which are parameters.

  The \<^verbatim>\<open>std::size_t& cursor\<close> argument is the state. An unchecked access outside the vector is the
  pseudo-exception \<open>UndefinedBehaviour\<close>, so that its absence is a theorem.
\<close>

unbundle bit_operations_syntax

named_theorems reads_intros \<open>consumption bounds of the readers\<close>

type_synonym 'a reader = "(nat, 'a) prog"

text \<open>What distinguishes the copies of the helpers.\<close>

record dialect =
  past_data :: string
  past_limit :: string
  uleb_name :: string
  sleb_name :: string
  sleb_checked :: bool

section \<open>Fixed-width reads\<close>

definition read_at :: "dialect \<Rightarrow> nat \<Rightarrow> u8 list \<Rightarrow> nat \<Rightarrow> string \<Rightarrow> ('s, u8 list) prog" where
  "read_at dl width bytes offset what =
    (if offset > length bytes \<or> width > length bytes - offset
     then throwM (RuntimeError (what @ past_data dl))
     else returnM (take width (drop offset bytes)))"

definition read_scalar :: "dialect \<Rightarrow> nat \<Rightarrow> u8 list \<Rightarrow> nat \<Rightarrow> string \<Rightarrow> u8 list reader" where
  "read_scalar dl width bytes limit what = bindM getM (\<lambda>cursor.
    if cursor > limit \<or> width > limit - cursor
    then throwM (RuntimeError (what @ past_limit dl))
    else bindM (read_at dl width bytes cursor what) (\<lambda>v.
      thenM (modifyM (\<lambda>c. c + width)) (returnM v)))"

definition read_u8 :: "dialect \<Rightarrow> u8 list \<Rightarrow> nat \<Rightarrow> string \<Rightarrow> u8 reader" where
  "read_u8 dl bytes limit what = bindM (read_scalar dl 1 bytes limit what) (\<lambda>v. returnM (hd v))"

definition read_u16 :: "dialect \<Rightarrow> u8 list \<Rightarrow> nat \<Rightarrow> string \<Rightarrow> u16 reader" where
  "read_u16 dl bytes limit what =
     bindM (read_scalar dl 2 bytes limit what) (\<lambda>v. returnM (ucast (le_word v)))"

definition read_u32 :: "dialect \<Rightarrow> u8 list \<Rightarrow> nat \<Rightarrow> string \<Rightarrow> u32 reader" where
  "read_u32 dl bytes limit what =
     bindM (read_scalar dl 4 bytes limit what) (\<lambda>v. returnM (ucast (le_word v)))"

definition read_u64 :: "dialect \<Rightarrow> u8 list \<Rightarrow> nat \<Rightarrow> string \<Rightarrow> u64 reader" where
  "read_u64 dl bytes limit what =
     bindM (read_scalar dl 8 bytes limit what) (\<lambda>v. returnM (le_word v))"

section \<open>Variable-length reads\<close>

text \<open>\<open>remaining\<close> counts the turns left of \<^verbatim>\<open>for (count = 0; count < 10; ++count)\<close>.\<close>

fun uleb_loop :: "dialect \<Rightarrow> u8 list \<Rightarrow> nat \<Rightarrow> nat \<Rightarrow> nat \<Rightarrow> u64 \<Rightarrow> u64 reader" where
  "uleb_loop dl bytes limit 0 shift result = throwM (RuntimeError (uleb_name dl @ '' is too long''))"
| "uleb_loop dl bytes limit (Suc remaining) shift result =
    bindM (read_u8 dl bytes limit (uleb_name dl)) (\<lambda>byte.
    let payload = ucast (byte AND 0x7f) :: u64 in
    if shift > 63 \<or> (shift = 63 \<and> payload > 1)
    then throwM (RuntimeError (uleb_name dl @ '' overflows 64 bits''))
    else let result' = result OR push_bit shift payload in
      if byte AND 0x80 = 0 then returnM result'
      else uleb_loop dl bytes limit remaining (shift + 7) result')"

definition read_uleb :: "dialect \<Rightarrow> u8 list \<Rightarrow> nat \<Rightarrow> u64 reader" where
  "read_uleb dl bytes limit = uleb_loop dl bytes limit 10 0 0"

text \<open>The result is the 64 bits of the \<^verbatim>\<open>std::int64_t\<close>; \<open>sint\<close> reads them.\<close>

fun sleb_loop :: "dialect \<Rightarrow> u8 list \<Rightarrow> nat \<Rightarrow> nat \<Rightarrow> nat \<Rightarrow> u64 \<Rightarrow> u64 reader" where
  "sleb_loop dl bytes limit 0 shift result = throwM (RuntimeError (sleb_name dl @ '' is too long''))"
| "sleb_loop dl bytes limit (Suc remaining) shift result =
    bindM (read_u8 dl bytes limit (sleb_name dl)) (\<lambda>byte.
    let payload = ucast (byte AND 0x7f) :: u64 in
    if sleb_checked dl \<and> (shift > 63 \<or> (shift = 63 \<and> payload \<noteq> 0 \<and> payload \<noteq> 0x7f))
    then throwM (RuntimeError (sleb_name dl @ '' overflows 64 bits''))
    else let result' = result OR push_bit shift payload; shift' = shift + 7 in
      if byte AND 0x80 = 0
      then returnM (if byte AND 0x40 \<noteq> 0 \<and> shift' < 64 then result' OR push_bit shift' (- 1) else result')
      else sleb_loop dl bytes limit remaining shift' result')"

definition read_sleb :: "dialect \<Rightarrow> u8 list \<Rightarrow> nat \<Rightarrow> u64 reader" where
  "read_sleb dl bytes limit = sleb_loop dl bytes limit 10 0 0"

text \<open>The bytes of a terminated string; the loop indexes the vector without a check of its own.\<close>

definition c_string_step :: "u8 list \<Rightarrow> nat \<Rightarrow> string \<Rightarrow> (nat \<times> u8 list, u8 list option) prog" where
  "c_string_step bytes limit what = (\<lambda>(cursor, result).
     if cursor < limit then
       (if cursor < length bytes then
          (if bytes ! cursor = 0 then (Ok (Some result), (cursor + 1, result))
           else (Ok None, (cursor + 1, result @ [bytes ! cursor])))
        else (Throw (UndefinedBehaviour ''vector index out of range''), (cursor, result)))
     else (Throw (RuntimeError (''unterminated '' @ what)), (cursor, result)))"

definition read_c_string :: "u8 list \<Rightarrow> nat \<Rightarrow> string \<Rightarrow> u8 list reader" where
  "read_c_string bytes limit what = bindM getM (\<lambda>cursor.
     with_local [] (loopM (limit - cursor + 1) (c_string_step bytes limit what)))"

section \<open>How far the readers move\<close>

definition no_ub :: "exn \<Rightarrow> bool" where
  "no_ub e = (case e of UndefinedBehaviour what \<Rightarrow> False | _ \<Rightarrow> True)"

lemma no_ub_simps [simp]:
  "no_ub (RuntimeError m)" "no_ub (OutOfRange m)" "no_ub (LogicError m)" "no_ub (InvalidArgument m)"
  "no_ub (PtraceError m n)" "no_ub (SystemError m n)" "\<not> no_ub (UndefinedBehaviour m)"
  by (simp_all add: no_ub_def)

text \<open>\<open>reads k limit m\<close>: from a cursor inside the limit, \<open>m\<close> ends; it moves the cursor forward by at
  least \<open>k\<close> and not past the limit, or throws without undefined behaviour.\<close>

definition reads :: "nat \<Rightarrow> nat \<Rightarrow> 'a reader \<Rightarrow> bool" where
  "reads k limit m \<longleftrightarrow> (\<forall>c \<le> limit. twp m (\<lambda>_ c'. c + k \<le> c' \<and> c' \<le> limit) (\<lambda>e _. no_ub e) c)"

lemma readsD: "reads k limit m \<Longrightarrow> c \<le> limit \<Longrightarrow>
    twp m (\<lambda>_ c'. c + k \<le> c' \<and> c' \<le> limit) (\<lambda>e _. no_ub e) c"
  by (simp add: reads_def)

lemma reads_weaken: "reads k limit m \<Longrightarrow> j \<le> k \<Longrightarrow> reads j limit m"
  by (fastforce simp: reads_def intro: twp_mono)

lemma reads_returnM [reads_intros]: "reads 0 limit (returnM a)"
  by (simp add: reads_def twp_simps)

lemma reads_throwM [reads_intros]: "no_ub e \<Longrightarrow> reads k limit (throwM e)"
  by (simp add: reads_def twp_simps)

lemma reads_bindM:
  assumes "reads j limit m" and "\<And>a. reads k limit (f a)"
  shows "reads (j + k) limit (bindM m f)"
  unfolding reads_def twp_bindM
proof (intro allI impI)
  fix c assume "c \<le> limit"
  from readsD [OF assms(1) this]
  show "twp m (\<lambda>a. twp (f a) (\<lambda>_ c'. c + (j + k) \<le> c' \<and> c' \<le> limit) (\<lambda>e _. no_ub e)) (\<lambda>e _. no_ub e) c"
  proof (rule twp_mono)
    fix a s' assume s': "c + j \<le> s' \<and> s' \<le> limit"
    then show "twp (f a) (\<lambda>_ c'. c + (j + k) \<le> c' \<and> c' \<le> limit) (\<lambda>e _. no_ub e) s'"
      by (intro twp_mono [OF readsD [OF assms(2)]]) auto
  qed
qed

lemma reads_bindM0 [reads_intros]:
  "reads k limit m \<Longrightarrow> (\<And>a. reads 0 limit (f a)) \<Longrightarrow> reads k limit (bindM m f)"
  using reads_bindM [where k = 0] by fastforce

lemma reads_if [reads_intros]: "reads k limit m \<Longrightarrow> reads k limit n \<Longrightarrow> reads k limit (if b then m else n)"
  by simp

lemma reads_case_option [reads_intros]:
  "reads k limit m \<Longrightarrow> (\<And>y. reads k limit (f y)) \<Longrightarrow> reads k limit (case x of None \<Rightarrow> m | Some y \<Rightarrow> f y)"
  by (cases x) auto

lemma reads_read_scalar [reads_intros]:
  assumes "limit \<le> length bytes"
  shows "reads width limit (read_scalar dl width bytes limit what)"
  using assms by (auto simp: reads_def read_scalar_def read_at_def twp_simps)

lemma reads_fixed [reads_intros]:
  assumes "limit \<le> length bytes"
  shows "reads 1 limit (read_u8 dl bytes limit what)" "reads 2 limit (read_u16 dl bytes limit what)"
    "reads 4 limit (read_u32 dl bytes limit what)" "reads 8 limit (read_u64 dl bytes limit what)"
  unfolding read_u8_def read_u16_def read_u32_def read_u64_def
  by (intro reads_intros assms)+

lemma reads_uleb_loop:
  assumes "limit \<le> length bytes"
  shows "reads 1 limit (uleb_loop dl bytes limit n shift result)"
proof (induction n arbitrary: shift result)
  case 0
  then show ?case by (simp add: reads_throwM)
next
  case (Suc n)
  have "reads 0 limit (uleb_loop dl bytes limit n s r)" for s r
    by (rule reads_weaken [OF Suc]) simp
  then show ?case
    unfolding uleb_loop.simps Let_def by (intro reads_intros assms) auto
qed

lemma reads_sleb_loop:
  assumes "limit \<le> length bytes"
  shows "reads 1 limit (sleb_loop dl bytes limit n shift result)"
proof (induction n arbitrary: shift result)
  case 0
  then show ?case by (simp add: reads_throwM)
next
  case (Suc n)
  have "reads 0 limit (sleb_loop dl bytes limit n s r)" for s r
    by (rule reads_weaken [OF Suc]) simp
  then show ?case
    unfolding sleb_loop.simps Let_def by (intro reads_intros assms) auto
qed

lemma reads_leb [reads_intros]:
  assumes "limit \<le> length bytes"
  shows "reads 1 limit (read_uleb dl bytes limit)" "reads 1 limit (read_sleb dl bytes limit)"
  unfolding read_uleb_def read_sleb_def
  by (rule reads_uleb_loop [OF assms], rule reads_sleb_loop [OF assms])

lemma reads_c_string [reads_intros]:
  assumes "limit \<le> length bytes"
  shows "reads 1 limit (read_c_string bytes limit what)"
proof -
  have "twp (loopM (limit - c + 1) (c_string_step bytes limit what))
      (\<lambda>_ s'. c + 1 \<le> fst s' \<and> fst s' \<le> limit) (\<lambda>e _. no_ub e) (c, [])" if c: "c \<le> limit" for c
  proof (rule twp_loopM [where I = "\<lambda>s. c \<le> fst s \<and> fst s \<le> limit" and \<mu> = "\<lambda>s. limit - fst s"])
    fix s :: "nat \<times> u8 list"
    assume s: "c \<le> fst s \<and> fst s \<le> limit"
    then show "twp (c_string_step bytes limit what)
        (\<lambda>r s'. case r of Some x \<Rightarrow> c + 1 \<le> fst s' \<and> fst s' \<le> limit
           | None \<Rightarrow> (c \<le> fst s' \<and> fst s' \<le> limit) \<and> limit - fst s' < limit - fst s) (\<lambda>e _. no_ub e) s"
      using assms by (cases s) (auto simp: twp_def c_string_step_def)
  qed (use c in auto)
  then show ?thesis
    by (simp add: reads_def read_c_string_def twp_simps twp_with_local del: loopM.simps)
qed

end
