(* ===== verification/Leb128.thy ===== *)
theory Leb128
  imports ByteCursor
begin

text \<open>
  The numbers the LEB128 readers of \<^verbatim>\<open>ByteCursor\<close> return: exactly the number the DWARF encoding
  denotes, which a reference value function and a reference encoder define independently of the
  shift-and-or loops of the sources.
\<close>

unbundle bit_operations_syntax

section \<open>Reference\<close>

fun leb_group :: "u8 list \<Rightarrow> bool" where
  "leb_group [] = False"
| "leb_group (b # bs) = (if bs = [] then b AND 0x80 = 0 else b AND 0x80 \<noteq> 0 \<and> leb_group bs)"

fun uleb_value :: "u8 list \<Rightarrow> nat" where
  "uleb_value [] = 0"
| "uleb_value (b # bs) = unat (b AND 0x7f) + 128 * uleb_value bs"

definition sleb_value :: "u8 list \<Rightarrow> int" where
  "sleb_value bs = (if last bs AND 0x40 \<noteq> 0 then int (uleb_value bs) - 2 ^ (7 * length bs)
     else int (uleb_value bs))"

fun encode_uleb :: "nat \<Rightarrow> u8 list" where
  "encode_uleb n = (if n < 128 then [of_nat n] else of_nat (n mod 128 + 128) # encode_uleb (n div 128))"

declare encode_uleb.simps [simp del]

section \<open>Word arithmetic\<close>

lemma unat_of_nat64: "n < 2 ^ 64 \<Longrightarrow> unat (of_nat n :: u64) = n"
  by (simp add: unat_of_nat)

lemma unat_push_bit64: "unat p * 2 ^ s < 2 ^ 64 \<Longrightarrow> unat (push_bit s p :: u64) = unat p * 2 ^ s"
proof -
  assume le: "unat p * 2 ^ s < 2 ^ 64"
  have "push_bit s p = of_nat (unat p * 2 ^ s)"
    by (simp add: push_bit_eq_mult)
  then show ?thesis using unat_of_nat64 [OF le] by simp
qed

lemma bit_below: "unat (a :: u64) < 2 ^ s \<Longrightarrow> bit a n \<Longrightarrow> n < s"
proof -
  assume "unat a < 2 ^ s" and "bit a n"
  then have "take_bit s (unat a) = unat a" by (simp add: take_bit_nat_eq_self)
  moreover have "bit (unat a) n" using \<open>bit a n\<close> by (simp add: bit_unsigned_iff bit_imp_le_length)
  ultimately show "n < s" by (metis bit_take_bit_iff)
qed

lemma or_push_bit: "unat (acc :: u64) < 2 ^ s \<Longrightarrow> acc OR push_bit s p = acc + push_bit s p"
  by (rule disjunctive_add [symmetric]) (auto dest: bit_below simp: bit_push_bit_iff)

lemma unat_or_push_bit:
  assumes "unat (acc :: u64) < 2 ^ s" and "unat acc + unat p * 2 ^ s < 2 ^ 64"
  shows "unat (acc OR push_bit s p) = unat acc + unat p * 2 ^ s"
proof -
  have "unat (push_bit s p) = unat p * 2 ^ s"
    by (rule unat_push_bit64) (use assms(2) in simp)
  then show ?thesis using assms by (simp add: or_push_bit unat_word_ariths)
qed

lemma payload_lt: "unat ((b :: u8) AND 0x7f) < 128"
proof -
  have "unat (b AND 0x7f) \<le> unat (0x7f :: u8)"
    by (rule word_and_le1 [THEN word_le_nat_alt [THEN iffD1]])
  then show ?thesis by simp
qed

lemma and_7f: "(x :: u8) AND 0x7f = take_bit 7 x"
proof -
  have "(0x7f :: u8) = mask 7" by (simp add: mask_eq_exp_minus_1)
  then show ?thesis by (simp only: take_bit_eq_mask)
qed

lemma bit_80: "bit (0x80 :: u8) n \<longleftrightarrow> n = 7"
proof -
  have "(0x80 :: u8) = 2 ^ 7" by simp
  then show ?thesis by (simp only: bit_exp_iff) auto
qed

lemma acc_payload_lt: "a < 2 ^ s \<Longrightarrow> p < 128 \<Longrightarrow> a + p * 2 ^ s < 2 ^ (s + 7)" for a p :: nat
proof -
  assume "a < 2 ^ s" and "p < 128"
  then have "(p + 1) * 2 ^ s \<le> 128 * 2 ^ s" by (intro mult_le_mono1) simp
  moreover have "(2 :: nat) ^ (s + 7) = 128 * 2 ^ s" by (simp add: power_add)
  moreover have "(p + 1) * 2 ^ s = p * 2 ^ s + 2 ^ s" by simp
  ultimately show ?thesis using \<open>a < 2 ^ s\<close> by linarith
qed

lemma unat_payload: "unat (ucast (b AND 0x7f) :: u64) = unat ((b :: u8) AND 0x7f)"
proof -
  have "unat (b AND 0x7f) < 2 ^ 64" using payload_lt [of b] by simp
  then show ?thesis by (simp add: unsigned_ucast_eq take_bit_nat_eq_self)
qed

section \<open>One byte\<close>

lemma read_u8_ok:
  assumes "c < limit" and "limit \<le> length bytes"
  shows "read_u8 dl bytes limit what c = (Ok (bytes ! c), Suc c)"
  using assms
  by (simp add: read_u8_def read_scalar_def read_at_def bindM_def getM_def thenM_def modifyM_def
      returnM_def take_Suc hd_drop_conv_nth)

lemma read_u8_end: "\<not> c < limit \<Longrightarrow> \<exists>e. read_u8 dl bytes limit what c = (Throw e, c)"
  by (auto simp: read_u8_def read_scalar_def bindM_def getM_def throwM_def)

lemma group_head:
  assumes "take (Suc k) (drop c bytes) = b # grp" and "c < length bytes"
  shows "bytes ! c = b" and "take k (drop (Suc c) bytes) = grp"
  using assms by (simp_all flip: Cons_nth_drop_Suc)

lemma uleb_value_less: "uleb_value bs < 2 ^ (7 * length bs)"
proof (induction bs)
  case (Cons b bs)
  then have "uleb_value bs + 1 \<le> 2 ^ (7 * length bs)" by simp
  then have "128 * (uleb_value bs + 1) \<le> 128 * 2 ^ (7 * length bs)" by (rule mult_le_mono2)
  with payload_lt [of b] show ?case by (simp add: power_add)
qed simp

section \<open>ULEB128\<close>

lemma uleb_loop_reads:
  assumes "leb_group grp" and "take (length grp) (drop c bytes) = grp"
    and "c + length grp \<le> limit" and "limit \<le> length bytes"
    and "length grp \<le> n" and "shift + 7 * n = 70"
    and "unat acc < 2 ^ shift" and "unat acc + uleb_value grp * 2 ^ shift < 2 ^ 64"
  shows "uleb_loop dl bytes limit n shift acc c =
    (Ok (of_nat (unat acc + uleb_value grp * 2 ^ shift)), c + length grp)"
  using assms
proof (induction grp arbitrary: c n shift acc)
  case Nil
  then show ?case by simp
next
  case (Cons b grp)
  obtain n' where n: "n = Suc n'" using Cons.prems(5) by (cases n) auto
  have c: "c < limit" using Cons.prems(3) by simp
  have b: "bytes ! c = b" and drop: "take (length grp) (drop (Suc c) bytes) = grp"
    using group_head [of "length grp" c bytes b grp] Cons.prems(2,4) c by simp_all
  let ?p = "ucast (b AND 0x7f) :: u64"
  have bound: "unat acc + unat ?p * 2 ^ shift \<le> unat acc + uleb_value (b # grp) * 2 ^ shift"
    by (simp add: unat_payload)
  then have acc': "unat (acc OR push_bit shift ?p) = unat acc + unat (b AND 0x7f) * 2 ^ shift"
    using unat_or_push_bit [OF Cons.prems(7) le_less_trans [OF bound Cons.prems(8)]]
    by (simp only: unat_payload)
  have shift: "\<not> shift > 63" using Cons.prems(6) n by simp
  have small: "\<not> (shift = 63 \<and> ?p > 1)"
  proof
    assume "shift = 63 \<and> ?p > 1"
    then have "2 ^ 64 \<le> unat ?p * 2 ^ shift" by (simp add: word_less_nat_alt)
    then have "2 ^ 64 \<le> unat acc + unat ?p * 2 ^ shift" by (rule trans_le_add2)
    with le_less_trans [OF bound Cons.prems(8)] show False by (simp only: not_le)
  qed
  show ?case
  proof (cases "grp = []")
    case True
    with Cons.prems(1) have "b AND 0x80 = 0" by simp
    moreover have "acc OR push_bit shift ?p = of_nat (unat acc + unat (b AND 0x7f) * 2 ^ shift)"
      using acc' by (metis of_nat_unat ucast_id)
    ultimately show ?thesis
      using True c b shift small Cons.prems(4)
      by (auto simp: n bindM_def read_u8_ok returnM_def Let_def)
  next
    case False
    with Cons.prems(1) have top: "b AND 0x80 \<noteq> 0" "leb_group grp" by simp_all
    have acc_lt: "unat acc + unat (b AND 0x7f) * 2 ^ shift < 2 ^ (shift + 7)"
      by (rule acc_payload_lt [OF Cons.prems(7) payload_lt])
    have "uleb_loop dl bytes limit n' (shift + 7) (acc OR push_bit shift ?p) (Suc c) =
      (Ok (of_nat (unat (acc OR push_bit shift ?p) + uleb_value grp * 2 ^ (shift + 7))), Suc c + length grp)"
      by (rule Cons.IH [OF top(2) drop])
        (use Cons.prems(3-8) n acc_lt in \<open>auto simp: acc' power_add algebra_simps\<close>)
    then show ?thesis
      using False c b shift small top(1) Cons.prems(4)
      by (auto simp: n bindM_def read_u8_ok Let_def acc' power_add algebra_simps)
  qed
qed

lemma read_uleb_reads:
  assumes "leb_group grp" and "take (length grp) (drop c bytes) = grp"
    and "c + length grp \<le> limit" and "limit \<le> length bytes"
    and "length grp \<le> 10" and "uleb_value grp < 2 ^ 64"
  shows "read_uleb dl bytes limit c = (Ok (of_nat (uleb_value grp)), c + length grp)"
  using uleb_loop_reads [OF assms(1-5), of 0 0] assms(6) by (simp add: read_uleb_def)

text \<open>Conversely, an accepted number is the one denoted by the bytes consumed.\<close>

lemma uleb_loop_value:
  assumes "uleb_loop dl bytes limit n shift acc c = (Ok v, c')" and "limit \<le> length bytes"
    and "shift + 7 * n = 70" and "unat acc < 2 ^ shift"
  shows "\<exists>grp. leb_group grp \<and> c' = c + length grp \<and> take (length grp) (drop c bytes) = grp \<and>
    c' \<le> limit \<and> length grp \<le> n \<and> unat v = unat acc + uleb_value grp * 2 ^ shift"
  using assms
proof (induction n arbitrary: c shift acc)
  case 0
  then show ?case by (simp add: throwM_def)
next
  case (Suc n)
  have c: "c < limit"
  proof (rule ccontr)
    assume "\<not> c < limit"
    then show False
      using Suc.prems(1) read_u8_end [of c limit dl bytes "uleb_name dl"] by (auto simp: bindM_def)
  qed
  let ?b = "bytes ! c"
  let ?p = "ucast (?b AND 0x7f) :: u64"
  have len: "c < length bytes" using c Suc.prems(2) by simp
  have step: "shift \<le> 63" "\<not> (shift = 63 \<and> ?p > 1)"
    and rest: "(if ?b AND 0x80 = 0 then returnM (acc OR push_bit shift ?p)
       else uleb_loop dl bytes limit n (shift + 7) (acc OR push_bit shift ?p)) (Suc c) = (Ok v, c')"
    using Suc.prems(1) c Suc.prems(2)
    by (auto simp: bindM_def read_u8_ok Let_def throwM_def returnM_def split: if_splits)
  have p7: "unat ?p < 128" using payload_lt [of ?b] by (simp only: unat_payload)
  have fits: "unat acc + unat ?p * 2 ^ shift < 2 ^ 64"
  proof (cases "shift = 63")
    case True
    with step(2) have "unat ?p \<le> 1" by (simp add: word_less_nat_alt not_less)
    with Suc.prems(4) True show ?thesis by auto
  next
    case False
    with Suc.prems(3) step(1) have "shift \<le> 56" by presburger
    then have "(2 :: nat) ^ (shift + 7) \<le> 2 ^ 63" by (intro power_increasing) auto
    moreover have "unat acc + unat ?p * 2 ^ shift < 2 ^ (shift + 7)"
      by (rule acc_payload_lt [OF Suc.prems(4) p7])
    ultimately show ?thesis by simp
  qed
  have acc': "unat (acc OR push_bit shift ?p) = unat acc + unat (?b AND 0x7f) * 2 ^ shift"
    using unat_or_push_bit [OF Suc.prems(4) fits] by (simp only: unat_payload)
  have one: "take 1 (drop c bytes) = [?b]" using len by (simp add: take_Suc hd_drop_conv_nth)
  show ?case
  proof (cases "?b AND 0x80 = 0")
    case True
    with rest acc' one c show ?thesis by (intro exI [of _ "[?b]"]) (auto simp: returnM_def)
  next
    case False
    have lt: "unat (acc OR push_bit shift ?p) < 2 ^ (shift + 7)"
      unfolding acc' by (rule acc_payload_lt [OF Suc.prems(4) payload_lt])
    from False rest have "uleb_loop dl bytes limit n (shift + 7) (acc OR push_bit shift ?p) (Suc c) = (Ok v, c')"
      by simp
    moreover have "shift + 7 + 7 * n = 70" using Suc.prems(3) by simp
    ultimately obtain grp where
      grp: "leb_group grp" "c' = Suc c + length grp" "take (length grp) (drop (Suc c) bytes) = grp"
      "c' \<le> limit" "length grp \<le> n" "unat v = unat (acc OR push_bit shift ?p) + uleb_value grp * 2 ^ (shift + 7)"
      using Suc.IH [OF _ Suc.prems(2) _ lt] by blast
    have "take (Suc (length grp)) (drop c bytes) = ?b # grp"
      using grp(3) len by (simp flip: Cons_nth_drop_Suc)
    with grp False acc' show ?thesis
      by (intro exI [of _ "?b # grp"]) (auto simp: power_add algebra_simps)
  qed
qed

text \<open>Every accepted ULEB128 number is the number the consumed bytes denote in the DWARF encoding: the
  bytes read are one group inside the limit and the 64-bit result is its exact value.\<close>

theorem read_uleb_value:
  assumes "read_uleb dl bytes limit c = (Ok v, c')" and "limit \<le> length bytes"
  shows "\<exists>grp. leb_group grp \<and> c' = c + length grp \<and> take (length grp) (drop c bytes) = grp \<and>
    c' \<le> limit \<and> length grp \<le> 10 \<and> unat v = uleb_value grp"
  using uleb_loop_value [OF assms(1) [unfolded read_uleb_def] assms(2)] by auto

theorem read_uleb_value_witness:
  "\<exists>grp. leb_group grp \<and> (2::nat) = 0 + length grp \<and> take (length grp) (drop 0 [0xac, 0x02]) = grp \<and>
    2 \<le> (2::nat) \<and> length grp \<le> 10 \<and> unat (300 :: u64) = uleb_value grp"
proof -
  have "read_uleb \<lparr>past_data = [], past_limit = [], uleb_name = [], sleb_name = [], sleb_checked = True\<rparr>
      [0xac, 0x02] 2 0 = (Ok 300, 2)" by code_simp
  from read_uleb_value [OF this] show ?thesis by simp
qed

section \<open>The reference encoder\<close>

lemma encode_uleb_group: "leb_group (encode_uleb n) \<and> uleb_value (encode_uleb n) = n"
proof (induction n rule: encode_uleb.induct)
  case (1 n)
  have low: "unat ((of_nat m :: u8) AND 0x7f) = m" if "m < 128" for m :: nat
  proof -
    have "(of_nat m :: u8) AND 0x7f = of_nat (take_bit 7 m)"
      by (simp only: and_7f of_nat_take_bit)
    then show ?thesis using that by (simp add: take_bit_nat_eq_self unat_of_nat)
  qed
  have high: "((of_nat (m + 128) :: u8) AND 0x7f) = (of_nat m :: u8) AND 0x7f" for m :: nat
  proof -
    have "(of_nat (m + 128) :: u8) AND 0x7f = of_nat (take_bit 7 (m + 128))"
      by (simp only: and_7f of_nat_take_bit)
    also have "take_bit 7 (m + 128) = take_bit 7 m" by (simp add: take_bit_eq_mod)
    also have "(of_nat (take_bit 7 m) :: u8) = (of_nat m) AND 0x7f"
      by (simp only: and_7f of_nat_take_bit)
    finally show ?thesis .
  qed
  have bit7: "(of_nat m :: u8) AND 0x80 = 0 \<longleftrightarrow> m < 128" if "m < 256" for m :: nat
  proof -
    have "(of_nat m :: u8) AND 0x80 = (if bit m 7 then 0x80 else 0)"
    proof (rule bit_word_eqI)
      fix n assume "n < LENGTH(8)"
      then show "bit ((of_nat m :: u8) AND 0x80) n = bit (if bit m 7 then 0x80 else 0 :: u8) n"
        by (cases "bit m 7")
          (auto simp only: bit_and_iff bit_80 bit_of_nat_iff if_True if_False bit_0_eq possible_bit_word)
    qed
    also have "bit m 7 \<longleftrightarrow> \<not> m < 128" 
    proof -
      have "m div 128 < 2" using that by (simp add: less_mult_imp_div_less)
      then show ?thesis by (cases "m < 128") (auto simp: bit_iff_odd div_eq_0_iff less_2_cases_iff)
    qed
    finally show ?thesis by auto
  qed
  show ?case
  proof (cases "n < 128")
    case True
    then show ?thesis by (subst (1 2) encode_uleb.simps) (simp add: low bit7)
  next
    case False
    with 1 have IH: "leb_group (encode_uleb (n div 128))" "uleb_value (encode_uleb (n div 128)) = n div 128"
      by auto
    then have "encode_uleb (n div 128) \<noteq> []" by auto
    with False IH show ?thesis
      using low [of "n mod 128"] high [of "n mod 128"] bit7 [of "n mod 128 + 128"]
      by (subst (1 2) encode_uleb.simps) (simp del: of_nat_add)
  qed
qed

lemma length_encode_uleb: "n < 128 ^ Suc k \<Longrightarrow> length (encode_uleb n) \<le> Suc k"
proof (induction k arbitrary: n)
  case 0
  then show ?case by (subst encode_uleb.simps) simp
next
  case (Suc k)
  then have "n div 128 < 128 ^ Suc k" by (simp add: less_mult_imp_div_less mult.commute)
  from Suc.IH [OF this] show ?case by (subst encode_uleb.simps) simp
qed

text \<open>C38. Round trip: reading the reference encoding of any 64-bit number gives that number back and leaves
  the cursor right after it.\<close>

theorem read_uleb_encoded:
  assumes "n < 2 ^ 64"
  shows "read_uleb dl (before @ encode_uleb n @ rest) (length (before @ encode_uleb n @ rest)) (length before)
    = (Ok (of_nat n), length before + length (encode_uleb n))"
proof -
  have "n < 128 ^ Suc 9" using assms by simp
  from length_encode_uleb [OF this] have "length (encode_uleb n) \<le> 10" by simp
  then show ?thesis
    using encode_uleb_group [of n] assms by (subst read_uleb_reads [where grp = "encode_uleb n"]) auto
qed

theorem read_uleb_encoded_witness:
  "read_uleb \<lparr>past_data = [], past_limit = [], uleb_name = [], sleb_name = [], sleb_checked = True\<rparr>
     ([0xff] @ encode_uleb 624485 @ [0]) (length ([0xff] @ encode_uleb 624485 @ [0])) (length [0xff :: u8])
   = (Ok (of_nat 624485), length [0xff :: u8] + length (encode_uleb 624485))"
  by (rule read_uleb_encoded) simp

section \<open>SLEB128\<close>

lemma sint_of_int64: "- (2 ^ 63) \<le> k \<Longrightarrow> k < 2 ^ 63 \<Longrightarrow> sint (word_of_int k :: u64) = k"
  by (simp add: sint_sbintrunc' signed_take_bit_int_eq_self)

lemma word_of_unat: "(w :: u64) = word_of_int (int (unat w))"
  by simp

lemma sint_below: "unat (w :: u64) < 2 ^ 63 \<Longrightarrow> sint w = int (unat w)"
proof -
  assume "unat w < 2 ^ 63"
  then have "int (unat w) < int (2 ^ 63)" by (simp only: of_nat_less_iff)
  then have "int (unat w) < 2 ^ 63" by simp
  then have "sint (word_of_int (int (unat w)) :: u64) = int (unat w)"
    by (rule sint_of_int64 [rotated]) (rule order_trans [OF _ of_nat_0_le_iff], simp)
  then show ?thesis by (simp only: word_of_unat [symmetric])
qed

lemma sint_minus_exp:
  assumes "unat (w :: u64) < 2 ^ s" and "s \<le> 63"
  shows "sint (w OR push_bit s (- 1)) = int (unat w) - 2 ^ s"
proof -
  have "w OR push_bit s (- 1) = word_of_int (int (unat w) - 2 ^ s)"
    unfolding or_push_bit [OF assms(1)] by (simp add: push_bit_eq_mult)
  moreover have "(2 :: int) ^ s \<le> 2 ^ 63" using assms(2) by (intro power_increasing) auto
  moreover have "int (unat w) < 2 ^ s" using assms(1) by (metis of_nat_less_iff of_nat_numeral of_nat_power)
  moreover have "0 \<le> int (unat w)" by (rule of_nat_0_le_iff)
  ultimately have "sint (word_of_int (int (unat w) - 2 ^ s) :: u64) = int (unat w) - 2 ^ s"
    by (intro sint_of_int64) linarith+
  with \<open>w OR push_bit s (- 1) = _\<close> show ?thesis by (simp only:)
qed

lemma and_40: "(b :: u8) AND 0x40 = (b AND 0x7f) AND 0x40"
  by (simp add: and.assoc)

lemma payload_zero: "(ucast ((b :: u8) AND 0x7f) :: u64) = 0 \<longleftrightarrow> b AND 0x7f = 0"
  by (simp add: word_unat_eq_iff unat_payload del: unsigned_ucast_eq)

lemma payload_ones: "(ucast ((b :: u8) AND 0x7f) :: u64) = 0x7f \<longleftrightarrow> b AND 0x7f = 0x7f"
proof -
  have "(ucast (b AND 0x7f) :: u64) = 0x7f \<longleftrightarrow> unat (ucast (b AND 0x7f) :: u64) = unat (0x7f :: u64)"
    by (rule word_unat_eq_iff)
  also have "\<dots> \<longleftrightarrow> unat (b AND 0x7f) = unat (0x7f :: u8)" unfolding unat_payload by simp
  also have "\<dots> \<longleftrightarrow> b AND 0x7f = 0x7f" by (rule word_unat_eq_iff [symmetric])
  finally show ?thesis .
qed

lemma sleb_value_Cons: "bs \<noteq> [] \<Longrightarrow> sleb_value (b # bs) = int (unat (b AND 0x7f)) + 128 * sleb_value bs"
  by (simp add: sleb_value_def power_add algebra_simps)

text \<open>The last byte of a number, at a shift the checked reader accepts.\<close>

lemma sleb_last:
  assumes acc: "unat (acc :: u64) < 2 ^ s" and "s \<le> 56 \<or> s = 63"
    and "s = 63 \<Longrightarrow> (ucast (b AND 0x7f) :: u64) = 0 \<or> (ucast (b AND 0x7f) :: u64) = 0x7f"
    and v: "v = (let r = acc OR push_bit s (ucast ((b :: u8) AND 0x7f)) in
      if b AND 0x40 \<noteq> 0 \<and> s + 7 < 64 then r OR push_bit (s + 7) (- 1) else r)"
  shows "sint v = int (unat acc) + sleb_value [b] * 2 ^ s"
proof (cases "s = 63")
  case True
  with assms(3) consider "b AND 0x7f = 0" | "b AND 0x7f = 0x7f"
    unfolding payload_zero payload_ones by blast
  then show ?thesis
  proof cases
    case 1
    then have "b AND 0x40 = 0" by (subst and_40) simp
    with 1 True v acc show ?thesis by (simp add: sleb_value_def sint_below)
  next
    case 2
    then have "b AND 0x40 = 0x40" by (subst and_40) simp
    moreover have "push_bit 63 (ucast (b AND 0x7f) :: u64) = push_bit 63 (- 1)"
      unfolding 2 by code_simp
    ultimately show ?thesis
      using v True sint_minus_exp [OF acc] 2 by (simp add: sleb_value_def)
  qed
next
  case False
  with assms(2) have s: "s \<le> 56" by simp
  let ?p = "ucast (b AND 0x7f) :: u64"
  have lt: "unat acc + unat (b AND 0x7f) * 2 ^ s < 2 ^ (s + 7)"
    by (rule acc_payload_lt [OF acc payload_lt])
  have le: "(2 :: nat) ^ (s + 7) \<le> 2 ^ 63" using s by (intro power_increasing) auto
  have "unat acc + unat ?p * 2 ^ s < 2 ^ 64"
    unfolding unat_payload by (rule less_le_trans [OF lt order_trans [OF le]]) simp
  then have r: "unat (acc OR push_bit s ?p) = unat acc + unat (b AND 0x7f) * 2 ^ s"
    using unat_or_push_bit [OF acc] by (simp only: unat_payload)
  show ?thesis
  proof (cases "b AND 0x40 = 0")
    case True
    have "unat (acc OR push_bit s ?p) < 2 ^ 63" unfolding r by (rule less_le_trans [OF lt le])
    with True v r show ?thesis by (simp add: sleb_value_def sint_below)
  next
    case False
    have "sint ((acc OR push_bit s ?p) OR push_bit (s + 7) (- 1)) = int (unat (acc OR push_bit s ?p)) - 2 ^ (s + 7)"
      by (rule sint_minus_exp) (use r lt s in auto)
    with False s v r show ?thesis by (simp add: sleb_value_def power_add algebra_simps)
  qed
qed

lemma sleb_loop_value:
  assumes "sleb_loop dl bytes limit n shift acc c = (Ok v, c')" and "limit \<le> length bytes"
    and "sleb_checked dl" and "shift + 7 * n = 70" and "unat acc < 2 ^ shift"
  shows "\<exists>grp. leb_group grp \<and> c' = c + length grp \<and> take (length grp) (drop c bytes) = grp \<and>
    c' \<le> limit \<and> length grp \<le> n \<and> sint v = int (unat acc) + sleb_value grp * 2 ^ shift"
  using assms
proof (induction n arbitrary: c shift acc)
  case 0
  then show ?case by (simp add: throwM_def)
next
  case (Suc n)
  have c: "c < limit"
  proof (rule ccontr)
    assume "\<not> c < limit"
    then show False
      using Suc.prems(1) read_u8_end [of c limit dl bytes "sleb_name dl"] by (auto simp: bindM_def)
  qed
  let ?b = "bytes ! c"
  let ?p = "ucast (?b AND 0x7f) :: u64"
  let ?r = "acc OR push_bit shift ?p"
  have len: "c < length bytes" using c Suc.prems(2) by simp
  have step: "shift \<le> 63" "shift = 63 \<Longrightarrow> ?p = 0 \<or> ?p = 0x7f"
    and rest: "(if ?b AND 0x80 = 0
       then returnM (if ?b AND 0x40 \<noteq> 0 \<and> shift + 7 < 64 then ?r OR push_bit (shift + 7) (- 1) else ?r)
       else sleb_loop dl bytes limit n (shift + 7) ?r) (Suc c) = (Ok v, c')"
    using Suc.prems(1) c Suc.prems(2,3)
    by (auto simp: bindM_def read_u8_ok Let_def throwM_def returnM_def split: if_splits)
  have shift: "shift \<le> 56 \<or> shift = 63" using Suc.prems(4) step(1) by presburger
  have one: "take 1 (drop c bytes) = [?b]" using len by (simp add: take_Suc hd_drop_conv_nth)
  show ?case
  proof (cases "?b AND 0x80 = 0")
    case True
    with rest have v: "v = (let r = ?r in
        if ?b AND 0x40 \<noteq> 0 \<and> shift + 7 < 64 then r OR push_bit (shift + 7) (- 1) else r)"
      and c': "c' = Suc c" by (simp_all add: returnM_def Let_def)
    have "sint v = int (unat acc) + sleb_value [?b] * 2 ^ shift"
      by (rule sleb_last [OF Suc.prems(5) shift step(2) v])
    with True one c c' show ?thesis by (intro exI [of _ "[?b]"]) auto
  next
    case False
    from False rest have next_turn: "sleb_loop dl bytes limit n (shift + 7) ?r (Suc c) = (Ok v, c')" by simp
    have "shift \<noteq> 63"
    proof
      assume "shift = 63"
      then have "n = 0" using Suc.prems(4) by simp
      with next_turn show False by (simp add: throwM_def)
    qed
    with shift have s: "shift \<le> 56" by simp
    have lt: "unat acc + unat (?b AND 0x7f) * 2 ^ shift < 2 ^ (shift + 7)"
      by (rule acc_payload_lt [OF Suc.prems(5) payload_lt])
    have le: "(2 :: nat) ^ (shift + 7) \<le> 2 ^ 64" using s by (intro power_increasing) auto
    have "unat acc + unat ?p * 2 ^ shift < 2 ^ 64"
      unfolding unat_payload by (rule less_le_trans [OF lt le])
    then have r: "unat ?r = unat acc + unat (?b AND 0x7f) * 2 ^ shift"
      using unat_or_push_bit [OF Suc.prems(5)] by (simp only: unat_payload)
    then have "unat ?r < 2 ^ (shift + 7)" using lt by simp
    moreover have "shift + 7 + 7 * n = 70" using Suc.prems(4) by simp
    ultimately obtain grp where
      grp: "leb_group grp" "c' = Suc c + length grp" "take (length grp) (drop (Suc c) bytes) = grp"
      "c' \<le> limit" "length grp \<le> n" "sint v = int (unat ?r) + sleb_value grp * 2 ^ (shift + 7)"
      using Suc.IH [OF next_turn Suc.prems(2,3)] by blast
    have "grp \<noteq> []" using grp(1) by auto
    moreover have "take (Suc (length grp)) (drop c bytes) = ?b # grp"
      using grp(3) len by (simp flip: Cons_nth_drop_Suc)
    ultimately show ?thesis
      using grp False r
      by (intro exI [of _ "?b # grp"]) (auto simp: sleb_value_Cons power_add algebra_simps)
  qed
qed

text \<open>The checked SLEB128 reader of the line-table parser: every accepted number is the two's
  complement number the consumed bytes denote, exactly, with the sign extended.\<close>

theorem read_sleb_value:
  assumes "read_sleb dl bytes limit c = (Ok v, c')" and "limit \<le> length bytes" and "sleb_checked dl"
  shows "\<exists>grp. leb_group grp \<and> c' = c + length grp \<and> take (length grp) (drop c bytes) = grp \<and>
    c' \<le> limit \<and> length grp \<le> 10 \<and> sint v = sleb_value grp"
  using sleb_loop_value [OF assms(1) [unfolded read_sleb_def] assms(2,3)] by auto

theorem read_sleb_value_witness:
  "\<exists>grp. leb_group grp \<and> (2::nat) = 0 + length grp \<and> take (length grp) (drop 0 [0x80, 0x7f]) = grp \<and>
    2 \<le> (2::nat) \<and> length grp \<le> 10 \<and> sint (- 128 :: u64) = sleb_value grp"
proof -
  have "read_sleb \<lparr>past_data = [], past_limit = [], uleb_name = [], sleb_name = [], sleb_checked = True\<rparr>
      [0x80, 0x7f] 2 0 = (Ok (- 128), 2)" by code_simp
  from read_sleb_value [OF this] show ?thesis by simp
qed

end
