(* ===== verification/ElfLayout.thy ===== *)
theory ElfLayout
  imports Leb128
begin

text \<open>
  The fixed-layout ELF64 structures of \<^verbatim>\<open>elf.h\<close> that the sources copy out of a file with \<^verbatim>\<open>memcpy\<close>, as
  records decoded from little-endian bytes, and readers run at a given offset.
\<close>

unbundle bit_operations_syntax

text \<open>The number a little-endian field spells.\<close>

fun le_nat :: "u8 list \<Rightarrow> nat" where
  "le_nat [] = 0"
| "le_nat (b # bs) = unat b + 256 * le_nat bs"

definition field :: "nat \<Rightarrow> nat \<Rightarrow> u8 list \<Rightarrow> nat" where
  "field offset width bytes = le_nat (take width (drop offset bytes))"

lemma le_nat_less: "le_nat bs < 256 ^ length bs"
proof (induction bs)
  case (Cons b bs)
  then have "256 * (le_nat bs + 1) \<le> 256 * 256 ^ length bs" by (intro mult_le_mono2) simp
  moreover have "unat b < 2 ^ LENGTH(8)" by (rule unsigned_less)
  ultimately show ?case by simp
qed simp

lemma field_less: "field offset width bytes < 256 ^ width"
proof -
  have "le_nat (take width (drop offset bytes)) < 256 ^ length (take width (drop offset bytes))"
    by (rule le_nat_less)
  also have "\<dots> \<le> 256 ^ width" by (intro power_increasing) auto
  finally show ?thesis by (simp add: field_def)
qed

record elf_header =
  e_ident :: "u8 list"
  e_type :: nat
  e_machine :: nat
  e_version :: nat
  e_entry :: nat
  e_phoff :: nat
  e_shoff :: nat
  e_phentsize :: nat
  e_phnum :: nat
  e_shentsize :: nat
  e_shnum :: nat
  e_shstrndx :: nat

record section_header =
  sh_name :: nat
  sh_type :: nat
  sh_flags :: nat
  sh_addr :: nat
  sh_offset :: nat
  sh_size :: nat
  sh_link :: nat
  sh_entsize :: nat

record program_header =
  ph_type :: nat
  ph_offset :: nat
  ph_vaddr :: nat
  ph_filesz :: nat
  ph_memsz :: nat

abbreviation (input) phdr_size :: nat where "phdr_size \<equiv> 56"
abbreviation (input) ehdr_size :: nat where "ehdr_size \<equiv> 64"
abbreviation (input) shdr_size :: nat where "shdr_size \<equiv> 64"

definition decode_ehdr :: "u8 list \<Rightarrow> elf_header" where
  "decode_ehdr b = \<lparr>e_ident = take 16 b, e_type = field 16 2 b, e_machine = field 18 2 b,
     e_version = field 20 4 b,
     e_entry = field 24 8 b, e_phoff = field 32 8 b, e_shoff = field 40 8 b,
     e_phentsize = field 54 2 b, e_phnum = field 56 2 b, e_shentsize = field 58 2 b,
     e_shnum = field 60 2 b, e_shstrndx = field 62 2 b\<rparr>"

definition decode_shdr :: "u8 list \<Rightarrow> section_header" where
  "decode_shdr b = \<lparr>sh_name = field 0 4 b, sh_type = field 4 4 b, sh_flags = field 8 8 b,
     sh_addr = field 16 8 b, sh_offset = field 24 8 b, sh_size = field 32 8 b,
     sh_link = field 40 4 b, sh_entsize = field 56 8 b\<rparr>"

definition decode_phdr :: "u8 list \<Rightarrow> program_header" where
  "decode_phdr b = \<lparr>ph_type = field 0 4 b, ph_offset = field 8 8 b, ph_vaddr = field 16 8 b,
     ph_filesz = field 32 8 b, ph_memsz = field 40 8 b\<rparr>"

abbreviation (input) SHN_UNDEF :: nat where "SHN_UNDEF \<equiv> 0"
abbreviation (input) SHN_XINDEX :: nat where "SHN_XINDEX \<equiv> 0xffff"
abbreviation (input) EM_X86_64 :: nat where "EM_X86_64 \<equiv> 62"
abbreviation (input) SHF_COMPRESSED_BIT :: nat where "SHF_COMPRESSED_BIT \<equiv> 11"

text \<open>\<^verbatim>\<open>memcmp(e_ident, ELFMAG, SELFMAG) == 0\<close>, and the class and data bytes.\<close>

definition has_elf_magic :: "elf_header \<Rightarrow> bool" where
  "has_elf_magic h \<longleftrightarrow> take 4 (e_ident h) = [0x7f, 0x45, 0x4c, 0x46]"

definition is_elf64_lsb :: "elf_header \<Rightarrow> bool" where
  "is_elf64_lsb h \<longleftrightarrow> e_ident h ! 4 = 2 \<and> e_ident h ! 5 = 1"

text \<open>Unsigned 64-bit arithmetic on offsets.\<close>

definition wrap64 :: "nat \<Rightarrow> nat" where
  "wrap64 n = n mod 2 ^ 64"

text \<open>The bytes of a text constant.\<close>

definition text_bytes :: "string \<Rightarrow> u8 list" where
  "text_bytes s = map (\<lambda>c. of_nat (of_char c)) s"

text \<open>The bounds check that the parsers run before they index a region of the file.\<close>

definition require_range :: "u8 list \<Rightarrow> nat \<Rightarrow> nat \<Rightarrow> string \<Rightarrow> ('s, unit) prog" where
  "require_range bytes offset len what =
    (if offset > length bytes \<or> len > length bytes - offset
     then throwM (RuntimeError (what @ '' extends past end of file'')) else returnM ())"

text \<open>\<open>at_cursor c m\<close> runs a reader on a local cursor that starts at \<open>c\<close>.\<close>

definition at_cursor :: "nat \<Rightarrow> 'a reader \<Rightarrow> ('s, 'a) prog" where
  "at_cursor c m = (\<lambda>s. (fst (m c), s))"

text \<open>The same, also returning the final cursor.\<close>

definition from_cursor :: "nat \<Rightarrow> 'a reader \<Rightarrow> ('s, 'a \<times> nat) prog" where
  "from_cursor c m = at_cursor c (bindM m (\<lambda>a. bindM getM (\<lambda>c'. returnM (a, c'))))"

lemma twp_at_cursor:
  "twp (at_cursor c m) Q E = (\<lambda>s. twp m (\<lambda>a _. Q a s) (\<lambda>e _. E e s) c)"
  by (auto simp: twp_def at_cursor_def fun_eq_iff split: prod.splits outcome.splits)

lemma twp_from_cursor:
  "twp (from_cursor c m) Q E = (\<lambda>s. twp m (\<lambda>a c'. Q (a, c') s) (\<lambda>e _. E e s) c)"
  by (simp add: from_cursor_def twp_at_cursor twp_simps)

text \<open>Reading \<open>count\<close> consecutive section headers.\<close>

fun read_sections :: "dialect \<Rightarrow> u8 list \<Rightarrow> nat \<Rightarrow> nat \<Rightarrow> nat \<Rightarrow> ('s, section_header list) prog" where
  "read_sections dl bytes shoff index 0 = returnM []"
| "read_sections dl bytes shoff index (Suc n) =
    bindM (read_at dl shdr_size bytes (wrap64 (shoff + index * shdr_size)) ''ELF section header'') (\<lambda>raw.
    bindM (read_sections dl bytes shoff (index + 1) n) (\<lambda>rest.
    returnM (decode_shdr raw # rest)))"

lemma twp_read_at:
  "twp (read_at dl width bytes offset what) Q E =
    (if offset > length bytes \<or> width > length bytes - offset
     then E (RuntimeError (what @ past_data dl)) else Q (take width (drop offset bytes)))"
  by (auto simp: read_at_def twp_simps)

lemma twp_read_sections:
  assumes "\<And>xs. length xs = n \<Longrightarrow> Q xs s" and "\<And>m. E (RuntimeError m) s"
  shows "twp (read_sections dl bytes shoff index n) Q E s"
  using assms
proof (induction n arbitrary: index Q)
  case 0
  then show ?case by (simp add: twp_simps)
next
  case (Suc n)
  have "twp (read_sections dl bytes shoff (index + 1) n) (\<lambda>rest. Q (decode_shdr raw # rest)) E s" for raw
    by (rule Suc.IH) (use Suc.prems in auto)
  then show ?case by (simp add: twp_simps twp_read_at Suc.prems(2))
qed

lemma twp_require_range:
  "(offset + len \<le> length bytes \<Longrightarrow> Q () s) \<Longrightarrow> (\<And>m. E (RuntimeError m) s) \<Longrightarrow>
    twp (require_range bytes offset len what) Q E s"
  by (auto simp: require_range_def twp_simps)

end
