(* ===== verification/EhFrame.thy ===== *)
theory EhFrame
  imports ElfLayout Ptrace
begin

text \<open>
  The call-frame-information evaluator of \<^verbatim>\<open>src/src/dwarf/eh_frame.cpp\<close>: finding \<open>.eh_frame\<close>, parsing
  CIEs and FDEs, executing CFA programs, and computing a caller frame. Memory and register access are
  arguments, as they are in the source; an access runs in an arbitrary state \<open>'s\<close> and may throw.
\<close>

unbundle bit_operations_syntax

definition eh_dialect :: dialect where
  "eh_dialect = \<lparr>past_data = '' extends past end of data'',
     past_limit = '' extends past CFI entry boundary'',
     uleb_name = ''ULEB128'', sleb_name = ''SLEB128'', sleb_checked = False\<rparr>"

abbreviation (input) kDwarfRbx :: u64 where "kDwarfRbx \<equiv> 3"
abbreviation (input) kDwarfRbp :: u64 where "kDwarfRbp \<equiv> 6"
abbreviation (input) kDwarfRsp :: u64 where "kDwarfRsp \<equiv> 7"
abbreviation (input) kDwarfRip :: u64 where "kDwarfRip \<equiv> 16"
abbreviation (input) max_u64 :: nat where "max_u64 \<equiv> 0xffffffffffffffff"
abbreviation (input) max_i64 :: int where "max_i64 \<equiv> 0x7fffffffffffffff"

record cie =
  code_alignment :: u64
  data_alignment :: int
  return_register :: u64
  fde_encoding :: u8
  instructions_begin :: nat
  instructions_end :: nat

datatype rule_kind = RK_Undefined | RK_SameValue | RK_Offset

record register_rule =
  rr_kind :: rule_kind
  rr_offset :: int

record cfi_state =
  cfa_defined :: bool
  cfa_register :: u64
  cfa_offset :: int
  rules :: "(u64, register_rule) smap"

record evaluated_frame =
  ev_state :: cfi_state
  ev_cfa :: u64
  ev_return_address :: u64

record eh_frame_cursor =
  ec_instruction_pointer :: u64
  ec_stack_pointer :: u64
  ec_frame_pointer :: "u64 option"
  ec_rbx :: "u64 option"

section \<open>Pointer encodings\<close>

definition is_pcrel_signed_encoding :: "u8 \<Rightarrow> bool" where
  "is_pcrel_signed_encoding encoding \<longleftrightarrow> encoding = 0x1b \<or> encoding = 0x1c"

definition is_pcrel_indirect_signed_encoding :: "u8 \<Rightarrow> bool" where
  "is_pcrel_indirect_signed_encoding encoding \<longleftrightarrow> encoding = 0x9b \<or> encoding = 0x9c"

definition read_signed_encoded_value :: "u8 list \<Rightarrow> nat \<Rightarrow> u8 \<Rightarrow> string \<Rightarrow> int reader" where
  "read_signed_encoded_value bytes limit encoding what =
    (if encoding = 0x1b \<or> encoding = 0x9b
     then bindM (read_u32 eh_dialect bytes limit what) (\<lambda>v. returnM (sint v))
     else if encoding = 0x1c \<or> encoding = 0x9c
     then bindM (read_u64 eh_dialect bytes limit what) (\<lambda>v. returnM (sint v))
     else throwM (RuntimeError ''unsupported signed PC-relative CFI pointer encoding''))"

section \<open>Finding the section\<close>

fun eh_section_loop ::
  "u8 list \<Rightarrow> section_header \<Rightarrow> section_header list \<Rightarrow> ('s, (u64 \<times> u8 list) option) prog" where
  "eh_section_loop bytes names [] = returnM None"
| "eh_section_loop bytes names (s # rest) =
    (if sh_name s \<ge> sh_size names then eh_section_loop bytes names rest
     else bindM (at_cursor (sh_offset names + sh_name s)
         (read_c_string bytes (sh_offset names + sh_size names) ''ELF section name'')) (\<lambda>name.
       if name \<noteq> text_bytes ''.eh_frame'' then eh_section_loop bytes names rest
       else if bit (sh_flags s) SHF_COMPRESSED_BIT
       then throwM (RuntimeError ''compressed .eh_frame is unsupported'')
       else if sh_offset s > length bytes \<or> sh_size s > length bytes - sh_offset s
       then throwM (RuntimeError ''.eh_frame extends past end of file'')
       else returnM (Some (of_nat (sh_addr s), take (sh_size s) (drop (sh_offset s) bytes)))))"

definition find_eh_frame :: "u8 list \<Rightarrow> ('s, (u64 \<times> u8 list) option) prog" where
  "find_eh_frame bytes =
    bindM (read_at eh_dialect ehdr_size bytes 0 ''ELF header'') (\<lambda>raw.
    let header = decode_ehdr raw in
    if \<not> has_elf_magic header \<or> \<not> is_elf64_lsb header \<or> e_machine header \<noteq> EM_X86_64
    then throwM (RuntimeError ''.eh_frame parsing requires little-endian x86-64 ELF64'')
    else if e_shnum header = 0 \<or> e_shstrndx header = SHN_UNDEF then returnM None
    else if e_shentsize header \<noteq> shdr_size \<or> e_shstrndx header = SHN_XINDEX \<or>
            e_shstrndx header \<ge> e_shnum header
    then throwM (RuntimeError ''unsupported ELF section layout for .eh_frame'')
    else bindM (read_sections eh_dialect bytes (e_shoff header) 0 (e_shnum header)) (\<lambda>sections.
      let names = sections ! e_shstrndx header in
      if sh_offset names > length bytes \<or> sh_size names > length bytes - sh_offset names
      then throwM (RuntimeError ''ELF section-name table extends past end of file'')
      else eh_section_loop bytes names sections))"

section \<open>Checked arithmetic\<close>

definition scaled_offset :: "int \<Rightarrow> u64 \<Rightarrow> ('s, int) prog" where
  "scaled_offset alignment factor =
    (if uint factor > max_i64 then throwM (RuntimeError ''CFI offset factor is too large'')
     else let f = uint factor in
       if alignment < 0 \<and> f \<noteq> 0 \<and> alignment < - (2 ^ 63 div f)
       then throwM (RuntimeError ''CFI offset overflows 64 bits'')
       else if alignment > 0 \<and> f \<noteq> 0 \<and> alignment > max_i64 div f
       then throwM (RuntimeError ''CFI offset overflows 64 bits'')
       else if alignment * f < - (2 ^ 63) \<or> alignment * f > max_i64
       then throwM (UndefinedBehaviour ''signed overflow'')
       else returnM (alignment * f))"

definition add_signed :: "u64 \<Rightarrow> int \<Rightarrow> string \<Rightarrow> ('s, u64) prog" where
  "add_signed base offset what =
    (if offset \<ge> 0 then
       (if nat offset > max_u64 - unat base
        then throwM (RuntimeError (what @ '' overflows address space''))
        else returnM (base + of_int offset))
     else if nat (- offset) > unat base
     then throwM (RuntimeError (what @ '' underflows address space''))
     else returnM (base - of_int (- offset)))"

section \<open>CIE parsing\<close>

abbreviation (input) ch_z :: u8 where "ch_z \<equiv> 0x7a"
abbreviation (input) ch_P :: u8 where "ch_P \<equiv> 0x50"
abbreviation (input) ch_L :: u8 where "ch_L \<equiv> 0x4c"
abbreviation (input) ch_R :: u8 where "ch_R \<equiv> 0x52"

text \<open>The loop over the augmentation characters; the encoding found so far is an argument.\<close>

fun augmentation_loop :: "u8 list \<Rightarrow> nat \<Rightarrow> u8 list \<Rightarrow> u8 option \<Rightarrow> u8 option reader" where
  "augmentation_loop bytes aug_end [] found = returnM found"
| "augmentation_loop bytes aug_end (ch # chs) found =
    (if ch = ch_P then
       bindM (read_u8 eh_dialect bytes aug_end ''personality encoding'') (\<lambda>encoding.
       if \<not> is_pcrel_indirect_signed_encoding encoding
       then throwM (RuntimeError ''unsupported .eh_frame personality pointer encoding'')
       else thenM (read_signed_encoded_value bytes aug_end encoding ''personality pointer'')
         (augmentation_loop bytes aug_end chs found))
     else if ch = ch_L then
       bindM (read_u8 eh_dialect bytes aug_end ''LSDA encoding'') (\<lambda>encoding.
       if \<not> is_pcrel_signed_encoding encoding
       then throwM (RuntimeError ''unsupported .eh_frame LSDA pointer encoding'')
       else augmentation_loop bytes aug_end chs found)
     else if ch = ch_R then
       bindM (read_u8 eh_dialect bytes aug_end ''FDE encoding'') (\<lambda>encoding.
       if \<not> is_pcrel_signed_encoding encoding
       then throwM (RuntimeError ''unsupported .eh_frame FDE pointer encoding'')
       else augmentation_loop bytes aug_end chs (Some encoding))
     else throwM (RuntimeError ''unsupported .eh_frame CIE augmentation descriptor''))"

text \<open>The alignments and the return register, after the augmentation string.\<close>

definition parse_cie :: "u8 list \<Rightarrow> nat \<Rightarrow> cie reader" where
  "parse_cie bytes end_pos =
    bindM (read_u8 eh_dialect bytes end_pos ''CIE version'') (\<lambda>version.
    if version \<noteq> 1 then throwM (RuntimeError ''only .eh_frame CIE version 1 is supported'')
    else bindM (read_c_string bytes end_pos ''CIE augmentation'') (\<lambda>augmentation.
    if augmentation = [] \<or> hd augmentation \<noteq> ch_z
    then throwM (RuntimeError ''only z-prefixed .eh_frame augmentation is supported'')
    else bindM (read_uleb eh_dialect bytes end_pos) (\<lambda>code_align.
    bindM (read_sleb eh_dialect bytes end_pos) (\<lambda>data_align.
    bindM (read_u8 eh_dialect bytes end_pos ''CIE return register'') (\<lambda>ret.
    bindM (read_uleb eh_dialect bytes end_pos) (\<lambda>augmentation_size.
    bindM getM (\<lambda>cursor.
    if unat augmentation_size > end_pos - cursor
    then throwM (RuntimeError ''CIE augmentation extends past entry boundary'')
    else let aug_end = cursor + unat augmentation_size in
      bindM (augmentation_loop bytes aug_end (tl augmentation) None) (\<lambda>encoding.
      bindM getM (\<lambda>cursor'.
      case encoding of
        None \<Rightarrow> throwM (RuntimeError ''CIE augmentation does not define an FDE pointer encoding'')
      | Some enc \<Rightarrow>
          if cursor' \<noteq> aug_end then throwM (RuntimeError ''unexpected trailing CIE augmentation data'')
          else returnM \<lparr>code_alignment = code_align, data_alignment = sint data_align,
                 return_register = ucast ret, fde_encoding = enc,
                 instructions_begin = cursor', instructions_end = end_pos\<rparr>)))))))))"

section \<open>CFA programs\<close>

definition empty_cfi_state :: cfi_state where
  "empty_cfi_state = \<lparr>cfa_defined = False, cfa_register = 0, cfa_offset = 0, rules = smap_empty\<rparr>"

definition set_rule :: "u64 \<Rightarrow> register_rule \<Rightarrow> cfi_state \<Rightarrow> cfi_state" where
  "set_rule reg rule st = st\<lparr>rules := smap_assign reg rule (rules st)\<rparr>"

definition restore_rule :: "cfi_state option \<Rightarrow> u64 \<Rightarrow> cfi_state \<Rightarrow> ('s, cfi_state) prog" where
  "restore_rule initial reg st = (case initial of
     None \<Rightarrow> throwM (RuntimeError ''CIE uses an invalid restore opcode'')
   | Some i \<Rightarrow> (case smap_find (rules i) reg of
       None \<Rightarrow> returnM (st\<lparr>rules := smap_erase reg (rules st)\<rparr>)
     | Some rule \<Rightarrow> returnM (set_rule reg rule st)))"

text \<open>\<open>None\<close> is the result \<^verbatim>\<open>false\<close>: the next row starts beyond the target.\<close>

definition advance :: "u64 \<Rightarrow> u64 \<Rightarrow> u64 \<Rightarrow> u64 \<Rightarrow> ('s, u64 option) prog" where
  "advance location units code_align target =
    (if code_align = 0 \<or> unat units > max_u64 div unat code_align
     then throwM (RuntimeError ''invalid CFI location advance'')
     else let delta = units * code_align in
       if unat delta > max_u64 - unat location
       then throwM (RuntimeError ''CFI location overflows address space'')
       else let next_location = location + delta in
         if next_location > target then returnM None else returnM (Some next_location))"

text \<open>The local variables of \<^verbatim>\<open>execute\<close> besides its cursor.\<close>

record cfi_exec =
  ce_location :: u64
  ce_state :: cfi_state
  ce_stack :: "cfi_state list"

type_synonym 'a cfa_prog = "(nat \<times> cfi_exec, 'a) prog"

definition on_cursor :: "'a reader \<Rightarrow> 'a cfa_prog" where
  "on_cursor = zoomM fst (\<lambda>c s. (c, snd s))"

definition put_state :: "cfi_state \<Rightarrow> unit cfa_prog" where
  "put_state st = modifyM (\<lambda>(c, e). (c, e\<lparr>ce_state := st\<rparr>))"

definition modify_state :: "(cfi_state \<Rightarrow> cfi_state) \<Rightarrow> cfi_state option cfa_prog" where
  "modify_state f = thenM (modifyM (\<lambda>(c, e). (c, e\<lparr>ce_state := f (ce_state e)\<rparr>))) (returnM None)"

text \<open>An advance opcode: end the program with the current row, or go on from the new location.\<close>

definition do_advance :: "cie \<Rightarrow> u64 \<Rightarrow> u64 \<Rightarrow> cfi_state option cfa_prog" where
  "do_advance ci target units = bindM getM (\<lambda>(c, e).
    bindM (advance (ce_location e) units (code_alignment ci) target) (\<lambda>r. case r of
      None \<Rightarrow> returnM (Some (ce_state e))
    | Some l \<Rightarrow> thenM (modifyM (\<lambda>(c, e). (c, e\<lparr>ce_location := l\<rparr>))) (returnM None)))"

definition do_offset_rule :: "cie \<Rightarrow> u64 \<Rightarrow> u64 \<Rightarrow> cfi_state option cfa_prog" where
  "do_offset_rule ci reg factor =
    bindM (scaled_offset (data_alignment ci) factor) (\<lambda>off.
    modify_state (set_rule reg \<lparr>rr_kind = RK_Offset, rr_offset = off\<rparr>))"

definition do_restore :: "cfi_state option \<Rightarrow> u64 \<Rightarrow> cfi_state option cfa_prog" where
  "do_restore initial reg = bindM getM (\<lambda>(c, e).
    bindM (restore_rule initial reg (ce_state e)) (\<lambda>st. thenM (put_state st) (returnM None)))"

definition require_cfa :: "unit cfa_prog" where
  "require_cfa = bindM getM (\<lambda>(c, e).
    if \<not> cfa_defined (ce_state e) then throwM (RuntimeError ''CFA register is undefined'') else returnM ())"

definition cfa_offset_operand :: "u64 \<Rightarrow> int cfa_prog" where
  "cfa_offset_operand v =
    (if uint v > max_i64 then throwM (RuntimeError ''CFA offset is too large'') else returnM (uint v))"

text \<open>The opcodes with zero high bits.\<close>

definition execute_extended ::
  "u8 list \<Rightarrow> nat \<Rightarrow> cie \<Rightarrow> cfi_state option \<Rightarrow> u64 \<Rightarrow> u8 \<Rightarrow> cfi_state option cfa_prog" where
  "execute_extended bytes end_pos ci initial target opcode =
    (if opcode = 0x00 then returnM None
     else if opcode = 0x02 then
       bindM (on_cursor (read_u8 eh_dialect bytes end_pos ''advance_loc1'')) (\<lambda>v. do_advance ci target (ucast v))
     else if opcode = 0x03 then
       bindM (on_cursor (read_u16 eh_dialect bytes end_pos ''advance_loc2'')) (\<lambda>v. do_advance ci target (ucast v))
     else if opcode = 0x04 then
       bindM (on_cursor (read_u32 eh_dialect bytes end_pos ''advance_loc4'')) (\<lambda>v. do_advance ci target (ucast v))
     else if opcode = 0x05 then
       bindM (on_cursor (read_uleb eh_dialect bytes end_pos)) (\<lambda>reg.
       bindM (on_cursor (read_uleb eh_dialect bytes end_pos)) (\<lambda>factor. do_offset_rule ci reg factor))
     else if opcode = 0x06 then
       bindM (on_cursor (read_uleb eh_dialect bytes end_pos)) (\<lambda>reg. do_restore initial reg)
     else if opcode = 0x07 then
       bindM (on_cursor (read_uleb eh_dialect bytes end_pos)) (\<lambda>reg.
       modify_state (set_rule reg \<lparr>rr_kind = RK_Undefined, rr_offset = 0\<rparr>))
     else if opcode = 0x08 then
       bindM (on_cursor (read_uleb eh_dialect bytes end_pos)) (\<lambda>reg.
       modify_state (set_rule reg \<lparr>rr_kind = RK_SameValue, rr_offset = 0\<rparr>))
     else if opcode = 0x0a then
       thenM (modifyM (\<lambda>(c, e). (c, e\<lparr>ce_stack := ce_state e # ce_stack e\<rparr>))) (returnM None)
     else if opcode = 0x0b then bindM getM (\<lambda>(c, e). case ce_stack e of
         [] \<Rightarrow> throwM (RuntimeError ''unbalanced DW_CFA_restore_state'')
       | st # rest \<Rightarrow> thenM (modifyM (\<lambda>(c, e). (c, e\<lparr>ce_state := st, ce_stack := rest\<rparr>))) (returnM None))
     else if opcode = 0x0c then
       bindM (on_cursor (read_uleb eh_dialect bytes end_pos)) (\<lambda>reg.
       thenM (modify_state (\<lambda>st. st\<lparr>cfa_register := reg\<rparr>))
       (bindM (on_cursor (read_uleb eh_dialect bytes end_pos)) (\<lambda>v.
       bindM (cfa_offset_operand v) (\<lambda>off.
       modify_state (\<lambda>st. st\<lparr>cfa_offset := off, cfa_defined := True\<rparr>)))))
     else if opcode = 0x0d then
       thenM require_cfa
       (bindM (on_cursor (read_uleb eh_dialect bytes end_pos)) (\<lambda>reg.
       modify_state (\<lambda>st. st\<lparr>cfa_register := reg\<rparr>)))
     else if opcode = 0x0e then
       thenM require_cfa
       (bindM (on_cursor (read_uleb eh_dialect bytes end_pos)) (\<lambda>v.
       bindM (cfa_offset_operand v) (\<lambda>off.
       modify_state (\<lambda>st. st\<lparr>cfa_offset := off\<rparr>))))
     else if opcode = 0x2e then
       thenM (on_cursor (read_uleb eh_dialect bytes end_pos)) (returnM None)
     else throwM (RuntimeError ''unsupported DWARF CFI opcode''))"

definition execute_step ::
  "u8 list \<Rightarrow> nat \<Rightarrow> cie \<Rightarrow> cfi_state option \<Rightarrow> u64 \<Rightarrow> cfi_state option cfa_prog" where
  "execute_step bytes end_pos ci initial target = bindM getM (\<lambda>(cursor, e).
    if \<not> cursor < end_pos then returnM (Some (ce_state e))
    else bindM (on_cursor (read_u8 eh_dialect bytes end_pos ''CFI opcode'')) (\<lambda>opcode.
      let primary = opcode AND 0xc0; operand = ucast (opcode AND 0x3f) :: u64 in
      if primary = 0x40 then do_advance ci target operand
      else if primary = 0x80 then
        bindM (on_cursor (read_uleb eh_dialect bytes end_pos)) (\<lambda>factor. do_offset_rule ci operand factor)
      else if primary = 0xc0 then do_restore initial operand
      else execute_extended bytes end_pos ci initial target opcode))"

definition execute ::
  "u8 list \<Rightarrow> nat \<Rightarrow> nat \<Rightarrow> cie \<Rightarrow> cfi_state \<Rightarrow> cfi_state option \<Rightarrow> u64 \<Rightarrow> u64 \<Rightarrow> ('s, cfi_state) prog" where
  "execute bytes begin_pos end_pos ci st initial location target =
    at_cursor begin_pos (with_local \<lparr>ce_location = location, ce_state = st, ce_stack = []\<rparr>
      (loopM (end_pos - begin_pos + 1) (execute_step bytes end_pos ci initial target)))"

section \<open>Register access\<close>

definition dwarf_register :: "user_regs \<Rightarrow> u64 \<Rightarrow> ('s, u64) prog" where
  "dwarf_register regs reg =
    (let table = [rax regs, rdx regs, rcx regs, rbx regs, rsi regs, rdi regs, rbp regs, rsp regs,
       r8 regs, r9 regs, r10 regs, r11 regs, r12 regs, r13 regs, r14 regs, r15 regs, rip regs] in
     if unat reg < length table then returnM (table ! unat reg)
     else throwM (RuntimeError ''unsupported x86-64 DWARF register''))"

definition cursor_register :: "eh_frame_cursor \<Rightarrow> u64 \<Rightarrow> ('s, u64) prog" where
  "cursor_register cur reg =
    (if reg = kDwarfRbx then (case ec_rbx cur of
        None \<Rightarrow> throwM (RuntimeError ''CFI backtrace requires an unavailable caller RBX'')
      | Some v \<Rightarrow> returnM v)
     else if reg = kDwarfRbp then (case ec_frame_pointer cur of
        None \<Rightarrow> throwM (RuntimeError ''CFI backtrace requires an unavailable caller RBP'')
      | Some v \<Rightarrow> returnM v)
     else if reg = kDwarfRsp then returnM (ec_stack_pointer cur)
     else if reg = kDwarfRip then returnM (ec_instruction_pointer cur)
     else throwM (RuntimeError ''CFI backtrace requires an unrecovered x86-64 register''))"

type_synonym 's cfi_memory_reader = "u64 \<Rightarrow> nat \<Rightarrow> ('s, u8 list) prog"

definition read_u64_exact :: "u8 list \<Rightarrow> ('s, u64) prog" where
  "read_u64_exact bytes =
    (if length bytes \<noteq> 8 then throwM (RuntimeError ''unexpected CFI register read size'')
     else returnM (le_word bytes))"

definition read_cfi_slot :: "'s cfi_memory_reader \<Rightarrow> u64 \<Rightarrow> string \<Rightarrow> ('s, u64) prog" where
  "read_cfi_slot read_memory address what =
    catchM (bindM (read_memory address 8) read_u64_exact)
      (\<lambda>_. throwM (RuntimeError (what @ '' is unreadable'')))"

section \<open>Scanning the section\<close>

text \<open>The fields of an FDE up to its instructions: the cursor is left at the instructions.\<close>

definition parse_fde :: "u8 list \<Rightarrow> u64 \<Rightarrow> nat \<Rightarrow> cie \<Rightarrow> (u64 \<times> u64) reader" where
  "parse_fde sec section_virtual_address end_pos ci = bindM getM (\<lambda>cursor.
    let field_virtual_address = section_virtual_address + of_nat cursor in
    bindM (read_signed_encoded_value sec end_pos (fde_encoding ci) ''FDE initial location'') (\<lambda>relative.
    bindM (add_signed field_virtual_address relative ''FDE start'') (\<lambda>initial_location.
    bindM (read_signed_encoded_value sec end_pos (fde_encoding ci) ''FDE address range'') (\<lambda>signed_range.
    if signed_range < 0 then throwM (RuntimeError ''negative FDE address range'')
    else if nat signed_range > max_u64 - unat initial_location
    then throwM (RuntimeError ''FDE address range overflows address space'')
    else bindM (read_uleb eh_dialect sec end_pos) (\<lambda>augmentation_size.
    bindM getM (\<lambda>cursor'.
    if unat augmentation_size > end_pos - cursor'
    then throwM (RuntimeError ''FDE augmentation extends past entry boundary'')
    else thenM (modifyM (\<lambda>c. c + unat augmentation_size))
      (returnM (initial_location, of_int signed_range))))))))"

text \<open>What the source does with the FDE that covers the target.\<close>

definition evaluate_covering ::
  "u8 list \<Rightarrow> cie \<Rightarrow> nat \<Rightarrow> nat \<Rightarrow> u64 \<Rightarrow> u64 \<Rightarrow> 's cfi_memory_reader \<Rightarrow> (u64 \<Rightarrow> ('s, u64) prog) \<Rightarrow>
   ('s, evaluated_frame) prog" where
  "evaluate_covering sec ci cursor end_pos initial_location target read_memory read_register =
    bindM (execute sec (instructions_begin ci) (instructions_end ci) ci empty_cfi_state None
             initial_location (- 1)) (\<lambda>cie_state.
    bindM (execute sec cursor end_pos ci cie_state (Some cie_state) initial_location target) (\<lambda>st.
    if \<not> cfa_defined st then throwM (RuntimeError ''CFI did not define a CFA'')
    else bindM (read_register (cfa_register st)) (\<lambda>base.
    bindM (add_signed base (cfa_offset st) ''CFI CFA'') (\<lambda>cfa.
    case smap_find (rules st) (return_register ci) of
      None \<Rightarrow> throwM (RuntimeError ''CFI return-address rule is not a supported memory offset'')
    | Some rule \<Rightarrow>
        if rr_kind rule \<noteq> RK_Offset
        then throwM (RuntimeError ''CFI return-address rule is not a supported memory offset'')
        else bindM (add_signed cfa (rr_offset rule) ''CFI return slot'') (\<lambda>slot.
          bindM (read_cfi_slot read_memory slot ''CFI return-address slot'') (\<lambda>return_address.
          if return_address = 0 then throwM (RuntimeError ''CFI resolved a zero return address'')
          else returnM \<lparr>ev_state = st, ev_cfa = cfa, ev_return_address = return_address\<rparr>))))))"

text \<open>The local variables of the scan: the entry offset and the CIEs seen, by offset.\<close>

type_synonym scan = "nat \<times> (nat, cie) smap"

definition next_entry :: "nat \<Rightarrow> ('s \<times> scan, 'r option) prog" where
  "next_entry end_pos = thenM (modifyM (\<lambda>(s, e, cies). (s, end_pos, cies))) (returnM None)"

definition scan_fde ::
  "u8 list \<Rightarrow> u64 \<Rightarrow> u64 \<Rightarrow> 's cfi_memory_reader \<Rightarrow> (u64 \<Rightarrow> ('s, u64) prog) \<Rightarrow> nat \<Rightarrow> nat \<Rightarrow> nat \<Rightarrow> nat \<Rightarrow>
   (nat, cie) smap \<Rightarrow> ('s \<times> scan, evaluated_frame option option) prog" where
  "scan_fde sec sva target read_memory read_register cie_pointer content cursor end_pos cies =
    (if cie_pointer > content then throwM (RuntimeError ''FDE CIE pointer underflows section'')
     else case smap_find cies (content - cie_pointer) of
       None \<Rightarrow> throwM (RuntimeError ''FDE references an unknown CIE'')
     | Some ci \<Rightarrow>
         bindM (from_cursor cursor (parse_fde sec sva end_pos ci)) (\<lambda>((initial_location, range), instrs).
         if target \<ge> initial_location \<and> target < initial_location + range
         then bindM (zoomM fst (\<lambda>s x. (s, snd x))
                (evaluate_covering sec ci instrs end_pos initial_location target read_memory read_register))
              (\<lambda>frame. returnM (Some (Some frame)))
         else next_entry end_pos))"

definition scan_entry ::
  "u8 list \<Rightarrow> u64 \<Rightarrow> u64 \<Rightarrow> 's cfi_memory_reader \<Rightarrow> (u64 \<Rightarrow> ('s, u64) prog) \<Rightarrow>
   ('s \<times> scan, evaluated_frame option option) prog" where
  "scan_entry sec sva target read_memory read_register = bindM getM (\<lambda>(s, entry, cies).
    if \<not> entry < length sec then returnM (Some None)
    else bindM (read_at eh_dialect 4 sec entry ''.eh_frame length'') (\<lambda>raw.
      let len = le_nat raw; content = entry + 4 in
      if len = 0 then returnM (Some None)
      else if len = 0xffffffff then throwM (RuntimeError ''DWARF64 .eh_frame is unsupported'')
      else if len > length sec - content
      then throwM (RuntimeError ''.eh_frame entry extends past section boundary'')
      else let end_pos = content + len in
        bindM (from_cursor content (read_u32 eh_dialect sec end_pos ''CIE pointer'')) (\<lambda>(cie_pointer, cursor).
        if cie_pointer = 0
        then bindM (at_cursor cursor (parse_cie sec end_pos)) (\<lambda>ci.
          thenM (modifyM (\<lambda>(s, e, cies). (s, e, smap_emplace entry ci cies))) (next_entry end_pos))
        else scan_fde sec sva target read_memory read_register (unat cie_pointer) content cursor end_pos cies)))"

definition evaluate_frame ::
  "u8 list \<Rightarrow> u64 \<Rightarrow> u64 \<Rightarrow> 's cfi_memory_reader \<Rightarrow> (u64 \<Rightarrow> ('s, u64) prog) \<Rightarrow>
   ('s, evaluated_frame option) prog" where
  "evaluate_frame sec sva target read_memory read_register =
    with_local (0, smap_empty)
      (loopM (length sec + 1) (scan_entry sec sva target read_memory read_register))"

section \<open>Recovering the caller\<close>

definition recover_register ::
  "'s cfi_memory_reader \<Rightarrow> evaluated_frame \<Rightarrow> u64 \<Rightarrow> u64 option \<Rightarrow> string \<Rightarrow> ('s, u64 option) prog" where
  "recover_register read_memory ev reg current_value what = (case smap_find (rules (ev_state ev)) reg of
     None \<Rightarrow> returnM None
   | Some rule \<Rightarrow> (case rr_kind rule of
       RK_Undefined \<Rightarrow> returnM None
     | RK_SameValue \<Rightarrow> returnM current_value
     | RK_Offset \<Rightarrow> bindM (add_signed (ev_cfa ev) (rr_offset rule) what) (\<lambda>slot.
         bindM (read_cfi_slot read_memory slot what) (\<lambda>v. returnM (Some v)))))"

record eh_frame =
  ef_section :: "u8 list"
  ef_virtual_address :: u64
  ef_available :: bool

text \<open>The constructor, on the contents of the file.\<close>

definition init_eh_frame :: "u8 list \<Rightarrow> ('s, eh_frame) prog" where
  "init_eh_frame file = bindM (find_eh_frame file) (\<lambda>found. case found of
     None \<Rightarrow> returnM \<lparr>ef_section = [], ef_virtual_address = 0, ef_available = False\<rparr>
   | Some (va, sec) \<Rightarrow> returnM \<lparr>ef_section = sec, ef_virtual_address = va, ef_available = True\<rparr>)"

definition caller_frame_at ::
  "eh_frame \<Rightarrow> 's cfi_memory_reader \<Rightarrow> u64 \<Rightarrow> eh_frame_cursor \<Rightarrow> ('s, eh_frame_cursor option) prog" where
  "caller_frame_at ef read_memory module_virtual_pc current =
    (if \<not> ef_available ef then returnM None
     else bindM (evaluate_frame (ef_section ef) (ef_virtual_address ef) module_virtual_pc read_memory
                  (cursor_register current)) (\<lambda>evaluated. case evaluated of
       None \<Rightarrow> returnM None
     | Some ev \<Rightarrow>
         bindM (recover_register read_memory ev kDwarfRbp (ec_frame_pointer current) ''CFI RBP slot'') (\<lambda>fp.
         bindM (recover_register read_memory ev kDwarfRbx (ec_rbx current) ''CFI RBX slot'') (\<lambda>bx.
         returnM (Some \<lparr>ec_instruction_pointer = ev_return_address ev, ec_stack_pointer = ev_cfa ev,
            ec_frame_pointer = fp, ec_rbx = bx\<rparr>)))))"

end
