(* ===== verification/Inspect.thy ===== *)
theory Inspect
  imports ElfLayout
begin

text \<open>
  Programs that only look: from every state they return or throw, never run into undefined behaviour,
  and leave the state as it was. Memory readers, symbol and source lookups and unwinding are of this
  kind; the predicate composes over the program combinators.
\<close>

named_theorems inspects_intros \<open>programs that only look\<close>

definition inspects :: "('s, 'a) prog \<Rightarrow> bool" where
  "inspects m \<longleftrightarrow> (\<forall>s. twp m (\<lambda>_ s'. s' = s) (\<lambda>e s'. no_ub e \<and> s' = s) s)"

lemma inspectsI: "(\<And>s. twp m (\<lambda>_ s'. s' = s) (\<lambda>e s'. no_ub e \<and> s' = s) s) \<Longrightarrow> inspects m"
  by (simp add: inspects_def)

lemma twp_inspects:
  "inspects m \<Longrightarrow> (\<And>a. Q a s) \<Longrightarrow> (\<And>e. no_ub e \<Longrightarrow> E e s) \<Longrightarrow> twp m Q E s"
  by (rule twp_mono [of m "\<lambda>_ s'. s' = s" "\<lambda>e s'. no_ub e \<and> s' = s"]) (auto simp: inspects_def)

lemma inspects_returnM [inspects_intros]: "inspects (returnM a)"
  by (simp add: inspects_def twp_simps)

lemma inspects_throwM [inspects_intros]: "no_ub e \<Longrightarrow> inspects (throwM e)"
  by (simp add: inspects_def twp_simps)

lemma inspects_getM [inspects_intros]: "inspects getM"
  by (simp add: inspects_def twp_simps)

lemma inspects_bindM [inspects_intros]:
  "inspects m \<Longrightarrow> (\<And>a. inspects (f a)) \<Longrightarrow> inspects (bindM m f)"
  unfolding inspects_def [of "bindM m f"] twp_bindM by (blast intro: twp_inspects)

lemma inspects_thenM [inspects_intros]: "inspects m \<Longrightarrow> inspects n \<Longrightarrow> inspects (thenM m n)"
  by (simp add: thenM_def inspects_bindM)

lemma inspects_catchM [inspects_intros]:
  "inspects m \<Longrightarrow> (\<And>e. no_ub e \<Longrightarrow> inspects (h e)) \<Longrightarrow> inspects (catchM m h)"
  unfolding inspects_def [of "catchM m h"] twp_catchM by (blast intro: twp_inspects)

lemma inspects_if [inspects_intros]:
  "(b \<Longrightarrow> inspects m) \<Longrightarrow> (\<not> b \<Longrightarrow> inspects n) \<Longrightarrow> inspects (if b then m else n)"
  by simp

lemma inspects_case_option [inspects_intros]:
  "(x = None \<Longrightarrow> inspects m) \<Longrightarrow> (\<And>y. x = Some y \<Longrightarrow> inspects (f y)) \<Longrightarrow>
    inspects (case x of None \<Rightarrow> m | Some y \<Rightarrow> f y)"
  by (cases x) auto

lemma inspects_case_prod [inspects_intros]: "(\<And>a b. inspects (f a b)) \<Longrightarrow> inspects (case_prod f x)"
  by (simp add: case_prod_beta)

lemma inspects_Let [inspects_intros]: "inspects (f v) \<Longrightarrow> inspects (let x = v in f x)"
  by simp

lemma inspects_at_cursor:
  "twp m (\<lambda>_ _. True) (\<lambda>e _. no_ub e) c \<Longrightarrow> inspects (at_cursor c m)"
  by (simp add: inspects_def twp_at_cursor)

text \<open>Running a looking program on a part of the state, when writing the part back unchanged is the
  identity.\<close>

lemma inspects_zoomM:
  "inspects m \<Longrightarrow> (\<And>s. setp (getp s) s = s) \<Longrightarrow> inspects (zoomM getp setp m)"
  unfolding inspects_def [of "zoomM getp setp m"] twp_zoomM by (blast intro: twp_inspects)

lemma inspects_with_local:
  assumes "\<And>s. twp m (\<lambda>_ s'. fst s' = s) (\<lambda>e s'. no_ub e \<and> fst s' = s) (s, l)"
  shows "inspects (with_local l m)"
  using assms by (simp add: inspects_def twp_with_local)

lemma inspects_keeps: "inspects m \<Longrightarrow> keeps I m"
  unfolding keeps_def by (blast intro: twp_wp twp_inspects)

lemma inspects_state: "inspects m \<Longrightarrow> m s = (r, s') \<Longrightarrow> s' = s"
  by (cases r) (auto simp: inspects_def twp_def split: prod.splits dest!: spec [of _ s])

lemma inspects_cases:
  assumes "inspects m"
  obtains (returns) a where "m s = (Ok a, s)" | (throws) e where "m s = (Throw e, s)" and "no_ub e"
proof -
  have "twp m (\<lambda>_ s'. s' = s) (\<lambda>e s'. no_ub e \<and> s' = s) s" using assms by (simp add: inspects_def)
  then show thesis by (rule twp_cases) (use returns throws in auto)
qed

lemma inspects_bindM_Ok:
  "inspects m \<Longrightarrow> bindM m f s = (Ok b, s'') \<longleftrightarrow> (\<exists>a. m s = (Ok a, s) \<and> f a s = (Ok b, s''))"
  by (auto simp: Ok_run dest: inspects_state)

end
