(* ===== verification/EhFrameSafety.thy ===== *)
theory EhFrameSafety
  imports EhFrame Inspect
begin

text \<open>
  Safety of the call-frame evaluator: on every byte sequence it ends, reads only inside the section,
  and reports malformed input as an exception; the checked arithmetic helpers accept exactly the
  operands whose exact result fits.
\<close>

unbundle bit_operations_syntax

section \<open>Checked arithmetic is exact\<close>

lemma int_div_less: "0 < f \<Longrightarrow> a div f < b \<longleftrightarrow> a < b * f" for a b f :: int
proof -
  assume f: "0 < f"
  have split: "a = a div f * f + a mod f" by simp
  have md: "0 \<le> a mod f" "a mod f < f" using f by simp_all
  show ?thesis
  proof
    assume "a div f < b"
    then have "(a div f + 1) * f \<le> b * f" using f by (intro mult_right_mono) auto
    then have "a div f * f + f \<le> b * f" by (simp add: distrib_right)
    then show "a < b * f" using split md by linarith
  next
    assume lt: "a < b * f"
    show "a div f < b"
    proof (rule ccontr)
      assume "\<not> a div f < b"
      then have "b * f \<le> a div f * f" using f by (intro mult_right_mono) auto
      with lt split md show False by linarith
    qed
  qed
qed

lemma scaled_offset_cases:
  assumes "- (2 ^ 63) \<le> alignment" and "alignment \<le> max_i64"
  shows "scaled_offset alignment factor s =
    (if uint factor > max_i64 then (Throw (RuntimeError ''CFI offset factor is too large''), s)
     else if - (2 ^ 63) \<le> alignment * uint factor \<and> alignment * uint factor \<le> max_i64
     then (Ok (alignment * uint factor), s)
     else (Throw (RuntimeError ''CFI offset overflows 64 bits''), s))"
proof -
  let ?f = "uint factor"
  have f: "0 \<le> ?f" by simp
  have neg: "alignment < - (2 ^ 63 div ?f) \<longleftrightarrow> alignment * ?f < - (2 ^ 63)" if "?f > 0"
  proof -
    have "alignment < - (2 ^ 63 div ?f) \<longleftrightarrow> 2 ^ 63 div ?f < - alignment" by linarith
    also have "\<dots> \<longleftrightarrow> 2 ^ 63 < - alignment * ?f" by (rule int_div_less [OF that])
    also have "\<dots> \<longleftrightarrow> alignment * ?f < - (2 ^ 63)" by (simp add: minus_less_iff [of "2 ^ 63"] less_minus_iff)
    finally show ?thesis .
  qed
  have pos: "alignment > max_i64 div ?f \<longleftrightarrow> alignment * ?f > max_i64" if "?f > 0"
    by (rule int_div_less [OF that])
  have sign: "alignment < 0 \<Longrightarrow> alignment * ?f \<le> 0" "alignment \<ge> 0 \<Longrightarrow> alignment * ?f \<ge> 0"
    using f by (auto simp: mult_nonpos_nonneg)
  show ?thesis
  proof (cases "?f = 0")
    case True
    then show ?thesis by (simp add: scaled_offset_def returnM_def throwM_def)
  next
    case False
    with f have f0: "?f > 0" by linarith
    consider "alignment < 0" | "alignment = 0" | "alignment > 0" by linarith
    then show ?thesis
    proof cases
      case 1
      have "\<not> alignment * ?f > max_i64" using sign(1) [OF 1] by linarith
      with 1 f0 neg [OF f0] show ?thesis
        by (auto simp: scaled_offset_def returnM_def throwM_def Let_def)
    next
      case 2
      then show ?thesis by (simp add: scaled_offset_def returnM_def throwM_def)
    next
      case 3
      have "\<not> alignment * ?f < - (2 ^ 63)" using sign(2) [OF less_imp_le [OF 3]] by simp
      with 3 f0 pos [OF f0] show ?thesis
        by (auto simp: scaled_offset_def returnM_def throwM_def Let_def)
    qed
  qed
qed

text \<open>C29. The factored offset of a CFI rule: the guards of \<^verbatim>\<open>scaled_offset\<close>, which never form an overflowing
  product, accept exactly the products that fit a signed 64-bit integer and return them unchanged.\<close>

theorem scaled_offset_exact:
  assumes "- (2 ^ 63) \<le> alignment" and "alignment \<le> max_i64"
  shows "(scaled_offset alignment factor s = (Ok v, s') \<longleftrightarrow>
      s' = s \<and> v = alignment * uint factor \<and> uint factor \<le> max_i64 \<and> - (2 ^ 63) \<le> v \<and> v \<le> max_i64) \<and>
    fst (scaled_offset alignment factor s) \<noteq> Throw (UndefinedBehaviour what)"
  by (auto simp: scaled_offset_cases [OF assms])

theorem scaled_offset_exact_witness: "scaled_offset (- 8) 3 () = (Ok (- 24), ())"
  using scaled_offset_exact [of "- 8" 3 "()" "- 24" "()"] by simp

lemma uint_max: "uint (w :: u64) < 2 ^ 64"
proof -
  have "uint w < 2 ^ LENGTH(64)" by (rule unsigned_less)
  then show ?thesis by simp
qed

text \<open>Address plus signed offset: accepted exactly when the sum lies in the 64-bit address space, and
  then it is the exact sum; otherwise the overflow or the underflow is reported.\<close>

theorem add_signed_exact:
  "add_signed base offset what s =
    (if 0 \<le> uint base + offset \<and> uint base + offset < 2 ^ 64
     then (Ok (word_of_int (uint base + offset)), s)
     else if offset \<ge> 0 then (Throw (RuntimeError (what @ '' overflows address space'')), s)
     else (Throw (RuntimeError (what @ '' underflows address space'')), s))"
proof -
  have base: "0 \<le> uint base" "uint base < 2 ^ 64" using uint_max [of base] by simp_all
  have unat: "int (unat base) = uint base" by simp
  show ?thesis
  proof (cases "offset \<ge> 0")
    case True
    have "unat base < 2 ^ LENGTH(64)" by (rule unsigned_less)
    then have "unat base \<le> max_u64" by simp
    then have "nat offset > max_u64 - unat base \<longleftrightarrow> int max_u64 - int (unat base) < offset"
      using True by (simp add: zless_nat_eq_int_zless of_nat_diff)
    also have "\<dots> \<longleftrightarrow> uint base + offset \<ge> 2 ^ 64" using unat by simp linarith
    finally have "nat offset > max_u64 - unat base \<longleftrightarrow> uint base + offset \<ge> 2 ^ 64" .
    with True base show ?thesis by (auto simp: add_signed_def returnM_def throwM_def)
  next
    case False
    then have "nat (- offset) > unat base \<longleftrightarrow> uint base + offset < 0"
      using base unat by linarith
    with False base show ?thesis by (auto simp: add_signed_def returnM_def throwM_def)
  qed
qed

text \<open>Advancing the CFI location: the new location is the exact sum of the old one and the scaled delta,
  the row stops exactly when that sum passes the target, and neither product nor sum ever wraps.\<close>

theorem advance_exact:
  "advance location units code_align target s =
    (if code_align = 0 \<or> unat units * unat code_align > max_u64
     then (Throw (RuntimeError ''invalid CFI location advance''), s)
     else if unat location + unat units * unat code_align > max_u64
     then (Throw (RuntimeError ''CFI location overflows address space''), s)
     else if unat location + unat units * unat code_align > unat target then (Ok None, s)
     else (Ok (Some (of_nat (unat location + unat units * unat code_align))), s))"
proof (cases "code_align = 0 \<or> unat units * unat code_align > max_u64")
  case True
  then show ?thesis
    by (cases "code_align = 0")
      (auto simp: advance_def throwM_def div_less_iff_less_mult unat_gt_0)
next
  case False
  then have pos: "0 < unat code_align" and le: "unat units * unat code_align \<le> max_u64"
    by (auto simp: unat_gt_0)
  then have delta: "unat (units * code_align) = unat units * unat code_align"
    by (simp add: unat_word_ariths)
  have loc: "unat location < 2 ^ LENGTH(64)" by (rule unsigned_less)
  have guard: "\<not> unat units > max_u64 div unat code_align"
    using pos le by (simp add: div_less_iff_less_mult not_less)
  have sum: "unat (location + units * code_align) = unat location + unat units * unat code_align"
    if "unat location + unat units * unat code_align \<le> max_u64"
    using that by (simp add: unat_word_ariths delta)
  have new: "location + units * code_align = of_nat (unat location + unat units * unat code_align)"
    by simp
  show ?thesis
    using False guard loc sum
    by (auto simp: advance_def returnM_def throwM_def Let_def delta word_less_nat_alt new simp del: of_nat_add of_nat_mult)
qed

section \<open>Every scan ends, inside the section\<close>

definition cie_inside :: "u8 list \<Rightarrow> cie \<Rightarrow> bool" where
  "cie_inside sec ci \<longleftrightarrow> instructions_end ci \<le> length sec \<and>
     - (2 ^ 63) \<le> data_alignment ci \<and> data_alignment ci \<le> max_i64"

lemma reads_signed_encoded [reads_intros]:
  assumes "limit \<le> length bytes"
  shows "reads 0 limit (read_signed_encoded_value bytes limit encoding what)"
  unfolding read_signed_encoded_value_def
  by (intro reads_if reads_throwM reads_bindM0 reads_returnM
      reads_weaken [OF reads_fixed(3) [OF assms]] reads_weaken [OF reads_fixed(4) [OF assms]]) simp_all

lemma reads_thenM0: "reads k limit m \<Longrightarrow> reads 0 limit n \<Longrightarrow> reads k limit (thenM m n)"
  by (simp add: thenM_def reads_bindM0)

lemma reads_augmentation_loop:
  assumes "limit \<le> length bytes"
  shows "reads 0 limit (augmentation_loop bytes limit chs found)"
proof (induction chs arbitrary: found)
  case Nil
  then show ?case by (simp add: reads_returnM)
next
  case (Cons ch chs)
  note byte = reads_weaken [OF reads_fixed(1) [OF assms], of 0, simplified]
  show ?case
    unfolding augmentation_loop.simps
    by (intro reads_if reads_throwM reads_bindM0 reads_thenM0 reads_signed_encoded assms byte Cons) simp_all
qed

text \<open>Using a consumption bound in a total-correctness goal.\<close>

lemma twp_read:
  assumes "reads k limit m" and "c \<le> limit"
    and "\<And>a c'. c + k \<le> c' \<Longrightarrow> c' \<le> limit \<Longrightarrow> Q a c'" and "\<And>e c'. no_ub e \<Longrightarrow> E e c'"
  shows "twp m Q E c"
  by (rule twp_mono [OF readsD [OF assms(1,2)]]) (auto intro: assms(3,4))

lemma sint_bounds: "- (2 ^ 63) \<le> sint (w :: u64)" "sint (w :: u64) \<le> max_i64"
  using sint_ge [of w] sint_lt [of w] by simp_all

lemma twp_parse_cie:
  assumes limit: "limit \<le> length bytes" and "c \<le> limit"
  shows "twp (parse_cie bytes limit) (\<lambda>ci _. cie_inside bytes ci) (\<lambda>e _. no_ub e) c"
proof -
  have aug: "reads 0 a (augmentation_loop bytes a chs found)" if "a \<le> limit" for a chs found
    by (rule reads_augmentation_loop) (use that limit in simp)
  show ?thesis
    unfolding parse_cie_def Let_def using assms(2)
    by (auto simp: twp_simps cie_inside_def sint_bounds sint_bounds(1) [simplified] limit simp del: One_nat_def
        intro!: twp_read [OF reads_fixed(1) [OF limit]] twp_read [OF reads_leb(1) [OF limit]]
          twp_read [OF reads_leb(2) [OF limit]] twp_read [OF reads_c_string [OF limit]]
          twp_read [OF aug])
qed

subsection \<open>CFA programs\<close>

lemma twp_on_cursor:
  "twp (on_cursor m) Q E (c, e) = twp m (\<lambda>a c'. Q a (c', e)) (\<lambda>x c'. E x (c', e)) c"
  by (simp add: on_cursor_def twp_zoomM)

lemma twp_advance:
  "(\<And>r. Q r s) \<Longrightarrow> (\<And>m. E (RuntimeError m) s) \<Longrightarrow> twp (advance l u a t) Q E s"
  by (simp add: advance_def twp_simps Let_def)

lemma twp_scaled_offset:
  assumes "- (2 ^ 63) \<le> alignment" "alignment \<le> max_i64"
    and "\<And>v. Q v s" and "\<And>m. E (RuntimeError m) s"
  shows "twp (scaled_offset alignment factor) Q E s"
  by (simp add: twp_def scaled_offset_cases [OF assms(1,2)] assms(3,4))

lemma twp_restore_rule:
  "(\<And>v. Q v s) \<Longrightarrow> (\<And>m. E (RuntimeError m) s) \<Longrightarrow> twp (restore_rule initial reg st) Q E s"
  by (auto simp: restore_rule_def twp_simps split: option.split)

text \<open>The parts of a step keep the cursor and never run into undefined behaviour.\<close>

definition quiet :: "'a cfa_prog \<Rightarrow> bool" where
  "quiet m \<longleftrightarrow> (\<forall>c e. twp m (\<lambda>_ s'. fst s' = c) (\<lambda>x _. no_ub x) (c, e))"

lemma twp_quiet:
  "quiet m \<Longrightarrow> (\<And>a e'. Q a (c, e')) \<Longrightarrow> (\<And>x s'. no_ub x \<Longrightarrow> E x s') \<Longrightarrow> twp m Q E (c, e)"
  by (rule twp_mono [of m "\<lambda>_ s'. fst s' = c" "\<lambda>x _. no_ub x"]) (auto simp: quiet_def)

lemma quiet_parts:
  "quiet (modify_state f)" "quiet (put_state st)" "quiet (do_advance ci target units)"
  "quiet (do_restore initial reg)" "quiet require_cfa" "quiet (cfa_offset_operand v)"
  by (auto simp: quiet_def modify_state_def put_state_def do_advance_def do_restore_def require_cfa_def
      cfa_offset_operand_def twp_simps intro!: twp_advance twp_restore_rule)

lemma quiet_offset_rule:
  assumes "cie_inside sec ci"
  shows "quiet (do_offset_rule ci reg factor)"
  using assms twp_quiet [OF quiet_parts(1)]
  by (auto simp: quiet_def do_offset_rule_def cie_inside_def twp_simps intro!: twp_scaled_offset)

lemmas quiet_rules = quiet_parts [THEN twp_quiet] quiet_offset_rule [THEN twp_quiet]

lemma twp_execute_extended:
  assumes limit: "limit \<le> length bytes" and ci: "cie_inside bytes ci" and "c \<le> limit"
  shows "twp (execute_extended bytes limit ci initial target opcode)
    (\<lambda>r s'. c \<le> fst s' \<and> fst s' \<le> limit) (\<lambda>x _. no_ub x) (c, e)"
proof -
  note read = twp_read [OF reads_fixed(1) [OF limit]] twp_read [OF reads_fixed(2) [OF limit]]
    twp_read [OF reads_fixed(3) [OF limit]] twp_read [OF reads_leb(1) [OF limit]]
  show ?thesis
    unfolding execute_extended_def using assms(3)
    by (auto simp: twp_simps twp_on_cursor simp del: One_nat_def
        intro!: read quiet_parts [THEN twp_quiet] quiet_offset_rule [OF ci, THEN twp_quiet]
        split: list.split)
qed

lemma twp_execute_step:
  assumes limit: "limit \<le> length bytes" and ci: "cie_inside bytes ci"
  shows "twp (execute_step bytes limit ci initial target)
    (\<lambda>r s'. r = None \<longrightarrow> limit - fst s' < limit - c) (\<lambda>x _. no_ub x) (c, e)"
proof (cases "c < limit")
  case False
  then show ?thesis by (simp add: execute_step_def twp_simps)
next
  case True
  have step: "c + 1 \<le> c' \<Longrightarrow> c' \<le> limit \<Longrightarrow> limit - c' < limit - c" for c' using True by simp
  have ext: "twp (execute_extended bytes limit ci initial target opcode)
      (\<lambda>r s'. r = None \<longrightarrow> limit - fst s' < limit - c) (\<lambda>x _. no_ub x) (c', e')"
    if "c + 1 \<le> c'" "c' \<le> limit" for opcode c' e'
    by (rule twp_mono [OF twp_execute_extended [OF limit ci that(2)]])
      (use that step in auto)
  note read = twp_read [OF reads_fixed(1) [OF limit]] twp_read [OF reads_leb(1) [OF limit]]
  show ?thesis
    unfolding execute_step_def Let_def using True
    by (auto simp: twp_simps twp_on_cursor simp del: One_nat_def
        intro!: read ext step quiet_parts [THEN twp_quiet] quiet_offset_rule [OF ci, THEN twp_quiet]
        split: option.split)
qed

lemma twp_execute:
  assumes "end_pos \<le> length bytes" and "cie_inside bytes ci"
  shows "twp (execute bytes begin_pos end_pos ci st initial location target)
    (\<lambda>_ s'. s' = s) (\<lambda>x s'. no_ub x \<and> s' = s) s"
proof -
  have "twp (loopM (end_pos - begin_pos + 1) (execute_step bytes end_pos ci initial target))
      (\<lambda>_ _. True) (\<lambda>x _. no_ub x) (begin_pos, \<lparr>ce_location = location, ce_state = st, ce_stack = []\<rparr>)"
  proof (rule twp_loopM [where I = "\<lambda>_. True" and \<mu> = "\<lambda>p. end_pos - fst p"])
    fix p :: "nat \<times> cfi_exec"
    show "twp (execute_step bytes end_pos ci initial target)
        (\<lambda>r s'. case r of Some x \<Rightarrow> True | None \<Rightarrow> True \<and> end_pos - fst s' < end_pos - fst p) (\<lambda>x _. no_ub x) p"
      by (cases p) (auto intro!: twp_mono [OF twp_execute_step [OF assms]] split: option.split)
  qed simp_all
  then show ?thesis
    by (simp add: execute_def twp_at_cursor twp_with_local del: loopM.simps)
qed

subsection \<open>The scan\<close>

lemma twp_add_signed:
  "(\<And>v. Q v s) \<Longrightarrow> (\<And>m. E (RuntimeError m) s) \<Longrightarrow> twp (add_signed b off what) Q E s"
  by (simp add: add_signed_def twp_simps)

lemma twp_read_cfi_slot:
  assumes "\<And>a n. inspects (read_memory a n)" and "\<And>v. Q v s" and "\<And>m. E (RuntimeError m) s"
  shows "twp (read_cfi_slot read_memory address what) Q E s"
  unfolding read_cfi_slot_def read_u64_exact_def
  by (auto simp: twp_simps assms(2,3) intro!: twp_inspects [OF assms(1)])

lemma twp_evaluate_covering:
  assumes "\<And>a n. inspects (read_memory a n)" and "\<And>r. inspects (read_register r)"
    and limit: "end_pos \<le> length sec" and ci: "cie_inside sec ci"
  shows "twp (evaluate_covering sec ci cursor end_pos l target read_memory read_register)
    (\<lambda>_ s'. s' = s) (\<lambda>e s'. no_ub e \<and> s' = s) s"
proof -
  have inner: "instructions_end ci \<le> length sec" using ci by (simp add: cie_inside_def)
  show ?thesis
    unfolding evaluate_covering_def
    by (auto simp: twp_simps
        intro!: twp_execute [OF inner ci, THEN twp_mono] twp_execute [OF limit ci, THEN twp_mono]
          twp_inspects [OF assms(2)] twp_add_signed twp_read_cfi_slot [OF assms(1)])
qed

lemma twp_parse_fde:
  assumes limit: "limit \<le> length sec" and "c \<le> limit"
  shows "twp (parse_fde sec sva limit ci) (\<lambda>_ _. True) (\<lambda>e _. no_ub e) c"
proof -
  have "reads 0 limit (read_signed_encoded_value sec limit encoding what)" for encoding what
    by (rule reads_signed_encoded [OF limit])
  note read = twp_read [OF this] twp_read [OF reads_leb(1) [OF limit]]
  show ?thesis
    unfolding parse_fde_def Let_def using assms(2)
    by (auto simp: twp_simps simp del: One_nat_def intro!: read twp_add_signed)
qed

definition cies_inside :: "u8 list \<Rightarrow> (nat, cie) smap \<Rightarrow> bool" where
  "cies_inside sec cies \<longleftrightarrow> (\<forall>ci \<in> snd ` set cies. cie_inside sec ci)"

lemma cies_inside_find: "cies_inside sec cies \<Longrightarrow> smap_find cies k = Some ci \<Longrightarrow> cie_inside sec ci"
  by (force simp: cies_inside_def dest: smap_find_SomeD)

lemma cies_inside_emplace: "cies_inside sec cies \<Longrightarrow> cie_inside sec ci \<Longrightarrow> cies_inside sec (smap_emplace k ci cies)"
  using set_smap_emplace [of k ci cies] by (fastforce simp: cies_inside_def)

abbreviation scan_goal :: "u8 list \<Rightarrow> nat \<Rightarrow> 's \<Rightarrow> 'r option \<Rightarrow> 's \<times> scan \<Rightarrow> bool" where
  "scan_goal sec entry s r x \<equiv> fst x = s \<and> (r = None \<longrightarrow>
     cies_inside sec (snd (snd x)) \<and> length sec - fst (snd x) < length sec - entry)"

lemma twp_scan_fde:
  assumes rm: "\<And>a n. inspects (read_memory a n)" and rr: "\<And>r. inspects (read_register r)"
    and limit: "end_pos \<le> length sec" and "cursor \<le> end_pos" and cies: "cies_inside sec cies"
    and "entry < end_pos"
  shows "twp (scan_fde sec sva target read_memory read_register ptr content cursor end_pos cies)
    (scan_goal sec entry s) (\<lambda>e x. no_ub e \<and> fst x = s) (s, entry, cies)"
  unfolding scan_fde_def next_entry_def using assms(4,6) limit cies
  by (auto simp: twp_simps twp_from_cursor twp_zoomM
      intro!: twp_parse_fde [OF limit assms(4), THEN twp_mono]
        twp_evaluate_covering [OF rm rr limit cies_inside_find [OF cies], THEN twp_mono])

lemma twp_scan_entry:
  assumes rm: "\<And>a n. inspects (read_memory a n)" and rr: "\<And>r. inspects (read_register r)"
    and cies: "cies_inside sec cies"
  shows "twp (scan_entry sec sva target read_memory read_register)
    (scan_goal sec entry s) (\<lambda>e x. no_ub e \<and> fst x = s) (s, entry, cies)"
proof -
  have limit: "entry + 4 + le_nat raw \<le> length sec"
    if "\<not> le_nat raw > length sec - (entry + 4)" "entry + 4 \<le> length sec" for raw
    using that by simp
  have ptr: "reads 4 e (read_u32 eh_dialect sec e what)" if "e \<le> length sec" for e what
    by (rule reads_fixed(3) [OF that])
  show ?thesis
    unfolding scan_entry_def next_entry_def Let_def using cies
    by (auto simp: twp_simps twp_read_at twp_from_cursor twp_at_cursor not_less
        intro!: twp_read [OF ptr] twp_parse_cie [THEN twp_mono] twp_scan_fde [OF rm rr]
          cies_inside_emplace limit)
qed

lemma inspects_evaluate_frame:
  assumes "\<And>a n. inspects (read_memory a n)" and "\<And>r. inspects (read_register r)"
  shows "inspects (evaluate_frame sec sva target read_memory read_register)"
proof -
  have "twp (loopM (length sec + 1) (scan_entry sec sva target read_memory read_register))
      (\<lambda>_ x. fst x = s) (\<lambda>e x. no_ub e \<and> fst x = s) (s, 0, smap_empty)" for s
  proof (rule twp_loopM [where I = "\<lambda>x. fst x = s \<and> cies_inside sec (snd (snd x))" and
        \<mu> = "\<lambda>x. length sec - fst (snd x)"])
    fix x :: "'a \<times> scan"
    assume "fst x = s \<and> cies_inside sec (snd (snd x))"
    then show "twp (scan_entry sec sva target read_memory read_register)
        (\<lambda>r s'. case r of Some y \<Rightarrow> fst s' = s | None \<Rightarrow> (fst s' = s \<and> cies_inside sec (snd (snd s'))) \<and>
           length sec - fst (snd s') < length sec - fst (snd x)) (\<lambda>e x. no_ub e \<and> fst x = s) x"
      by (cases x) (auto intro!: twp_mono [OF twp_scan_entry [OF assms]] split: option.split)
  qed (simp_all add: cies_inside_def smap_empty_def)
  then show ?thesis
    unfolding evaluate_frame_def by (rule inspects_with_local)
qed

lemma inspects_read_cfi_slot [inspects_intros]:
  "(\<And>a n. inspects (read_memory a n)) \<Longrightarrow> inspects (read_cfi_slot read_memory address what)"
  unfolding read_cfi_slot_def read_u64_exact_def by (intro inspects_intros) auto

lemma inspects_add_signed [inspects_intros]: "inspects (add_signed b off what)"
  unfolding add_signed_def by (intro inspects_intros) auto

lemma inspects_recover_register [inspects_intros]:
  "(\<And>a n. inspects (read_memory a n)) \<Longrightarrow> inspects (recover_register read_memory ev reg v what)"
  unfolding recover_register_def by (auto intro!: inspects_intros split: rule_kind.split)

lemma inspects_registers [inspects_intros]: "inspects (cursor_register c reg)" "inspects (dwarf_register regs reg)"
  unfolding cursor_register_def dwarf_register_def by (auto intro!: inspects_intros simp: Let_def)

section \<open>The interface to memory\<close>

text \<open>
  What the evaluator needs of a \<^verbatim>\<open>CfiMemoryReader\<close>: a read ends and leaves the memory's state alone.
  Then recovering the caller of any frame ends, whatever the call-frame information says.
\<close>

locale cfi_reader =
  fixes rd :: "'s cfi_memory_reader"
  assumes rd_inspects: "inspects (rd a n)"
begin

lemma evaluate_frame_inspects:
  "(\<And>r. inspects (read_register r)) \<Longrightarrow> inspects (evaluate_frame sec sva target rd read_register)"
  by (rule inspects_evaluate_frame [OF rd_inspects])

lemma caller_frame_at_inspects: "inspects (caller_frame_at ef rd pc current)"
  unfolding caller_frame_at_def
  by (intro inspects_intros inspects_evaluate_frame rd_inspects)

end

end
