(* ===== verification/LineTable.thy ===== *)
theory LineTable
  imports ElfLayout StdMap
begin

text \<open>
  The DWARF line-table reader of \<^verbatim>\<open>src/src/dwarf/line_table.cpp\<close>: locating \<open>.debug_line\<close>, parsing version
  4 and 5 unit headers, running line-number programs, and the lookups on the resulting ranges. The
  contents of the file are an argument. \<^verbatim>\<open>std::sort\<close> on equal keys may order them either way; the model
  uses a stable sort. Signed overflow of the line register is \<open>UndefinedBehaviour\<close>.
\<close>

unbundle bit_operations_syntax

definition lt_dialect :: dialect where
  "lt_dialect = \<lparr>past_data = '' extends past end of file'',
     past_limit = '' extends past DWARF unit boundary'',
     uleb_name = ''ULEB128 operand'', sleb_name = ''SLEB128 operand'', sleb_checked = True\<rparr>"

record source_location =
  sl_file :: "u8 list"
  sl_line :: u64
  sl_column :: u64

record file_entry =
  fe_name :: "u8 list"
  fe_directory_index :: u64

record entry_format =
  ef_content_type :: u64
  ef_form :: u64

type_synonym section_range = "nat \<times> nat"

record row =
  row_address :: u64
  row_location :: "source_location option"

record line_state =
  ls_address :: u64
  ls_file :: u64
  ls_line :: int
  ls_column :: u64

record line_range =
  lr_begin :: u64
  lr_end :: u64
  lr_location :: source_location
  lr_table :: nat

record file_table =
  ft_dwarf5 :: bool
  ft_files :: "u8 list list"

record line_table =
  lt_file_tables :: "file_table list"
  lt_ranges :: "line_range list"

section \<open>Sections\<close>

fun debug_section_loop ::
  "u8 list \<Rightarrow> string \<Rightarrow> section_header \<Rightarrow> section_header list \<Rightarrow> ('s, section_range option) prog" where
  "debug_section_loop bytes wanted names [] = returnM None"
| "debug_section_loop bytes wanted names (s # rest) =
    (if sh_name s \<ge> sh_size names then debug_section_loop bytes wanted names rest
     else bindM (at_cursor (sh_offset names + sh_name s)
         (read_c_string bytes (sh_offset names + sh_size names) ''ELF section name'')) (\<lambda>name.
       if name \<noteq> text_bytes wanted then debug_section_loop bytes wanted names rest
       else if bit (sh_flags s) SHF_COMPRESSED_BIT
       then throwM (RuntimeError (''compressed '' @ wanted @ '' sections are unsupported''))
       else thenM (require_range bytes (sh_offset s) (sh_size s) wanted)
         (returnM (Some (sh_offset s, sh_size s)))))"

definition find_debug_section :: "u8 list \<Rightarrow> string \<Rightarrow> ('s, section_range option) prog" where
  "find_debug_section bytes wanted =
    bindM (read_at lt_dialect ehdr_size bytes 0 ''ELF header'') (\<lambda>raw.
    let header = decode_ehdr raw in
    if \<not> has_elf_magic header then throwM (RuntimeError ''file is not ELF'')
    else if \<not> is_elf64_lsb header
    then throwM (RuntimeError ''DWARF line parsing requires little-endian ELF64'')
    else if e_machine header \<noteq> EM_X86_64
    then throwM (RuntimeError ''DWARF line parsing currently supports x86-64 ELF only'')
    else if e_shnum header = 0 then returnM None
    else if e_shentsize header \<noteq> shdr_size
    then throwM (RuntimeError ''unsupported ELF section-header entry size'')
    else if e_shstrndx header = SHN_XINDEX
    then throwM (RuntimeError ''ELF extended section numbering is unsupported'')
    else if e_shstrndx header = SHN_UNDEF \<or> e_shstrndx header \<ge> e_shnum header then returnM None
    else bindM (read_sections lt_dialect bytes (e_shoff header) 0 (e_shnum header)) (\<lambda>sections.
      let names = sections ! e_shstrndx header in
      thenM (require_range bytes (sh_offset names) (sh_size names) ''ELF section-name table'')
        (debug_section_loop bytes wanted names sections)))"

definition read_section_string :: "u8 list \<Rightarrow> section_range option \<Rightarrow> u64 \<Rightarrow> string \<Rightarrow> ('s, u8 list) prog" where
  "read_section_string bytes sec offset what = (case sec of
     None \<Rightarrow> throwM (RuntimeError (what @ '' section is missing''))
   | Some (start, len) \<Rightarrow>
       if unat offset \<ge> len
       then throwM (RuntimeError (what @ '' offset is outside its string section''))
       else at_cursor (start + unat offset) (read_c_string bytes (start + len) what))"

section \<open>File and directory entries\<close>

definition read_v4_file_entry :: "u8 list \<Rightarrow> nat \<Rightarrow> file_entry reader" where
  "read_v4_file_entry bytes limit =
    bindM (read_c_string bytes limit ''DWARF file name'') (\<lambda>name.
    bindM (read_uleb lt_dialect bytes limit) (\<lambda>directory_index.
    thenM (read_uleb lt_dialect bytes limit)
    (thenM (read_uleb lt_dialect bytes limit)
    (returnM \<lparr>fe_name = name, fe_directory_index = directory_index\<rparr>))))"

fun read_formats :: "u8 list \<Rightarrow> nat \<Rightarrow> nat \<Rightarrow> entry_format list reader" where
  "read_formats bytes limit 0 = returnM []"
| "read_formats bytes limit (Suc n) =
    bindM (read_uleb lt_dialect bytes limit) (\<lambda>content_type.
    bindM (read_uleb lt_dialect bytes limit) (\<lambda>form.
    bindM (read_formats bytes limit n) (\<lambda>rest.
    returnM (\<lparr>ef_content_type = content_type, ef_form = form\<rparr> # rest))))"

definition read_v5_entry_formats :: "u8 list \<Rightarrow> nat \<Rightarrow> string \<Rightarrow> entry_format list reader" where
  "read_v5_entry_formats bytes limit what =
    bindM (read_u8 lt_dialect bytes limit what) (\<lambda>count. read_formats bytes limit (unat count))"

definition read_v5_unsigned_form :: "u8 list \<Rightarrow> nat \<Rightarrow> u64 \<Rightarrow> u64 reader" where
  "read_v5_unsigned_form bytes limit form =
    (if form = 0x0f then read_uleb lt_dialect bytes limit
     else if form = 0x0b then bindM (read_u8 lt_dialect bytes limit ''DWARF5 data1 form'') (\<lambda>v. returnM (ucast v))
     else if form = 0x05 then bindM (read_u16 lt_dialect bytes limit ''DWARF5 data2 form'') (\<lambda>v. returnM (ucast v))
     else if form = 0x06 then bindM (read_u32 lt_dialect bytes limit ''DWARF5 data4 form'') (\<lambda>v. returnM (ucast v))
     else if form = 0x07 then read_u64 lt_dialect bytes limit ''DWARF5 data8 form''
     else throwM (RuntimeError (''unsupported DWARF5 unsigned line-table form '' @ to_string (unat form))))"

definition read_v5_path_form :: "u8 list \<Rightarrow> nat \<Rightarrow> u64 \<Rightarrow> section_range option \<Rightarrow> u8 list reader" where
  "read_v5_path_form bytes limit form line_strings =
    (if form = 0x08 then read_c_string bytes limit ''DWARF5 inline path''
     else if form = 0x1f then
       bindM (read_u32 lt_dialect bytes limit ''DWARF5 line_strp offset'') (\<lambda>offset.
       read_section_string bytes line_strings (ucast offset) ''DWARF5 line string'')
     else throwM (RuntimeError (''unsupported DWARF5 path line-table form '' @ to_string (unat form))))"

definition skip_v5_form :: "u8 list \<Rightarrow> nat \<Rightarrow> u64 \<Rightarrow> unit reader" where
  "skip_v5_form bytes limit form =
    (if form = 0x08 then thenM (read_c_string bytes limit ''DWARF5 string form'') (returnM ())
     else if form = 0x1f then thenM (read_u32 lt_dialect bytes limit ''DWARF5 line_strp offset'') (returnM ())
     else if form = 0x0f then thenM (read_uleb lt_dialect bytes limit) (returnM ())
     else if form = 0x0d then thenM (read_sleb lt_dialect bytes limit) (returnM ())
     else if form = 0x0b then thenM (read_u8 lt_dialect bytes limit ''DWARF5 data1 form'') (returnM ())
     else if form = 0x05 then thenM (read_u16 lt_dialect bytes limit ''DWARF5 data2 form'') (returnM ())
     else if form = 0x06 then thenM (read_u32 lt_dialect bytes limit ''DWARF5 data4 form'') (returnM ())
     else if form = 0x07 then thenM (read_u64 lt_dialect bytes limit ''DWARF5 data8 form'') (returnM ())
     else if form = 0x1e then bindM getM (\<lambda>cursor.
       if cursor > limit \<or> 16 > limit - cursor
       then throwM (RuntimeError ''DWARF5 data16 form extends past header boundary'')
       else modifyM (\<lambda>c. c + 16))
     else throwM (RuntimeError (''unsupported DWARF5 line-table form '' @ to_string (unat form))))"

fun v5_entry_loop ::
  "u8 list \<Rightarrow> nat \<Rightarrow> section_range option \<Rightarrow> entry_format list \<Rightarrow> u8 list option \<Rightarrow> u64 \<Rightarrow> file_entry reader" where
  "v5_entry_loop bytes limit line_strings [] path directory_index = (case path of
     None \<Rightarrow> throwM (RuntimeError ''DWARF5 line-table entry has no path column'')
   | Some p \<Rightarrow> returnM \<lparr>fe_name = p, fe_directory_index = directory_index\<rparr>)"
| "v5_entry_loop bytes limit line_strings (f # fs) path directory_index =
    (if ef_content_type f = 0x01 then
       (if path \<noteq> None then throwM (RuntimeError ''duplicate DWARF5 path column'')
        else bindM (read_v5_path_form bytes limit (ef_form f) line_strings) (\<lambda>p.
          v5_entry_loop bytes limit line_strings fs (Some p) directory_index))
     else if ef_content_type f = 0x02 then
       bindM (read_v5_unsigned_form bytes limit (ef_form f)) (\<lambda>d.
       v5_entry_loop bytes limit line_strings fs path d)
     else thenM (skip_v5_form bytes limit (ef_form f))
       (v5_entry_loop bytes limit line_strings fs path directory_index))"

definition read_v5_entry :: "u8 list \<Rightarrow> nat \<Rightarrow> entry_format list \<Rightarrow> section_range option \<Rightarrow> file_entry reader" where
  "read_v5_entry bytes limit formats line_strings = v5_entry_loop bytes limit line_strings formats None 0"

fun read_v5_entries ::
  "u8 list \<Rightarrow> nat \<Rightarrow> entry_format list \<Rightarrow> section_range option \<Rightarrow> nat \<Rightarrow> file_entry list reader" where
  "read_v5_entries bytes limit formats line_strings 0 = returnM []"
| "read_v5_entries bytes limit formats line_strings (Suc n) =
    bindM (read_v5_entry bytes limit formats line_strings) (\<lambda>e.
    bindM (read_v5_entries bytes limit formats line_strings n) (\<lambda>rest. returnM (e # rest)))"

text \<open>One of the two counted tables: formats, count, entries.\<close>

definition read_v5_table ::
  "u8 list \<Rightarrow> nat \<Rightarrow> section_range option \<Rightarrow> string \<Rightarrow> string \<Rightarrow> file_entry list reader" where
  "read_v5_table bytes header_end line_strings what too_many =
    bindM (read_v5_entry_formats bytes header_end what) (\<lambda>formats.
    bindM (read_uleb lt_dialect bytes header_end) (\<lambda>count.
    bindM getM (\<lambda>cursor.
    if unat count > header_end - cursor then throwM (RuntimeError too_many)
    else read_v5_entries bytes header_end formats line_strings (unat count))))"

definition read_v5_directory_and_file_tables ::
  "u8 list \<Rightarrow> nat \<Rightarrow> section_range option \<Rightarrow> (u8 list list \<times> file_entry list) reader" where
  "read_v5_directory_and_file_tables bytes header_end line_strings =
    bindM (read_v5_table bytes header_end line_strings ''directory format count''
             ''DWARF5 directory count exceeds header bounds'') (\<lambda>directories.
    bindM (read_v5_table bytes header_end line_strings ''file format count''
             ''DWARF5 file count exceeds header bounds'') (\<lambda>files.
    returnM (map fe_name directories, files)))"

definition file_entry_offset :: "u64 \<Rightarrow> nat \<Rightarrow> bool \<Rightarrow> nat option" where
  "file_entry_offset file_index file_count dwarf5 =
    (if dwarf5 then (if unat file_index \<ge> file_count then None else Some (unat file_index))
     else if file_index = 0 \<or> unat file_index > file_count then None
     else Some (unat (file_index - 1)))"

text \<open>\<^verbatim>\<open>std::filesystem::path\<close> on POSIX: a path is absolute when it starts with a slash, and \<open>/\<close> puts a
  separator after a non-empty left side that does not end in one.\<close>

abbreviation (input) slash :: u8 where "slash \<equiv> 0x2f"

definition path_is_absolute :: "u8 list \<Rightarrow> bool" where
  "path_is_absolute p \<longleftrightarrow> p \<noteq> [] \<and> hd p = slash"

definition path_join :: "u8 list \<Rightarrow> u8 list \<Rightarrow> u8 list" where
  "path_join a b = (if path_is_absolute b then b
     else if a = [] \<or> last a = slash then a @ b else a @ slash # b)"

definition resolved_file_path :: "file_entry \<Rightarrow> u8 list list \<Rightarrow> bool \<Rightarrow> u8 list" where
  "resolved_file_path file directories dwarf5 =
    (if path_is_absolute (fe_name file) then fe_name file
     else if dwarf5 then
       (if unat (fe_directory_index file) < length directories
        then path_join (directories ! unat (fe_directory_index file)) (fe_name file) else fe_name file)
     else if fe_directory_index file \<noteq> 0 \<and> unat (fe_directory_index file) \<le> length directories
     then path_join (directories ! unat (fe_directory_index file - 1)) (fe_name file)
     else fe_name file)"

definition state_location :: "line_state \<Rightarrow> u8 list list \<Rightarrow> file_entry list \<Rightarrow> bool \<Rightarrow> source_location option" where
  "state_location st directories files dwarf5 =
    (if ls_line st \<le> 0 then None
     else case file_entry_offset (ls_file st) (length files) dwarf5 of
       None \<Rightarrow> None
     | Some i \<Rightarrow> Some \<lparr>sl_file = resolved_file_path (files ! i) directories dwarf5,
         sl_line = of_int (ls_line st), sl_column = ls_column st\<rparr>)"

section \<open>Unit headers\<close>

record line_header =
  lh_dwarf5 :: bool
  lh_min_length :: u8
  lh_line_base :: int
  lh_line_range :: u8
  lh_opcode_base :: u8
  lh_lengths :: "u8 list"
  lh_directories :: "u8 list list"
  lh_files :: "file_entry list"

text \<open>The version field and, in version 5, the address and segment selector sizes.\<close>

definition read_version :: "u8 list \<Rightarrow> nat \<Rightarrow> bool reader" where
  "read_version bytes unit_end =
    bindM (read_u16 lt_dialect bytes unit_end ''DWARF line-table version'') (\<lambda>version.
    if version \<noteq> 4 \<and> version \<noteq> 5
    then throwM (RuntimeError (''DWARF line table version '' @ to_string (unat version) @
      '' is unsupported; versions 4 and 5 are supported''))
    else if version \<noteq> 5 then returnM False
    else bindM (read_u8 lt_dialect bytes unit_end ''DWARF5 address size'') (\<lambda>address_size.
      bindM (read_u8 lt_dialect bytes unit_end ''DWARF5 segment selector size'') (\<lambda>selector_size.
      if address_size \<noteq> 8
      then throwM (RuntimeError ''DWARF5 line table address size does not match ELF64'')
      else if selector_size \<noteq> 0
      then throwM (RuntimeError ''DWARF5 segmented addresses are unsupported'')
      else returnM True)))"

fun read_u8s :: "u8 list \<Rightarrow> nat \<Rightarrow> string \<Rightarrow> nat \<Rightarrow> u8 list reader" where
  "read_u8s bytes limit what 0 = returnM []"
| "read_u8s bytes limit what (Suc n) =
    bindM (read_u8 lt_dialect bytes limit what) (\<lambda>v.
    bindM (read_u8s bytes limit what n) (\<lambda>vs. returnM (v # vs)))"

text \<open>The two version 4 loops; a turn ends the loop at an empty string.\<close>

definition v4_directory_step :: "u8 list \<Rightarrow> nat \<Rightarrow> (nat \<times> u8 list list, u8 list list option) prog" where
  "v4_directory_step bytes limit = bindM getM (\<lambda>(cursor, ds).
    if \<not> cursor < limit then returnM (Some ds)
    else bindM (zoomM fst (\<lambda>c s. (c, snd s)) (read_c_string bytes limit ''DWARF include directory'')) (\<lambda>d.
      if d = [] then returnM (Some ds)
      else thenM (modifyM (\<lambda>(c, ds). (c, ds @ [d]))) (returnM None)))"

definition v4_file_step :: "u8 list \<Rightarrow> nat \<Rightarrow> (nat \<times> file_entry list, file_entry list option) prog" where
  "v4_file_step bytes limit = bindM getM (\<lambda>(cursor, fs).
    if \<not> cursor < limit then returnM (Some fs)
    else bindM (zoomM fst (\<lambda>c s. (c, snd s)) (read_c_string bytes limit ''DWARF file name'')) (\<lambda>name.
      if name = [] then returnM (Some fs)
      else thenM (modifyM (\<lambda>(c, fs). (cursor, fs)))
        (bindM (zoomM fst (\<lambda>c s. (c, snd s)) (read_v4_file_entry bytes limit)) (\<lambda>f.
         thenM (modifyM (\<lambda>(c, fs). (c, fs @ [f]))) (returnM None)))))"

definition read_tables :: "u8 list \<Rightarrow> bool \<Rightarrow> nat \<Rightarrow> section_range option \<Rightarrow> (u8 list list \<times> file_entry list) reader" where
  "read_tables bytes dwarf5 header_end line_strings =
    (if dwarf5 then
       bindM (read_v5_directory_and_file_tables bytes header_end line_strings) (\<lambda>tables.
       bindM getM (\<lambda>cursor.
       if cursor \<noteq> header_end then throwM (RuntimeError ''DWARF5 line-table header has trailing bytes'')
       else returnM tables))
     else bindM getM (\<lambda>c.
       bindM (with_local [] (loopM (header_end - c + 1) (v4_directory_step bytes header_end))) (\<lambda>directories.
       bindM getM (\<lambda>c'.
       bindM (with_local [] (loopM (header_end - c' + 1) (v4_file_step bytes header_end))) (\<lambda>files.
       returnM (directories, files))))))"

text \<open>A header; the cursor is left at the line-number program.\<close>

definition read_header :: "u8 list \<Rightarrow> nat \<Rightarrow> section_range option \<Rightarrow> line_header reader" where
  "read_header bytes unit_end line_strings =
    bindM (read_version bytes unit_end) (\<lambda>dwarf5.
    bindM (read_u32 lt_dialect bytes unit_end ''DWARF line header length'') (\<lambda>header_length.
    bindM getM (\<lambda>cursor.
    if unat header_length > unit_end - cursor
    then throwM (RuntimeError ''DWARF line-table header extends past unit boundary'')
    else let header_end = cursor + unat header_length in
      bindM (read_u8 lt_dialect bytes header_end ''minimum instruction length'') (\<lambda>min_length.
      bindM (read_u8 lt_dialect bytes header_end ''maximum operations per instruction'') (\<lambda>max_ops.
      if min_length = 0 \<or> max_ops \<noteq> 1
      then throwM (RuntimeError ''DWARF line tables with multi-operation instructions are unsupported'')
      else thenM (read_u8 lt_dialect bytes header_end ''default is_stmt'')
        (bindM (read_u8 lt_dialect bytes header_end ''line base'') (\<lambda>line_base.
        bindM (read_u8 lt_dialect bytes header_end ''line range'') (\<lambda>line_rng.
        bindM (read_u8 lt_dialect bytes header_end ''opcode base'') (\<lambda>opcode_base.
        if line_rng = 0 \<or> opcode_base = 0
        then throwM (RuntimeError ''invalid DWARF line-table opcode parameters'')
        else bindM (read_u8s bytes header_end ''standard opcode operand count'' (unat opcode_base - 1)) (\<lambda>lengths.
          bindM (read_tables bytes dwarf5 header_end line_strings) (\<lambda>(directories, files).
          thenM (modifyM (\<lambda>_. header_end))
          (returnM \<lparr>lh_dwarf5 = dwarf5, lh_min_length = min_length, lh_line_base = sint line_base,
             lh_line_range = line_rng, lh_opcode_base = opcode_base, lh_lengths = lengths,
             lh_directories = directories, lh_files = files\<rparr>))))))))))))"

section \<open>Line-number programs\<close>

record line_exec =
  lx_state :: line_state
  lx_previous :: "row option"
  lx_files :: "file_entry list"
  lx_ranges :: "line_range list"

type_synonym 'a line_prog = "(nat \<times> line_exec, 'a) prog"

definition initial_line_state :: line_state where
  "initial_line_state = \<lparr>ls_address = 0, ls_file = 1, ls_line = 1, ls_column = 0\<rparr>"

text \<open>The lambda \<^verbatim>\<open>emit\<close>: close the open row at the current address, then open the next one.\<close>

definition emit :: "line_header \<Rightarrow> nat \<Rightarrow> bool \<Rightarrow> line_exec \<Rightarrow> line_exec" where
  "emit h table end_sequence x =
    (let x1 = (case lx_previous x of
         None \<Rightarrow> x
       | Some p \<Rightarrow> (case row_location p of
           None \<Rightarrow> x
         | Some loc \<Rightarrow> if ls_address (lx_state x) > row_address p
             then x\<lparr>lx_ranges := lx_ranges x @ [\<lparr>lr_begin = row_address p,
                    lr_end = ls_address (lx_state x), lr_location = loc, lr_table = table\<rparr>]\<rparr>
             else x))
     in x1\<lparr>lx_previous := (if end_sequence then None
          else Some \<lparr>row_address = ls_address (lx_state x),
            row_location = state_location (lx_state x) (lh_directories h) (lx_files x) (lh_dwarf5 h)\<rparr>)\<rparr>)"

definition on_reader :: "'a reader \<Rightarrow> 'a line_prog" where
  "on_reader = zoomM fst (\<lambda>c s. (c, snd s))"

definition edit :: "(line_exec \<Rightarrow> line_exec) \<Rightarrow> unit line_prog" where
  "edit f = modifyM (\<lambda>(c, x). (c, f x))"

definition edit_state :: "(line_state \<Rightarrow> line_state) \<Rightarrow> unit line_prog" where
  "edit_state f = edit (\<lambda>x. x\<lparr>lx_state := f (lx_state x)\<rparr>)"

definition advance_address :: "u64 \<Rightarrow> unit line_prog" where
  "advance_address delta = edit_state (\<lambda>st. st\<lparr>ls_address := ls_address st + delta\<rparr>)"

text \<open>Signed addition to the line register.\<close>

definition advance_line :: "int \<Rightarrow> unit line_prog" where
  "advance_line delta = bindM getM (\<lambda>(c, x).
    let line = ls_line (lx_state x) + delta in
    if line < - (2 ^ 63) \<or> line > 0x7fffffffffffffff
    then throwM (UndefinedBehaviour ''signed overflow'')
    else edit_state (\<lambda>st. st\<lparr>ls_line := line\<rparr>))"

definition run_extended :: "u8 list \<Rightarrow> line_header \<Rightarrow> nat \<Rightarrow> nat \<Rightarrow> unit line_prog" where
  "run_extended bytes h table unit_end =
    bindM (on_reader (read_uleb lt_dialect bytes unit_end)) (\<lambda>payload_length.
    bindM getM (\<lambda>(cursor, x).
    if payload_length = 0 \<or> unat payload_length > unit_end - cursor
    then throwM (RuntimeError ''invalid DWARF extended line opcode length'')
    else let payload_end = cursor + unat payload_length in
      bindM (on_reader (read_u8 lt_dialect bytes payload_end ''DWARF extended line opcode'')) (\<lambda>opcode.
      thenM (if opcode = 1 then thenM (edit (emit h table True)) (edit_state (\<lambda>_. initial_line_state))
        else if opcode = 2 then bindM getM (\<lambda>(c, x).
          if payload_end - c \<noteq> 8
          then throwM (RuntimeError ''DWARF set_address width does not match line header'')
          else bindM (on_reader (read_u64 lt_dialect bytes payload_end ''DWARF set_address operand'')) (\<lambda>a.
            edit_state (\<lambda>st. st\<lparr>ls_address := a\<rparr>)))
        else if opcode = 3 then
          (if lh_dwarf5 h then throwM (RuntimeError ''DWARF5 define_file opcode is unsupported'')
           else bindM (on_reader (read_v4_file_entry bytes payload_end)) (\<lambda>f.
             edit (\<lambda>x. x\<lparr>lx_files := lx_files x @ [f]\<rparr>)))
        else if opcode = 4 then thenM (on_reader (read_uleb lt_dialect bytes payload_end)) (returnM ())
        else returnM ())
      (modifyM (\<lambda>(c, x). (payload_end, x))))))"

fun skip_operands :: "u8 list \<Rightarrow> nat \<Rightarrow> nat \<Rightarrow> unit line_prog" where
  "skip_operands bytes limit 0 = returnM ()"
| "skip_operands bytes limit (Suc n) =
    thenM (on_reader (read_uleb lt_dialect bytes limit)) (skip_operands bytes limit n)"

definition run_standard :: "u8 list \<Rightarrow> line_header \<Rightarrow> nat \<Rightarrow> nat \<Rightarrow> u8 \<Rightarrow> unit line_prog" where
  "run_standard bytes h table unit_end opcode =
    (if opcode = 1 then edit (emit h table False)
     else if opcode = 2 then bindM (on_reader (read_uleb lt_dialect bytes unit_end)) (\<lambda>v.
       advance_address (v * ucast (lh_min_length h)))
     else if opcode = 3 then bindM (on_reader (read_sleb lt_dialect bytes unit_end)) (\<lambda>v. advance_line (sint v))
     else if opcode = 4 then bindM (on_reader (read_uleb lt_dialect bytes unit_end)) (\<lambda>v.
       edit_state (\<lambda>st. st\<lparr>ls_file := v\<rparr>))
     else if opcode = 5 then bindM (on_reader (read_uleb lt_dialect bytes unit_end)) (\<lambda>v.
       edit_state (\<lambda>st. st\<lparr>ls_column := v\<rparr>))
     else if opcode = 6 \<or> opcode = 7 \<or> opcode = 10 \<or> opcode = 11 then returnM ()
     else if opcode = 8 then
       advance_address (of_nat ((255 - unat (lh_opcode_base h)) div unat (lh_line_range h)) * ucast (lh_min_length h))
     else if opcode = 9 then
       bindM (on_reader (read_u16 lt_dialect bytes unit_end ''fixed advance PC operand'')) (\<lambda>v.
       advance_address (ucast v))
     else if opcode = 12 then thenM (on_reader (read_uleb lt_dialect bytes unit_end)) (returnM ())
     else if unat opcode - 1 < length (lh_lengths h)
     then skip_operands bytes unit_end (unat (lh_lengths h ! (unat opcode - 1)))
     else throwM (UndefinedBehaviour ''vector index out of range''))"

definition run_special :: "line_header \<Rightarrow> nat \<Rightarrow> u8 \<Rightarrow> unit line_prog" where
  "run_special h table opcode =
    (let adjusted = unat opcode - unat (lh_opcode_base h) in
     thenM (advance_address (of_nat (adjusted div unat (lh_line_range h)) * ucast (lh_min_length h)))
     (thenM (advance_line (lh_line_base h + int (adjusted mod unat (lh_line_range h))))
     (edit (emit h table False))))"

definition line_step :: "u8 list \<Rightarrow> line_header \<Rightarrow> nat \<Rightarrow> nat \<Rightarrow> unit option line_prog" where
  "line_step bytes h table unit_end = bindM getM (\<lambda>(cursor, x).
    if \<not> cursor < unit_end then returnM (Some ())
    else bindM (on_reader (read_u8 lt_dialect bytes unit_end ''DWARF line opcode'')) (\<lambda>opcode.
      thenM (if opcode = 0 then run_extended bytes h table unit_end
             else if opcode < lh_opcode_base h then run_standard bytes h table unit_end opcode
             else run_special h table opcode)
        (returnM None)))"

section \<open>All units\<close>

text \<open>One turn of the unit loop; the state is the cursor and the table built so far.\<close>

definition parse_unit :: "u8 list \<Rightarrow> nat \<Rightarrow> section_range option \<Rightarrow> (nat \<times> line_table, line_table option) prog" where
  "parse_unit bytes section_end line_strings = bindM getM (\<lambda>(cursor, t).
    if \<not> cursor < section_end then returnM (Some t)
    else bindM (zoomM fst (\<lambda>c s. (c, snd s)) (read_u32 lt_dialect bytes section_end ''DWARF unit length'')) (\<lambda>unit_length.
    bindM getM (\<lambda>(cursor, t).
    if unit_length = 0xffffffff then throwM (RuntimeError ''64-bit DWARF line-table format is unsupported'')
    else if unit_length = 0 then throwM (RuntimeError ''zero-length DWARF line-table unit'')
    else if unat unit_length > section_end - cursor
    then throwM (RuntimeError ''DWARF line-table unit extends past .debug_line'')
    else let unit_end = cursor + unat unit_length; table = length (lt_file_tables t) in
      bindM (zoomM fst (\<lambda>c s. (c, snd s)) (read_header bytes unit_end line_strings)) (\<lambda>h.
      bindM getM (\<lambda>(start, t).
      bindM (from_cursor start (with_local \<lparr>lx_state = initial_line_state, lx_previous = None,
            lx_files = lh_files h, lx_ranges = lt_ranges t\<rparr>
          (thenM (loopM (unit_end - start + 1) (line_step bytes h table unit_end))
             (bindM getM (\<lambda>(c, x). returnM x))))) (\<lambda>(x, finish).
      thenM (modifyM (\<lambda>_. (finish,
          \<lparr>lt_file_tables = lt_file_tables t @ [\<lparr>ft_dwarf5 = lh_dwarf5 h,
             ft_files = map (\<lambda>f. resolved_file_path f (lh_directories h) (lh_dwarf5 h)) (lx_files x)\<rparr>],
           lt_ranges = lx_ranges x\<rparr>)))
      (returnM None)))))))"

definition range_key :: "line_range \<Rightarrow> u64 \<times> u64" where
  "range_key r = (lr_begin r, lr_end r)"

definition parse_line_table :: "u8 list \<Rightarrow> ('s, line_table) prog" where
  "parse_line_table bytes =
    bindM (find_debug_section bytes ''.debug_line'') (\<lambda>sec. case sec of
      None \<Rightarrow> returnM \<lparr>lt_file_tables = [], lt_ranges = []\<rparr>
    | Some (start, len) \<Rightarrow>
        bindM (find_debug_section bytes ''.debug_line_str'') (\<lambda>line_strings.
        bindM (at_cursor start (with_local \<lparr>lt_file_tables = [], lt_ranges = []\<rparr>
                 (loopM (len + 1) (parse_unit bytes (start + len) line_strings)))) (\<lambda>t.
        returnM (t\<lparr>lt_ranges := sort_key range_key (lt_ranges t)\<rparr>))))"

section \<open>Lookups\<close>

text \<open>\<^verbatim>\<open>upper_bound\<close> on the sorted ranges, then the range before it.\<close>

definition find_virtual_address :: "line_table \<Rightarrow> u64 \<Rightarrow> source_location option" where
  "find_virtual_address t address =
    (let below = takeWhile (\<lambda>r. \<not> address < lr_begin r) (lt_ranges t) in
     if below = [] then None
     else let r = last below in
       if address < lr_begin r \<or> address \<ge> lr_end r then None else Some (lr_location r))"

fun owner_loop :: "u64 \<Rightarrow> line_range list \<Rightarrow> nat option \<Rightarrow> ('s, nat option) prog" where
  "owner_loop address [] owner = returnM owner"
| "owner_loop address (r # rs) owner =
    (if address < lr_begin r \<or> address \<ge> lr_end r then owner_loop address rs owner
     else case owner of
       None \<Rightarrow> owner_loop address rs (Some (lr_table r))
     | Some t \<Rightarrow> if t \<noteq> lr_table r
         then throwM (RuntimeError ''virtual address is owned by multiple DWARF line-table units'')
         else owner_loop address rs owner)"

definition find_virtual_file :: "line_table \<Rightarrow> u64 \<Rightarrow> u64 \<Rightarrow> ('s, u8 list option) prog" where
  "find_virtual_file t address file_index =
    bindM (owner_loop address (lt_ranges t) None) (\<lambda>owner. case owner of
      None \<Rightarrow> returnM None
    | Some i \<Rightarrow>
        if i \<ge> length (lt_file_tables t)
        then throwM (LogicError ''DWARF line range lost its owning file table'')
        else let tab = lt_file_tables t ! i in
          returnM (map_option (\<lambda>k. ft_files tab ! k)
            (file_entry_offset file_index (length (ft_files tab)) (ft_dwarf5 tab))))"

end
