(* ===== verification/LineTableSafety.thy ===== *)
theory LineTableSafety
  imports LineTable EhFrameSafety
begin

text \<open>
  Safety and results of the line-table reader: parsing ends on every byte sequence without an
  out-of-bounds access; the table it builds has non-empty ranges that belong to a retained file
  table and are sorted; and what the address lookup returns.
\<close>

unbundle bit_operations_syntax

section \<open>Headers\<close>

lemma reads_thenM [reads_intros]: "reads k limit m \<Longrightarrow> reads 0 limit n \<Longrightarrow> reads k limit (thenM m n)"
  by (rule reads_thenM0)

text \<open>The readers, with the consumption they need to guarantee forgotten.\<close>

lemma reads_any:
  assumes "limit \<le> length bytes"
  shows "reads 0 limit (read_u8 dl bytes limit what)" "reads 0 limit (read_u16 dl bytes limit what)"
    "reads 0 limit (read_u32 dl bytes limit what)" "reads 0 limit (read_u64 dl bytes limit what)"
    "reads 0 limit (read_uleb dl bytes limit)" "reads 0 limit (read_sleb dl bytes limit)"
    "reads 0 limit (read_c_string bytes limit what)"
  by (auto intro: reads_weaken reads_fixed [OF assms] reads_leb [OF assms] reads_c_string [OF assms])

lemma reads_v4_file_entry:
  assumes "limit \<le> length bytes"
  shows "reads 1 limit (read_v4_file_entry bytes limit)"
  unfolding read_v4_file_entry_def
  by (intro reads_bindM0 reads_thenM reads_c_string reads_any reads_returnM assms)

definition strings_inside :: "u8 list \<Rightarrow> section_range option \<Rightarrow> bool" where
  "strings_inside bytes sec \<longleftrightarrow> (\<forall>start len. sec = Some (start, len) \<longrightarrow> start + len \<le> length bytes)"

lemma reads_section_string:
  assumes "strings_inside bytes sec"
  shows "reads 0 limit (read_section_string bytes sec offset what)"
proof (cases sec)
  case None
  then show ?thesis by (simp add: read_section_string_def reads_throwM)
next
  case (Some r)
  obtain start len where r: "r = (start, len)" by (cases r)
  with Some assms have inside: "start + len \<le> length bytes" by (simp add: strings_inside_def)
  from Some r show ?thesis
    by (auto simp: read_section_string_def reads_def twp_simps twp_at_cursor
        intro!: twp_read [OF reads_c_string [OF inside]])
qed

lemma reads_formats:
  assumes "limit \<le> length bytes"
  shows "reads 0 limit (read_formats bytes limit n)"
  by (induction n) (auto intro!: reads_bindM0 reads_any reads_returnM assms)

lemma reads_v5_forms:
  assumes "limit \<le> length bytes" and "strings_inside bytes strs"
  shows "reads 0 limit (read_v5_unsigned_form bytes limit form)"
    and "reads 0 limit (read_v5_path_form bytes limit form strs)"
    and "reads 0 limit (skip_v5_form bytes limit form)"
proof -
  show "reads 0 limit (read_v5_unsigned_form bytes limit form)"
    unfolding read_v5_unsigned_form_def
    by (intro reads_if reads_bindM0 reads_any reads_returnM reads_throwM assms) simp
  show "reads 0 limit (read_v5_path_form bytes limit form strs)"
    unfolding read_v5_path_form_def
    by (intro reads_if reads_bindM0 reads_any reads_section_string reads_throwM assms) simp
  have "reads 0 limit (bindM getM (\<lambda>cursor. if cursor > limit \<or> 16 > limit - cursor
       then throwM (RuntimeError what) else modifyM (\<lambda>c. c + 16)))" for what
    by (auto simp: reads_def twp_simps)
  then show "reads 0 limit (skip_v5_form bytes limit form)"
    unfolding skip_v5_form_def
    by (intro reads_if reads_thenM reads_any reads_returnM reads_throwM assms) simp_all
qed

lemma reads_v5_entry_loop:
  assumes "limit \<le> length bytes" and "strings_inside bytes strs"
  shows "reads 0 limit (v5_entry_loop bytes limit strs fs path d)"
proof (induction fs arbitrary: path d)
  case Nil
  then show ?case by (cases path) (simp_all add: reads_throwM reads_returnM)
next
  case (Cons f fs)
  show ?case
    unfolding v5_entry_loop.simps
    by (intro reads_if reads_bindM0 reads_thenM reads_v5_forms [OF assms] reads_throwM Cons) simp
qed

lemma reads_v5_entries:
  assumes "limit \<le> length bytes" and "strings_inside bytes strs"
  shows "reads 0 limit (read_v5_entries bytes limit formats strs n)"
  by (induction n)
    (auto simp: read_v5_entry_def intro!: reads_bindM0 reads_v5_entry_loop reads_returnM assms)

lemma reads_getM:
  assumes "\<And>c. reads k limit (f c)"
  shows "reads k limit (bindM getM f)"
  using assms by (auto simp: reads_def twp_simps)

lemma reads_v5_tables:
  assumes "limit \<le> length bytes" and "strings_inside bytes strs"
  shows "reads 0 limit (read_v5_directory_and_file_tables bytes limit strs)"
  unfolding read_v5_directory_and_file_tables_def read_v5_table_def read_v5_entry_formats_def
  by (intro reads_bindM0 reads_getM reads_if reads_throwM reads_any reads_formats reads_v5_entries
      reads_returnM assms) simp_all

lemma reads_u8s:
  assumes "limit \<le> length bytes"
  shows "c \<le> limit \<Longrightarrow> twp (read_u8s bytes limit what n)
    (\<lambda>vs c'. length vs = n \<and> c \<le> c' \<and> c' \<le> limit) (\<lambda>e _. no_ub e) c"
proof (induction n arbitrary: c)
  case 0
  then show ?case by (simp add: twp_simps)
next
  case (Suc n)
  from Suc.prems show ?case
    by (auto simp: twp_simps simp del: One_nat_def
        intro!: twp_read [OF reads_fixed(1) [OF assms]] Suc.IH [THEN twp_mono])
qed

text \<open>Both version 4 loops: a turn that goes on has moved the cursor.\<close>

lemma twp_local_loop:
  fixes body :: "(nat \<times> 'l, 'r option) prog"
  assumes step: "\<And>c l. c \<le> limit \<Longrightarrow> twp body
      (\<lambda>r s'. fst s' \<le> limit \<and> c \<le> fst s' \<and> (r = None \<longrightarrow> c < fst s')) (\<lambda>e _. no_ub e) (c, l)"
    and "c \<le> limit"
  shows "twp (with_local l (loopM (Suc (limit - c)) body)) (\<lambda>_ c'. c \<le> c' \<and> c' \<le> limit) (\<lambda>e _. no_ub e) c"
proof -
  have "twp (loopM (Suc (limit - c)) body) (\<lambda>_ s'. c \<le> fst s' \<and> fst s' \<le> limit) (\<lambda>e _. no_ub e) (c, l)"
  proof (rule twp_loopM [where I = "\<lambda>s. c \<le> fst s \<and> fst s \<le> limit" and \<mu> = "\<lambda>s. limit - fst s"])
    fix s :: "nat \<times> 'l"
    assume "c \<le> fst s \<and> fst s \<le> limit"
    then show "twp body (\<lambda>r s'. case r of Some x \<Rightarrow> c \<le> fst s' \<and> fst s' \<le> limit
        | None \<Rightarrow> (c \<le> fst s' \<and> fst s' \<le> limit) \<and> limit - fst s' < limit - fst s) (\<lambda>e _. no_ub e) s"
      by (cases s) (auto intro!: twp_mono [OF step] split: option.split)
  qed (use assms(2) in auto)
  then show ?thesis by (simp add: twp_with_local del: loopM.simps)
qed

lemma twp_v4_steps:
  assumes limit: "limit \<le> length bytes" and "c \<le> limit"
  shows "twp (v4_directory_step bytes limit)
      (\<lambda>r s'. fst s' \<le> limit \<and> c \<le> fst s' \<and> (r = None \<longrightarrow> c < fst s')) (\<lambda>e _. no_ub e) (c, ds)"
    and "twp (v4_file_step bytes limit)
      (\<lambda>r s'. fst s' \<le> limit \<and> c \<le> fst s' \<and> (r = None \<longrightarrow> c < fst s')) (\<lambda>e _. no_ub e) (c, fs)"
  unfolding v4_directory_step_def v4_file_step_def using assms(2)
  by (auto simp: twp_simps twp_zoomM
      intro!: twp_read [OF reads_c_string [OF limit]] twp_read [OF reads_v4_file_entry [OF limit]])

lemma reads_read_tables:
  assumes limit: "limit \<le> length bytes" and strs: "strings_inside bytes strs" and "c \<le> limit"
  shows "twp (read_tables bytes dwarf5 limit strs) (\<lambda>_ c'. c \<le> c' \<and> c' \<le> limit) (\<lambda>e _. no_ub e) c"
proof (cases dwarf5)
  case True
  with assms(3) show ?thesis
    by (auto simp: read_tables_def twp_simps intro!: twp_read [OF reads_v5_tables [OF limit strs]])
next
  case False
  note dirs = twp_local_loop [of limit "v4_directory_step bytes limit", OF twp_v4_steps(1) [OF limit]]
  note files = twp_local_loop [of limit "v4_file_step bytes limit", OF twp_v4_steps(2) [OF limit]]
  from False assms(3) show ?thesis
    unfolding read_tables_def
    by (auto simp: twp_simps simp del: loopM.simps intro!: dirs [THEN twp_mono] files [THEN twp_mono])
qed

definition header_ok :: "line_header \<Rightarrow> bool" where
  "header_ok h \<longleftrightarrow> length (lh_lengths h) = unat (lh_opcode_base h) - 1 \<and> lh_opcode_base h \<noteq> 0"

lemma twp_read_header:
  assumes limit: "unit_end \<le> length bytes" and strs: "strings_inside bytes strs" and "c \<le> unit_end"
  shows "twp (read_header bytes unit_end strs)
    (\<lambda>h c'. header_ok h \<and> c \<le> c' \<and> c' \<le> unit_end) (\<lambda>e _. no_ub e) c"
proof -
  have version: "reads 0 unit_end (read_version bytes unit_end)"
    unfolding read_version_def
    by (intro reads_bindM0 reads_if reads_throwM reads_returnM reads_any limit) simp_all
  have byte: "reads 0 e (read_u8 lt_dialect bytes e what)" if "e \<le> unit_end" for e what
    by (rule reads_any(1)) (use that limit in simp)
  have u8s: "twp (read_u8s bytes e what n)
      (\<lambda>vs c'. length vs = n \<and> x \<le> c' \<and> c' \<le> e) (\<lambda>e _. no_ub e) x" if "e \<le> unit_end" "x \<le> e" for e what n x
    by (rule reads_u8s) (use that limit in simp_all)
  have tabs: "twp (read_tables bytes d e strs) (\<lambda>_ c'. x \<le> c' \<and> c' \<le> e) (\<lambda>e _. no_ub e) x"
    if "e \<le> unit_end" "x \<le> e" for d e x
    by (rule reads_read_tables [OF _ strs]) (use that limit in simp_all)
  show ?thesis
    unfolding read_header_def Let_def using assms(3)
    by (auto simp: twp_simps header_ok_def
        intro!: twp_read [OF version] twp_read [OF reads_any(3) [OF limit]] twp_read [OF byte]
          u8s [THEN twp_mono] tabs [THEN twp_mono])
qed

section \<open>Line-number programs\<close>

definition in_bounds :: "exn \<Rightarrow> bool" where
  "in_bounds e \<longleftrightarrow> e \<noteq> UndefinedBehaviour ''vector index out of range''"

lemma no_ub_in_bounds: "no_ub e \<Longrightarrow> in_bounds e"
  by (auto simp: in_bounds_def)

definition ranges_ok :: "nat \<Rightarrow> line_range list \<Rightarrow> bool" where
  "ranges_ok n rs \<longleftrightarrow> (\<forall>r \<in> set rs. lr_begin r < lr_end r \<and> lr_table r < n)"

lemma emit_ranges_ok: "ranges_ok n (lx_ranges x) \<Longrightarrow> table < n \<Longrightarrow> ranges_ok n (lx_ranges (emit h table b x))"
  by (auto simp: ranges_ok_def emit_def Let_def split: option.splits)

text \<open>A part of a step: the cursor stays within the limit and the ranges stay well formed.\<close>

definition steps_within :: "nat \<Rightarrow> nat \<Rightarrow> nat \<Rightarrow> 'a line_prog \<Rightarrow> bool" where
  "steps_within k n limit m \<longleftrightarrow> (\<forall>c x. c \<le> limit \<longrightarrow> ranges_ok n (lx_ranges x) \<longrightarrow>
     twp m (\<lambda>_ s'. c + k \<le> fst s' \<and> fst s' \<le> limit \<and> ranges_ok n (lx_ranges (snd s')))
       (\<lambda>e _. in_bounds e) (c, x))"

lemma twp_within:
  assumes "steps_within k n limit m" and "c \<le> limit" and "ranges_ok n (lx_ranges x)"
    and "\<And>a c' x'. c + k \<le> c' \<Longrightarrow> c' \<le> limit \<Longrightarrow> ranges_ok n (lx_ranges x') \<Longrightarrow> Q a (c', x')"
    and "\<And>e s'. in_bounds e \<Longrightarrow> E e s'"
  shows "twp m Q E (c, x)"
  by (rule twp_mono [OF assms(1) [unfolded steps_within_def, rule_format, OF assms(2,3)]])
    (auto intro: assms(4,5))

lemma within_reader:
  assumes "reads k limit m"
  shows "steps_within k n limit (on_reader m)"
  by (auto simp: steps_within_def on_reader_def twp_zoomM no_ub_in_bounds intro!: twp_read [OF assms])

lemma within_bindM:
  assumes "steps_within k n limit m" and "\<And>a. steps_within 0 n limit (f a)"
  shows "steps_within k n limit (bindM m f)"
  unfolding steps_within_def twp_bindM
  by (auto intro!: twp_within [OF assms(1)] twp_within [OF assms(2)])

lemma within_thenM: "steps_within k n limit m \<Longrightarrow> steps_within 0 n limit f \<Longrightarrow> steps_within k n limit (thenM m f)"
  by (simp add: thenM_def within_bindM)

lemma within_if: "steps_within k n limit m \<Longrightarrow> steps_within k n limit f \<Longrightarrow> steps_within k n limit (if b then m else f)"
  by simp

lemma within_simple:
  "steps_within 0 n limit (returnM a)" "in_bounds e \<Longrightarrow> steps_within k n limit (throwM e)"
  "steps_within 0 n limit (edit_state f)" "steps_within 0 n limit (advance_address d)"
  "steps_within 0 n limit (advance_line i)"
  by (auto simp: steps_within_def twp_simps edit_state_def edit_def advance_address_def
      advance_line_def Let_def in_bounds_def)

lemma within_emit: "table < n \<Longrightarrow> steps_within 0 n limit (edit (emit h table b))"
  by (auto simp: steps_within_def twp_simps edit_def emit_ranges_ok)

lemma in_bounds_messages [simp]: "in_bounds (RuntimeError m)"
  by (simp add: in_bounds_def)

lemma within_skip_operands:
  assumes "limit \<le> length bytes"
  shows "steps_within 0 n limit (skip_operands bytes limit k)"
  by (induction k) (auto intro!: within_thenM within_reader within_simple reads_any(5) [OF assms])

lemma within_standard:
  assumes limit: "limit \<le> length bytes" and "header_ok h" and "opcode < lh_opcode_base h" and "opcode \<noteq> 0"
    and "table < n"
  shows "steps_within 0 n limit (run_standard bytes h table limit opcode)"
proof -
  have "unat opcode < unat (lh_opcode_base h)" using assms(3) by (simp add: word_less_nat_alt)
  moreover have "unat opcode \<noteq> 0" using assms(4) by (simp add: unat_eq_0)
  ultimately have index: "unat opcode - 1 < length (lh_lengths h)"
    using assms(2) by (simp add: header_ok_def)
  show ?thesis
    unfolding run_standard_def if_P [OF index]
    by (intro within_if within_bindM within_thenM within_reader within_simple within_emit
        within_skip_operands reads_any limit assms(5))
qed

lemma within_special: "table < n \<Longrightarrow> steps_within 0 n limit (run_special h table opcode)"
  unfolding run_special_def Let_def by (intro within_thenM within_simple within_emit)

lemma within_extended:
  assumes limit: "limit \<le> length bytes" and table: "table < n"
  shows "steps_within 0 n limit (run_extended bytes h table limit)"
  unfolding steps_within_def
proof (intro allI impI)
  fix c and x :: line_exec assume c: "c \<le> limit" and ok: "ranges_ok n (lx_ranges x)"
  have inner: "p \<le> length bytes" if "p \<le> limit" for p using that limit by simp
  have r: "reads 0 p (read_u8 lt_dialect bytes p w)" "reads 0 p (read_u64 lt_dialect bytes p w)"
    "reads 0 p (read_uleb lt_dialect bytes p)" "reads 0 p (read_v4_file_entry bytes p)" if "p \<le> limit" for p w
    using reads_any [OF inner [OF that]] reads_weaken [OF reads_v4_file_entry [OF inner [OF that]]] by auto
  note within = twp_within [OF within_reader [OF reads_any(5) [OF limit]]]
    twp_within [OF within_reader [OF r(1)]] twp_within [OF within_reader [OF r(2)]]
    twp_within [OF within_reader [OF r(3)]] twp_within [OF within_reader [OF r(4)]]
  show "twp (run_extended bytes h table limit)
      (\<lambda>_ s'. c + 0 \<le> fst s' \<and> fst s' \<le> limit \<and> ranges_ok n (lx_ranges (snd s')))
      (\<lambda>e _. in_bounds e) (c, x)"
    unfolding run_extended_def Let_def using c ok table
    by (auto simp: twp_simps edit_state_def edit_def intro!: within emit_ranges_ok)
qed

lemma twp_line_step:
  assumes limit: "limit \<le> length bytes" and h: "header_ok h" and table: "table < n"
    and "c \<le> limit" and "ranges_ok n (lx_ranges x)"
  shows "twp (line_step bytes h table limit)
    (\<lambda>r s'. fst s' \<le> limit \<and> c \<le> fst s' \<and> ranges_ok n (lx_ranges (snd s')) \<and> (r = None \<longrightarrow> c < fst s') \<and>
       (r \<noteq> None \<longrightarrow> \<not> fst s' < limit))
    (\<lambda>e _. in_bounds e) (c, x)"
proof -
  note within = twp_within [OF within_reader [OF reads_fixed(1) [OF limit]]]
    twp_within [OF within_extended [OF limit table]] twp_within [OF within_special [OF table]]
    twp_within [OF within_standard [OF limit h _ _ table]]
  show ?thesis
    unfolding line_step_def using assms(4,5)
    by (auto simp: twp_simps simp del: One_nat_def intro!: within)
qed

text \<open>A whole program ends at the end of its unit.\<close>

lemma twp_line_program:
  assumes "limit \<le> length bytes" and "header_ok h" and "table < n" and "c \<le> limit"
    and "ranges_ok n (lx_ranges x)"
  shows "twp (loopM (Suc (limit - c)) (line_step bytes h table limit))
    (\<lambda>_ s'. fst s' = limit \<and> ranges_ok n (lx_ranges (snd s'))) (\<lambda>e _. in_bounds e) (c, x)"
proof (rule twp_loopM [where \<mu> = "\<lambda>s. limit - fst s" and
      I = "\<lambda>s. fst s \<le> limit \<and> ranges_ok n (lx_ranges (snd s))"])
  fix s :: "nat \<times> line_exec"
  assume "fst s \<le> limit \<and> ranges_ok n (lx_ranges (snd s))"
  then show "twp (line_step bytes h table limit)
      (\<lambda>r s'. case r of Some y \<Rightarrow> fst s' = limit \<and> ranges_ok n (lx_ranges (snd s'))
         | None \<Rightarrow> (fst s' \<le> limit \<and> ranges_ok n (lx_ranges (snd s'))) \<and> limit - fst s' < limit - fst s)
      (\<lambda>e _. in_bounds e) s"
    by (cases s) (auto intro!: twp_mono [OF twp_line_step [OF assms(1-3)]] split: option.split)
qed (use assms in auto)

section \<open>Sections and units\<close>

lemma twp_debug_section_loop:
  assumes "sh_offset names + sh_size names \<le> length bytes"
  shows "twp (debug_section_loop bytes wanted names ss)
    (\<lambda>r s'. s' = s \<and> strings_inside bytes r) (\<lambda>e s'. s' = s \<and> no_ub e) s"
proof (induction ss)
  case Nil
  then show ?case by (simp add: twp_simps strings_inside_def)
next
  case (Cons h ss)
  then show ?case
    by (auto simp: twp_simps twp_at_cursor require_range_def strings_inside_def
        intro!: twp_read [OF reads_c_string [OF assms]])
qed

lemma twp_find_debug_section:
  "twp (find_debug_section bytes wanted)
    (\<lambda>r s'. s' = s \<and> strings_inside bytes r) (\<lambda>e s'. s' = s \<and> no_ub e) s"
  unfolding find_debug_section_def Let_def
  by (auto simp: twp_simps twp_read_at require_range_def strings_inside_def [of bytes None]
      intro!: twp_read_sections twp_debug_section_loop)

definition table_ok :: "line_table \<Rightarrow> bool" where
  "table_ok t \<longleftrightarrow> ranges_ok (length (lt_file_tables t)) (lt_ranges t)"

lemma ranges_ok_mono: "ranges_ok n rs \<Longrightarrow> n \<le> m \<Longrightarrow> ranges_ok m rs"
  by (fastforce simp: ranges_ok_def)

lemma twp_parse_unit:
  assumes limit: "section_end \<le> length bytes" and strs: "strings_inside bytes strs"
    and "c \<le> section_end" and "table_ok t"
  shows "twp (parse_unit bytes section_end strs)
    (\<lambda>r s'. case r of Some t' \<Rightarrow> table_ok t' | None \<Rightarrow> fst s' \<le> section_end \<and> table_ok (snd s') \<and> c < fst s')
    (\<lambda>e _. in_bounds e) (c, t)"
proof -
  have header: "twp (read_header bytes u strs) (\<lambda>h c'. header_ok h \<and> x \<le> c' \<and> c' \<le> u) (\<lambda>e _. no_ub e) x"
    if "u \<le> section_end" "x \<le> u" for u x
    by (rule twp_read_header [OF _ strs]) (use that limit in simp_all)
  have program: "twp (loopM (Suc (u - x)) (line_step bytes h (length (lt_file_tables t)) u))
      (\<lambda>_ s'. fst s' = u \<and> ranges_ok (Suc (length (lt_file_tables t))) (lx_ranges (snd s'))) (\<lambda>e _. in_bounds e)
      (x, \<lparr>lx_state = initial_line_state, lx_previous = None, lx_files = lh_files h, lx_ranges = lt_ranges t\<rparr>)"
    if "u \<le> section_end" "x \<le> u" "header_ok h" for u x h
    by (rule twp_line_program [OF _ that(3)])
      (use that limit assms(4) in \<open>auto simp: table_ok_def intro: ranges_ok_mono\<close>)
  show ?thesis
    unfolding parse_unit_def Let_def using assms(3,4)
    by (auto simp: twp_simps twp_zoomM twp_from_cursor twp_with_local table_ok_def no_ub_in_bounds
        simp del: loopM.simps
        intro!: twp_read [OF reads_fixed(3) [OF limit]] header [THEN twp_mono] program [THEN twp_mono])
qed

lemma table_ok_sorted: "table_ok t \<Longrightarrow> table_ok (t\<lparr>lt_ranges := sort_key range_key (lt_ranges t)\<rparr>)"
  by (simp add: table_ok_def ranges_ok_def)

lemma twp_parse_line_table:
  "twp (parse_line_table bytes)
    (\<lambda>t s'. s' = s \<and> table_ok t \<and> sorted (map range_key (lt_ranges t))) (\<lambda>e s'. s' = s \<and> in_bounds e) s"
proof -
  have units: "twp (loopM (Suc len) (parse_unit bytes (start + len) strs)) (\<lambda>t _. table_ok t)
      (\<lambda>e _. in_bounds e) (start, \<lparr>lt_file_tables = [], lt_ranges = []\<rparr>)"
    if "start + len \<le> length bytes" "strings_inside bytes strs" for start len strs
  proof (rule twp_loopM [where \<mu> = "\<lambda>s. start + len - fst s" and
        I = "\<lambda>s. fst s \<le> start + len \<and> table_ok (snd s)"])
    fix s :: "nat \<times> line_table"
    assume "fst s \<le> start + len \<and> table_ok (snd s)"
    then show "twp (parse_unit bytes (start + len) strs)
        (\<lambda>r s'. case r of Some x \<Rightarrow> table_ok x
           | None \<Rightarrow> (fst s' \<le> start + len \<and> table_ok (snd s')) \<and> start + len - fst s' < start + len - fst s)
        (\<lambda>e _. in_bounds e) s"
      by (cases s) (auto intro!: twp_mono [OF twp_parse_unit [OF that]] split: option.splits)
  qed (simp_all add: table_ok_def ranges_ok_def)
  show ?thesis
    unfolding parse_line_table_def
    by (auto simp: twp_simps twp_at_cursor twp_with_local table_ok_sorted no_ub_in_bounds
        table_ok_def [of "\<lparr>lt_file_tables = [], lt_ranges = []\<rparr>"] ranges_ok_def [of _ "[]"]
        strings_inside_def [of bytes "Some _"] sorted_sort_key
        simp del: loopM.simps
        intro!: twp_find_debug_section [THEN twp_mono] units [THEN twp_mono])
qed

text \<open>C37. The line-table parser is total on every byte sequence: it ends, it never reads outside the file,
  and what it returns is a table whose ranges are non-empty, sorted by their bounds, and owned by an
  existing file table. What is left as undefined behaviour of the source on hostile input is only the
  signed overflow of the line register.\<close>

theorem parse_line_table_total:
  "twp (parse_line_table bytes)
    (\<lambda>t _. table_ok t \<and> sorted (map range_key (lt_ranges t))) (\<lambda>e _. in_bounds e) s"
  by (rule twp_mono [OF twp_parse_line_table]) simp_all

section \<open>Address lookup\<close>

text \<open>An address lookup never invents a location: the returned source location belongs to a stored range
  that contains the address.\<close>

theorem find_virtual_address_sound:
  assumes "find_virtual_address t a = Some loc"
  shows "\<exists>r \<in> set (lt_ranges t). lr_begin r \<le> a \<and> a < lr_end r \<and> lr_location r = loc"
  using assms set_takeWhileD [of _ "\<lambda>r. \<not> a < lr_begin r" "lt_ranges t"]
  by (fastforce simp: find_virtual_address_def Let_def not_less not_le split: if_splits
      dest: last_in_set)

theorem find_virtual_address_sound_witness:
  "\<exists>r \<in> set (lt_ranges \<lparr>lt_file_tables = [], lt_ranges =
       [\<lparr>lr_begin = 16, lr_end = 20, lr_location = \<lparr>sl_file = [], sl_line = 3, sl_column = 0\<rparr>, lr_table = 0\<rparr>]\<rparr>).
     lr_begin r \<le> 18 \<and> 18 < lr_end r \<and> lr_location r = \<lparr>sl_file = [], sl_line = 3, sl_column = 0\<rparr>"
  by (rule find_virtual_address_sound) code_simp

text \<open>Ranges that do not overlap: each ends before the next one begins.\<close>

definition disjoint_ranges :: "line_range list \<Rightarrow> bool" where
  "disjoint_ranges rs \<longleftrightarrow> sorted_wrt (\<lambda>r q. lr_end r \<le> lr_begin q) rs \<and> (\<forall>r \<in> set rs. lr_begin r < lr_end r)"

text \<open>When the stored ranges do not overlap, as in a table whose sequences describe disjoint code, the
  lookup finds the range of every covered address.\<close>

theorem find_virtual_address_complete:
  assumes "disjoint_ranges (lt_ranges t)" and "r \<in> set (lt_ranges t)"
    and "lr_begin r \<le> a" and "a < lr_end r"
  shows "find_virtual_address t a = Some (lr_location r)"
proof -
  from assms(2) obtain xs ys where split: "lt_ranges t = xs @ r # ys" by (auto simp: in_set_conv_decomp)
  from assms(1) have order: "\<And>q. q \<in> set xs \<Longrightarrow> lr_end q \<le> lr_begin r" "\<And>q. q \<in> set ys \<Longrightarrow> lr_end r \<le> lr_begin q"
    "\<And>q. q \<in> set xs \<Longrightarrow> lr_begin q < lr_end q"
    by (simp_all add: split disjoint_ranges_def sorted_wrt_append)
  have before: "\<not> a < lr_begin q" if "q \<in> set xs" for q
    using less_le_trans [OF order(3) [OF that] order(1) [OF that]] assms(3) by (simp add: not_less)
  have after: "a < lr_begin q" if "q \<in> set ys" for q
    using less_le_trans [OF assms(4) order(2) [OF that]] .
  have "takeWhile (\<lambda>r. \<not> a < lr_begin r) ys = []"
    using after by (cases ys) auto
  then have "takeWhile (\<lambda>r. \<not> a < lr_begin r) (lt_ranges t) = xs @ [r]"
    unfolding split using before assms(3) by (subst takeWhile_append2) (auto simp: not_less)
  with assms(3,4) show ?thesis by (auto simp: find_virtual_address_def Let_def not_less)
qed

theorem find_virtual_address_complete_witness:
  "find_virtual_address \<lparr>lt_file_tables = [], lt_ranges =
      [\<lparr>lr_begin = 16, lr_end = 20, lr_location = \<lparr>sl_file = [], sl_line = 3, sl_column = 0\<rparr>, lr_table = 0\<rparr>,
       \<lparr>lr_begin = 20, lr_end = 24, lr_location = \<lparr>sl_file = [], sl_line = 4, sl_column = 0\<rparr>, lr_table = 0\<rparr>]\<rparr> 18
    = Some (lr_location \<lparr>lr_begin = 16, lr_end = 20, lr_location = \<lparr>sl_file = [], sl_line = 3, sl_column = 0\<rparr>, lr_table = 0\<rparr>)"
  by (rule find_virtual_address_complete) (simp_all add: disjoint_ranges_def)

end
