(* ===== verification/ElfFile.thy ===== *)
theory ElfFile
  imports ElfLayout StdMap "HOL-Library.List_Lexorder" "HOL-Library.Product_Lexorder"
begin

text \<open>
  The class \<^verbatim>\<open>ElfFile\<close> of \<^verbatim>\<open>src/src/elf/elf.cpp\<close>: parsing the program headers and the symbol tables of an
  executable, symbol lookup by name and by address, and the load bias from \<^verbatim>\<open>/proc/pid/maps\<close>.

  The contents of the file, the page size, \<^verbatim>\<open>std::filesystem::canonical\<close> and the lines of the maps file
  are arguments. \<^verbatim>\<open>std::sort\<close> may order symbols with equal keys either way; the model sorts stably.
\<close>

unbundle bit_operations_syntax

definition elf_dialect :: dialect where
  "elf_dialect = \<lparr>past_data = '' extends past end of file'', past_limit = '' extends past note payload'',
     uleb_name = [], sleb_name = [], sleb_checked = True\<rparr>"

record elf_symbol =
  sy_name :: "u8 list"
  sy_value :: u64
  sy_size :: u64
  sy_type :: nat
  sy_binding :: nat

record resolved_symbol =
  rs_symbol :: elf_symbol
  rs_offset :: u64

record elf_file =
  ef_path :: string
  ef_symbols :: "elf_symbol list"
  ef_type :: nat
  ef_load_base :: u64

abbreviation (input) ET_EXEC :: nat where "ET_EXEC \<equiv> 2"
abbreviation (input) ET_DYN :: nat where "ET_DYN \<equiv> 3"
abbreviation (input) ET_CORE :: nat where "ET_CORE \<equiv> 4"
abbreviation (input) PT_LOAD :: nat where "PT_LOAD \<equiv> 1"
abbreviation (input) PT_DYNAMIC :: nat where "PT_DYNAMIC \<equiv> 2"
abbreviation (input) PT_NOTE :: nat where "PT_NOTE \<equiv> 4"
abbreviation (input) SHT_SYMTAB :: nat where "SHT_SYMTAB \<equiv> 2"
abbreviation (input) SHT_DYNSYM :: nat where "SHT_DYNSYM \<equiv> 11"
abbreviation (input) STT_NOTYPE :: nat where "STT_NOTYPE \<equiv> 0"
abbreviation (input) STT_FUNC :: nat where "STT_FUNC \<equiv> 2"
abbreviation (input) STT_SECTION :: nat where "STT_SECTION \<equiv> 3"
abbreviation (input) STT_FILE :: nat where "STT_FILE \<equiv> 4"
abbreviation (input) STB_GLOBAL :: nat where "STB_GLOBAL \<equiv> 1"
abbreviation (input) sym_size :: nat where "sym_size \<equiv> 24"

record raw_symbol =
  st_name :: nat
  st_info :: nat
  st_shndx :: nat
  st_value :: nat
  st_size :: nat

definition decode_sym :: "u8 list \<Rightarrow> raw_symbol" where
  "decode_sym b = \<lparr>st_name = field 0 4 b, st_info = field 4 1 b, st_shndx = field 6 2 b,
     st_value = field 8 8 b, st_size = field 16 8 b\<rparr>"

definition read_struct :: "nat \<Rightarrow> u8 list \<Rightarrow> nat \<Rightarrow> ('s, u8 list) prog" where
  "read_struct width bytes offset = read_at elf_dialect width bytes offset ''ELF structure''"

text \<open>The loop of \<^verbatim>\<open>read_string\<close>; it indexes the vector without a check of its own.\<close>

definition string_step :: "u8 list \<Rightarrow> nat \<Rightarrow> (nat \<times> u8 list, u8 list option) prog" where
  "string_step bytes end_pos = (\<lambda>(cursor, result).
     if cursor < end_pos then
       (if cursor < length bytes then
          (if bytes ! cursor = 0 then (Ok (Some result), (cursor, result))
           else (Ok None, (cursor + 1, result @ [bytes ! cursor])))
        else (Throw (UndefinedBehaviour ''vector index out of range''), (cursor, result)))
     else (Ok (Some []), (cursor, result)))"

definition read_string :: "u8 list \<Rightarrow> nat \<Rightarrow> nat \<Rightarrow> nat \<Rightarrow> ('s, u8 list) prog" where
  "read_string bytes table_offset table_size string_offset =
    (if string_offset \<ge> table_size then returnM []
     else at_cursor (table_offset + string_offset)
       (with_local [] (loopM (table_size + 1) (string_step bytes (table_offset + table_size)))))"

section \<open>Parsing\<close>

text \<open>The loop over the program headers: the lowest page of a segment that maps file offset zero.\<close>

fun load_base_loop :: "nat \<Rightarrow> u8 list \<Rightarrow> nat \<Rightarrow> nat \<Rightarrow> nat \<Rightarrow> nat \<Rightarrow> ('s, nat) prog" where
  "load_base_loop page_size bytes phoff index 0 base = returnM base"
| "load_base_loop page_size bytes phoff index (Suc n) base =
    bindM (read_struct phdr_size bytes (wrap64 (phoff + index * phdr_size))) (\<lambda>raw.
    let phdr = decode_phdr raw in
    load_base_loop page_size bytes phoff (index + 1) n
      (if ph_type phdr \<noteq> PT_LOAD \<or> ph_offset phdr div page_size \<noteq> 0 then base
       else min base (ph_vaddr phdr - ph_vaddr phdr mod page_size)))"

text \<open>The entries of one symbol table.\<close>

fun symbol_loop :: "u8 list \<Rightarrow> nat \<Rightarrow> section_header \<Rightarrow> nat \<Rightarrow> nat \<Rightarrow> elf_symbol list \<Rightarrow> ('s, elf_symbol list) prog" where
  "symbol_loop bytes table_offset strings index 0 acc = returnM acc"
| "symbol_loop bytes table_offset strings index (Suc n) acc =
    bindM (read_struct sym_size bytes (table_offset + index * sym_size)) (\<lambda>raw.
    let symbol = decode_sym raw; type = st_info symbol mod 16 in
    if st_name symbol = 0 \<or> st_shndx symbol = SHN_UNDEF \<or> type = STT_SECTION \<or> type = STT_FILE
    then symbol_loop bytes table_offset strings (index + 1) n acc
    else bindM (read_string bytes (sh_offset strings) (sh_size strings) (st_name symbol)) (\<lambda>name.
      symbol_loop bytes table_offset strings (index + 1) n
        (if name = [] then acc
         else acc @ [\<lparr>sy_name = name, sy_value = of_nat (st_value symbol), sy_size = of_nat (st_size symbol),
                       sy_type = type, sy_binding = st_info symbol div 16\<rparr>])))"

fun section_loop :: "u8 list \<Rightarrow> section_header list \<Rightarrow> section_header list \<Rightarrow> elf_symbol list \<Rightarrow>
    ('s, elf_symbol list) prog" where
  "section_loop bytes sections [] acc = returnM acc"
| "section_loop bytes sections (s # rest) acc =
    (if sh_type s \<noteq> SHT_SYMTAB \<and> sh_type s \<noteq> SHT_DYNSYM then section_loop bytes sections rest acc
     else if sh_entsize s \<noteq> sym_size \<or> sh_link s \<ge> length sections then section_loop bytes sections rest acc
     else thenM (require_range bytes (sh_offset s) (sh_size s) ''ELF symbol table'')
       (let strings = sections ! sh_link s in
        thenM (require_range bytes (sh_offset strings) (sh_size strings) ''ELF string table'')
        (bindM (symbol_loop bytes (sh_offset s) strings 0 (sh_size s div sym_size) acc)
          (section_loop bytes sections rest))))"

text \<open>The comparison passed to \<^verbatim>\<open>std::sort\<close> is the lexicographic order of value, name and type.\<close>

definition symbol_key :: "elf_symbol \<Rightarrow> u64 \<times> u8 list \<times> nat" where
  "symbol_key s = (sy_value s, sy_name s, sy_type s)"

definition same_symbol :: "elf_symbol \<Rightarrow> elf_symbol \<Rightarrow> bool" where
  "same_symbol l r \<longleftrightarrow> sy_value l = sy_value r \<and> sy_name l = sy_name r"

text \<open>\<^verbatim>\<open>std::unique\<close>: each element is compared with the last one kept.\<close>

fun unique_by :: "('a \<Rightarrow> 'a \<Rightarrow> bool) \<Rightarrow> 'a list \<Rightarrow> 'a list" where
  "unique_by same [] = []"
| "unique_by same [x] = [x]"
| "unique_by same (x # y # ys) =
    (if same x y then unique_by same (x # ys) else x # unique_by same (y # ys))"

definition parse_elf_file :: "nat \<Rightarrow> string \<Rightarrow> u8 list \<Rightarrow> ('s, elf_file) prog" where
  "parse_elf_file page_size path bytes =
    bindM (read_struct ehdr_size bytes 0) (\<lambda>raw.
    let header = decode_ehdr raw in
    if \<not> has_elf_magic header then throwM (RuntimeError ''file is not ELF'')
    else if \<not> is_elf64_lsb header then throwM (RuntimeError ''only little-endian ELF64 is supported'')
    else if e_machine header \<noteq> EM_X86_64 then throwM (RuntimeError ''only x86-64 ELF files are supported'')
    else if e_phentsize header \<noteq> phdr_size \<and> e_phnum header \<noteq> 0
    then throwM (RuntimeError ''unsupported ELF program-header entry size'')
    else if e_shentsize header \<noteq> shdr_size \<and> e_shnum header \<noteq> 0
    then throwM (RuntimeError ''unsupported ELF section-header entry size'')
    else bindM (load_base_loop page_size bytes (e_phoff header) 0 (e_phnum header) (2 ^ 64 - 1)) (\<lambda>base.
      bindM (read_sections elf_dialect bytes (e_shoff header) 0 (e_shnum header)) (\<lambda>sections.
      bindM (section_loop bytes sections sections []) (\<lambda>symbols.
      returnM \<lparr>ef_path = path, ef_symbols = unique_by same_symbol (sort_key symbol_key symbols),
         ef_type = e_type header, ef_load_base = (if base = 2 ^ 64 - 1 then 0 else of_nat base)\<rparr>))))"

definition is_pie :: "elf_file \<Rightarrow> bool" where
  "is_pie f \<longleftrightarrow> ef_type f = ET_DYN"

section \<open>Symbol lookup\<close>

fun better_named :: "elf_symbol option \<Rightarrow> elf_symbol \<Rightarrow> elf_symbol option" where
  "better_named None s = Some s"
| "better_named (Some best) s =
    (if sy_type s = STT_FUNC \<and> sy_type best \<noteq> STT_FUNC \<or>
        sy_binding s = STB_GLOBAL \<and> sy_binding best \<noteq> STB_GLOBAL
     then Some s else Some best)"

definition find_symbol :: "elf_file \<Rightarrow> u8 list \<Rightarrow> elf_symbol option" where
  "find_symbol f name =
    foldl (\<lambda>best s. if sy_name s \<noteq> name then best else better_named best s) None (ef_symbols f)"

text \<open>Whether the loop of the address lookup considers a symbol, and whether it replaces the best.\<close>

definition covers_address :: "u64 \<Rightarrow> elf_symbol \<Rightarrow> bool" where
  "covers_address address s \<longleftrightarrow>
     (sy_type s = STT_FUNC \<or> sy_type s = STT_NOTYPE) \<and>
     \<not> (sy_size s \<noteq> 0 \<and> address \<ge> sy_value s + sy_size s)"

fun better_at :: "elf_symbol option \<Rightarrow> elf_symbol \<Rightarrow> elf_symbol option" where
  "better_at None s = Some s"
| "better_at (Some best) s =
    (if sy_value s > sy_value best \<or>
        sy_value s = sy_value best \<and> sy_type s = STT_FUNC \<and> sy_type best \<noteq> STT_FUNC
     then Some s else Some best)"

fun address_loop :: "u64 \<Rightarrow> elf_symbol option \<Rightarrow> elf_symbol list \<Rightarrow> elf_symbol option" where
  "address_loop address best [] = best"
| "address_loop address best (s # rest) =
    (if sy_value s > address then best
     else address_loop address (if covers_address address s then better_at best s else best) rest)"

definition find_symbol_by_virtual_address :: "elf_file \<Rightarrow> u64 \<Rightarrow> resolved_symbol option" where
  "find_symbol_by_virtual_address f address =
    map_option (\<lambda>best. \<lparr>rs_symbol = best, rs_offset = address - sy_value best\<rparr>)
      (address_loop address None (ef_symbols f))"

section \<open>The load bias\<close>

text \<open>What the file system answers: canonical paths, whether two paths name one file, the contents of a
  file, the lines of \<^verbatim>\<open>/proc/pid/maps\<close>, and the page size. \<open>None\<close> is an error.\<close>

datatype file_contents = Cannot_open | Cannot_size | Cannot_read | Contents "u8 list"

record 'k files =
  fs_canonical :: "string \<Rightarrow> string option"
  fs_equivalent :: "string \<Rightarrow> string \<Rightarrow> bool option"
  fs_contents :: "string \<Rightarrow> 'k \<Rightarrow> file_contents"
  fs_page_size :: nat
  fs_maps :: "pid \<Rightarrow> 'k \<Rightarrow> string list option"

definition mapped_identity_path :: "'k files \<Rightarrow> string \<Rightarrow> string" where
  "mapped_identity_path fs path = (case fs_canonical fs path of None \<Rightarrow> path | Some c \<Rightarrow> c)"

definition trim_left :: "string \<Rightarrow> string" where
  "trim_left = dropWhile is_space"

text \<open>\<^verbatim>\<open>fields >> a >> b ...\<close>: \<open>n\<close> words, then what is left of the line.\<close>

fun read_fields :: "nat \<Rightarrow> string \<Rightarrow> (string list \<times> string) option" where
  "read_fields 0 s = Some ([], s)"
| "read_fields (Suc n) s =
    (let rest = dropWhile is_space s; word = takeWhile (\<lambda>c. \<not> is_space c) rest in
     if word = [] then None
     else map_option (\<lambda>(ws, r). (word # ws, r)) (read_fields n (dropWhile (\<lambda>c. \<not> is_space c) rest)))"

definition hex_value :: "char \<Rightarrow> nat option" where
  "hex_value c = (let v = of_char c :: nat in
     if 48 \<le> v \<and> v \<le> 57 then Some (v - 48)
     else if 97 \<le> v \<and> v \<le> 102 then Some (v - 87)
     else if 65 \<le> v \<and> v \<le> 70 then Some (v - 55) else None)"

fun hex_prefix :: "string \<Rightarrow> nat list" where
  "hex_prefix [] = []"
| "hex_prefix (c # cs) = (case hex_value c of None \<Rightarrow> [] | Some d \<Rightarrow> d # hex_prefix cs)"

text \<open>The optional \<^verbatim>\<open>0x\<close> of base 16: skipped when a digit follows it.\<close>

definition skip_hex_prefix :: "string \<Rightarrow> string" where
  "skip_hex_prefix s = (case s of
     a # x # d # r \<Rightarrow> if a = CHR ''0'' \<and> (x = CHR ''x'' \<or> x = CHR ''X'') \<and> hex_value d \<noteq> None
       then d # r else s
   | _ \<Rightarrow> s)"

text \<open>\<^verbatim>\<open>std::stoull(text, nullptr, 16)\<close>: a minus sign negates modulo \<open>2 ^ 64\<close>.\<close>

definition stoull16 :: "string \<Rightarrow> ('s, u64) prog" where
  "stoull16 s =
    (let rest = dropWhile is_space s;
         signed = (case rest of c # _ \<Rightarrow> c = CHR ''-'' \<or> c = CHR ''+'' | [] \<Rightarrow> False);
         negative = (case rest of c # _ \<Rightarrow> c = CHR ''-'' | [] \<Rightarrow> False);
         digits = hex_prefix (skip_hex_prefix (if signed then tl rest else rest));
         magnitude = foldl (\<lambda>acc d. acc * 16 + d) 0 digits
     in if digits = [] then throwM (InvalidArgument ''stoull'')
        else if magnitude \<ge> 2 ^ 64 then throwM (OutOfRange ''stoull'')
        else returnM (if negative then - of_nat magnitude else of_nat magnitude))"

text \<open>One line of the maps file: \<open>Some bias\<close> ends the loop.\<close>

definition bias_of_line :: "elf_file \<Rightarrow> string \<Rightarrow> string \<Rightarrow> ('s, u64 option) prog" where
  "bias_of_line f mapped_file line = (case read_fields 5 line of
     None \<Rightarrow> returnM None
   | Some (words, rest) \<Rightarrow>
       if trim_left rest \<noteq> mapped_file then returnM None
       else bindM (stoull16 (words ! 2)) (\<lambda>offset.
         if offset \<noteq> 0 then returnM None
         else if CHR ''-'' \<notin> set (words ! 0) then returnM None
         else bindM (stoull16 (takeWhile (\<lambda>c. c \<noteq> CHR ''-'') (words ! 0))) (\<lambda>start.
           if start < ef_load_base f
           then throwM (RuntimeError ''invalid ELF mapping below load virtual address'')
           else returnM (Some (start - ef_load_base f)))))"

fun bias_loop :: "elf_file \<Rightarrow> string \<Rightarrow> string list \<Rightarrow> ('s, u64) prog" where
  "bias_loop f mapped_file [] =
    throwM (RuntimeError (''could not locate ELF mapping for load bias: '' @ mapped_file))"
| "bias_loop f mapped_file (line # rest) = bindM (bias_of_line f mapped_file line) (\<lambda>r. case r of
     Some bias \<Rightarrow> returnM bias | None \<Rightarrow> bias_loop f mapped_file rest)"

definition load_bias :: "'k files \<Rightarrow> elf_file \<Rightarrow> pid \<Rightarrow> ('k, u64) prog" where
  "load_bias fs f p =
    (if ef_type f = ET_EXEC then returnM 0
     else if ef_type f \<noteq> ET_DYN then throwM (RuntimeError ''unsupported ELF executable type'')
     else bindM getM (\<lambda>k. case fs_maps fs p k of
       None \<Rightarrow> throwM (RuntimeError ''failed to open tracee memory map'')
     | Some lines \<Rightarrow> bias_loop f (mapped_identity_path fs (ef_path f)) lines))"

definition runtime_address :: "'k files \<Rightarrow> elf_file \<Rightarrow> pid \<Rightarrow> elf_symbol \<Rightarrow> ('k, u64) prog" where
  "runtime_address fs f p symbol = bindM (load_bias fs f p) (\<lambda>bias. returnM (sy_value symbol + bias))"

definition find_symbol_by_runtime_address :: "'k files \<Rightarrow> elf_file \<Rightarrow> pid \<Rightarrow> u64 \<Rightarrow> ('k, resolved_symbol option) prog" where
  "find_symbol_by_runtime_address fs f p address = bindM (load_bias fs f p) (\<lambda>bias.
     returnM (if address < bias then None else find_symbol_by_virtual_address f (address - bias)))"

section \<open>Opening files\<close>

definition read_binary_file :: "'k files \<Rightarrow> string \<Rightarrow> ('k, u8 list) prog" where
  "read_binary_file fs path = bindM getM (\<lambda>k. case fs_contents fs path k of
     Cannot_open \<Rightarrow> throwM (RuntimeError (''failed to open ELF file: '' @ path))
   | Cannot_size \<Rightarrow> throwM (RuntimeError ''failed to determine ELF file size'')
   | Cannot_read \<Rightarrow> throwM (RuntimeError ''failed to read ELF file'')
   | Contents bytes \<Rightarrow> returnM bytes)"

definition open_elf :: "'k files \<Rightarrow> string \<Rightarrow> ('k, elf_file) prog" where
  "open_elf fs path = bindM (read_binary_file fs path) (parse_elf_file (fs_page_size fs) path)"

end
