(* ===== verification/ElfFileProps.thy ===== *)
theory ElfFileProps
  imports ElfFile
begin

text \<open>
  Properties of \<^verbatim>\<open>ElfFile\<close>: the parser is total and stays inside the file, its symbol table is strictly
  ordered, the address lookup returns the closest covering symbol, and the load bias is read off the
  maps line of the file.
\<close>

unbundle bit_operations_syntax

section \<open>Parsing is total\<close>

lemma twp_read_struct:
  "(\<And>raw. Q raw s) \<Longrightarrow> (\<And>m. E (RuntimeError m) s) \<Longrightarrow> twp (read_struct width bytes offset) Q E s"
  by (simp add: read_struct_def twp_read_at)

lemma twp_load_base_loop:
  "(\<And>b. Q b s) \<Longrightarrow> (\<And>m. E (RuntimeError m) s) \<Longrightarrow> twp (load_base_loop ps bytes phoff index n base) Q E s"
  by (induction ps bytes phoff index n base rule: load_base_loop.induct)
    (auto simp: twp_simps Let_def intro!: twp_read_struct)

lemma twp_string_step:
  assumes "end_pos \<le> length bytes"
  shows "twp (string_step bytes end_pos)
    (\<lambda>r s'. r = None \<longrightarrow> end_pos - fst s' < end_pos - fst s) (\<lambda>_ _. False) s"
  using assms by (cases s) (auto simp: string_step_def twp_def)

lemma twp_read_string:
  assumes "table_offset + table_size \<le> length bytes" and "\<And>name. Q name s"
  shows "twp (read_string bytes table_offset table_size string_offset) Q E s"
proof -
  have "twp (loopM (table_size + 1) (string_step bytes (table_offset + table_size))) (\<lambda>_ _. True) (\<lambda>_ _. False) (c, [])"
    if "table_offset \<le> c" for c
  proof (rule twp_loopM [where I = "\<lambda>_. True" and \<mu> = "\<lambda>p. table_offset + table_size - fst p"])
    fix p :: "nat \<times> u8 list"
    show "twp (string_step bytes (table_offset + table_size))
        (\<lambda>r s'. case r of Some x \<Rightarrow> True | None \<Rightarrow> True \<and>
          table_offset + table_size - fst s' < table_offset + table_size - fst p) (\<lambda>_ _. False) p"
      by (rule twp_mono [OF twp_string_step [OF assms(1)]]) (auto split: option.split)
  qed (use that in auto)
  from this [of "table_offset + string_offset"] show ?thesis
    by (auto simp: read_string_def twp_simps twp_at_cursor twp_with_local assms(2) simp del: loopM.simps
        intro: twp_mono)
qed

lemma twp_symbol_loop:
  assumes "sh_offset strings + sh_size strings \<le> length bytes"
    and "\<And>acc. Q acc s" and "\<And>m. E (RuntimeError m) s"
  shows "twp (symbol_loop bytes table_offset strings index n acc) Q E s"
  using assms
  by (induction bytes table_offset strings index n acc rule: symbol_loop.induct)
    (auto simp: twp_simps Let_def intro!: twp_read_struct twp_read_string)

lemma twp_section_loop:
  assumes "\<And>acc. Q acc s" and "\<And>m. E (RuntimeError m) s"
  shows "twp (section_loop bytes sections ss acc) Q E s"
  by (induction bytes sections ss acc rule: section_loop.induct)
    (use assms in \<open>auto simp: twp_simps Let_def intro!: twp_require_range twp_symbol_loop\<close>)

section \<open>The symbol table\<close>

definition symbol_name_key :: "elf_symbol \<Rightarrow> u64 \<times> u8 list" where
  "symbol_name_key s = (sy_value s, sy_name s)"

lemma set_unique_by: "set (unique_by same xs) \<subseteq> set xs"
  by (induction same xs rule: unique_by.induct) auto

lemma strict_unique_by:
  fixes key :: "'a \<Rightarrow> 'k :: linorder"
  assumes "sorted (map key xs)"
  shows "sorted_wrt (\<lambda>x y. key x < key y) (unique_by (\<lambda>x y. key x = key y) xs)"
  using assms
proof (induction "\<lambda>x y. key x = key y" xs rule: unique_by.induct)
  case (3 x y ys)
  show ?case
  proof (cases "key x = key y")
    case True
    with 3 show ?thesis by simp
  next
    case False
    with "3.prems" have "key x < key y" by (simp add: order_less_le)
    moreover have "\<forall>z \<in> set (unique_by (\<lambda>x y. key x = key y) (y # ys)). key y \<le> key z"
      using "3.prems" set_unique_by [of "\<lambda>x y. key x = key y" "y # ys"] by auto
    ultimately have "\<forall>z \<in> set (unique_by (\<lambda>x y. key x = key y) (y # ys)). key x < key z"
      by (blast intro: order_less_le_trans)
    with 3 False show ?thesis by simp
  qed
qed simp_all

lemma sorted_name_key: "sorted (map symbol_key xs) \<Longrightarrow> sorted (map symbol_name_key xs)"
  by (induction xs) (auto simp: symbol_key_def symbol_name_key_def less_eq_prod_def less_prod_def)

text \<open>What the lookups rely on: the table is strictly ascending by value and name.\<close>

definition symbols_ordered :: "elf_symbol list \<Rightarrow> bool" where
  "symbols_ordered xs \<longleftrightarrow> sorted_wrt (\<lambda>x y. symbol_name_key x < symbol_name_key y) xs"

lemma parsed_symbols_ordered: "symbols_ordered (unique_by same_symbol (sort_key symbol_key xs))"
proof -
  have "same_symbol = (\<lambda>x y. symbol_name_key x = symbol_name_key y)"
    by (simp add: fun_eq_iff same_symbol_def symbol_name_key_def)
  then show ?thesis
    using strict_unique_by [of symbol_name_key "sort_key symbol_key xs"]
    by (simp add: symbols_ordered_def sorted_name_key)
qed

lemma symbols_ordered_values: "symbols_ordered xs \<Longrightarrow> sorted (map sy_value xs)"
  by (induction xs) (auto simp: symbols_ordered_def symbol_name_key_def less_prod_def less_eq_prod_def)

lemma symbols_ordered_Nil [simp]: "symbols_ordered []"
  by (simp add: symbols_ordered_def)

lemma twp_parse_elf_file:
  "(\<And>f. symbols_ordered (ef_symbols f) \<Longrightarrow> ef_path f = path \<Longrightarrow> Q f s) \<Longrightarrow> (\<And>m. E (RuntimeError m) s) \<Longrightarrow>
    twp (parse_elf_file page_size path bytes) Q E s"
  unfolding parse_elf_file_def
  by (auto simp: twp_simps Let_def parsed_symbols_ordered
      intro!: twp_read_struct twp_load_base_loop twp_read_sections twp_section_loop)

text \<open>C35. Parsing an executable is total on every byte sequence: it ends, never reads outside the
  file, and reports malformed input as a runtime error; the symbol table of a parsed file is strictly
  ascending by value and name, so that no symbol is listed twice.\<close>

theorem parse_elf_file_total:
  "twp (parse_elf_file page_size path bytes)
    (\<lambda>f _. symbols_ordered (ef_symbols f)) (\<lambda>e _. \<exists>m. e = RuntimeError m) s"
  by (rule twp_parse_elf_file) auto

section \<open>Lookup by name\<close>

lemma foldl_named:
  assumes "foldl (\<lambda>best s. if sy_name s \<noteq> name then best else better_named best s) best xs = r"
  shows "case r of None \<Rightarrow> best = None \<and> name \<notin> sy_name ` set xs
    | Some s \<Rightarrow> best = Some s \<or> s \<in> set xs \<and> sy_name s = name"
  using assms
proof (induction xs arbitrary: best)
  case (Cons x xs)
  show ?case
  proof (cases "sy_name x = name")
    case True
    obtain y where y: "better_named best x = Some y" "best = Some y \<or> y = x"
      by (cases best; cases "better_named best x") (auto split: if_splits)
    from Cons.IH [of "Some y"] Cons.prems True y show ?thesis by (auto split: option.splits)
  next
    case False
    with Cons.IH [of best] Cons.prems show ?thesis by (auto split: option.splits)
  qed
qed (auto split: option.split)

definition global_function :: "elf_symbol \<Rightarrow> bool" where
  "global_function s \<longleftrightarrow> sy_type s = STT_FUNC \<and> sy_binding s = STB_GLOBAL"

lemma foldl_keeps_global_function:
  "global_function b \<Longrightarrow> foldl better_named (Some b) xs = Some b"
  by (induction xs) (auto simp: global_function_def)

lemma foldl_prefers_global_function:
  "find global_function xs = Some t \<Longrightarrow> \<not> (\<exists>b. best = Some b \<and> global_function b) \<Longrightarrow>
    foldl better_named best xs = Some t"
proof (induction xs arbitrary: best)
  case (Cons x xs)
  show ?case
  proof (cases "global_function x")
    case True
    with Cons.prems have "better_named best x = Some x"
      by (cases best) (auto simp: global_function_def)
    with True Cons.prems show ?thesis by (simp add: foldl_keeps_global_function)
  next
    case False
    with Cons.prems have "\<not> (\<exists>b. better_named best x = Some b \<and> global_function b)"
      by (cases best) auto
    with False Cons show ?thesis by simp
  qed
qed simp

lemma foldl_filter:
  "foldl (\<lambda>b x. if \<not> P x then b else g b x) b xs = foldl g b (filter P xs)"
  by (induction xs arbitrary: b) auto

lemma find_filter: "find P (filter R xs) = find (\<lambda>x. R x \<and> P x) xs"
  by (induction xs) auto

text \<open>Lookup by name finds a symbol exactly when one of that name is listed; what it returns is
  a listed symbol of that name, and it is the first global function of that name when there is one.\<close>

theorem find_symbol_correct:
  "case find_symbol f name of
     None \<Rightarrow> name \<notin> sy_name ` set (ef_symbols f)
   | Some s \<Rightarrow> s \<in> set (ef_symbols f) \<and> sy_name s = name \<and>
       s = case_option s id (find (\<lambda>t. sy_name t = name \<and> global_function t) (ef_symbols f))"
proof -
  have "find_symbol f name = Some t"
    if "find (\<lambda>t. sy_name t = name \<and> global_function t) (ef_symbols f) = Some t" for t
    using foldl_prefers_global_function [of "filter (\<lambda>s. sy_name s = name) (ef_symbols f)" t None] that
      foldl_filter [of "\<lambda>s. sy_name s = name" better_named None "ef_symbols f"]
    by (simp add: find_symbol_def find_filter)
  then show ?thesis
    using foldl_named [where name = name and best = None and xs = "ef_symbols f", OF refl]
    by (auto simp: find_symbol_def split: option.splits)
qed

section \<open>Lookup by address\<close>

definition eligible :: "u64 \<Rightarrow> elf_symbol \<Rightarrow> bool" where
  "eligible address s \<longleftrightarrow> sy_value s \<le> address \<and> covers_address address s"

lemma address_loop_filter:
  "sorted (map sy_value xs) \<Longrightarrow>
     address_loop address best xs = foldl better_at best (filter (eligible address) xs)"
proof (induction xs arbitrary: best)
  case (Cons x xs)
  show ?case
  proof (cases "sy_value x > address")
    case True
    then have "filter (eligible address) (x # xs) = []"
      using Cons.prems by (fastforce simp: eligible_def filter_empty_conv)
    with True show ?thesis by simp
  next
    case False
    then have "sy_value x \<le> address" by simp
    with Cons False show ?thesis by (simp add: eligible_def del: not_less)
  qed
qed simp

lemma foldl_better_at:
  "foldl better_at (Some b) xs = Some r \<Longrightarrow>
     (r = b \<or> r \<in> set xs) \<and> (\<forall>s \<in> insert b (set xs). sy_value s \<le> sy_value r)"
proof (induction xs arbitrary: b)
  case (Cons x xs)
  then obtain c where c: "better_at (Some b) x = Some c" "c = b \<or> c = x" by (auto split: if_splits)
  then have "sy_value b \<le> sy_value c" "sy_value x \<le> sy_value c" by (auto split: if_splits)
  moreover from c Cons.IH [of c] Cons.prems
  have "r = c \<or> r \<in> set xs" "\<forall>s \<in> set xs. sy_value s \<le> sy_value r" "sy_value c \<le> sy_value r" by simp_all
  ultimately show ?case using c(2) by (auto intro: order_trans [of _ "sy_value c"])
qed simp

lemma foldl_better_at_Some: "\<exists>r. foldl better_at (Some b) xs = Some r"
  by (induction xs arbitrary: b) auto


definition example_elf :: elf_file where
  "example_elf = \<lparr>ef_path = ''/bin/t'', ef_symbols =
     [\<lparr>sy_name = [0x66], sy_value = 0x1000, sy_size = 16, sy_type = 2, sy_binding = 1\<rparr>,
      \<lparr>sy_name = [0x67], sy_value = 0x1010, sy_size = 0, sy_type = 0, sy_binding = 0\<rparr>],
     ef_type = 3, ef_load_base = 0\<rparr>"


section \<open>The load bias\<close>

definition hex_text :: "string \<Rightarrow> bool" where
  "hex_text s \<longleftrightarrow> s \<noteq> [] \<and> (\<forall>c \<in> set s. hex_value c \<noteq> None)"

definition hex_number :: "string \<Rightarrow> nat" where
  "hex_number s = foldl (\<lambda>acc c. acc * 16 + the (hex_value c)) 0 s"

lemma hex_prefix_text: "\<forall>c \<in> set s. hex_value c \<noteq> None \<Longrightarrow> hex_prefix s = map (\<lambda>c. the (hex_value c)) s"
  by (induction s) auto

lemma not_hex: "hex_value CHR ''x'' = None" "hex_value CHR ''X'' = None" "hex_value CHR ''-'' = None"
  "hex_value CHR ''+'' = None"
  by (simp_all add: hex_value_def)

lemma hex_not_space: "hex_value c \<noteq> None \<Longrightarrow> \<not> is_space c"
  by (auto simp: hex_value_def is_space_def Let_def split: if_splits)

lemma skip_hex_prefix_text: "\<forall>c \<in> set s. hex_value c \<noteq> None \<Longrightarrow> skip_hex_prefix s = s"
  by (auto simp: skip_hex_prefix_def not_hex split: list.split)

text \<open>A hexadecimal number below \<open>2 ^ 64\<close> is read exactly.\<close>

lemma stoull16_text:
  assumes "hex_text s" and "hex_number s < 2 ^ 64"
  shows "stoull16 s = returnM (of_nat (hex_number s))"
proof -
  obtain c cs where s: "s = c # cs" using assms(1) by (cases s) (auto simp: hex_text_def)
  have hex: "\<forall>c \<in> set s. hex_value c \<noteq> None" using assms(1) by (simp add: hex_text_def)
  then have c: "\<not> is_space c" "c \<noteq> CHR ''-''" "c \<noteq> CHR ''+''" using s not_hex hex_not_space by auto
  have "foldl (\<lambda>acc d. acc * 16 + d) 0 (map (\<lambda>c. the (hex_value c)) s) = hex_number s"
    by (simp add: hex_number_def foldl_map)
  moreover have "dropWhile is_space s = s" using s c by simp
  ultimately show ?thesis
    using assms(2) s c hex_prefix_text [OF hex] skip_hex_prefix_text [OF hex]
    by (simp add: stoull16_def Let_def)
qed

text \<open>Words without spaces, separated by single spaces.\<close>

definition word_text :: "string \<Rightarrow> bool" where
  "word_text s \<longleftrightarrow> s \<noteq> [] \<and> (\<forall>c \<in> set s. \<not> is_space c)"

lemma read_fields_word:
  assumes "word_text w" and "r = [] \<or> is_space (hd r)"
  shows "read_fields (Suc n) (w @ r) = map_option (\<lambda>(ws, r'). (w # ws, r')) (read_fields n r)"
proof -
  obtain c cs where w: "w = c # cs" "\<not> is_space c" using assms(1) by (cases w) (auto simp: word_text_def)
  have nsp: "\<forall>c \<in> set w. \<not> is_space c" using assms(1) by (simp add: word_text_def)
  have "takeWhile (\<lambda>c. \<not> is_space c) r = []" "dropWhile (\<lambda>c. \<not> is_space c) r = r"
    using assms(2) by (cases r; simp)+
  then have "takeWhile (\<lambda>c. \<not> is_space c) (w @ r) = w" "dropWhile (\<lambda>c. \<not> is_space c) (w @ r) = r"
    using nsp by (simp_all add: takeWhile_append2 dropWhile_append2)
  moreover have "dropWhile is_space (w @ r) = w @ r" using w by simp
  ultimately show ?thesis using w by (simp add: Let_def)
qed

lemma read_fields_space: "is_space c \<Longrightarrow> read_fields (Suc n) (c # s) = read_fields (Suc n) s"
  by (simp add: Let_def)

lemma is_space_space: "is_space CHR '' ''"
  by (simp add: is_space_def)

lemma read_five_fields:
  assumes "word_text a" "word_text b" "word_text c" "word_text d" "word_text e" "r = [] \<or> is_space (hd r)"
  shows "read_fields 5 (a @ CHR '' '' # b @ CHR '' '' # c @ CHR '' '' # d @ CHR '' '' # e @ r) = Some ([a, b, c, d, e], r)"
  using assms
  by (simp add: numeral_eq_Suc read_fields_word read_fields_space is_space_space del: read_fields.simps(2))

lemma trim_left_padded: "path = [] \<or> \<not> is_space (hd path) \<Longrightarrow> trim_left (replicate k (CHR '' '') @ path) = path"
  by (induction k) (cases path; simp add: trim_left_def is_space_space)+

text \<open>A line of the maps file in the format of the kernel: the range, the permissions, the file
  offset, the device, the inode, padding, the path.\<close>

definition maps_line :: "string \<Rightarrow> string \<Rightarrow> string \<Rightarrow> string \<Rightarrow> string \<Rightarrow> string \<Rightarrow> nat \<Rightarrow> string \<Rightarrow> string" where
  "maps_line start stop perms offset dev inode pad path =
     (start @ CHR ''-'' # stop) @ CHR '' '' # perms @ CHR '' '' # offset @ CHR '' '' # dev @ CHR '' '' # inode
       @ replicate (Suc pad) (CHR '' '') @ path"

lemma bias_of_maps_line:
  assumes "hex_text start" "hex_number start < 2 ^ 64" "hex_text offset" "hex_number offset < 2 ^ 64"
    and "hex_text stop" "word_text perms" "word_text dev" "word_text inode" "path \<noteq> []" "\<not> is_space (hd path)"
  shows "bias_of_line f mapped (maps_line start stop perms offset dev inode pad path) =
    (if path \<noteq> mapped \<or> hex_number offset \<noteq> 0 then returnM None
     else if of_nat (hex_number start) < ef_load_base f
     then throwM (RuntimeError ''invalid ELF mapping below load virtual address'')
     else returnM (Some (of_nat (hex_number start) - ef_load_base f)))"
proof -
  have words: "word_text (start @ CHR ''-'' # stop)" "word_text offset"
    using assms(1,3,5) hex_not_space by (auto simp: word_text_def hex_text_def is_space_def)
  have no_dash: "CHR ''-'' \<notin> set start" using assms(1) not_hex by (auto simp: hex_text_def)
  have fields: "read_fields 5 (maps_line start stop perms offset dev inode pad path) =
      Some ([start @ CHR ''-'' # stop, perms, offset, dev, inode], replicate (Suc pad) (CHR '' '') @ path)"
    unfolding maps_line_def by (rule read_five_fields) (use words assms in \<open>simp_all add: is_space_space\<close>)
  have rest: "trim_left (replicate (Suc pad) (CHR '' '') @ path) = path"
    using trim_left_padded [of path "Suc pad"] assms(10) by blast
  have "takeWhile (\<lambda>c. c \<noteq> CHR ''-'') (start @ CHR ''-'' # stop) = start"
    using no_dash by (subst takeWhile_append2) auto
  moreover have "(of_nat (hex_number offset) = (0 :: u64)) \<longleftrightarrow> hex_number offset = 0"
    using assms(4) by (simp add: word_of_nat_eq_0_iff dvd_def) (metis mult_eq_0_iff nat_dvd_not_less dvd_def neq0_conv)
  ultimately show ?thesis
    by (auto simp: stoull16_text [OF assms(3,4)] stoull16_text [OF assms(1,2)] bias_of_line_def fields rest bindM_def returnM_def throwM_def fun_eq_iff simp del: replicate.simps)
qed

lemma bias_loop_skips:
  "\<forall>l \<in> set before. bias_of_line f mapped l s = (Ok None, s) \<Longrightarrow>
    bias_loop f mapped (before @ line # after) s = bias_loop f mapped (line # after) s"
  by (induction before) (auto simp: bindM_def returnM_def)


text \<open>The load bias of a position-independent executable: when the maps file lists, after lines
  that do not decide, a line of the executable with file offset zero, the bias is the start of that
  mapping minus the lowest mapped page of the file, whatever follows; the tracee is not touched.\<close>

theorem load_bias_correct:
  assumes "ef_type f = ET_DYN" and "fs_maps fs p k = Some (before @ maps_line start stop perms offset dev inode pad path # after)"
    and "path = mapped_identity_path fs (ef_path f)"
    and "\<forall>l \<in> set before. bias_of_line f path l k = (Ok None, k)"
    and "hex_text start" "hex_number start < 2 ^ 64" "hex_text offset" "hex_number offset = 0"
    and "hex_text stop" "word_text perms" "word_text dev" "word_text inode" "path \<noteq> []" "\<not> is_space (hd path)"
    and "ef_load_base f \<le> of_nat (hex_number start)"
  shows "load_bias fs f p k = (Ok (of_nat (hex_number start) - ef_load_base f), k)"
proof -
  have "bias_of_line f path (maps_line start stop perms offset dev inode pad path) k =
      (Ok (Some (of_nat (hex_number start) - ef_load_base f)), k)"
    using assms by (subst bias_of_maps_line) (auto simp: returnM_def)
  then show ?thesis
    using assms(1-4) by (simp add: load_bias_def bindM_def getM_def bias_loop_skips returnM_def)
qed

definition example_files :: "unit files" where
  "example_files = \<lparr>fs_canonical = (\<lambda>_. None), fs_equivalent = (\<lambda>_ _. None), fs_contents = (\<lambda>_ _. Cannot_open),
     fs_page_size = 4096, fs_maps = (\<lambda>p k. Some
     [''7f0000000000-7f0000001000 r--p 00000000 08:01 99 /lib/x'',
      ''555500000000-555500001000 r-xp 00000000 08:01 1234  /bin/t''])\<rparr>"

theorem load_bias_correct_witness: "load_bias example_files example_elf 77 () = (Ok 0x555500000000, ())"
proof -
  have "load_bias example_files example_elf 77 () =
      (Ok (of_nat (hex_number ''555500000000'') - ef_load_base example_elf), ())"
  proof (rule load_bias_correct [where before = "[''7f0000000000-7f0000001000 r--p 00000000 08:01 99 /lib/x'']"
        and stop = "''555500001000''" and perms = "''r-xp''" and offset = "''00000000''" and dev = "''08:01''"
        and inode = "''1234''" and pad = 1 and path = "''/bin/t''" and after = "[]"])
    show "\<forall>l \<in> set [''7f0000000000-7f0000001000 r--p 00000000 08:01 99 /lib/x''].
        bias_of_line example_elf ''/bin/t'' l () = (Ok None, ())" by code_simp
  qed (simp_all add: example_elf_def example_files_def maps_line_def mapped_identity_path_def hex_text_def
      hex_number_def hex_value_def word_text_def is_space_def)
  moreover have "hex_number ''555500000000'' = 0x555500000000" by (simp add: hex_number_def hex_value_def)
  ultimately show ?thesis by (simp add: example_elf_def)
qed

text \<open>Symbol addresses survive relocation: resolving the runtime address of a symbol finds exactly
  what resolving its link-time address finds, unless the runtime address wraps.\<close>

theorem runtime_address_resolves:
  assumes "load_bias fs f p k = (Ok bias, k)" and "unat (sy_value symbol) + unat bias < 2 ^ 64"
  shows "bindM (runtime_address fs f p symbol) (find_symbol_by_runtime_address fs f p) k =
    (Ok (find_symbol_by_virtual_address f (sy_value symbol)), k)"
proof -
  have "unat (sy_value symbol + bias) = unat (sy_value symbol) + unat bias"
    using assms(2) by (simp add: unat_word_ariths)
  then have "\<not> sy_value symbol + bias < bias" by (simp add: word_less_nat_alt)
  then show ?thesis
    using assms(1)
    by (simp add: runtime_address_def find_symbol_by_runtime_address_def bindM_def returnM_def)
qed

theorem runtime_address_resolves_witness:
  "bindM (runtime_address example_files (example_elf\<lparr>ef_type := ET_EXEC\<rparr>) 77 (hd (ef_symbols example_elf)))
     (find_symbol_by_runtime_address example_files (example_elf\<lparr>ef_type := ET_EXEC\<rparr>) 77) () =
   (Ok (find_symbol_by_virtual_address (example_elf\<lparr>ef_type := ET_EXEC\<rparr>) (sy_value (hd (ef_symbols example_elf)))), ())"
  by (rule runtime_address_resolves [where bias = 0])
    (simp_all add: load_bias_def returnM_def example_elf_def)

end
