(* ===== verification/SourcePath.thy ===== *)
theory SourcePath
  imports LineTable "HOL-Library.Sublist"
begin

text \<open>
  Paths as \<^verbatim>\<open>std::filesystem::path\<close> has them on POSIX (elements, lexical normal form, file name, parent,
  joining) and the class \<^verbatim>\<open>SourcePathResolver\<close> of \<^verbatim>\<open>src/src/source/source_path.hpp\<close>, which finds the source
  file of a recorded path through user substitutions. Paths are byte lists; whether a path names a
  regular file is an argument.
\<close>

type_synonym path = "u8 list"

section \<open>Lexical operations on paths\<close>

fun split_slash :: "path \<Rightarrow> u8 list list" where
  "split_slash [] = [[]]"
| "split_slash (c # cs) =
    (if c = slash then [] # split_slash cs
     else (case split_slash cs of [] \<Rightarrow> [[c]] | w # ws \<Rightarrow> (c # w) # ws))"

definition path_names :: "path \<Rightarrow> u8 list list" where
  "path_names p = filter (\<lambda>w. w \<noteq> []) (split_slash p)"

definition ends_in_slash :: "path \<Rightarrow> bool" where
  "ends_in_slash p \<longleftrightarrow> p \<noteq> [] \<and> last p = slash"

text \<open>What iterating over a path yields: the root directory, the names, and an empty element after a
  trailing separator.\<close>

definition path_elements :: "path \<Rightarrow> u8 list list" where
  "path_elements p = (if path_is_absolute p then [[slash]] else []) @ path_names p @
     (if ends_in_slash p \<and> path_names p \<noteq> [] then [[]] else [])"

definition path_filename :: "path \<Rightarrow> path" where
  "path_filename p = rev (takeWhile (\<lambda>c. c \<noteq> slash) (rev p))"

definition parent_path :: "path \<Rightarrow> path" where
  "parent_path p =
    (if path_names p = [] then p
     else let dir = dropWhile (\<lambda>c. c = slash) (dropWhile (\<lambda>c. c \<noteq> slash) (rev p)) in
       if dir = [] \<and> path_is_absolute p then [slash] else rev dir)"

abbreviation (input) dot :: "u8 list" where "dot \<equiv> [0x2e]"
abbreviation (input) dot_dot :: "u8 list" where "dot_dot \<equiv> [0x2e, 0x2e]"

text \<open>The names of the normal form: a dot vanishes, a dot-dot cancels the name before it, and above
  the root directory it vanishes.\<close>

definition normal_step :: "bool \<Rightarrow> u8 list list \<Rightarrow> u8 list \<Rightarrow> u8 list list" where
  "normal_step absolute stack name =
    (if name = dot then stack
     else if name = dot_dot then
       (if stack \<noteq> [] \<and> last stack \<noteq> dot_dot then butlast stack
        else if absolute then stack else stack @ [dot_dot])
     else stack @ [name])"

definition normal_names :: "bool \<Rightarrow> u8 list list \<Rightarrow> u8 list list" where
  "normal_names absolute names = foldl (normal_step absolute) [] names"

fun join_names :: "u8 list list \<Rightarrow> path" where
  "join_names [] = []"
| "join_names [w] = w"
| "join_names (w # ws) = w @ slash # join_names ws"

definition render :: "bool \<Rightarrow> u8 list list \<Rightarrow> bool \<Rightarrow> path" where
  "render absolute names trailing =
    (if absolute then [slash] else []) @ join_names names @ (if trailing then [slash] else [])"

text \<open>\<^verbatim>\<open>path::lexically_normal\<close>.\<close>

definition lexically_normal :: "path \<Rightarrow> path" where
  "lexically_normal p =
    (if p = [] then []
     else let names = path_names p; result = normal_names (path_is_absolute p) names;
              trailing = (result \<noteq> [] \<and> last result \<noteq> dot_dot \<and>
                (ends_in_slash p \<or> last names = dot \<or> last names = dot_dot)) in
       if result = [] \<and> \<not> path_is_absolute p then dot
       else render (path_is_absolute p) result trailing)"

section \<open>The resolver\<close>

record substitution =
  sub_from :: path
  sub_to :: path

fun put_substitution :: "path \<Rightarrow> path \<Rightarrow> substitution list \<Rightarrow> substitution list" where
  "put_substitution from to [] = [\<lparr>sub_from = from, sub_to = to\<rparr>]"
| "put_substitution from to (s # rest) =
    (if sub_from s = from then s\<lparr>sub_to := to\<rparr> # rest else s # put_substitution from to rest)"

definition add_substitution :: "path \<Rightarrow> path \<Rightarrow> (substitution list, unit) prog" where
  "add_substitution from to =
    (let from' = lexically_normal from; to' = lexically_normal to in
     if from' = [] \<or> from' = dot
     then throwM (InvalidArgument ''source substitution prefix must not be empty'')
     else if to' = [] then throwM (InvalidArgument ''source substitution target must not be empty'')
     else modifyM (put_substitution from' to'))"

fun has_component_prefix :: "u8 list list \<Rightarrow> u8 list list \<Rightarrow> bool" where
  "has_component_prefix elements [] = True"
| "has_component_prefix [] (x # xs) = False"
| "has_component_prefix (y # ys) (x # xs) = (y = x \<and> has_component_prefix ys xs)"

definition suffix_after :: "path \<Rightarrow> path \<Rightarrow> path" where
  "suffix_after p from =
    foldl path_join [] (drop (length (path_elements from)) (path_elements p))"

text \<open>The loop over the substitutions: the longest matching prefix, the first among equals.\<close>

fun best_substitution :: "path \<Rightarrow> (substitution \<times> nat) option \<Rightarrow> substitution list \<Rightarrow> (substitution \<times> nat) option" where
  "best_substitution p best [] = best"
| "best_substitution p best (s # rest) =
    (if \<not> has_component_prefix (path_elements p) (path_elements (sub_from s))
     then best_substitution p best rest
     else let components = length (path_elements (sub_from s)) in
       best_substitution p
         (case best of None \<Rightarrow> Some (s, components)
          | Some (b, n) \<Rightarrow> if components > n then Some (s, components) else best) rest)"

definition substituted_candidate :: "substitution list \<Rightarrow> path \<Rightarrow> path option" where
  "substituted_candidate subs candidate =
    (let p = lexically_normal candidate in
     map_option (\<lambda>(b, n). lexically_normal (path_join (sub_to b) (suffix_after p (sub_from b))))
       (best_substitution p None subs))"

definition resolve_candidate :: "(path \<Rightarrow> bool) \<Rightarrow> substitution list \<Rightarrow> path \<Rightarrow> path option" where
  "resolve_candidate is_regular_file subs candidate =
    (case substituted_candidate subs candidate of
       Some p \<Rightarrow> if is_regular_file p then Some p
         else if is_regular_file (lexically_normal candidate) then Some (lexically_normal candidate) else None
     | None \<Rightarrow> if is_regular_file (lexically_normal candidate) then Some (lexically_normal candidate) else None)"

definition resolve_source :: "(path \<Rightarrow> bool) \<Rightarrow> substitution list \<Rightarrow> path \<Rightarrow> path \<Rightarrow> path option" where
  "resolve_source is_regular_file subs recorded module_path =
    (if recorded = [] then None
     else case resolve_candidate is_regular_file subs recorded of
       Some p \<Rightarrow> Some p
     | None \<Rightarrow>
         if \<not> path_is_absolute recorded \<and> module_path \<noteq> []
         then resolve_candidate is_regular_file subs (path_join (parent_path module_path) recorded)
         else None)"

end
