(* ===== verification/SourcePathProps.thy ===== *)
theory SourcePathProps
  imports SourcePath
begin

text \<open>
  Properties of source paths: the lexical normal form is idempotent, the resolver keeps one normalized
  target per prefix, picks the longest matching prefix, and only answers with regular files.
\<close>

lemma has_component_prefix_eq: "has_component_prefix ys xs \<longleftrightarrow> prefix xs ys"
  by (induction ys xs rule: has_component_prefix.induct) auto

section \<open>Normal form\<close>

definition names_ok :: "u8 list list \<Rightarrow> bool" where
  "names_ok ws \<longleftrightarrow> (\<forall>w \<in> set ws. w \<noteq> [] \<and> slash \<notin> set w)"

lemma split_slash_not_Nil [simp]: "split_slash p \<noteq> []"
  by (induction p) (auto split: list.splits)

lemma split_slash_no_slash: "w \<in> set (split_slash p) \<Longrightarrow> slash \<notin> set w"
  by (induction p arbitrary: w) (auto split: list.splits if_splits)

lemma path_names_ok: "names_ok (path_names p)"
  by (auto simp: names_ok_def path_names_def dest: split_slash_no_slash)

lemma split_slash_append:
  "slash \<notin> set w \<Longrightarrow> split_slash (w @ slash # p) = w # split_slash p"
  by (induction w) auto

lemma split_slash_plain: "slash \<notin> set w \<Longrightarrow> split_slash w = [w]"
  by (induction w) auto

lemma split_slash_end: "split_slash (p @ [slash]) = split_slash p @ [[]]"
  by (induction p) (auto split: list.splits)

lemma split_slash_join:
  "names_ok ws \<Longrightarrow> split_slash (join_names ws) = (if ws = [] then [[]] else ws)"
  by (induction ws rule: join_names.induct) (auto simp: names_ok_def split_slash_append split_slash_plain)

lemma path_names_render:
  assumes "names_ok ws"
  shows "path_names (render a ws t) = ws"
proof -
  have "filter (\<lambda>w. w \<noteq> []) ws = ws" using assms by (auto simp: names_ok_def intro!: filter_True)
  then have "filter (\<lambda>w. w \<noteq> []) (split_slash (join_names ws)) = ws" using assms by (simp add: split_slash_join)
  moreover have "filter (\<lambda>w. w \<noteq> []) (split_slash ([slash] @ p)) = filter (\<lambda>w. w \<noteq> []) (split_slash p)" for p
    by simp
  ultimately show ?thesis
    by (simp add: path_names_def render_def split_slash_end flip: append_assoc)
qed

lemma join_names_ends:
  "names_ok ws \<Longrightarrow> ws \<noteq> [] \<Longrightarrow> join_names ws \<noteq> [] \<and> hd (join_names ws) \<noteq> slash \<and> last (join_names ws) \<noteq> slash"
  by (induction ws rule: join_names.induct) (auto simp: names_ok_def dest: last_in_set hd_in_set)


text \<open>The shape of normal names: no dots, and dot-dots only in front, and not under a root.\<close>

fun normal_ok :: "bool \<Rightarrow> u8 list list \<Rightarrow> bool" where
  "normal_ok a [] = True"
| "normal_ok a (w # ws) = (w \<noteq> dot \<and>
    (if w = dot_dot then \<not> a \<and> normal_ok a ws else dot \<notin> set ws \<and> dot_dot \<notin> set ws))"

lemma normal_ok_snoc:
  "normal_ok a (ws @ [w]) \<longleftrightarrow> normal_ok a ws \<and> w \<noteq> dot \<and>
    (w = dot_dot \<longrightarrow> \<not> a \<and> (ws = [] \<or> last ws = dot_dot))"
proof (induction ws)
  case (Cons v ws)
  have "dot_dot \<in> set ws" if "ws \<noteq> []" "last ws = dot_dot" using that last_in_set by metis
  with Cons show ?case by auto
qed auto

lemma normal_ok_butlast: "normal_ok a ws \<Longrightarrow> normal_ok a (butlast ws)"
  by (cases ws rule: rev_cases) (auto simp: normal_ok_snoc)

lemma normal_step_ok: "normal_ok a ws \<Longrightarrow> normal_ok a (normal_step a ws w)"
  by (auto simp: normal_step_def normal_ok_snoc normal_ok_butlast)

lemma normal_names_ok: "normal_ok a (normal_names a ws)"
proof -
  have "normal_ok a vs \<Longrightarrow> normal_ok a (foldl (normal_step a) vs ws)" for vs
    by (induction ws arbitrary: vs) (auto simp: normal_step_ok)
  then show ?thesis by (simp add: normal_names_def)
qed

lemma normal_names_stable: "normal_ok a ws \<Longrightarrow> normal_names a ws = ws"
proof (induction ws rule: rev_induct)
  case (snoc w ws)
  then have "normal_names a (ws @ [w]) = normal_step a ws w" by (simp add: normal_names_def normal_ok_snoc)
  with snoc.prems show ?case by (auto simp: normal_step_def normal_ok_snoc)
qed (simp add: normal_names_def)

lemma names_ok_simps [simp]:
  "names_ok []" "names_ok (w # ws) \<longleftrightarrow> (w \<noteq> [] \<and> slash \<notin> set w) \<and> names_ok ws"
  "names_ok (vs @ ws) \<longleftrightarrow> names_ok vs \<and> names_ok ws"
  by (auto simp: names_ok_def)

lemma names_ok_butlast: "names_ok ws \<Longrightarrow> names_ok (butlast ws)"
  by (auto simp: names_ok_def dest: in_set_butlastD)

lemma normal_step_names_ok:
  "names_ok ws \<Longrightarrow> w \<noteq> [] \<Longrightarrow> slash \<notin> set w \<Longrightarrow> names_ok (normal_step a ws w)"
  by (simp add: normal_step_def names_ok_butlast)

lemma normal_names_names_ok: "names_ok ws \<Longrightarrow> names_ok (normal_names a ws)"
proof -
  have "names_ok vs \<Longrightarrow> names_ok ws \<Longrightarrow> names_ok (foldl (normal_step a) vs ws)" for vs
    by (induction ws arbitrary: vs) (simp_all add: normal_step_names_ok)
  then show "names_ok ws \<Longrightarrow> names_ok (normal_names a ws)" by (simp add: normal_names_def)
qed

lemma render_absolute:
  "names_ok ws \<Longrightarrow> a \<or> ws \<noteq> [] \<Longrightarrow> path_is_absolute (render a ws t) = a \<and> render a ws t \<noteq> []"
  using join_names_ends [of ws] by (auto simp: render_def path_is_absolute_def)

lemma render_ends: "names_ok ws \<Longrightarrow> ws \<noteq> [] \<Longrightarrow> ends_in_slash (render a ws t) = t"
  using join_names_ends [of ws] by (auto simp: render_def ends_in_slash_def)

lemma normal_not_dot: "normal_ok a ws \<Longrightarrow> dot \<notin> set ws"
  by (induction a ws rule: normal_ok.induct) (auto split: if_splits)

text \<open>The lexical normal form of a path is a fixed point of normalization, so that prefixes stored in
  the resolver and candidates looked up in it are compared in one form.\<close>

lemma lexically_normal_idem: "lexically_normal (lexically_normal p) = lexically_normal p"
proof -
  define a r where "a = path_is_absolute p" and "r = normal_names a (path_names p)"
  have ok: "names_ok r" "normal_ok a r"
    unfolding r_def by (simp_all add: normal_names_names_ok path_names_ok normal_names_ok)
  have dot: "lexically_normal dot = dot"
    by (simp add: lexically_normal_def path_names_def path_is_absolute_def normal_names_def normal_step_def)
  have last: "last r \<noteq> dot" if "r \<noteq> []" using normal_not_dot [OF ok(2)] last_in_set [OF that] by metis
  have rendered: "lexically_normal (render a r t) = render a r t"
    if "a \<or> r \<noteq> []" and "t \<Longrightarrow> r \<noteq> [] \<and> last r \<noteq> dot_dot" for t
    using that render_absolute [OF ok(1) that(1), of t] render_ends [OF ok(1), of a t] last
      path_names_render [OF ok(1), of a t] normal_names_stable [OF ok(2)]
    by (cases t; cases "r = []") (auto simp: lexically_normal_def Let_def)
  define t where "t \<longleftrightarrow> r \<noteq> [] \<and> last r \<noteq> dot_dot \<and>
    (ends_in_slash p \<or> last (path_names p) = dot \<or> last (path_names p) = dot_dot)"
  consider "p = []" | "p \<noteq> []" "r = []" "\<not> a" | "p \<noteq> []" "a \<or> r \<noteq> []" by blast
  then show ?thesis
  proof cases
    case 3
    then have "lexically_normal p = render a r t"
      by (auto simp: lexically_normal_def Let_def t_def a_def r_def)
    with rendered [OF 3(2), of t] show ?thesis by (simp add: t_def)
  next
    case 2
    then have "lexically_normal p = dot" by (simp add: lexically_normal_def Let_def a_def r_def)
    with dot show ?thesis by simp
  qed (simp add: lexically_normal_def)
qed

section \<open>Substitutions\<close>

definition subs_ok :: "substitution list \<Rightarrow> bool" where
  "subs_ok subs \<longleftrightarrow> distinct (map sub_from subs) \<and>
     (\<forall>s \<in> set subs. lexically_normal (sub_from s) = sub_from s \<and> lexically_normal (sub_to s) = sub_to s)"

definition target_of :: "substitution list \<Rightarrow> path \<Rightarrow> path option" where
  "target_of subs from = map_option sub_to (find (\<lambda>s. sub_from s = from) subs)"

lemma target_of_put:
  "target_of (put_substitution from to subs) p = (if p = from then Some to else target_of subs p)"
  by (induction subs) (auto simp: target_of_def)

lemma put_substitution_from:
  "sub_from ` set (put_substitution from to subs) = insert from (sub_from ` set subs)"
  by (induction subs) auto

lemma put_substitution_distinct:
  "distinct (map sub_from subs) \<Longrightarrow> distinct (map sub_from (put_substitution from to subs))"
proof (induction subs)
  case (Cons s rest)
  have "sub_from s \<notin> sub_from ` set (put_substitution from to rest)" if "sub_from s \<noteq> from"
    using Cons.prems that by (auto simp: put_substitution_from)
  with Cons show ?case by (auto simp: put_substitution_from)
qed auto

lemma put_substitution_set:
  "s \<in> set (put_substitution from to subs) \<Longrightarrow> s \<in> set subs \<or> sub_from s = from \<and> sub_to s = to"
  by (induction subs) (auto split: if_splits)

text \<open>Adding a substitution overrides exactly the entry of its normalized prefix, keeps one normalized
  entry per prefix, and throws, changing nothing, exactly on an empty or dot prefix or an empty target.\<close>

theorem add_substitution_updates:
  assumes "subs_ok subs"
  shows "twp (add_substitution from to)
    (\<lambda>_ subs'. from \<noteq> [] \<and> to \<noteq> [] \<and> lexically_normal from \<noteq> dot \<and> subs_ok subs' \<and>
       target_of subs' = (target_of subs)(lexically_normal from \<mapsto> lexically_normal to))
    (\<lambda>e subs'. subs' = subs \<and> (from = [] \<or> to = [] \<or> lexically_normal from = dot)) subs"
proof -
  have empty: "lexically_normal p = [] \<longleftrightarrow> p = []" for p
    using render_absolute [of "normal_names (path_is_absolute p) (path_names p)" "path_is_absolute p"]
    by (auto simp: lexically_normal_def Let_def normal_names_names_ok path_names_ok)
  show ?thesis
    using assms unfolding add_substitution_def subs_ok_def
    by (auto simp: Let_def twp_simps empty target_of_put put_substitution_distinct lexically_normal_idem fun_eq_iff
        dest!: put_substitution_set)
qed

theorem add_substitution_updates_witness:
  "target_of (snd (add_substitution (text_bytes ''/b/.'') (text_bytes ''/s'') [])) (text_bytes ''/b/'') =
     Some (text_bytes ''/s'')"
proof -
  have "fst (add_substitution (text_bytes ''/b/.'') (text_bytes ''/s'') []) = Ok ()" by code_simp
  then obtain subs where "add_substitution (text_bytes ''/b/.'') (text_bytes ''/s'') [] = (Ok (), subs)"
    by (metis prod.collapse)
  moreover have "lexically_normal (text_bytes ''/b/.'') = text_bytes ''/b/''"
    "lexically_normal (text_bytes ''/s'') = text_bytes ''/s''" by code_simp+
  ultimately show ?thesis
    using add_substitution_updates [of "[]" "text_bytes ''/b/.''" "text_bytes ''/s''"]
    by (simp add: subs_ok_def twp_def)
qed

text \<open>The loop finds a longest matching prefix, the first of them.\<close>

definition matches :: "path \<Rightarrow> substitution \<Rightarrow> bool" where
  "matches p s \<longleftrightarrow> prefix (path_elements (sub_from s)) (path_elements p)"

lemma best_substitution_Some:
  "best_substitution p (Some (b, length (path_elements (sub_from b)))) subs = Some (r, n) \<Longrightarrow>
    n = length (path_elements (sub_from r)) \<and> (r = b \<or> r \<in> set subs \<and> matches p r) \<and>
    length (path_elements (sub_from b)) \<le> n \<and>
    (\<forall>s \<in> set subs. matches p s \<longrightarrow> length (path_elements (sub_from s)) \<le> n)"
proof (induction subs arbitrary: b)
  case (Cons s subs)
  show ?case
  proof (cases "matches p s \<and> length (path_elements (sub_from s)) > length (path_elements (sub_from b))")
    case True
    with Cons.IH [of s] Cons.prems show ?thesis
      by (auto simp: matches_def has_component_prefix_eq)
  next
    case False
    with Cons.IH [of b] Cons.prems show ?thesis
      by (auto simp: matches_def has_component_prefix_eq split: if_splits)
  qed
qed auto

lemma best_substitution_not_None: "best_substitution p (Some b) subs \<noteq> None"
  by (induction subs arbitrary: b) (auto simp: Let_def split: prod.splits)

lemma best_substitution_longest:
  "case best_substitution p None subs of
     None \<Rightarrow> \<forall>s \<in> set subs. \<not> matches p s
   | Some (r, n) \<Rightarrow> r \<in> set subs \<and> matches p r \<and>
       (\<forall>s \<in> set subs. matches p s \<longrightarrow> length (path_elements (sub_from s)) \<le> length (path_elements (sub_from r)))"
proof (induction subs)
  case (Cons s subs)
  show ?case
  proof (cases "matches p s")
    case True
    then have step: "best_substitution p None (s # subs) =
        best_substitution p (Some (s, length (path_elements (sub_from s)))) subs"
      by (simp add: matches_def has_component_prefix_eq)
    obtain r n where "best_substitution p (Some (s, length (path_elements (sub_from s)))) subs = Some (r, n)"
      using best_substitution_not_None by (metis not_None_eq surj_pair)
    with step True best_substitution_Some [OF this] show ?thesis by auto
  next
    case False
    with Cons show ?thesis by (auto simp: matches_def has_component_prefix_eq split: option.splits)
  qed
qed simp

text \<open>A recorded path is rewritten by the substitution with the longest component-wise matching prefix,
  and is left alone only when no prefix matches.\<close>

theorem substituted_candidate_longest:
  "case substituted_candidate subs candidate of
     None \<Rightarrow> \<forall>s \<in> set subs. \<not> matches (lexically_normal candidate) s
   | Some q \<Rightarrow> \<exists>r \<in> set subs. matches (lexically_normal candidate) r \<and>
       (\<forall>s \<in> set subs. matches (lexically_normal candidate) s \<longrightarrow>
          length (path_elements (sub_from s)) \<le> length (path_elements (sub_from r))) \<and>
       q = lexically_normal (path_join (sub_to r) (suffix_after (lexically_normal candidate) (sub_from r)))"
  using best_substitution_longest [of subs "lexically_normal candidate"]
  by (auto simp: substituted_candidate_def Let_def split: option.splits prod.splits)

definition example_subs :: "substitution list" where
  "example_subs = [\<lparr>sub_from = text_bytes ''/b'', sub_to = text_bytes ''/s''\<rparr>,
     \<lparr>sub_from = text_bytes ''/b/c'', sub_to = text_bytes ''/t''\<rparr>]"

theorem substituted_candidate_longest_witness:
  "substituted_candidate example_subs (text_bytes ''/b/c/x'') = Some (text_bytes ''/t/x'') \<and>
   (\<exists>r. r \<in> set example_subs \<and> matches (lexically_normal (text_bytes ''/b/c/x'')) r)"
proof -
  have "substituted_candidate example_subs (text_bytes ''/b/c/x'') = Some (text_bytes ''/t/x'')" by code_simp
  with substituted_candidate_longest [of example_subs "text_bytes ''/b/c/x''"] show ?thesis by auto
qed

lemma resolve_candidate_sound:
  "resolve_candidate is_file subs c = Some p \<Longrightarrow> is_file p \<and> lexically_normal p = p \<and>
    (substituted_candidate subs c = Some p \<or> p = lexically_normal c)"
  by (auto simp: resolve_candidate_def substituted_candidate_def Let_def lexically_normal_idem
      split: option.splits if_splits)

text \<open>A resolved source file is a regular file in normal form, reached from the recorded path or, when that
  is relative, from the directory of the module, either rewritten or as it stands.\<close>

theorem resolve_source_sound:
  assumes "resolve_source is_file subs recorded m = Some p"
  shows "is_file p \<and> lexically_normal p = p \<and>
    (\<exists>c. (c = recorded \<or> \<not> path_is_absolute recorded \<and> c = path_join (parent_path m) recorded) \<and>
       (substituted_candidate subs c = Some p \<or> p = lexically_normal c))"
  using assms by (auto simp: resolve_source_def dest!: resolve_candidate_sound split: option.splits if_splits)

theorem resolve_source_sound_witness:
  "resolve_source (\<lambda>p. p = text_bytes ''/s/x.c'') example_subs (text_bytes ''/b/./x.c'') [] =
     Some (text_bytes ''/s/x.c'') \<and> lexically_normal (text_bytes ''/s/x.c'') = text_bytes ''/s/x.c''"
proof -
  have "resolve_source (\<lambda>p. p = text_bytes ''/s/x.c'') example_subs (text_bytes ''/b/./x.c'') [] =
      Some (text_bytes ''/s/x.c'')" by code_simp
  with resolve_source_sound [OF this] show ?thesis by simp
qed

text \<open>A substitution whose prefix was given with a trailing separator never applies to a file: iterating
  over the prefix ends in an empty element, which no file path has at that place.\<close>

theorem trailing_slash_disables_substitution:
  assumes "ends_in_slash (sub_from s)" and "path_names (sub_from s) \<noteq> []" and "\<not> ends_in_slash p"
  shows "\<not> matches p s"
proof
  assume "matches p s"
  then have "[] \<in> set (path_elements p)"
    using assms(1,2) set_mono_prefix [of "path_elements (sub_from s)" "path_elements p"]
    by (auto simp: matches_def path_elements_def split: if_splits)
  with assms(3) show False using path_names_ok [of p] by (auto simp: path_elements_def names_ok_def split: if_splits)
qed

theorem trailing_slash_disables_substitution_witness:
  "\<not> matches (text_bytes ''/b/x.c'') \<lparr>sub_from = text_bytes ''/b/'', sub_to = text_bytes ''/s''\<rparr>"
  by (rule trailing_slash_disables_substitution) code_simp+

end
