(* ===== verification/Modules.thy ===== *)
theory Modules
  imports Debugger EhFrame ElfFile SourcePath
begin

text \<open>
  Address, symbol and source lookup across the modules a process has mapped, and the call-frame
  unwinder over them: \<^verbatim>\<open>src/src/unwind/cfi.cpp\<close>, the operations of \<^verbatim>\<open>EhFrame\<close> on a live session
  (\<^verbatim>\<open>src/src/dwarf/eh_frame.cpp\<close>) and the runtime lookups of \<^verbatim>\<open>DwarfLineTable\<close>
  (\<^verbatim>\<open>src/src/dwarf/line_table.cpp\<close>, \<^verbatim>\<open>src/src/dwarf/source_lookup_impl.inc\<close>).

  The loops of the unwinders are structural: each turn adds a frame below the limit.
\<close>

text \<open>\<^verbatim>\<open>catch (const std::exception&)\<close>: undefined behaviour is not an exception.\<close>

definition catch_exception :: "('s, 'a) prog \<Rightarrow> ('s, 'a) prog \<Rightarrow> ('s, 'a) prog" where
  "catch_exception m h = catchM m (\<lambda>e. if no_ub e then h else throwM e)"

definition bytes_text :: "u8 list \<Rightarrow> string" where
  "bytes_text = map (\<lambda>b. char_of (unat b))"

section \<open>Mapped modules\<close>

abbreviation (input) deleted_suffix :: string where "deleted_suffix \<equiv> '' (deleted)''"

definition is_deleted_mapping :: "string \<Rightarrow> bool" where
  "is_deleted_mapping path \<longleftrightarrow> length path \<ge> 10 \<and> drop (length path - 10) path = deleted_suffix"

definition same_file :: "'k files \<Rightarrow> string \<Rightarrow> string \<Rightarrow> bool" where
  "same_file fs left right = (case fs_equivalent fs left right of Some e \<Rightarrow> e | None \<Rightarrow> left = right)"

text \<open>\<^verbatim>\<open>stoull\<close> inside \<^verbatim>\<open>try\<close>: \<open>None\<close> is the caught exception.\<close>

definition stoull16_caught :: "string \<Rightarrow> u64 option" where
  "stoull16_caught s = (case fst (stoull16 s ()) of Ok v \<Rightarrow> Some v | _ \<Rightarrow> None)"

definition is_module_path :: "string \<Rightarrow> bool" where
  "is_module_path path \<longleftrightarrow> path \<noteq> [] \<and> hd path = CHR ''/'' \<and> \<not> is_deleted_mapping path"

text \<open>One line of the maps file: \<open>None\<close> goes on, \<open>Some\<close> is what the loop returns.\<close>

definition module_of_line :: "u64 \<Rightarrow> string \<Rightarrow> string option option" where
  "module_of_line address line = (case read_fields 5 line of
     None \<Rightarrow> None
   | Some (words, rest) \<Rightarrow>
       if CHR ''-'' \<notin> set (words ! 0) then None
       else case (stoull16_caught (takeWhile (\<lambda>c. c \<noteq> CHR ''-'') (words ! 0)),
                  stoull16_caught (tl (dropWhile (\<lambda>c. c \<noteq> CHR ''-'') (words ! 0)))) of
         (Some start, Some stop) \<Rightarrow>
           if address < start \<or> address \<ge> stop then None
           else if is_module_path (trim_left rest) then Some (Some (trim_left rest)) else Some None
       | _ \<Rightarrow> None)"

fun module_loop :: "u64 \<Rightarrow> string list \<Rightarrow> string option" where
  "module_loop address [] = None"
| "module_loop address (line # rest) = (case module_of_line address line of
     Some r \<Rightarrow> r | None \<Rightarrow> module_loop address rest)"

definition mapped_module_path :: "'k files \<Rightarrow> pid \<Rightarrow> u64 \<Rightarrow> ('k, string option) prog" where
  "mapped_module_path fs p address = bindM getM (\<lambda>k. case fs_maps fs p k of
     None \<Rightarrow> throwM (RuntimeError ''failed to open tracee memory map for CFI unwind'')
   | Some lines \<Rightarrow> returnM (module_loop address lines))"

fun module_paths_loop :: "'k files \<Rightarrow> string list \<Rightarrow> string list \<Rightarrow> string list" where
  "module_paths_loop fs paths [] = paths"
| "module_paths_loop fs paths (line # rest) = module_paths_loop fs
    (case read_fields 5 line of
       None \<Rightarrow> paths
     | Some (words, tail) \<Rightarrow>
         if is_module_path (trim_left tail) \<and> \<not> (\<exists>known \<in> set paths. same_file fs known (trim_left tail))
         then paths @ [trim_left tail] else paths) rest"

definition mapped_module_paths :: "'k files \<Rightarrow> pid \<Rightarrow> ('k, string list) prog" where
  "mapped_module_paths fs p = bindM getM (\<lambda>k. case fs_maps fs p k of
     None \<Rightarrow> throwM (RuntimeError ''failed to open tracee memory map for source lookup'')
   | Some lines \<Rightarrow> returnM (module_paths_loop fs [] lines))"

section \<open>Line tables of a running process\<close>

definition open_line_table :: "'k files \<Rightarrow> string \<Rightarrow> ('k, line_table) prog" where
  "open_line_table fs path = bindM (read_binary_file fs path) parse_line_table"

definition line_table_available :: "line_table \<Rightarrow> bool" where
  "line_table_available t \<longleftrightarrow> lt_ranges t \<noteq> []"

definition find_runtime_address ::
  "'k files \<Rightarrow> line_table \<Rightarrow> pid \<Rightarrow> u64 \<Rightarrow> elf_file \<Rightarrow> ('k, source_location option) prog" where
  "find_runtime_address fs t p address elf = bindM (load_bias fs elf p) (\<lambda>bias.
     returnM (if address < bias then None else find_virtual_address t (address - bias)))"

definition normalized_source_path :: "path \<Rightarrow> path" where
  "normalized_source_path p = lexically_normal p"

text \<open>A query with a directory part is compared as a whole, one without by file name.\<close>

definition qualified_query :: "path \<Rightarrow> bool" where
  "qualified_query file \<longleftrightarrow> path_is_absolute file \<or> parent_path file \<noteq> []"

definition source_matches :: "path \<Rightarrow> path \<Rightarrow> bool" where
  "source_matches file candidate =
    (if qualified_query file then lexically_normal candidate = lexically_normal file
     else path_filename candidate = path_filename (lexically_normal file))"

fun source_loop :: "path \<Rightarrow> u64 \<Rightarrow> u64 option \<Rightarrow> path option \<Rightarrow> line_range list \<Rightarrow> ('s, u64 option) prog" where
  "source_loop file line best matched [] = returnM best"
| "source_loop file line best matched (r # rest) =
    (if sl_line (lr_location r) \<noteq> line \<or> \<not> source_matches file (sl_file (lr_location r))
     then source_loop file line best matched rest
     else let identity = normalized_source_path (sl_file (lr_location r));
              best' = (case best of None \<Rightarrow> Some (lr_begin r)
                | Some b \<Rightarrow> if lr_begin r < b then Some (lr_begin r) else best) in
       if qualified_query file then source_loop file line best' matched rest
       else if matched \<noteq> None \<and> matched \<noteq> Some identity
       then throwM (RuntimeError (''ambiguous source file for line lookup: '' @ bytes_text file))
       else source_loop file line best' (Some identity) rest)"

definition find_virtual_source :: "line_table \<Rightarrow> path \<Rightarrow> u64 \<Rightarrow> ('s, u64 option) prog" where
  "find_virtual_source t file line =
    (if file = [] \<or> line = 0 then returnM None else source_loop file line None None (lt_ranges t))"

definition find_runtime_source ::
  "'k files \<Rightarrow> line_table \<Rightarrow> pid \<Rightarrow> path \<Rightarrow> u64 \<Rightarrow> elf_file \<Rightarrow> ('k, u64 option) prog" where
  "find_runtime_source fs t p file line elf = bindM (find_virtual_source t file line) (\<lambda>found. case found of
     None \<Rightarrow> returnM None
   | Some virtual_address \<Rightarrow> bindM (load_bias fs elf p) (\<lambda>bias.
       if virtual_address > - 1 - bias
       then throwM (RuntimeError ''source address overflows runtime address space'')
       else returnM (Some (virtual_address + bias))))"

section \<open>Lookup across modules\<close>

record module_resolved_symbol =
  mr_module :: string
  mr_name :: "u8 list"
  mr_offset :: u64

record module_symbol_address =
  ma_module :: string
  ma_name :: "u8 list"
  ma_address :: u64

record module_resolved_source =
  mo_module :: string
  mo_file :: path
  mo_line :: u64
  mo_column :: u64

record module_source_address =
  mu_module :: string
  mu_file :: path
  mu_line :: u64
  mu_address :: u64

text \<open>The preferred file when the path names it, the opened file otherwise; \<open>None\<close> when it does not
  open.\<close>

definition module_elf :: "'k files \<Rightarrow> string \<Rightarrow> elf_file \<Rightarrow> ('k, elf_file option) prog" where
  "module_elf fs path preferred =
    (if same_file fs path (ef_path preferred) then returnM (Some preferred)
     else catch_exception (bindM (open_elf fs path) (\<lambda>elf. returnM (Some elf))) (returnM None))"

definition symbol_address_in_module ::
  "'k files \<Rightarrow> pid \<Rightarrow> u8 list \<Rightarrow> elf_file \<Rightarrow> string \<Rightarrow> ('k, module_symbol_address option) prog" where
  "symbol_address_in_module fs p name preferred path = bindM (module_elf fs path preferred) (\<lambda>found. case found of
     None \<Rightarrow> returnM None
   | Some elf \<Rightarrow> (case find_symbol elf name of
       None \<Rightarrow> returnM None
     | Some symbol \<Rightarrow> catch_exception
         (bindM (runtime_address fs elf p symbol) (\<lambda>address.
           returnM (Some \<lparr>ma_module = path, ma_name = sy_name symbol, ma_address = address\<rparr>)))
         (returnM None)))"

definition source_address_in_module ::
  "'k files \<Rightarrow> pid \<Rightarrow> path \<Rightarrow> u64 \<Rightarrow> elf_file \<Rightarrow> string \<Rightarrow> ('k, module_source_address option) prog" where
  "source_address_in_module fs p file line preferred path = bindM (module_elf fs path preferred) (\<lambda>found. case found of
     None \<Rightarrow> returnM None
   | Some elf \<Rightarrow>
       bindM (catch_exception (bindM (open_line_table fs (ef_path elf)) (\<lambda>t. returnM (Some t))) (returnM None)) (\<lambda>opened.
       case opened of
         None \<Rightarrow> returnM None
       | Some lines \<Rightarrow>
           if \<not> line_table_available lines then returnM None
           else bindM (find_runtime_source fs lines p file line elf) (\<lambda>found. case found of
             None \<Rightarrow> returnM None
           | Some address \<Rightarrow> bindM (find_runtime_address fs lines p address elf) (\<lambda>source. case source of
               None \<Rightarrow> throwM (RuntimeError ''reverse source lookup resolved an unmapped line-table address'')
             | Some loc \<Rightarrow> returnM (Some \<lparr>mu_module = path, mu_file = sl_file loc, mu_line = sl_line loc,
                 mu_address = address\<rparr>)))))"

definition find_module_symbol_by_runtime_address ::
  "'k files \<Rightarrow> pid \<Rightarrow> u64 \<Rightarrow> elf_file \<Rightarrow> ('k, module_resolved_symbol option) prog" where
  "find_module_symbol_by_runtime_address fs p address preferred =
    bindM (mapped_module_path fs p address) (\<lambda>found. case found of
      None \<Rightarrow> returnM None
    | Some path \<Rightarrow>
        bindM (if same_file fs path (ef_path preferred) then returnM preferred else open_elf fs path) (\<lambda>elf.
        bindM (find_symbol_by_runtime_address fs elf p address) (\<lambda>symbol.
        returnM (map_option (\<lambda>s. \<lparr>mr_module = path, mr_name = sy_name (rs_symbol s), mr_offset = rs_offset s\<rparr>)
          symbol))))"

text \<open>The loop shared by the two lookups by name: one candidate, or an error for a second one.\<close>

fun unique_candidate :: "('a \<Rightarrow> ('s, 'b option) prog) \<Rightarrow> string \<Rightarrow> 'b option \<Rightarrow> 'a list \<Rightarrow> ('s, 'b option) prog" where
  "unique_candidate lookup ambiguous result [] = returnM result"
| "unique_candidate lookup ambiguous result (path # rest) = bindM (lookup path) (\<lambda>candidate. case candidate of
     None \<Rightarrow> unique_candidate lookup ambiguous result rest
   | Some c \<Rightarrow>
       if result \<noteq> None then throwM (RuntimeError ambiguous)
       else unique_candidate lookup ambiguous (Some c) rest)"

definition find_module_symbol_by_name ::
  "'k files \<Rightarrow> pid \<Rightarrow> u8 list \<Rightarrow> elf_file \<Rightarrow> ('k, module_symbol_address option) prog" where
  "find_module_symbol_by_name fs p name preferred =
    (if name = [] then returnM None
     else bindM (mapped_module_paths fs p)
       (unique_candidate (symbol_address_in_module fs p name preferred)
         (''ambiguous symbol across loaded modules: '' @ bytes_text name) None))"

definition find_module_source_by_file_line ::
  "'k files \<Rightarrow> pid \<Rightarrow> path \<Rightarrow> u64 \<Rightarrow> elf_file \<Rightarrow> ('k, module_source_address option) prog" where
  "find_module_source_by_file_line fs p file line preferred =
    (if file = [] \<or> line = 0 then returnM None
     else bindM (mapped_module_paths fs p)
       (unique_candidate (source_address_in_module fs p file line preferred)
         (''ambiguous source location across loaded modules: '' @ bytes_text file @ '':'' @ to_string (unat line))
         None))"

definition resolve_module_source ::
  "'k files \<Rightarrow> pid \<Rightarrow> u64 \<Rightarrow> string \<Rightarrow> elf_file \<Rightarrow> ('k, module_resolved_source option) prog" where
  "resolve_module_source fs p address path elf = catch_exception
    (bindM (open_line_table fs (ef_path elf)) (\<lambda>lines.
      if \<not> line_table_available lines then returnM None
      else bindM (find_runtime_address fs lines p address elf) (\<lambda>source.
        returnM (map_option (\<lambda>loc. \<lparr>mo_module = path, mo_file = sl_file loc, mo_line = sl_line loc,
          mo_column = sl_column loc\<rparr>) source))))
    (returnM None)"

definition find_module_source_by_runtime_address ::
  "'k files \<Rightarrow> pid \<Rightarrow> u64 \<Rightarrow> elf_file \<Rightarrow> ('k, module_resolved_source option) prog" where
  "find_module_source_by_runtime_address fs p address preferred =
    bindM (mapped_module_path fs p address) (\<lambda>found. case found of
      None \<Rightarrow> returnM None
    | Some path \<Rightarrow>
        if same_file fs path (ef_path preferred) then resolve_module_source fs p address path preferred
        else catch_exception (bindM (open_elf fs path) (resolve_module_source fs p address path)) (returnM None))"

end
