(* ===== verification/CfiUnwind.thy ===== *)
theory CfiUnwind
  imports Modules
begin

text \<open>
  Call-frame unwinding of a live session: the operations of \<^verbatim>\<open>EhFrame\<close> that take a debugger
  (\<^verbatim>\<open>src/src/dwarf/eh_frame.cpp\<close>), and the backtrace and inspection frames of
  \<^verbatim>\<open>src/src/unwind/cfi.cpp\<close>. The cache of opened modules is a local variable of the loops.
\<close>

definition debugger_pid :: "debugger \<Rightarrow> pid" where
  "debugger_pid d = p_pid (d_process d)"

definition open_eh_frame :: "'k files \<Rightarrow> string \<Rightarrow> ('k, eh_frame) prog" where
  "open_eh_frame fs path = bindM (read_binary_file fs path) init_eh_frame"

definition caller_return_address ::
  "'k os \<Rightarrow> 'k files \<Rightarrow> eh_frame \<Rightarrow> elf_file \<Rightarrow> ('k world, u64 option) prog" where
  "caller_return_address os fs cfi elf =
    (if \<not> ef_available cfi then returnM None
     else bindM dbgM (\<lambda>d.
       if p_state (d_process d) \<noteq> PS_Stopped
       then throwM (LogicError ''CFI evaluation requires a stopped tracee'')
       else bindM (registers os) (\<lambda>regs.
         bindM (on_kern (load_bias fs elf (debugger_pid d))) (\<lambda>bias.
         if rip regs < bias then throwM (RuntimeError ''runtime RIP is below executable load bias'')
         else bindM (evaluate_frame (ef_section cfi) (ef_virtual_address cfi) (rip regs - bias) (read_memory os)
                (dwarf_register regs)) (\<lambda>evaluated.
           returnM (map_option ev_return_address evaluated))))))"

definition caller_frame ::
  "'k os \<Rightarrow> 'k files \<Rightarrow> eh_frame \<Rightarrow> elf_file \<Rightarrow> eh_frame_cursor \<Rightarrow> ('k world, eh_frame_cursor option) prog" where
  "caller_frame os fs cfi elf current =
    (if \<not> ef_available cfi then returnM None
     else bindM dbgM (\<lambda>d.
       if p_state (d_process d) \<noteq> PS_Stopped
       then throwM (LogicError ''CFI backtrace requires a stopped tracee'')
       else bindM (on_kern (load_bias fs elf (debugger_pid d))) (\<lambda>bias.
         if ec_instruction_pointer current < bias
         then throwM (RuntimeError ''runtime frame RIP is below executable load bias'')
         else caller_frame_at cfi (read_memory os) (ec_instruction_pointer current - bias) current)))"

section \<open>Modules opened on the way\<close>

record module_cfi =
  mc_path :: string
  mc_elf :: elf_file
  mc_cfi :: eh_frame

type_synonym 'k unwinding = "'k world \<times> module_cfi list"

definition on_world :: "('k world, 'a) prog \<Rightarrow> ('k world \<times> 'l, 'a) prog" where
  "on_world = zoomM fst (\<lambda>w p. (w, snd p))"

definition open_module :: "'k files \<Rightarrow> string \<Rightarrow> ('k, module_cfi) prog" where
  "open_module fs path = bindM (open_elf fs path) (\<lambda>elf. bindM (open_eh_frame fs path) (\<lambda>cfi.
     returnM \<lparr>mc_path = path, mc_elf = elf, mc_cfi = cfi\<rparr>))"

definition cached_module :: "'k files \<Rightarrow> string \<Rightarrow> ('k unwinding, module_cfi) prog" where
  "cached_module fs path = bindM getM (\<lambda>(w, modules).
     case find (\<lambda>m. same_file fs (mc_path m) path) modules of
       Some m \<Rightarrow> returnM m
     | None \<Rightarrow> bindM (on_world (on_kern (open_module fs path))) (\<lambda>m.
         thenM (modifyM (\<lambda>(w, ms). (w, ms @ [m]))) (returnM m)))"

definition caller_for_cursor ::
  "'k os \<Rightarrow> 'k files \<Rightarrow> elf_file \<Rightarrow> eh_frame \<Rightarrow> eh_frame_cursor \<Rightarrow> ('k unwinding, eh_frame_cursor option) prog" where
  "caller_for_cursor os fs preferred_elf preferred_cfi current =
    bindM (on_world dbgM) (\<lambda>d.
    bindM (on_world (on_kern (mapped_module_path fs (debugger_pid d) (ec_instruction_pointer current)))) (\<lambda>found.
    case found of
      None \<Rightarrow> returnM None
    | Some path \<Rightarrow>
        if same_file fs path (ef_path preferred_elf) then
          (if \<not> ef_available preferred_cfi then returnM None
           else on_world (caller_frame os fs preferred_cfi preferred_elf current))
        else bindM (cached_module fs path) (\<lambda>m.
          if \<not> ef_available (mc_cfi m) then returnM None
          else on_world (caller_frame os fs (mc_cfi m) (mc_elf m) current))))"

definition module_caller_return_address ::
  "'k os \<Rightarrow> 'k files \<Rightarrow> elf_file \<Rightarrow> eh_frame \<Rightarrow> ('k world, u64 option) prog" where
  "module_caller_return_address os fs preferred_elf preferred_cfi = bindM dbgM (\<lambda>d.
    if p_state (d_process d) \<noteq> PS_Stopped
    then throwM (LogicError ''CFI return-address recovery requires a stopped tracee'')
    else bindM (registers os) (\<lambda>regs.
      bindM (on_kern (mapped_module_path fs (debugger_pid d) (rip regs))) (\<lambda>found. case found of
        None \<Rightarrow> returnM None
      | Some path \<Rightarrow>
          if same_file fs path (ef_path preferred_elf) then
            (if \<not> ef_available preferred_cfi then returnM None
             else caller_return_address os fs preferred_cfi preferred_elf)
          else bindM (on_kern (open_module fs path)) (\<lambda>m.
            if \<not> ef_available (mc_cfi m) then returnM None
            else caller_return_address os fs (mc_cfi m) (mc_elf m)))))"

section \<open>Backtraces\<close>

datatype cfi_stop_reason = CU_EndOfChain | CU_FrameLimit | CU_NoFrameInfo | CU_InvalidFrameState

record cfi_stack_frame =
  cf_ip :: u64
  cf_sp :: u64
  cf_fp :: "u64 option"

record cfi_backtrace =
  cb_frames :: "cfi_stack_frame list"
  cb_stop_reason :: cfi_stop_reason

definition frame_of_cursor :: "eh_frame_cursor \<Rightarrow> cfi_stack_frame" where
  "frame_of_cursor c = \<lparr>cf_ip = ec_instruction_pointer c, cf_sp = ec_stack_pointer c, cf_fp = ec_frame_pointer c\<rparr>"

text \<open>\<^verbatim>\<open>try { caller_for_cursor }\<close>: \<open>None\<close> is a caught exception.\<close>

definition try_caller ::
  "'k os \<Rightarrow> 'k files \<Rightarrow> elf_file \<Rightarrow> eh_frame \<Rightarrow> eh_frame_cursor \<Rightarrow> ('k unwinding, eh_frame_cursor option option) prog" where
  "try_caller os fs elf cfi current = catch_exception
     (bindM (caller_for_cursor os fs elf cfi current) (\<lambda>c. returnM (Some c))) (returnM None)"

text \<open>The loop: the second number is how many frames may still be added.\<close>

fun cfi_loop ::
  "'k os \<Rightarrow> 'k files \<Rightarrow> elf_file \<Rightarrow> eh_frame \<Rightarrow> nat \<Rightarrow> eh_frame_cursor \<Rightarrow> cfi_stack_frame list \<Rightarrow>
     ('k unwinding, cfi_backtrace) prog" where
  "cfi_loop os fs elf cfi 0 current frames =
    returnM \<lparr>cb_frames = frames, cb_stop_reason = CU_FrameLimit\<rparr>"
| "cfi_loop os fs elf cfi (Suc n) current frames =
    bindM (try_caller os fs elf cfi current) (\<lambda>tried. case tried of
      None \<Rightarrow> returnM \<lparr>cb_frames = frames, cb_stop_reason = CU_InvalidFrameState\<rparr>
    | Some None \<Rightarrow> returnM \<lparr>cb_frames = frames,
        cb_stop_reason = (if length frames = 1 then CU_NoFrameInfo else CU_EndOfChain)\<rparr>
    | Some (Some caller) \<Rightarrow>
        if ec_instruction_pointer caller = ec_instruction_pointer current \<or>
           ec_stack_pointer caller \<le> ec_stack_pointer current
        then returnM \<lparr>cb_frames = frames, cb_stop_reason = CU_InvalidFrameState\<rparr>
        else cfi_loop os fs elf cfi n caller (frames @ [frame_of_cursor caller]))"

definition unwind_eh_frame ::
  "'k os \<Rightarrow> 'k files \<Rightarrow> elf_file \<Rightarrow> eh_frame \<Rightarrow> nat \<Rightarrow> ('k world, cfi_backtrace) prog" where
  "unwind_eh_frame os fs elf cfi max_frames =
    (if max_frames = 0 then throwM (InvalidArgument ''CFI unwind requires a non-zero frame limit'')
     else bindM dbgM (\<lambda>d.
       if p_state (d_process d) \<noteq> PS_Stopped then throwM (LogicError ''CFI unwind requires a stopped tracee'')
       else bindM (registers os) (\<lambda>regs.
         let current = \<lparr>ec_instruction_pointer = rip regs, ec_stack_pointer = rsp regs,
               ec_frame_pointer = Some (rbp regs), ec_rbx = Some (rbx regs)\<rparr> in
         if max_frames = 1
         then returnM \<lparr>cb_frames = [frame_of_cursor current], cb_stop_reason = CU_FrameLimit\<rparr>
         else with_local [] (cfi_loop os fs elf cfi (max_frames - 1) current [frame_of_cursor current]))))"

definition cfi_unwind_stop_reason_name :: "cfi_stop_reason \<Rightarrow> string" where
  "cfi_unwind_stop_reason_name reason = (case reason of
     CU_EndOfChain \<Rightarrow> ''end of CFI chain''
   | CU_FrameLimit \<Rightarrow> ''frame limit reached''
   | CU_NoFrameInfo \<Rightarrow> ''no CFI frame information''
   | CU_InvalidFrameState \<Rightarrow> ''invalid or unsupported CFI frame state'')"

section \<open>Inspection frames\<close>

record inspection_registers =
  ir_rax :: "u64 option"
  ir_rbx :: "u64 option"
  ir_rcx :: "u64 option"
  ir_rdx :: "u64 option"
  ir_rsi :: "u64 option"
  ir_rdi :: "u64 option"
  ir_rbp :: "u64 option"
  ir_rsp :: "u64 option"
  ir_r8 :: "u64 option"
  ir_r9 :: "u64 option"
  ir_r10 :: "u64 option"
  ir_r11 :: "u64 option"
  ir_r12 :: "u64 option"
  ir_r13 :: "u64 option"
  ir_r14 :: "u64 option"
  ir_r15 :: "u64 option"
  ir_xmm0 :: "u8 list option"

record inspection_frame =
  if_index :: nat
  if_process_pid :: pid
  if_tid :: pid
  if_origin_stop_sequence :: u64
  if_origin_runtime_pc :: u64
  if_origin_stack_pointer :: u64
  if_origin_frame_pointer :: "u64 option"
  if_runtime_pc :: u64
  if_stack_pointer :: u64
  if_frame_pointer :: "u64 option"
  if_module_path :: string
  if_registers :: inspection_registers

definition no_registers :: inspection_registers where
  "no_registers = \<lparr>ir_rax = None, ir_rbx = None, ir_rcx = None, ir_rdx = None, ir_rsi = None, ir_rdi = None,
     ir_rbp = None, ir_rsp = None, ir_r8 = None, ir_r9 = None, ir_r10 = None, ir_r11 = None, ir_r12 = None,
     ir_r13 = None, ir_r14 = None, ir_r15 = None, ir_xmm0 = None\<rparr>"

definition live_register_state :: "user_regs \<Rightarrow> inspection_registers" where
  "live_register_state regs = \<lparr>ir_rax = Some (rax regs), ir_rbx = Some (rbx regs), ir_rcx = Some (rcx regs),
     ir_rdx = Some (rdx regs), ir_rsi = Some (rsi regs), ir_rdi = Some (rdi regs), ir_rbp = Some (rbp regs),
     ir_rsp = Some (rsp regs), ir_r8 = Some (r8 regs), ir_r9 = Some (r9 regs), ir_r10 = Some (r10 regs),
     ir_r11 = Some (r11 regs), ir_r12 = Some (r12 regs), ir_r13 = Some (r13 regs), ir_r14 = Some (r14 regs),
     ir_r15 = Some (r15 regs), ir_xmm0 = None\<rparr>"

definition caller_register_state :: "eh_frame_cursor \<Rightarrow> inspection_registers" where
  "caller_register_state caller =
     no_registers\<lparr>ir_rsp := Some (ec_stack_pointer caller), ir_rbx := ec_rbx caller, ir_rbp := ec_frame_pointer caller\<rparr>"

definition current_inspection_frame :: "'k os \<Rightarrow> 'k files \<Rightarrow> ('k world, inspection_frame) prog" where
  "current_inspection_frame os fs = bindM dbgM (\<lambda>d.
    if p_state (d_process d) \<noteq> PS_Stopped
    then throwM (LogicError ''inspection-frame construction requires a stopped tracee'')
    else bindM (registers os) (\<lambda>regs.
      bindM (on_kern (mapped_module_path fs (debugger_pid d) (rip regs))) (\<lambda>found. case found of
        None \<Rightarrow> throwM (RuntimeError ''current frame is not owned by a file-backed module'')
      | Some module_path \<Rightarrow> returnM \<lparr>if_index = 0, if_process_pid = debugger_pid d,
          if_tid = p_current_tid (d_process d), if_origin_stop_sequence = si_sequence (d_stop_info d),
          if_origin_runtime_pc = rip regs, if_origin_stack_pointer = rsp regs,
          if_origin_frame_pointer = Some (rbp regs), if_runtime_pc = rip regs, if_stack_pointer = rsp regs,
          if_frame_pointer = Some (rbp regs), if_module_path = module_path,
          if_registers = live_register_state regs\<rparr>)))"

fun inspection_loop ::
  "'k os \<Rightarrow> 'k files \<Rightarrow> elf_file \<Rightarrow> eh_frame \<Rightarrow> inspection_frame \<Rightarrow> nat \<Rightarrow> eh_frame_cursor \<Rightarrow> inspection_frame list \<Rightarrow>
     ('k unwinding, inspection_frame list) prog" where
  "inspection_loop os fs elf cfi ctx 0 current result = returnM result"
| "inspection_loop os fs elf cfi ctx (Suc n) current result =
    bindM (try_caller os fs elf cfi current) (\<lambda>tried. case tried of
      Some (Some caller) \<Rightarrow>
        if ec_instruction_pointer caller = ec_instruction_pointer current \<or>
           ec_stack_pointer caller \<le> ec_stack_pointer current then returnM result
        else bindM (on_world dbgM) (\<lambda>d.
          bindM (on_world (on_kern (mapped_module_path fs (debugger_pid d) (ec_instruction_pointer caller)))) (\<lambda>found.
          case found of
            None \<Rightarrow> returnM result
          | Some module_path \<Rightarrow> inspection_loop os fs elf cfi ctx n caller
              (result @ [ctx\<lparr>if_index := length result, if_runtime_pc := ec_instruction_pointer caller,
                 if_stack_pointer := ec_stack_pointer caller, if_frame_pointer := ec_frame_pointer caller,
                 if_module_path := module_path, if_registers := caller_register_state caller\<rparr>])))
    | _ \<Rightarrow> returnM result)"

definition build_inspection_frames ::
  "'k os \<Rightarrow> 'k files \<Rightarrow> elf_file \<Rightarrow> eh_frame \<Rightarrow> nat \<Rightarrow> ('k world, inspection_frame list) prog" where
  "build_inspection_frames os fs elf cfi max_frames =
    (if max_frames = 0
     then throwM (InvalidArgument ''inspection-frame construction requires a non-zero frame limit'')
     else bindM (current_inspection_frame os fs) (\<lambda>ctx.
       if max_frames = 1 then returnM [ctx]
       else with_local [] (inspection_loop os fs elf cfi ctx (max_frames - 1)
         \<lparr>ec_instruction_pointer = if_runtime_pc ctx, ec_stack_pointer = if_stack_pointer ctx,
          ec_frame_pointer = if_frame_pointer ctx, ec_rbx = ir_rbx (if_registers ctx)\<rparr> [ctx])))"

end
