(* ===== verification/CoreSnapshot.thy ===== *)
theory CoreSnapshot
  imports ElfFile Ptrace
begin

text \<open>
  The class \<^verbatim>\<open>CoreSnapshot\<close> of \<^verbatim>\<open>src/src/elf/elf.cpp\<close>: parsing an ELF core file (load segments and the
  \<^verbatim>\<open>CORE\<close> notes with thread registers, process and signal information and file mappings) and reading
  the captured memory. Offsets, sizes and addresses are the numbers below \<open>2 ^ 64\<close> that the
  \<^verbatim>\<open>std::uint64_t\<close> variables hold, with the checked operations of the source.
\<close>

unbundle bit_operations_syntax

record core_file_mapping =
  cm_start :: nat
  cm_end :: nat
  cm_file_offset :: nat
  cm_path :: "u8 list"

record core_crash_info =
  cc_signal_number :: int
  cc_signal_code :: int
  cc_fault_address :: "nat option"

record core_process_info =
  cp_pid :: pid
  cp_parent_pid :: pid
  cp_process_group_id :: pid
  cp_session_id :: pid
  cp_file_name :: "u8 list"
  cp_command :: "u8 list"

record core_thread =
  ct_tid :: pid
  ct_signal_number :: int
  ct_registers :: user_regs
  ct_is_crashed :: bool

record load_segment =
  ls_address :: nat
  ls_file_offset :: nat
  ls_file_size :: nat
  ls_memory_size :: nat

record core_snapshot =
  cs_bytes :: "u8 list"
  cs_segments :: "load_segment list"
  cs_mappings :: "core_file_mapping list"
  cs_threads :: "core_thread list"
  cs_crash_info :: "core_crash_info option"
  cs_process_info :: "core_process_info option"
  cs_registers :: "user_regs option"
  cs_crashed_tid :: pid
  cs_signal_number :: int

section \<open>Checked arithmetic and fields\<close>

abbreviation (input) u64_max :: nat where "u64_max \<equiv> 0xffffffffffffffff"

definition checked_add :: "nat \<Rightarrow> nat \<Rightarrow> string \<Rightarrow> ('s, nat) prog" where
  "checked_add left right what =
    (if right > u64_max - left then throwM (RuntimeError (what @ '' overflows'')) else returnM (left + right))"

definition checked_mul :: "nat \<Rightarrow> nat \<Rightarrow> string \<Rightarrow> ('s, nat) prog" where
  "checked_mul left right what =
    (if left \<noteq> 0 \<and> right > u64_max div left then throwM (RuntimeError (what @ '' overflows''))
     else returnM (left * right))"

definition align4 :: "nat \<Rightarrow> string \<Rightarrow> ('s, nat) prog" where
  "align4 v what = bindM (checked_add v 3 what) (\<lambda>w. returnM (w - w mod 4))"

definition read_note_u64 :: "u8 list \<Rightarrow> nat \<Rightarrow> nat \<Rightarrow> string \<Rightarrow> ('s, nat) prog" where
  "read_note_u64 bytes offset limit what =
    (if offset > limit \<or> 8 > limit - offset
     then throwM (RuntimeError (what @ '' extends past note payload''))
     else thenM (require_range bytes offset 8 what) (returnM (field offset 8 bytes)))"

text \<open>Signed fields of the kernel structures.\<close>

definition int_field :: "nat \<Rightarrow> u8 list \<Rightarrow> int" where
  "int_field offset b = sint (of_nat (field offset 4 b) :: u32)"

definition short_field :: "nat \<Rightarrow> u8 list \<Rightarrow> int" where
  "short_field offset b = sint (of_nat (field offset 2 b) :: u16)"

definition word_field :: "nat \<Rightarrow> u8 list \<Rightarrow> u64" where
  "word_field offset b = of_nat (field offset 8 b)"

text \<open>The order of the members of \<^verbatim>\<open>user_regs_struct\<close>.\<close>

definition decode_registers :: "nat \<Rightarrow> u8 list \<Rightarrow> user_regs" where
  "decode_registers start b = (let w = (\<lambda>i. word_field (start + 8 * i) b) in
     \<lparr>r15 = w 0, r14 = w 1, r13 = w 2, r12 = w 3, rbp = w 4, rbx = w 5, r11 = w 6, r10 = w 7, r9 = w 8,
      r8 = w 9, rax = w 10, rcx = w 11, rdx = w 12, rsi = w 13, rdi = w 14, orig_rax = w 15, rip = w 16,
      seg_cs = w 17, eflags = w 18, rsp = w 19, seg_ss = w 20, fs_base = w 21, gs_base = w 22, seg_ds = w 23,
      seg_es = w 24, seg_fs = w 25, seg_gs = w 26\<rparr>)"

definition bounded_process_text :: "u8 list \<Rightarrow> u8 list" where
  "bounded_process_text b = rev (dropWhile (\<lambda>c. c = 0x20) (rev (takeWhile (\<lambda>c. c \<noteq> 0) b)))"

definition note_owner :: "u8 list \<Rightarrow> nat \<Rightarrow> nat \<Rightarrow> ('s, u8 list) prog" where
  "note_owner bytes offset len = thenM (require_range bytes offset len ''ELF note name'')
     (returnM (takeWhile (\<lambda>c. c \<noteq> 0) (take len (drop offset bytes))))"

definition fault_address_for_siginfo :: "int \<Rightarrow> nat \<Rightarrow> nat option" where
  "fault_address_for_siginfo signo addr =
    (if signo \<in> {4, 8, 11, 7, 5} then Some addr else None)"

section \<open>Notes\<close>

abbreviation (input) NT_PRSTATUS :: nat where "NT_PRSTATUS \<equiv> 1"
abbreviation (input) NT_PRPSINFO :: nat where "NT_PRPSINFO \<equiv> 3"
abbreviation (input) NT_SIGINFO :: nat where "NT_SIGINFO \<equiv> 0x53494749"
abbreviation (input) NT_FILE :: nat where "NT_FILE \<equiv> 0x46494c45"
abbreviation (input) prstatus_size :: nat where "prstatus_size \<equiv> 336"
abbreviation (input) prpsinfo_size :: nat where "prpsinfo_size \<equiv> 136"
abbreviation (input) siginfo_size :: nat where "siginfo_size \<equiv> 128"
abbreviation (input) nhdr_size :: nat where "nhdr_size \<equiv> 12"

definition prstatus_note :: "nat \<Rightarrow> nat \<Rightarrow> core_snapshot \<Rightarrow> ('s, core_snapshot) prog" where
  "prstatus_note desc_offset descsz cs =
    (if descsz \<noteq> prstatus_size then throwM (RuntimeError ''unsupported x86-64 NT_PRSTATUS size'')
     else bindM (read_struct prstatus_size (cs_bytes cs) desc_offset) (\<lambda>status.
       let tid = int_field 32 status; regs = decode_registers 112 status;
           thread_signal = (if short_field 12 status \<noteq> 0 then short_field 12 status else int_field 0 status);
           is_crashed = (cs_threads cs = []) in
       if tid \<le> 0 then throwM (RuntimeError ''NT_PRSTATUS has invalid TID'')
       else if (\<exists>t \<in> set (cs_threads cs). ct_tid t = tid)
       then throwM (RuntimeError ''ELF core contains duplicate NT_PRSTATUS TID'')
       else let cs' = cs\<lparr>cs_threads := cs_threads cs @ [\<lparr>ct_tid = tid, ct_signal_number = thread_signal,
                  ct_registers = regs, ct_is_crashed = is_crashed\<rparr>]\<rparr> in
         returnM (if is_crashed
           then cs'\<lparr>cs_registers := Some regs, cs_crashed_tid := tid, cs_signal_number := thread_signal\<rparr>
           else cs')))"

definition prpsinfo_note :: "nat \<Rightarrow> nat \<Rightarrow> core_snapshot \<Rightarrow> ('s, core_snapshot) prog" where
  "prpsinfo_note desc_offset descsz cs =
    (if cs_process_info cs \<noteq> None then throwM (RuntimeError ''duplicate NT_PRPSINFO note'')
     else if descsz \<noteq> prpsinfo_size then throwM (RuntimeError ''unsupported x86-64 NT_PRPSINFO size'')
     else bindM (read_struct prpsinfo_size (cs_bytes cs) desc_offset) (\<lambda>process.
       returnM (cs\<lparr>cs_process_info := Some \<lparr>cp_pid = int_field 24 process, cp_parent_pid = int_field 28 process,
          cp_process_group_id = int_field 32 process, cp_session_id = int_field 36 process,
          cp_file_name = bounded_process_text (take 16 (drop 40 process)),
          cp_command = bounded_process_text (take 80 (drop 56 process))\<rparr>\<rparr>)))"

definition siginfo_note :: "nat \<Rightarrow> nat \<Rightarrow> core_snapshot \<Rightarrow> ('s, core_snapshot) prog" where
  "siginfo_note desc_offset descsz cs =
    (if cs_crash_info cs \<noteq> None then throwM (RuntimeError ''duplicate NT_SIGINFO note'')
     else if descsz \<noteq> siginfo_size then throwM (RuntimeError ''unsupported x86-64 NT_SIGINFO size'')
     else bindM (read_struct siginfo_size (cs_bytes cs) desc_offset) (\<lambda>info.
       if int_field 0 info \<le> 0 then throwM (RuntimeError ''NT_SIGINFO has invalid signal number'')
       else returnM (cs\<lparr>cs_crash_info := Some \<lparr>cc_signal_number = int_field 0 info,
          cc_signal_code = int_field 8 info,
          cc_fault_address = fault_address_for_siginfo (int_field 0 info) (field 16 8 info)\<rparr>\<rparr>)))"

text \<open>The triples of an \<^verbatim>\<open>NT_FILE\<close> note.\<close>

fun raw_mappings :: "u8 list \<Rightarrow> nat \<Rightarrow> nat \<Rightarrow> nat \<Rightarrow> nat \<Rightarrow> ('s, (nat \<times> nat \<times> nat) list) prog" where
  "raw_mappings bytes triples_offset desc_end index 0 = returnM []"
| "raw_mappings bytes triples_offset desc_end index (Suc n) =
    (let entry = triples_offset + index * 24 in
     bindM (read_note_u64 bytes entry desc_end ''NT_FILE mapping start'') (\<lambda>start.
     bindM (read_note_u64 bytes (entry + 8) desc_end ''NT_FILE mapping end'') (\<lambda>mapping_end.
     bindM (read_note_u64 bytes (entry + 16) desc_end ''NT_FILE mapping file offset'') (\<lambda>page_offset.
     if mapping_end \<le> start then throwM (RuntimeError ''invalid NT_FILE mapping range'')
     else bindM (raw_mappings bytes triples_offset desc_end (index + 1) n) (\<lambda>rest.
       returnM ((start, mapping_end, page_offset) # rest))))))"

text \<open>The characters of one path: the result tells whether the terminator was found.\<close>

definition path_step :: "u8 list \<Rightarrow> nat \<Rightarrow> (nat \<times> u8 list, (u8 list \<times> bool) option) prog" where
  "path_step bytes desc_end = (\<lambda>(cursor, path).
     if cursor < desc_end then
       (if cursor < length bytes then
          (if bytes ! cursor = 0 then (Ok (Some (path, True)), (cursor + 1, path))
           else (Ok None, (cursor + 1, path @ [bytes ! cursor])))
        else (Throw (UndefinedBehaviour ''vector index out of range''), (cursor, path)))
     else (Ok (Some (path, False)), (cursor, path)))"

definition read_mapping_path :: "u8 list \<Rightarrow> nat \<Rightarrow> u8 list reader" where
  "read_mapping_path bytes desc_end = bindM getM (\<lambda>cursor.
     if cursor \<ge> desc_end then throwM (RuntimeError ''missing NT_FILE path'')
     else bindM (with_local [] (loopM (desc_end - cursor + 1) (path_step bytes desc_end))) (\<lambda>(path, terminated).
       if \<not> terminated \<or> path = [] then throwM (RuntimeError ''invalid NT_FILE path'') else returnM path))"

fun named_mappings :: "u8 list \<Rightarrow> nat \<Rightarrow> nat \<Rightarrow> (nat \<times> nat \<times> nat) list \<Rightarrow> core_file_mapping list reader" where
  "named_mappings bytes desc_end page_size [] = returnM []"
| "named_mappings bytes desc_end page_size ((start, stop, page_offset) # raw) =
    bindM (read_mapping_path bytes desc_end) (\<lambda>path.
    bindM (checked_mul page_offset page_size ''NT_FILE file offset'') (\<lambda>file_offset.
    bindM (named_mappings bytes desc_end page_size raw) (\<lambda>rest.
    returnM (\<lparr>cm_start = start, cm_end = stop, cm_file_offset = file_offset, cm_path = path\<rparr> # rest))))"

definition file_note :: "nat \<Rightarrow> nat \<Rightarrow> core_snapshot \<Rightarrow> ('s, core_snapshot) prog" where
  "file_note desc_offset descsz cs =
    (if cs_mappings cs \<noteq> [] then throwM (RuntimeError ''duplicate NT_FILE note'')
     else if descsz < 16 then throwM (RuntimeError ''truncated NT_FILE header'')
     else bindM (checked_add desc_offset descsz ''NT_FILE payload'') (\<lambda>desc_end.
       bindM (read_note_u64 (cs_bytes cs) desc_offset desc_end ''NT_FILE mapping count'') (\<lambda>count.
       bindM (read_note_u64 (cs_bytes cs) (desc_offset + 8) desc_end ''NT_FILE page size'') (\<lambda>page_size.
       if page_size = 0 then throwM (RuntimeError ''NT_FILE page size is zero'')
       else bindM (checked_mul count 24 ''NT_FILE mapping table'') (\<lambda>triples_size.
         let triples_offset = desc_offset + 16 in
         bindM (checked_add triples_offset triples_size ''NT_FILE mapping table'') (\<lambda>strings_offset.
         if strings_offset > desc_end then throwM (RuntimeError ''truncated NT_FILE mapping table'')
         else bindM (raw_mappings (cs_bytes cs) triples_offset desc_end 0 count) (\<lambda>raw.
           bindM (at_cursor strings_offset (named_mappings (cs_bytes cs) desc_end page_size raw)) (\<lambda>mappings.
           returnM (cs\<lparr>cs_mappings := mappings\<rparr>)))))))))"

definition parse_note :: "u8 list \<Rightarrow> nat \<Rightarrow> nat \<Rightarrow> nat \<Rightarrow> core_snapshot \<Rightarrow> ('s, core_snapshot) prog" where
  "parse_note owner type desc_offset descsz cs =
    (if owner \<noteq> text_bytes ''CORE'' then returnM cs
     else if type = NT_PRSTATUS then prstatus_note desc_offset descsz cs
     else if type = NT_PRPSINFO then prpsinfo_note desc_offset descsz cs
     else if type = NT_SIGINFO then siginfo_note desc_offset descsz cs
     else if type \<noteq> NT_FILE then returnM cs
     else file_note desc_offset descsz cs)"

text \<open>One turn of the note loop on the cursor and the object.\<close>

definition note_step :: "nat \<Rightarrow> (nat \<times> core_snapshot, core_snapshot option) prog" where
  "note_step end_pos = bindM getM (\<lambda>(cursor, cs).
    if \<not> cursor < end_pos then returnM (Some cs)
    else if nhdr_size > end_pos - cursor then throwM (RuntimeError ''truncated ELF core note header'')
    else bindM (read_struct nhdr_size (cs_bytes cs) cursor) (\<lambda>note.
      let namesz = field 0 4 note; descsz = field 4 4 note; type = field 8 4 note; name_offset = cursor + nhdr_size in
      bindM (align4 namesz ''ELF core note name'') (\<lambda>name_padded.
      if name_padded > end_pos - name_offset then throwM (RuntimeError ''truncated ELF core note name'')
      else bindM (note_owner (cs_bytes cs) name_offset namesz) (\<lambda>owner.
        let desc_offset = name_offset + name_padded in
        bindM (align4 descsz ''ELF core note payload'') (\<lambda>desc_padded.
        if desc_padded > end_pos - desc_offset then throwM (RuntimeError ''truncated ELF core note payload'')
        else bindM (parse_note owner type desc_offset descsz cs) (\<lambda>cs'.
          thenM (modifyM (\<lambda>_. (desc_offset + desc_padded, cs'))) (returnM None)))))))"

definition mapping_key :: "core_file_mapping \<Rightarrow> nat \<times> nat" where
  "mapping_key m = (cm_start m, cm_end m)"

definition parse_notes :: "nat \<Rightarrow> nat \<Rightarrow> core_snapshot \<Rightarrow> ('s, core_snapshot) prog" where
  "parse_notes offset len cs = bindM (checked_add offset len ''ELF core PT_NOTE range'') (\<lambda>end_pos.
     bindM (at_cursor offset (with_local cs (loopM (len + 1) (note_step end_pos)))) (\<lambda>cs'.
     returnM (cs'\<lparr>cs_mappings := sort_key mapping_key (cs_mappings cs')\<rparr>)))"

section \<open>Reading memory and mappings\<close>

fun mapping_loop :: "nat \<Rightarrow> core_file_mapping list \<Rightarrow> core_file_mapping option" where
  "mapping_loop v [] = None"
| "mapping_loop v (m # rest) =
    (if cm_start m > v then None
     else if v \<ge> cm_start m \<and> v < cm_end m then Some m else mapping_loop v rest)"

definition mapping_for_address :: "core_snapshot \<Rightarrow> u64 \<Rightarrow> core_file_mapping option" where
  "mapping_for_address cs address = mapping_loop (unat address) (cs_mappings cs)"

definition core_thread_of :: "core_snapshot \<Rightarrow> pid \<Rightarrow> ('s, core_thread) prog" where
  "core_thread_of cs tid = (case find (\<lambda>t. ct_tid t = tid) (cs_threads cs) of
     None \<Rightarrow> throwM (OutOfRange ''core thread TID is unavailable'') | Some t \<Rightarrow> returnM t)"

fun segment_loop :: "u8 list \<Rightarrow> nat \<Rightarrow> nat \<Rightarrow> nat \<Rightarrow> load_segment list \<Rightarrow> ('s, u8 list) prog" where
  "segment_loop bytes start stop len [] = throwM (RuntimeError ''core memory range is unmapped'')"
| "segment_loop bytes start stop len (seg # rest) =
    bindM (checked_add (ls_address seg) (ls_memory_size seg) ''core PT_LOAD memory range'') (\<lambda>memory_end.
    if start < ls_address seg \<or> start \<ge> memory_end then segment_loop bytes start stop len rest
    else if stop > memory_end then throwM (RuntimeError ''core memory read spans PT_LOAD boundary'')
    else bindM (checked_add (ls_address seg) (ls_file_size seg) ''core PT_LOAD captured range'') (\<lambda>captured_end.
      if stop > captured_end
      then throwM (RuntimeError ''core memory range is not captured in PT_LOAD file bytes'')
      else bindM (checked_add (ls_file_offset seg) (start - ls_address seg) ''core memory file offset'') (\<lambda>file_offset.
        thenM (require_range bytes file_offset len ''core memory bytes'')
        (returnM (take len (drop file_offset bytes))))))"

definition core_read_memory :: "core_snapshot \<Rightarrow> u64 \<Rightarrow> nat \<Rightarrow> ('s, u8 list) prog" where
  "core_read_memory cs address len =
    (if len = 0 then returnM []
     else bindM (checked_add (unat address) len ''core memory read range'') (\<lambda>stop.
       segment_loop (cs_bytes cs) (unat address) stop len (cs_segments cs)))"

section \<open>The core file\<close>

definition load_core_segment :: "program_header \<Rightarrow> core_snapshot \<Rightarrow> ('s, core_snapshot) prog" where
  "load_core_segment phdr cs =
    (if ph_type phdr = PT_LOAD then
       (if ph_memsz phdr < ph_filesz phdr
        then throwM (RuntimeError ''ELF core PT_LOAD file size exceeds memory size'')
        else bindM (checked_add (ph_vaddr phdr) (ph_memsz phdr) ''ELF core PT_LOAD address range'') (\<lambda>_.
          thenM (require_range (cs_bytes cs) (ph_offset phdr) (ph_filesz phdr) ''ELF core PT_LOAD bytes'')
          (returnM (cs\<lparr>cs_segments := cs_segments cs @ [\<lparr>ls_address = ph_vaddr phdr,
             ls_file_offset = ph_offset phdr, ls_file_size = ph_filesz phdr, ls_memory_size = ph_memsz phdr\<rparr>]\<rparr>))))
     else if ph_type phdr = PT_NOTE then
       thenM (require_range (cs_bytes cs) (ph_offset phdr) (ph_filesz phdr) ''ELF core PT_NOTE'')
         (parse_notes (ph_offset phdr) (ph_filesz phdr) cs)
     else returnM cs)"

fun core_segment_loop :: "nat \<Rightarrow> nat \<Rightarrow> nat \<Rightarrow> core_snapshot \<Rightarrow> ('s, core_snapshot) prog" where
  "core_segment_loop phoff index 0 cs = returnM cs"
| "core_segment_loop phoff index (Suc n) cs =
    bindM (read_struct phdr_size (cs_bytes cs) (wrap64 (phoff + index * phdr_size))) (\<lambda>raw.
    bindM (load_core_segment (decode_phdr raw) cs) (core_segment_loop phoff (index + 1) n))"

definition check_core :: "core_snapshot \<Rightarrow> ('s, core_snapshot) prog" where
  "check_core cs = (case cs_registers cs of
     None \<Rightarrow> throwM (RuntimeError ''ELF core lacks NT_PRSTATUS registers'')
   | Some regs \<Rightarrow>
       if cs_threads cs = [] then throwM (RuntimeError ''ELF core lacks NT_PRSTATUS registers'')
       else if (case cs_crash_info cs of None \<Rightarrow> False | Some c \<Rightarrow> cc_signal_number c \<noteq> cs_signal_number cs)
       then throwM (RuntimeError ''NT_SIGINFO and crashed NT_PRSTATUS disagree on signal identity'')
       else if (case cs_process_info cs of None \<Rightarrow> False | Some p \<Rightarrow> cp_pid p \<le> 0)
       then throwM (RuntimeError ''NT_PRPSINFO has invalid process PID'')
       else if (case cs_process_info cs of None \<Rightarrow> False
                  | Some p \<Rightarrow> \<not> (\<exists>t \<in> set (cs_threads cs). ct_tid t = cp_pid p))
       then throwM (RuntimeError ''NT_PRPSINFO PID is not present in NT_PRSTATUS thread catalogue'')
       else if cs_segments cs = [] then throwM (RuntimeError ''ELF core lacks PT_LOAD memory'')
       else if cs_mappings cs = [] then throwM (RuntimeError ''ELF core lacks NT_FILE mappings'')
       else if mapping_for_address cs (rip regs) = None
       then throwM (RuntimeError ''ELF core crash RIP is not covered by NT_FILE mapping'')
       else returnM cs)"

abbreviation (input) PN_XNUM :: nat where "PN_XNUM \<equiv> 0xffff"

definition parse_core :: "u8 list \<Rightarrow> ('s, core_snapshot) prog" where
  "parse_core bytes = bindM (read_struct ehdr_size bytes 0) (\<lambda>raw.
    let header = decode_ehdr raw in
    if \<not> has_elf_magic header then throwM (RuntimeError ''core file is not ELF'')
    else if \<not> is_elf64_lsb header \<or> e_ident header ! 6 \<noteq> 1 \<or> e_version header \<noteq> 1
    then throwM (RuntimeError ''only current little-endian ELF64 core files are supported'')
    else if e_type header \<noteq> ET_CORE then throwM (RuntimeError ''ELF file is not ET_CORE'')
    else if e_machine header \<noteq> EM_X86_64
    then throwM (RuntimeError ''only x86-64 ELF core files are supported'')
    else if e_phnum header = 0 \<or> e_phnum header = PN_XNUM \<or> e_phentsize header \<noteq> phdr_size
    then throwM (RuntimeError ''unsupported ELF core program-header table'')
    else bindM (checked_mul (e_phnum header) phdr_size ''ELF core program-header table'') (\<lambda>phdr_bytes.
      thenM (require_range bytes (e_phoff header) phdr_bytes ''ELF core program-header table'')
      (bindM (core_segment_loop (e_phoff header) 0 (e_phnum header)
          \<lparr>cs_bytes = bytes, cs_segments = [], cs_mappings = [], cs_threads = [], cs_crash_info = None,
           cs_process_info = None, cs_registers = None, cs_crashed_tid = - 1, cs_signal_number = 0\<rparr>)
        check_core)))"

end
