(* ===== verification/CfiUnwindProps.thy ===== *)
theory CfiUnwindProps
  imports CfiUnwind EhFrameSafety ElfFileProps CoreSnapshot FramePointer
begin

text \<open>
  Unwinding only looks: whatever the files and the stack contain, a backtrace ends within its limit,
  leaves the session and the tracee as they were, and climbs the stack. The evaluator is reached through
  the interface \<open>cfi_reader\<close>, interpreted on the live session and on a core file.
\<close>

section \<open>Looking at the session\<close>

lemma inspects_on_kern [inspects_intros]: "inspects m \<Longrightarrow> inspects (on_kern m)"
  unfolding on_kern_def by (rule inspects_zoomM) auto

lemma inspects_dbgM [inspects_intros]: "inspects dbgM"
  unfolding dbgM_def by (intro inspects_intros)

lemma inspects_stopped_tid [inspects_intros]: "inspects stopped_tid"
  unfolding stopped_tid_def by (intro inspects_intros) auto

lemma inspects_ll_get_registers [inspects_intros]: "inspects (ll_get_registers os t)"
  by (auto simp: inspects_def twp_def ll_get_registers_def split: prod.split)

lemma inspects_ll_peek_word [inspects_intros]: "inspects (ll_peek_word os t a)"
  by (auto simp: inspects_def twp_def ll_peek_word_def split: prod.split)

lemma inspects_ll_read_loop: "inspects (ll_read_loop os t a len offset result)"
proof (induction os t a len offset result rule: ll_read_loop.induct)
  case (1 os t a len offset result)
  then show ?case
    by (subst ll_read_loop.simps) (auto simp: Let_def intro!: inspects_intros)
qed

lemma inspects_read_memory [inspects_intros]: "inspects (read_memory os a n)"
  unfolding read_memory_def ll_read_memory_def by (intro inspects_intros inspects_ll_read_loop)

lemma inspects_debugger_registers [inspects_intros]: "inspects (registers os)"
  unfolding registers_def by (intro inspects_intros)

interpretation live_memory: cfi_reader "read_memory os" for os
  by unfold_locales (rule inspects_read_memory)

lemma inspects_require_range [inspects_intros]: "inspects (require_range bytes off len what)"
  unfolding require_range_def by (intro inspects_intros) auto

lemma inspects_checked_add [inspects_intros]: "inspects (checked_add l r what)"
  unfolding checked_add_def by (intro inspects_intros) auto

lemma inspects_segment_loop [inspects_intros]: "inspects (segment_loop bytes start stop len segs)"
  by (induction segs) (auto intro!: inspects_intros)

interpretation core_memory: cfi_reader "core_read_memory cs" for cs
  by unfold_locales (auto simp: core_read_memory_def intro!: inspects_intros)

section \<open>Looking at files\<close>

lemma inspects_read_binary_file [inspects_intros]: "inspects (read_binary_file fs path)"
  unfolding read_binary_file_def by (auto intro!: inspects_intros split: file_contents.split)

lemma inspects_parse_elf_file [inspects_intros]: "inspects (parse_elf_file n path bytes)"
  by (rule inspectsI, rule twp_parse_elf_file) auto

lemma inspects_open_elf [inspects_intros]: "inspects (open_elf fs path)"
  unfolding open_elf_def by (intro inspects_intros)

lemma inspects_stoull16 [inspects_intros]: "inspects (stoull16 s)"
  unfolding stoull16_def by (auto simp: Let_def intro!: inspects_intros)

lemma inspects_bias_loop [inspects_intros]: "inspects (bias_loop f path lines)"
  by (induction lines) (auto simp: bias_of_line_def intro!: inspects_intros)

lemma inspects_load_bias [inspects_intros]: "inspects (load_bias fs f p)"
  unfolding load_bias_def by (auto intro!: inspects_intros)

lemma inspects_mapped_module_path [inspects_intros]: "inspects (mapped_module_path fs p a)"
  unfolding mapped_module_path_def by (auto intro!: inspects_intros)

lemma inspects_catch_exception [inspects_intros]:
  "inspects m \<Longrightarrow> inspects h \<Longrightarrow> inspects (catch_exception m h)"
  unfolding catch_exception_def by (intro inspects_intros) auto

lemma inspects_eh_section_loop:
  "sh_offset names + sh_size names \<le> length bytes \<Longrightarrow> inspects (eh_section_loop bytes names ss)"
proof (induction ss)
  case (Cons s ss)
  have "inspects (at_cursor (sh_offset names + sh_name s)
      (read_c_string bytes (sh_offset names + sh_size names) what))" if "sh_name s < sh_size names" for what
    by (rule inspects_at_cursor, rule twp_read [OF reads_c_string [OF Cons.prems]]) (use that in auto)
  with Cons show ?case by (auto intro!: inspects_intros)
qed (simp add: inspects_intros)

lemma inspects_read_at [inspects_intros]: "inspects (read_at dl width bytes offset what)"
  by (auto simp: inspects_def twp_read_at)

lemma inspects_read_sections [inspects_intros]: "inspects (read_sections dl bytes shoff index n)"
  by (rule inspectsI, rule twp_read_sections) auto

lemma inspects_find_eh_frame [inspects_intros]: "inspects (find_eh_frame bytes)"
  unfolding find_eh_frame_def Let_def
  by (auto intro!: inspects_intros inspects_eh_section_loop simp: not_less)

lemma inspects_open_module [inspects_intros]: "inspects (open_module fs path)"
  unfolding open_module_def open_eh_frame_def init_eh_frame_def by (intro inspects_intros)

section \<open>Recovering callers\<close>

lemma inspects_caller_frame [inspects_intros]: "inspects (caller_frame os fs cfi elf current)"
  unfolding caller_frame_def by (auto intro!: inspects_intros live_memory.caller_frame_at_inspects)

lemma inspects_caller_return_address [inspects_intros]: "inspects (caller_return_address os fs cfi elf)"
  unfolding caller_return_address_def
  by (auto intro!: inspects_intros live_memory.evaluate_frame_inspects)

lemma inspects_module_caller_return_address [inspects_intros]:
  "inspects (module_caller_return_address os fs elf cfi)"
  unfolding module_caller_return_address_def by (auto intro!: inspects_intros)

lemma twp_on_world:
  "inspects m \<Longrightarrow> (\<And>a. Q a (w, ms)) \<Longrightarrow> (\<And>e. no_ub e \<Longrightarrow> E e (w, ms)) \<Longrightarrow> twp (on_world m) Q E (w, ms)"
  by (simp add: on_world_def twp_zoomM twp_inspects)

lemma twp_try_caller:
  assumes "\<And>r ms'. Q r (w, ms')"
  shows "twp (try_caller os fs elf cfi current) Q E (w, ms)"
  unfolding try_caller_def catch_exception_def caller_for_cursor_def cached_module_def
  by (auto simp: twp_simps assms intro!: twp_on_world inspects_intros)

section \<open>Backtraces\<close>

text \<open>A frame and its caller: the stack pointer grows and the instruction pointer moves.\<close>

definition climbs :: "cfi_stack_frame \<Rightarrow> cfi_stack_frame \<Rightarrow> bool" where
  "climbs f g \<longleftrightarrow> cf_sp f < cf_sp g \<and> cf_ip f \<noteq> cf_ip g"

lemma twp_cfi_loop:
  assumes "frames \<noteq> []" and "last frames = frame_of_cursor current" and "successively climbs frames"
  shows "twp (cfi_loop os fs elf cfi n current frames)
    (\<lambda>bt x. fst x = w \<and> hd (cb_frames bt) = hd frames \<and> cb_frames bt \<noteq> [] \<and> successively climbs (cb_frames bt) \<and>
       length (cb_frames bt) \<le> length frames + n \<and>
       (cb_stop_reason bt = CU_FrameLimit \<longleftrightarrow> length (cb_frames bt) = length frames + n))
    (\<lambda>_ _. False) (w, ms)"
  using assms
proof (induction n arbitrary: current frames ms)
  case (Suc n)
  have step: "twp (cfi_loop os fs elf cfi n caller (frames @ [frame_of_cursor caller]))
      (\<lambda>bt x. fst x = w \<and> hd (cb_frames bt) = hd frames \<and> cb_frames bt \<noteq> [] \<and> successively climbs (cb_frames bt) \<and>
         length (cb_frames bt) \<le> length frames + Suc n \<and>
         (cb_stop_reason bt = CU_FrameLimit \<longleftrightarrow> length (cb_frames bt) = length frames + Suc n))
      (\<lambda>_ _. False) (w, ms')"
    if "ec_instruction_pointer caller \<noteq> ec_instruction_pointer current"
      "\<not> ec_stack_pointer caller \<le> ec_stack_pointer current" for caller ms'
  proof -
    have "successively climbs (frames @ [frame_of_cursor caller])"
      using that Suc.prems by (auto simp: successively_append_iff climbs_def frame_of_cursor_def not_le)
    from Suc.IH [OF _ _ this, of caller ms'] Suc.prems(1) show ?thesis by simp
  qed
  show ?case
    unfolding cfi_loop.simps twp_bindM
    by (rule twp_try_caller) (use Suc.prems step in \<open>auto simp: twp_simps split: option.split\<close>)
qed (auto simp: twp_simps)

text \<open>C39. A call-frame backtrace ends for every stack and every file: it starts at the live registers, has at
  most the asked number of frames, reports the limit exactly when it reached it, climbs the stack strictly
  from frame to frame, and leaves the session and the tracee as they were; when it throws it has changed
  nothing either.\<close>

theorem unwind_eh_frame_bounded:
  "twp (unwind_eh_frame os fs elf cfi max_frames)
    (\<lambda>bt w'. w' = w \<and> (\<exists>regs. registers os w = (Ok regs, w) \<and>
         hd (cb_frames bt) = \<lparr>cf_ip = rip regs, cf_sp = rsp regs, cf_fp = Some (rbp regs)\<rparr>) \<and>
       cb_frames bt \<noteq> [] \<and> successively climbs (cb_frames bt) \<and> length (cb_frames bt) \<le> max_frames \<and>
       (cb_stop_reason bt = CU_FrameLimit \<longleftrightarrow> length (cb_frames bt) = max_frames))
    (\<lambda>e w'. w' = w \<and> no_ub e) w"
proof -
  let ?cur = "\<lambda>regs. \<lparr>ec_instruction_pointer = rip regs, ec_stack_pointer = rsp regs,
    ec_frame_pointer = Some (rbp regs), ec_rbx = Some (rbx regs)\<rparr>"
  have loop: "twp (cfi_loop os fs elf cfi (max_frames - Suc 0) (?cur regs) [frame_of_cursor (?cur regs)])
     (\<lambda>bt x. fst x = w \<and> hd (cb_frames bt) = frame_of_cursor (?cur regs) \<and> cb_frames bt \<noteq> [] \<and>
       successively climbs (cb_frames bt) \<and> length (cb_frames bt) \<le> max_frames \<and>
       (cb_stop_reason bt = CU_FrameLimit \<longleftrightarrow> length (cb_frames bt) = max_frames)) (\<lambda>_ _. False) (w, [])"
    if "max_frames \<noteq> 0" for regs
    by (rule twp_mono [OF twp_cfi_loop]) (use that in auto)
  have regs: "twp (registers os) (\<lambda>r w'. w' = w \<and> registers os w = (Ok r, w)) (\<lambda>e w'. w' = w \<and> no_ub e) w"
    using inspects_debugger_registers [of os] by (cases rule: inspects_cases [of "registers os" w]) (auto simp: twp_def)
  show ?thesis
    unfolding unwind_eh_frame_def
    by (auto simp: twp_simps Let_def twp_with_local frame_of_cursor_def dbgM_def
        intro!: twp_mono [OF regs] twp_mono [OF loop [unfolded frame_of_cursor_def, simplified]])
qed

section \<open>Inspection frames\<close>

text \<open>Every frame belongs to the stop it was built at.\<close>

definition same_origin :: "inspection_frame \<Rightarrow> inspection_frame \<Rightarrow> bool" where
  "same_origin f g \<longleftrightarrow> if_process_pid g = if_process_pid f \<and> if_tid g = if_tid f \<and>
     if_origin_stop_sequence g = if_origin_stop_sequence f \<and> if_origin_runtime_pc g = if_origin_runtime_pc f \<and>
     if_origin_stack_pointer g = if_origin_stack_pointer f \<and> if_origin_frame_pointer g = if_origin_frame_pointer f"

text \<open>A caller frame carries only what the call-frame information recovered: no register of the live
  thread leaks into it.\<close>

definition recovered_only :: "inspection_frame \<Rightarrow> bool" where
  "recovered_only f \<longleftrightarrow> if_registers f = no_registers\<lparr>ir_rsp := Some (if_stack_pointer f),
     ir_rbp := if_frame_pointer f, ir_rbx := ir_rbx (if_registers f)\<rparr>"

definition frames_ok :: "inspection_frame list \<Rightarrow> bool" where
  "frames_ok frames \<longleftrightarrow> frames \<noteq> [] \<and> map if_index frames = [0..<length frames] \<and>
     sorted_wrt (<) (map if_stack_pointer frames) \<and> list_all (same_origin (hd frames)) frames \<and>
     list_all recovered_only (tl frames)"

lemma frames_ok_single: "if_index f = 0 \<Longrightarrow> frames_ok [f]"
  by (simp add: frames_ok_def same_origin_def)

lemma frames_ok_snoc:
  assumes "frames_ok frames" and "if_stack_pointer (last frames) < if_stack_pointer f"
    and "if_index f = length frames" and "same_origin (hd frames) f" and "recovered_only f"
  shows "frames_ok (frames @ [f])"
proof -
  have "if_stack_pointer g < if_stack_pointer f" if "g \<in> set frames" for g
    using assms(1,2) that
    by (cases frames rule: rev_cases) (auto simp: frames_ok_def sorted_wrt_append)
  then show ?thesis using assms by (auto simp: frames_ok_def sorted_wrt_append)
qed

lemma twp_inspection_loop:
  assumes "frames_ok frames" and "if_stack_pointer (last frames) = ec_stack_pointer current"
    and "same_origin (hd frames) ctx"
  shows "twp (inspection_loop os fs elf cfi ctx n current frames)
    (\<lambda>r x. fst x = w \<and> hd r = hd frames \<and> frames_ok r \<and> length r \<le> length frames + n)
    (\<lambda>e x. fst x = w \<and> no_ub e) (w, ms)"
  using assms
proof (induction n arbitrary: current frames ms)
  case (Suc n)
  have step: "twp (inspection_loop os fs elf cfi ctx n caller (frames @ [ctx\<lparr>if_index := length frames,
        if_runtime_pc := ec_instruction_pointer caller, if_stack_pointer := ec_stack_pointer caller,
        if_frame_pointer := ec_frame_pointer caller, if_module_path := path,
        if_registers := caller_register_state caller\<rparr>]))
      (\<lambda>r x. fst x = w \<and> hd r = hd frames \<and> frames_ok r \<and> length r \<le> Suc (length frames + n))
      (\<lambda>e x. fst x = w \<and> no_ub e) (w, ms')"
    if "\<not> ec_stack_pointer caller \<le> ec_stack_pointer current" for caller path ms'
  proof -
    have "frames \<noteq> []" using Suc.prems(1) by (simp add: frames_ok_def)
    moreover have "frames_ok (frames @ [ctx\<lparr>if_index := length frames,
        if_runtime_pc := ec_instruction_pointer caller, if_stack_pointer := ec_stack_pointer caller,
        if_frame_pointer := ec_frame_pointer caller, if_module_path := path,
        if_registers := caller_register_state caller\<rparr>])"
      by (rule frames_ok_snoc)
        (use Suc.prems that in \<open>auto simp: same_origin_def recovered_only_def caller_register_state_def not_le\<close>)
    ultimately show ?thesis
      using Suc.prems(3) by (intro twp_mono [OF Suc.IH]) auto
  qed
  show ?case
    unfolding inspection_loop.simps twp_bindM
    by (rule twp_try_caller)
      (use Suc.prems step in \<open>auto simp: twp_simps intro!: twp_on_world inspects_intros split: option.split\<close>)
qed (auto simp: twp_simps)

text \<open>Building the inspection frames ends for every stack and changes nothing. The frames are numbered
  from zero, all belong to the same process, thread and stop, ascend the stack, and every caller frame
  carries only its recovered stack pointer, frame pointer and RBX.\<close>

theorem build_inspection_frames_sound:
  "twp (build_inspection_frames os fs elf cfi max_frames)
    (\<lambda>frames w'. w' = w \<and> frames_ok frames \<and> length frames \<le> max_frames \<and>
       if_process_pid (hd frames) = debugger_pid (dbg w) \<and>
       if_origin_stop_sequence (hd frames) = si_sequence (d_stop_info (dbg w)))
    (\<lambda>e w'. w' = w \<and> no_ub e) w"
proof -
  have current: "twp (current_inspection_frame os fs)
      (\<lambda>f w'. w' = w \<and> if_index f = 0 \<and> if_process_pid f = debugger_pid (dbg w) \<and>
         if_origin_stop_sequence f = si_sequence (d_stop_info (dbg w))) (\<lambda>e w'. w' = w \<and> no_ub e) w"
    unfolding current_inspection_frame_def
    by (auto simp: twp_simps dbgM_def intro!: twp_inspects [OF inspects_debugger_registers]
        twp_inspects [OF inspects_on_kern [OF inspects_mapped_module_path]])
  have loop: "twp (inspection_loop os fs elf cfi f (max_frames - Suc 0)
      \<lparr>ec_instruction_pointer = if_runtime_pc f, ec_stack_pointer = if_stack_pointer f,
        ec_frame_pointer = if_frame_pointer f, ec_rbx = ir_rbx (if_registers f)\<rparr> [f])
      (\<lambda>r x. fst x = w \<and> hd r = f \<and> frames_ok r \<and> length r \<le> max_frames) (\<lambda>e x. fst x = w \<and> no_ub e) (w, [])"
    if "if_index f = 0" "max_frames \<noteq> 0" for f
    by (rule twp_mono [OF twp_inspection_loop]) (use that in \<open>auto simp: frames_ok_single same_origin_def\<close>)
  show ?thesis
    unfolding build_inspection_frames_def
    by (auto simp: twp_simps twp_with_local frames_ok_single intro!: twp_mono [OF current] twp_mono [OF loop])
qed

end
