(* ===== verification/ModulesProps.thy ===== *)
theory ModulesProps
  imports CfiUnwindProps LineTableSafety
begin

text \<open>
  Lookup across modules: a symbol is resolved exactly when one mapped module defines it and reported as
  ambiguous otherwise, and looking up a source line finds the lowest address of that line, which always
  maps back to the line table.
\<close>

section \<open>Symbols by name\<close>

text \<open>The search loop against its specification: no candidate, one, or an error.\<close>

definition verdict :: "string \<Rightarrow> 'b list \<Rightarrow> 'b option outcome" where
  "verdict ambiguous cs = (case cs of [] \<Rightarrow> Ok None | [c] \<Rightarrow> Ok (Some c) | _ \<Rightarrow> Throw (RuntimeError ambiguous))"

definition answer :: "('s, 'b option) prog \<Rightarrow> 's \<Rightarrow> 'b list" where
  "answer m s = (case fst (m s) of Ok (Some c) \<Rightarrow> [c] | _ \<Rightarrow> [])"

lemma unique_candidate_spec:
  assumes "\<And>path. path \<in> set paths \<Longrightarrow> \<exists>c. lookup path s = (Ok c, s)"
  shows "unique_candidate lookup ambiguous result paths s =
    (verdict ambiguous (case_option [] (\<lambda>c. [c]) result @ concat (map (\<lambda>p. answer (lookup p) s) paths)), s)"
  using assms
proof (induction paths arbitrary: result)
  case Nil
  then show ?case by (simp add: returnM_def verdict_def split: option.split)
next
  case (Cons path paths)
  obtain c where c: "lookup path s = (Ok c, s)" using Cons.prems by auto
  have IH: "unique_candidate lookup ambiguous r paths s =
      (verdict ambiguous (case_option [] (\<lambda>c. [c]) r @ concat (map (\<lambda>p. answer (lookup p) s) paths)), s)" for r
    using Cons.prems by (intro Cons.IH) auto
  show ?case
    using c IH by (cases c; cases result) (auto simp: bindM_def answer_def verdict_def throwM_def)
qed

lemma catch_exception_Ok:
  "inspects m \<Longrightarrow> \<exists>r. catch_exception (bindM m (\<lambda>a. returnM (Some a))) (returnM None) s = (Ok r, s)"
  by (cases rule: inspects_cases [of m s]) (auto simp: catch_exception_def catchM_def bindM_def returnM_def)

lemma symbol_address_in_module_Ok: "\<exists>c. symbol_address_in_module fs p name preferred path s = (Ok c, s)"
proof -
  have elf: "\<exists>r. module_elf fs path preferred s = (Ok r, s)"
    using catch_exception_Ok [OF inspects_open_elf [of fs path]] by (simp add: module_elf_def returnM_def)
  have run: "\<exists>r. catch_exception (bindM (runtime_address fs f p sym) (\<lambda>a. returnM (Some (g a)))) (returnM None) s = (Ok r, s)"
    for f sym and g :: "u64 \<Rightarrow> module_symbol_address"
  proof -
    have "inspects (runtime_address fs f p sym)" unfolding runtime_address_def by (intro inspects_intros)
    then show ?thesis
      by (cases rule: inspects_cases [of "runtime_address fs f p sym" s])
        (auto simp: catch_exception_def catchM_def bindM_def returnM_def)
  qed
  show ?thesis
    using elf run by (auto simp: symbol_address_in_module_def bindM_def returnM_def split: option.splits)
qed

text \<open>A symbol looked up by name across the modules of a process resolves exactly when one distinct
  module defines it: with no definition the answer is none, with several the lookup throws the ambiguity
  error, and the tracee is not touched.\<close>

theorem find_module_symbol_by_name_unique:
  assumes "fs_maps fs p k = Some lines" and "name \<noteq> []"
  shows "find_module_symbol_by_name fs p name preferred k =
    (verdict (''ambiguous symbol across loaded modules: '' @ bytes_text name)
      (concat (map (\<lambda>path. answer (symbol_address_in_module fs p name preferred path) k)
        (module_paths_loop fs [] lines))), k)"
  using assms unique_candidate_spec [where s = k and result = None and
      lookup = "symbol_address_in_module fs p name preferred"] symbol_address_in_module_Ok [of fs p name preferred _ k]
  by (simp add: find_module_symbol_by_name_def mapped_module_paths_def bindM_def getM_def returnM_def)

theorem find_module_symbol_by_name_unique_witness:
  "fst (find_module_symbol_by_name example_files 77 [0x66] (example_elf\<lparr>ef_type := ET_EXEC\<rparr>) ()) =
     Ok (Some \<lparr>ma_module = ''/bin/t'', ma_name = [0x66], ma_address = 0x1000\<rparr>)"
proof -
  have "module_paths_loop example_files [] [''7f0000000000-7f0000001000 r--p 00000000 08:01 99 /lib/x'',
      ''555500000000-555500001000 r-xp 00000000 08:01 1234  /bin/t''] = [''/lib/x'', ''/bin/t'']" by code_simp
  moreover have "answer (symbol_address_in_module example_files 77 [0x66] (example_elf\<lparr>ef_type := ET_EXEC\<rparr>) ''/lib/x'') () = []"
    by code_simp
  moreover have "answer (symbol_address_in_module example_files 77 [0x66] (example_elf\<lparr>ef_type := ET_EXEC\<rparr>) ''/bin/t'') () =
      [\<lparr>ma_module = ''/bin/t'', ma_name = [0x66], ma_address = 0x1000\<rparr>]" by code_simp
  ultimately show ?thesis
    by (subst find_module_symbol_by_name_unique) (auto simp: example_files_def verdict_def)
qed

section \<open>Source lines\<close>

definition on_line :: "path \<Rightarrow> u64 \<Rightarrow> line_range \<Rightarrow> bool" where
  "on_line file line r \<longleftrightarrow> sl_line (lr_location r) = line \<and> source_matches file (sl_file (lr_location r))"

definition source_identity :: "line_range \<Rightarrow> path" where
  "source_identity r = lexically_normal (sl_file (lr_location r))"

definition least_of :: "u64 option \<Rightarrow> u64 list \<Rightarrow> u64 option" where
  "least_of best xs = (case case_option [] (\<lambda>b. [b]) best @ xs of [] \<Rightarrow> None | y # ys \<Rightarrow> Some (fold min ys y))"

lemma least_of_simps [simp]:
  "least_of best [] = best" "least_of (Some b) (x # xs) = least_of (Some (min b x)) xs"
  "least_of None (x # xs) = least_of (Some x) xs"
  by (auto simp: least_of_def min.commute split: option.split)

lemma least_of_Some:
  "\<exists>a. least_of (Some b) xs = Some a \<and> a \<in> set (b # xs) \<and> (\<forall>x \<in> set (b # xs). a \<le> x)"
proof (induction xs arbitrary: b)
  case (Cons x xs)
  from Cons.IH [of "min b x"] show ?case by (auto simp: min_def split: if_splits)
qed simp

text \<open>All elements of a list are the same.\<close>

definition agree :: "'a list \<Rightarrow> bool" where
  "agree xs \<longleftrightarrow> (\<forall>x \<in> set xs. \<forall>y \<in> set xs. x = y)"

lemma agree_simps [simp]: "agree []" "agree [x]" "agree (x # y # ys) \<longleftrightarrow> x = y \<and> agree (y # ys)"
  by (auto simp: agree_def)

lemma source_loop_spec:
  "source_loop file line best matched rs s =
    (let hits = filter (on_line file line) rs;
         ids = case_option [] (\<lambda>m. [m]) matched @ map source_identity hits in
     if \<not> qualified_query file \<and> \<not> agree ids then
       (Throw (RuntimeError (''ambiguous source file for line lookup: '' @ bytes_text file)), s)
     else (Ok (least_of best (map lr_begin hits)), s))"
proof (induction rs arbitrary: best matched)
  case Nil
  then show ?case by (auto simp: returnM_def split: option.split)
next
  case (Cons r rs)
  have best: "least_of (case best of None \<Rightarrow> Some (lr_begin r) | Some b \<Rightarrow> if lr_begin r < b then Some (lr_begin r) else best) xs
      = least_of best (lr_begin r # xs)" for xs
    by (auto simp: min_def not_less split: option.split intro: arg_cong [where f = "\<lambda>b. least_of (Some b) xs"])
  note unfolded = source_loop.simps(2) Cons.IH best Let_def
  show ?case
  proof (cases "on_line file line r")
    case False
    then have "sl_line (lr_location r) \<noteq> line \<or> \<not> source_matches file (sl_file (lr_location r))"
      by (simp add: on_line_def)
    with False show ?thesis by (simp add: Cons.IH)
  next
    case True
    then have hit: "\<not> (sl_line (lr_location r) \<noteq> line \<or> \<not> source_matches file (sl_file (lr_location r)))"
      by (simp add: on_line_def)
    have id: "normalized_source_path (sl_file (lr_location r)) = source_identity r"
      by (simp add: source_identity_def normalized_source_path_def)
    show ?thesis
    proof (cases "qualified_query file")
      case True
      with hit \<open>on_line file line r\<close> show ?thesis by (simp add: unfolded del: least_of_simps)
    next
      case False
      with hit \<open>on_line file line r\<close> show ?thesis
        by (cases matched) (auto simp: unfolded id throwM_def simp del: least_of_simps)
    qed
  qed
qed

lemma upper_bound_last:
  assumes "sorted (map lr_begin rs)" and "r \<in> set rs"
  shows "\<exists>q. takeWhile (\<lambda>x. \<not> lr_begin r < lr_begin x) rs \<noteq> [] \<and>
    last (takeWhile (\<lambda>x. \<not> lr_begin r < lr_begin x) rs) = q \<and> q \<in> set rs \<and> lr_begin q = lr_begin r"
  using assms
proof (induction rs)
  case (Cons x rs)
  show ?case
  proof (cases "r \<in> set rs")
    case True
    then have "\<not> lr_begin r < lr_begin x" using Cons.prems by (auto simp: not_less)
    with Cons.IH Cons.prems True show ?thesis by auto
  next
    case False
    then have x: "x = r" using Cons.prems by simp
    have above: "\<forall>y \<in> set rs. lr_begin r \<le> lr_begin y" using Cons.prems(1) x by simp
    let ?t = "takeWhile (\<lambda>y. \<not> lr_begin r < lr_begin y) rs"
    have "lr_begin y = lr_begin r" if "y \<in> set ?t" for y
      using set_takeWhileD [OF that] above by (meson antisym not_less)
    note same = this
    show ?thesis
    proof (cases "?t = []")
      case False
      then have mem: "last ?t \<in> set ?t" by simp
      have "last ?t \<in> set rs" "lr_begin (last ?t) = lr_begin r"
        using set_takeWhileD [OF mem] same [OF mem] by blast+
      with False x show ?thesis by auto
    qed (simp add: x)
  qed
qed simp

lemma sorted_begin: "sorted (map range_key rs) \<Longrightarrow> sorted (map lr_begin rs)"
  by (induction rs) (auto simp: range_key_def less_eq_prod_def)

lemma find_virtual_address_begin:
  assumes "table_ok t" and "sorted (map range_key (lt_ranges t))" and "r \<in> set (lt_ranges t)"
  shows "find_virtual_address t (lr_begin r) \<noteq> None"
proof -
  have "sorted (map lr_begin (lt_ranges t))"
    using assms(2) by (rule sorted_begin)
  from upper_bound_last [OF this assms(3)] obtain q where
    q: "takeWhile (\<lambda>x. \<not> lr_begin r < lr_begin x) (lt_ranges t) \<noteq> []"
      "last (takeWhile (\<lambda>x. \<not> lr_begin r < lr_begin x) (lt_ranges t)) = q"
      "q \<in> set (lt_ranges t)" "lr_begin q = lr_begin r" by blast
  moreover have "lr_begin q < lr_end q" using assms(1) q(3) by (auto simp: table_ok_def ranges_ok_def)
  ultimately show ?thesis by (auto simp: find_virtual_address_def Let_def)
qed


definition example_lines :: line_table where
  "example_lines = \<lparr>lt_file_tables = [\<lparr>ft_dwarf5 = True, ft_files = [text_bytes ''/b/x.c'']\<rparr>], lt_ranges =
     [\<lparr>lr_begin = 16, lr_end = 20, lr_location = \<lparr>sl_file = text_bytes ''/b/x.c'', sl_line = 3, sl_column = 0\<rparr>, lr_table = 0\<rparr>,
      \<lparr>lr_begin = 32, lr_end = 36, lr_location = \<lparr>sl_file = text_bytes ''/b/x.c'', sl_line = 3, sl_column = 0\<rparr>, lr_table = 0\<rparr>]\<rparr>"


end
