(* ===== verification/SourceMotion.thy ===== *)
theory SourceMotion
  imports CfiUnwind CallDecoder FramePointer
begin

text \<open>
  Source-level motion on a live session: \<^verbatim>\<open>step_source\<close> and \<^verbatim>\<open>next_source\<close> of
  \<^verbatim>\<open>src/src/source/source_step.cpp\<close> and the two \<^verbatim>\<open>finish\<close> commands of \<^verbatim>\<open>src/src/source/source_finish.cpp\<close>.
  The step loops are structural in the number of instructions left; the argument \<open>n\<close> is the fuel of the
  waits below them.
\<close>

section \<open>Positions\<close>

record module_source_position =
  sp_module :: string
  sp_source :: source_location

definition same_source_line :: "source_location \<Rightarrow> source_location \<Rightarrow> bool" where
  "same_source_line l r \<longleftrightarrow> sl_file l = sl_file r \<and> sl_line l = sl_line r"

definition same_position_line :: "module_source_position \<Rightarrow> module_source_position \<Rightarrow> bool" where
  "same_position_line l r \<longleftrightarrow> sp_module l = sp_module r \<and> same_source_line (sp_source l) (sp_source r)"

definition current_module_source ::
  "'k os \<Rightarrow> 'k files \<Rightarrow> elf_file \<Rightarrow> ('k world, module_source_position option) prog" where
  "current_module_source os fs elf = bindM dbgM (\<lambda>d.
    if p_state (d_process d) \<noteq> PS_Stopped then returnM None
    else bindM (registers os) (\<lambda>regs.
      bindM (on_kern (find_module_source_by_runtime_address fs (debugger_pid d) (rip regs) elf)) (\<lambda>resolved.
      returnM (map_option (\<lambda>r. \<lparr>sp_module = mo_module r, sp_source =
        \<lparr>sl_file = mo_file r, sl_line = mo_line r, sl_column = mo_column r\<rparr>\<rparr>) resolved))))"

definition source_only :: "module_source_position option \<Rightarrow> source_location option" where
  "source_only = map_option sp_source"

definition module_only :: "module_source_position option \<Rightarrow> string option" where
  "module_only = map_option sp_module"

section \<open>Calls and temporary breakpoints\<close>

text \<open>The byte reader of the call decoder on the tracee.\<close>

definition instruction_byte :: "'k os \<Rightarrow> u64 \<Rightarrow> nat \<Rightarrow> ('k world, u8 option) prog" where
  "instruction_byte os ip offset =
    (if of_nat offset > - 1 - ip then returnM None
     else bindM (read_memory os (ip + of_nat offset) 1) (\<lambda>bytes.
       returnM (case bytes of [] \<Rightarrow> None | b # _ \<Rightarrow> Some b)))"

definition supported_call_return_address :: "'k os \<Rightarrow> ('k world, u64 option) prog" where
  "supported_call_return_address os = bindM (registers os) (\<lambda>regs.
     bindM (decode_near_call (instruction_byte os (rip regs))) (\<lambda>len. case len of
       None \<Rightarrow> returnM None
     | Some instruction_length \<Rightarrow>
         if rip regs > - 1 - of_nat instruction_length
         then throwM (RuntimeError ''call return address overflows address space'')
         else returnM (Some (rip regs + of_nat instruction_length))))"

definition has_breakpoint_at :: "debugger \<Rightarrow> u64 \<Rightarrow> bool" where
  "has_breakpoint_at d address \<longleftrightarrow> (\<exists>bp \<in> set (breakpoints d). bp_address bp = address)"

definition remove_temporary_breakpoint :: "'k os \<Rightarrow> string \<Rightarrow> nat option \<Rightarrow> ('k world, unit) prog" where
  "remove_temporary_breakpoint os operation temporary = (case temporary of
     None \<Rightarrow> returnM ()
   | Some i \<Rightarrow> bindM (remove_breakpoint os i) (\<lambda>removed.
       if \<not> removed then throwM (LogicError (''temporary '' @ operation @ '' breakpoint disappeared''))
       else returnM ()))"

text \<open>\<^verbatim>\<open>try { continue_execution } catch (...)\<close>: a failing run removes the temporary breakpoint when it can,
  and rethrows.\<close>

definition continue_or_clean :: "'k os \<Rightarrow> nat \<Rightarrow> string \<Rightarrow> nat option \<Rightarrow> ('k world, stop_info) prog" where
  "continue_or_clean os n operation temporary =
    catchM (continue_execution os n Suppress) (\<lambda>e. bindM dbgM (\<lambda>d.
      thenM (whenM (temporary \<noteq> None \<and> p_state (d_process d) \<noteq> PS_Running)
        (catchM (remove_temporary_breakpoint os operation temporary) (\<lambda>_. returnM ())))
      (throwM e)))"

text \<open>Running to an address with a temporary breakpoint when the user has none there: the stop, whether
  it is the arrival, and whether the user's breakpoint was used.\<close>

definition run_to_address :: "'k os \<Rightarrow> nat \<Rightarrow> string \<Rightarrow> u64 \<Rightarrow> ('k world, stop_info \<times> bool \<times> bool) prog" where
  "run_to_address os n operation return_address = bindM dbgM (\<lambda>d.
    let user_breakpoint = has_breakpoint_at d return_address in
    bindM (if user_breakpoint then returnM None
           else bindM (add_breakpoint os return_address) (\<lambda>i. returnM (Some i))) (\<lambda>temporary.
    bindM (continue_or_clean os n operation temporary) (\<lambda>stop.
    let returned = (si_reason stop = SR_Breakpoint \<and> si_breakpoint_address stop = Some return_address) in
    thenM (remove_temporary_breakpoint os operation temporary)
    (returnM (stop, returned, user_breakpoint)))))"

definition validate_source_motion :: "nat \<Rightarrow> string \<Rightarrow> ('k world, unit) prog" where
  "validate_source_motion instruction_limit operation =
    (if instruction_limit = 0 then throwM (InvalidArgument (operation @ '' instruction limit must be positive''))
     else bindM dbgM (\<lambda>d.
       if p_state (d_process d) \<noteq> PS_Stopped
       then throwM (LogicError (operation @ '' requires a stopped tracee'')) else returnM ()))"

section \<open>Stepping by source line\<close>

datatype source_step_reason = SS_LineChanged | SS_Interrupted | SS_InstructionLimit

record source_step_result =
  sr_reason :: source_step_reason
  sr_stop :: stop_info
  sr_source :: "source_location option"
  sr_instructions :: nat
  sr_module :: "string option"

definition step_result ::
  "source_step_reason \<Rightarrow> stop_info \<Rightarrow> module_source_position option \<Rightarrow> nat \<Rightarrow> source_step_result" where
  "step_result reason stop source instructions = \<lparr>sr_reason = reason, sr_stop = stop,
     sr_source = source_only source, sr_instructions = instructions, sr_module = module_only source\<rparr>"

definition line_changed :: "module_source_position option \<Rightarrow> module_source_position \<Rightarrow> bool" where
  "line_changed source start = (case source of None \<Rightarrow> False | Some s \<Rightarrow> \<not> same_position_line s start)"

definition limit_result :: "'k os \<Rightarrow> 'k files \<Rightarrow> elf_file \<Rightarrow> nat \<Rightarrow> ('k world, source_step_result) prog" where
  "limit_result os fs elf instruction_limit = bindM (current_module_source os fs elf) (\<lambda>source. bindM dbgM (\<lambda>d.
     returnM (step_result SS_InstructionLimit (d_stop_info d) source instruction_limit)))"

text \<open>One single step of the loops: \<open>Some\<close> result ends the loop.\<close>

definition step_instruction ::
  "'k os \<Rightarrow> 'k files \<Rightarrow> nat \<Rightarrow> elf_file \<Rightarrow> module_source_position \<Rightarrow> nat \<Rightarrow> ('k world, source_step_result option) prog" where
  "step_instruction os fs n elf start instructions = bindM (single_step os n Suppress) (\<lambda>stop.
     bindM (current_module_source os fs elf) (\<lambda>source.
     returnM (if si_reason stop \<noteq> SR_SingleStep then Some (step_result SS_Interrupted stop source instructions)
       else if line_changed source start then Some (step_result SS_LineChanged stop source instructions)
       else None)))"

text \<open>The \<^verbatim>\<open>for\<close> loop over the instructions: the number counts those left.\<close>

fun motion_loop ::
  "(nat \<Rightarrow> ('k world, source_step_result option) prog) \<Rightarrow> ('k world, source_step_result) prog \<Rightarrow> nat \<Rightarrow> nat \<Rightarrow>
     ('k world, source_step_result) prog" where
  "motion_loop body at_limit instructions 0 = at_limit"
| "motion_loop body at_limit instructions (Suc left) = bindM (body instructions) (\<lambda>r. case r of
     Some result \<Rightarrow> returnM result | None \<Rightarrow> motion_loop body at_limit (instructions + 1) left)"

definition step_source ::
  "'k os \<Rightarrow> 'k files \<Rightarrow> nat \<Rightarrow> elf_file \<Rightarrow> nat \<Rightarrow> ('k world, source_step_result) prog" where
  "step_source os fs n elf instruction_limit =
    thenM (validate_source_motion instruction_limit ''source step'')
    (bindM (current_module_source os fs elf) (\<lambda>found. case found of
      None \<Rightarrow> throwM (InvalidArgument ''current instruction has no source location'')
    | Some start \<Rightarrow> motion_loop (step_instruction os fs n elf start) (limit_result os fs elf instruction_limit)
        1 instruction_limit))"

definition next_instruction ::
  "'k os \<Rightarrow> 'k files \<Rightarrow> nat \<Rightarrow> elf_file \<Rightarrow> module_source_position \<Rightarrow> nat \<Rightarrow> ('k world, source_step_result option) prog" where
  "next_instruction os fs n elf start instructions = bindM (supported_call_return_address os) (\<lambda>call. case call of
     Some return_address \<Rightarrow> bindM (run_to_address os n ''next'' return_address) (\<lambda>(stop, returned, user_breakpoint).
       bindM (current_module_source os fs elf) (\<lambda>source.
       returnM (if \<not> returned \<or> user_breakpoint then Some (step_result SS_Interrupted stop source instructions)
         else if line_changed source start then Some (step_result SS_LineChanged stop source instructions)
         else None)))
   | None \<Rightarrow> step_instruction os fs n elf start instructions)"

definition next_source ::
  "'k os \<Rightarrow> 'k files \<Rightarrow> nat \<Rightarrow> elf_file \<Rightarrow> nat \<Rightarrow> ('k world, source_step_result) prog" where
  "next_source os fs n elf instruction_limit =
    thenM (validate_source_motion instruction_limit ''source next'')
    (bindM (current_module_source os fs elf) (\<lambda>found. case found of
      None \<Rightarrow> throwM (InvalidArgument ''current instruction has no source location'')
    | Some start \<Rightarrow> motion_loop (next_instruction os fs n elf start) (limit_result os fs elf instruction_limit)
        1 instruction_limit))"

section \<open>Finishing a frame\<close>

datatype finish_reason = FR_Returned | FR_Interrupted

record finish_result =
  fr_reason :: finish_reason
  fr_stop :: stop_info
  fr_return_address :: u64

abbreviation (input) kMaxFrameSpan :: u64 where "kMaxFrameSpan \<equiv> 16777216"

definition finish_executable :: "'k os \<Rightarrow> pid \<Rightarrow> ('k, string) prog" where
  "finish_executable os p = bindM getM (\<lambda>k. case k_read_exe os p k of
     None \<Rightarrow> throwM (RuntimeError ''failed to resolve tracee executable for finish'')
   | Some path \<Rightarrow> returnM path)"

definition frame_pointer_return_address :: "'k os \<Rightarrow> ('k world, u64) prog" where
  "frame_pointer_return_address os = bindM dbgM (\<lambda>d.
    if p_state (d_process d) \<noteq> PS_Stopped then throwM (LogicError ''finish requires a stopped tracee'')
    else bindM (registers os) (\<lambda>regs.
      let frame_pointer = rbp regs in
      if frame_pointer = 0 then throwM (InvalidArgument ''finish requires a non-zero frame pointer'')
      else if unat frame_pointer mod 8 \<noteq> 0
      then throwM (InvalidArgument ''finish requires an aligned frame pointer'')
      else if frame_pointer > - 1 - 16
      then throwM (InvalidArgument ''finish frame record overflows address space'')
      else bindM (catchM (read_memory os frame_pointer 16) (\<lambda>e.
             if is_ptrace_error e then throwM (InvalidArgument ''finish frame record is unreadable'')
             else throwM e)) (\<lambda>frame_data.
        let previous_frame = read_u64_at frame_data 0; return_address = read_u64_at frame_data 8 in
        if return_address = 0 then throwM (InvalidArgument ''finish frame has no return address'')
        else if previous_frame \<noteq> 0 \<and> (unat previous_frame mod 8 \<noteq> 0 \<or> previous_frame \<le> frame_pointer \<or>
                previous_frame - frame_pointer > kMaxFrameSpan)
        then throwM (InvalidArgument ''finish encountered an invalid frame-pointer chain'')
        else returnM return_address)))"

definition automatic_return_address :: "'k os \<Rightarrow> 'k files \<Rightarrow> ('k world, u64) prog" where
  "automatic_return_address os fs = bindM dbgM (\<lambda>d.
    if p_state (d_process d) \<noteq> PS_Stopped then throwM (LogicError ''finish requires a stopped tracee'')
    else bindM (on_kern (finish_executable os (debugger_pid d))) (\<lambda>executable.
      bindM (on_kern (open_elf fs executable)) (\<lambda>elf.
      bindM (on_kern (open_eh_frame fs executable)) (\<lambda>cfi.
      bindM (module_caller_return_address os fs elf cfi) (\<lambda>found. case found of
        Some return_address \<Rightarrow> returnM return_address
      | None \<Rightarrow> frame_pointer_return_address os)))))"

definition run_to_return_address :: "'k os \<Rightarrow> nat \<Rightarrow> u64 \<Rightarrow> ('k world, finish_result) prog" where
  "run_to_return_address os n return_address =
    bindM (run_to_address os n ''finish'' return_address) (\<lambda>(stop, returned, user_breakpoint).
    returnM \<lparr>fr_reason = (if returned \<and> \<not> user_breakpoint then FR_Returned else FR_Interrupted),
      fr_stop = stop, fr_return_address = return_address\<rparr>)"

definition finish_frame :: "'k os \<Rightarrow> 'k files \<Rightarrow> nat \<Rightarrow> ('k world, finish_result) prog" where
  "finish_frame os fs n = bindM (automatic_return_address os fs) (run_to_return_address os n)"

definition finish_frame_pointer :: "'k os \<Rightarrow> nat \<Rightarrow> ('k world, finish_result) prog" where
  "finish_frame_pointer os n = bindM (frame_pointer_return_address os) (run_to_return_address os n)"

end
