(* ===== verification/Deferred.thy ===== *)
theory Deferred
  imports CfiUnwind
begin

text \<open>
  Deferred breakpoints, \<^verbatim>\<open>src/src/loader/deferred_symbol_breakpoints.cpp\<close>: requests for symbols and source
  lines of modules that may be loaded later, watched through the rendezvous of the dynamic loader. The
  class holds references to the debugger and the executable: its operations run on the world paired with
  the object. The loop of \<^verbatim>\<open>continue_execution\<close> goes on as long as internal stops occur and takes fuel.
\<close>

datatype target_kind = TK_Symbol | TK_Source

record deferred_target =
  dt_kind :: target_kind
  dt_name :: "u8 list"
  dt_line :: u64

record deferred_breakpoint =
  db_request_id :: nat
  db_target :: deferred_target
  db_breakpoint_id :: "nat option"
  db_address :: "u64 option"

record loader_metadata =
  lm_entry :: u64
  lm_dt_debug :: u64

record deferred =
  df_metadata :: loader_metadata
  df_requests :: "(nat, deferred_breakpoint) smap"
  df_next_request_id :: nat
  df_r_debug :: "u64 option"
  df_bootstrap_id :: "nat option"
  df_bootstrap_address :: "u64 option"
  df_loader_id :: "nat option"
  df_loader_address :: "u64 option"

type_synonym 'k dworld = "'k world \<times> deferred"

definition deferredM :: "('k dworld, deferred) prog" where
  "deferredM = bindM getM (\<lambda>x. returnM (snd x))"

definition modify_deferred :: "(deferred \<Rightarrow> deferred) \<Rightarrow> ('k dworld, unit) prog" where
  "modify_deferred f = modifyM (\<lambda>(w, d). (w, f d))"

definition same_target :: "deferred_target \<Rightarrow> deferred_target \<Rightarrow> bool" where
  "same_target l r \<longleftrightarrow> dt_kind l = dt_kind r \<and> dt_name l = dt_name r \<and> dt_line l = dt_line r"

section \<open>Loader metadata of the executable\<close>

definition read_file_struct :: "nat \<Rightarrow> u8 list \<Rightarrow> nat \<Rightarrow> string \<Rightarrow> ('s, u8 list) prog" where
  "read_file_struct width bytes offset what =
    (if offset > 0x7fffffffffffffff then throwM (RuntimeError (what @ '' offset is out of range''))
     else if offset + width > length bytes then throwM (RuntimeError (''failed to read '' @ what))
     else returnM (take width (drop offset bytes)))"

abbreviation (input) PT_DYNAMIC :: nat where "PT_DYNAMIC \<equiv> 2"
abbreviation (input) dyn_size :: nat where "dyn_size \<equiv> 16"
abbreviation (input) DT_NULL :: nat where "DT_NULL \<equiv> 0"
abbreviation (input) DT_DEBUG :: nat where "DT_DEBUG \<equiv> 21"

text \<open>The entries of a dynamic segment, up to the terminator or the debug entry.\<close>

fun dynamic_loop :: "u8 list \<Rightarrow> program_header \<Rightarrow> nat \<Rightarrow> nat \<Rightarrow> ('s, u64 option) prog" where
  "dynamic_loop bytes phdr dyn_index 0 = returnM None"
| "dynamic_loop bytes phdr dyn_index (Suc n) =
    bindM (read_file_struct dyn_size bytes (wrap64 (ph_offset phdr + dyn_index * dyn_size)) ''dynamic entry'') (\<lambda>entry.
    if field 0 8 entry = DT_NULL then returnM None
    else if field 0 8 entry \<noteq> DT_DEBUG then dynamic_loop bytes phdr (dyn_index + 1) n
    else returnM (Some (of_nat (ph_vaddr phdr + dyn_index * dyn_size + 8))))"

fun metadata_loop :: "u8 list \<Rightarrow> nat \<Rightarrow> nat \<Rightarrow> nat \<Rightarrow> ('s, u64 option) prog" where
  "metadata_loop bytes phoff index 0 = returnM None"
| "metadata_loop bytes phoff index (Suc n) =
    bindM (read_file_struct phdr_size bytes (wrap64 (phoff + index * phdr_size)) ''program header'') (\<lambda>raw.
    let phdr = decode_phdr raw in
    if ph_type phdr \<noteq> PT_DYNAMIC then metadata_loop bytes phoff (index + 1) n
    else if ph_filesz phdr mod dyn_size \<noteq> 0
    then throwM (RuntimeError ''dynamic segment has a partial ELF64 dynamic entry'')
    else bindM (dynamic_loop bytes phdr 0 (ph_filesz phdr div dyn_size)) (\<lambda>found. case found of
      Some address \<Rightarrow> returnM (Some address)
    | None \<Rightarrow> metadata_loop bytes phoff (index + 1) n))"

definition parse_loader_metadata :: "u8 list \<Rightarrow> ('s, loader_metadata) prog" where
  "parse_loader_metadata bytes = bindM (read_file_struct ehdr_size bytes 0 ''ELF header'') (\<lambda>raw.
    let header = decode_ehdr raw in
    if \<not> has_elf_magic header \<or> \<not> is_elf64_lsb header \<or> e_machine header \<noteq> EM_X86_64
    then throwM (RuntimeError ''loader rendezvous requires little-endian x86-64 ELF64'')
    else if e_phentsize header \<noteq> phdr_size
    then throwM (RuntimeError ''unsupported program-header entry size for loader rendezvous'')
    else bindM (metadata_loop bytes (e_phoff header) 0 (e_phnum header)) (\<lambda>found. case found of
      None \<Rightarrow> throwM (RuntimeError ''executable has no DT_DEBUG loader rendezvous slot'')
    | Some address \<Rightarrow> returnM \<lparr>lm_entry = of_nat (e_entry header), lm_dt_debug = address\<rparr>))"

definition read_loader_metadata :: "'k files \<Rightarrow> string \<Rightarrow> ('k, loader_metadata) prog" where
  "read_loader_metadata fs path = bindM getM (\<lambda>k. case fs_contents fs path k of
     Cannot_open \<Rightarrow> throwM (RuntimeError (''failed to open executable for loader metadata: '' @ path))
   | Contents bytes \<Rightarrow> parse_loader_metadata bytes
   | _ \<Rightarrow> throwM (RuntimeError ''failed to read ELF header''))"

definition init_deferred :: "'k files \<Rightarrow> elf_file \<Rightarrow> ('k, deferred) prog" where
  "init_deferred fs executable = bindM (read_loader_metadata fs (ef_path executable)) (\<lambda>m.
     returnM \<lparr>df_metadata = m, df_requests = smap_empty, df_next_request_id = 1, df_r_debug = None,
       df_bootstrap_id = None, df_bootstrap_address = None, df_loader_id = None, df_loader_address = None\<rparr>)"

section \<open>The loader in the tracee\<close>

definition loader_runtime_address :: "'k files \<Rightarrow> elf_file \<Rightarrow> u64 \<Rightarrow> ('k world, u64) prog" where
  "loader_runtime_address fs executable virtual_address = bindM dbgM (\<lambda>d.
     bindM (on_kern (load_bias fs executable (debugger_pid d))) (\<lambda>bias.
     if virtual_address > - 1 - bias
     then throwM (RuntimeError ''loader runtime address overflows address space'')
     else returnM (bias + virtual_address)))"

definition read_loader_u64 :: "'k os \<Rightarrow> u64 \<Rightarrow> ('k world, u64) prog" where
  "read_loader_u64 os address = bindM (read_memory os address 8) (\<lambda>bytes.
     if length bytes \<noteq> 8 then throwM (RuntimeError ''failed to read loader pointer from tracee'')
     else returnM (le_word bytes))"

definition current_r_debug_address ::
  "'k os \<Rightarrow> 'k files \<Rightarrow> elf_file \<Rightarrow> deferred \<Rightarrow> ('k world, u64 option) prog" where
  "current_r_debug_address os fs executable df =
    bindM (loader_runtime_address fs executable (lm_dt_debug (df_metadata df))) (\<lambda>slot.
    bindM (read_loader_u64 os slot) (\<lambda>v. returnM (if v = 0 then None else Some v)))"

abbreviation (input) r_debug_size :: nat where "r_debug_size \<equiv> 40"
abbreviation (input) RT_CONSISTENT :: nat where "RT_CONSISTENT \<equiv> 0"

definition current_loader_break_address :: "'k os \<Rightarrow> deferred \<Rightarrow> ('k world, u64) prog" where
  "current_loader_break_address os df = (case df_r_debug df of
     None \<Rightarrow> throwM (LogicError ''r_debug address is not initialized'')
   | Some address \<Rightarrow> bindM (read_memory os address r_debug_size) (\<lambda>bytes.
       if length bytes \<noteq> r_debug_size then throwM (RuntimeError ''failed to read r_debug rendezvous'')
       else if sint (of_nat (field 0 4 bytes) :: u32) \<le> 0 \<or> field 16 8 bytes = 0
       then throwM (RuntimeError ''dynamic loader rendezvous is not initialized'')
       else returnM (of_nat (field 16 8 bytes))))"

definition loader_state_is_consistent :: "'k os \<Rightarrow> deferred \<Rightarrow> ('k world, bool) prog" where
  "loader_state_is_consistent os df = (case df_r_debug df of
     None \<Rightarrow> returnM False
   | Some address \<Rightarrow> bindM (read_memory os address r_debug_size) (\<lambda>bytes.
       if length bytes \<noteq> r_debug_size then throwM (RuntimeError ''failed to read r_debug state'')
       else returnM (field 24 4 bytes = RT_CONSISTENT)))"

definition resolve_target :: "'k files \<Rightarrow> elf_file \<Rightarrow> deferred_target \<Rightarrow> ('k world, u64 option) prog" where
  "resolve_target fs executable target = bindM dbgM (\<lambda>d.
     if dt_kind target = TK_Symbol
     then bindM (on_kern (find_module_symbol_by_name fs (debugger_pid d) (dt_name target) executable)) (\<lambda>r.
       returnM (map_option ma_address r))
     else bindM (on_kern (find_module_source_by_file_line fs (debugger_pid d) (dt_name target) (dt_line target) executable))
       (\<lambda>r. returnM (map_option mu_address r)))"

section \<open>Monitoring the loader\<close>

definition try_install_loader_breakpoint :: "'k os \<Rightarrow> 'k files \<Rightarrow> elf_file \<Rightarrow> ('k dworld, bool) prog" where
  "try_install_loader_breakpoint os fs executable = bindM deferredM (\<lambda>df.
    bindM (on_world (current_r_debug_address os fs executable df)) (\<lambda>found. case found of
      None \<Rightarrow> returnM False
    | Some address \<Rightarrow>
        thenM (modify_deferred (\<lambda>d. d\<lparr>df_r_debug := Some address\<rparr>))
        (bindM deferredM (\<lambda>df'.
         bindM (on_world (current_loader_break_address os df')) (\<lambda>loader_break.
         thenM (modify_deferred (\<lambda>d. d\<lparr>df_loader_address := Some loader_break\<rparr>))
         (bindM (on_world (add_breakpoint os loader_break)) (\<lambda>i.
          thenM (modify_deferred (\<lambda>d. d\<lparr>df_loader_id := Some i\<rparr>)) (returnM True)))))))) "

definition install_bootstrap_breakpoint :: "'k os \<Rightarrow> 'k files \<Rightarrow> elf_file \<Rightarrow> ('k dworld, unit) prog" where
  "install_bootstrap_breakpoint os fs executable = bindM deferredM (\<lambda>df.
    bindM (on_world (loader_runtime_address fs executable (lm_entry (df_metadata df)))) (\<lambda>entry.
    thenM (modify_deferred (\<lambda>d. d\<lparr>df_bootstrap_address := Some entry\<rparr>))
    (bindM (on_world (add_breakpoint os entry)) (\<lambda>i.
     modify_deferred (\<lambda>d. d\<lparr>df_bootstrap_id := Some i\<rparr>)))))"

definition ensure_monitoring :: "'k os \<Rightarrow> 'k files \<Rightarrow> elf_file \<Rightarrow> ('k dworld, unit) prog" where
  "ensure_monitoring os fs executable = bindM deferredM (\<lambda>df.
    if df_requests df = [] \<or> df_loader_id df \<noteq> None \<or> df_bootstrap_id df \<noteq> None then returnM ()
    else bindM (try_install_loader_breakpoint os fs executable) (\<lambda>installed.
      if installed then returnM () else install_bootstrap_breakpoint os fs executable))"

text \<open>\<^verbatim>\<open>remove_internal_breakpoint\<close>: what happens in the debugger, for either of the two breakpoints.\<close>

definition drop_internal :: "'k os \<Rightarrow> nat option \<Rightarrow> ('k dworld, unit) prog" where
  "drop_internal os owned = (case owned of
     None \<Rightarrow> returnM ()
   | Some i \<Rightarrow> catchM (bindM (on_world dbgM) (\<lambda>d.
         if p_state (d_process d) = PS_Stopped
         then bindM (on_world (remove_breakpoint os i)) (\<lambda>_. returnM ()) else returnM ()))
       (\<lambda>_. returnM ()))"

definition remove_loader_breakpoint :: "'k os \<Rightarrow> ('k dworld, unit) prog" where
  "remove_loader_breakpoint os = bindM deferredM (\<lambda>df. thenM (drop_internal os (df_loader_id df))
     (modify_deferred (\<lambda>d. d\<lparr>df_loader_id := None, df_loader_address := None\<rparr>)))"

definition remove_bootstrap_breakpoint :: "'k os \<Rightarrow> ('k dworld, unit) prog" where
  "remove_bootstrap_breakpoint os = bindM deferredM (\<lambda>df. thenM (drop_internal os (df_bootstrap_id df))
     (modify_deferred (\<lambda>d. d\<lparr>df_bootstrap_id := None, df_bootstrap_address := None\<rparr>)))"

definition suspend_monitoring :: "'k os \<Rightarrow> ('k dworld, unit) prog" where
  "suspend_monitoring os = thenM (remove_loader_breakpoint os) (remove_bootstrap_breakpoint os)"

definition stop_monitoring_if_idle :: "'k os \<Rightarrow> ('k dworld, unit) prog" where
  "stop_monitoring_if_idle os = bindM deferredM (\<lambda>df.
    if df_requests df \<noteq> [] then returnM ()
    else thenM (suspend_monitoring os) (modify_deferred (\<lambda>d. d\<lparr>df_r_debug := None\<rparr>)))"

section \<open>Requests\<close>

text \<open>The handler of \<^verbatim>\<open>add_target\<close>: the request is taken back and the exception goes on.\<close>

definition undo_request :: "'k os \<Rightarrow> nat \<Rightarrow> exn \<Rightarrow> ('k dworld, unit) prog" where
  "undo_request os request_id e = bindM deferredM (\<lambda>d.
    thenM (case smap_find (df_requests d) request_id of
        Some r \<Rightarrow> (case db_breakpoint_id r of
          Some i \<Rightarrow> bindM (on_world (remove_breakpoint os i)) (\<lambda>_. returnM ())
        | None \<Rightarrow> returnM ())
      | None \<Rightarrow> returnM ())
    (thenM (modify_deferred (\<lambda>d. d\<lparr>df_requests := smap_erase request_id (df_requests d)\<rparr>)) (throwM e)))"

definition add_target :: "'k os \<Rightarrow> 'k files \<Rightarrow> elf_file \<Rightarrow> deferred_target \<Rightarrow> ('k dworld, nat) prog" where
  "add_target os fs executable target = bindM (on_world dbgM) (\<lambda>dbg0.
    if p_state (d_process dbg0) \<noteq> PS_Stopped
    then throwM (LogicError ''deferred breakpoints can only be modified while stopped'')
    else bindM deferredM (\<lambda>df.
      if (\<exists>x \<in> set (df_requests df). same_target (db_target (snd x)) target)
      then throwM (InvalidArgument ''a deferred breakpoint request already exists for that target'')
      else let request_id = df_next_request_id df in
        thenM (modify_deferred (\<lambda>d. d\<lparr>df_next_request_id := request_id + 1\<rparr>))
        (bindM (on_world (resolve_target fs executable target)) (\<lambda>resolved.
         bindM (case resolved of
             None \<Rightarrow> returnM None
           | Some address \<Rightarrow> bindM (on_world (add_breakpoint os address)) (\<lambda>i. returnM (Some i))) (\<lambda>breakpoint_id.
         thenM (modify_deferred (\<lambda>d. d\<lparr>df_requests := smap_emplace request_id \<lparr>db_request_id = request_id,
             db_target = target, db_breakpoint_id = breakpoint_id, db_address = resolved\<rparr> (df_requests d)\<rparr>))
         (thenM (catchM (ensure_monitoring os fs executable) (undo_request os request_id))
          (returnM request_id)))))))"

definition deferred_add_symbol :: "'k os \<Rightarrow> 'k files \<Rightarrow> elf_file \<Rightarrow> u8 list \<Rightarrow> ('k dworld, nat) prog" where
  "deferred_add_symbol os fs executable symbol =
    (if symbol = [] then throwM (InvalidArgument ''deferred symbol must not be empty'')
     else add_target os fs executable \<lparr>dt_kind = TK_Symbol, dt_name = symbol, dt_line = 0\<rparr>)"

definition deferred_add_source :: "'k os \<Rightarrow> 'k files \<Rightarrow> elf_file \<Rightarrow> u8 list \<Rightarrow> u64 \<Rightarrow> ('k dworld, nat) prog" where
  "deferred_add_source os fs executable file line =
    (if file = [] then throwM (InvalidArgument ''deferred source file must not be empty'')
     else if line = 0 then throwM (InvalidArgument ''deferred source line must be non-zero'')
     else add_target os fs executable \<lparr>dt_kind = TK_Source, dt_name = file, dt_line = line\<rparr>)"

definition deferred_remove :: "'k os \<Rightarrow> nat \<Rightarrow> ('k dworld, bool) prog" where
  "deferred_remove os request_id = bindM deferredM (\<lambda>df. case smap_find (df_requests df) request_id of
     None \<Rightarrow> returnM False
   | Some r \<Rightarrow>
       thenM (case db_breakpoint_id r of
           None \<Rightarrow> returnM ()
         | Some i \<Rightarrow> bindM (on_world (remove_breakpoint os i)) (\<lambda>removed.
             if removed then returnM ()
             else throwM (LogicError ''resolved deferred breakpoint disappeared from debugger state'')))
       (thenM (modify_deferred (\<lambda>d. d\<lparr>df_requests := smap_erase request_id (df_requests d)\<rparr>))
       (thenM (stop_monitoring_if_idle os) (returnM True))))"

definition deferred_breakpoints :: "deferred \<Rightarrow> deferred_breakpoint list" where
  "deferred_breakpoints df = map snd (df_requests df)"

section \<open>Reconciling with the loaded modules\<close>

definition put_request :: "nat \<Rightarrow> (deferred_breakpoint \<Rightarrow> deferred_breakpoint) \<Rightarrow> ('k dworld, unit) prog" where
  "put_request key f = modify_deferred (\<lambda>d. d\<lparr>df_requests :=
     smap_map (\<lambda>k r. if k = key then f r else r) (df_requests d)\<rparr>)"

definition install_request :: "'k os \<Rightarrow> nat \<Rightarrow> u64 option \<Rightarrow> ('k dworld, unit) prog" where
  "install_request os key resolved = (case resolved of
     None \<Rightarrow> returnM ()
   | Some address \<Rightarrow>
       thenM (put_request key (\<lambda>r. r\<lparr>db_address := Some address\<rparr>))
       (bindM (on_world (add_breakpoint os address)) (\<lambda>i.
        put_request key (\<lambda>r. r\<lparr>db_breakpoint_id := Some i\<rparr>))))"

definition reconcile_request :: "'k os \<Rightarrow> 'k files \<Rightarrow> elf_file \<Rightarrow> nat \<times> deferred_breakpoint \<Rightarrow> ('k dworld, unit) prog" where
  "reconcile_request os fs executable entry = (case entry of (key, request) \<Rightarrow>
    bindM (on_world (resolve_target fs executable (db_target request))) (\<lambda>resolved.
    case db_breakpoint_id request of
      None \<Rightarrow> install_request os key resolved
    | Some i \<Rightarrow> (case db_address request of
        None \<Rightarrow> throwM (LogicError ''resolved deferred breakpoint has no address'')
      | Some address \<Rightarrow>
          if resolved = Some address then returnM ()
          else bindM (on_world (discard_breakpoint i)) (\<lambda>discarded.
            if \<not> discarded
            then throwM (LogicError ''stale deferred breakpoint disappeared from debugger state'')
            else thenM (put_request key (\<lambda>r. r\<lparr>db_breakpoint_id := None, db_address := None\<rparr>))
              (install_request os key resolved)))))"

definition reconcile_requests :: "'k os \<Rightarrow> 'k files \<Rightarrow> elf_file \<Rightarrow> ('k dworld, unit) prog" where
  "reconcile_requests os fs executable = bindM deferredM (\<lambda>df.
     forM (df_requests df) (reconcile_request os fs executable))"

section \<open>Running\<close>

definition is_internal_stop :: "deferred \<Rightarrow> stop_info \<Rightarrow> bool" where
  "is_internal_stop df stop \<longleftrightarrow> si_reason stop = SR_Breakpoint \<and> si_breakpoint_address stop \<noteq> None \<and>
     (df_bootstrap_address df \<noteq> None \<and> si_breakpoint_address stop = df_bootstrap_address df \<or>
      df_loader_address df \<noteq> None \<and> si_breakpoint_address stop = df_loader_address df)"

definition reconcile_if_consistent :: "'k os \<Rightarrow> 'k files \<Rightarrow> elf_file \<Rightarrow> ('k dworld, unit) prog" where
  "reconcile_if_consistent os fs executable = bindM deferredM (\<lambda>df.
     bindM (on_world (loader_state_is_consistent os df)) (\<lambda>consistent.
     if consistent then reconcile_requests os fs executable else returnM ()))"

definition handle_internal_stop :: "'k os \<Rightarrow> 'k files \<Rightarrow> elf_file \<Rightarrow> stop_info \<Rightarrow> ('k dworld, unit) prog" where
  "handle_internal_stop os fs executable stop = bindM deferredM (\<lambda>df.
    if df_bootstrap_address df \<noteq> None \<and> si_breakpoint_address stop = df_bootstrap_address df then
      thenM (remove_bootstrap_breakpoint os)
      (bindM (try_install_loader_breakpoint os fs executable) (\<lambda>installed.
       if \<not> installed then throwM (RuntimeError ''DT_DEBUG was not initialized before executable entry'')
       else reconcile_if_consistent os fs executable))
    else if df_loader_address df \<noteq> None \<and> si_breakpoint_address stop = df_loader_address df
    then reconcile_if_consistent os fs executable
    else throwM (LogicError ''attempted to handle a non-internal breakpoint stop''))"

fun deferred_run_loop ::
  "'k os \<Rightarrow> 'k files \<Rightarrow> elf_file \<Rightarrow> nat \<Rightarrow> nat \<Rightarrow> signal_policy \<Rightarrow> ('k dworld, stop_info) prog" where
  "deferred_run_loop os fs executable n 0 policy = divergeM"
| "deferred_run_loop os fs executable n (Suc turns) policy =
    bindM (on_world (continue_execution os n policy)) (\<lambda>stop.
    bindM deferredM (\<lambda>df.
    if \<not> is_internal_stop df stop then thenM (suspend_monitoring os) (returnM stop)
    else thenM (handle_internal_stop os fs executable stop)
      (deferred_run_loop os fs executable n turns Suppress)))"

definition deferred_continue ::
  "'k os \<Rightarrow> 'k files \<Rightarrow> elf_file \<Rightarrow> nat \<Rightarrow> nat \<Rightarrow> signal_policy \<Rightarrow> ('k dworld, stop_info) prog" where
  "deferred_continue os fs executable n turns policy =
    thenM (ensure_monitoring os fs executable) (deferred_run_loop os fs executable n turns policy)"

end
