(* ===== verification/Registry.thy ===== *)
theory Registry
  imports Deferred
begin

text \<open>
  The user's breakpoints, \<^verbatim>\<open>src/src/breakpoints/user_breakpoint_registry.hpp\<close>: one numbering over breakpoints of
  the debugger and deferred requests, kept per process. The object holds references to the debugger
  and the executable: its operations run on the world paired with it. A controller of deferred breakpoints
  lives in a domain; it is run on the world paired with that controller and written back.
\<close>

datatype user_breakpoint_state = UB_Pending | UB_Enabled | UB_TemporarilyRestored

record user_breakpoint =
  ub_id :: nat
  ub_expression :: "u8 list"
  ub_address :: "u64 option"
  ub_state :: user_breakpoint_state

datatype backend_kind = BK_Managed | BK_Deferred

record entry =
  en_expression :: "u8 list"
  en_kind :: backend_kind
  en_backend_id :: nat

record domain_state =
  ds_deferred :: "deferred option"
  ds_entries :: "(nat, entry) smap"

record registry =
  rg_domains :: "(pid, domain_state) smap"
  rg_next_id :: nat

type_synonym 'k rworld = "'k world \<times> registry"

definition new_registry :: registry where
  "new_registry = \<lparr>rg_domains = smap_empty, rg_next_id = 1\<rparr>"

definition empty_domain :: domain_state where
  "empty_domain = \<lparr>ds_deferred = None, ds_entries = smap_empty\<rparr>"

definition registryM :: "('k rworld, registry) prog" where
  "registryM = bindM getM (\<lambda>x. returnM (snd x))"

definition modify_registry :: "(registry \<Rightarrow> registry) \<Rightarrow> ('k rworld, unit) prog" where
  "modify_registry f = modifyM (\<lambda>(w, rg). (w, f rg))"

definition set_domain :: "pid \<Rightarrow> domain_state \<Rightarrow> registry \<Rightarrow> registry" where
  "set_domain key d rg = rg\<lparr>rg_domains := smap_assign key d (rg_domains rg)\<rparr>"

text \<open>\<^verbatim>\<open>domains_[pid]\<close>, which makes an empty domain when there is none.\<close>

definition domain_at :: "registry \<Rightarrow> pid \<Rightarrow> domain_state" where
  "domain_at rg key = (case smap_find (rg_domains rg) key of None \<Rightarrow> empty_domain | Some d \<Rightarrow> d)"

definition active_pid :: "('k rworld, pid) prog" where
  "active_pid = bindM (on_world dbgM) (\<lambda>d. returnM (debugger_pid d))"

definition active_domain :: "('k rworld, pid) prog" where
  "active_domain = bindM active_pid (\<lambda>key.
     thenM (modify_registry (\<lambda>rg. set_domain key (domain_at rg key) rg)) (returnM key))"

definition active_domain_if_present :: "('k rworld, (pid \<times> domain_state) option) prog" where
  "active_domain_if_present = bindM active_pid (\<lambda>key. bindM registryM (\<lambda>rg.
     returnM (map_option (Pair key) (smap_find (rg_domains rg) key))))"

text \<open>Running the controller of a domain.\<close>

definition on_deferred :: "pid \<Rightarrow> ('k dworld, 'a) prog \<Rightarrow> ('k rworld, 'a) prog" where
  "on_deferred key m = (\<lambda>x. case ds_deferred (domain_at (snd x) key) of
     None \<Rightarrow> (Throw (UndefinedBehaviour ''access of an empty optional''), x)
   | Some df \<Rightarrow> (case m (fst x, df) of (r, (w, df')) \<Rightarrow>
       (r, (w, set_domain key ((domain_at (snd x) key)\<lparr>ds_deferred := Some df'\<rparr>) (snd x)))))"

definition ensure_deferred :: "'k files \<Rightarrow> elf_file \<Rightarrow> pid \<Rightarrow> ('k rworld, unit) prog" where
  "ensure_deferred fs executable key = bindM registryM (\<lambda>rg.
     if ds_deferred (domain_at rg key) \<noteq> None then returnM ()
     else bindM (on_world (on_kern (init_deferred fs executable))) (\<lambda>df.
       modify_registry (\<lambda>rg. set_domain key ((domain_at rg key)\<lparr>ds_deferred := Some df\<rparr>) rg)))"

text \<open>A fresh user id and its entry.\<close>

definition new_entry :: "pid \<Rightarrow> entry \<Rightarrow> ('k rworld, nat) prog" where
  "new_entry key e = bindM registryM (\<lambda>rg. let i = rg_next_id rg in
     thenM (modify_registry (\<lambda>rg. rg\<lparr>rg_next_id := i + 1\<rparr>))
     (thenM (modify_registry (\<lambda>rg. set_domain key ((domain_at rg key)\<lparr>ds_entries :=
        smap_emplace i e (ds_entries (domain_at rg key))\<rparr>) rg))
     (returnM i)))"

section \<open>Operations\<close>

definition add_address :: "'k os \<Rightarrow> u64 \<Rightarrow> u8 list \<Rightarrow> ('k rworld, nat) prog" where
  "add_address os address expression = bindM (on_world (add_breakpoint os address)) (\<lambda>backend_id.
     bindM active_domain (\<lambda>key.
     new_entry key \<lparr>en_expression = expression, en_kind = BK_Managed, en_backend_id = backend_id\<rparr>))"

definition add_symbol :: "'k os \<Rightarrow> 'k files \<Rightarrow> elf_file \<Rightarrow> u8 list \<Rightarrow> ('k rworld, nat) prog" where
  "add_symbol os fs executable symbol =
    (if symbol = [] then throwM (InvalidArgument ''breakpoint symbol must not be empty'')
     else bindM active_pid (\<lambda>key.
       bindM (on_world (on_kern (find_module_symbol_by_name fs key symbol executable))) (\<lambda>resolved.
       case resolved of
         Some r \<Rightarrow> add_address os (ma_address r) symbol
       | None \<Rightarrow> bindM active_domain (\<lambda>key.
           thenM (ensure_deferred fs executable key)
           (bindM (on_deferred key (deferred_add_symbol os fs executable symbol)) (\<lambda>backend_id.
            new_entry key \<lparr>en_expression = symbol, en_kind = BK_Deferred, en_backend_id = backend_id\<rparr>))))))"

definition add_source :: "'k os \<Rightarrow> 'k files \<Rightarrow> elf_file \<Rightarrow> u8 list \<Rightarrow> u64 \<Rightarrow> u8 list \<Rightarrow> ('k rworld, nat) prog" where
  "add_source os fs executable file line expression =
    (if file = [] then throwM (InvalidArgument ''breakpoint source file must not be empty'')
     else if line = 0 then throwM (InvalidArgument ''breakpoint source line must be non-zero'')
     else bindM active_pid (\<lambda>key.
       bindM (on_world (on_kern (find_module_source_by_file_line fs key file line executable))) (\<lambda>resolved.
       case resolved of
         Some r \<Rightarrow> add_address os (mu_address r) expression
       | None \<Rightarrow> bindM active_domain (\<lambda>key.
           thenM (ensure_deferred fs executable key)
           (bindM (on_deferred key (deferred_add_source os fs executable file line)) (\<lambda>backend_id.
            new_entry key \<lparr>en_expression = expression, en_kind = BK_Deferred, en_backend_id = backend_id\<rparr>))))))"

definition remove_backend :: "'k os \<Rightarrow> pid \<Rightarrow> domain_state \<Rightarrow> entry \<Rightarrow> ('k rworld, bool) prog" where
  "remove_backend os key domain e =
    (if en_kind e = BK_Managed then on_world (remove_breakpoint os (en_backend_id e))
     else if ds_deferred domain = None then throwM (LogicError ''deferred user breakpoint has no loader controller'')
     else on_deferred key (deferred_remove os (en_backend_id e)))"

definition registry_remove :: "'k os \<Rightarrow> nat \<Rightarrow> ('k rworld, bool) prog" where
  "registry_remove os i = bindM active_domain_if_present (\<lambda>found. case found of
     None \<Rightarrow> returnM False
   | Some (key, domain) \<Rightarrow> (case smap_find (ds_entries domain) i of
       None \<Rightarrow> returnM False
     | Some e \<Rightarrow> bindM (remove_backend os key domain e) (\<lambda>removed.
         if \<not> removed
         then throwM (LogicError ''user breakpoint backend disappeared from registry ownership'')
         else thenM (modify_registry (\<lambda>rg. set_domain key ((domain_at rg key)\<lparr>ds_entries :=
             smap_erase i (ds_entries (domain_at rg key))\<rparr>) rg))
           (returnM True))))"

text \<open>Resetting the controller runs its destructor, which stops watching the loader.\<close>

definition on_image_replaced :: "'k os \<Rightarrow> ('k rworld, unit) prog" where
  "on_image_replaced os = bindM active_domain_if_present (\<lambda>found. case found of
     None \<Rightarrow> returnM ()
   | Some (key, domain) \<Rightarrow>
       thenM (if ds_deferred domain = None then returnM () else on_deferred key (suspend_monitoring os))
       (modify_registry (set_domain key empty_domain)))"

definition registry_continue ::
  "'k os \<Rightarrow> 'k files \<Rightarrow> elf_file \<Rightarrow> nat \<Rightarrow> nat \<Rightarrow> signal_policy \<Rightarrow> ('k rworld, stop_info) prog" where
  "registry_continue os fs executable n turns policy = bindM active_domain_if_present (\<lambda>found. case found of
     None \<Rightarrow> on_world (continue_execution os n policy)
   | Some (key, domain) \<Rightarrow> if ds_deferred domain = None then on_world (continue_execution os n policy)
       else on_deferred key (deferred_continue os fs executable n turns policy))"

section \<open>Listing\<close>

definition installed_state :: "breakpoint \<Rightarrow> user_breakpoint_state" where
  "installed_state bp = (if bp_installed bp then UB_Enabled else UB_TemporarilyRestored)"

definition with_id :: "nat \<Rightarrow> debugger \<Rightarrow> breakpoint option" where
  "with_id i d = find (\<lambda>bp. bp_id bp = i) (breakpoints d)"

definition snapshot_managed :: "debugger \<Rightarrow> nat \<Rightarrow> entry \<Rightarrow> exn + user_breakpoint" where
  "snapshot_managed d i e = (case with_id (en_backend_id e) d of
     None \<Rightarrow> Inl (LogicError ''managed breakpoint disappeared from user registry ownership'')
   | Some bp \<Rightarrow> Inr \<lparr>ub_id = i, ub_expression = en_expression e, ub_address = Some (bp_address bp),
       ub_state = installed_state bp\<rparr>)"

definition snapshot_deferred :: "debugger \<Rightarrow> nat \<Rightarrow> entry \<Rightarrow> domain_state \<Rightarrow> exn + user_breakpoint" where
  "snapshot_deferred d i e domain = (case ds_deferred domain of
     None \<Rightarrow> Inl (LogicError ''deferred user breakpoint has no loader controller'')
   | Some df \<Rightarrow> (case find (\<lambda>r. db_request_id r = en_backend_id e) (deferred_breakpoints df) of
       None \<Rightarrow> Inl (LogicError ''deferred breakpoint disappeared from user registry ownership'')
     | Some request \<Rightarrow> (case (db_breakpoint_id request, db_address request) of
         (Some j, Some address) \<Rightarrow> (case with_id j d of
             None \<Rightarrow> Inl (LogicError ''resolved deferred breakpoint disappeared from debugger ownership'')
           | Some bp \<Rightarrow> Inr \<lparr>ub_id = i, ub_expression = en_expression e, ub_address = Some address,
               ub_state = installed_state bp\<rparr>)
       | _ \<Rightarrow> Inr \<lparr>ub_id = i, ub_expression = en_expression e, ub_address = None, ub_state = UB_Pending\<rparr>)))"

definition user_snapshot :: "debugger \<Rightarrow> nat \<Rightarrow> entry \<Rightarrow> domain_state \<Rightarrow> exn + user_breakpoint" where
  "user_snapshot d i e domain =
    (if en_kind e = BK_Managed then snapshot_managed d i e else snapshot_deferred d i e domain)"

definition liftE :: "exn + 'a \<Rightarrow> ('s, 'a) prog" where
  "liftE r = (case r of Inl e \<Rightarrow> throwM e | Inr a \<Rightarrow> returnM a)"

definition registry_breakpoint :: "nat \<Rightarrow> ('k rworld, user_breakpoint option) prog" where
  "registry_breakpoint i = bindM active_domain_if_present (\<lambda>found. case found of
     None \<Rightarrow> returnM None
   | Some (key, domain) \<Rightarrow> (case smap_find (ds_entries domain) i of
       None \<Rightarrow> returnM None
     | Some e \<Rightarrow> bindM (on_world dbgM) (\<lambda>d. bindM (liftE (user_snapshot d i e domain)) (\<lambda>bp. returnM (Some bp)))))"

fun snapshots :: "debugger \<Rightarrow> domain_state \<Rightarrow> (nat \<times> entry) list \<Rightarrow> exn + user_breakpoint list" where
  "snapshots d domain [] = Inr []"
| "snapshots d domain ((i, e) # rest) = (case user_snapshot d i e domain of
     Inl x \<Rightarrow> Inl x
   | Inr bp \<Rightarrow> (case snapshots d domain rest of Inl x \<Rightarrow> Inl x | Inr bps \<Rightarrow> Inr (bp # bps)))"

definition registry_breakpoints :: "('k rworld, user_breakpoint list) prog" where
  "registry_breakpoints = bindM active_domain_if_present (\<lambda>found. case found of
     None \<Rightarrow> returnM []
   | Some (key, domain) \<Rightarrow> bindM (on_world dbgM) (\<lambda>d. liftE (snapshots d domain (ds_entries domain))))"

fun any_pending :: "debugger \<Rightarrow> domain_state \<Rightarrow> (nat \<times> entry) list \<Rightarrow> exn + bool" where
  "any_pending d domain [] = Inr False"
| "any_pending d domain ((i, e) # rest) = (case user_snapshot d i e domain of
     Inl x \<Rightarrow> Inl x
   | Inr bp \<Rightarrow> if ub_state bp = UB_Pending then Inr True else any_pending d domain rest)"

definition has_pending :: "('k rworld, bool) prog" where
  "has_pending = bindM active_domain_if_present (\<lambda>found. case found of
     None \<Rightarrow> returnM False
   | Some (key, domain) \<Rightarrow> bindM (on_world dbgM) (\<lambda>d. liftE (any_pending d domain (ds_entries domain))))"

definition user_breakpoint_state_name :: "user_breakpoint_state \<Rightarrow> string" where
  "user_breakpoint_state_name s = (case s of
     UB_Pending \<Rightarrow> ''pending'' | UB_Enabled \<Rightarrow> ''enabled'' | UB_TemporarilyRestored \<Rightarrow> ''temporarily-restored'')"

end
