(* ===== verification/DeferredProps.thy ===== *)
theory DeferredProps
  imports Deferred SourceMotionProps
begin

text \<open>
  The invariant of deferred breakpoints and that every operation keeps it, returned or thrown: requests
  are numbered by fresh ids, no two have the same target, and a request with a breakpoint has its address.
  Running ends with the loader no longer watched.
\<close>

section \<open>The invariant\<close>

definition request_ok :: "nat \<Rightarrow> nat \<times> deferred_breakpoint \<Rightarrow> bool" where
  "request_ok next_id x \<longleftrightarrow> db_request_id (snd x) = fst x \<and> fst x < next_id \<and>
     (db_breakpoint_id (snd x) \<noteq> None \<longrightarrow> db_address (snd x) \<noteq> None)"

definition requests_ok :: "nat \<Rightarrow> (nat, deferred_breakpoint) smap \<Rightarrow> bool" where
  "requests_ok next_id rs \<longleftrightarrow> smap_wf rs \<and> list_all (request_ok next_id) rs \<and> distinct (map (db_target \<circ> snd) rs)"

definition deferred_wf :: "deferred \<Rightarrow> bool" where
  "deferred_wf df \<longleftrightarrow> requests_ok (df_next_request_id df) (df_requests df)"

definition dworld_wf :: "'k dworld \<Rightarrow> bool" where
  "dworld_wf x \<longleftrightarrow> world_wf (fst x) \<and> deferred_wf (snd x)"

lemma deferred_wf_updates [simp]:
  "deferred_wf (df\<lparr>df_r_debug := a\<rparr>) = deferred_wf df"
  "deferred_wf (df\<lparr>df_loader_address := b\<rparr>) = deferred_wf df" "deferred_wf (df\<lparr>df_loader_id := c\<rparr>) = deferred_wf df"
  "deferred_wf (df\<lparr>df_bootstrap_address := b\<rparr>) = deferred_wf df" "deferred_wf (df\<lparr>df_bootstrap_id := c\<rparr>) = deferred_wf df"
  by (simp_all add: deferred_wf_def)

lemma same_target_eq: "same_target l r \<longleftrightarrow> l = r"
  by (cases l; cases r) (auto simp: same_target_def)

lemma requests_ok_mono: "requests_ok n rs \<Longrightarrow> n \<le> m \<Longrightarrow> requests_ok m rs"
  by (auto simp: requests_ok_def request_ok_def list_all_iff)

lemma requests_ok_erase: "requests_ok n rs \<Longrightarrow> requests_ok n (smap_erase k rs)"
proof -
  assume ok: "requests_ok n rs"
  have "distinct (map (db_target \<circ> snd) (smap_erase k rs))"
    using ok by (auto simp: requests_ok_def smap_erase_def distinct_map_filter)
  moreover have "list_all (request_ok n) (smap_erase k rs)"
    using ok by (auto simp: requests_ok_def smap_erase_def list_all_iff)
  ultimately show ?thesis using ok by (simp add: requests_ok_def smap_wf_erase)
qed

lemma requests_ok_fresh: "requests_ok n rs \<Longrightarrow> smap_find rs n = None"
  by (auto simp: requests_ok_def request_ok_def list_all_iff smap_find_None)

lemma smap_assign_last: "\<forall>x \<in> set rs. fst x < k \<Longrightarrow> smap_assign k v rs = rs @ [(k, v)]" for k :: nat
  by (induction k v rs rule: smap_assign.induct) auto

lemma requests_ok_emplace:
  assumes "requests_ok n rs" and "db_request_id r = n" and "db_breakpoint_id r \<noteq> None \<longrightarrow> db_address r \<noteq> None"
    and "\<forall>x \<in> set rs. db_target (snd x) \<noteq> db_target r"
  shows "requests_ok (Suc n) (smap_emplace n r rs)"
proof -
  have "smap_emplace n r rs = rs @ [(n, r)]"
    using assms(1) requests_ok_fresh [OF assms(1)] smap_assign_last [of rs n r]
    by (auto simp: smap_emplace_def requests_ok_def request_ok_def list_all_iff)
  moreover have "smap_wf (smap_emplace n r rs)" using assms(1) by (simp add: requests_ok_def smap_wf_emplace)
  ultimately show ?thesis
    using assms requests_ok_mono [OF assms(1), of "Suc n"]
    by (force simp: requests_ok_def request_ok_def list_all_iff)
qed

lemma requests_ok_map:
  assumes ok: "requests_ok n rs" and same: "\<And>r. db_request_id (f r) = db_request_id r \<and> db_target (f r) = db_target r"
    and key: "\<And>r. (key, r) \<in> set rs \<Longrightarrow> db_breakpoint_id (f r) \<noteq> None \<Longrightarrow> db_address (f r) \<noteq> None"
  shows "requests_ok n (smap_map (\<lambda>k r. if k = key then f r else r) rs)" (is "requests_ok n ?rs")
proof -
  have targets: "map (db_target \<circ> snd) ?rs = map (db_target \<circ> snd) rs"
    using same by (auto simp: smap_map_def)
  have "request_ok n y" if mem: "y \<in> set ?rs" for y
  proof -
    obtain k r where kr: "(k, r) \<in> set rs" and y: "y = (k, if k = key then f r else r)"
      using mem by (auto simp: smap_map_def)
    have "request_ok n (k, r)" using ok kr by (auto simp: requests_ok_def list_all_iff)
    with key [of r] kr same [of r] show ?thesis by (auto simp: request_ok_def y)
  qed
  then show ?thesis using ok targets by (simp add: requests_ok_def list_all_iff smap_wf_map)
qed

section \<open>Running on the pair\<close>

lemma wp_on_world [wp_simps]:
  "wp (on_world m) Q E = (\<lambda>x. wp m (\<lambda>a w'. Q a (w', snd x)) (\<lambda>e w'. E e (w', snd x)) (fst x))"
  by (simp add: on_world_def wp_simps)

lemma wp_deferredM [wp_simps]: "wp deferredM Q E = (\<lambda>x. Q (snd x) x)"
  by (simp add: deferredM_def wp_simps)

lemma wp_modify_deferred [wp_simps]: "wp (modify_deferred f) Q E = (\<lambda>x. Q () (fst x, f (snd x)))"
  by (simp add: modify_deferred_def wp_simps case_prod_beta)

lemma wp_keeping:
  "keeps I m \<Longrightarrow> I w \<Longrightarrow> (\<And>a w'. I w' \<Longrightarrow> Q a w') \<Longrightarrow> (\<And>e w'. I w' \<Longrightarrow> E e w') \<Longrightarrow> wp m Q E w"
  by (blast intro: wp_mono keepsD)

lemma keeps_on_world [keeps_intros]: "keeps world_wf m \<Longrightarrow> keeps dworld_wf (on_world m)"
  unfolding keeps_def wp_on_world by (auto simp: dworld_wf_def intro: wp_keeping [OF _ , unfolded keeps_def])

lemma keeps_deferredM [keeps_intros]: "keeps dworld_wf deferredM"
  by (simp add: keeps_def wp_simps)

lemma keeps_modify_deferred:
  "(\<And>d. deferred_wf d \<Longrightarrow> deferred_wf (f d)) \<Longrightarrow> keeps dworld_wf (modify_deferred f)"
  by (simp add: keeps_def wp_simps dworld_wf_def)

lemma keeps_world_reads [keeps_intros]:
  "keeps world_wf (loader_runtime_address fs ex a)" "keeps world_wf (current_r_debug_address os fs ex df)"
  "keeps world_wf (current_loader_break_address os df)" "keeps world_wf (loader_state_is_consistent os df)"
  "keeps world_wf (resolve_target fs ex target)"
  unfolding loader_runtime_address_def current_r_debug_address_def current_loader_break_address_def
    loader_state_is_consistent_def resolve_target_def read_loader_u64_def
  by (intro keeps_intros)+

lemma keeps_try_install [keeps_intros]: "keeps dworld_wf (try_install_loader_breakpoint os fs ex)"
  unfolding try_install_loader_breakpoint_def by (intro keeps_intros keeps_modify_deferred) auto

lemma keeps_install_bootstrap [keeps_intros]: "keeps dworld_wf (install_bootstrap_breakpoint os fs ex)"
  unfolding install_bootstrap_breakpoint_def by (intro keeps_intros keeps_modify_deferred) auto

lemma keeps_ensure_monitoring [keeps_intros]: "keeps dworld_wf (ensure_monitoring os fs ex)"
  unfolding ensure_monitoring_def by (intro keeps_intros)

lemma keeps_drop_internal [keeps_intros]: "keeps dworld_wf (drop_internal os owned)"
  unfolding drop_internal_def by (intro keeps_intros)

lemma keeps_suspend_monitoring [keeps_intros]:
  "keeps dworld_wf (remove_loader_breakpoint os)" "keeps dworld_wf (remove_bootstrap_breakpoint os)"
  "keeps dworld_wf (suspend_monitoring os)"
  unfolding suspend_monitoring_def remove_loader_breakpoint_def remove_bootstrap_breakpoint_def
  by (intro keeps_intros keeps_modify_deferred; simp add: deferred_wf_def)+

lemma keeps_stop_monitoring_if_idle [keeps_intros]: "keeps dworld_wf (stop_monitoring_if_idle os)"
  unfolding stop_monitoring_if_idle_def by (intro keeps_intros keeps_modify_deferred) auto

lemma keeps_erase_request: "keeps dworld_wf (modify_deferred (\<lambda>d. d\<lparr>df_requests := smap_erase k (df_requests d)\<rparr>))"
  by (rule keeps_modify_deferred) (simp add: deferred_wf_def requests_ok_erase)

lemma keeps_deferred_remove [keeps_intros]: "keeps dworld_wf (deferred_remove os i)"
  unfolding deferred_remove_def by (intro keeps_intros keeps_erase_request)

section \<open>Adding and reconciling\<close>


lemma keeps_undo_request [keeps_intros]: "keeps dworld_wf (undo_request os i e)"
  unfolding undo_request_def by (intro keeps_intros keeps_erase_request)

lemma keeps_add_target [keeps_intros]: "keeps dworld_wf (add_target os fs ex target)"
proof (rule keepsI)
  fix x :: "'a dworld"
  assume x: "dworld_wf x"
  let ?d = "snd x" and ?id = "df_next_request_id (snd x)"
  have monitor: "keeps dworld_wf (catchM (ensure_monitoring os fs ex) (undo_request os i))" for i
    by (intro keeps_intros)
  have new: "dworld_wf (w, ?d\<lparr>df_next_request_id := Suc ?id, df_requests :=
        smap_emplace ?id \<lparr>db_request_id = ?id, db_target = target,
          db_breakpoint_id = b, db_address = a\<rparr> (df_requests ?d)\<rparr>)"
    if "world_wf w" "\<forall>y \<in> set (df_requests ?d). \<not> same_target (db_target (snd y)) target" "b \<noteq> None \<longrightarrow> a \<noteq> None" for w a b
    using x that requests_ok_emplace [of "df_next_request_id ?d" "df_requests ?d"]
    by (simp add: dworld_wf_def deferred_wf_def same_target_eq)
  have bump: "dworld_wf (w, ?d\<lparr>df_next_request_id := Suc ?id\<rparr>)" if "world_wf w" for w
    using x that requests_ok_mono by (auto simp: dworld_wf_def deferred_wf_def)
  have w: "world_wf (fst x)" using x by (simp add: dworld_wf_def)
  show "wp (add_target os fs ex target) (\<lambda>_. dworld_wf) (\<lambda>_. dworld_wf) x"
    unfolding add_target_def
    apply (simp add: Let_def wp_bindM wp_on_world wp_deferredM wp_modify_deferred wp_thenM wp_if wp_throwM wp_dbgM x)
    apply (intro impI)
    apply (rule wp_keeping [OF keeps_world_reads(5) w])
    subgoal premises fresh for resolved w1
    proof (cases resolved)
      case None
      with fresh show ?thesis
        by (simp add: wp_returnM) (rule wp_keeping [OF monitor], simp_all add: new)
    next
      case (Some a)
      with fresh show ?thesis
        apply (simp add: wp_bindM wp_on_world wp_returnM)
        apply (rule wp_keeping [of world_wf], rule keeps_intros, assumption)
        subgoal by (rule wp_keeping [OF monitor]) (simp_all add: new wp_returnM)
        by (rule bump)
    qed
   by (rule bump)
qed

lemma keeps_deferred_add [keeps_intros]:
  "keeps dworld_wf (deferred_add_symbol os fs ex symbol)" "keeps dworld_wf (deferred_add_source os fs ex file line)"
  unfolding deferred_add_symbol_def deferred_add_source_def by (intro keeps_intros)+

lemma deferred_wf_put:
  assumes "deferred_wf d" and "\<And>r. db_request_id (f r) = db_request_id r \<and> db_target (f r) = db_target r"
    and "\<And>r. (key, r) \<in> set (df_requests d) \<Longrightarrow> db_breakpoint_id (f r) \<noteq> None \<Longrightarrow> db_address (f r) \<noteq> None"
  shows "deferred_wf (d\<lparr>df_requests := smap_map (\<lambda>k r. if k = key then f r else r) (df_requests d)\<rparr>)"
  using requests_ok_map [of "df_next_request_id d" "df_requests d" f key] assms by (simp add: deferred_wf_def)

lemma keeps_install_request [keeps_intros]: "keeps dworld_wf (install_request os key resolved)"
proof (rule keepsI)
  fix x :: "'a dworld"
  assume x: "dworld_wf x"
  let ?d = "\<lambda>a. (snd x)\<lparr>df_requests := smap_map (\<lambda>k r. if k = key then r\<lparr>db_address := Some a\<rparr> else r) (df_requests (snd x))\<rparr>"
  have addressed: "deferred_wf (?d a)" for a
    using x by (intro deferred_wf_put) (auto simp: dworld_wf_def)
  have identified: "deferred_wf ((?d a)\<lparr>df_requests :=
      smap_map (\<lambda>k r. if k = key then r\<lparr>db_breakpoint_id := Some i\<rparr> else r) (df_requests (?d a))\<rparr>)" for a i
    by (rule deferred_wf_put [OF addressed]) (auto simp: smap_map_def)
  show "wp (install_request os key resolved) (\<lambda>_. dworld_wf) (\<lambda>_. dworld_wf) x"
  proof (cases resolved)
    case None
    then show ?thesis using x by (simp add: install_request_def wp_simps)
  next
    case (Some a)
    have "wp (add_breakpoint os a) (\<lambda>i w. dworld_wf (w, (?d a)\<lparr>df_requests :=
        smap_map (\<lambda>k r. if k = key then r\<lparr>db_breakpoint_id := Some i\<rparr> else r) (df_requests (?d a))\<rparr>))
      (\<lambda>_ w. dworld_wf (w, ?d a)) (fst x)"
      by (rule wp_keeping [of world_wf], rule keeps_intros)
        (use x addressed identified in \<open>auto simp: dworld_wf_def\<close>)
    then show ?thesis
      by (simp add: Some install_request_def put_request_def wp_simps)
  qed
qed

lemma keeps_put_unresolved: "keeps dworld_wf (put_request key (\<lambda>r. r\<lparr>db_breakpoint_id := None, db_address := None\<rparr>))"
  unfolding put_request_def by (intro keeps_modify_deferred deferred_wf_put) auto

lemma keeps_reconcile_request [keeps_intros]: "keeps dworld_wf (reconcile_request os fs ex entry)"
  unfolding reconcile_request_def by (intro keeps_intros keeps_put_unresolved)

lemma keeps_reconcile [keeps_intros]:
  "keeps dworld_wf (reconcile_requests os fs ex)" "keeps dworld_wf (reconcile_if_consistent os fs ex)"
  unfolding reconcile_if_consistent_def reconcile_requests_def by (intro keeps_intros)+

lemma keeps_handle_internal_stop [keeps_intros]: "keeps dworld_wf (handle_internal_stop os fs ex stop)"
  unfolding handle_internal_stop_def by (intro keeps_intros)

lemma keeps_deferred_run_loop [keeps_intros]: "keeps dworld_wf (deferred_run_loop os fs ex n turns policy)"
proof (induction turns arbitrary: policy)
  case 0
  then show ?case by (simp, intro keeps_intros)
next
  case (Suc turns)
  then show ?case by (simp only: deferred_run_loop.simps, intro keeps_intros)
qed

lemma keeps_deferred_continue [keeps_intros]: "keeps dworld_wf (deferred_continue os fs ex n turns policy)"
  unfolding deferred_continue_def by (intro keeps_intros)

section \<open>Sessions with deferred breakpoints\<close>

datatype deferred_command =
    DC_add_symbol "u8 list"
  | DC_add_source "u8 list" u64
  | DC_remove nat
  | DC_continue signal_policy
  | DC_debugger command

fun run_deferred_command ::
  "'k os \<Rightarrow> 'k files \<Rightarrow> elf_file \<Rightarrow> nat \<Rightarrow> deferred_command \<Rightarrow> ('k dworld, unit) prog" where
  "run_deferred_command os fs ex n (DC_add_symbol s) = voidM (deferred_add_symbol os fs ex s)"
| "run_deferred_command os fs ex n (DC_add_source f l) = voidM (deferred_add_source os fs ex f l)"
| "run_deferred_command os fs ex n (DC_remove i) = voidM (deferred_remove os i)"
| "run_deferred_command os fs ex n (DC_continue p) = voidM (deferred_continue os fs ex n n p)"
| "run_deferred_command os fs ex n (DC_debugger c) = on_world (run_command os n c)"

text \<open>A deferred-breakpoint object is made in a session; its commands and those of the debugger follow in
  any order, each returning or throwing, while the kernel moves.\<close>

inductive deferred_session :: "'k os \<Rightarrow> 'k files \<Rightarrow> elf_file \<Rightarrow> 'k dworld \<Rightarrow> bool" for os fs ex where
  made: "session os w \<Longrightarrow> init_deferred fs ex (kern w) = (Ok df, k) \<Longrightarrow> deferred_session os fs ex (w, df)"
| returned: "deferred_session os fs ex x \<Longrightarrow> run_deferred_command os fs ex n c x = (Ok (), x') \<Longrightarrow>
    deferred_session os fs ex x'"
| threw: "deferred_session os fs ex x \<Longrightarrow> run_deferred_command os fs ex n c x = (Throw e, x') \<Longrightarrow>
    deferred_session os fs ex x'"
| kernel_moved: "deferred_session os fs ex x \<Longrightarrow> deferred_session os fs ex ((fst x)\<lparr>kern := k\<rparr>, snd x)"

lemma keeps_run_deferred_command: "keeps dworld_wf (run_deferred_command os fs ex n c)"
  by (cases c) (auto intro!: keeps_intros keeps_run_command)

lemma init_deferred_wf: "init_deferred fs ex k = (Ok df, k') \<Longrightarrow> deferred_wf df"
  by (auto simp: init_deferred_def Ok_run deferred_wf_def requests_ok_def smap_empty_def)

lemma deferred_session_wf: "deferred_session os fs ex x \<Longrightarrow> dworld_wf x"
proof (induction rule: deferred_session.induct)
  case (made w df k)
  then show ?case by (simp add: dworld_wf_def session_wf init_deferred_wf)
next
  case (returned x n c x')
  then show ?case by (blast intro: keeps_Ok keeps_run_deferred_command)
next
  case (threw x n c e x')
  then show ?case by (blast intro: keeps_Throw keeps_run_deferred_command)
next
  case (kernel_moved x k)
  then show ?case by (simp add: dworld_wf_def)
qed

text \<open>C7. The invariant of deferred breakpoints. In every session with deferred breakpoints, after any
  commands, returned or thrown: requests are listed under their own ids, which are below the next one, no
  two requests are for the same target, a request that holds a breakpoint knows its address, and the
  debugger's own invariant holds.\<close>

theorem deferred_invariant:
  assumes "deferred_session os fs ex (w, df)"
  shows "world_wf w \<and> distinct (map db_request_id (deferred_breakpoints df)) \<and>
    distinct (map db_target (deferred_breakpoints df)) \<and>
    (\<forall>r \<in> set (deferred_breakpoints df). db_request_id r < df_next_request_id df \<and>
      smap_find (df_requests df) (db_request_id r) = Some r \<and>
      (db_breakpoint_id r \<noteq> None \<longrightarrow> db_address r \<noteq> None))"
proof -
  have wf: "world_wf w" "requests_ok (df_next_request_id df) (df_requests df)"
    using deferred_session_wf [OF assms] by (simp_all add: dworld_wf_def deferred_wf_def)
  have keys: "map (db_request_id \<circ> snd) (df_requests df) = map fst (df_requests df)"
    using wf(2) by (auto simp: requests_ok_def request_ok_def list_all_iff)
  have "smap_find (df_requests df) k = Some r" if "(k, r) \<in> set (df_requests df)" for k r
    using wf(2) that by (simp add: requests_ok_def smap_find_mem)
  moreover have "distinct (map (db_request_id \<circ> snd) (df_requests df))"
    using wf(2) by (simp add: keys requests_ok_def smap_wf_distinct)
  ultimately show ?thesis
    using wf by (auto simp: requests_ok_def request_ok_def list_all_iff deferred_breakpoints_def)
qed

section \<open>Running\<close>

text \<open>Which targets are requested, under which ids.\<close>

definition requested :: "deferred \<Rightarrow> (nat \<times> deferred_target) list" where
  "requested df = map (\<lambda>(k, r). (k, db_target r)) (df_requests df)"

abbreviation (input) requesting :: "(nat \<times> deferred_target) list \<Rightarrow> 'k dworld \<Rightarrow> bool" where
  "requesting R x \<equiv> requested (snd x) = R"

lemma requested_updates [simp]:
  "requested (df\<lparr>df_r_debug := a\<rparr>) = requested df"
  "requested (df\<lparr>df_loader_address := b\<rparr>) = requested df" "requested (df\<lparr>df_loader_id := c\<rparr>) = requested df"
  "requested (df\<lparr>df_bootstrap_address := b\<rparr>) = requested df" "requested (df\<lparr>df_bootstrap_id := c\<rparr>) = requested df"
  by (simp_all add: requested_def)

lemma requested_put:
  "(\<And>r. db_target (f r) = db_target r) \<Longrightarrow>
    requested (df\<lparr>df_requests := smap_map (\<lambda>k r. if k = key then f r else r) (df_requests df)\<rparr>) = requested df"
  by (auto simp: requested_def smap_map_def)

lemma requesting_on_world [keeps_intros]: "keeps (requesting R) (on_world m)"
  by (auto simp: keeps_def wp_on_world intro: wp_any)

lemma requesting_modify: "(\<And>d. requested (f d) = requested d) \<Longrightarrow> keeps (requesting R) (modify_deferred f)"
  by (simp add: keeps_def wp_simps)

lemma requesting_deferredM [keeps_intros]: "keeps (requesting R) deferredM"
  by (simp add: keeps_def wp_simps)

lemma requesting_put: "(\<And>r. db_target (f r) = db_target r) \<Longrightarrow> keeps (requesting R) (put_request key f)"
  unfolding put_request_def by (rule requesting_modify) (rule requested_put)

lemma requesting_parts [keeps_intros]:
  "keeps (requesting R) (try_install_loader_breakpoint os fs ex)" "keeps (requesting R) (install_bootstrap_breakpoint os fs ex)"
  "keeps (requesting R) (drop_internal os owned)" "keeps (requesting R) (install_request os key resolved)"
  unfolding try_install_loader_breakpoint_def install_bootstrap_breakpoint_def drop_internal_def install_request_def
  by (intro keeps_intros requesting_modify requesting_put; simp)+

lemma requesting_monitoring [keeps_intros]:
  "keeps (requesting R) (ensure_monitoring os fs ex)" "keeps (requesting R) (remove_loader_breakpoint os)"
  "keeps (requesting R) (remove_bootstrap_breakpoint os)" "keeps (requesting R) (reconcile_request os fs ex entry)"
  unfolding ensure_monitoring_def remove_loader_breakpoint_def remove_bootstrap_breakpoint_def reconcile_request_def
  by (intro keeps_intros requesting_modify requesting_put; simp)+

lemma requesting_handle_internal_stop [keeps_intros]:
  "keeps (requesting R) (suspend_monitoring os)" "keeps (requesting R) (handle_internal_stop os fs ex stop)"
  unfolding suspend_monitoring_def handle_internal_stop_def reconcile_if_consistent_def reconcile_requests_def
  by (intro keeps_intros)+

lemma requesting_run_loop: "keeps (requesting R) (deferred_run_loop os fs ex n turns policy)"
proof (induction turns arbitrary: policy)
  case 0
  then show ?case by (simp, intro keeps_intros)
next
  case (Suc turns)
  then show ?case by (simp only: deferred_run_loop.simps, intro keeps_intros)
qed

definition unwatched :: "deferred \<Rightarrow> bool" where
  "unwatched df \<longleftrightarrow> df_loader_id df = None \<and> df_loader_address df = None \<and>
     df_bootstrap_id df = None \<and> df_bootstrap_address df = None"

lemma wp_drop_internal: "wp (drop_internal os owned) (\<lambda>_ x'. snd x' = snd x) (\<lambda>_ _. False) x"
  by (auto simp: drop_internal_def wp_simps intro!: wp_any split: option.split)

lemma wp_suspend_monitoring: "wp (suspend_monitoring os) (\<lambda>_ x'. unwatched (snd x')) (\<lambda>_ _. False) x"
  unfolding suspend_monitoring_def remove_loader_breakpoint_def remove_bootstrap_breakpoint_def wp_thenM wp_bindM
    wp_deferredM wp_modify_deferred
  by (rule wp_mono [OF wp_drop_internal], rule wp_mono [OF wp_drop_internal])
    (simp_all add: unwatched_def)

lemma wp_deferred_run_loop:
  "wp (deferred_run_loop os fs ex n turns policy) (\<lambda>_ x'. unwatched (snd x')) (\<lambda>_ _. True) x"
proof (induction turns arbitrary: policy x)
  case (Suc turns)
  show ?case
    unfolding deferred_run_loop.simps
    by (auto simp: wp_simps intro!: wp_any Suc wp_mono [OF wp_suspend_monitoring])
qed (simp add: wp_simps)

text \<open>C12. Running with deferred breakpoints ends unwatched: when a run returns, neither the loader breakpoint
  nor the one at the entry point is owned any more. Whether the run returns or throws, and however often
  the loader stopped in between, the same targets stay requested under the same ids.\<close>

theorem deferred_continue_unwatched:
  "wp (deferred_continue os fs ex n turns policy)
     (\<lambda>_ x'. unwatched (snd x') \<and> requested (snd x') = requested (snd x))
     (\<lambda>_ x'. requested (snd x') = requested (snd x)) x"
proof -
  have "keeps (requesting (requested (snd x))) (deferred_continue os fs ex n turns policy)"
    unfolding deferred_continue_def by (intro keeps_intros requesting_run_loop)
  moreover have "wp (deferred_continue os fs ex n turns policy) (\<lambda>_ x'. unwatched (snd x')) (\<lambda>_ _. True) x"
    unfolding deferred_continue_def wp_thenM by (rule wp_any) (auto intro: wp_deferred_run_loop)
  ultimately show ?thesis by (auto dest: wp_keeps intro: wp_mono)
qed

section \<open>Removing\<close>

lemma keeps_id_gone: "keeps (\<lambda>w. smap_find (d_breakpoint_ids (dbg w)) j = None) (remove_breakpoint os i)"
  by (rule keepsI) (auto simp: remove_breakpoint_def forget_breakpoint_def Let_def wp_simps smap_find_erase
      intro!: wp_any split: option.split)

text \<open>No longer watching the loader touches nothing that removing a breakpoint does not touch.\<close>

lemma keeps_suspend_frame:
  assumes "\<And>i. keeps I (remove_breakpoint os i)"
  shows "keeps (\<lambda>x. I (fst x) \<and> df_requests (snd x) = R) (suspend_monitoring os)"
proof -
  have world: "keeps (\<lambda>x. I (fst x) \<and> df_requests (snd x) = R) (on_world m)" if "keeps I m" for m :: "('a world, 'b) prog"
    using that by (auto simp: keeps_def wp_on_world intro!: wp_keeping [OF that])
  have state: "keeps (\<lambda>x. I (fst x) \<and> df_requests (snd x) = R) deferredM"
    by (simp add: keeps_def wp_simps)
  have update: "keeps (\<lambda>x. I (fst x) \<and> df_requests (snd x) = R) (modify_deferred f)"
    if "\<And>d. df_requests (f d) = df_requests d" for f
    using that by (simp add: keeps_def wp_simps)
  have drop: "keeps (\<lambda>x. I (fst x) \<and> df_requests (snd x) = R) (drop_internal os owned)" for owned
    unfolding drop_internal_def
    by (intro keeps_case_option keeps_returnM keeps_catchM keeps_bindM keeps_if world keeps_dbgM assms)
  show ?thesis
    unfolding suspend_monitoring_def remove_loader_breakpoint_def remove_bootstrap_breakpoint_def
    by (intro keeps_thenM keeps_bindM state drop update) simp_all
qed

lemma wp_stop_monitoring_if_idle:
  assumes "I (fst x)" and "\<And>i. keeps I (remove_breakpoint os i)"
  shows "wp (stop_monitoring_if_idle os) (\<lambda>_ x'. I (fst x') \<and> df_requests (snd x') = df_requests (snd x) \<and>
    (df_requests (snd x) = [] \<longrightarrow> unwatched (snd x'))) (\<lambda>_ _. False) x"
  using assms(1) wp_keeps [OF keeps_suspend_frame [OF assms(2)] _ wp_suspend_monitoring, of x "df_requests (snd x)"]
  by (auto simp: stop_monitoring_if_idle_def wp_simps unwatched_def elim: wp_mono)

lemma smap_erase_absent: "smap_find m k = None \<Longrightarrow> smap_erase k m = m"
  by (force simp: smap_find_None smap_erase_def filter_id_conv)

lemma wp_deferred_remove:
  assumes "world_wf (fst x)"
  shows "wp (deferred_remove os i)
    (\<lambda>removed x'. removed = (smap_find (df_requests (snd x)) i \<noteq> None) \<and>
       df_requests (snd x') = smap_erase i (df_requests (snd x)) \<and>
       (case smap_find (df_requests (snd x)) i of
          Some r \<Rightarrow> (case db_breakpoint_id r of
            Some j \<Rightarrow> smap_find (d_breakpoint_ids (dbg (fst x'))) j = None | None \<Rightarrow> True)
        | None \<Rightarrow> x' = x) \<and>
       (removed \<and> df_requests (snd x') = [] \<longrightarrow> unwatched (snd x')))
    (\<lambda>_ x'. snd x' = snd x) x"
proof (cases "smap_find (df_requests (snd x)) i")
  case None
  then show ?thesis by (simp add: deferred_remove_def wp_simps smap_erase_absent)
next
  case (Some r)
  let ?d = "(snd x)\<lparr>df_requests := smap_erase i (df_requests (snd x))\<rparr>"
  have idle: "wp (stop_monitoring_if_idle os) (\<lambda>_ x'. I (fst x') \<and> df_requests (snd x') = df_requests ?d \<and>
      (df_requests ?d = [] \<longrightarrow> unwatched (snd x'))) (\<lambda>_ x'. snd x' = snd x) (w, ?d)"
    if "I w" "\<And>i. keeps I (remove_breakpoint os i)" for I w
    by (rule wp_mono [OF wp_stop_monitoring_if_idle [of I "(w, ?d)" os]]) (use that in auto)
  show ?thesis
  proof (cases "db_breakpoint_id r")
    case None
    show ?thesis
      using idle [of "\<lambda>_. True" "fst x"]
      by (auto simp: deferred_remove_def Some None wp_simps keeps_def intro: wp_any elim: wp_mono)
  next
    case (Some j)
    have "wp (remove_breakpoint os j) (\<lambda>removed w. if removed
        then wp (stop_monitoring_if_idle os) (\<lambda>_ x'. smap_find (d_breakpoint_ids (dbg (fst x'))) j = None \<and>
          df_requests (snd x') = df_requests ?d \<and> (df_requests ?d = [] \<longrightarrow> unwatched (snd x')))
          (\<lambda>_ x'. snd x' = snd x) (w, ?d) else True) (\<lambda>_ _. True) (fst x)"
      by (rule wp_mono [OF wp_remove_breakpoint_gone [OF assms]])
        (simp_all add: idle [of "\<lambda>w. smap_find (d_breakpoint_ids (dbg w)) j = None", simplified] keeps_id_gone)
    then show ?thesis
      by (auto simp: deferred_remove_def \<open>smap_find _ i = Some r\<close> Some wp_simps split: if_splits elim!: wp_mono)
  qed
qed

text \<open>Removing a request by id answers whether there was one; if not, nothing happens, and otherwise the
  request is gone and no other one, and its breakpoint is no longer listed by the debugger. When the last
  request goes the loader is watched no more. If removing throws, every request is still there.\<close>

theorem deferred_remove_exact:
  assumes "world_wf (fst x)"
  shows "wp (deferred_remove os i)
    (\<lambda>removed x'. removed = (smap_find (df_requests (snd x)) i \<noteq> None) \<and>
       df_requests (snd x') = smap_erase i (df_requests (snd x)) \<and>
       (case smap_find (df_requests (snd x)) i of
          Some r \<Rightarrow> (case db_breakpoint_id r of
            Some j \<Rightarrow> smap_find (d_breakpoint_ids (dbg (fst x'))) j = None | None \<Rightarrow> True)
        | None \<Rightarrow> x' = x) \<and>
       (removed \<and> df_requests (snd x') = [] \<longrightarrow> unwatched (snd x')))
    (\<lambda>_ x'. snd x' = snd x) x"
  by (rule wp_deferred_remove [OF assms])

text \<open>A session whose executable has a debug slot: an ELF header, one dynamic segment and its debug entry.\<close>

definition example_executable :: "u8 list" where
  "example_executable = [127, 69, 76, 70, 2, 1, 1, 0, 0, 0, 0, 0, 0, 0, 0, 0, 3, 0, 62, 0, 1, 0, 0, 0,
     16, 0, 0, 0, 0, 0, 0, 0, 64, 0, 0, 0, 0, 0, 0, 0, 0, 0, 0, 0, 0, 0, 0, 0,
     0, 0, 0, 0, 64, 0, 56, 0, 1, 0, 64, 0, 0, 0, 0, 0, 2, 0, 0, 0, 6, 0, 0, 0,
     120, 0, 0, 0, 0, 0, 0, 0, 32, 0, 0, 0, 0, 0, 0, 0, 32, 0, 0, 0, 0, 0, 0, 0,
     16, 0, 0, 0, 0, 0, 0, 0, 16, 0, 0, 0, 0, 0, 0, 0, 8, 0, 0, 0, 0, 0, 0, 0,
     21, 0, 0, 0, 0, 0, 0, 0, 0, 0, 0, 0, 0, 0, 0, 0]"

definition example_metadata :: loader_metadata where
  "example_metadata = \<lparr>lm_entry = 16, lm_dt_debug = 40\<rparr>"

definition example_disk :: "ref_kernel files" where
  "example_disk = \<lparr>fs_canonical = Some, fs_equivalent = (\<lambda>a b. Some (a = b)),
     fs_contents = (\<lambda>p k. Contents example_executable), fs_page_size = 4096, fs_maps = (\<lambda>p k. None)\<rparr>"

lemma example_metadata_read: "parse_loader_metadata example_executable s = (Ok example_metadata, s)"
  by (simp add: parse_loader_metadata_def read_file_struct_def bindM_def returnM_def throwM_def decode_ehdr_def decode_phdr_def
    has_elf_magic_def is_elf64_lsb_def field_def example_executable_def Let_def wrap64_def example_metadata_def)

definition example_deferred :: deferred where
  "example_deferred = \<lparr>df_metadata = example_metadata, df_requests = smap_empty, df_next_request_id = 1, df_r_debug = None,
     df_bootstrap_id = None, df_bootstrap_address = None, df_loader_id = None, df_loader_address = None\<rparr>"

definition example_request :: deferred_breakpoint where
  "example_request = \<lparr>db_request_id = 1, db_target = \<lparr>dt_kind = TK_Symbol, dt_name = [0x66], dt_line = 0\<rparr>,
     db_breakpoint_id = Some 1, db_address = Some 0x401004\<rparr>"

theorem deferred_invariant_witness:
  "deferred_session (ref_os 77) example_disk example_elf (example_launched, example_deferred) \<and> world_wf example_launched"
proof -
  have "deferred_session (ref_os 77) example_disk example_elf (example_launched, example_deferred)"
    by (rule deferred_session.made [OF example_launched_session])
      (simp add: init_deferred_def read_loader_metadata_def bindM_def getM_def returnM_def example_disk_def
        example_metadata_read example_deferred_def)
  then show ?thesis using deferred_invariant by blast
qed

theorem deferred_remove_exact_witness:
  "fst (deferred_remove (ref_os 77) 1 (example_armed, example_deferred\<lparr>df_requests := [(1, example_request)]\<rparr>)) = Ok True \<and>
   df_requests (snd (snd (deferred_remove (ref_os 77) 1
     (example_armed, example_deferred\<lparr>df_requests := [(1, example_request)]\<rparr>)))) = []"
proof -
  let ?x = "(example_armed, example_deferred\<lparr>df_requests := [(1, example_request)]\<rparr>)"
  have run: "fst (deferred_remove (ref_os 77) 1 ?x) = Ok True" by code_simp
  then obtain x' where ok: "deferred_remove (ref_os 77) 1 ?x = (Ok True, x')"
    by (cases "deferred_remove (ref_os 77) 1 ?x") simp
  show ?thesis
    using run wp_OkD [OF deferred_remove_exact ok] example_armed_wf unfolding ok
    by (simp add: smap_erase_def smap_find_def)
qed

end
