(* ===== verification/RegistryProps.thy ===== *)
theory RegistryProps
  imports Registry DeferredProps
begin

text \<open>
  The registry of user breakpoints refines a table from processes and ids to expressions, with one counter
  for the ids; its invariant ties the entries of a domain to the requests of its controller, so that the
  internal errors of a missing controller or request do not occur.
\<close>

section \<open>The abstract table\<close>

record breakpoint_table =
  bt_entries :: "pid \<Rightarrow> nat \<Rightarrow> u8 list option"
  bt_next :: nat

definition table_add :: "pid \<Rightarrow> u8 list \<Rightarrow> breakpoint_table \<Rightarrow> breakpoint_table" where
  "table_add p e t = t\<lparr>bt_entries := (bt_entries t)(p := (bt_entries t p)(bt_next t \<mapsto> e)), bt_next := bt_next t + 1\<rparr>"

definition table_remove :: "pid \<Rightarrow> nat \<Rightarrow> breakpoint_table \<Rightarrow> breakpoint_table" where
  "table_remove p i t = t\<lparr>bt_entries := (bt_entries t)(p := (bt_entries t p)(i := None))\<rparr>"

definition table_clear :: "pid \<Rightarrow> breakpoint_table \<Rightarrow> breakpoint_table" where
  "table_clear p t = t\<lparr>bt_entries := (bt_entries t)(p := Map.empty)\<rparr>"

definition domain_table :: "domain_state \<Rightarrow> nat \<Rightarrow> u8 list option" where
  "domain_table d i = map_option en_expression (smap_find (ds_entries d) i)"

definition table_of :: "registry \<Rightarrow> breakpoint_table" where
  "table_of rg = \<lparr>bt_entries = (\<lambda>p. domain_table (domain_at rg p)), bt_next = rg_next_id rg\<rparr>"

section \<open>The invariant\<close>

definition deferred_backends :: "(nat, entry) smap \<Rightarrow> nat list" where
  "deferred_backends es = map (en_backend_id \<circ> snd) (filter (\<lambda>x. en_kind (snd x) = BK_Deferred) es)"

definition request_ids :: "deferred option \<Rightarrow> nat set" where
  "request_ids c = (case c of None \<Rightarrow> {} | Some df \<Rightarrow> fst ` set (df_requests df))"

definition domain_ok :: "nat \<Rightarrow> domain_state \<Rightarrow> bool" where
  "domain_ok n d \<longleftrightarrow> smap_wf (ds_entries d) \<and> (\<forall>x \<in> set (ds_entries d). fst x < n) \<and>
     pred_option deferred_wf (ds_deferred d) \<and>
     distinct (deferred_backends (ds_entries d)) \<and> set (deferred_backends (ds_entries d)) \<subseteq> request_ids (ds_deferred d)"

definition entries_wf :: "registry \<Rightarrow> bool" where
  "entries_wf rg \<longleftrightarrow> smap_wf (rg_domains rg) \<and> (\<forall>p. domain_ok (rg_next_id rg) (domain_at rg p)) \<and>
     (\<forall>p q. p \<noteq> q \<longrightarrow> dom (domain_table (domain_at rg p)) \<inter> dom (domain_table (domain_at rg q)) = {})"

definition rworld_wf :: "'k rworld \<Rightarrow> bool" where
  "rworld_wf x \<longleftrightarrow> world_wf (fst x) \<and> entries_wf (snd x)"

lemma domain_at_set [simp]:
  "smap_wf (rg_domains rg) \<Longrightarrow> domain_at (set_domain p d rg) q = (if q = p then d else domain_at rg q)"
  by (simp add: domain_at_def set_domain_def smap_find_assign)

lemma set_domain_fields [simp]:
  "rg_next_id (set_domain p d rg) = rg_next_id rg" "smap_wf (rg_domains rg) \<Longrightarrow> smap_wf (rg_domains (set_domain p d rg))"
  by (simp_all add: set_domain_def smap_wf_assign)

lemma entries_wfD [dest]:
  "entries_wf rg \<Longrightarrow> smap_wf (rg_domains rg)" "entries_wf rg \<Longrightarrow> domain_ok (rg_next_id rg) (domain_at rg p)"
  by (simp_all add: entries_wf_def)

lemma table_of_fields [simp]:
  "bt_entries (table_of rg) p = domain_table (domain_at rg p)" "bt_next (table_of rg) = rg_next_id rg"
  by (simp_all add: table_of_def)

lemma table_of_set:
  "entries_wf rg \<Longrightarrow> table_of (set_domain p d rg) =
     (table_of rg)\<lparr>bt_entries := (bt_entries (table_of rg))(p := domain_table d)\<rparr>"
  by (auto simp: table_of_def entries_wf_def)

lemma entries_wf_set:
  assumes "entries_wf rg" and "domain_ok (rg_next_id rg) d"
    and "dom (domain_table d) \<subseteq> dom (domain_table (domain_at rg p))"
  shows "entries_wf (set_domain p d rg)"
  using assms unfolding entries_wf_def by (simp add: Int_commute) blast

lemma entries_wf_same_entries:
  assumes "entries_wf rg" and "domain_ok (rg_next_id rg) d" and "ds_entries d = ds_entries (domain_at rg p)"
  shows "entries_wf (set_domain p d rg)" and "table_of (set_domain p d rg) = table_of rg"
proof -
  have "domain_table d = domain_table (domain_at rg p)" using assms(3) by (simp add: domain_table_def fun_eq_iff)
  then show "entries_wf (set_domain p d rg)" "table_of (set_domain p d rg) = table_of rg"
    using assms(1,2) by (auto intro: entries_wf_set simp: table_of_set) (simp add: table_of_def fun_eq_iff)
qed

lemma domain_ok_mono: "domain_ok n d \<Longrightarrow> n \<le> m \<Longrightarrow> domain_ok m d"
  by (auto simp: domain_ok_def)

lemma domain_ok_fresh: "domain_ok n d \<Longrightarrow> n \<le> i \<Longrightarrow> smap_find (ds_entries d) i = None"
  by (auto simp: domain_ok_def smap_find_None)

lemma domain_ok_add:
  assumes "domain_ok n d" and "en_kind e = BK_Deferred \<Longrightarrow>
      en_backend_id e \<in> request_ids (ds_deferred d) \<and> en_backend_id e \<notin> set (deferred_backends (ds_entries d))"
  shows "domain_ok (Suc n) (d\<lparr>ds_entries := smap_emplace n e (ds_entries d)\<rparr>)"
proof -
  have "smap_emplace n e (ds_entries d) = ds_entries d @ [(n, e)]"
    using domain_ok_fresh [OF assms(1)] assms(1) by (auto simp: domain_ok_def smap_emplace_def intro!: smap_assign_last)
  with assms show ?thesis
    using smap_wf_emplace [of "ds_entries d" n e] by (auto simp: domain_ok_def deferred_backends_def)
qed

lemma deferred_backends_erase:
  "deferred_backends (smap_erase i es) = map (en_backend_id \<circ> snd)
     (filter (\<lambda>x. fst x \<noteq> i) (filter (\<lambda>x. en_kind (snd x) = BK_Deferred) es))"
  by (simp add: deferred_backends_def smap_erase_def case_prod_beta conj_commute)

text \<open>An entry and the request it stands for go together.\<close>

lemma domain_ok_drop:
  assumes ok: "domain_ok n d" and wf: "pred_option deferred_wf c"
    and gone: "\<And>e. (i, e) \<in> set (ds_entries d) \<Longrightarrow> request_ids (ds_deferred d) - {en_backend_id e} \<subseteq> request_ids c \<and>
      (en_kind e = BK_Managed \<longrightarrow> request_ids (ds_deferred d) \<subseteq> request_ids c)"
    and found: "smap_find (ds_entries d) i \<noteq> None"
  shows "domain_ok n (d\<lparr>ds_deferred := c, ds_entries := smap_erase i (ds_entries d)\<rparr>)"
proof -
  let ?ds = "filter (\<lambda>x. en_kind (snd x) = BK_Deferred) (ds_entries d)"
  obtain e where e: "(i, e) \<in> set (ds_entries d)" using found by (auto dest: smap_find_SomeD)
  have dist: "distinct (map (en_backend_id \<circ> snd) ?ds)" using ok by (simp add: domain_ok_def deferred_backends_def)
  have keys: "distinct (map fst (ds_entries d))" using ok by (simp add: domain_ok_def smap_wf_distinct)
  have "en_backend_id (snd x) \<in> request_ids c" if x: "x \<in> set ?ds" "fst x \<noteq> i" for x
  proof -
    have old: "en_backend_id (snd x) \<in> request_ids (ds_deferred d)"
      using ok x(1) by (auto simp: domain_ok_def deferred_backends_def)
    show ?thesis
    proof (cases "en_kind e")
      case BK_Deferred
      then have "(i, e) \<in> set ?ds" using e by simp
      then have "en_backend_id (snd x) \<noteq> en_backend_id e"
        using dist x by (cases x) (auto simp: distinct_map inj_on_def)
      then show ?thesis using gone [OF e] old by blast
    qed (use gone [OF e] old in blast)
  qed
  moreover have "distinct (deferred_backends (smap_erase i (ds_entries d)))"
    unfolding deferred_backends_erase by (rule distinct_map_filter [OF dist])
  moreover have "\<forall>x \<in> set (smap_erase i (ds_entries d)). fst x < n"
    using ok set_smap_erase [of i "ds_entries d"] by (auto simp: domain_ok_def)
  ultimately show ?thesis
    using ok wf unfolding domain_ok_def by (auto simp: deferred_backends_erase smap_wf_erase)
qed

section \<open>What adding a target does to the requests\<close>

definition request_keys :: "deferred \<Rightarrow> nat set" where
  "request_keys df = fst ` set (df_requests df)"

lemma request_keys_requested: "request_keys df = fst ` set (requested df)"
  by (force simp: request_keys_def requested_def)

lemma request_keys_erase: "df_requests d = smap_erase i (df_requests df) \<Longrightarrow> request_keys d = request_keys df - {i}"
  by (force simp: request_keys_def smap_erase_def)

lemma request_keys_update:
  "request_keys (df\<lparr>df_requests := smap_erase i (df_requests df)\<rparr>) = request_keys df - {i}"
  by (force simp: request_keys_def smap_erase_def)

lemma request_keys_emplace:
  assumes "deferred_wf df"
  shows "request_keys (df\<lparr>df_next_request_id := n, df_requests := smap_emplace i r (df_requests df)\<rparr>) = insert i (request_keys df)"
proof -
  have "smap_wf (df_requests df)" using assms by (simp add: deferred_wf_def requests_ok_def)
  then have "{k. smap_find (smap_emplace i r (df_requests df)) k \<noteq> None} = insert i {k. smap_find (df_requests df) k \<noteq> None}"
    by (auto simp: smap_find_emplace)
  then show ?thesis by (simp add: request_keys_def smap_find_None)
qed

lemma request_keys_fresh: "deferred_wf df \<Longrightarrow> df_next_request_id df \<notin> request_keys df"
  using requests_ok_fresh by (auto simp: deferred_wf_def request_keys_def smap_find_None)

lemma wp_undo_request:
  assumes "request_keys (snd x) = insert i K" and "i \<notin> K"
  shows "wp (undo_request os i e) Q (\<lambda>_ x'. K \<subseteq> request_keys (snd x')) x"
  using assms
  by (auto simp: undo_request_def wp_simps request_keys_update intro!: wp_any split: option.split)

lemma wp_add_target:
  assumes "deferred_wf (snd x)"
  shows "wp (add_target os fs ex target)
    (\<lambda>i x'. i = df_next_request_id (snd x) \<and> request_keys (snd x') = insert i (request_keys (snd x)))
    (\<lambda>_ x'. request_keys (snd x) \<subseteq> request_keys (snd x')) x"
proof -
  let ?i = "df_next_request_id (snd x)" and ?K = "request_keys (snd x)"
  have keys: "keeps (\<lambda>x. request_keys (snd x) = insert ?i ?K) (ensure_monitoring os fs ex)"
  proof (rule keepsI)
    fix y :: "'a dworld"
    assume "request_keys (snd y) = insert ?i ?K"
    then show "wp (ensure_monitoring os fs ex) (\<lambda>_ x. request_keys (snd x) = insert ?i ?K)
        (\<lambda>_ x. request_keys (snd x) = insert ?i ?K) y"
      by (intro wp_keeping [OF requesting_monitoring(1) [of "requested (snd y)"]])
        (simp_all add: request_keys_requested)
  qed
  have monitor: "wp (catchM (ensure_monitoring os fs ex) (undo_request os ?i))
      (\<lambda>_ x'. request_keys (snd x') = insert ?i ?K) (\<lambda>_ x'. ?K \<subseteq> request_keys (snd x')) y"
    if "request_keys (snd y) = insert ?i ?K" for y
    unfolding wp_catchM
    by (rule wp_keeping [OF keys]) (use that in \<open>auto intro: wp_undo_request simp: request_keys_fresh [OF assms]\<close>)
  note emplaced = request_keys_emplace [OF assms]
  have bumped: "request_keys ((snd x)\<lparr>df_next_request_id := n\<rparr>) = ?K" for n by (simp add: request_keys_def)
  show ?thesis
    unfolding add_target_def
    apply (simp add: Let_def wp_bindM wp_on_world wp_deferredM wp_modify_deferred wp_thenM wp_if wp_throwM wp_dbgM)
    apply (intro impI)
    apply (rule wp_any)
    subgoal for resolved w
      by (cases resolved) (simp_all add: wp_bindM wp_on_world wp_returnM monitor emplaced wp_any bumped)
    by (simp add: bumped)
qed

section \<open>The parts of the operations\<close>

lemma wp_registryM [wp_simps]: "wp registryM Q E = (\<lambda>x. Q (snd x) x)"
  by (simp add: registryM_def wp_simps)

lemma wp_modify_registry [wp_simps]: "wp (modify_registry f) Q E = (\<lambda>x. Q () (fst x, f (snd x)))"
  by (simp add: modify_registry_def wp_simps case_prod_beta)

lemma wp_active_pid [wp_simps]: "wp active_pid Q E = (\<lambda>x. Q (debugger_pid (dbg (fst x))) x)"
  by (simp add: active_pid_def wp_simps)

lemma wp_on_deferred:
  "ds_deferred (domain_at (snd x) key) = Some df \<Longrightarrow> wp (on_deferred key m) Q E x =
    wp m (\<lambda>a y. Q a (fst y, set_domain key ((domain_at (snd x) key)\<lparr>ds_deferred := Some (snd y)\<rparr>) (snd x)))
      (\<lambda>e y. E e (fst y, set_domain key ((domain_at (snd x) key)\<lparr>ds_deferred := Some (snd y)\<rparr>) (snd x))) (fst x, df)"
  by (auto simp: wp_def on_deferred_def split: prod.splits outcome.splits)

text \<open>A state of the registry that stands for an abstract table.\<close>

definition stands_for :: "breakpoint_table \<Rightarrow> 'k rworld \<Rightarrow> bool" where
  "stands_for t x \<longleftrightarrow> rworld_wf x \<and> table_of (snd x) = t"

lemma stands_for_simps:
  "stands_for t (w, rg) \<longleftrightarrow> world_wf w \<and> entries_wf rg \<and> table_of rg = t"
  by (auto simp: stands_for_def rworld_wf_def)

lemma keeps_stands_for_world [keeps_intros]: "keeps world_wf m \<Longrightarrow> keeps (stands_for t) (on_world m)"
  by (auto simp: keeps_def wp_on_world stands_for_simps stands_for_def rworld_wf_def intro: wp_keeping [of world_wf])

lemma controller_ok:
  assumes "entries_wf rg" and "ds_deferred (domain_at rg key) = Some df"
  shows "deferred_wf df" and "set (deferred_backends (ds_entries (domain_at rg key))) \<subseteq> request_keys df"
  using entries_wfD(2) [OF assms(1), of key] assms(2)
  by (auto simp: domain_ok_def request_ids_def request_keys_def)

text \<open>Changing a controller without losing a request of an entry.\<close>

lemma registry_controller:
  assumes "entries_wf rg" and "deferred_wf df"
    and "set (deferred_backends (ds_entries (domain_at rg key))) \<subseteq> request_keys df"
  shows "entries_wf (set_domain key ((domain_at rg key)\<lparr>ds_deferred := Some df\<rparr>) rg)"
    and "table_of (set_domain key ((domain_at rg key)\<lparr>ds_deferred := Some df\<rparr>) rg) = table_of rg"
proof -
  have "domain_ok (rg_next_id rg) ((domain_at rg key)\<lparr>ds_deferred := Some df\<rparr>)"
    using entries_wfD(2) [OF assms(1), of key] assms(2,3) by (simp add: domain_ok_def request_ids_def request_keys_def)
  then show "entries_wf (set_domain key ((domain_at rg key)\<lparr>ds_deferred := Some df\<rparr>) rg)"
    and "table_of (set_domain key ((domain_at rg key)\<lparr>ds_deferred := Some df\<rparr>) rg) = table_of rg"
    using assms(1) by (simp_all add: entries_wf_same_entries)
qed

lemma stands_for_on_deferred:
  assumes x: "stands_for t x" "ds_deferred (domain_at (snd x) key) = Some df"
    and m: "keeps dworld_wf m" "\<And>R. keeps (requesting R) m"
  shows "wp (on_deferred key m) (\<lambda>_. stands_for t) (\<lambda>_. stands_for t) x"
proof -
  have wf: "world_wf (fst x)" "entries_wf (snd x)" using x(1) by (auto simp: stands_for_def rworld_wf_def)
  have "wp m (\<lambda>_ y. requested (snd y) = requested df \<and> dworld_wf y) (\<lambda>_ y. requested (snd y) = requested df \<and> dworld_wf y) (fst x, df)"
    by (rule wp_keeps [OF m(1)], use wf controller_ok [OF wf(2) x(2)] keepsD [OF m(2)] in \<open>auto simp: dworld_wf_def\<close>)
  then show ?thesis
    unfolding wp_on_deferred [OF x(2)]
    by (rule wp_mono) (use x(1) controller_ok [OF wf(2) x(2)] in
      \<open>auto simp: stands_for_def rworld_wf_def dworld_wf_def request_keys_requested intro!: registry_controller\<close>)
qed

lemma stands_for_new_entry:
  assumes "stands_for t x" and "en_kind e = BK_Deferred \<Longrightarrow>
      en_backend_id e \<in> request_ids (ds_deferred (domain_at (snd x) key)) \<and>
      en_backend_id e \<notin> set (deferred_backends (ds_entries (domain_at (snd x) key)))"
  shows "wp (new_entry key e) (\<lambda>i x'. i = bt_next t \<and> stands_for (table_add key (en_expression e) t) x') (\<lambda>_ _. False) x"
proof -
  let ?rg = "snd x" and ?n = "rg_next_id (snd x)"
  let ?d = "(domain_at ?rg key)\<lparr>ds_entries := smap_emplace ?n e (ds_entries (domain_at ?rg key))\<rparr>"
  let ?rg' = "set_domain key ?d (?rg\<lparr>rg_next_id := Suc ?n\<rparr>)"
  have wf: "world_wf (fst x)" "entries_wf ?rg" "t = table_of ?rg" using assms(1) by (auto simp: stands_for_def rworld_wf_def)
  have at: "domain_at (?rg\<lparr>rg_next_id := Suc ?n\<rparr>) = domain_at ?rg" by (simp add: domain_at_def fun_eq_iff)
  have ok: "domain_ok (Suc ?n) ?d" by (rule domain_ok_add [OF entries_wfD(2) [OF wf(2)]]) (use assms(2) in blast)
  have fresh: "domain_table (domain_at ?rg p) ?n = None" for p
    using domain_ok_fresh [OF entries_wfD(2) [OF wf(2)]] by (simp add: domain_table_def)
  have new: "domain_table ?d = (domain_table (domain_at ?rg key))(?n \<mapsto> en_expression e)"
    using entries_wfD(2) [OF wf(2), of key] fresh [of key]
    by (auto simp: domain_table_def fun_eq_iff domain_ok_def smap_find_emplace)
  have "domain_ok (Suc ?n) (domain_at ?rg p)" for p by (rule domain_ok_mono [OF entries_wfD(2) [OF wf(2)]]) simp
  moreover have "?n \<notin> dom (domain_table (domain_at ?rg p))" for p using fresh by (simp add: domIff)
  ultimately have "entries_wf ?rg'"
    using wf(2) ok unfolding entries_wf_def by (auto simp: at new)
  moreover have "table_of ?rg' = table_add key (en_expression e) t"
    using wf(3) entries_wfD(1) [OF wf(2)] by (auto simp: table_of_def table_add_def at new fun_eq_iff)
  ultimately show ?thesis
    using wf by (simp add: new_entry_def wp_simps Let_def stands_for_simps at table_of_def)
qed

lemma stands_for_active_domain:
  assumes "stands_for t x"
  shows "wp active_domain (\<lambda>key x'. key = debugger_pid (dbg (fst x)) \<and> stands_for t x') (\<lambda>_ _. False) x"
  using assms entries_wf_same_entries [of "snd x" "domain_at (snd x) p" p for p]
  by (auto simp: active_domain_def wp_simps stands_for_def rworld_wf_def entries_wfD)

lemma request_ids_no_backends: "set (deferred_backends es) \<subseteq> request_ids None \<Longrightarrow> deferred_backends es = []"
  by (simp add: request_ids_def)

lemma stands_for_ensure_deferred:
  assumes "stands_for t x"
  shows "wp (ensure_deferred fs ex key)
    (\<lambda>_ x'. stands_for t x' \<and> ds_deferred (domain_at (snd x') key) \<noteq> None) (\<lambda>_. stands_for t) x"
proof (cases "ds_deferred (domain_at (snd x) key)")
  case None
  have wf: "world_wf (fst x)" "entries_wf (snd x)" "t = table_of (snd x)"
    using assms by (auto simp: stands_for_def rworld_wf_def)
  have none: "deferred_backends (ds_entries (domain_at (snd x) key)) = []"
    using entries_wfD(2) [OF wf(2), of key] None by (auto simp: domain_ok_def request_ids_def)
  have init: "wp (init_deferred fs ex) (\<lambda>df _. deferred_wf df) (\<lambda>_ _. True) k" for k
    by (auto simp: wp_def init_deferred_wf split: prod.splits outcome.splits)
  show ?thesis
    using None wf entries_wfD(1) [OF wf(2)] none
    by (auto simp: ensure_deferred_def wp_simps stands_for_simps registry_controller intro!: wp_mono [OF init])
qed (use assms in \<open>simp add: ensure_deferred_def wp_simps\<close>)

section \<open>Deferring to a controller\<close>

text \<open>What a way to request a target promises: the controller stays well formed, and one request with a
  new id joins the others, unless it throws, and then no other request is lost.\<close>

locale request_maker =
  fixes make :: "('k dworld, nat) prog"
  assumes make_wf: "keeps dworld_wf make"
    and make_adds: "deferred_wf (snd y) \<Longrightarrow> wp make
      (\<lambda>i y'. i \<notin> request_keys (snd y) \<and> request_keys (snd y') = insert i (request_keys (snd y)))
      (\<lambda>_ y'. request_keys (snd y) \<subseteq> request_keys (snd y')) y"
begin

lemma on_deferred_make:
  assumes x: "stands_for t x" "ds_deferred (domain_at (snd x) key) = Some df"
  shows "wp (on_deferred key make)
    (\<lambda>i x'. stands_for t x' \<and> i \<in> request_ids (ds_deferred (domain_at (snd x') key)) \<and>
      i \<notin> set (deferred_backends (ds_entries (domain_at (snd x') key))))
    (\<lambda>_. stands_for t) x"
proof -
  have wf: "world_wf (fst x)" "entries_wf (snd x)" using x(1) by (auto simp: stands_for_def rworld_wf_def)
  note df = controller_ok [OF wf(2) x(2)]
  have "wp make
      (\<lambda>i y'. (i \<notin> request_keys df \<and> request_keys (snd y') = insert i (request_keys df)) \<and> dworld_wf y')
      (\<lambda>_ y'. request_keys df \<subseteq> request_keys (snd y') \<and> dworld_wf y') (fst x, df)"
    using wp_keeps [OF make_wf _ make_adds, of "(fst x, df)"] wf df by (simp add: dworld_wf_def)
  then show ?thesis
    unfolding wp_on_deferred [OF x(2)]
  proof (rule wp_mono)
    fix i y'
    assume y: "(i \<notin> request_keys df \<and> request_keys (snd y') = insert i (request_keys df)) \<and> dworld_wf y'"
    then have "set (deferred_backends (ds_entries (domain_at (snd x) key))) \<subseteq> request_keys (snd y')" using df by auto
    with y registry_controller [OF wf(2) _ this] x(1) entries_wfD(1) [OF wf(2)] df
    show "stands_for t (fst y', set_domain key ((domain_at (snd x) key)\<lparr>ds_deferred := Some (snd y')\<rparr>) (snd x)) \<and>
        i \<in> request_ids (ds_deferred (domain_at (snd (fst y', set_domain key ((domain_at (snd x) key)\<lparr>ds_deferred := Some (snd y')\<rparr>) (snd x))) key)) \<and>
        i \<notin> set (deferred_backends (ds_entries (domain_at (snd (fst y', set_domain key ((domain_at (snd x) key)\<lparr>ds_deferred := Some (snd y')\<rparr>) (snd x))) key)))"
      by (auto simp: stands_for_def rworld_wf_def dworld_wf_def request_ids_def request_keys_def)
  next
    fix e y'
    assume y: "request_keys df \<subseteq> request_keys (snd y') \<and> dworld_wf y'"
    then have "set (deferred_backends (ds_entries (domain_at (snd x) key))) \<subseteq> request_keys (snd y')" using df by auto
    with y registry_controller [OF wf(2) _ this] x(1)
    show "stands_for t (fst y', set_domain key ((domain_at (snd x) key)\<lparr>ds_deferred := Some (snd y')\<rparr>) (snd x))"
      by (auto simp: stands_for_def rworld_wf_def dworld_wf_def)
  qed
qed

text \<open>The part of \<^verbatim>\<open>add_symbol\<close> and \<^verbatim>\<open>add_source\<close> after a failed lookup.\<close>

lemma defer_entry:
  assumes "stands_for t x"
  shows "wp (bindM active_domain (\<lambda>key. thenM (ensure_deferred fs ex key) (bindM (on_deferred key make) (\<lambda>i.
      new_entry key \<lparr>en_expression = e, en_kind = BK_Deferred, en_backend_id = i\<rparr>))))
    (\<lambda>i x'. i = bt_next t \<and> stands_for (table_add (debugger_pid (dbg (fst x))) e t) x') (\<lambda>_. stands_for t) x"
proof -
  have entry: "wp (new_entry key \<lparr>en_expression = e, en_kind = BK_Deferred, en_backend_id = i\<rparr>)
      (\<lambda>i x'. i = bt_next t \<and> stands_for (table_add key e t) x') (\<lambda>_. stands_for t) y"
    if "stands_for t y \<and> i \<in> request_ids (ds_deferred (domain_at (snd y) key)) \<and>
      i \<notin> set (deferred_backends (ds_entries (domain_at (snd y) key)))" for key i y
    by (rule wp_mono [OF stands_for_new_entry [of t y]]) (use that in auto)
  have made: "wp (bindM (on_deferred key make) (\<lambda>i. new_entry key \<lparr>en_expression = e, en_kind = BK_Deferred, en_backend_id = i\<rparr>))
      (\<lambda>i x'. i = bt_next t \<and> stands_for (table_add key e t) x') (\<lambda>_. stands_for t) y"
    if y: "stands_for t y \<and> ds_deferred (domain_at (snd y) key) \<noteq> None" for key y
  proof -
    obtain df where "ds_deferred (domain_at (snd y) key) = Some df" using y by auto
    then show ?thesis unfolding wp_bindM using y by (intro wp_mono [OF on_deferred_make] entry) auto
  qed
  show ?thesis
    unfolding wp_bindM wp_thenM
    by (rule wp_mono [OF stands_for_active_domain [OF assms]])
      (auto intro!: wp_mono [OF stands_for_ensure_deferred] made [unfolded wp_bindM])
qed

end

lemma add_target_makes:
  assumes "deferred_wf (snd y)"
  shows "wp (add_target os fs ex target)
      (\<lambda>i y'. i \<notin> request_keys (snd y) \<and> request_keys (snd y') = insert i (request_keys (snd y)))
      (\<lambda>_ y'. request_keys (snd y) \<subseteq> request_keys (snd y')) y"
  by (rule wp_mono [OF wp_add_target [OF assms]]) (simp_all add: request_keys_fresh [OF assms])

interpretation symbol_request: request_maker "deferred_add_symbol os fs ex symbol" for os fs ex symbol
  by unfold_locales (auto simp: deferred_add_symbol_def wp_simps intro!: keeps_intros add_target_makes)

interpretation source_request: request_maker "deferred_add_source os fs ex path line" for os fs ex path line
  by unfold_locales (auto simp: deferred_add_source_def wp_simps intro!: keeps_intros add_target_makes)

section \<open>The operations\<close>

lemma wp_add_breakpoint_pid:
  "wp (add_breakpoint os a) (\<lambda>_ w'. debugger_pid (dbg w') = debugger_pid (dbg w)) (\<lambda>_ _. True) w"
  unfolding add_breakpoint_def Let_def by (auto simp: wp_simps Let_def debugger_pid_def intro!: wp_any)

lemma stands_for_add_address:
  assumes "stands_for t x"
  shows "wp (add_address os a e)
    (\<lambda>i x'. i = bt_next t \<and> stands_for (table_add (debugger_pid (dbg (fst x))) e t) x') (\<lambda>_. stands_for t) x"
proof -
  have wf: "world_wf (fst x)" using assms by (simp add: stands_for_def rworld_wf_def)
  have "wp (add_breakpoint os a) (\<lambda>_ w'. debugger_pid (dbg w') = debugger_pid (dbg (fst x)) \<and> world_wf w')
      (\<lambda>_ w'. True \<and> world_wf w') (fst x)"
    by (rule wp_keeps [OF keeps_add_breakpoint wf wp_add_breakpoint_pid])
  then show ?thesis
    unfolding add_address_def wp_bindM wp_on_world
    by (rule wp_mono) (use assms in \<open>auto simp: stands_for_def rworld_wf_def intro!:
        wp_mono [OF stands_for_active_domain [of t]] wp_mono [OF stands_for_new_entry [of t]]\<close>)
qed

lemma stands_for_lookup:
  assumes "stands_for t x" and "\<And>r y. stands_for t y \<Longrightarrow> debugger_pid (dbg (fst y)) = debugger_pid (dbg (fst x)) \<Longrightarrow> wp (f r) Q (\<lambda>_. stands_for t) y"
  shows "wp (bindM (on_world (on_kern m)) f) Q (\<lambda>_. stands_for t) x"
  using assms by (auto simp: wp_simps stands_for_def rworld_wf_def intro!: wp_any)

text \<open>A lookup that finds an address adds it; one that fails defers.\<close>

lemma stands_for_found_or_deferred:
  fixes x :: "'k rworld"
  assumes x: "stands_for t x" and later: "\<And>y. stands_for t y \<Longrightarrow> wp otherwise
      (\<lambda>i x'. i = bt_next t \<and> stands_for (table_add (debugger_pid (dbg (fst y))) e t) x') (\<lambda>_. stands_for t) y"
  shows "wp (bindM active_pid (\<lambda>key. bindM (on_world (on_kern (look key))) (\<lambda>resolved. case resolved of
       Some r \<Rightarrow> add_address os (address r) e | None \<Rightarrow> otherwise)))
    (\<lambda>i x'. i = bt_next t \<and> stands_for (table_add (debugger_pid (dbg (fst x))) e t) x') (\<lambda>_. stands_for t) x"
  unfolding wp_bindM [of active_pid] wp_active_pid
proof (rule stands_for_lookup [OF x])
  fix r and y :: "'k rworld"
  assume y: "stands_for t y" "debugger_pid (dbg (fst y)) = debugger_pid (dbg (fst x))"
  show "wp (case r of Some r \<Rightarrow> add_address os (address r) e | None \<Rightarrow> otherwise)
      (\<lambda>i x'. i = bt_next t \<and> stands_for (table_add (debugger_pid (dbg (fst x))) e t) x') (\<lambda>_. stands_for t) y"
    using stands_for_add_address [OF y(1)] later [OF y(1)] unfolding y(2) by (cases r) simp_all
qed

lemma stands_for_add_symbol:
  assumes "stands_for t x"
  shows "wp (add_symbol os fs ex symbol)
    (\<lambda>i x'. i = bt_next t \<and> stands_for (table_add (debugger_pid (dbg (fst x))) symbol t) x') (\<lambda>_. stands_for t) x"
  using stands_for_found_or_deferred [OF assms symbol_request.defer_entry]
  by (cases "symbol = []") (simp_all add: add_symbol_def wp_throwM assms)

lemma stands_for_add_source:
  assumes "stands_for t x"
  shows "wp (add_source os fs ex path line e)
    (\<lambda>i x'. i = bt_next t \<and> stands_for (table_add (debugger_pid (dbg (fst x))) e t) x') (\<lambda>_. stands_for t) x"
  using stands_for_found_or_deferred [OF assms source_request.defer_entry]
  by (cases "path = [] \<or> line = 0") (auto simp: add_source_def wp_throwM assms)

lemma wp_active_domain_if_present [wp_simps]:
  "wp active_domain_if_present Q E = (\<lambda>x. Q (map_option (Pair (debugger_pid (dbg (fst x))))
     (smap_find (rg_domains (snd x)) (debugger_pid (dbg (fst x))))) x)"
  by (simp add: active_domain_if_present_def wp_simps)

lemma domain_at_present: "smap_find (rg_domains rg) p = Some d \<Longrightarrow> domain_at rg p = d"
  by (simp add: domain_at_def)

lemma stands_for_continue:
  assumes "stands_for t x"
  shows "wp (registry_continue os fs ex n turns policy) (\<lambda>_. stands_for t) (\<lambda>_. stands_for t) x"
proof -
  let ?p = "debugger_pid (dbg (fst x))"
  have plain: "wp (on_world (continue_execution os n policy)) (\<lambda>_. stands_for t) (\<lambda>_. stands_for t) x"
    using keepsD [of "stands_for t" "on_world (continue_execution os n policy)", OF _ assms] by (auto intro: keeps_intros)
  have watched: "wp (on_deferred ?p (deferred_continue os fs ex n turns policy)) (\<lambda>_. stands_for t) (\<lambda>_. stands_for t) x"
    if "ds_deferred (domain_at (snd x) ?p) = Some df" for df
    by (rule stands_for_on_deferred [OF assms that keeps_deferred_continue])
      (unfold deferred_continue_def, intro keeps_intros requesting_run_loop)
  show ?thesis
    unfolding registry_continue_def wp_bindM wp_active_domain_if_present
    using plain watched by (auto simp: wp_if split: option.split dest: domain_at_present)
qed

lemma domain_ok_empty: "domain_ok n empty_domain"
  by (simp add: domain_ok_def empty_domain_def smap_empty_def deferred_backends_def)

lemma domain_table_empty [simp]: "domain_table empty_domain = Map.empty"
  by (simp add: domain_table_def empty_domain_def smap_empty_def fun_eq_iff)

lemma stands_for_clear:
  assumes "stands_for t x"
  shows "stands_for (table_clear p t) (fst x, set_domain p empty_domain (snd x))"
  using assms entries_wf_set [of "snd x" empty_domain p]
  by (auto simp: stands_for_def rworld_wf_def domain_ok_empty table_of_set table_clear_def)

lemma table_clear_absent: "smap_find (rg_domains rg) p = None \<Longrightarrow> table_clear p (table_of rg) = table_of rg"
  by (auto simp: table_clear_def table_of_def domain_at_def fun_eq_iff)

lemma stands_for_on_image_replaced:
  assumes "stands_for t x"
  shows "wp (on_image_replaced os) (\<lambda>_. stands_for (table_clear (debugger_pid (dbg (fst x))) t)) (\<lambda>_ _. False) x"
proof -
  let ?p = "debugger_pid (dbg (fst x))"
  have watched: "wp (on_deferred ?p (suspend_monitoring os)) (\<lambda>_ x'. stands_for t x') (\<lambda>_ _. False) x"
    if df: "ds_deferred (domain_at (snd x) ?p) = Some df" for df
  proof -
    have "wp (on_deferred ?p (suspend_monitoring os)) (\<lambda>_ _. True) (\<lambda>_ _. False) x"
      unfolding wp_on_deferred [OF df] by (rule wp_mono [OF wp_suspend_monitoring]) auto
    from wp_conj [OF this stands_for_on_deferred [OF assms df]] show ?thesis
      by (auto intro: keeps_intros elim!: wp_mono)
  qed
  have absent: "stands_for (table_clear ?p t) x" if "smap_find (rg_domains (snd x)) ?p = None"
    using assms table_clear_absent [OF that] by (auto simp: stands_for_def)
  show ?thesis
    unfolding on_image_replaced_def wp_bindM wp_active_domain_if_present
    using assms watched absent
    by (auto simp: wp_simps domain_at_present split: option.split intro: stands_for_clear elim!: wp_mono)
qed

lemma smap_assign_assign: "smap_assign k v (smap_assign k w m) = smap_assign k v m"
  by (induction k w m rule: smap_assign.induct) auto

lemma set_domain_twice: "set_domain p d (set_domain p d' rg) = set_domain p d rg"
  by (simp add: set_domain_def smap_assign_assign)

text \<open>Erasing an entry, together with a controller that lost at most its request.\<close>

lemma stands_for_erase:
  assumes x: "stands_for t (v, rg)" and w: "world_wf w" and e: "smap_find (ds_entries (domain_at rg p)) i = Some e"
    and c: "pred_option deferred_wf c" and ids: "request_ids (ds_deferred (domain_at rg p)) - {en_backend_id e} \<subseteq> request_ids c"
      "en_kind e = BK_Managed \<longrightarrow> request_ids (ds_deferred (domain_at rg p)) \<subseteq> request_ids c"
  shows "stands_for (table_remove p i t) (w, set_domain p
    ((domain_at rg p)\<lparr>ds_deferred := c, ds_entries := smap_erase i (ds_entries (domain_at rg p))\<rparr>) rg)"
proof -
  let ?d = "(domain_at rg p)\<lparr>ds_deferred := c, ds_entries := smap_erase i (ds_entries (domain_at rg p))\<rparr>"
  have wf: "entries_wf rg" "t = table_of rg" using x by (auto simp: stands_for_simps)
  note ok = entries_wfD(2) [OF wf(1), of p]
  have "e' = e" if "(i, e') \<in> set (ds_entries (domain_at rg p))" for e'
    using that e ok by (simp add: domain_ok_def smap_find_mem)
  then have "domain_ok (rg_next_id rg) ?d" by (intro domain_ok_drop [OF ok c]) (use e ids in auto)
  moreover have "domain_table ?d = (domain_table (domain_at rg p))(i := None)"
    using ok by (auto simp: domain_table_def fun_eq_iff domain_ok_def smap_find_erase)
  ultimately show ?thesis
    using wf w entries_wf_set [OF wf(1), of ?d p]
    by (auto simp: stands_for_simps table_of_set [OF wf(1)] table_remove_def)
qed

lemma stands_for_remove_backend:
  assumes x: "stands_for t x" and e: "smap_find (ds_entries (domain_at (snd x) p)) i = Some e"
  shows "wp (remove_backend os p (domain_at (snd x) p) e)
    (\<lambda>removed x'. if removed then stands_for (table_remove p i t) (fst x', set_domain p
       ((domain_at (snd x') p)\<lparr>ds_entries := smap_erase i (ds_entries (domain_at (snd x') p))\<rparr>) (snd x'))
      else stands_for t x')
    (\<lambda>_. stands_for t) x"
proof -
  let ?d = "domain_at (snd x) p"
  have wf: "world_wf (fst x)" "entries_wf (snd x)" using x by (auto simp: stands_for_def rworld_wf_def)
  have x': "stands_for t (fst x, snd x)" using x by simp
  show ?thesis
  proof (cases "en_kind e")
    case BK_Managed
    have "pred_option deferred_wf (ds_deferred ?d)" using entries_wfD(2) [OF wf(2), of p] by (simp add: domain_ok_def)
    then have "stands_for (table_remove p i t) (w, set_domain p (?d\<lparr>ds_entries := smap_erase i (ds_entries ?d)\<rparr>) (snd x))"
      if "world_wf w" for w using stands_for_erase [OF x' that e, of "ds_deferred ?d"] by simp
    then show ?thesis
      unfolding remove_backend_def using BK_Managed x wf
      by (auto simp: wp_on_world stands_for_def rworld_wf_def intro!: wp_keeping [of world_wf] keeps_intros)
  next
    case BK_Deferred
    show ?thesis
    proof (cases "ds_deferred ?d")
      case None
      then show ?thesis using BK_Deferred x by (simp add: remove_backend_def wp_throwM)
    next
      case (Some df)
      note df = controller_ok [OF wf(2) Some]
      have "en_backend_id e \<in> request_keys df"
        using df(2) e BK_Deferred by (force simp: deferred_backends_def dest: smap_find_SomeD)
      then have found: "smap_find (df_requests df) (en_backend_id e) \<noteq> None" by (simp add: request_keys_def smap_find_None)
      let ?post = "\<lambda>removed y. removed \<and> request_keys (snd y) = request_keys df - {en_backend_id e} \<and> dworld_wf y"
      have run: "wp (deferred_remove os (en_backend_id e)) ?post (\<lambda>_ y. snd y = df \<and> dworld_wf y) (fst x, df)"
        by (rule wp_mono [OF wp_keeps [OF keeps_deferred_remove _ wp_deferred_remove]])
          (use wf df found in \<open>auto simp: dworld_wf_def request_keys_erase\<close>)
      have erased: "stands_for (table_remove p i t) (fst y, set_domain p
          (?d\<lparr>ds_deferred := Some (snd y), ds_entries := smap_erase i (ds_entries ?d)\<rparr>) (snd x))"
        if "?post removed y" for removed and y :: "'a dworld"
        by (rule stands_for_erase [OF x' _ e])
          (use that BK_Deferred Some in \<open>auto simp: dworld_wf_def request_ids_def request_keys_def\<close>)
      have kept: "stands_for t (w, set_domain p (?d\<lparr>ds_deferred := Some df\<rparr>) (snd x))" if "world_wf w" for w
        using registry_controller [OF wf(2) df] x that by (simp add: stands_for_def rworld_wf_def)
      have "wp (on_deferred p (deferred_remove os (en_backend_id e)))
          (\<lambda>removed x'. if removed then stands_for (table_remove p i t) (fst x', set_domain p
             ((domain_at (snd x') p)\<lparr>ds_entries := smap_erase i (ds_entries (domain_at (snd x') p))\<rparr>) (snd x'))
            else stands_for t x') (\<lambda>_. stands_for t) x"
        unfolding wp_on_deferred [OF Some]
      proof (rule wp_mono [OF run], goal_cases)
        case (1 removed y)
        then show ?case using erased entries_wfD(1) [OF wf(2)] by (simp add: set_domain_twice)
      next
        case (2 e' y)
        then show ?case using kept [of "fst y"] by (simp add: dworld_wf_def)
      qed
      then show ?thesis using Some BK_Deferred by (simp add: remove_backend_def)
    qed
  qed
qed

lemma stands_for_remove:
  assumes "stands_for t x"
  shows "wp (registry_remove os i)
    (\<lambda>removed x'. removed = (bt_entries t (debugger_pid (dbg (fst x))) i \<noteq> None) \<and>
       stands_for (table_remove (debugger_pid (dbg (fst x))) i t) x')
    (\<lambda>_. stands_for t) x"
proof -
  let ?p = "debugger_pid (dbg (fst x))"
  have t: "t = table_of (snd x)" using assms by (simp add: stands_for_def)
  have same: "stands_for (table_remove ?p i t) x" if "smap_find (ds_entries (domain_at (snd x) ?p)) i = None"
  proof -
    have "table_remove ?p i t = t" using that by (auto simp: t table_remove_def table_of_def domain_table_def fun_eq_iff)
    then show ?thesis using assms by simp
  qed
  show ?thesis
  proof (cases "smap_find (rg_domains (snd x)) ?p")
    case None
    then have "domain_at (snd x) ?p = empty_domain" by (simp add: domain_at_def)
    then show ?thesis using None same
      by (simp add: registry_remove_def wp_simps t table_of_def empty_domain_def smap_empty_def domain_table_def)
  next
    case (Some d)
    note d = domain_at_present [OF Some]
    show ?thesis
    proof (cases "smap_find (ds_entries d) i")
      case None
      then show ?thesis using Some same
        by (simp add: registry_remove_def wp_simps t table_of_def domain_table_def d)
    next
      case (Some e)
      have listed: "bt_entries t ?p i \<noteq> None" using Some by (simp add: t table_of_def domain_table_def d)
      show ?thesis
        unfolding registry_remove_def using \<open>smap_find (rg_domains (snd x)) ?p = Some d\<close> Some listed
        by (auto simp: wp_bindM wp_active_domain_if_present wp_if wp_throwM wp_thenM wp_modify_registry wp_returnM d
            intro!: wp_mono [OF stands_for_remove_backend [OF assms, of ?p i e, unfolded d]])
    qed
  qed
qed

section \<open>Properties of the registry\<close>

text \<open>C5. The registry implements the abstract table of user breakpoints. From a well-formed state, adding an
  address, a symbol or a source line returns the next id and enters the expression for the current
  process, whether it was resolved at once or deferred; removing answers whether the current process
  has that id and takes exactly it away; running changes no entry; a replaced image clears the current
  process and cannot throw. Whenever an operation throws, the table is as it was, and the state stays well
  formed throughout.\<close>

theorem registry_refines_table:
  assumes "rworld_wf x" and "t = table_of (snd x)" and "p = debugger_pid (dbg (fst x))"
  shows "wp (add_address os a e) (\<lambda>i x'. i = bt_next t \<and> stands_for (table_add p e t) x') (\<lambda>_. stands_for t) x \<and>
    wp (add_symbol os fs ex s) (\<lambda>i x'. i = bt_next t \<and> stands_for (table_add p s t) x') (\<lambda>_. stands_for t) x \<and>
    wp (add_source os fs ex path line e) (\<lambda>i x'. i = bt_next t \<and> stands_for (table_add p e t) x') (\<lambda>_. stands_for t) x \<and>
    wp (registry_remove os i) (\<lambda>removed x'. removed = (bt_entries t p i \<noteq> None) \<and> stands_for (table_remove p i t) x')
      (\<lambda>_. stands_for t) x \<and>
    wp (registry_continue os fs ex n turns policy) (\<lambda>_. stands_for t) (\<lambda>_. stands_for t) x \<and>
    wp (on_image_replaced os) (\<lambda>_. stands_for (table_clear p t)) (\<lambda>_ _. False) x"
proof -
  have "stands_for t x" using assms by (simp add: stands_for_def)
  then show ?thesis
    unfolding assms(3)
    by (intro conjI stands_for_add_address stands_for_add_symbol stands_for_add_source stands_for_remove
        stands_for_continue stands_for_on_image_replaced)
qed

theorem registry_refines_table_witness:
  "fst (add_address (ref_os 77) 0x401004 [0x66] (example_world, new_registry)) = Ok 1 \<and>
   table_of (snd (snd (add_address (ref_os 77) 0x401004 [0x66] (example_world, new_registry)))) =
     table_add 77 [0x66] (table_of new_registry)"
proof -
  let ?run = "add_address (ref_os 77) 0x401004 [0x66] (example_world, new_registry)"
  have run: "fst ?run = Ok 1" by code_simp
  then obtain x' where ok: "?run = (Ok 1, x')" by (cases ?run) simp
  have "domain_at new_registry q = empty_domain" for q by (simp add: domain_at_def new_registry_def smap_empty_find)
  then have wf: "rworld_wf (example_world, new_registry)"
    using example_wf by (simp add: rworld_wf_def entries_wf_def domain_ok_empty) (simp add: new_registry_def smap_empty_def)
  have "debugger_pid (dbg example_world) = 77" by code_simp
  then show ?thesis
    using run wp_OkD [OF conjunct1 [OF registry_refines_table [OF wf refl refl]] ok] unfolding ok
    by (simp add: stands_for_def)
qed

text \<open>A deferred user breakpoint is always backed: in every well-formed state, the snapshot of a deferred
  entry finds its loader controller and its request, so the internal errors for a missing one cannot
  occur; the breakpoint is listed as pending exactly when its request holds no breakpoint yet, and otherwise
  with the address of the request and the state of the debugger's breakpoint.\<close>

theorem snapshot_deferred_backed:
  assumes "rworld_wf x" and "smap_find (ds_entries (domain_at (snd x) p)) i = Some e" and "en_kind e = BK_Deferred"
  shows "\<exists>df r. ds_deferred (domain_at (snd x) p) = Some df \<and> smap_find (df_requests df) (en_backend_id e) = Some r \<and>
    user_snapshot d i e (domain_at (snd x) p) = (case (db_breakpoint_id r, db_address r) of
      (Some j, Some a) \<Rightarrow> (case with_id j d of
          None \<Rightarrow> Inl (LogicError ''resolved deferred breakpoint disappeared from debugger ownership'')
        | Some bp \<Rightarrow> Inr \<lparr>ub_id = i, ub_expression = en_expression e, ub_address = Some a, ub_state = installed_state bp\<rparr>)
    | _ \<Rightarrow> Inr \<lparr>ub_id = i, ub_expression = en_expression e, ub_address = None, ub_state = UB_Pending\<rparr>)"
proof -
  let ?d = "domain_at (snd x) p"
  have wf: "entries_wf (snd x)" using assms(1) by (simp add: rworld_wf_def)
  have mem: "en_backend_id e \<in> set (deferred_backends (ds_entries ?d))"
    using assms(2,3) by (force simp: deferred_backends_def dest: smap_find_SomeD)
  then obtain df where df: "ds_deferred ?d = Some df"
    using entries_wfD(2) [OF wf, of p] by (auto simp: domain_ok_def request_ids_def split: option.splits)
  note ok = controller_ok [OF wf df]
  obtain r where r: "smap_find (df_requests df) (en_backend_id e) = Some r"
    using ok(2) mem by (fastforce simp: request_keys_def smap_find_None)
  have "request_ok (df_next_request_id df) y" if "y \<in> set (df_requests df)" for y
    using ok(1) that by (auto simp: deferred_wf_def requests_ok_def list_all_iff)
  then have "find (\<lambda>r. db_request_id r = en_backend_id e) (map snd rs) = map_of rs (en_backend_id e)"
    if "set rs \<subseteq> set (df_requests df)" for rs
    using that by (induction rs) (force simp: request_ok_def)+
  then have "find (\<lambda>r. db_request_id r = en_backend_id e) (deferred_breakpoints df) = Some r"
    using r by (simp add: deferred_breakpoints_def smap_find_def)
  then show ?thesis
    using df r assms(3) by (simp add: user_snapshot_def snapshot_deferred_def)
qed

definition example_entry :: entry where
  "example_entry = \<lparr>en_expression = [0x66], en_kind = BK_Deferred, en_backend_id = 1\<rparr>"

definition example_domain :: domain_state where
  "example_domain = \<lparr>ds_deferred = Some (example_deferred\<lparr>df_next_request_id := 2,
       df_requests := [(1, example_request\<lparr>db_breakpoint_id := None, db_address := None\<rparr>)]\<rparr>),
     ds_entries = [(1, example_entry)]\<rparr>"

theorem snapshot_deferred_backed_witness:
  "user_snapshot (dbg example_world) 1 example_entry example_domain =
     Inr \<lparr>ub_id = 1, ub_expression = [0x66], ub_address = None, ub_state = UB_Pending\<rparr>"
proof -
  let ?rg = "\<lparr>rg_domains = [(77, example_domain)], rg_next_id = 2\<rparr>"
  have at: "domain_at ?rg q = (if q = 77 then example_domain else empty_domain)" for q
    by (simp add: domain_at_def smap_find_def)
  have "domain_ok 2 example_domain"
    by (simp add: example_domain_def example_entry_def domain_ok_def deferred_backends_def request_ids_def deferred_wf_def
        requests_ok_def request_ok_def example_request_def)
  then have wf: "rworld_wf (example_world, ?rg)"
    using example_wf by (simp add: rworld_wf_def entries_wf_def at domain_ok_empty)
  have e: "smap_find (ds_entries (domain_at (snd (example_world, ?rg)) 77)) 1 = Some example_entry"
    by (simp add: at) (simp add: example_domain_def smap_find_def)
  have kind: "en_kind example_entry = BK_Deferred" by (simp add: example_entry_def)
  show ?thesis
    using snapshot_deferred_backed [OF wf e kind, of "dbg example_world"] unfolding snd_conv at if_P [OF refl]
    by (auto simp: example_domain_def smap_find_def example_request_def example_entry_def)
qed

end
