(* ===== verification/SnapshotPaths.thy ===== *)
theory SnapshotPaths
  imports Modules
begin

text \<open>
  Where the modules of a core file are found, \<^verbatim>\<open>src/src/snapshot/module_path.hpp\<close>: prefix substitutions and debug
  companions, which are accepted only when the name and the checksum of the \<^verbatim>\<open>.gnu_debuglink\<close> section of
  the module agree. Which files exist is the argument \<open>regular\<close>; contents come from the record
  of files.
\<close>

unbundle bit_operations_syntax

section \<open>The debug link\<close>

definition artifact_dialect :: dialect where
  "artifact_dialect = \<lparr>past_data = '' extends past end of file'', past_limit = '' extends past end of file'',
     uleb_name = ''ULEB128'', sleb_name = ''SLEB128'', sleb_checked = False\<rparr>"

definition artifact_range :: "u8 list \<Rightarrow> nat \<Rightarrow> nat \<Rightarrow> string \<Rightarrow> ('s, unit) prog" where
  "artifact_range bytes offset len what =
    (if offset > length bytes \<or> len > length bytes - offset
     then throwM (RuntimeError (what @ '' extends past end of file'')) else returnM ())"

text \<open>The string table is indexed without a check of its own.\<close>

definition section_name :: "u8 list \<Rightarrow> section_header \<Rightarrow> nat \<Rightarrow> ('s, u8 list) prog" where
  "section_name bytes strings offset =
    (if offset \<ge> sh_size strings then throwM (RuntimeError ''ELF section name offset is out of range'')
     else let tail = take (sh_size strings - offset) (drop (sh_offset strings + offset) bytes) in
       if 0 \<in> set tail then returnM (takeWhile (\<lambda>c. c \<noteq> 0) tail)
       else if sh_offset strings + sh_size strings > length bytes
       then throwM (UndefinedBehaviour ''vector index out of range'')
       else throwM (RuntimeError ''ELF section name is not terminated''))"

record gnu_debug_link =
  gl_filename :: "u8 list"
  gl_crc32 :: u32

text \<open>The contents of a \<^verbatim>\<open>.gnu_debuglink\<close> section, whose range has been checked: the name, zero padding up to a
  multiple of four, the checksum.\<close>

definition parse_debuglink :: "u8 list \<Rightarrow> ('s, gnu_debug_link) prog" where
  "parse_debuglink sec =
    (let filename = takeWhile (\<lambda>c. c \<noteq> 0) sec; relative = length filename;
         crc_relative = (relative + 4) div 4 * 4 in
     if relative = length sec \<or> filename = [] \<or> path_filename filename \<noteq> filename
     then throwM (RuntimeError ''.gnu_debuglink contains an invalid filename'')
     else if crc_relative > length sec \<or> length sec - crc_relative \<noteq> 4
     then throwM (RuntimeError ''.gnu_debuglink has an invalid CRC field'')
     else if (\<exists>b \<in> set (take (crc_relative - (relative + 1)) (drop (relative + 1) sec)). b \<noteq> 0)
     then throwM (RuntimeError ''.gnu_debuglink contains non-zero padding'')
     else returnM \<lparr>gl_filename = filename, gl_crc32 = of_nat (field crc_relative 4 sec)\<rparr>)"

fun debuglink_loop ::
  "u8 list \<Rightarrow> section_header \<Rightarrow> gnu_debug_link option \<Rightarrow> section_header list \<Rightarrow> ('s, gnu_debug_link option) prog" where
  "debuglink_loop bytes names found [] = returnM found"
| "debuglink_loop bytes names found (s # rest) = bindM (section_name bytes names (sh_name s)) (\<lambda>name.
    if name \<noteq> text_bytes ''.gnu_debuglink'' then debuglink_loop bytes names found rest
    else if found \<noteq> None
    then throwM (RuntimeError ''runtime ELF contains duplicate .gnu_debuglink sections'')
    else thenM (artifact_range bytes (sh_offset s) (sh_size s) ''.gnu_debuglink'')
      (if sh_size s < 5 then throwM (RuntimeError ''.gnu_debuglink section is truncated'')
       else bindM (parse_debuglink (take (sh_size s) (drop (sh_offset s) bytes))) (\<lambda>link.
         debuglink_loop bytes names (Some link) rest)))"

definition parse_gnu_debuglink :: "u8 list \<Rightarrow> ('s, gnu_debug_link option) prog" where
  "parse_gnu_debuglink bytes =
    bindM (read_at artifact_dialect ehdr_size bytes 0 ''ELF header'') (\<lambda>raw.
    let header = decode_ehdr raw in
    if \<not> has_elf_magic header \<or> \<not> is_elf64_lsb header \<or> e_machine header \<noteq> EM_X86_64
    then throwM (RuntimeError ''snapshot runtime module is not supported x86-64 ELF64'')
    else if e_shnum header = 0 \<or> e_shstrndx header = SHN_UNDEF then returnM None
    else if e_shentsize header \<noteq> shdr_size \<or> e_shstrndx header = SHN_XINDEX \<or>
            e_shstrndx header \<ge> e_shnum header
    then throwM (RuntimeError ''unsupported ELF section table for GNU debuglink'')
    else thenM (artifact_range bytes (e_shoff header) (e_shnum header * shdr_size) ''ELF section table'')
      (bindM (read_sections artifact_dialect bytes (e_shoff header) 0 (e_shnum header)) (\<lambda>sections.
       let names = sections ! e_shstrndx header in
       thenM (artifact_range bytes (sh_offset names) (sh_size names) ''ELF section-name table'')
       (debuglink_loop bytes names None sections))))"

definition read_artifact :: "'k files \<Rightarrow> path \<Rightarrow> ('k, u8 list) prog" where
  "read_artifact fs path = bindM getM (\<lambda>k. case fs_contents fs (bytes_text path) k of
     Cannot_open \<Rightarrow> throwM (RuntimeError (''failed to open snapshot artifact: '' @ bytes_text path))
   | Cannot_size \<Rightarrow> throwM (RuntimeError ''failed to determine snapshot artifact size'')
   | Cannot_read \<Rightarrow> throwM (RuntimeError ''failed to read snapshot artifact'')
   | Contents bytes \<Rightarrow> returnM bytes)"

definition read_gnu_debuglink :: "'k files \<Rightarrow> path \<Rightarrow> ('k, gnu_debug_link option) prog" where
  "read_gnu_debuglink fs path = bindM (read_artifact fs path) parse_gnu_debuglink"

section \<open>The checksum\<close>

definition crc_bit :: "u32 \<Rightarrow> u32" where
  "crc_bit crc = drop_bit 1 crc XOR (0xedb88320 AND (0 - (crc AND 1)))"

definition crc_byte :: "u32 \<Rightarrow> u8 \<Rightarrow> u32" where
  "crc_byte crc b = (crc_bit ^^ 8) (crc XOR ucast b)"

definition crc32 :: "u8 list \<Rightarrow> u32" where
  "crc32 bytes = foldl crc_byte 0xffffffff bytes XOR 0xffffffff"

definition gnu_debuglink_crc32 :: "'k files \<Rightarrow> path \<Rightarrow> ('k, u32) prog" where
  "gnu_debuglink_crc32 fs path = bindM getM (\<lambda>k. case fs_contents fs (bytes_text path) k of
     Cannot_open \<Rightarrow> throwM (RuntimeError (''failed to open debug companion: '' @ bytes_text path))
   | Contents bytes \<Rightarrow> returnM (crc32 bytes)
   | _ \<Rightarrow> throwM (RuntimeError ''failed to read debug companion''))"

section \<open>The resolver\<close>

record debug_file =
  dg_recorded_module :: path
  dg_local_debug_file :: path

record module_paths =
  mp_substitutions :: "substitution list"
  mp_debug_files :: "debug_file list"

definition identity_module_paths :: module_paths where
  "identity_module_paths = \<lparr>mp_substitutions = [], mp_debug_files = []\<rparr>"

definition add_module_substitution :: "path \<Rightarrow> path \<Rightarrow> (module_paths, unit) prog" where
  "add_module_substitution from to =
    (let from' = lexically_normal from; to' = lexically_normal to in
     if from' = [] \<or> from' = dot
     then throwM (InvalidArgument ''snapshot module substitution prefix must not be empty'')
     else if to' = [] then throwM (InvalidArgument ''snapshot module substitution target must not be empty'')
     else modifyM (\<lambda>mp. mp\<lparr>mp_substitutions := put_substitution from' to' (mp_substitutions mp)\<rparr>))"

fun put_debug_file :: "path \<Rightarrow> path \<Rightarrow> debug_file list \<Rightarrow> debug_file list" where
  "put_debug_file recorded local [] = [\<lparr>dg_recorded_module = recorded, dg_local_debug_file = local\<rparr>]"
| "put_debug_file recorded local (d # rest) =
    (if dg_recorded_module d = recorded then d\<lparr>dg_local_debug_file := local\<rparr> # rest
     else d # put_debug_file recorded local rest)"

definition add_debug_file :: "path \<Rightarrow> path \<Rightarrow> (module_paths, unit) prog" where
  "add_debug_file recorded local =
    (let recorded' = lexically_normal recorded; local' = lexically_normal local in
     if recorded' = [] \<or> \<not> path_is_absolute recorded'
     then throwM (InvalidArgument ''snapshot debug-file module identity must be absolute'')
     else if local' = [] then throwM (InvalidArgument ''snapshot debug-file path must not be empty'')
     else modifyM (\<lambda>mp. mp\<lparr>mp_debug_files := put_debug_file recorded' local' (mp_debug_files mp)\<rparr>))"

text \<open>Unlike the resolver of source paths: the candidate is normalised already, and a module that is the prefix
  itself becomes the target.\<close>

definition module_candidate :: "module_paths \<Rightarrow> path \<Rightarrow> path option" where
  "module_candidate mp candidate =
    map_option (\<lambda>(best, n). let suffix = suffix_after candidate (sub_from best) in
        if suffix = [] then sub_to best else lexically_normal (path_join (sub_to best) suffix))
      (best_substitution candidate None (mp_substitutions mp))"

definition resolve_module :: "(path \<Rightarrow> bool) \<Rightarrow> module_paths \<Rightarrow> path \<Rightarrow> ('s, path) prog" where
  "resolve_module regular mp recorded =
    (if recorded = [] then throwM (InvalidArgument ''snapshot module path must not be empty'')
     else if \<not> path_is_absolute recorded
     then throwM (RuntimeError ''snapshot NT_FILE mapping lacks an absolute module path'')
     else case module_candidate mp (lexically_normal recorded) of
       Some p \<Rightarrow> if regular p then returnM p
         else throwM (RuntimeError (''substituted snapshot module file is unavailable: '' @ bytes_text p))
     | None \<Rightarrow> if regular (lexically_normal recorded) then returnM (lexically_normal recorded)
         else throwM (RuntimeError (''snapshot module file is unavailable: '' @ bytes_text recorded)))"

text \<open>The companion against the debug link of the module.\<close>

definition check_companion ::
  "'k files \<Rightarrow> path \<Rightarrow> path \<Rightarrow> gnu_debug_link option \<Rightarrow> ('k, path) prog" where
  "check_companion fs runtime_file companion found = (case found of
     None \<Rightarrow> throwM (RuntimeError (''snapshot runtime module has no .gnu_debuglink: '' @ bytes_text runtime_file))
   | Some link \<Rightarrow>
       if path_filename companion \<noteq> gl_filename link
       then throwM (RuntimeError (''debug companion filename does not match GNU debuglink: '' @ bytes_text companion))
       else bindM (gnu_debuglink_crc32 fs companion) (\<lambda>crc.
         if crc \<noteq> gl_crc32 link
         then throwM (RuntimeError (''debug companion CRC mismatch: '' @ bytes_text companion))
         else returnM companion))"

definition resolve_debug_file ::
  "'k files \<Rightarrow> (path \<Rightarrow> bool) \<Rightarrow> module_paths \<Rightarrow> path \<Rightarrow> ('k, path) prog" where
  "resolve_debug_file fs regular mp recorded = bindM (resolve_module regular mp recorded) (\<lambda>runtime_file.
    case find (\<lambda>d. dg_recorded_module d = lexically_normal recorded) (mp_debug_files mp) of
      None \<Rightarrow> returnM runtime_file
    | Some d \<Rightarrow>
        if \<not> regular (dg_local_debug_file d)
        then throwM (RuntimeError (''snapshot debug companion is unavailable: '' @ bytes_text (dg_local_debug_file d)))
        else bindM (read_gnu_debuglink fs runtime_file) (check_companion fs runtime_file (dg_local_debug_file d)))"

end
