(* ===== verification/SnapshotMemory.thy ===== *)
theory SnapshotMemory
  imports CoreSnapshot SnapshotPaths
begin

text \<open>
  Memory of a core with a fall-back to the file of the module, \<^verbatim>\<open>src/src/snapshot/memory.hpp\<close>: captured bytes come
  from the core; a range of which nothing was captured is read from the file that was mapped there; a mixture is
  refused. A file that opens but cannot be read in full is reported when its bytes are read.
\<close>

datatype memory_provenance = MP_Core | MP_RuntimeArtifact

record snapshot_memory_read =
  sm_bytes :: "u8 list"
  sm_provenance :: memory_provenance
  sm_module_path :: path
  sm_module_file_path :: path
  sm_artifact_file_offset :: nat

text \<open>\<^verbatim>\<open>catch (const std::runtime_error&)\<close>.\<close>

definition catch_runtime_error :: "('s, 'a) prog \<Rightarrow> ('s, 'a) prog \<Rightarrow> ('s, 'a) prog" where
  "catch_runtime_error m h = catchM m (\<lambda>e. case e of
     RuntimeError _ \<Rightarrow> h | PtraceError _ _ \<Rightarrow> h | SystemError _ _ \<Rightarrow> h | _ \<Rightarrow> throwM e)"

text \<open>The byte-wise attempt: the bytes (zero where omitted), and whether any byte was captured or omitted.\<close>

fun capture_loop :: "core_snapshot \<Rightarrow> u64 \<Rightarrow> nat \<Rightarrow> nat \<Rightarrow> u8 list \<times> bool \<times> bool \<Rightarrow> ('s, u8 list \<times> bool \<times> bool) prog" where
  "capture_loop cs address index 0 acc = returnM acc"
| "capture_loop cs address index (Suc n) (bytes, captured, omitted) =
    bindM (catch_runtime_error
        (bindM (core_read_memory cs (address + of_nat index) 1) (\<lambda>byte. returnM (bytes @ [hd byte], True, omitted)))
        (returnM (bytes @ [0], captured, True)))
      (capture_loop cs address (index + 1) n)"

abbreviation (input) kMaxReadLength :: nat where "kMaxReadLength \<equiv> 4096"

definition read_artifact_range :: "'k files \<Rightarrow> path \<Rightarrow> nat \<Rightarrow> nat \<Rightarrow> ('k, u8 list) prog" where
  "read_artifact_range fs file_path file_offset len = bindM getM (\<lambda>k. case fs_contents fs (bytes_text file_path) k of
     Cannot_open \<Rightarrow> throwM (RuntimeError (''failed to open snapshot runtime artifact: '' @ bytes_text file_path))
   | Cannot_size \<Rightarrow> throwM (RuntimeError ''snapshot runtime artifact range extends past end of file'')
   | Cannot_read \<Rightarrow> throwM (RuntimeError ''failed to read snapshot runtime artifact bytes'')
   | Contents bytes \<Rightarrow>
       if file_offset > length bytes \<or> len > length bytes - file_offset
       then throwM (RuntimeError ''snapshot runtime artifact range extends past end of file'')
       else returnM (take len (drop file_offset bytes)))"

definition read_omitted ::
  "'k files \<Rightarrow> (path \<Rightarrow> bool) \<Rightarrow> core_snapshot \<Rightarrow> module_paths \<Rightarrow> u64 \<Rightarrow> nat \<Rightarrow> ('k, snapshot_memory_read) prog" where
  "read_omitted fs regular cs mp address len = (case mapping_for_address cs address of
     None \<Rightarrow> throwM (RuntimeError ''omitted snapshot memory range is not wholly owned by one NT_FILE mapping'')
   | Some m \<Rightarrow>
       if unat address + len > cm_end m
       then throwM (RuntimeError ''omitted snapshot memory range is not wholly owned by one NT_FILE mapping'')
       else if cm_path m = [] \<or> hd (cm_path m) \<noteq> slash
       then throwM (RuntimeError ''omitted snapshot memory lacks an absolute NT_FILE owner'')
       else let delta = unat address - cm_start m in
         if delta > u64_max - cm_file_offset m then throwM (RuntimeError ''snapshot artifact file offset overflows'')
         else bindM (resolve_module regular mp (cm_path m)) (\<lambda>file_path.
           bindM (read_artifact_range fs file_path (cm_file_offset m + delta) len) (\<lambda>bytes.
           returnM \<lparr>sm_bytes = bytes, sm_provenance = MP_RuntimeArtifact, sm_module_path = cm_path m,
             sm_module_file_path = file_path, sm_artifact_file_offset = cm_file_offset m + delta\<rparr>)))"

definition read_snapshot_memory ::
  "'k files \<Rightarrow> (path \<Rightarrow> bool) \<Rightarrow> core_snapshot \<Rightarrow> module_paths \<Rightarrow> u64 \<Rightarrow> nat \<Rightarrow> ('k, snapshot_memory_read) prog" where
  "read_snapshot_memory fs regular cs mp address len =
    (if len = 0 then throwM (InvalidArgument ''snapshot memory read length must be non-zero'')
     else if len > kMaxReadLength
     then throwM (InvalidArgument ''snapshot memory read length exceeds bounded limit'')
     else if len > u64_max - unat address
     then throwM (InvalidArgument ''snapshot memory read range overflows'')
     else bindM (capture_loop cs address 0 len ([], False, False)) (\<lambda>(bytes, any_captured, any_omitted).
       if \<not> any_omitted
       then returnM \<lparr>sm_bytes = bytes, sm_provenance = MP_Core, sm_module_path = [],
              sm_module_file_path = [], sm_artifact_file_offset = 0\<rparr>
       else if any_captured
       then throwM (RuntimeError ''snapshot memory range mixes captured and omitted bytes; artifact fallback refused'')
       else read_omitted fs regular cs mp address len))"

end
