(* ===== verification/SignalFrame.thy ===== *)
theory SignalFrame
  imports CoreSnapshot EhFrame CfiUnwind
begin

text \<open>
  Signal frames: the index of \<^verbatim>\<open>.eh_frame\<close> entries with an \<^verbatim>\<open>S\<close> augmentation
  (\<^verbatim>\<open>src/src/dwarf/eh_frame_signal.hpp\<close>, whose copies of the byte readers are those of
  \<^verbatim>\<open>eh_frame.cpp\<close>) and the recovery of the interrupted registers from the signal context on the stack of a core
  (\<^verbatim>\<open>src/src/snapshot/linux_x86_signal_frame.hpp\<close>).
\<close>

section \<open>The index\<close>

record cie_metadata =
  cd_fde_encoding :: u8
  cd_signal_frame :: bool

definition read_signed_pointer :: "u8 list \<Rightarrow> nat \<Rightarrow> u8 \<Rightarrow> string \<Rightarrow> int reader" where
  "read_signed_pointer bytes limit encoding what =
    (if encoding = 0x1b \<or> encoding = 0x9b
     then bindM (read_u32 eh_dialect bytes limit what) (\<lambda>v. returnM (sint v))
     else if encoding = 0x1c \<or> encoding = 0x9c
     then bindM (read_u64 eh_dialect bytes limit what) (\<lambda>v. returnM (sint v))
     else throwM (RuntimeError ''unsupported signal-frame CFI pointer encoding''))"

definition find_signal_eh_frame :: "u8 list \<Rightarrow> ('s, (u64 \<times> u8 list) option) prog" where
  "find_signal_eh_frame bytes =
    bindM (read_at eh_dialect ehdr_size bytes 0 ''ELF header'') (\<lambda>raw.
    let header = decode_ehdr raw in
    if \<not> has_elf_magic header \<or> \<not> is_elf64_lsb header \<or> e_machine header \<noteq> EM_X86_64
    then throwM (RuntimeError ''signal-frame metadata requires little-endian x86-64 ELF64'')
    else if e_shnum header = 0 \<or> e_shstrndx header = SHN_UNDEF then returnM None
    else if e_shentsize header \<noteq> shdr_size \<or> e_shstrndx header = SHN_XINDEX \<or>
            e_shstrndx header \<ge> e_shnum header
    then throwM (RuntimeError ''unsupported ELF section layout for signal-frame metadata'')
    else bindM (read_sections eh_dialect bytes (e_shoff header) 0 (e_shnum header)) (\<lambda>sections.
      let names = sections ! e_shstrndx header in
      if sh_offset names > length bytes \<or> sh_size names > length bytes - sh_offset names
      then throwM (RuntimeError ''ELF section-name table extends past end of file'')
      else eh_section_loop bytes names sections))"

abbreviation (input) ch_S :: u8 where "ch_S \<equiv> 0x53"

text \<open>The encoding and the signal mark found so far are arguments.\<close>

fun metadata_augmentation_loop ::
  "u8 list \<Rightarrow> nat \<Rightarrow> u8 list \<Rightarrow> u8 option \<Rightarrow> bool \<Rightarrow> (u8 option \<times> bool) reader" where
  "metadata_augmentation_loop bytes aug_end [] found sig = returnM (found, sig)"
| "metadata_augmentation_loop bytes aug_end (ch # chs) found sig =
    (if ch = ch_P then
       bindM (read_u8 eh_dialect bytes aug_end ''personality encoding'') (\<lambda>encoding.
       if \<not> is_pcrel_indirect_signed_encoding encoding
       then throwM (RuntimeError ''unsupported .eh_frame personality pointer encoding'')
       else thenM (read_signed_pointer bytes aug_end encoding ''personality pointer'')
         (metadata_augmentation_loop bytes aug_end chs found sig))
     else if ch = ch_L then
       bindM (read_u8 eh_dialect bytes aug_end ''LSDA encoding'') (\<lambda>encoding.
       if \<not> is_pcrel_signed_encoding encoding
       then throwM (RuntimeError ''unsupported .eh_frame LSDA pointer encoding'')
       else metadata_augmentation_loop bytes aug_end chs found sig)
     else if ch = ch_R then
       bindM (read_u8 eh_dialect bytes aug_end ''FDE encoding'') (\<lambda>encoding.
       if \<not> is_pcrel_signed_encoding encoding
       then throwM (RuntimeError ''unsupported .eh_frame FDE pointer encoding'')
       else metadata_augmentation_loop bytes aug_end chs (Some encoding) sig)
     else if ch = ch_S then metadata_augmentation_loop bytes aug_end chs found True
     else throwM (RuntimeError ''unsupported .eh_frame CIE augmentation descriptor''))"

definition parse_cie_metadata :: "u8 list \<Rightarrow> nat \<Rightarrow> cie_metadata reader" where
  "parse_cie_metadata bytes end_pos =
    bindM (read_u8 eh_dialect bytes end_pos ''CIE version'') (\<lambda>version.
    if version \<noteq> 1 then throwM (RuntimeError ''only .eh_frame CIE version 1 is supported'')
    else bindM (read_c_string bytes end_pos ''CIE augmentation'') (\<lambda>augmentation.
    if augmentation = [] \<or> hd augmentation \<noteq> ch_z
    then throwM (RuntimeError ''only z-prefixed .eh_frame augmentation is supported'')
    else bindM (read_uleb eh_dialect bytes end_pos) (\<lambda>_.
    bindM (read_sleb eh_dialect bytes end_pos) (\<lambda>_.
    bindM (read_u8 eh_dialect bytes end_pos ''CIE return register'') (\<lambda>_.
    bindM (read_uleb eh_dialect bytes end_pos) (\<lambda>augmentation_size.
    bindM getM (\<lambda>cursor.
    if unat augmentation_size > end_pos - cursor
    then throwM (RuntimeError ''CIE augmentation extends past entry boundary'')
    else let aug_end = cursor + unat augmentation_size in
      bindM (metadata_augmentation_loop bytes aug_end (tl augmentation) None False) (\<lambda>(encoding, sig).
      bindM getM (\<lambda>cursor'.
      case encoding of
        None \<Rightarrow> throwM (RuntimeError ''CIE augmentation does not define an FDE pointer encoding'')
      | Some enc \<Rightarrow>
          if cursor' \<noteq> aug_end then throwM (RuntimeError ''unexpected trailing CIE augmentation data'')
          else returnM \<lparr>cd_fde_encoding = enc, cd_signal_frame = sig\<rparr>)))))))))"

text \<open>The address range of an FDE.\<close>

definition fde_range :: "u8 list \<Rightarrow> u64 \<Rightarrow> nat \<Rightarrow> u8 \<Rightarrow> (u64 \<times> u64) reader" where
  "fde_range sec section_virtual_address end_pos encoding = bindM getM (\<lambda>cursor.
    let field_virtual_address = section_virtual_address + of_nat cursor in
    bindM (read_signed_pointer sec end_pos encoding ''FDE initial location'') (\<lambda>relative.
    bindM (add_signed field_virtual_address relative ''FDE start'') (\<lambda>initial_location.
    bindM (read_signed_pointer sec end_pos encoding ''FDE address range'') (\<lambda>signed_range.
    if signed_range < 0 then throwM (RuntimeError ''negative FDE address range'')
    else if nat signed_range > max_u64 - unat initial_location
    then throwM (RuntimeError ''FDE address range overflows address space'')
    else returnM (initial_location, of_int signed_range)))))"

type_synonym signal_scan = "nat \<times> (nat, cie_metadata) smap"

definition signal_fde ::
  "u8 list \<Rightarrow> u64 \<Rightarrow> u64 \<Rightarrow> nat \<Rightarrow> nat \<Rightarrow> nat \<Rightarrow> nat \<Rightarrow> (nat, cie_metadata) smap \<Rightarrow> (signal_scan, bool option) prog" where
  "signal_fde sec sva target cie_pointer content cursor end_pos cies =
    (if cie_pointer > content then throwM (RuntimeError ''FDE CIE pointer underflows section'')
     else case smap_find cies (content - cie_pointer) of
       None \<Rightarrow> throwM (RuntimeError ''FDE references an unknown CIE'')
     | Some ci \<Rightarrow>
         bindM (at_cursor cursor (fde_range sec sva end_pos (cd_fde_encoding ci))) (\<lambda>(initial_location, range).
         if target \<ge> initial_location \<and> target < initial_location + range
         then returnM (Some (cd_signal_frame ci))
         else thenM (modifyM (\<lambda>(e, cies). (end_pos, cies))) (returnM None)))"

definition signal_entry :: "u8 list \<Rightarrow> u64 \<Rightarrow> u64 \<Rightarrow> (signal_scan, bool option) prog" where
  "signal_entry sec sva target = bindM getM (\<lambda>(entry, cies).
    if \<not> entry < length sec then returnM (Some False)
    else bindM (read_at eh_dialect 4 sec entry ''.eh_frame length'') (\<lambda>raw.
      let len = le_nat raw; content = entry + 4 in
      if len = 0 then returnM (Some False)
      else if len = 0xffffffff then throwM (RuntimeError ''DWARF64 .eh_frame is unsupported'')
      else if len > length sec - content
      then throwM (RuntimeError ''.eh_frame entry extends past section boundary'')
      else let end_pos = content + len in
        bindM (from_cursor content (read_u32 eh_dialect sec end_pos ''CIE pointer'')) (\<lambda>(cie_pointer, cursor).
        if cie_pointer = 0
        then bindM (at_cursor cursor (parse_cie_metadata sec end_pos)) (\<lambda>ci.
          thenM (modifyM (\<lambda>(e, cies). (end_pos, smap_emplace entry ci cies))) (returnM None))
        else signal_fde sec sva target (unat cie_pointer) content cursor end_pos cies)))"

text \<open>The class keeps the section as \<^verbatim>\<open>EhFrame\<close> does.\<close>

definition is_signal_frame :: "eh_frame \<Rightarrow> u64 \<Rightarrow> ('s, bool) prog" where
  "is_signal_frame ix target =
    (if \<not> ef_available ix then returnM False
     else zoomM (\<lambda>_. (0, smap_empty)) (\<lambda>_ s. s)
       (loopM (length (ef_section ix) + 1) (signal_entry (ef_section ix) (ef_virtual_address ix) target)))"

definition init_signal_index :: "u8 list \<Rightarrow> ('s, eh_frame) prog" where
  "init_signal_index bytes = bindM (find_signal_eh_frame bytes) (\<lambda>found. case found of
     None \<Rightarrow> returnM \<lparr>ef_section = [], ef_virtual_address = 0, ef_available = False\<rparr>
   | Some (va, sec) \<Rightarrow> returnM \<lparr>ef_section = sec, ef_virtual_address = va, ef_available = True\<rparr>)"

definition open_signal_index :: "'k files \<Rightarrow> string \<Rightarrow> ('k, eh_frame) prog" where
  "open_signal_index fs path = bindM (read_binary_file fs path) init_signal_index"

section \<open>The signal context\<close>

record signal_recovery =
  sg_cursor :: eh_frame_cursor
  sg_r12 :: u64
  sg_rdi :: u64
  sg_rsi :: u64
  sg_xmm0 :: "u8 list"

abbreviation (input) kMcontextOffset :: u64 where "kMcontextOffset \<equiv> 0x28"
abbreviation (input) kFpregsPointerOffset :: u64 where "kFpregsPointerOffset \<equiv> 0xe0"
abbreviation (input) kFxsaveXmm0Offset :: u64 where "kFxsaveXmm0Offset \<equiv> 160"
abbreviation (input) kXmmSize :: u64 where "kXmmSize \<equiv> 16"

text \<open>The address of a register slot is computed modulo \<open>2 ^ 64\<close>.\<close>

definition read_signal_slot :: "core_snapshot \<Rightarrow> u64 \<Rightarrow> u64 \<Rightarrow> ('s, u64) prog" where
  "read_signal_slot cs ucontext_address greg_index =
    bindM (core_read_memory cs (ucontext_address + kMcontextOffset + greg_index * 8) 8) (\<lambda>bytes.
    if length bytes \<noteq> 8 then throwM (RuntimeError ''Linux x86-64 signal context register is truncated'')
    else returnM (le_word bytes))"

definition read_signal_xmm0 :: "core_snapshot \<Rightarrow> u64 \<Rightarrow> u64 \<Rightarrow> ('s, u8 list) prog" where
  "read_signal_xmm0 cs ucontext_address restored_rsp =
    (if ucontext_address > - 1 - kFpregsPointerOffset
     then throwM (RuntimeError ''Linux x86-64 signal fpregs pointer address overflows'')
     else bindM (core_read_memory cs (ucontext_address + kFpregsPointerOffset) 8) (\<lambda>pointer_bytes.
     if length pointer_bytes \<noteq> 8 then throwM (RuntimeError ''Linux x86-64 signal fpregs pointer is truncated'')
     else let fpstate_address = le_word pointer_bytes in
       if fpstate_address = 0 then throwM (RuntimeError ''Linux x86-64 signal fpregs pointer is invalid'')
       else if fpstate_address \<le> ucontext_address \<or> fpstate_address \<ge> restored_rsp
       then throwM (RuntimeError ''Linux x86-64 signal fpstate is outside the evidence-proven same-stack layout'')
       else if fpstate_address > - 1 - kFxsaveXmm0Offset
       then throwM (RuntimeError ''Linux x86-64 signal XMM0 address overflows'')
       else let xmm0_address = fpstate_address + kFxsaveXmm0Offset in
         if xmm0_address > - 1 - kXmmSize
         then throwM (RuntimeError ''Linux x86-64 signal XMM0 range overflows'')
         else if xmm0_address + kXmmSize > restored_rsp
         then throwM (RuntimeError
           ''Linux x86-64 signal XMM0 state extends outside the evidence-proven same-stack layout'')
         else bindM (core_read_memory cs xmm0_address 16) (\<lambda>bytes.
           if length bytes \<noteq> 16 then throwM (RuntimeError ''Linux x86-64 signal XMM0 state is truncated'')
           else returnM bytes)))"

definition recover_linux_x86_signal_frame :: "core_snapshot \<Rightarrow> u64 \<Rightarrow> ('s, signal_recovery) prog" where
  "recover_linux_x86_signal_frame cs ucontext_address =
    bindM (read_signal_slot cs ucontext_address 4) (\<lambda>r12v.
    bindM (read_signal_slot cs ucontext_address 8) (\<lambda>rdiv.
    bindM (read_signal_slot cs ucontext_address 9) (\<lambda>rsiv.
    bindM (read_signal_slot cs ucontext_address 16) (\<lambda>ripv.
    bindM (read_signal_slot cs ucontext_address 15) (\<lambda>rspv.
    bindM (read_signal_slot cs ucontext_address 10) (\<lambda>rbpv.
    bindM (read_signal_slot cs ucontext_address 11) (\<lambda>rbxv.
    if ripv = 0 \<or> rspv = 0
    then throwM (RuntimeError ''Linux x86-64 signal context contains a zero RIP or RSP'')
    else if rspv \<le> ucontext_address
    then throwM (RuntimeError ''Linux x86-64 signal context is outside the evidence-proven same-stack layout'')
    else bindM (read_signal_xmm0 cs ucontext_address rspv) (\<lambda>xmm0.
      returnM \<lparr>sg_cursor = \<lparr>ec_instruction_pointer = ripv, ec_stack_pointer = rspv,
           ec_frame_pointer = Some rbpv, ec_rbx = Some rbxv\<rparr>,
         sg_r12 = r12v, sg_rdi = rdiv, sg_rsi = rsiv, sg_xmm0 = xmm0\<rparr>))))))))"

end
