(* ===== verification/CoreNotes.thy ===== *)
theory CoreNotes
  imports CoreSnapshot
begin

text \<open>
  Two more readers of the notes of a core file, each with its own walk over the program headers: the
  floating-point registers of a thread (\<^verbatim>\<open>src/src/elf/core_fpregset.hpp\<close>) and the auxiliary vector
  (\<^verbatim>\<open>src/src/snapshot/startup.hpp\<close>). The copies of the walk differ in their messages and in how they copy a
  note header, which are parameters of \<open>next_note\<close>.
\<close>

unbundle bit_operations_syntax

section \<open>The common walk\<close>

record note_dialect =
  nd_open :: "string \<Rightarrow> string"
  nd_size :: string
  nd_read :: string
  nd_align :: string
  nd_header :: string
  nd_name :: string
  nd_owner :: string
  nd_payload :: string

definition read_core_bytes :: "note_dialect \<Rightarrow> 'k files \<Rightarrow> string \<Rightarrow> ('k, u8 list) prog" where
  "read_core_bytes nd fs path = bindM getM (\<lambda>k. case fs_contents fs path k of
     Cannot_open \<Rightarrow> throwM (RuntimeError (nd_open nd path))
   | Cannot_size \<Rightarrow> throwM (RuntimeError (nd_size nd))
   | Cannot_read \<Rightarrow> throwM (RuntimeError (nd_read nd))
   | Contents bytes \<Rightarrow> returnM bytes)"

definition core_align4 :: "note_dialect \<Rightarrow> nat \<Rightarrow> ('s, nat) prog" where
  "core_align4 nd v = (if v > u64_max - 3 then throwM (RuntimeError (nd_align nd))
     else returnM (v + 3 - (v + 3) mod 4))"

definition core_note_owner :: "note_dialect \<Rightarrow> u8 list \<Rightarrow> nat \<Rightarrow> nat \<Rightarrow> ('s, u8 list) prog" where
  "core_note_owner nd bytes offset len =
    (if offset > length bytes \<or> len > length bytes - offset then throwM (RuntimeError (nd_owner nd))
     else returnM (takeWhile (\<lambda>c. c \<noteq> 0) (take len (drop offset bytes))))"

text \<open>\<^verbatim>\<open>memcpy\<close> out of the vector, without a check.\<close>

definition copy_bytes :: "nat \<Rightarrow> u8 list \<Rightarrow> nat \<Rightarrow> ('s, u8 list) prog" where
  "copy_bytes width bytes offset = (if offset + width \<le> length bytes then returnM (take width (drop offset bytes))
     else throwM (UndefinedBehaviour ''memcpy out of range''))"

record core_note =
  nt_owner :: "u8 list"
  nt_type :: nat
  nt_desc_offset :: nat
  nt_descsz :: nat
  nt_next :: nat

definition next_note ::
  "note_dialect \<Rightarrow> (nat \<Rightarrow> ('s, u8 list) prog) \<Rightarrow> u8 list \<Rightarrow> nat \<Rightarrow> nat \<Rightarrow> ('s, core_note) prog" where
  "next_note nd copy_header bytes end_pos cursor =
    (if nhdr_size > end_pos - cursor then throwM (RuntimeError (nd_header nd))
     else bindM (copy_header cursor) (\<lambda>note.
       let namesz = field 0 4 note; descsz = field 4 4 note; name_offset = cursor + nhdr_size in
       bindM (core_align4 nd namesz) (\<lambda>name_size.
       if name_size > end_pos - name_offset then throwM (RuntimeError (nd_name nd))
       else bindM (core_note_owner nd bytes name_offset namesz) (\<lambda>owner.
         let desc_offset = name_offset + name_size in
         bindM (core_align4 nd descsz) (\<lambda>desc_size.
         if desc_size > end_pos - desc_offset then throwM (RuntimeError (nd_payload nd))
         else returnM \<lparr>nt_owner = owner, nt_type = field 8 4 note, nt_desc_offset = desc_offset,
                nt_descsz = descsz, nt_next = desc_offset + desc_size\<rparr>)))))"

section \<open>Floating-point registers\<close>

record core_fp_state =
  fp_mxcsr :: u32
  fp_mxcsr_mask :: u32
  fp_xmm :: "u8 list list"

definition fp_dialect :: note_dialect where
  "fp_dialect = \<lparr>nd_open = (\<lambda>path. ''failed to open ELF core file: '' @ path),
     nd_size = ''failed to determine ELF core file size'', nd_read = ''failed to read ELF core file'',
     nd_align = ''ELF core note alignment overflows'', nd_header = ''truncated ELF core note header'',
     nd_name = ''truncated ELF core note name'', nd_owner = ''ELF core note owner extends past end of file'',
     nd_payload = ''truncated ELF core note payload''\<rparr>"

definition core_read_struct :: "nat \<Rightarrow> u8 list \<Rightarrow> nat \<Rightarrow> string \<Rightarrow> ('s, u8 list) prog" where
  "core_read_struct width bytes offset what =
    (if offset > length bytes \<or> width > length bytes - offset
     then throwM (RuntimeError (what @ '' extends past end of core file''))
     else returnM (take width (drop offset bytes)))"

abbreviation (input) fpregs_size :: nat where "fpregs_size \<equiv> 512"
abbreviation (input) NT_FPREGSET :: nat where "NT_FPREGSET \<equiv> 2"

text \<open>The fields of \<^verbatim>\<open>user_fpregs_struct\<close>.\<close>

definition decode_core_fpregset :: "u8 list \<Rightarrow> core_fp_state" where
  "decode_core_fpregset b = \<lparr>fp_mxcsr = of_nat (field 24 4 b), fp_mxcsr_mask = of_nat (field 28 4 b),
     fp_xmm = map (\<lambda>i. take 16 (drop (160 + 16 * i) b)) [0..<16]\<rparr>"

record fp_scan =
  fq_current_tid :: "pid option"
  fq_target_state :: "core_fp_state option"
  fq_tids :: "pid list"

definition fp_note :: "u8 list \<Rightarrow> pid \<Rightarrow> core_note \<Rightarrow> fp_scan \<Rightarrow> ('s, fp_scan) prog" where
  "fp_note bytes target_tid note sc =
    (if nt_owner note \<noteq> text_bytes ''CORE'' then returnM sc
     else if nt_type note = NT_PRSTATUS then
       (if nt_descsz note \<noteq> prstatus_size
        then throwM (RuntimeError ''unsupported x86-64 NT_PRSTATUS size while associating FPREGSET'')
        else bindM (core_read_struct prstatus_size bytes (nt_desc_offset note) ''NT_PRSTATUS while associating FPREGSET'')
          (\<lambda>status. if int_field 32 status \<le> 0 then throwM (RuntimeError ''NT_PRSTATUS has invalid TID'')
             else returnM (sc\<lparr>fq_current_tid := Some (int_field 32 status)\<rparr>)))
     else if nt_type note \<noteq> NT_FPREGSET then returnM sc
     else case fq_current_tid sc of
       None \<Rightarrow> throwM (RuntimeError ''NT_FPREGSET appeared before any NT_PRSTATUS thread context'')
     | Some tid \<Rightarrow>
         if nt_descsz note \<noteq> fpregs_size then throwM (RuntimeError ''unsupported x86-64 NT_FPREGSET size'')
         else if tid \<in> set (fq_tids sc)
         then throwM (RuntimeError ''duplicate NT_FPREGSET for one core thread'')
         else bindM (core_read_struct fpregs_size bytes (nt_desc_offset note) ''NT_FPREGSET'') (\<lambda>regs.
           returnM (sc\<lparr>fq_tids := tid # fq_tids sc,
             fq_target_state := (if tid = target_tid then Some (decode_core_fpregset regs) else fq_target_state sc)\<rparr>)))"

definition fp_note_step :: "u8 list \<Rightarrow> pid \<Rightarrow> nat \<Rightarrow> (nat \<times> fp_scan, fp_scan option) prog" where
  "fp_note_step bytes target_tid end_pos = bindM getM (\<lambda>(cursor, sc).
    if \<not> cursor < end_pos then returnM (Some sc)
    else bindM (next_note fp_dialect (\<lambda>c. core_read_struct nhdr_size bytes c ''ELF core note'') bytes end_pos cursor) (\<lambda>note.
      bindM (fp_note bytes target_tid note sc) (\<lambda>sc'.
      thenM (modifyM (\<lambda>_. (nt_next note, sc'))) (returnM None))))"

fun fp_segment_loop :: "u8 list \<Rightarrow> pid \<Rightarrow> nat \<Rightarrow> nat \<Rightarrow> nat \<Rightarrow> fp_scan \<Rightarrow> ('s, fp_scan) prog" where
  "fp_segment_loop bytes target_tid phoff index 0 sc = returnM sc"
| "fp_segment_loop bytes target_tid phoff index (Suc n) sc =
    bindM (core_read_struct phdr_size bytes (wrap64 (phoff + index * phdr_size)) ''ELF core program header'') (\<lambda>raw.
    let phdr = decode_phdr raw in
    if ph_type phdr \<noteq> PT_NOTE then fp_segment_loop bytes target_tid phoff (index + 1) n sc
    else if ph_offset phdr > length bytes \<or> ph_filesz phdr > length bytes - ph_offset phdr
    then throwM (RuntimeError ''ELF core PT_NOTE extends past end of file'')
    else bindM (at_cursor (ph_offset phdr) (with_local sc (loopM (ph_filesz phdr + 1)
        (fp_note_step bytes target_tid (ph_offset phdr + ph_filesz phdr))))) (\<lambda>sc'.
      fp_segment_loop bytes target_tid phoff (index + 1) n sc'))"

definition parse_floating_point_state :: "u8 list \<Rightarrow> pid \<Rightarrow> ('s, core_fp_state option) prog" where
  "parse_floating_point_state bytes target_tid =
    (if length bytes < ehdr_size then throwM (RuntimeError ''core is smaller than ELF header'')
     else bindM (core_read_struct ehdr_size bytes 0 ''ELF core header'') (\<lambda>raw.
       let header = decode_ehdr raw in
       if \<not> has_elf_magic header \<or> \<not> is_elf64_lsb header \<or> e_type header \<noteq> ET_CORE \<or> e_machine header \<noteq> EM_X86_64
       then throwM (RuntimeError ''floating-point state requires little-endian x86-64 ET_CORE'')
       else if e_phnum header = 0 \<or> e_phnum header = PN_XNUM \<or> e_phentsize header \<noteq> phdr_size
       then throwM (RuntimeError ''unsupported ELF core program-header table'')
       else bindM (fp_segment_loop bytes target_tid (e_phoff header) 0 (e_phnum header)
           \<lparr>fq_current_tid = None, fq_target_state = None, fq_tids = []\<rparr>) (\<lambda>sc.
         returnM (fq_target_state sc))))"

definition read_core_floating_point_state :: "'k files \<Rightarrow> string \<Rightarrow> pid \<Rightarrow> ('k, core_fp_state option) prog" where
  "read_core_floating_point_state fs path target_tid =
    (if target_tid \<le> 0 then throwM (InvalidArgument ''core floating-point TID must be positive'')
     else bindM (read_core_bytes fp_dialect fs path) (\<lambda>bytes. parse_floating_point_state bytes target_tid))"

section \<open>The auxiliary vector\<close>

record core_startup_info =
  su_entry_point :: "u64 option"
  su_program_headers :: "u64 option"
  su_program_header_count :: "u64 option"
  su_page_size :: "u64 option"
  su_interpreter_base :: "u64 option"
  su_entries :: "(u64 \<times> u64) list"

definition startup_dialect :: note_dialect where
  "startup_dialect = \<lparr>nd_open = (\<lambda>path. ''failed to open core file for startup metadata''),
     nd_size = ''failed to determine core startup file size'', nd_read = ''failed to read core startup metadata'',
     nd_align = ''core startup note alignment overflow'', nd_header = ''truncated core startup note header'',
     nd_name = ''truncated core startup note name'', nd_owner = ''core startup note owner extends past file'',
     nd_payload = ''truncated core startup note payload''\<rparr>"

abbreviation (input) NT_AUXV :: nat where "NT_AUXV \<equiv> 6"
abbreviation (input) AT_NULL :: u64 where "AT_NULL \<equiv> 0"
abbreviation (input) AT_PHDR :: u64 where "AT_PHDR \<equiv> 3"
abbreviation (input) AT_PHNUM :: u64 where "AT_PHNUM \<equiv> 5"
abbreviation (input) AT_PAGESZ :: u64 where "AT_PAGESZ \<equiv> 6"
abbreviation (input) AT_BASE :: u64 where "AT_BASE \<equiv> 7"
abbreviation (input) AT_ENTRY :: u64 where "AT_ENTRY \<equiv> 9"
abbreviation (input) kMaxAuxvBytes :: nat where "kMaxAuxvBytes \<equiv> 4096"

definition assign_once :: "u64 option \<Rightarrow> u64 \<Rightarrow> string \<Rightarrow> ('s, u64 option) prog" where
  "assign_once target v label = (case target of
     Some _ \<Rightarrow> throwM (RuntimeError (''duplicate NT_AUXV '' @ label)) | None \<Rightarrow> returnM (Some v))"

definition auxv_entry :: "u64 \<Rightarrow> u64 \<Rightarrow> core_startup_info \<Rightarrow> ('s, core_startup_info) prog" where
  "auxv_entry type v info =
    (let info' = info\<lparr>su_entries := su_entries info @ [(type, v)]\<rparr> in
     if type = AT_ENTRY then bindM (assign_once (su_entry_point info) v ''AT_ENTRY'') (\<lambda>x.
       returnM (info'\<lparr>su_entry_point := x\<rparr>))
     else if type = AT_PHDR then bindM (assign_once (su_program_headers info) v ''AT_PHDR'') (\<lambda>x.
       returnM (info'\<lparr>su_program_headers := x\<rparr>))
     else if type = AT_PHNUM then bindM (assign_once (su_program_header_count info) v ''AT_PHNUM'') (\<lambda>x.
       returnM (info'\<lparr>su_program_header_count := x\<rparr>))
     else if type = AT_PAGESZ then bindM (assign_once (su_page_size info) v ''AT_PAGESZ'') (\<lambda>x.
       returnM (info'\<lparr>su_page_size := x\<rparr>))
     else if type = AT_BASE then bindM (assign_once (su_interpreter_base info) v ''AT_BASE'') (\<lambda>x.
       returnM (info'\<lparr>su_interpreter_base := x\<rparr>))
     else returnM info')"

text \<open>The second component is \<^verbatim>\<open>saw_null\<close>.\<close>

fun auxv_loop :: "u8 list \<Rightarrow> nat \<Rightarrow> nat \<Rightarrow> nat \<Rightarrow> core_startup_info \<Rightarrow> ('s, core_startup_info \<times> bool) prog" where
  "auxv_loop bytes desc_offset index 0 info = returnM (info, False)"
| "auxv_loop bytes desc_offset index (Suc n) info =
    bindM (copy_bytes 16 bytes (desc_offset + index * 16)) (\<lambda>entry.
    if word_field 0 entry = AT_NULL then returnM (info, True)
    else bindM (auxv_entry (word_field 0 entry) (word_field 8 entry) info)
      (auxv_loop bytes desc_offset (index + 1) n))"

definition owned_address :: "core_snapshot \<Rightarrow> u64 \<Rightarrow> bool" where
  "owned_address cs a \<longleftrightarrow> mapping_for_address cs a \<noteq> None"

definition check_startup :: "core_snapshot \<Rightarrow> core_startup_info \<Rightarrow> ('s, core_startup_info) prog" where
  "check_startup cs info =
    (if (case su_page_size info of None \<Rightarrow> False | Some p \<Rightarrow> p = 0 \<or> p AND (p - 1) \<noteq> 0)
     then throwM (RuntimeError ''NT_AUXV AT_PAGESZ is not a power of two'')
     else if su_program_header_count info = Some 0 then throwM (RuntimeError ''NT_AUXV AT_PHNUM is zero'')
     else if (case su_entry_point info of None \<Rightarrow> False | Some a \<Rightarrow> a = 0 \<or> \<not> owned_address cs a)
     then throwM (RuntimeError ''NT_AUXV AT_ENTRY is outside NT_FILE ownership'')
     else if (case su_program_headers info of None \<Rightarrow> False | Some a \<Rightarrow> a = 0 \<or> \<not> owned_address cs a)
     then throwM (RuntimeError ''NT_AUXV AT_PHDR is outside NT_FILE ownership'')
     else if (case su_interpreter_base info of None \<Rightarrow> False | Some a \<Rightarrow> a \<noteq> 0 \<and> \<not> owned_address cs a)
     then throwM (RuntimeError ''NT_AUXV AT_BASE is outside NT_FILE ownership'')
     else returnM info)"

definition auxv_note ::
  "core_snapshot \<Rightarrow> u8 list \<Rightarrow> core_note \<Rightarrow> core_startup_info option \<Rightarrow> ('s, core_startup_info option) prog" where
  "auxv_note cs bytes note result =
    (if nt_owner note \<noteq> text_bytes ''CORE'' \<or> nt_type note \<noteq> NT_AUXV then returnM result
     else if result \<noteq> None then throwM (RuntimeError ''duplicate NT_AUXV note'')
     else if nt_descsz note = 0 \<or> nt_descsz note > kMaxAuxvBytes \<or> nt_descsz note mod 16 \<noteq> 0
     then throwM (RuntimeError ''unsupported bounded x86-64 NT_AUXV payload'')
     else if nt_desc_offset note > length bytes \<or> nt_descsz note > length bytes - nt_desc_offset note
     then throwM (RuntimeError ''NT_AUXV payload extends past core file'')
     else bindM (auxv_loop bytes (nt_desc_offset note) 0 (nt_descsz note div 16)
         \<lparr>su_entry_point = None, su_program_headers = None, su_program_header_count = None,
          su_page_size = None, su_interpreter_base = None, su_entries = []\<rparr>) (\<lambda>(info, saw_null).
       if \<not> saw_null then throwM (RuntimeError ''NT_AUXV lacks AT_NULL terminator'')
       else bindM (check_startup cs info) (\<lambda>info. returnM (Some info))))"

definition startup_note_step ::
  "core_snapshot \<Rightarrow> u8 list \<Rightarrow> nat \<Rightarrow> (nat \<times> core_startup_info option, core_startup_info option option) prog" where
  "startup_note_step cs bytes end_pos = bindM getM (\<lambda>(cursor, result).
    if \<not> cursor < end_pos then returnM (Some result)
    else bindM (next_note startup_dialect (copy_bytes nhdr_size bytes) bytes end_pos cursor) (\<lambda>note.
      bindM (auxv_note cs bytes note result) (\<lambda>result'.
      thenM (modifyM (\<lambda>_. (nt_next note, result'))) (returnM None))))"

fun startup_segment_loop ::
  "core_snapshot \<Rightarrow> u8 list \<Rightarrow> nat \<Rightarrow> nat \<Rightarrow> nat \<Rightarrow> core_startup_info option \<Rightarrow> ('s, core_startup_info option) prog" where
  "startup_segment_loop cs bytes phoff index 0 result = returnM result"
| "startup_segment_loop cs bytes phoff index (Suc n) result =
    (let ph_offset' = wrap64 (phoff + index * phdr_size) in
     if ph_offset' > length bytes \<or> phdr_size > length bytes - ph_offset'
     then throwM (RuntimeError ''core startup program header extends past file'')
     else bindM (copy_bytes phdr_size bytes ph_offset') (\<lambda>raw.
       let phdr = decode_phdr raw in
       if ph_type phdr \<noteq> PT_NOTE then startup_segment_loop cs bytes phoff (index + 1) n result
       else if ph_offset phdr > length bytes \<or> ph_filesz phdr > length bytes - ph_offset phdr
       then throwM (RuntimeError ''core startup PT_NOTE extends past file'')
       else bindM (at_cursor (ph_offset phdr) (with_local result (loopM (ph_filesz phdr + 1)
           (startup_note_step cs bytes (ph_offset phdr + ph_filesz phdr))))) (\<lambda>result'.
         startup_segment_loop cs bytes phoff (index + 1) n result')))"

definition parse_startup_info :: "core_snapshot \<Rightarrow> u8 list \<Rightarrow> ('s, core_startup_info option) prog" where
  "parse_startup_info cs bytes =
    (if length bytes < ehdr_size then throwM (RuntimeError ''core startup metadata lacks ELF header'')
     else bindM (copy_bytes ehdr_size bytes 0) (\<lambda>raw.
       let header = decode_ehdr raw in
       if e_phentsize header \<noteq> phdr_size
       then throwM (RuntimeError ''unsupported core startup program-header size'')
       else startup_segment_loop cs bytes (e_phoff header) 0 (e_phnum header) None))"

text \<open>\<open>path\<close> is the path the snapshot was opened with.\<close>

definition read_core_startup_info ::
  "'k files \<Rightarrow> string \<Rightarrow> core_snapshot \<Rightarrow> ('k, core_startup_info option) prog" where
  "read_core_startup_info fs path cs =
     bindM (read_core_bytes startup_dialect fs path) (\<lambda>bytes. parse_startup_info cs bytes)"

end
