(* ===== verification/SnapshotInspect.thy ===== *)
theory SnapshotInspect
  imports SnapshotMemory SignalFrame CoreNotes
begin

text \<open>
  Frames of a core file, \<^verbatim>\<open>src/src/snapshot/inspection.hpp\<close> and \<^verbatim>\<open>src/src/snapshot/frame_lookup.hpp\<close>: resolving addresses
  to modules, symbols and source lines, and unwinding a captured thread through ordinary and signal frames.

  The source compares the addresses of snapshot and thread objects. Here a snapshot object is a core at an
  address, and a reference to a thread is the address of its snapshot and its index there.
  \<^verbatim>\<open>std::underflow_error\<close> is a \<open>RuntimeError\<close>.
\<close>

record snapshot_object =
  so_address :: nat
  so_path :: string
  so_core :: core_snapshot

record thread_ref =
  tf_owner :: nat
  tf_index :: nat
  tf_thread :: core_thread

definition same_thread :: "thread_ref \<Rightarrow> thread_ref \<Rightarrow> bool" where
  "same_thread r q \<longleftrightarrow> tf_owner r = tf_owner q \<and> tf_index r = tf_index q"

fun find_thread :: "pid \<Rightarrow> nat \<Rightarrow> core_thread list \<Rightarrow> (nat \<times> core_thread) option" where
  "find_thread tid i [] = None"
| "find_thread tid i (t # ts) = (if ct_tid t = tid then Some (i, t) else find_thread tid (i + 1) ts)"

definition snapshot_thread :: "snapshot_object \<Rightarrow> pid \<Rightarrow> ('s, thread_ref) prog" where
  "snapshot_thread so tid = (case find_thread tid 0 (cs_threads (so_core so)) of
     None \<Rightarrow> throwM (OutOfRange ''core thread TID is unavailable'')
   | Some (i, t) \<Rightarrow> returnM \<lparr>tf_owner = so_address so, tf_index = i, tf_thread = t\<rparr>)"

definition crashed_thread :: "snapshot_object \<Rightarrow> ('s, thread_ref) prog" where
  "crashed_thread so = (case cs_threads (so_core so) of
     [] \<Rightarrow> throwM (UndefinedBehaviour ''front of an empty vector'')
   | t # _ \<Rightarrow> returnM \<lparr>tf_owner = so_address so, tf_index = 0, tf_thread = t\<rparr>)"

section \<open>Modules, symbols and source lines\<close>

record snapshot_module_address =
  sa_module_path :: path
  sa_module_file_path :: path
  sa_virtual_address :: u64

record snapshot_resolved_symbol =
  sr_module_path :: path
  sr_name :: "u8 list"
  sr_offset :: u64

record snapshot_resolved_source =
  ss_module_path :: path
  ss_file :: "u8 list"
  ss_line :: u64
  ss_column :: u64

definition resolve_snapshot_module_address ::
  "'k files \<Rightarrow> (path \<Rightarrow> bool) \<Rightarrow> core_snapshot \<Rightarrow> u64 \<Rightarrow> module_paths \<Rightarrow> ('k, snapshot_module_address) prog" where
  "resolve_snapshot_module_address fs regular cs address mp = (case mapping_for_address cs address of
     None \<Rightarrow> throwM (RuntimeError ''snapshot address is not covered by NT_FILE mapping'')
   | Some m \<Rightarrow>
       if cm_path m = [] \<or> hd (cm_path m) \<noteq> slash
       then throwM (RuntimeError ''snapshot NT_FILE mapping lacks an absolute module path'')
       else bindM (resolve_module regular mp (cm_path m)) (\<lambda>file_path.
         bindM (open_elf fs (bytes_text file_path)) (\<lambda>elf.
         if \<not> is_pie elf
         then returnM \<lparr>sa_module_path = cm_path m, sa_module_file_path = file_path, sa_virtual_address = address\<rparr>
         else case find (\<lambda>c. cm_path c = cm_path m \<and> cm_file_offset c = 0) (cs_mappings cs) of
           None \<Rightarrow> throwM (RuntimeError ''snapshot PIE module lacks offset-zero NT_FILE mapping'')
         | Some base \<Rightarrow>
             if cm_start base < unat (ef_load_base elf)
             then throwM (RuntimeError ''snapshot PIE mapping is below ELF load virtual base'')
             else let bias = cm_start base - unat (ef_load_base elf) in
               if unat address < bias
               then throwM (RuntimeError ''snapshot runtime address is below module load bias'')
               else returnM \<lparr>sa_module_path = cm_path m, sa_module_file_path = file_path,
                      sa_virtual_address = address - of_nat bias\<rparr>)))"

definition find_snapshot_symbol_by_runtime_address ::
  "'k files \<Rightarrow> (path \<Rightarrow> bool) \<Rightarrow> core_snapshot \<Rightarrow> u64 \<Rightarrow> module_paths \<Rightarrow> ('k, snapshot_resolved_symbol option) prog" where
  "find_snapshot_symbol_by_runtime_address fs regular cs address mp =
    bindM (resolve_snapshot_module_address fs regular cs address mp) (\<lambda>ma.
    bindM (resolve_debug_file fs regular mp (sa_module_path ma)) (\<lambda>file_path.
    bindM (open_elf fs (bytes_text file_path)) (\<lambda>elf.
    returnM (map_option (\<lambda>r. \<lparr>sr_module_path = sa_module_path ma, sr_name = sy_name (rs_symbol r), sr_offset = rs_offset r\<rparr>)
      (find_symbol_by_virtual_address elf (sa_virtual_address ma))))))"

definition find_snapshot_source_by_runtime_address ::
  "'k files \<Rightarrow> (path \<Rightarrow> bool) \<Rightarrow> core_snapshot \<Rightarrow> u64 \<Rightarrow> module_paths \<Rightarrow> ('k, snapshot_resolved_source option) prog" where
  "find_snapshot_source_by_runtime_address fs regular cs address mp =
    bindM (resolve_snapshot_module_address fs regular cs address mp) (\<lambda>ma.
    bindM (resolve_debug_file fs regular mp (sa_module_path ma)) (\<lambda>file_path.
    bindM (open_line_table fs (bytes_text file_path)) (\<lambda>lines.
    returnM (if \<not> line_table_available lines then None
      else map_option (\<lambda>l. \<lparr>ss_module_path = sa_module_path ma, ss_file = sl_file l, ss_line = sl_line l, ss_column = sl_column l\<rparr>)
        (find_virtual_address lines (sa_virtual_address ma))))))"

section \<open>Frames\<close>

datatype pc_ownership = PO_ExactInstruction | PO_ReturnAddress

record snapshot_frame =
  sf_index :: nat
  sf_owner_snapshot :: nat
  sf_thread_tid :: pid
  sf_thread_signal_number :: int
  sf_origin_runtime_pc :: u64
  sf_origin_stack_pointer :: u64
  sf_origin_frame_pointer :: "u64 option"
  sf_runtime_pc :: u64
  sf_stack_pointer :: u64
  sf_frame_pointer :: "u64 option"
  sf_pc_ownership :: pc_ownership
  sf_module_path :: path
  sf_registers :: inspection_registers

record snapshot_trace =
  sp_frames :: "snapshot_frame list"
  sp_stop_reason :: cfi_stop_reason

definition validate_snapshot_inspection_frame :: "snapshot_object \<Rightarrow> snapshot_frame \<Rightarrow> ('s, unit) prog" where
  "validate_snapshot_inspection_frame so f =
    (if sf_owner_snapshot f \<noteq> so_address so
     then throwM (LogicError ''snapshot inspection frame belongs to a different CoreSnapshot owner'')
     else bindM (snapshot_thread so (sf_thread_tid f)) (\<lambda>r.
       let t = tf_thread r; regs = ct_registers t in
       if sf_thread_signal_number f \<noteq> ct_signal_number t \<or> sf_origin_runtime_pc f \<noteq> rip regs \<or>
          sf_origin_stack_pointer f \<noteq> rsp regs \<or> sf_origin_frame_pointer f \<noteq> Some (rbp regs)
       then throwM (LogicError ''snapshot inspection frame thread identity does not match its owner'')
       else if sf_runtime_pc f = 0 \<or> sf_stack_pointer f = 0 \<or> sf_module_path f = []
       then throwM (InvalidArgument ''snapshot inspection frame is incomplete'')
       else if sf_index f = 0 \<and> sf_pc_ownership f \<noteq> PO_ExactInstruction
       then throwM (LogicError ''snapshot frame zero must own an exact instruction PC'')
       else returnM ()))"

definition snapshot_frame_module_path :: "core_snapshot \<Rightarrow> u64 \<Rightarrow> ('s, path) prog" where
  "snapshot_frame_module_path cs address = (case mapping_for_address cs address of
     None \<Rightarrow> throwM (RuntimeError ''snapshot frame address is not covered by NT_FILE mapping'')
   | Some m \<Rightarrow>
       if cm_path m = [] \<or> hd (cm_path m) \<noteq> slash
       then throwM (RuntimeError ''snapshot frame NT_FILE mapping lacks an absolute module path'')
       else returnM (cm_path m))"

text \<open>A recovered caller: the local variables of the loop that a signal frame fills.\<close>

record snapshot_caller =
  sc_cursor :: eh_frame_cursor
  sc_r12 :: "u64 option"
  sc_rdi :: "u64 option"
  sc_rsi :: "u64 option"
  sc_xmm0 :: "u8 list option"
  sc_pc_ownership :: pc_ownership

definition plain_caller :: "eh_frame_cursor \<Rightarrow> pc_ownership \<Rightarrow> snapshot_caller" where
  "plain_caller cur ownership = \<lparr>sc_cursor = cur, sc_r12 = None, sc_rdi = None, sc_rsi = None, sc_xmm0 = None,
     sc_pc_ownership = ownership\<rparr>"

definition make_snapshot_inspection_frame ::
  "snapshot_object \<Rightarrow> thread_ref \<Rightarrow> nat \<Rightarrow> snapshot_caller \<Rightarrow> ('s, snapshot_frame) prog" where
  "make_snapshot_inspection_frame so r index c =
    bindM (snapshot_thread so (ct_tid (tf_thread r))) (\<lambda>owned.
    if \<not> same_thread owned r then throwM (LogicError ''snapshot thread context belongs to a different owner'')
    else let t = tf_thread r; cur = sc_cursor c in
      bindM (snapshot_frame_module_path (so_core so) (ec_instruction_pointer cur)) (\<lambda>module_path.
      returnM \<lparr>sf_index = index, sf_owner_snapshot = so_address so, sf_thread_tid = ct_tid t,
        sf_thread_signal_number = ct_signal_number t, sf_origin_runtime_pc = rip (ct_registers t),
        sf_origin_stack_pointer = rsp (ct_registers t), sf_origin_frame_pointer = Some (rbp (ct_registers t)),
        sf_runtime_pc = ec_instruction_pointer cur, sf_stack_pointer = ec_stack_pointer cur,
        sf_frame_pointer = ec_frame_pointer cur, sf_pc_ownership = sc_pc_ownership c, sf_module_path = module_path,
        sf_registers = no_registers\<lparr>ir_rbx := ec_rbx cur, ir_rbp := ec_frame_pointer cur,
          ir_rsp := Some (ec_stack_pointer cur), ir_r12 := sc_r12 c, ir_rdi := sc_rdi c, ir_rsi := sc_rsi c,
          ir_xmm0 := sc_xmm0 c\<rparr>\<rparr>))"

section \<open>Unwinding\<close>

text \<open>The caller of a frame in a module with call-frame information: a signal frame first.\<close>

definition snapshot_caller_in ::
  "'k files \<Rightarrow> core_snapshot \<Rightarrow> eh_frame \<Rightarrow> snapshot_module_address \<Rightarrow> eh_frame_cursor \<Rightarrow> ('k, snapshot_caller option) prog" where
  "snapshot_caller_in fs cs cfi ma current =
    bindM (open_signal_index fs (bytes_text (sa_module_file_path ma))) (\<lambda>ix.
    bindM (if ef_available ix then is_signal_frame ix (sa_virtual_address ma) else returnM False) (\<lambda>sig.
    if sig then bindM (recover_linux_x86_signal_frame cs (ec_stack_pointer current)) (\<lambda>s.
      returnM (Some \<lparr>sc_cursor = sg_cursor s, sc_r12 = Some (sg_r12 s), sc_rdi = Some (sg_rdi s),
        sc_rsi = Some (sg_rsi s), sc_xmm0 = Some (sg_xmm0 s), sc_pc_ownership = PO_ExactInstruction\<rparr>))
    else bindM (caller_frame_at cfi (core_read_memory cs) (sa_virtual_address ma) current) (\<lambda>caller.
      returnM (map_option (\<lambda>c. plain_caller c PO_ReturnAddress) caller))))"

text \<open>The guarded body of the loop: a reason to stop, or the caller. \<open>n\<close> is the number of frames so far.\<close>

definition next_snapshot_caller ::
  "'k files \<Rightarrow> (path \<Rightarrow> bool) \<Rightarrow> core_snapshot \<Rightarrow> module_paths \<Rightarrow> nat \<Rightarrow> eh_frame_cursor \<Rightarrow>
     ('k, cfi_stop_reason + snapshot_caller) prog" where
  "next_snapshot_caller fs regular cs mp n current =
    (let ended = Inl (if n = 1 then CU_NoFrameInfo else CU_EndOfChain) in
     catch_exception
      (bindM (resolve_snapshot_module_address fs regular cs (ec_instruction_pointer current) mp) (\<lambda>ma.
       bindM (open_eh_frame fs (bytes_text (sa_module_file_path ma))) (\<lambda>cfi.
       if \<not> ef_available cfi then returnM ended
       else bindM (snapshot_caller_in fs cs cfi ma current) (\<lambda>caller. case caller of
         None \<Rightarrow> returnM ended
       | Some c \<Rightarrow>
           if ec_instruction_pointer (sc_cursor c) = ec_instruction_pointer current \<or>
              ec_stack_pointer (sc_cursor c) \<le> ec_stack_pointer current
           then returnM (Inl CU_InvalidFrameState)
           else bindM (resolve_snapshot_module_address fs regular cs (ec_instruction_pointer (sc_cursor c)) mp)
             (\<lambda>_. returnM (Inr c))))))
      (returnM (Inl CU_InvalidFrameState)))"

fun snapshot_frame_loop ::
  "'k files \<Rightarrow> (path \<Rightarrow> bool) \<Rightarrow> snapshot_object \<Rightarrow> module_paths \<Rightarrow> thread_ref \<Rightarrow> nat \<Rightarrow> eh_frame_cursor \<Rightarrow>
     snapshot_frame list \<Rightarrow> ('k, snapshot_trace) prog" where
  "snapshot_frame_loop fs regular so mp r 0 current frames =
    returnM \<lparr>sp_frames = frames, sp_stop_reason = CU_FrameLimit\<rparr>"
| "snapshot_frame_loop fs regular so mp r (Suc n) current frames =
    bindM (next_snapshot_caller fs regular (so_core so) mp (length frames) current) (\<lambda>next. case next of
      Inl reason \<Rightarrow> returnM \<lparr>sp_frames = frames, sp_stop_reason = reason\<rparr>
    | Inr c \<Rightarrow> bindM (make_snapshot_inspection_frame so r (length frames) c) (\<lambda>f.
        snapshot_frame_loop fs regular so mp r n (sc_cursor c) (frames @ [f])))"

definition thread_cursor :: "core_thread \<Rightarrow> eh_frame_cursor" where
  "thread_cursor t = (let regs = ct_registers t in \<lparr>ec_instruction_pointer = rip regs, ec_stack_pointer = rsp regs,
     ec_frame_pointer = Some (rbp regs), ec_rbx = Some (rbx regs)\<rparr>)"

definition build_snapshot_inspection_frames ::
  "'k files \<Rightarrow> (path \<Rightarrow> bool) \<Rightarrow> snapshot_object \<Rightarrow> thread_ref \<Rightarrow> nat \<Rightarrow> module_paths \<Rightarrow> ('k, snapshot_trace) prog" where
  "build_snapshot_inspection_frames fs regular so r max_frames mp =
    (if max_frames = 0 then throwM (InvalidArgument ''snapshot inspection requires a non-zero frame limit'')
     else bindM (snapshot_thread so (ct_tid (tf_thread r))) (\<lambda>owned.
       if \<not> same_thread owned r then throwM (LogicError ''snapshot thread context belongs to a different owner'')
       else let current = thread_cursor (tf_thread r) in
         bindM (make_snapshot_inspection_frame so r 0 (plain_caller current PO_ExactInstruction)) (\<lambda>f.
         if max_frames = 1 then returnM \<lparr>sp_frames = [f], sp_stop_reason = CU_FrameLimit\<rparr>
         else snapshot_frame_loop fs regular so mp r (max_frames - 1) current [f])))"

definition unwind_snapshot ::
  "'k files \<Rightarrow> (path \<Rightarrow> bool) \<Rightarrow> snapshot_object \<Rightarrow> nat \<Rightarrow> ('k, cfi_backtrace) prog" where
  "unwind_snapshot fs regular so max_frames = bindM (crashed_thread so) (\<lambda>r.
     bindM (build_snapshot_inspection_frames fs regular so r max_frames identity_module_paths) (\<lambda>trace.
     returnM \<lparr>cb_frames = map (\<lambda>f. \<lparr>cf_ip = sf_runtime_pc f, cf_sp = sf_stack_pointer f, cf_fp = sf_frame_pointer f\<rparr>)
       (sp_frames trace), cb_stop_reason = sp_stop_reason trace\<rparr>))"

section \<open>Lookup addresses\<close>

definition snapshot_frame_lookup_pc :: "snapshot_frame \<Rightarrow> ('s, u64) prog" where
  "snapshot_frame_lookup_pc f =
    (if sf_pc_ownership f = PO_ExactInstruction then returnM (sf_runtime_pc f)
     else if sf_runtime_pc f = 0
     then throwM (RuntimeError ''historical snapshot return PC cannot be normalized below zero'')
     else returnM (sf_runtime_pc f - 1))"

definition validate_snapshot_frame_lookup_pc :: "snapshot_frame \<Rightarrow> ('s, unit) prog" where
  "validate_snapshot_frame_lookup_pc f = bindM (snapshot_frame_lookup_pc f) (\<lambda>lookup_pc.
    if sf_pc_ownership f = PO_ExactInstruction then
      (if lookup_pc \<noteq> sf_runtime_pc f
       then throwM (LogicError ''exact snapshot lookup PC changed runtime identity'') else returnM ())
    else if sf_index f = 0
    then throwM (LogicError ''snapshot frame zero cannot own a return-address PC'')
    else if lookup_pc \<ge> sf_runtime_pc f \<or> lookup_pc + 1 \<noteq> sf_runtime_pc f
    then throwM (LogicError ''historical snapshot lookup PC is not the return call site'')
    else returnM ())"

end
