(* ===== verification/DebugInfo.thy ===== *)
theory DebugInfo
  imports EhFrame ElfFile Modules
begin

text \<open>
  The reader of DWARF debug information in \<^verbatim>\<open>src/src/dwarf/source_lookup_impl.inc\<close>: named sections of an ELF file,
  abbreviations, attribute values, the entries (DIEs) of a unit as a vector whose elements know the index of their
  parent, and the walks up the parents. A \<^verbatim>\<open>const AttributeValue*\<close> is an option. Indexing a vector without a
  check is \<open>UndefinedBehaviour\<close> outside of it.
\<close>

unbundle bit_operations_syntax

section \<open>Data\<close>

record debug_sections =
  ds_info :: "u8 list"
  ds_abbrev :: "u8 list"
  ds_strings :: "u8 list"
  ds_line_strings :: "u8 list"
  ds_locations :: "u8 list"
  ds_location_lists :: "u8 list"
  ds_addresses :: "u8 list"
  ds_string_offsets :: "u8 list"

text \<open>The implicit constant is kept as the 64 bits of the \<^verbatim>\<open>std::int64_t\<close>.\<close>

record attribute_spec =
  as_name :: u64
  as_form :: u64
  as_implicit_constant :: u64

record abbrev_entry =
  ab_tag :: u64
  ab_has_children :: bool
  ab_attributes :: "attribute_spec list"

record attribute_value =
  av_name :: u64
  av_form :: u64
  av_number :: u64
  av_text :: "u8 list"
  av_expression :: "u8 list"

record die =
  die_offset :: nat
  die_tag :: u64
  die_parent :: "nat option"
  die_attributes :: "attribute_value list"

record loclists_contribution =
  lc_start :: nat
  lc_offsets_base :: nat
  lc_end :: nat
  lc_offset_count :: nat

abbreviation (input) kDwTagFormalParameter :: u64 where "kDwTagFormalParameter \<equiv> 0x05"
abbreviation (input) kDwTagLexicalBlock :: u64 where "kDwTagLexicalBlock \<equiv> 0x0b"
abbreviation (input) kDwTagInlinedSubroutine :: u64 where "kDwTagInlinedSubroutine \<equiv> 0x1d"
abbreviation (input) kDwTagSubprogram :: u64 where "kDwTagSubprogram \<equiv> 0x2e"
abbreviation (input) kDwTagVariable :: u64 where "kDwTagVariable \<equiv> 0x34"

abbreviation (input) kDwAtName :: u64 where "kDwAtName \<equiv> 0x03"
abbreviation (input) kDwAtLowPc :: u64 where "kDwAtLowPc \<equiv> 0x11"
abbreviation (input) kDwAtHighPc :: u64 where "kDwAtHighPc \<equiv> 0x12"
abbreviation (input) kDwAtAbstractOrigin :: u64 where "kDwAtAbstractOrigin \<equiv> 0x31"
abbreviation (input) kDwAtStrOffsetsBase :: u64 where "kDwAtStrOffsetsBase \<equiv> 0x72"
abbreviation (input) kDwAtAddrBase :: u64 where "kDwAtAddrBase \<equiv> 0x73"
abbreviation (input) kDwAtLoclistsBase :: u64 where "kDwAtLoclistsBase \<equiv> 0x8c"

abbreviation (input) kDwFormAddr :: u64 where "kDwFormAddr \<equiv> 0x01"
abbreviation (input) kDwFormData2 :: u64 where "kDwFormData2 \<equiv> 0x05"
abbreviation (input) kDwFormData4 :: u64 where "kDwFormData4 \<equiv> 0x06"
abbreviation (input) kDwFormData8 :: u64 where "kDwFormData8 \<equiv> 0x07"
abbreviation (input) kDwFormString :: u64 where "kDwFormString \<equiv> 0x08"
abbreviation (input) kDwFormData1 :: u64 where "kDwFormData1 \<equiv> 0x0b"
abbreviation (input) kDwFormSdata :: u64 where "kDwFormSdata \<equiv> 0x0d"
abbreviation (input) kDwFormStrp :: u64 where "kDwFormStrp \<equiv> 0x0e"
abbreviation (input) kDwFormUdata :: u64 where "kDwFormUdata \<equiv> 0x0f"
abbreviation (input) kDwFormRef4 :: u64 where "kDwFormRef4 \<equiv> 0x13"
abbreviation (input) kDwFormSecOffset :: u64 where "kDwFormSecOffset \<equiv> 0x17"
abbreviation (input) kDwFormExprloc :: u64 where "kDwFormExprloc \<equiv> 0x18"
abbreviation (input) kDwFormFlagPresent :: u64 where "kDwFormFlagPresent \<equiv> 0x19"
abbreviation (input) kDwFormAddrx :: u64 where "kDwFormAddrx \<equiv> 0x1b"
abbreviation (input) kDwFormLineStrp :: u64 where "kDwFormLineStrp \<equiv> 0x1f"
abbreviation (input) kDwFormImplicitConst :: u64 where "kDwFormImplicitConst \<equiv> 0x21"
abbreviation (input) kDwFormLoclistx :: u64 where "kDwFormLoclistx \<equiv> 0x22"
abbreviation (input) kDwFormStrx1 :: u64 where "kDwFormStrx1 \<equiv> 0x25"

text \<open>The copies of the readers: the variable-length ones take their name as an argument.\<close>

definition di_dialect :: "string \<Rightarrow> dialect" where
  "di_dialect what = \<lparr>past_data = '' extends past end of data'', past_limit = '' extends past DWARF boundary'',
     uleb_name = what, sleb_name = what, sleb_checked = False\<rparr>"

definition di_u8 :: "u8 list \<Rightarrow> nat \<Rightarrow> string \<Rightarrow> u8 reader" where
  "di_u8 bytes limit what = read_u8 (di_dialect what) bytes limit what"

definition di_u16 :: "u8 list \<Rightarrow> nat \<Rightarrow> string \<Rightarrow> u16 reader" where
  "di_u16 bytes limit what = read_u16 (di_dialect what) bytes limit what"

definition di_u32 :: "u8 list \<Rightarrow> nat \<Rightarrow> string \<Rightarrow> u32 reader" where
  "di_u32 bytes limit what = read_u32 (di_dialect what) bytes limit what"

definition di_u64 :: "u8 list \<Rightarrow> nat \<Rightarrow> string \<Rightarrow> u64 reader" where
  "di_u64 bytes limit what = read_u64 (di_dialect what) bytes limit what"

definition di_uleb :: "u8 list \<Rightarrow> nat \<Rightarrow> string \<Rightarrow> u64 reader" where
  "di_uleb bytes limit what = read_uleb (di_dialect what) bytes limit"

definition di_sleb :: "u8 list \<Rightarrow> nat \<Rightarrow> string \<Rightarrow> u64 reader" where
  "di_sleb bytes limit what = read_sleb (di_dialect what) bytes limit"

text \<open>\<^verbatim>\<open>read_at<T>\<close>: the number in \<open>width\<close> bytes at an offset.\<close>

definition di_number_at :: "nat \<Rightarrow> u8 list \<Rightarrow> nat \<Rightarrow> string \<Rightarrow> ('s, u64) prog" where
  "di_number_at width bytes offset what =
    bindM (read_at (di_dialect what) width bytes offset what) (\<lambda>v. returnM (le_word v))"

section \<open>Sections\<close>

fun named_section_loop ::
  "u8 list \<Rightarrow> string list \<Rightarrow> section_header \<Rightarrow> section_header list \<Rightarrow> (u8 list, u8 list) smap \<Rightarrow>
     ('s, (u8 list, u8 list) smap) prog" where
  "named_section_loop bytes wanted names [] result = returnM result"
| "named_section_loop bytes wanted names (s # rest) result =
    (if sh_name s \<ge> sh_size names then named_section_loop bytes wanted names rest result
     else bindM (at_cursor (sh_offset names + sh_name s)
         (read_c_string bytes (sh_offset names + sh_size names) ''ELF section name'')) (\<lambda>name.
       if name \<notin> set (map text_bytes wanted) then named_section_loop bytes wanted names rest result
       else if bit (sh_flags s) SHF_COMPRESSED_BIT
       then throwM (RuntimeError (''compressed '' @ bytes_text name @ '' is unsupported''))
       else thenM (require_range bytes (sh_offset s) (sh_size s) (bytes_text name))
         (named_section_loop bytes wanted names rest
           (smap_emplace name (take (sh_size s) (drop (sh_offset s) bytes)) result))))"

definition named_sections :: "u8 list \<Rightarrow> string list \<Rightarrow> ('s, (u8 list, u8 list) smap) prog" where
  "named_sections bytes wanted =
    bindM (read_at (di_dialect []) ehdr_size bytes 0 ''ELF header'') (\<lambda>raw.
    let header = decode_ehdr raw in
    if \<not> has_elf_magic header \<or> \<not> is_elf64_lsb header \<or> e_machine header \<noteq> EM_X86_64
    then throwM (RuntimeError ''local-value inspection requires little-endian x86-64 ELF64'')
    else if e_shnum header = 0 \<or> e_shstrndx header = SHN_UNDEF \<or> e_shentsize header \<noteq> shdr_size \<or>
            e_shstrndx header = SHN_XINDEX \<or> e_shstrndx header \<ge> e_shnum header
    then throwM (RuntimeError ''unsupported ELF section layout for local-value inspection'')
    else bindM (read_sections (di_dialect []) bytes (e_shoff header) 0 (e_shnum header)) (\<lambda>sections.
      let names = sections ! e_shstrndx header in
      thenM (require_range bytes (sh_offset names) (sh_size names) ''ELF section-name table'')
        (named_section_loop bytes wanted names sections smap_empty)))"

definition read_named_sections :: "'k files \<Rightarrow> string \<Rightarrow> string list \<Rightarrow> ('k, (u8 list, u8 list) smap) prog" where
  "read_named_sections fs file_path wanted =
    bindM (read_binary_file fs file_path) (\<lambda>bytes. named_sections bytes wanted)"

definition section_or_empty :: "(u8 list, u8 list) smap \<Rightarrow> string \<Rightarrow> u8 list" where
  "section_or_empty sections name = (case smap_find sections (text_bytes name) of None \<Rightarrow> [] | Some b \<Rightarrow> b)"

definition read_debug_sections :: "'k files \<Rightarrow> string \<Rightarrow> ('k, debug_sections) prog" where
  "read_debug_sections fs file_path =
    bindM (read_named_sections fs file_path [''.debug_info'', ''.debug_abbrev'', ''.debug_str'', ''.debug_line_str'',
      ''.debug_loc'', ''.debug_loclists'', ''.debug_addr'', ''.debug_str_offsets'']) (\<lambda>sections.
    case (smap_find sections (text_bytes ''.debug_info''), smap_find sections (text_bytes ''.debug_abbrev''),
          smap_find sections (text_bytes ''.debug_str'')) of
      (Some info, Some abbrev, Some strings) \<Rightarrow>
        returnM \<lparr>ds_info = info, ds_abbrev = abbrev, ds_strings = strings,
          ds_line_strings = section_or_empty sections ''.debug_line_str'',
          ds_locations = section_or_empty sections ''.debug_loc'',
          ds_location_lists = section_or_empty sections ''.debug_loclists'',
          ds_addresses = section_or_empty sections ''.debug_addr'',
          ds_string_offsets = section_or_empty sections ''.debug_str_offsets''\<rparr>
    | _ \<Rightarrow> throwM (RuntimeError
        ''local-value inspection requires .debug_info, .debug_abbrev, and .debug_str''))"

section \<open>Abbreviations\<close>

text \<open>Running a reader beside a local variable.\<close>

definition beside :: "'a reader \<Rightarrow> (nat \<times> 'l, 'a) prog" where
  "beside = zoomM fst (\<lambda>c s. (c, snd s))"

definition append_local :: "'x \<Rightarrow> (nat \<times> 'x list, 'r option) prog" where
  "append_local x = thenM (modifyM (\<lambda>(c, xs). (c, xs @ [x]))) (returnM None)"

text \<open>One turn of the inner loop: an attribute, or the end of the list.\<close>

definition attribute_spec_step :: "u8 list \<Rightarrow> (nat \<times> attribute_spec list, attribute_spec list option) prog" where
  "attribute_spec_step bytes =
    bindM (beside (di_uleb bytes (length bytes) ''abbreviation attribute'')) (\<lambda>name.
    bindM (beside (di_uleb bytes (length bytes) ''abbreviation form'')) (\<lambda>form.
    if name = 0 \<and> form = 0 then bindM getM (\<lambda>s. returnM (Some (snd s)))
    else if name = 0 \<or> form = 0
    then throwM (RuntimeError ''malformed DWARF abbreviation attribute/form pair'')
    else bindM (if form = kDwFormImplicitConst
                then beside (di_sleb bytes (length bytes) ''DW_FORM_implicit_const value'') else returnM 0) (\<lambda>const.
      append_local \<lparr>as_name = name, as_form = form, as_implicit_constant = const\<rparr>)))"

definition read_attribute_specs :: "u8 list \<Rightarrow> attribute_spec list reader" where
  "read_attribute_specs bytes = bindM getM (\<lambda>c.
     with_local [] (loopM (length bytes - c + 1) (attribute_spec_step bytes)))"

type_synonym abbreviations = "(u64, abbrev_entry) smap"

definition abbreviation_step :: "u8 list \<Rightarrow> (nat \<times> abbreviations, abbreviations option) prog" where
  "abbreviation_step bytes = bindM getM (\<lambda>(cursor, result).
    if \<not> cursor < length bytes then returnM (Some result)
    else bindM (beside (di_uleb bytes (length bytes) ''abbreviation code'')) (\<lambda>code.
    if code = 0 then returnM (Some result)
    else bindM (beside (di_uleb bytes (length bytes) ''abbreviation tag'')) (\<lambda>tag.
    bindM (beside (di_u8 bytes (length bytes) ''abbreviation children flag'')) (\<lambda>children.
    if children > 1 then throwM (RuntimeError ''invalid DWARF abbreviation children flag'')
    else bindM (beside (read_attribute_specs bytes)) (\<lambda>specs.
    if smap_find result code \<noteq> None then throwM (RuntimeError ''duplicate DWARF abbreviation code'')
    else thenM (modifyM (\<lambda>(c, m). (c, smap_emplace code
        \<lparr>ab_tag = tag, ab_has_children = (children \<noteq> 0), ab_attributes = specs\<rparr> m))) (returnM None))))))"

definition parse_abbreviations :: "u8 list \<Rightarrow> nat \<Rightarrow> ('s, abbreviations) prog" where
  "parse_abbreviations bytes offset =
    (if offset > length bytes then throwM (RuntimeError ''DWARF abbreviation offset is out of range'')
     else at_cursor offset (with_local smap_empty (loopM (length bytes - offset + 1) (abbreviation_step bytes))))"

section \<open>Attribute values\<close>

definition string_at :: "u8 list \<Rightarrow> nat \<Rightarrow> string \<Rightarrow> ('s, u8 list) prog" where
  "string_at bytes offset what = at_cursor offset (read_c_string bytes (length bytes) what)"

text \<open>The numbers of the plain forms.\<close>

definition read_number_form :: "attribute_spec \<Rightarrow> u8 list \<Rightarrow> nat \<Rightarrow> nat \<Rightarrow> u8 \<Rightarrow> u64 reader" where
  "read_number_form spec info unit_end unit_start address_size =
    (if as_form spec = kDwFormAddr then
       (if address_size \<noteq> 8 then throwM (RuntimeError ''only 8-byte DWARF addresses are supported'')
        else di_u64 info unit_end ''DW_FORM_addr'')
     else if as_form spec = kDwFormData1 then bindM (di_u8 info unit_end ''DW_FORM_data1'') (\<lambda>v. returnM (ucast v))
     else if as_form spec = kDwFormData2 then bindM (di_u16 info unit_end ''DW_FORM_data2'') (\<lambda>v. returnM (ucast v))
     else if as_form spec = kDwFormData4 then bindM (di_u32 info unit_end ''DW_FORM_data4'') (\<lambda>v. returnM (ucast v))
     else if as_form spec = kDwFormData8 then di_u64 info unit_end ''DW_FORM_data8''
     else if as_form spec = kDwFormSdata then di_sleb info unit_end ''DW_FORM_sdata''
     else if as_form spec = kDwFormUdata then di_uleb info unit_end ''DW_FORM_udata''
     else if as_form spec = kDwFormRef4 then bindM (di_u32 info unit_end ''DW_FORM_ref4'') (\<lambda>offset.
       if unat offset > max_u64 - unit_start
       then throwM (RuntimeError ''DW_FORM_ref4 overflows debug-info offset'')
       else returnM (of_nat (unit_start + unat offset)))
     else if as_form spec = kDwFormSecOffset then
       bindM (di_u32 info unit_end ''DW_FORM_sec_offset'') (\<lambda>v. returnM (ucast v))
     else if as_form spec = kDwFormFlagPresent then returnM 1
     else if as_form spec = kDwFormAddrx then di_uleb info unit_end ''DW_FORM_addrx''
     else if as_form spec = kDwFormLoclistx then di_uleb info unit_end ''DW_FORM_loclistx''
     else if as_form spec = kDwFormStrx1 then bindM (di_u8 info unit_end ''DW_FORM_strx1'') (\<lambda>v. returnM (ucast v))
     else if as_form spec = kDwFormImplicitConst then returnM (as_implicit_constant spec)
     else throwM (RuntimeError (''unsupported DWARF form in local-value inspection: '' @ to_string (unat (as_form spec)))))"

definition read_exprloc :: "u8 list \<Rightarrow> nat \<Rightarrow> u8 list reader" where
  "read_exprloc info unit_end = bindM (di_uleb info unit_end ''DW_FORM_exprloc length'') (\<lambda>len.
    bindM getM (\<lambda>cursor.
    if unat len > unit_end - cursor then throwM (RuntimeError ''DW_FORM_exprloc extends past unit'')
    else thenM (modifyM (\<lambda>c. c + unat len)) (returnM (take (unat len) (drop cursor info)))))"

definition read_attribute ::
  "attribute_spec \<Rightarrow> debug_sections \<Rightarrow> nat \<Rightarrow> nat \<Rightarrow> u8 \<Rightarrow> attribute_value reader" where
  "read_attribute spec ds unit_end unit_start address_size =
    (let v = \<lparr>av_name = as_name spec, av_form = as_form spec, av_number = 0, av_text = [], av_expression = []\<rparr>;
       info = ds_info ds in
     if as_form spec = kDwFormString then
       bindM (read_c_string info unit_end ''DW_FORM_string'') (\<lambda>t. returnM (v\<lparr>av_text := t\<rparr>))
     else if as_form spec = kDwFormStrp then
       bindM (di_u32 info unit_end ''DW_FORM_strp'') (\<lambda>offset.
       if unat offset \<ge> length (ds_strings ds) then throwM (RuntimeError ''DW_FORM_strp offset is out of range'')
       else bindM (string_at (ds_strings ds) (unat offset) ''DW_FORM_strp string'') (\<lambda>t. returnM (v\<lparr>av_text := t\<rparr>)))
     else if as_form spec = kDwFormLineStrp then
       bindM (di_u32 info unit_end ''DW_FORM_line_strp'') (\<lambda>offset.
       if ds_line_strings ds = [] \<or> unat offset \<ge> length (ds_line_strings ds)
       then throwM (RuntimeError ''DW_FORM_line_strp offset is out of range'')
       else bindM (string_at (ds_line_strings ds) (unat offset) ''DW_FORM_line_strp string'') (\<lambda>t.
         returnM (v\<lparr>av_text := t\<rparr>)))
     else if as_form spec = kDwFormExprloc then
       bindM (read_exprloc info unit_end) (\<lambda>e. returnM (v\<lparr>av_expression := e\<rparr>))
     else bindM (read_number_form spec info unit_end unit_start address_size) (\<lambda>n. returnM (v\<lparr>av_number := n\<rparr>)))"

section \<open>Entries\<close>

definition attribute :: "die \<Rightarrow> u64 \<Rightarrow> attribute_value option" where
  "attribute d name = find (\<lambda>v. av_name v = name) (die_attributes d)"

text \<open>\<^verbatim>\<open>dies[index]\<close>.\<close>

definition die_at :: "die list \<Rightarrow> nat \<Rightarrow> ('s, die) prog" where
  "die_at dies index = (if index < length dies then returnM (dies ! index)
     else throwM (UndefinedBehaviour ''vector index out of range''))"

fun die_index_loop :: "nat \<Rightarrow> nat \<Rightarrow> die list \<Rightarrow> nat option" where
  "die_index_loop offset index [] = None"
| "die_index_loop offset index (d # ds) =
    (if die_offset d = offset then Some index else die_index_loop offset (index + 1) ds)"

definition die_index_by_offset :: "die list \<Rightarrow> nat \<Rightarrow> nat option" where
  "die_index_by_offset dies offset = die_index_loop offset 0 dies"

abbreviation (input) kMaxAbstractOriginDepth :: nat where "kMaxAbstractOriginDepth \<equiv> 8"

fun abstract_origin_loop :: "nat \<Rightarrow> die list \<Rightarrow> nat \<Rightarrow> u64 \<Rightarrow> ('s, attribute_value option) prog" where
  "abstract_origin_loop 0 dies index name =
    throwM (RuntimeError ''inlined local abstract-origin chain is too deep'')"
| "abstract_origin_loop (Suc n) dies index name = bindM (die_at dies index) (\<lambda>d.
    case attribute d name of
      Some v \<Rightarrow> returnM (Some v)
    | None \<Rightarrow> (case attribute d kDwAtAbstractOrigin of
        None \<Rightarrow> returnM None
      | Some origin \<Rightarrow>
          if av_form origin \<noteq> kDwFormRef4
          then throwM (RuntimeError ''inlined local abstract origin does not use supported DW_FORM_ref4'')
          else case die_index_by_offset dies (unat (av_number origin)) of
            None \<Rightarrow> throwM (RuntimeError ''inlined local abstract origin references an unknown DIE'')
          | Some j \<Rightarrow>
              if j = index then throwM (RuntimeError ''inlined local abstract origin is self-referential'')
              else abstract_origin_loop n dies j name))"

definition attribute_with_abstract_origin :: "die list \<Rightarrow> nat \<Rightarrow> u64 \<Rightarrow> ('s, attribute_value option) prog" where
  "attribute_with_abstract_origin dies index name = abstract_origin_loop kMaxAbstractOriginDepth dies index name"

text \<open>The walks up the parents; the turns left are the fuel, as many as there are entries.\<close>

fun descendant_loop :: "nat \<Rightarrow> die list \<Rightarrow> nat option \<Rightarrow> nat \<Rightarrow> ('s, bool) prog" where
  "descendant_loop n dies None ancestor = returnM False"
| "descendant_loop 0 dies (Some p) ancestor = divergeM"
| "descendant_loop (Suc n) dies (Some p) ancestor = (if p = ancestor then returnM True
     else bindM (die_at dies p) (\<lambda>d. descendant_loop n dies (die_parent d) ancestor))"

definition is_descendant_of :: "die list \<Rightarrow> nat \<Rightarrow> nat \<Rightarrow> ('s, bool) prog" where
  "is_descendant_of dies child ancestor =
    bindM (die_at dies child) (\<lambda>d. descendant_loop (length dies) dies (die_parent d) ancestor)"

definition add_unsigned :: "u64 \<Rightarrow> u64 \<Rightarrow> string \<Rightarrow> ('s, u64) prog" where
  "add_unsigned base offset what =
    (if unat offset > max_u64 - unat base then throwM (RuntimeError (what @ '' overflows address space''))
     else returnM (base + offset))"

section \<open>Index tables of version 5\<close>

definition indexed_string :: "debug_sections \<Rightarrow> nat \<Rightarrow> nat \<Rightarrow> ('s, u8 list) prog" where
  "indexed_string ds base index =
    (let tab = ds_string_offsets ds in
     if tab = [] then throwM (RuntimeError ''DW_FORM_strx1 requires .debug_str_offsets'')
     else if base < 8 \<or> base > length tab then throwM (RuntimeError ''DW_AT_str_offsets_base is out of range'')
     else let start = base - 8 in
       bindM (di_number_at 4 tab start ''.debug_str_offsets length'') (\<lambda>len.
       if len = 0xffffffff \<or> len < 4 \<or> unat len > length tab - start - 4
       then throwM (RuntimeError ''unsupported .debug_str_offsets contribution'')
       else let contribution_end = start + 4 + unat len in
         bindM (di_number_at 2 tab (start + 4) ''.debug_str_offsets version'') (\<lambda>version.
         if version \<noteq> 5 then throwM (RuntimeError ''unsupported .debug_str_offsets header'')
         else bindM (di_number_at 2 tab (start + 6) ''.debug_str_offsets padding'') (\<lambda>padding.
         if padding \<noteq> 0 then throwM (RuntimeError ''unsupported .debug_str_offsets header'')
         else if index > (max_u64 - base) div 4
         then throwM (RuntimeError ''DW_FORM_strx1 index overflows offset table'')
         else let entry = base + index * 4 in
           if entry > contribution_end \<or> 4 > contribution_end - entry
           then throwM (RuntimeError ''DW_FORM_strx1 index is out of range'')
           else bindM (di_number_at 4 tab entry ''DW_FORM_strx1 offset'') (\<lambda>offset.
             if unat offset \<ge> length (ds_strings ds)
             then throwM (RuntimeError ''DW_FORM_strx1 string offset is out of range'')
             else string_at (ds_strings ds) (unat offset) ''DW_FORM_strx1 string'')))))"

definition indexed_address :: "debug_sections \<Rightarrow> nat \<Rightarrow> nat \<Rightarrow> ('s, u64) prog" where
  "indexed_address ds base index =
    (let tab = ds_addresses ds in
     if tab = [] then throwM (RuntimeError ''DW_FORM_addrx requires .debug_addr'')
     else if base < 8 \<or> base > length tab then throwM (RuntimeError ''DW_AT_addr_base is out of range'')
     else let start = base - 8 in
       bindM (di_number_at 4 tab start ''.debug_addr length'') (\<lambda>len.
       if len = 0xffffffff \<or> len < 4 \<or> unat len > length tab - start - 4
       then throwM (RuntimeError ''unsupported .debug_addr contribution'')
       else let contribution_end = start + 4 + unat len in
         bindM (di_number_at 2 tab (start + 4) ''.debug_addr version'') (\<lambda>version.
         if version \<noteq> 5 then throwM (RuntimeError ''unsupported .debug_addr header'')
         else bindM (di_number_at 1 tab (start + 6) ''.debug_addr address size'') (\<lambda>address_size.
         if address_size \<noteq> 8 then throwM (RuntimeError ''unsupported .debug_addr header'')
         else bindM (di_number_at 1 tab (start + 7) ''.debug_addr segment size'') (\<lambda>segment_size.
         if segment_size \<noteq> 0 then throwM (RuntimeError ''unsupported .debug_addr header'')
         else if index > (max_u64 - base) div 8
         then throwM (RuntimeError ''DW_FORM_addrx index overflows address table'')
         else let entry = base + index * 8 in
           if entry > contribution_end \<or> 8 > contribution_end - entry
           then throwM (RuntimeError ''DW_FORM_addrx index is out of range'')
           else di_number_at 8 tab entry ''DW_FORM_addrx address'')))))"

definition loclists_contribution_at :: "debug_sections \<Rightarrow> nat \<Rightarrow> ('s, loclists_contribution) prog" where
  "loclists_contribution_at ds start =
    (let tab = ds_location_lists ds in
     if tab = [] then throwM (RuntimeError ''DWARF5 local value location list requires .debug_loclists'')
     else if start > length tab \<or> 12 > length tab - start
     then throwM (RuntimeError ''.debug_loclists header is truncated'')
     else bindM (di_number_at 4 tab start ''.debug_loclists length'') (\<lambda>len.
       if len = 0xffffffff \<or> len < 8 \<or> unat len > length tab - start - 4
       then throwM (RuntimeError ''unsupported .debug_loclists contribution'')
       else let contribution_end = start + 4 + unat len in
         bindM (di_number_at 2 tab (start + 4) ''.debug_loclists version'') (\<lambda>version.
         if version \<noteq> 5 then throwM (RuntimeError ''unsupported .debug_loclists header'')
         else bindM (di_number_at 1 tab (start + 6) ''.debug_loclists address size'') (\<lambda>address_size.
         if address_size \<noteq> 8 then throwM (RuntimeError ''unsupported .debug_loclists header'')
         else bindM (di_number_at 1 tab (start + 7) ''.debug_loclists segment size'') (\<lambda>segment_size.
         if segment_size \<noteq> 0 then throwM (RuntimeError ''unsupported .debug_loclists header'')
         else bindM (di_number_at 4 tab (start + 8) ''.debug_loclists offset count'') (\<lambda>offset_count.
         let offsets_base = start + 12 in
         if unat offset_count > (contribution_end - offsets_base) div 4
         then throwM (RuntimeError ''.debug_loclists offset table extends past contribution'')
         else returnM \<lparr>lc_start = start, lc_offsets_base = offsets_base, lc_end = contribution_end,
                lc_offset_count = unat offset_count\<rparr>))))))"

definition indexed_loclist_offset :: "debug_sections \<Rightarrow> u64 \<Rightarrow> nat \<Rightarrow> ('s, u64) prog" where
  "indexed_loclist_offset ds base index =
    (if base < 12 then throwM (RuntimeError ''DW_AT_loclists_base is out of range'')
     else bindM (loclists_contribution_at ds (unat base - 12)) (\<lambda>contribution.
       if lc_offsets_base contribution \<noteq> unat base
       then throwM (RuntimeError ''DW_AT_loclists_base does not point at the offset table'')
       else if index \<ge> lc_offset_count contribution
       then throwM (RuntimeError ''DW_FORM_loclistx index is out of range'')
       else bindM (di_number_at 4 (ds_location_lists ds) (lc_offsets_base contribution + index * 4) ''DW_FORM_loclistx offset'')
         (\<lambda>relative.
         bindM (add_unsigned base relative ''DW_FORM_loclistx offset'') (\<lambda>absolute.
         if unat absolute \<ge> lc_end contribution
         then throwM (RuntimeError ''DW_FORM_loclistx resolves outside its contribution'')
         else returnM absolute))))"

text \<open>The base of an index table, from the root entry.\<close>

definition index_base :: "attribute_value option \<Rightarrow> string \<Rightarrow> ('s, u64) prog" where
  "index_base base message = (case base of
     None \<Rightarrow> throwM (RuntimeError message)
   | Some b \<Rightarrow> if av_form b \<noteq> kDwFormSecOffset then throwM (RuntimeError message) else returnM (av_number b))"

text \<open>The pointers to the bases stay valid while the loop rewrites attributes: it rewrites none of the form
  \<^verbatim>\<open>DW_FORM_sec_offset\<close>, and a base of another form is refused.\<close>

definition resolve_index :: "debug_sections \<Rightarrow> die \<Rightarrow> attribute_value \<Rightarrow> ('s, attribute_value) prog" where
  "resolve_index ds root v =
    (if av_form v = kDwFormStrx1 then
       bindM (index_base (attribute root kDwAtStrOffsetsBase) ''DW_FORM_strx1 requires DW_AT_str_offsets_base'') (\<lambda>base.
       bindM (indexed_string ds (unat base) (unat (av_number v))) (\<lambda>t. returnM (v\<lparr>av_text := t\<rparr>)))
     else if av_form v = kDwFormAddrx then
       bindM (index_base (attribute root kDwAtAddrBase) ''DW_FORM_addrx requires DW_AT_addr_base'') (\<lambda>base.
       bindM (indexed_address ds (unat base) (unat (av_number v))) (\<lambda>a.
       returnM (v\<lparr>av_number := a, av_form := kDwFormAddr\<rparr>)))
     else if av_form v = kDwFormLoclistx then
       bindM (index_base (attribute root kDwAtLoclistsBase) ''DW_FORM_loclistx requires DW_AT_loclists_base'') (\<lambda>base.
       bindM (indexed_loclist_offset ds base (unat (av_number v))) (\<lambda>offset. returnM (v\<lparr>av_number := offset\<rparr>)))
     else returnM v)"

fun mapM :: "('a \<Rightarrow> ('s, 'b) prog) \<Rightarrow> 'a list \<Rightarrow> ('s, 'b list) prog" where
  "mapM f [] = returnM []"
| "mapM f (x # xs) = bindM (f x) (\<lambda>y. bindM (mapM f xs) (\<lambda>ys. returnM (y # ys)))"

definition resolve_dwarf5_indexes :: "debug_sections \<Rightarrow> die list \<Rightarrow> ('s, die list) prog" where
  "resolve_dwarf5_indexes ds dies =
    (if dies = [] \<or> die_parent (hd dies) \<noteq> None then throwM (RuntimeError ''DWARF5 unit has no root DIE'')
     else mapM (\<lambda>d. bindM (mapM (resolve_index ds (hd dies)) (die_attributes d)) (\<lambda>vs.
       returnM (d\<lparr>die_attributes := vs\<rparr>))) dies)"

section \<open>Units\<close>

record unit_header =
  uh_version :: u16
  uh_abbrev_offset :: nat
  uh_address_size :: u8

text \<open>The header after the unit length.\<close>

definition read_unit_header :: "u8 list \<Rightarrow> nat \<Rightarrow> unit_header reader" where
  "read_unit_header info unit_end =
    bindM (di_u16 info unit_end ''DWARF unit version'') (\<lambda>version.
    if version = 4 then
      bindM (di_u32 info unit_end ''DWARF abbreviation offset'') (\<lambda>abbrev_offset.
      bindM (di_u8 info unit_end ''DWARF address size'') (\<lambda>address_size.
      returnM \<lparr>uh_version = version, uh_abbrev_offset = unat abbrev_offset, uh_address_size = address_size\<rparr>))
    else if version = 5 then
      bindM (di_u8 info unit_end ''DWARF5 unit type'') (\<lambda>unit_type.
      if unit_type \<noteq> 1 then throwM (RuntimeError ''only DWARF5 compile units are supported for local values'')
      else bindM (di_u8 info unit_end ''DWARF5 address size'') (\<lambda>address_size.
        bindM (di_u32 info unit_end ''DWARF5 abbreviation offset'') (\<lambda>abbrev_offset.
        returnM \<lparr>uh_version = version, uh_abbrev_offset = unat abbrev_offset, uh_address_size = address_size\<rparr>)))
    else throwM (RuntimeError ''only DWARF4/5 local-value units are supported''))"

record die_parse =
  dp_dies :: "die list"
  dp_parents :: "nat list"

fun read_attributes ::
  "attribute_spec list \<Rightarrow> debug_sections \<Rightarrow> nat \<Rightarrow> nat \<Rightarrow> u8 \<Rightarrow> attribute_value list reader" where
  "read_attributes [] ds unit_end unit_start address_size = returnM []"
| "read_attributes (spec # specs) ds unit_end unit_start address_size =
    bindM (read_attribute spec ds unit_end unit_start address_size) (\<lambda>v.
    bindM (read_attributes specs ds unit_end unit_start address_size) (\<lambda>vs. returnM (v # vs)))"

text \<open>One turn of the loop over the entries; \<open>dp_parents\<close> is the vector with its back in front.\<close>

definition die_step ::
  "debug_sections \<Rightarrow> abbreviations \<Rightarrow> nat \<Rightarrow> nat \<Rightarrow> u8 \<Rightarrow> (nat \<times> die_parse, die list option) prog" where
  "die_step ds abbrevs unit_end unit_start address_size = bindM getM (\<lambda>(cursor, p).
    if \<not> cursor < unit_end then returnM (Some (dp_dies p))
    else bindM (beside (di_uleb (ds_info ds) unit_end ''DIE abbreviation code'')) (\<lambda>code.
      if code = 0 then
        (if dp_parents p = [] then returnM (Some (dp_dies p))
         else thenM (modifyM (\<lambda>(c, p). (c, p\<lparr>dp_parents := tl (dp_parents p)\<rparr>))) (returnM None))
      else case smap_find abbrevs code of
        None \<Rightarrow> throwM (RuntimeError ''DIE references an unknown abbreviation code'')
      | Some a \<Rightarrow>
          bindM (beside (read_attributes (ab_attributes a) ds unit_end unit_start address_size)) (\<lambda>vs.
          let d = \<lparr>die_offset = cursor, die_tag = ab_tag a,
            die_parent = (if dp_parents p = [] then None else Some (hd (dp_parents p))), die_attributes = vs\<rparr> in
          thenM (modifyM (\<lambda>(c, p). (c, p\<lparr>dp_dies := dp_dies p @ [d],
              dp_parents := (if ab_has_children a then length (dp_dies p) # dp_parents p else dp_parents p)\<rparr>)))
            (returnM None))))"

text \<open>The entries, the start of the next unit, and the version.\<close>

definition parse_unit_dies :: "debug_sections \<Rightarrow> nat \<Rightarrow> ('s, die list \<times> nat \<times> u16) prog" where
  "parse_unit_dies ds unit_start = at_cursor unit_start
    (bindM (di_u32 (ds_info ds) (length (ds_info ds)) ''DWARF unit length'') (\<lambda>unit_length.
     if unit_length = 0xffffffff then throwM (RuntimeError ''DWARF64 debug info is unsupported'')
     else bindM getM (\<lambda>cursor.
       if unat unit_length > length (ds_info ds) - cursor
       then throwM (RuntimeError ''DWARF compilation unit extends past .debug_info'')
       else let unit_end = cursor + unat unit_length in
         bindM (read_unit_header (ds_info ds) unit_end) (\<lambda>header.
         if uh_address_size header \<noteq> 8
         then throwM (RuntimeError ''only 8-byte DWARF local-value addresses are supported'')
         else bindM (parse_abbreviations (ds_abbrev ds) (uh_abbrev_offset header)) (\<lambda>abbrevs.
           bindM getM (\<lambda>c.
           bindM (with_local \<lparr>dp_dies = [], dp_parents = []\<rparr> (loopM (unit_end - c + 1)
             (die_step ds abbrevs unit_end unit_start (uh_address_size header)))) (\<lambda>dies.
           bindM getM (\<lambda>c'.
           if c' \<noteq> unit_end then throwM (RuntimeError ''unexpected trailing data in DWARF compilation unit'')
           else bindM (if uh_version header = 5 then resolve_dwarf5_indexes ds dies else returnM dies) (\<lambda>dies'.
             returnM (dies', unit_end, uh_version header))))))))))"

section \<open>Scopes\<close>

definition die_contains_pc :: "die \<Rightarrow> u64 \<Rightarrow> ('s, bool) prog" where
  "die_contains_pc d pc = (case (attribute d kDwAtLowPc, attribute d kDwAtHighPc) of
     (Some low, Some high) \<Rightarrow>
       if av_form low \<noteq> kDwFormAddr then returnM False
       else bindM (if av_form high = kDwFormAddr then returnM (av_number high)
           else add_unsigned (av_number low) (av_number high) ''DWARF high_pc'') (\<lambda>high_pc.
         returnM (pc \<ge> av_number low \<and> pc < high_pc))
   | _ \<Rightarrow> returnM False)"

fun scope_depth_loop :: "nat \<Rightarrow> die list \<Rightarrow> nat option \<Rightarrow> nat \<Rightarrow> u64 \<Rightarrow> nat \<Rightarrow> ('s, nat option) prog" where
  "scope_depth_loop n dies None subprogram pc depth = returnM None"
| "scope_depth_loop 0 dies (Some p) subprogram pc depth = divergeM"
| "scope_depth_loop (Suc n) dies (Some p) subprogram pc depth =
    (if p = subprogram then returnM (Some depth)
     else bindM (die_at dies p) (\<lambda>scope.
       if die_tag scope \<noteq> kDwTagLexicalBlock \<and> die_tag scope \<noteq> kDwTagInlinedSubroutine then returnM None
       else case (attribute scope kDwAtLowPc, attribute scope kDwAtHighPc) of
         (Some low, Some high) \<Rightarrow>
           if av_form low \<noteq> kDwFormAddr
           then throwM (RuntimeError ''local scope does not use the supported DW_AT_low_pc/DW_AT_high_pc range'')
           else bindM (die_contains_pc scope pc) (\<lambda>inside.
             if \<not> inside then returnM None
             else scope_depth_loop n dies (die_parent scope) subprogram pc (depth + 1))
       | _ \<Rightarrow> throwM (RuntimeError ''local scope does not use the supported DW_AT_low_pc/DW_AT_high_pc range'')))"

definition active_scope_depth :: "die list \<Rightarrow> nat \<Rightarrow> nat \<Rightarrow> u64 \<Rightarrow> ('s, nat option) prog" where
  "active_scope_depth dies value_index subprogram pc = bindM (die_at dies value_index) (\<lambda>d.
     scope_depth_loop (length dies) dies (die_parent d) subprogram pc 0)"

end
