(* ===== verification/LocalValues.thy ===== *)
theory LocalValues
  imports SnapshotMemory
begin

text \<open>
  Values of variables and how their members are selected, \<^verbatim>\<open>src/src/dwarf/local_value.hpp\<close> and
  \<^verbatim>\<open>src/src/dwarf/inline_member.hpp\<close>. A value that was materialised from the debug information is the
  argument; selecting a member, an element or a pointee checks the retained type information and keeps track of
  where the bytes are stored. \<^verbatim>\<open>std::overflow_error\<close> is a \<open>RuntimeError\<close>.
\<close>

section \<open>Data\<close>

datatype local_value_kind =
  LK_Integer | LK_Pointer | LK_Floating | LK_Structure | LK_Union | LK_Array | LK_Enumeration

datatype local_discovery_kind = LD_Variable | LD_FormalParameter

datatype local_value_storage = LS_Computed | LS_CoreMemory | LS_CoreRegister | LS_RuntimeArtifact

record pointee_member =
  pm_name :: "u8 list"
  pm_offset :: nat
  pm_byte_size :: nat
  pm_is_signed :: bool
  pm_kind :: local_value_kind

record pointee_type =
  pt_byte_size :: nat
  pt_is_signed :: bool
  pt_kind :: local_value_kind
  pt_members :: "pointee_member list"

record bit_slice =
  bs_bit_offset :: nat
  bs_bit_size :: nat

record enum_entry =
  en_name :: "u8 list"
  en_raw_value :: u64

record enum_type =
  et_name :: "u8 list"
  et_byte_size :: nat
  et_is_signed :: bool
  et_enumerators :: "enum_entry list"

record array_type =
  at_element_count :: nat
  at_element_byte_size :: nat
  at_element_is_signed :: bool
  at_element_kind :: local_value_kind

datatype struct_member_type = Struct_member_type
  (mt_name: "u8 list") (mt_offset: nat) (mt_byte_size: nat) (mt_is_signed: bool) (mt_kind: local_value_kind)
  (mt_pointee_type: "pointee_type option") (mt_bit_slice: "bit_slice option") (mt_enum_type: "enum_type option")
  (mt_members: "struct_member_type list")

record local_value_type =
  vt_byte_size :: nat
  vt_is_signed :: bool
  vt_kind :: local_value_kind
  vt_members :: "struct_member_type list"
  vt_array_type :: "array_type option"
  vt_enum_type :: "enum_type option"

datatype struct_member = Struct_member
  (me_name: "u8 list") (me_raw_value: u64) (me_byte_size: nat) (me_is_signed: bool) (me_kind: local_value_kind)
  (me_pointee_type: "pointee_type option") (me_bit_slice: "bit_slice option") (me_enum_type: "enum_type option")
  (me_members: "struct_member list") (me_offset: nat)

record array_element =
  ae_raw_value :: u64
  ae_byte_size :: nat
  ae_is_signed :: bool
  ae_kind :: local_value_kind

record local_value =
  lv_module_path :: path
  lv_name :: "u8 list"
  lv_raw_value :: u64
  lv_byte_size :: nat
  lv_is_signed :: bool
  lv_kind :: local_value_kind
  lv_members :: "struct_member list"
  lv_storage :: local_value_storage
  lv_storage_module_path :: path
  lv_storage_file_path :: path
  lv_storage_file_offset :: nat
  lv_pointee_type :: "local_value_type option"
  lv_elements :: "array_element list"
  lv_array_type :: "array_type option"
  lv_enum_type :: "enum_type option"

text \<open>\<^verbatim>\<open>LocalScalarValue{module_path, name, raw_value, byte_size, is_signed, kind}\<close>.\<close>

definition scalar_value :: "path \<Rightarrow> u8 list \<Rightarrow> u64 \<Rightarrow> nat \<Rightarrow> bool \<Rightarrow> local_value_kind \<Rightarrow> local_value" where
  "scalar_value module_path name raw byte_size is_signed kind = \<lparr>lv_module_path = module_path, lv_name = name,
     lv_raw_value = raw, lv_byte_size = byte_size, lv_is_signed = is_signed, lv_kind = kind, lv_members = [],
     lv_storage = LS_Computed, lv_storage_module_path = [], lv_storage_file_path = [], lv_storage_file_offset = 0,
     lv_pointee_type = None, lv_elements = [], lv_array_type = None, lv_enum_type = None\<rparr>"

section \<open>Enumerators\<close>

text \<open>The only enumerator with the value; none when there are two.\<close>

fun enum_symbol_loop :: "u64 \<Rightarrow> enum_entry option \<Rightarrow> enum_entry list \<Rightarrow> u8 list option" where
  "enum_symbol_loop raw match [] = map_option en_name match"
| "enum_symbol_loop raw match (e # es) =
    (if en_raw_value e \<noteq> raw then enum_symbol_loop raw match es
     else if match \<noteq> None then None
     else enum_symbol_loop raw (Some e) es)"

definition local_enum_symbol :: "u64 \<Rightarrow> enum_type \<Rightarrow> u8 list option" where
  "local_enum_symbol raw t = enum_symbol_loop raw None (et_enumerators t)"

definition value_enum_symbol :: "local_value \<Rightarrow> u8 list option" where
  "value_enum_symbol v = (if lv_kind v \<noteq> LK_Enumeration then None
     else case lv_enum_type v of None \<Rightarrow> None | Some t \<Rightarrow> local_enum_symbol (lv_raw_value v) t)"

definition member_enum_symbol :: "struct_member \<Rightarrow> u8 list option" where
  "member_enum_symbol m = (if me_kind m \<noteq> LK_Enumeration then None
     else case me_enum_type m of None \<Rightarrow> None | Some t \<Rightarrow> local_enum_symbol (me_raw_value m) t)"

section \<open>Decoding and provenance\<close>

definition decode_scalar :: "snapshot_memory_read \<Rightarrow> nat \<Rightarrow> ('s, u64) prog" where
  "decode_scalar memory byte_size =
    (if byte_size = 0 \<or> byte_size > 8 \<or> length (sm_bytes memory) \<noteq> byte_size
     then throwM (RuntimeError ''selected-inline member has an unsupported scalar width'')
     else returnM (le_word (sm_bytes memory)))"

definition attach_storage :: "snapshot_memory_read \<Rightarrow> local_value \<Rightarrow> local_value" where
  "attach_storage memory v = (if sm_provenance memory = MP_Core then v\<lparr>lv_storage := LS_CoreMemory\<rparr>
     else v\<lparr>lv_storage := LS_RuntimeArtifact, lv_storage_module_path := sm_module_path memory,
       lv_storage_file_path := sm_module_file_path memory, lv_storage_file_offset := sm_artifact_file_offset memory\<rparr>)"

definition copy_storage :: "local_value \<Rightarrow> nat \<Rightarrow> local_value \<Rightarrow> ('s, local_value) prog" where
  "copy_storage owner byte_offset v =
    (let v' = v\<lparr>lv_storage := lv_storage owner, lv_storage_module_path := lv_storage_module_path owner,
       lv_storage_file_path := lv_storage_file_path owner, lv_storage_file_offset := lv_storage_file_offset owner\<rparr> in
     if lv_storage owner = LS_RuntimeArtifact then
       (if byte_offset > u64_max - lv_storage_file_offset owner
        then throwM (RuntimeError ''selected-inline aggregate artifact provenance offset overflows'')
        else returnM (v'\<lparr>lv_storage_file_offset := lv_storage_file_offset owner + byte_offset\<rparr>))
     else returnM v')"

text \<open>A \<^verbatim>\<open>std::uintptr_t\<close> has 64 bits, so the second check of the source never fires.\<close>

definition checked_address :: "u64 \<Rightarrow> nat \<Rightarrow> string \<Rightarrow> ('s, u64) prog" where
  "checked_address base offset context =
    (if base = 0 then throwM (RuntimeError (''cannot traverse a null '' @ context))
     else if offset > u64_max - unat base then throwM (RuntimeError (context @ '' member address overflows''))
     else returnM (base + of_nat offset))"

section \<open>Checking the retained types\<close>

definition pointee_member_ok :: "pointee_type \<Rightarrow> pointee_member \<Rightarrow> bool" where
  "pointee_member_ok p m \<longleftrightarrow> \<not> (pm_kind m \<noteq> LK_Integer \<or> pm_byte_size m = 0 \<or> pm_byte_size m > 8 \<or>
     pm_offset m > pt_byte_size p \<or> pm_byte_size m > pt_byte_size p - pm_offset m)"

definition validate_pointee :: "pointee_type \<Rightarrow> string \<Rightarrow> ('s, unit) prog" where
  "validate_pointee p context =
    (if pt_kind p = LK_Integer then
       (if pt_byte_size p > 8 \<or> pt_members p \<noteq> []
        then throwM (LogicError (context @ '' integer pointee metadata is malformed'')) else returnM ())
     else if pt_kind p = LK_Structure then
       (if pt_byte_size p > 8 \<or> pt_members p = [] \<or> length (pt_members p) > 32
        then throwM (LogicError (context @ '' structure pointee exceeds the bounded shallow model''))
        else if \<not> list_all (pointee_member_ok p) (pt_members p)
        then throwM (LogicError (context @ '' structure pointee member metadata is malformed'')) else returnM ())
     else throwM (LogicError (context @ '' pointer pointee kind is unsupported'')))"

definition validate_terminal_member :: "struct_member \<Rightarrow> string \<Rightarrow> ('s, unit) prog" where
  "validate_terminal_member m context =
    (if me_byte_size m = 0 \<or> me_byte_size m > 8 \<or> me_members m \<noteq> []
     then throwM (LogicError (context @ '' has an unsupported terminal width or nested metadata''))
     else if me_kind m = LK_Integer then
       (if me_pointee_type m \<noteq> None \<or> me_enum_type m \<noteq> None
        then throwM (LogicError (context @ '' integer retained incompatible type metadata'')) else returnM ())
     else if me_kind m = LK_Pointer then
       (case me_pointee_type m of
          None \<Rightarrow> throwM (LogicError (context @ '' pointer has invalid bounded pointee metadata''))
        | Some p \<Rightarrow>
            if me_byte_size m \<noteq> 8 \<or> me_is_signed m \<or> me_enum_type m \<noteq> None \<or> me_bit_slice m \<noteq> None \<or> pt_byte_size p = 0
            then throwM (LogicError (context @ '' pointer has invalid bounded pointee metadata''))
            else validate_pointee p context)
     else if me_kind m = LK_Enumeration then
       (case me_enum_type m of
          None \<Rightarrow> throwM (LogicError (context @ '' enum has invalid bounded enum metadata''))
        | Some t \<Rightarrow>
            if me_pointee_type m \<noteq> None \<or> me_bit_slice m \<noteq> None \<or> et_byte_size t \<noteq> me_byte_size m \<or>
               et_is_signed t \<noteq> me_is_signed m \<or> et_enumerators t = []
            then throwM (LogicError (context @ '' enum has invalid bounded enum metadata'')) else returnM ())
     else throwM (RuntimeError (context @ '' kind is outside the bounded terminal model'')))"

fun validate_children :: "nat \<Rightarrow> struct_member list \<Rightarrow> ('s, unit) prog" where
  "validate_children inner_size [] = returnM ()"
| "validate_children inner_size (c # cs) =
    (if me_offset c > inner_size \<or> me_byte_size c > inner_size - me_offset c
     then throwM (LogicError ''selected-inline nested child exceeds bounded inner layout'')
     else thenM (validate_terminal_member c ''selected-inline nested child'') (validate_children inner_size cs))"

definition aggregate_member :: "local_value \<Rightarrow> u8 list \<Rightarrow> ('s, struct_member) prog" where
  "aggregate_member v member_name =
    (if member_name = []
     then throwM (InvalidArgument ''selected-inline aggregate member name must not be empty'')
     else if lv_kind v \<noteq> LK_Structure \<or> lv_members v = []
     then throwM (RuntimeError (''selected-inline local is not a materialized bounded structure: '' @ bytes_text (lv_name v)))
     else case find (\<lambda>m. me_name m = member_name) (lv_members v) of
       None \<Rightarrow> throwM (RuntimeError (''bounded selected-inline aggregate has no member named: '' @ bytes_text member_name))
     | Some m \<Rightarrow>
         if me_byte_size m = 0 \<or> me_offset m > lv_byte_size v \<or> me_byte_size m > lv_byte_size v - me_offset m
         then throwM (LogicError ''selected-inline aggregate member exceeds bounded owner layout'')
         else if me_kind m = LK_Structure then
           (if me_is_signed m \<or> me_pointee_type m \<noteq> None \<or> me_bit_slice m \<noteq> None \<or> me_enum_type m \<noteq> None \<or> me_members m = []
            then throwM (LogicError ''selected-inline nested structure member has invalid bounded metadata'')
            else thenM (validate_children (me_byte_size m) (me_members m)) (returnM m))
         else thenM (validate_terminal_member m ''selected-inline aggregate member'') (returnM m))"

definition union_member :: "local_value \<Rightarrow> u8 list \<Rightarrow> ('s, struct_member) prog" where
  "union_member v member_name =
    (if member_name = [] then throwM (InvalidArgument ''selected-inline union member name must not be empty'')
     else if lv_kind v \<noteq> LK_Union \<or> lv_members v = []
     then throwM (RuntimeError (''selected-inline local is not a materialized bounded union: '' @ bytes_text (lv_name v)))
     else case find (\<lambda>m. me_name m = member_name) (lv_members v) of
       None \<Rightarrow> throwM (RuntimeError (''bounded selected-inline union has no member named: '' @ bytes_text member_name))
     | Some m \<Rightarrow>
         if me_kind m \<noteq> LK_Integer \<or> me_pointee_type m \<noteq> None \<or> me_members m \<noteq> [] \<or> me_byte_size m = 0 \<or> me_byte_size m > 8
         then throwM (RuntimeError ''selected-inline union member kind is outside the bounded explicit-selection model'')
         else returnM m)"

section \<open>Selecting members and elements\<close>

definition dotted :: "u8 list \<Rightarrow> u8 list \<Rightarrow> u8 list" where
  "dotted owner member = owner @ text_bytes ''.'' @ member"

definition selected_pointee :: "pointee_type \<Rightarrow> local_value_type" where
  "selected_pointee p = \<lparr>vt_byte_size = pt_byte_size p, vt_is_signed = pt_is_signed p, vt_kind = pt_kind p,
     vt_members = (if pt_kind p = LK_Structure
       then map (\<lambda>m. Struct_member_type (pm_name m) (pm_offset m) (pm_byte_size m) (pm_is_signed m) (pm_kind m) None None None [])
         (pt_members p) else []),
     vt_array_type = None, vt_enum_type = None\<rparr>"

text \<open>The unchecked \<^verbatim>\<open>*member.pointee_type\<close> is undefined behaviour on an empty optional.\<close>

definition inspect_local_aggregate_member :: "local_value \<Rightarrow> u8 list \<Rightarrow> ('s, local_value) prog" where
  "inspect_local_aggregate_member v member_name = bindM (aggregate_member v member_name) (\<lambda>m.
    bindM (copy_storage v (me_offset m) (scalar_value (lv_module_path v) (dotted (lv_name v) member_name)
        (me_raw_value m) (me_byte_size m) (me_is_signed m) (me_kind m))) (\<lambda>result.
    if me_kind m = LK_Pointer then
      (case me_pointee_type m of
         None \<Rightarrow> throwM (UndefinedBehaviour ''empty optional'')
       | Some p \<Rightarrow> returnM (result\<lparr>lv_pointee_type := Some (selected_pointee p)\<rparr>))
    else if me_kind m = LK_Enumeration then returnM (result\<lparr>lv_enum_type := me_enum_type m\<rparr>)
    else if me_kind m = LK_Structure then returnM (result\<lparr>lv_members := me_members m\<rparr>)
    else returnM result))"

definition inspect_local_nested_aggregate_member :: "local_value \<Rightarrow> u8 list \<Rightarrow> u8 list \<Rightarrow> ('s, local_value) prog" where
  "inspect_local_nested_aggregate_member v outer inner =
    bindM (inspect_local_aggregate_member v outer) (\<lambda>nested.
    if lv_kind nested \<noteq> LK_Structure
    then throwM (RuntimeError (''outer member is not a bounded nested structure: '' @ bytes_text (lv_name nested)))
    else bindM (inspect_local_aggregate_member nested inner) (\<lambda>terminal.
      if lv_kind terminal = LK_Structure
      then throwM (RuntimeError ''nested aggregate depth exceeds the bounded one-hop model'')
      else returnM terminal))"

text \<open>The digits of \<^verbatim>\<open>std::to_string\<close>.\<close>

fun decimal_bytes :: "nat \<Rightarrow> u8 list" where
  "decimal_bytes n = (if n < 10 then [0x30 + of_nat n] else decimal_bytes (n div 10) @ [0x30 + of_nat (n mod 10)])"

definition inspect_local_array_element :: "local_value \<Rightarrow> nat \<Rightarrow> ('s, local_value) prog" where
  "inspect_local_array_element v index = (case lv_array_type v of
     None \<Rightarrow> throwM (LogicError (''local value is not a materialized bounded fixed array: '' @ bytes_text (lv_name v)))
   | Some t \<Rightarrow>
       if lv_kind v \<noteq> LK_Array \<or> at_element_count t = 0 \<or> length (lv_elements v) \<noteq> at_element_count t \<or>
          at_element_kind t \<noteq> LK_Integer
       then throwM (LogicError (''local value is not a materialized bounded fixed array: '' @ bytes_text (lv_name v)))
       else if index \<ge> at_element_count t then throwM (OutOfRange ''array index is out of range'')
       else let e = lv_elements v ! index in
         if ae_kind e \<noteq> LK_Integer \<or> ae_byte_size e \<noteq> at_element_byte_size t \<or> ae_is_signed e \<noteq> at_element_is_signed t \<or>
            ae_byte_size e = 0 \<or> ae_byte_size e > 8
         then throwM (LogicError ''bounded fixed-array element metadata is inconsistent'')
         else if index > u64_max div ae_byte_size e
         then throwM (RuntimeError ''array element byte offset overflows'')
         else copy_storage v (index * ae_byte_size e) (scalar_value (lv_module_path v)
           (lv_name v @ text_bytes ''['' @ decimal_bytes index @ text_bytes '']'')
           (ae_raw_value e) (ae_byte_size e) (ae_is_signed e) (ae_kind e)))"

definition inspect_local_union_member :: "local_value \<Rightarrow> u8 list \<Rightarrow> ('s, local_value) prog" where
  "inspect_local_union_member v member_name = bindM (union_member v member_name) (\<lambda>m.
    copy_storage v (me_offset m) (scalar_value (lv_module_path v) (dotted (lv_name v) member_name)
      (me_raw_value m) (me_byte_size m) (me_is_signed m) (me_kind m)))"

section \<open>Following pointers\<close>

definition bounded_integer_pointee :: "local_value_type option \<Rightarrow> bool" where
  "bounded_integer_pointee p = (case p of None \<Rightarrow> False | Some t \<Rightarrow>
     vt_kind t = LK_Integer \<and> vt_byte_size t \<noteq> 0 \<and> vt_byte_size t \<le> 8 \<and> vt_members t = [])"

definition dereferenced_name :: "u8 list \<Rightarrow> u8 list" where
  "dereferenced_name name = text_bytes ''*('' @ name @ text_bytes '')''"

text \<open>The common tail of the two dereferencing functions, after their check.\<close>

definition follow_pointer ::
  "'k files \<Rightarrow> (path \<Rightarrow> bool) \<Rightarrow> core_snapshot \<Rightarrow> module_paths \<Rightarrow> local_value \<Rightarrow> local_value_type \<Rightarrow> string \<Rightarrow> ('k, local_value) prog" where
  "follow_pointer fs regular cs mp member t context =
    bindM (checked_address (lv_raw_value member) 0 context) (\<lambda>address.
    bindM (read_snapshot_memory fs regular cs mp address (vt_byte_size t)) (\<lambda>memory.
    bindM (decode_scalar memory (vt_byte_size t)) (\<lambda>raw.
    returnM (attach_storage memory (scalar_value (lv_module_path member) (dereferenced_name (lv_name member))
      raw (vt_byte_size t) (vt_is_signed t) LK_Integer)))))"

definition dereference_local_aggregate_member ::
  "'k files \<Rightarrow> (path \<Rightarrow> bool) \<Rightarrow> core_snapshot \<Rightarrow> local_value \<Rightarrow> u8 list \<Rightarrow> module_paths \<Rightarrow> ('k, local_value) prog" where
  "dereference_local_aggregate_member fs regular cs v member_name mp =
    bindM (inspect_local_aggregate_member v member_name) (\<lambda>member.
    if lv_kind member \<noteq> LK_Pointer \<or> \<not> bounded_integer_pointee (lv_pointee_type member)
    then throwM (RuntimeError ''selected-inline aggregate pointer member does not have a bounded integer pointee'')
    else follow_pointer fs regular cs mp member (the (lv_pointee_type member))
      ''selected-inline aggregate pointer-valued member'')"

text \<open>The member of the structure that the pointer found under \<open>name\<close> points to.\<close>

definition pointer_struct_member :: "local_value \<Rightarrow> u8 list \<Rightarrow> u8 list \<Rightarrow> ('s, struct_member_type) prog" where
  "pointer_struct_member pointer name member_name = (case lv_pointee_type pointer of
     None \<Rightarrow> throwM (RuntimeError (''selected-inline local is not a pointer to a bounded structure: '' @ bytes_text name))
   | Some t \<Rightarrow>
       if lv_kind pointer \<noteq> LK_Pointer \<or> vt_kind t \<noteq> LK_Structure
       then throwM (RuntimeError (''selected-inline local is not a pointer to a bounded structure: '' @ bytes_text name))
       else if vt_byte_size t = 0 \<or> vt_members t = []
       then throwM (LogicError ''selected-inline structure pointer lost bounded member metadata'')
       else case find (\<lambda>m. mt_name m = member_name) (vt_members t) of
         None \<Rightarrow> throwM (RuntimeError (''bounded selected-inline structure has no member named: '' @ bytes_text member_name))
       | Some m \<Rightarrow>
           if mt_byte_size m = 0 \<or> mt_byte_size m > 8 \<or> mt_offset m > vt_byte_size t \<or>
              mt_byte_size m > vt_byte_size t - mt_offset m \<or> mt_members m \<noteq> []
           then throwM (LogicError ''selected-inline structure member exceeds bounded pointee layout'')
           else if mt_kind m = LK_Integer then
             (if mt_pointee_type m \<noteq> None
              then throwM (LogicError ''selected-inline integer member unexpectedly has pointee metadata'') else returnM m)
           else if mt_kind m = LK_Pointer then
             (case mt_pointee_type m of
                None \<Rightarrow> throwM (LogicError ''selected-inline pointer member has invalid bounded pointee metadata'')
              | Some p \<Rightarrow>
                  if mt_byte_size m \<noteq> 8 \<or> mt_is_signed m \<or> pt_byte_size p = 0 \<or> pt_byte_size p > 8
                  then throwM (LogicError ''selected-inline pointer member has invalid bounded pointee metadata'')
                  else returnM m)
           else throwM (RuntimeError ''selected-inline structure member kind is outside the bounded traversal model''))"

end
