(* ===== verification/DwarfTypes.thy ===== *)
theory DwarfTypes
  imports DebugInfo LocalValues
begin

text \<open>
  Types of local values, from \<^verbatim>\<open>src/src/dwarf/source_lookup_impl.inc\<close> and
  \<^verbatim>\<open>src/src/dwarf/source_lookup_snapshot_impl.inc\<close>: integers, enumerations, bit fields, unions, fixed arrays,
  structures one level deep, pointers and floating-point numbers. Every resolver follows at most 15 links of
  typedefs and const qualifiers. A \<^verbatim>\<open>std::size_t\<close> has 64 bits, so the checks of the source that a 64-bit number
  fits in one never fire.
\<close>

abbreviation (input) kDwTagArrayType :: u64 where "kDwTagArrayType \<equiv> 0x01"
abbreviation (input) kDwTagEnumerationType :: u64 where "kDwTagEnumerationType \<equiv> 0x04"
abbreviation (input) kDwTagMember :: u64 where "kDwTagMember \<equiv> 0x0d"
abbreviation (input) kDwTagPointerType :: u64 where "kDwTagPointerType \<equiv> 0x0f"
abbreviation (input) kDwTagStructureType :: u64 where "kDwTagStructureType \<equiv> 0x13"
abbreviation (input) kDwTagTypedef :: u64 where "kDwTagTypedef \<equiv> 0x16"
abbreviation (input) kDwTagUnionType :: u64 where "kDwTagUnionType \<equiv> 0x17"
abbreviation (input) kDwTagSubrangeType :: u64 where "kDwTagSubrangeType \<equiv> 0x21"
abbreviation (input) kDwTagBaseType :: u64 where "kDwTagBaseType \<equiv> 0x24"
abbreviation (input) kDwTagConstType :: u64 where "kDwTagConstType \<equiv> 0x26"
abbreviation (input) kDwTagEnumerator :: u64 where "kDwTagEnumerator \<equiv> 0x28"

abbreviation (input) kDwAtByteSize :: u64 where "kDwAtByteSize \<equiv> 0x0b"
abbreviation (input) kDwAtBitOffset :: u64 where "kDwAtBitOffset \<equiv> 0x0c"
abbreviation (input) kDwAtBitSize :: u64 where "kDwAtBitSize \<equiv> 0x0d"
abbreviation (input) kDwAtConstValue :: u64 where "kDwAtConstValue \<equiv> 0x1c"
abbreviation (input) kDwAtLowerBound :: u64 where "kDwAtLowerBound \<equiv> 0x22"
abbreviation (input) kDwAtUpperBound :: u64 where "kDwAtUpperBound \<equiv> 0x2f"
abbreviation (input) kDwAtCount :: u64 where "kDwAtCount \<equiv> 0x37"
abbreviation (input) kDwAtDataMemberLocation :: u64 where "kDwAtDataMemberLocation \<equiv> 0x38"
abbreviation (input) kDwAtEncoding :: u64 where "kDwAtEncoding \<equiv> 0x3e"
abbreviation (input) kDwAtType :: u64 where "kDwAtType \<equiv> 0x49"
abbreviation (input) kDwAtDataBitOffset :: u64 where "kDwAtDataBitOffset \<equiv> 0x6b"

abbreviation (input) kDwAteFloat :: u64 where "kDwAteFloat \<equiv> 0x04"
abbreviation (input) kDwAteSigned :: u64 where "kDwAteSigned \<equiv> 0x05"
abbreviation (input) kDwAteUnsigned :: u64 where "kDwAteUnsigned \<equiv> 0x07"
abbreviation (input) kMaxLocalStructSize :: nat where "kMaxLocalStructSize \<equiv> 256"
abbreviation (input) kMaxLocalStructMembers :: nat where "kMaxLocalStructMembers \<equiv> 32"
abbreviation (input) kMaxLocalArrayElements :: nat where "kMaxLocalArrayElements \<equiv> 64"
abbreviation (input) kMaxLocalEnumEntries :: nat where "kMaxLocalEnumEntries \<equiv> 64"
abbreviation (input) kTypeChainDepth :: nat where "kTypeChainDepth \<equiv> 16"

section \<open>Reading an entry\<close>

text \<open>The guards the resolvers share: a link in form \<^verbatim>\<open>DW_FORM_ref4\<close>, a name that is not empty, a size in 1..limit,
  a constant offset.\<close>

definition ref4_link :: "attribute_value option \<Rightarrow> u64 option" where
  "ref4_link v = (case v of None \<Rightarrow> None | Some a \<Rightarrow> if av_form a = kDwFormRef4 then Some (av_number a) else None)"

definition entry_name :: "die \<Rightarrow> u8 list option" where
  "entry_name d = (case attribute d kDwAtName of None \<Rightarrow> None | Some v \<Rightarrow> if av_text v = [] then None else Some (av_text v))"

definition entry_size :: "die \<Rightarrow> nat \<Rightarrow> nat option" where
  "entry_size d limit = (case attribute d kDwAtByteSize of None \<Rightarrow> None
     | Some v \<Rightarrow> if av_number v = 0 \<or> unat (av_number v) > limit then None else Some (unat (av_number v)))"

definition is_constant_member_offset_form :: "u64 \<Rightarrow> bool" where
  "is_constant_member_offset_form form \<longleftrightarrow>
     form \<in> {kDwFormData1, kDwFormData2, kDwFormData4, kDwFormData8, kDwFormSdata}"

definition constant_offset :: "attribute_value option \<Rightarrow> nat option" where
  "constant_offset v = (case v of None \<Rightarrow> None
     | Some a \<Rightarrow> if is_constant_member_offset_form (av_form a) then Some (unat (av_number a)) else None)"

definition is_type_wrapper :: "die \<Rightarrow> bool" where
  "is_type_wrapper d \<longleftrightarrow> die_tag d = kDwTagTypedef \<or> die_tag d = kDwTagConstType"

text \<open>The loop that every resolver starts with: the entry at the end of the chain of typedefs and const qualifiers.
  The resolver goes on with the index of that entry and its offset.\<close>

fun type_chain ::
  "nat \<Rightarrow> string \<Rightarrow> string \<Rightarrow> string \<Rightarrow> die list \<Rightarrow> u64 \<Rightarrow> (nat \<Rightarrow> u64 \<Rightarrow> ('s, 'r) prog) \<Rightarrow> ('s, 'r) prog" where
  "type_chain 0 unknown unlinked deep dies type_offset resolve = throwM (RuntimeError deep)"
| "type_chain (Suc n) unknown unlinked deep dies type_offset resolve =
    (case die_index_by_offset dies (unat type_offset) of
       None \<Rightarrow> throwM (RuntimeError unknown)
     | Some index \<Rightarrow> bindM (die_at dies index) (\<lambda>d.
         if \<not> is_type_wrapper d then resolve index type_offset
         else case ref4_link (attribute d kDwAtType) of
           None \<Rightarrow> throwM (RuntimeError unlinked)
         | Some wrapped \<Rightarrow> type_chain n unknown unlinked deep dies wrapped resolve))"

text \<open>The loop over the direct children of an entry; a step sees what the earlier ones have pushed.\<close>

definition children_of :: "die list \<Rightarrow> nat \<Rightarrow> nat list" where
  "children_of dies index = filter (\<lambda>c. die_parent (dies ! c) = Some index) [0..<length dies]"

fun collect :: "(nat \<Rightarrow> 'a list \<Rightarrow> ('s, 'a) prog) \<Rightarrow> nat list \<Rightarrow> 'a list \<Rightarrow> ('s, 'a list) prog" where
  "collect resolve [] found = returnM found"
| "collect resolve (c # cs) found = bindM (resolve c found) (\<lambda>a. collect resolve cs (found @ [a]))"

section \<open>Integers and enumerations\<close>

record integer_type =
  it_byte_size :: nat
  it_is_signed :: bool

definition resolve_integer_type :: "die list \<Rightarrow> u64 \<Rightarrow> ('s, integer_type) prog" where
  "resolve_integer_type dies type_offset =
    type_chain kTypeChainDepth ''local variable type references an unknown DIE''
      ''local type wrapper does not use the supported DW_FORM_ref4 type link''
      ''local variable typedef/const chain is too deep'' dies type_offset (\<lambda>index _.
    bindM (die_at dies index) (\<lambda>d.
    if die_tag d \<noteq> kDwTagBaseType
    then throwM (RuntimeError ''local variable type is not a supported typedef/const/base-type chain'')
    else case (entry_size d 8, attribute d kDwAtEncoding) of
      (Some byte_size, Some encoding) \<Rightarrow>
        if av_number encoding \<noteq> kDwAteSigned \<and> av_number encoding \<noteq> kDwAteUnsigned
        then throwM (RuntimeError ''local base type is not a supported signed/unsigned integer'')
        else returnM \<lparr>it_byte_size = byte_size, it_is_signed = (av_number encoding = kDwAteSigned)\<rparr>
    | _ \<Rightarrow> throwM (RuntimeError ''local integer base type has an unsupported byte size'')))"

definition bounded_enum_constant_form :: "u64 \<Rightarrow> bool" where
  "bounded_enum_constant_form form \<longleftrightarrow>
     form \<in> {kDwFormData1, kDwFormData2, kDwFormData4, kDwFormData8, kDwFormUdata, kDwFormImplicitConst}"

definition bounded_enum_raw_value :: "u64 \<Rightarrow> nat \<Rightarrow> ('s, u64) prog" where
  "bounded_enum_raw_value v byte_size =
    (if byte_size = 0 \<or> byte_size > 8 then throwM (LogicError ''bounded enum scalar width is out of range'')
     else if byte_size = 8 then returnM v
     else returnM (v AND (push_bit (byte_size * 8) 1 - 1)))"

text \<open>The sign of an enumeration, from its encoding, its underlying type or both.\<close>

definition enum_signedness :: "die list \<Rightarrow> die \<Rightarrow> nat \<Rightarrow> ('s, bool) prog" where
  "enum_signedness dies d byte_size = (case attribute d kDwAtEncoding of
     Some encoding \<Rightarrow>
       if av_number encoding \<noteq> kDwAteSigned \<and> av_number encoding \<noteq> kDwAteUnsigned
       then throwM (RuntimeError ''bounded enum direct encoding is not signed/unsigned integer'')
       else let is_signed = (av_number encoding = kDwAteSigned) in
         (case attribute d kDwAtType of
            None \<Rightarrow> returnM is_signed
          | Some link \<Rightarrow>
              if av_form link \<noteq> kDwFormRef4
              then throwM (RuntimeError ''bounded enum underlying type does not use DW_FORM_ref4'')
              else bindM (resolve_integer_type dies (av_number link)) (\<lambda>underlying.
                if it_byte_size underlying \<noteq> byte_size \<or> it_is_signed underlying \<noteq> is_signed
                then throwM (RuntimeError ''bounded enum direct and underlying representations disagree'')
                else returnM is_signed))
   | None \<Rightarrow> (case ref4_link (attribute d kDwAtType) of
       None \<Rightarrow> throwM (RuntimeError ''bounded enum has no compiler-described integer representation'')
     | Some link \<Rightarrow> bindM (resolve_integer_type dies link) (\<lambda>underlying.
         if it_byte_size underlying \<noteq> byte_size
         then throwM (RuntimeError ''bounded enum byte size disagrees with its underlying type'')
         else returnM (it_is_signed underlying))))"

definition resolve_enumerator :: "die list \<Rightarrow> nat \<Rightarrow> bool \<Rightarrow> nat \<Rightarrow> enum_entry list \<Rightarrow> ('s, enum_entry) prog" where
  "resolve_enumerator dies byte_size is_signed child found = bindM (die_at dies child) (\<lambda>d.
    if die_tag d \<noteq> kDwTagEnumerator
    then throwM (RuntimeError ''bounded enum has an unsupported direct child DIE'')
    else if length found \<ge> kMaxLocalEnumEntries
    then throwM (RuntimeError ''bounded enum exceeds the 64-entry table'')
    else case entry_name d of
      None \<Rightarrow> throwM (RuntimeError ''bounded enumerator has no supported name'')
    | Some name \<Rightarrow> (case attribute d kDwAtConstValue of
        None \<Rightarrow> throwM (RuntimeError ''bounded enumerator has no supported constant value'')
      | Some constant \<Rightarrow>
          if \<not> bounded_enum_constant_form (av_form constant)
          then throwM (RuntimeError ''bounded enumerator has no supported constant value'')
          else bindM (bounded_enum_raw_value (av_number constant) byte_size) (\<lambda>raw.
            if \<not> is_signed \<and> raw \<noteq> av_number constant
            then throwM (RuntimeError ''bounded unsigned enumerator exceeds enum storage width'')
            else if name \<in> en_name ` set found
            then throwM (RuntimeError ''bounded enum has duplicate enumerator names'')
            else returnM \<lparr>en_name = name, en_raw_value = raw\<rparr>)))"

definition resolve_bounded_enum_type :: "die list \<Rightarrow> u64 \<Rightarrow> ('s, enum_type option) prog" where
  "resolve_bounded_enum_type dies type_offset =
    type_chain kTypeChainDepth ''bounded enum type references an unknown DIE'' ''bounded enum wrapper does not use DW_FORM_ref4''
      ''bounded enum type chain is too deep'' dies type_offset (\<lambda>index _.
    bindM (die_at dies index) (\<lambda>d.
    if die_tag d \<noteq> kDwTagEnumerationType then returnM None
    else case entry_name d of
      None \<Rightarrow> throwM (RuntimeError ''bounded enum has no supported name'')
    | Some name \<Rightarrow> (case entry_size d 8 of
        None \<Rightarrow> throwM (RuntimeError ''bounded enum has an unsupported scalar byte size'')
      | Some byte_size \<Rightarrow> bindM (enum_signedness dies d byte_size) (\<lambda>is_signed.
          bindM (collect (resolve_enumerator dies byte_size is_signed) (children_of dies index) []) (\<lambda>enumerators.
          if enumerators = [] then throwM (RuntimeError ''bounded enum has no direct enumerators'')
          else returnM (Some \<lparr>et_name = name, et_byte_size = byte_size, et_is_signed = is_signed,
            et_enumerators = enumerators\<rparr>))))))"

section \<open>Bit fields\<close>

definition has_bit_location :: "die \<Rightarrow> bool" where
  "has_bit_location d \<longleftrightarrow> attribute d kDwAtBitSize \<noteq> None \<or> attribute d kDwAtBitOffset \<noteq> None \<or>
     attribute d kDwAtDataBitOffset \<noteq> None"

text \<open>The legacy offset counts from the most significant bit of the storage unit. The aggregate has at most 256 bytes, so
  no product overflows.\<close>

definition absolute_bit_offset :: "die \<Rightarrow> integer_type \<Rightarrow> nat \<Rightarrow> nat \<Rightarrow> ('s, nat) prog" where
  "absolute_bit_offset member integer struct_size width =
    (case attribute member kDwAtDataBitOffset of
       Some data_bit_offset \<Rightarrow>
         if attribute member kDwAtDataMemberLocation \<noteq> None \<or> \<not> is_constant_member_offset_form (av_form data_bit_offset)
         then throwM (RuntimeError ''structure DW_AT_data_bit_offset is unsupported'')
         else returnM (unat (av_number data_bit_offset))
     | None \<Rightarrow> (case (constant_offset (attribute member kDwAtDataMemberLocation), constant_offset (attribute member kDwAtBitOffset)) of
         (Some byte_offset, Some bit_offset) \<Rightarrow>
           if byte_offset > struct_size
           then throwM (RuntimeError ''structure legacy bit-field has unsupported storage offset'')
           else let storage_bits = it_byte_size integer * 8 in
             if bit_offset > storage_bits \<or> width > storage_bits - bit_offset
             then throwM (RuntimeError ''structure legacy bit-field exceeds its base storage unit'')
             else returnM (byte_offset * 8 + (storage_bits - bit_offset - width))
       | _ \<Rightarrow> throwM (RuntimeError ''structure legacy bit-field has unsupported storage offset'')))"

definition resolve_bounded_bit_slice :: "die \<Rightarrow> integer_type \<Rightarrow> nat \<Rightarrow> ('s, bit_slice option) prog" where
  "resolve_bounded_bit_slice member integer struct_size = (case attribute member kDwAtBitSize of
     None \<Rightarrow>
       if attribute member kDwAtBitOffset \<noteq> None \<or> attribute member kDwAtDataBitOffset \<noteq> None
       then throwM (RuntimeError ''structure member has compiler bit location without bit size'')
       else returnM None
   | Some bit_size \<Rightarrow>
       if \<not> is_constant_member_offset_form (av_form bit_size) \<or> av_number bit_size = 0 \<or>
          unat (av_number bit_size) > it_byte_size integer * 8
       then throwM (RuntimeError ''structure bit-field has unsupported compiler width'')
       else if (attribute member kDwAtBitOffset = None) = (attribute member kDwAtDataBitOffset = None)
       then throwM (RuntimeError ''structure bit-field requires exactly one compiler bit location'')
       else let width = unat (av_number bit_size) in
         bindM (absolute_bit_offset member integer struct_size width) (\<lambda>offset.
         if offset > struct_size * 8 \<or> width > struct_size * 8 - offset
         then throwM (RuntimeError ''structure bit-field exceeds aggregate storage'')
         else returnM (Some \<lparr>bs_bit_offset = offset, bs_bit_size = width\<rparr>)))"

definition resolve_bounded_bit_field_member_type ::
  "die list \<Rightarrow> die \<Rightarrow> nat \<Rightarrow> ('s, struct_member_type option) prog" where
  "resolve_bounded_bit_field_member_type dies member struct_size =
    (if \<not> has_bit_location member then returnM None
     else case entry_name member of
       None \<Rightarrow> throwM (RuntimeError ''structure bit-field has no supported name'')
     | Some name \<Rightarrow> (case ref4_link (attribute member kDwAtType) of
         None \<Rightarrow> throwM (RuntimeError ''structure bit-field has no supported DW_FORM_ref4 type'')
       | Some link \<Rightarrow> bindM (resolve_integer_type dies link) (\<lambda>integer.
           bindM (resolve_bounded_bit_slice member integer struct_size) (\<lambda>found. case found of
             None \<Rightarrow> throwM (LogicError ''bit-field member lost compiler bit-slice metadata'')
           | Some bits \<Rightarrow> returnM (Some (Struct_member_type name (bs_bit_offset bits div 8) (it_byte_size integer)
               (it_is_signed integer) LK_Integer None (Some bits) None []))))))"

section \<open>Unions and arrays\<close>

definition scalar_member :: "u8 list \<Rightarrow> nat \<Rightarrow> integer_type \<Rightarrow> struct_member_type" where
  "scalar_member name offset integer =
    Struct_member_type name offset (it_byte_size integer) (it_is_signed integer) LK_Integer None None None []"

definition resolve_bounded_union_member_type :: "die list \<Rightarrow> die \<Rightarrow> nat \<Rightarrow> ('s, struct_member_type) prog" where
  "resolve_bounded_union_member_type dies member union_size = (case entry_name member of
     None \<Rightarrow> throwM (RuntimeError ''bounded union member has no supported name'')
   | Some name \<Rightarrow> (case ref4_link (attribute member kDwAtType) of
       None \<Rightarrow> throwM (RuntimeError ''bounded union member has no supported DW_FORM_ref4 type'')
     | Some link \<Rightarrow>
         if attribute member kDwAtDataMemberLocation \<noteq> None \<and>
            constant_offset (attribute member kDwAtDataMemberLocation) \<noteq> Some 0
         then throwM (RuntimeError ''bounded union member does not share storage at offset zero'')
         else type_chain kTypeChainDepth ''bounded union member type references an unknown DIE''
           ''bounded union member wrapper does not use DW_FORM_ref4'' ''bounded union member type chain is too deep''
           dies link (\<lambda>index type_offset. bindM (die_at dies index) (\<lambda>d.
             if die_tag d \<noteq> kDwTagBaseType
             then throwM (RuntimeError ''bounded union member is not a bounded integer scalar'')
             else bindM (resolve_integer_type dies type_offset) (\<lambda>integer.
               if it_byte_size integer = 0 \<or> it_byte_size integer > 8 \<or> it_byte_size integer > union_size
               then throwM (RuntimeError ''bounded union integer member exceeds shared storage'')
               else returnM (scalar_member name 0 integer))))))"

text \<open>The checks of a loop over members: the tag, the number of members so far and, after the member is resolved, its
  name.\<close>

definition member_step ::
  "string \<Rightarrow> string \<Rightarrow> string \<Rightarrow> die list \<Rightarrow> (die \<Rightarrow> ('s, struct_member_type) prog) \<Rightarrow>
     nat \<Rightarrow> struct_member_type list \<Rightarrow> ('s, struct_member_type) prog" where
  "member_step unsupported many duplicate dies resolve child found = bindM (die_at dies child) (\<lambda>d.
    if die_tag d \<noteq> kDwTagMember then throwM (RuntimeError unsupported)
    else if length found \<ge> kMaxLocalStructMembers then throwM (RuntimeError many)
    else bindM (resolve d) (\<lambda>member.
      if mt_name member \<in> mt_name ` set found then throwM (RuntimeError duplicate)
      else returnM member))"

definition aggregate_type :: "nat \<Rightarrow> local_value_kind \<Rightarrow> struct_member_type list \<Rightarrow> local_value_type" where
  "aggregate_type byte_size kind members = \<lparr>vt_byte_size = byte_size, vt_is_signed = False, vt_kind = kind,
     vt_members = members, vt_array_type = None, vt_enum_type = None\<rparr>"

definition scalar_type :: "nat \<Rightarrow> bool \<Rightarrow> local_value_kind \<Rightarrow> local_value_type" where
  "scalar_type byte_size is_signed kind = \<lparr>vt_byte_size = byte_size, vt_is_signed = is_signed, vt_kind = kind,
     vt_members = [], vt_array_type = None, vt_enum_type = None\<rparr>"

definition resolve_bounded_union_type :: "die list \<Rightarrow> u64 \<Rightarrow> ('s, local_value_type option) prog" where
  "resolve_bounded_union_type dies type_offset =
    type_chain kTypeChainDepth ''bounded union type references an unknown DIE'' ''bounded union wrapper does not use DW_FORM_ref4''
      ''bounded union type chain is too deep'' dies type_offset (\<lambda>index _.
    bindM (die_at dies index) (\<lambda>d.
    if die_tag d \<noteq> kDwTagUnionType then returnM None
    else case entry_size d kMaxLocalStructSize of
      None \<Rightarrow> throwM (RuntimeError ''bounded union has an unsupported byte size'')
    | Some union_size \<Rightarrow>
        bindM (collect (member_step ''bounded union has an unsupported direct child DIE''
            ''bounded union has too many direct members'' ''bounded union has duplicate member names'' dies
            (\<lambda>member. resolve_bounded_union_member_type dies member union_size)) (children_of dies index) []) (\<lambda>members.
        if members = [] then throwM (RuntimeError ''bounded union has no supported direct members'')
        else returnM (Some (aggregate_type union_size LK_Union members)))))"

definition is_bounded_array_bound_form :: "u64 \<Rightarrow> bool" where
  "is_bounded_array_bound_form form \<longleftrightarrow>
     form \<in> {kDwFormData1, kDwFormData2, kDwFormData4, kDwFormData8, kDwFormUdata, kDwFormImplicitConst}"

fun single_subrange :: "die list \<Rightarrow> nat list \<Rightarrow> nat option \<Rightarrow> ('s, nat option) prog" where
  "single_subrange dies [] found = returnM found"
| "single_subrange dies (c # cs) found = bindM (die_at dies c) (\<lambda>d.
    if die_tag d \<noteq> kDwTagSubrangeType \<or> found \<noteq> None
    then throwM (RuntimeError ''fixed array requires exactly one direct subrange'')
    else single_subrange dies cs (Some c))"

definition bound_form_unsupported :: "attribute_value option \<Rightarrow> bool" where
  "bound_form_unsupported v = (case v of None \<Rightarrow> False | Some a \<Rightarrow> \<not> is_bounded_array_bound_form (av_form a))"

definition subrange_element_count :: "die \<Rightarrow> ('s, u64) prog" where
  "subrange_element_count d =
    (if bound_form_unsupported (attribute d kDwAtLowerBound) \<or>
        (\<exists>lower \<in> set_option (attribute d kDwAtLowerBound). av_number lower \<noteq> 0)
     then throwM (RuntimeError ''fixed array requires a zero lower bound'')
     else if bound_form_unsupported (attribute d kDwAtCount)
     then throwM (RuntimeError ''fixed-array count has an unsupported form'')
     else if bound_form_unsupported (attribute d kDwAtUpperBound)
     then throwM (RuntimeError ''fixed-array upper bound has an unsupported form'')
     else case (attribute d kDwAtCount, attribute d kDwAtUpperBound) of
       (Some c, None) \<Rightarrow> returnM (av_number c)
     | (Some c, Some u) \<Rightarrow>
         if av_number u = - 1 \<or> av_number u + 1 \<noteq> av_number c
         then throwM (RuntimeError ''fixed-array count conflicts with upper bound'')
         else returnM (av_number c)
     | (None, Some u) \<Rightarrow>
         if av_number u = - 1 then throwM (RuntimeError ''fixed-array upper bound overflows element count'')
         else returnM (av_number u + 1)
     | (None, None) \<Rightarrow> throwM (RuntimeError ''fixed array has no bounded element count''))"

definition resolve_bounded_fixed_array_type :: "die list \<Rightarrow> u64 \<Rightarrow> ('s, local_value_type option) prog" where
  "resolve_bounded_fixed_array_type dies type_offset =
    type_chain kTypeChainDepth ''fixed-array type references an unknown DIE'' ''fixed-array wrapper does not use DW_FORM_ref4''
      ''fixed-array type chain is too deep'' dies type_offset (\<lambda>index _.
    bindM (die_at dies index) (\<lambda>d.
    if die_tag d \<noteq> kDwTagArrayType then returnM None
    else case ref4_link (attribute d kDwAtType) of
      None \<Rightarrow> throwM (RuntimeError ''fixed array has no supported element type'')
    | Some link \<Rightarrow> bindM (resolve_integer_type dies link) (\<lambda>element.
        bindM (single_subrange dies (children_of dies index) None) (\<lambda>subrange. case subrange of
          None \<Rightarrow> throwM (RuntimeError ''fixed array has no direct subrange'')
        | Some subrange \<Rightarrow> bindM (die_at dies subrange) (\<lambda>r. bindM (subrange_element_count r) (\<lambda>n.
            let element_count = unat n; element_size = it_byte_size element in
            if element_count = 0 \<or> element_count > kMaxLocalArrayElements
            then throwM (RuntimeError ''fixed-array count exceeds the bounded 64-element model'')
            else if element_size = 0 \<or> element_size > 8 \<or> element_count > kMaxLocalStructSize div element_size
            then throwM (RuntimeError ''fixed-array storage exceeds the bounded scalar-array model'')
            else if \<exists>s \<in> set_option (attribute d kDwAtByteSize). unat (av_number s) \<noteq> element_count * element_size
            then throwM (RuntimeError ''fixed-array byte size conflicts with its element layout'')
            else returnM (Some ((aggregate_type (element_count * element_size) LK_Array [])
              \<lparr>vt_array_type := Some \<lparr>at_element_count = element_count, at_element_byte_size = element_size,
                at_element_is_signed = it_is_signed element, at_element_kind = LK_Integer\<rparr>\<rparr>))))))))"

section \<open>Members of structures\<close>

definition resolve_terminal :: "die list \<Rightarrow> nat \<Rightarrow> die \<Rightarrow> ('s, struct_member_type) prog" where
  "resolve_terminal dies nested_size terminal =
    (if has_bit_location terminal
     then throwM (RuntimeError ''nested structure terminal bit-fields are unsupported'')
     else case entry_name terminal of
       None \<Rightarrow> throwM (RuntimeError ''nested structure terminal has no supported name'')
     | Some name \<Rightarrow> (case ref4_link (attribute terminal kDwAtType) of
         None \<Rightarrow> throwM (RuntimeError ''nested structure terminal has no supported DW_FORM_ref4 type'')
       | Some link \<Rightarrow> (case constant_offset (attribute terminal kDwAtDataMemberLocation) of
           None \<Rightarrow> throwM (RuntimeError ''nested structure terminal has no supported constant offset'')
         | Some offset \<Rightarrow> bindM (resolve_integer_type dies link) (\<lambda>integer.
             if offset > nested_size \<or> it_byte_size integer > nested_size - offset
             then throwM (RuntimeError ''nested structure terminal exceeds inner storage'')
             else returnM (scalar_member name offset integer)))))"

text \<open>The second half of the nested case, once the type is known to be the structure at an index.\<close>

definition nested_structure_member :: "die list \<Rightarrow> die \<Rightarrow> nat \<Rightarrow> nat \<Rightarrow> ('s, struct_member_type option) prog" where
  "nested_structure_member dies member outer_size structure_index = (case entry_name member of
     None \<Rightarrow> throwM (RuntimeError ''nested structure member has no supported name'')
   | Some name \<Rightarrow> (case constant_offset (attribute member kDwAtDataMemberLocation) of
       None \<Rightarrow> throwM (RuntimeError ''nested structure member has no supported constant offset'')
     | Some offset \<Rightarrow> bindM (die_at dies structure_index) (\<lambda>structure. case entry_size structure kMaxLocalStructSize of
         None \<Rightarrow> throwM (RuntimeError ''nested structure has an unsupported byte size'')
       | Some nested_size \<Rightarrow>
           if offset > outer_size \<or> nested_size > outer_size - offset
           then throwM (RuntimeError ''nested structure exceeds outer aggregate storage'')
           else bindM (collect (member_step ''nested structure has an unsupported direct child DIE''
               ''nested structure has too many direct members'' ''nested structure has duplicate terminal member names'' dies
               (resolve_terminal dies nested_size)) (children_of dies structure_index) []) (\<lambda>members.
             if members = [] then throwM (RuntimeError ''nested structure has no bounded terminal scalar members'')
             else returnM (Some (Struct_member_type name offset nested_size False LK_Structure None None None members))))))"

definition resolve_bounded_nested_structure_member_type ::
  "die list \<Rightarrow> die \<Rightarrow> nat \<Rightarrow> ('s, struct_member_type option) prog" where
  "resolve_bounded_nested_structure_member_type dies member outer_size =
    (case ref4_link (attribute member kDwAtType) of
       None \<Rightarrow> returnM None
     | Some link \<Rightarrow> type_chain kTypeChainDepth ''nested structure member type references an unknown DIE''
         ''nested structure member wrapper does not use DW_FORM_ref4'' ''nested structure member type chain is too deep''
         dies link (\<lambda>index _. bindM (die_at dies index) (\<lambda>d.
           if die_tag d \<noteq> kDwTagStructureType then returnM None
           else nested_structure_member dies member outer_size index)))"

definition resolve_pointee_member :: "die list \<Rightarrow> nat \<Rightarrow> nat \<Rightarrow> pointee_member list \<Rightarrow> ('s, pointee_member) prog" where
  "resolve_pointee_member dies struct_size child found = bindM (die_at dies child) (\<lambda>d.
    if die_tag d \<noteq> kDwTagMember
    then throwM (RuntimeError ''bounded pointer-member structure pointee has an unsupported direct child'')
    else if length found \<ge> kMaxLocalStructMembers
    then throwM (RuntimeError ''bounded pointer-member structure pointee has too many members'')
    else case (entry_name d, ref4_link (attribute d kDwAtType), constant_offset (attribute d kDwAtDataMemberLocation)) of
      (Some name, Some link, Some offset) \<Rightarrow> bindM (resolve_integer_type dies link) (\<lambda>integer.
        if it_byte_size integer = 0 \<or> it_byte_size integer > 8 \<or> offset > struct_size \<or>
           it_byte_size integer > struct_size - offset
        then throwM (RuntimeError ''bounded pointer-member structure pointee member exceeds storage'')
        else returnM \<lparr>pm_name = name, pm_offset = offset, pm_byte_size = it_byte_size integer,
          pm_is_signed = it_is_signed integer, pm_kind = LK_Integer\<rparr>)
    | _ \<Rightarrow> throwM (RuntimeError ''bounded pointer-member structure pointee has unsupported member metadata''))"

definition resolve_bounded_pointer_member_pointee_type :: "die list \<Rightarrow> u64 \<Rightarrow> ('s, pointee_type) prog" where
  "resolve_bounded_pointer_member_pointee_type dies type_offset =
    type_chain kTypeChainDepth ''bounded pointer-member pointee type references an unknown DIE''
      ''bounded pointer-member pointee wrapper does not use DW_FORM_ref4''
      ''bounded pointer-member pointee type chain is too deep'' dies type_offset (\<lambda>index offset.
    bindM (die_at dies index) (\<lambda>d.
    if die_tag d \<noteq> kDwTagStructureType
    then bindM (resolve_integer_type dies offset) (\<lambda>integer.
      returnM \<lparr>pt_byte_size = it_byte_size integer, pt_is_signed = it_is_signed integer, pt_kind = LK_Integer, pt_members = []\<rparr>)
    else case entry_size d kMaxLocalStructSize of
      None \<Rightarrow> throwM (RuntimeError ''bounded pointer-member structure pointee has an unsupported byte size'')
    | Some struct_size \<Rightarrow>
        bindM (collect (resolve_pointee_member dies struct_size) (children_of dies index) []) (\<lambda>members.
        if members = []
        then throwM (RuntimeError ''bounded pointer-member structure pointee has no direct integer members'')
        else returnM \<lparr>pt_byte_size = struct_size, pt_is_signed = False, pt_kind = LK_Structure, pt_members = members\<rparr>)))"

text \<open>The size of a pointer type: 8 when it is not given.\<close>

definition pointer_size :: "die \<Rightarrow> nat" where
  "pointer_size d = (case attribute d kDwAtByteSize of None \<Rightarrow> 8 | Some v \<Rightarrow> unat (av_number v))"

definition direct_member_of_type ::
  "die list \<Rightarrow> u8 list \<Rightarrow> nat \<Rightarrow> nat \<Rightarrow> nat \<Rightarrow> u64 \<Rightarrow> ('s, struct_member_type) prog" where
  "direct_member_of_type dies name offset struct_size index type_offset = bindM (die_at dies index) (\<lambda>d.
    if die_tag d = kDwTagPointerType then
      (if pointer_size d \<noteq> 8
       then throwM (RuntimeError ''bounded direct pointer member has an unsupported byte size'')
       else case ref4_link (attribute d kDwAtType) of
         None \<Rightarrow> throwM (RuntimeError ''bounded direct pointer member has no supported pointee type'')
       | Some pointee \<Rightarrow> bindM (resolve_bounded_pointer_member_pointee_type dies pointee) (\<lambda>pointee_type.
           if offset > struct_size \<or> pointer_size d > struct_size - offset
           then throwM (RuntimeError ''bounded direct pointer member exceeds aggregate storage'')
           else returnM (Struct_member_type name offset (pointer_size d) False LK_Pointer (Some pointee_type) None None [])))
    else bindM (resolve_bounded_enum_type dies type_offset) (\<lambda>enum. case enum of
      Some t \<Rightarrow>
        if offset > struct_size \<or> et_byte_size t > struct_size - offset
        then throwM (RuntimeError ''bounded direct enum member exceeds aggregate storage'')
        else returnM (Struct_member_type name offset (et_byte_size t) (et_is_signed t) LK_Enumeration None None (Some t) [])
    | None \<Rightarrow> bindM (resolve_integer_type dies type_offset) (\<lambda>integer.
        if offset > struct_size \<or> it_byte_size integer > struct_size - offset
        then throwM (RuntimeError ''bounded direct integer member exceeds aggregate storage'')
        else returnM (scalar_member name offset integer))))"

definition resolve_bounded_direct_structure_member_type :: "die list \<Rightarrow> nat \<Rightarrow> die \<Rightarrow> ('s, struct_member_type) prog" where
  "resolve_bounded_direct_structure_member_type dies struct_size member = (case entry_name member of
     None \<Rightarrow> throwM (RuntimeError ''bounded direct structure member has no supported name'')
   | Some name \<Rightarrow> (case ref4_link (attribute member kDwAtType) of
       None \<Rightarrow> throwM (RuntimeError ''bounded direct structure member has no supported DW_FORM_ref4 type'')
     | Some link \<Rightarrow> (case constant_offset (attribute member kDwAtDataMemberLocation) of
         None \<Rightarrow> throwM (RuntimeError ''bounded direct structure member has no supported constant offset'')
       | Some offset \<Rightarrow> type_chain kTypeChainDepth ''bounded direct structure member type references an unknown DIE''
           ''bounded direct structure member wrapper does not use DW_FORM_ref4''
           ''bounded direct structure member type chain is too deep'' dies link
           (direct_member_of_type dies name offset struct_size))))"

section \<open>Values\<close>

text \<open>A member of a structure: a bit field, a nested structure, or a direct one. Duplicate names are not refused here.\<close>

definition resolve_structure_member :: "die list \<Rightarrow> nat \<Rightarrow> nat \<Rightarrow> struct_member_type list \<Rightarrow> ('s, struct_member_type) prog" where
  "resolve_structure_member dies struct_size child found = bindM (die_at dies child) (\<lambda>member.
    if die_tag member \<noteq> kDwTagMember
    then throwM (RuntimeError ''local struct has an unsupported direct child DIE'')
    else if length found \<ge> kMaxLocalStructMembers
    then throwM (RuntimeError ''local struct has too many direct members'')
    else bindM (resolve_bounded_bit_field_member_type dies member struct_size) (\<lambda>bit_field. case bit_field of
      Some m \<Rightarrow> returnM m
    | None \<Rightarrow> bindM (resolve_bounded_nested_structure_member_type dies member struct_size) (\<lambda>nested. case nested of
        Some m \<Rightarrow> returnM m
      | None \<Rightarrow> resolve_bounded_direct_structure_member_type dies struct_size member)))"

definition value_type_at :: "die list \<Rightarrow> nat \<Rightarrow> u64 \<Rightarrow> ('s, local_value_type) prog" where
  "value_type_at dies index type_offset = bindM (die_at dies index) (\<lambda>d.
    if die_tag d = kDwTagEnumerationType then
      bindM (resolve_bounded_enum_type dies type_offset) (\<lambda>enum. case enum of
        None \<Rightarrow> throwM (LogicError ''enumeration DIE did not resolve as a bounded enum'')
      | Some t \<Rightarrow> returnM ((scalar_type (et_byte_size t) (et_is_signed t) LK_Enumeration)\<lparr>vt_enum_type := Some t\<rparr>))
    else if die_tag d = kDwTagUnionType then
      bindM (resolve_bounded_union_type dies type_offset) (\<lambda>union_type. case union_type of
        None \<Rightarrow> throwM (LogicError ''union DIE did not resolve as a bounded union'')
      | Some t \<Rightarrow> returnM t)
    else if die_tag d = kDwTagArrayType then
      bindM (resolve_bounded_fixed_array_type dies type_offset) (\<lambda>array. case array of
        None \<Rightarrow> throwM (LogicError ''array DIE did not resolve as a bounded fixed array'')
      | Some t \<Rightarrow> returnM t)
    else if die_tag d = kDwTagPointerType then
      (if pointer_size d \<noteq> 8 then throwM (RuntimeError ''local pointer type has an unsupported byte size'')
       else case ref4_link (attribute d kDwAtType) of
         None \<Rightarrow> throwM (RuntimeError ''local pointer type has no supported DW_FORM_ref4 pointee'')
       | Some pointee \<Rightarrow> thenM (resolve_integer_type dies pointee) (returnM (scalar_type (pointer_size d) False LK_Pointer)))
    else if die_tag d = kDwTagBaseType then
      bindM (resolve_integer_type dies type_offset) (\<lambda>integer.
      returnM (scalar_type (it_byte_size integer) (it_is_signed integer) LK_Integer))
    else if die_tag d = kDwTagStructureType then
      (case entry_size d kMaxLocalStructSize of
         None \<Rightarrow> throwM (RuntimeError ''local struct has an unsupported byte size'')
       | Some struct_size \<Rightarrow>
           bindM (collect (resolve_structure_member dies struct_size) (children_of dies index) []) (\<lambda>members.
           if members = [] then throwM (RuntimeError ''local struct has no supported direct members'')
           else returnM (aggregate_type struct_size LK_Structure members)))
    else throwM (RuntimeError
      ''local variable type is not a supported typedef/const/base-type/pointer/structure/array/union/enumeration chain''))"

definition resolve_value_type :: "die list \<Rightarrow> u64 \<Rightarrow> ('s, local_value_type) prog" where
  "resolve_value_type dies type_offset =
    type_chain kTypeChainDepth ''local variable type references an unknown DIE''
      ''local type wrapper does not use the supported DW_FORM_ref4 type link''
      ''local variable type chain is too deep'' dies type_offset (value_type_at dies)"

section \<open>Types at the root of a value in a core\<close>

definition resolve_snapshot_floating_type :: "die list \<Rightarrow> u64 \<Rightarrow> ('s, local_value_type option) prog" where
  "resolve_snapshot_floating_type dies type_offset =
    type_chain kTypeChainDepth ''snapshot local value type references an unknown DIE''
      ''snapshot floating type wrapper does not use DW_FORM_ref4'' ''snapshot floating type chain is too deep''
      dies type_offset (\<lambda>index _.
    bindM (die_at dies index) (\<lambda>d.
    if die_tag d \<noteq> kDwTagBaseType then returnM None
    else if map_option av_number (attribute d kDwAtEncoding) \<noteq> Some kDwAteFloat then returnM None
    else case attribute d kDwAtByteSize of
      None \<Rightarrow> throwM (RuntimeError ''snapshot floating base type must be a compiler-proven 4/8-byte scalar'')
    | Some v \<Rightarrow>
        if av_number v \<noteq> 4 \<and> av_number v \<noteq> 8
        then throwM (RuntimeError ''snapshot floating base type must be a compiler-proven 4/8-byte scalar'')
        else returnM (Some (scalar_type (unat (av_number v)) False LK_Floating))))"

definition resolve_snapshot_structure_pointee_type :: "die list \<Rightarrow> u64 \<Rightarrow> ('s, local_value_type) prog" where
  "resolve_snapshot_structure_pointee_type dies type_offset =
    type_chain kTypeChainDepth ''snapshot structure pointee references an unknown DIE''
      ''snapshot structure pointee wrapper does not use DW_FORM_ref4'' ''snapshot structure pointee type chain is too deep''
      dies type_offset (\<lambda>index _.
    bindM (die_at dies index) (\<lambda>d.
    if die_tag d \<noteq> kDwTagStructureType
    then throwM (RuntimeError ''snapshot pointer pointee is not a bounded integer or structure type'')
    else case entry_size d kMaxLocalStructSize of
      None \<Rightarrow> throwM (RuntimeError ''snapshot structure pointee has an unsupported byte size'')
    | Some struct_size \<Rightarrow>
        bindM (collect (member_step ''snapshot structure pointee has an unsupported direct child DIE''
            ''snapshot structure pointee has too many direct members'' ''snapshot structure pointee has duplicate member names'' dies
            (resolve_bounded_direct_structure_member_type dies struct_size)) (children_of dies index) []) (\<lambda>members.
        if members = [] then throwM (RuntimeError ''snapshot structure pointee has no supported direct members'')
        else returnM (aggregate_type struct_size LK_Structure members))))"

definition pointee_type_at :: "die list \<Rightarrow> nat \<Rightarrow> u64 \<Rightarrow> ('s, local_value_type option) prog" where
  "pointee_type_at dies index pointee_offset = bindM (die_at dies index) (\<lambda>d.
    if die_tag d = kDwTagBaseType then
      bindM (resolve_integer_type dies pointee_offset) (\<lambda>integer.
      returnM (Some (scalar_type (it_byte_size integer) (it_is_signed integer) LK_Integer)))
    else if die_tag d = kDwTagStructureType then
      bindM (resolve_snapshot_structure_pointee_type dies pointee_offset) (\<lambda>t. returnM (Some t))
    else throwM (RuntimeError ''snapshot pointer pointee is not a bounded integer or structure type''))"

definition resolve_pointer_pointee_type :: "die list \<Rightarrow> u64 \<Rightarrow> ('s, local_value_type option) prog" where
  "resolve_pointer_pointee_type dies type_offset =
    type_chain kTypeChainDepth ''snapshot pointer type references an unknown DIE''
      ''snapshot pointer type wrapper does not use DW_FORM_ref4'' ''snapshot pointer type chain is too deep''
      dies type_offset (\<lambda>index _.
    bindM (die_at dies index) (\<lambda>d.
    if die_tag d \<noteq> kDwTagPointerType then returnM None
    else if pointer_size d \<noteq> 8 then throwM (RuntimeError ''snapshot pointer type has an unsupported byte size'')
    else case ref4_link (attribute d kDwAtType) of
      None \<Rightarrow> throwM (RuntimeError ''snapshot pointer has no supported DW_FORM_ref4 pointee'')
    | Some pointee \<Rightarrow> type_chain kTypeChainDepth ''snapshot pointer pointee references an unknown DIE''
        ''snapshot pointer pointee wrapper does not use DW_FORM_ref4'' ''snapshot pointer pointee type chain is too deep''
        dies pointee (pointee_type_at dies)))"

record root_type =
  rt_value_type :: local_value_type
  rt_pointee_type :: "local_value_type option"

definition resolve_bounded_root_value_type :: "die list \<Rightarrow> u64 \<Rightarrow> ('s, root_type) prog" where
  "resolve_bounded_root_value_type dies type_offset =
    bindM (resolve_snapshot_floating_type dies type_offset) (\<lambda>floating. case floating of
      Some t \<Rightarrow> returnM \<lparr>rt_value_type = t, rt_pointee_type = None\<rparr>
    | None \<Rightarrow> bindM (resolve_pointer_pointee_type dies type_offset) (\<lambda>pointee. case pointee of
        Some p \<Rightarrow> returnM \<lparr>rt_value_type = scalar_type 8 False LK_Pointer, rt_pointee_type = Some p\<rparr>
      | None \<Rightarrow> bindM (resolve_value_type dies type_offset) (\<lambda>t. returnM \<lparr>rt_value_type = t, rt_pointee_type = None\<rparr>)))"

end
