(* ===== verification/InlineScopes.thy ===== *)
theory InlineScopes
  imports DebugInfo LocalValues SnapshotInspect CfiUnwind
begin

text \<open>
  Scopes of inlined functions and the names visible at an address, \<^verbatim>\<open>src/src/dwarf/source_lookup.cpp\<close>: version 4 range
  lists, the subprogram that owns an address, the chain of inlined calls, and the catalogues of local names, for a
  frame of a core file and for a frame of a live process.
\<close>

section \<open>Ranges\<close>

abbreviation (input) kInlineDwAtRanges :: u64 where "kInlineDwAtRanges \<equiv> 0x55"
abbreviation (input) kInlineDwAtCallColumn :: u64 where "kInlineDwAtCallColumn \<equiv> 0x57"
abbreviation (input) kInlineDwAtCallFile :: u64 where "kInlineDwAtCallFile \<equiv> 0x58"
abbreviation (input) kInlineDwAtCallLine :: u64 where "kInlineDwAtCallLine \<equiv> 0x59"
abbreviation (input) kMaxInlineContexts :: nat where "kMaxInlineContexts \<equiv> 8"
abbreviation (input) kMaxInlineRangeEntries :: nat where "kMaxInlineRangeEntries \<equiv> 64"
abbreviation (input) kMaxDiscoveredLocals :: nat where "kMaxDiscoveredLocals \<equiv> 64"

definition read_debug_ranges :: "'k files \<Rightarrow> string \<Rightarrow> ('k, u8 list) prog" where
  "read_debug_ranges fs file_path = bindM (read_named_sections fs file_path [''.debug_ranges'']) (\<lambda>sections.
     returnM (section_or_empty sections ''.debug_ranges''))"

definition compilation_unit_base :: "die list \<Rightarrow> ('s, u64) prog" where
  "compilation_unit_base dies =
    (if dies = [] then returnM 0
     else case attribute (hd dies) kDwAtLowPc of
       None \<Rightarrow> returnM 0
     | Some low \<Rightarrow>
         if av_form low \<noteq> kDwFormAddr
         then throwM (RuntimeError ''compilation-unit DW_AT_low_pc is not DW_FORM_addr'')
         else returnM (av_number low))"

text \<open>The loop over the entries of a range list; the first argument counts the turns left.\<close>

fun range_list_loop :: "nat \<Rightarrow> u8 list \<Rightarrow> u64 \<Rightarrow> u64 \<Rightarrow> bool reader" where
  "range_list_loop 0 ranges pc base =
    throwM (RuntimeError ''DWARF4 inline range list exceeds the bounded 64-entry limit'')"
| "range_list_loop (Suc n) ranges pc base =
    bindM (di_u64 ranges (length ranges) ''DWARF4 range begin'') (\<lambda>range_begin.
    bindM (di_u64 ranges (length ranges) ''DWARF4 range end'') (\<lambda>range_end.
    if range_begin = 0 \<and> range_end = 0 then returnM False
    else if range_begin = - 1 then range_list_loop n ranges pc range_end
    else if range_end < range_begin
    then throwM (RuntimeError ''DWARF4 inline range has descending endpoints'')
    else bindM (add_unsigned base range_begin ''DWARF4 range begin'') (\<lambda>absolute_begin.
      bindM (add_unsigned base range_end ''DWARF4 range end'') (\<lambda>absolute_end.
      if pc \<ge> absolute_begin \<and> pc < absolute_end then returnM True
      else range_list_loop n ranges pc base))))"

definition bounded_range_list_contains_pc :: "die \<Rightarrow> u64 \<Rightarrow> u8 list \<Rightarrow> u64 \<Rightarrow> u16 \<Rightarrow> ('s, bool) prog" where
  "bounded_range_list_contains_pc d pc ranges initial_base unit_version = (case attribute d kInlineDwAtRanges of
     None \<Rightarrow> returnM False
   | Some r \<Rightarrow>
       if unit_version \<noteq> 4
       then throwM (RuntimeError ''inline DW_AT_ranges is currently bounded to DWARF4 .debug_ranges'')
       else if av_form r \<noteq> kDwFormSecOffset \<and> av_form r \<noteq> kDwFormData4
       then throwM (RuntimeError ''inline DW_AT_ranges does not use a supported section-offset form'')
       else if ranges = [] \<or> unat (av_number r) > length ranges
       then throwM (RuntimeError ''inline DW_AT_ranges references unavailable .debug_ranges data'')
       else at_cursor (unat (av_number r)) (range_list_loop kMaxInlineRangeEntries ranges pc initial_base))"

definition inline_scope_contains_pc :: "die \<Rightarrow> u64 \<Rightarrow> u8 list \<Rightarrow> u64 \<Rightarrow> u16 \<Rightarrow> ('s, bool) prog" where
  "inline_scope_contains_pc d pc ranges unit_base unit_version =
    (case (attribute d kDwAtLowPc, attribute d kDwAtHighPc) of
       (None, None) \<Rightarrow> bounded_range_list_contains_pc d pc ranges unit_base unit_version
     | (Some low, Some high) \<Rightarrow>
         if av_form low \<noteq> kDwFormAddr
         then throwM (RuntimeError ''inline scope has an incomplete DW_AT_low_pc/DW_AT_high_pc range'')
         else die_contains_pc d pc
     | _ \<Rightarrow> throwM (RuntimeError ''inline scope has an incomplete DW_AT_low_pc/DW_AT_high_pc range''))"

text \<open>The loop over the entries that are left; \<open>index\<close> is the index of the first of them.\<close>

fun physical_subprogram_loop ::
  "u64 \<Rightarrow> u8 list \<Rightarrow> u64 \<Rightarrow> u16 \<Rightarrow> nat \<Rightarrow> die list \<Rightarrow> nat option \<Rightarrow> ('s, nat option) prog" where
  "physical_subprogram_loop pc ranges unit_base unit_version index [] result = returnM result"
| "physical_subprogram_loop pc ranges unit_base unit_version index (d # ds) result =
    bindM (if die_tag d \<noteq> kDwTagSubprogram then returnM False
           else inline_scope_contains_pc d pc ranges unit_base unit_version) (\<lambda>inside.
    if \<not> inside then physical_subprogram_loop pc ranges unit_base unit_version (index + 1) ds result
    else if result \<noteq> None
    then throwM (RuntimeError ''snapshot inline discovery PC matches multiple physical DWARF subprograms'')
    else physical_subprogram_loop pc ranges unit_base unit_version (index + 1) ds (Some index))"

definition find_physical_subprogram :: "die list \<Rightarrow> u64 \<Rightarrow> u8 list \<Rightarrow> u64 \<Rightarrow> u16 \<Rightarrow> ('s, nat option) prog" where
  "find_physical_subprogram dies pc ranges unit_base unit_version =
    physical_subprogram_loop pc ranges unit_base unit_version 0 dies None"

section \<open>Walks up the parents\<close>

fun crosses_loop :: "nat \<Rightarrow> die list \<Rightarrow> nat option \<Rightarrow> nat \<Rightarrow> ('s, bool) prog" where
  "crosses_loop n dies None subprogram = returnM False"
| "crosses_loop 0 dies (Some p) subprogram = divergeM"
| "crosses_loop (Suc n) dies (Some p) subprogram =
    (if p = subprogram then returnM False
     else bindM (die_at dies p) (\<lambda>d.
       if die_tag d = kDwTagInlinedSubroutine then returnM True
       else crosses_loop n dies (die_parent d) subprogram))"

definition crosses_inline_scope :: "die list \<Rightarrow> nat \<Rightarrow> nat \<Rightarrow> ('s, bool) prog" where
  "crosses_inline_scope dies value_index subprogram = bindM (die_at dies value_index) (\<lambda>d.
     crosses_loop (length dies) dies (die_parent d) subprogram)"

fun inline_depth_loop :: "nat \<Rightarrow> die list \<Rightarrow> nat option \<Rightarrow> nat \<Rightarrow> nat \<Rightarrow> ('s, nat option) prog" where
  "inline_depth_loop n dies None subprogram depth = returnM None"
| "inline_depth_loop 0 dies (Some p) subprogram depth = divergeM"
| "inline_depth_loop (Suc n) dies (Some p) subprogram depth =
    (if p = subprogram then returnM (Some depth)
     else bindM (die_at dies p) (\<lambda>d. inline_depth_loop n dies (die_parent d) subprogram
       (if die_tag d = kDwTagInlinedSubroutine then depth + 1 else depth)))"

definition inline_depth_from_physical :: "die list \<Rightarrow> nat \<Rightarrow> nat \<Rightarrow> ('s, nat option) prog" where
  "inline_depth_from_physical dies inline_index subprogram = bindM (die_at dies inline_index) (\<lambda>d.
     inline_depth_loop (length dies) dies (die_parent d) subprogram 1)"

fun inline_scope_depth_loop ::
  "nat \<Rightarrow> die list \<Rightarrow> nat option \<Rightarrow> nat \<Rightarrow> u64 \<Rightarrow> u8 list \<Rightarrow> u64 \<Rightarrow> u16 \<Rightarrow> nat \<Rightarrow> ('s, nat option) prog" where
  "inline_scope_depth_loop n dies None inline_index pc ranges unit_base unit_version depth = returnM None"
| "inline_scope_depth_loop 0 dies (Some p) inline_index pc ranges unit_base unit_version depth = divergeM"
| "inline_scope_depth_loop (Suc n) dies (Some p) inline_index pc ranges unit_base unit_version depth =
    (if p = inline_index then returnM (Some depth)
     else bindM (die_at dies p) (\<lambda>scope.
       if die_tag scope = kDwTagInlinedSubroutine then returnM None
       else if die_tag scope \<noteq> kDwTagLexicalBlock then returnM None
       else bindM (inline_scope_contains_pc scope pc ranges unit_base unit_version) (\<lambda>inside.
         if \<not> inside then returnM None
         else inline_scope_depth_loop n dies (die_parent scope) inline_index pc ranges unit_base unit_version (depth + 1))))"

definition inline_local_scope_depth ::
  "die list \<Rightarrow> nat \<Rightarrow> nat \<Rightarrow> u64 \<Rightarrow> u8 list \<Rightarrow> u64 \<Rightarrow> u16 \<Rightarrow> ('s, nat option) prog" where
  "inline_local_scope_depth dies value_index inline_index pc ranges unit_base unit_version =
    bindM (die_at dies value_index) (\<lambda>d.
    inline_scope_depth_loop (length dies) dies (die_parent d) inline_index pc ranges unit_base unit_version 0)"

section \<open>Inlined calls\<close>

record inline_context =
  ix_die_offset :: nat
  ix_depth :: nat
  ix_module_path :: path
  ix_name :: "u8 list"
  ix_call_site :: source_location

text \<open>A candidate is the index of an inlined subroutine and its depth.\<close>

fun inline_candidates ::
  "die list \<Rightarrow> u64 \<Rightarrow> u8 list \<Rightarrow> u64 \<Rightarrow> u16 \<Rightarrow> nat \<Rightarrow> nat list \<Rightarrow> ('s, (nat \<times> nat) list) prog" where
  "inline_candidates dies pc ranges unit_base unit_version subprogram [] = returnM []"
| "inline_candidates dies pc ranges unit_base unit_version subprogram (index # rest) =
    (let others = inline_candidates dies pc ranges unit_base unit_version subprogram rest in
     bindM (die_at dies index) (\<lambda>d.
     if die_tag d \<noteq> kDwTagInlinedSubroutine then others
     else bindM (is_descendant_of dies index subprogram) (\<lambda>below.
       if \<not> below then others
       else bindM (inline_scope_contains_pc d pc ranges unit_base unit_version) (\<lambda>inside.
         if \<not> inside then others
         else bindM (inline_depth_from_physical dies index subprogram) (\<lambda>found. case found of
           None \<Rightarrow> throwM (LogicError ''inline context lost physical-subprogram ownership'')
         | Some depth \<Rightarrow>
             if depth > kMaxInlineContexts
             then throwM (RuntimeError ''inline call chain exceeds the bounded 8-context limit'')
             else bindM others (\<lambda>cs. returnM ((index, depth) # cs)))))))"

text \<open>The sorted candidates are one chain; \<open>i\<close> and \<open>previous\<close> are the position and the candidate before it.\<close>

fun check_chain :: "die list \<Rightarrow> nat \<Rightarrow> nat option \<Rightarrow> (nat \<times> nat) list \<Rightarrow> ('s, unit) prog" where
  "check_chain dies i previous [] = returnM ()"
| "check_chain dies i previous ((index, depth) # rest) =
    (if depth \<noteq> i + 1 then throwM (RuntimeError ''active inline contexts do not form one contiguous chain'')
     else case previous of
       None \<Rightarrow> check_chain dies (i + 1) (Some index) rest
     | Some p \<Rightarrow> bindM (is_descendant_of dies index p) (\<lambda>below.
         if \<not> below then throwM (RuntimeError ''active inline contexts are ambiguous sibling scopes'')
         else check_chain dies (i + 1) (Some index) rest))"

definition inline_context_of ::
  "die list \<Rightarrow> line_table \<Rightarrow> u64 \<Rightarrow> path \<Rightarrow> nat \<times> nat \<Rightarrow> ('s, inline_context) prog" where
  "inline_context_of dies lines virtual_pc module_path candidate =
    bindM (attribute_with_abstract_origin dies (fst candidate) kDwAtName) (\<lambda>name.
    bindM (die_at dies (fst candidate)) (\<lambda>d.
    case (name, attribute d kInlineDwAtCallFile, attribute d kInlineDwAtCallLine) of
      (Some name, Some call_file, Some call_line) \<Rightarrow>
        if av_text name = [] \<or> av_number call_file = 0 \<or> av_number call_line = 0
        then throwM (RuntimeError ''active inline context lacks bounded name/call-site metadata'')
        else bindM (find_virtual_file lines virtual_pc (av_number call_file)) (\<lambda>call_path. case call_path of
            None \<Rightarrow> throwM (RuntimeError
              ''active inline context call-site file index is unavailable in the owning line table'')
          | Some call_path \<Rightarrow>
              returnM \<lparr>ix_die_offset = die_offset d, ix_depth = snd candidate - 1, ix_module_path = module_path,
                ix_name = av_text name, ix_call_site = \<lparr>sl_file = call_path, sl_line = av_number call_line,
                  sl_column = (case attribute d kInlineDwAtCallColumn of None \<Rightarrow> 0 | Some c \<Rightarrow> av_number c)\<rparr>\<rparr>)
    | _ \<Rightarrow> throwM (RuntimeError ''active inline context lacks bounded name/call-site metadata'')))"

text \<open>The contexts of a unit, or none when the unit does not own the address; and the start of the next unit.
  Sorting with equal depths may go either way: the check of the chain refuses them.\<close>

definition discover_inline_unit ::
  "'k files \<Rightarrow> debug_sections \<Rightarrow> u8 list \<Rightarrow> u64 \<Rightarrow> path \<Rightarrow> path \<Rightarrow> nat \<Rightarrow> ('k, inline_context list option \<times> nat) prog" where
  "discover_inline_unit fs ds ranges virtual_pc module_path debug_path unit_start =
    bindM (parse_unit_dies ds unit_start) (\<lambda>(dies, next_unit, unit_version).
    bindM (compilation_unit_base dies) (\<lambda>unit_base.
    bindM (find_physical_subprogram dies virtual_pc ranges unit_base unit_version) (\<lambda>found. case found of
      None \<Rightarrow> returnM (None, next_unit)
    | Some subprogram \<Rightarrow>
        bindM (inline_candidates dies virtual_pc ranges unit_base unit_version subprogram [0..<length dies]) (\<lambda>cs.
        if cs = [] then returnM (Some [], next_unit)
        else if length cs > kMaxInlineContexts
        then throwM (RuntimeError ''inline call chain exceeds the bounded 8-context limit'')
        else let sorted_cs = sort_key snd cs in
          thenM (check_chain dies 0 None sorted_cs)
          (bindM (open_line_table fs (bytes_text debug_path)) (\<lambda>lines.
          if find_virtual_address lines virtual_pc = None
          then throwM (RuntimeError ''inline context has no supported source file ownership'')
          else bindM (mapM (inline_context_of dies lines virtual_pc module_path) sorted_cs) (\<lambda>contexts.
            returnM (Some contexts, next_unit))))))))"

section \<open>Catalogues of local names\<close>

record local_discovery_entry =
  le_name :: "u8 list"
  le_kind :: local_discovery_kind

type_synonym catalogue = "(u8 list, nat \<times> local_discovery_kind) smap"

text \<open>Entering a name: a deeper scope hides a shallower one.\<close>

definition catalogue_add ::
  "string \<Rightarrow> string \<Rightarrow> u8 list \<Rightarrow> nat \<Rightarrow> local_discovery_kind \<Rightarrow> catalogue \<Rightarrow> ('s, catalogue) prog" where
  "catalogue_add exceeded ambiguous name depth kind selected = (case smap_find selected name of
     None \<Rightarrow>
       if length selected \<ge> kMaxDiscoveredLocals then throwM (RuntimeError exceeded)
       else returnM (smap_emplace name (depth, kind) selected)
   | Some existing \<Rightarrow>
       if depth > fst existing then returnM (smap_assign name (depth, kind) selected)
       else if depth = fst existing then throwM (RuntimeError (ambiguous @ bytes_text name))
       else returnM selected)"

definition catalogue_entries :: "catalogue \<Rightarrow> local_discovery_entry list" where
  "catalogue_entries selected = map (\<lambda>(name, depth, kind). \<lparr>le_name = name, le_kind = kind\<rparr>) selected"

definition is_local :: "die \<Rightarrow> bool" where
  "is_local d \<longleftrightarrow> die_tag d = kDwTagVariable \<or> die_tag d = kDwTagFormalParameter"

definition local_kind :: "die \<Rightarrow> local_discovery_kind" where
  "local_kind d = (if die_tag d = kDwTagFormalParameter then LD_FormalParameter else LD_Variable)"

fun scoped_catalogue_loop ::
  "die list \<Rightarrow> nat \<Rightarrow> u64 \<Rightarrow> nat list \<Rightarrow> catalogue \<Rightarrow> ('s, catalogue) prog" where
  "scoped_catalogue_loop dies subprogram pc [] selected = returnM selected"
| "scoped_catalogue_loop dies subprogram pc (index # rest) selected =
    (let skip = scoped_catalogue_loop dies subprogram pc rest selected in
     bindM (die_at dies index) (\<lambda>d.
     if \<not> is_local d then skip
     else bindM (crosses_inline_scope dies index subprogram) (\<lambda>crosses.
       if crosses then skip
       else bindM (attribute_with_abstract_origin dies index kDwAtName) (\<lambda>name. case name of
         None \<Rightarrow> skip
       | Some name \<Rightarrow>
           if av_text name = [] then skip
           else bindM (active_scope_depth dies index subprogram pc) (\<lambda>depth. case depth of
             None \<Rightarrow> skip
           | Some depth \<Rightarrow>
               bindM (catalogue_add ''active scoped-local catalogue exceeds the bounded 64-name limit''
                 ''ambiguous active local name at equal lexical depth: '' (av_text name) depth (local_kind d) selected)
                 (scoped_catalogue_loop dies subprogram pc rest))))))"

definition discover_scoped_local_catalogue_unit ::
  "debug_sections \<Rightarrow> u8 list \<Rightarrow> u64 \<Rightarrow> nat \<Rightarrow> ('s, local_discovery_entry list option \<times> nat) prog" where
  "discover_scoped_local_catalogue_unit ds ranges virtual_pc unit_start =
    bindM (parse_unit_dies ds unit_start) (\<lambda>(dies, next_unit, unit_version).
    bindM (compilation_unit_base dies) (\<lambda>unit_base.
    bindM (find_physical_subprogram dies virtual_pc ranges unit_base unit_version) (\<lambda>found. case found of
      None \<Rightarrow> returnM (None, next_unit)
    | Some subprogram \<Rightarrow>
        bindM (scoped_catalogue_loop dies subprogram virtual_pc [0..<length dies] smap_empty) (\<lambda>selected.
        returnM (Some (catalogue_entries selected), next_unit)))))"

fun inline_catalogue_loop ::
  "die list \<Rightarrow> nat \<Rightarrow> u64 \<Rightarrow> u8 list \<Rightarrow> u64 \<Rightarrow> u16 \<Rightarrow> nat list \<Rightarrow> catalogue \<Rightarrow> ('s, catalogue) prog" where
  "inline_catalogue_loop dies inline_index pc ranges unit_base unit_version [] selected = returnM selected"
| "inline_catalogue_loop dies inline_index pc ranges unit_base unit_version (index # rest) selected =
    (let skip = inline_catalogue_loop dies inline_index pc ranges unit_base unit_version rest selected in
     bindM (die_at dies index) (\<lambda>d.
     if \<not> is_local d then skip
     else bindM (inline_local_scope_depth dies index inline_index pc ranges unit_base unit_version) (\<lambda>depth. case depth of
       None \<Rightarrow> skip
     | Some depth \<Rightarrow>
         bindM (attribute_with_abstract_origin dies index kDwAtName) (\<lambda>name. case name of
           None \<Rightarrow> skip
         | Some name \<Rightarrow>
             if av_text name = [] then skip
             else bindM (catalogue_add ''inline scoped-local catalogue exceeds the bounded 64-name limit''
               ''ambiguous inline local name at equal lexical depth: '' (av_text name) depth (local_kind d) selected)
               (inline_catalogue_loop dies inline_index pc ranges unit_base unit_version rest)))))"

text \<open>The inlined subroutine at an index owns the address, and a subprogram owns it; the result is the base address of the
  unit and the subprogram.\<close>

definition check_inline_owner :: "die list \<Rightarrow> nat \<Rightarrow> u64 \<Rightarrow> u8 list \<Rightarrow> u16 \<Rightarrow> ('s, u64 \<times> nat) prog" where
  "check_inline_owner dies inline_index virtual_pc ranges unit_version =
    bindM (die_at dies inline_index) (\<lambda>d.
    if die_tag d \<noteq> kDwTagInlinedSubroutine
    then throwM (RuntimeError ''selected inline context does not reference an inline DIE'')
    else bindM (compilation_unit_base dies) (\<lambda>unit_base.
      bindM (inline_scope_contains_pc d virtual_pc ranges unit_base unit_version) (\<lambda>inside.
      if \<not> inside
      then throwM (RuntimeError ''selected inline context no longer owns the physical frame PC'')
      else bindM (find_physical_subprogram dies virtual_pc ranges unit_base unit_version) (\<lambda>found. case found of
        None \<Rightarrow> throwM (RuntimeError ''selected inline context lost physical-frame ownership'')
      | Some subprogram \<Rightarrow> bindM (is_descendant_of dies inline_index subprogram) (\<lambda>below.
          if \<not> below
          then throwM (RuntimeError ''selected inline context lost physical-frame ownership'')
          else returnM (unit_base, subprogram))))))"

definition discover_inline_locals_unit ::
  "debug_sections \<Rightarrow> u8 list \<Rightarrow> u64 \<Rightarrow> nat \<Rightarrow> nat \<Rightarrow> ('s, local_discovery_entry list option \<times> nat) prog" where
  "discover_inline_locals_unit ds ranges virtual_pc inline_die_offset unit_start =
    bindM (parse_unit_dies ds unit_start) (\<lambda>(dies, next_unit, unit_version).
    case die_index_by_offset dies inline_die_offset of
      None \<Rightarrow> returnM (None, next_unit)
    | Some inline_index \<Rightarrow>
        bindM (check_inline_owner dies inline_index virtual_pc ranges unit_version) (\<lambda>(unit_base, _).
        bindM (inline_catalogue_loop dies inline_index virtual_pc ranges unit_base unit_version [0..<length dies] smap_empty)
          (\<lambda>selected. returnM (Some (catalogue_entries selected), next_unit))))"

section \<open>Discovery\<close>

text \<open>The loop over the units: the result of the first that has one. The fuel is the size of the section.\<close>

fun unit_loop :: "nat \<Rightarrow> nat \<Rightarrow> string \<Rightarrow> (nat \<Rightarrow> ('s, 'r option \<times> nat) prog) \<Rightarrow> ('s, 'r) prog \<Rightarrow> nat \<Rightarrow> ('s, 'r) prog" where
  "unit_loop 0 section_size stalled visit finish start = divergeM"
| "unit_loop (Suc n) section_size stalled visit finish start =
    (if \<not> start < section_size then finish
     else bindM (visit start) (\<lambda>(result, next_unit). case result of
       Some r \<Rightarrow> returnM r
     | None \<Rightarrow> if next_unit \<le> start then throwM (RuntimeError stalled)
         else unit_loop n section_size stalled visit finish next_unit))"

definition over_units ::
  "debug_sections \<Rightarrow> string \<Rightarrow> (nat \<Rightarrow> ('s, 'r option \<times> nat) prog) \<Rightarrow> ('s, 'r) prog \<Rightarrow> ('s, 'r) prog" where
  "over_units ds stalled visit finish =
    unit_loop (length (ds_info ds) + 1) (length (ds_info ds)) stalled visit finish 0"

text \<open>The module of the frame, its debug file, and the sections: the common start of the functions on a core.\<close>

definition snapshot_frame_debug ::
  "'k files \<Rightarrow> (path \<Rightarrow> bool) \<Rightarrow> snapshot_object \<Rightarrow> snapshot_frame \<Rightarrow> module_paths \<Rightarrow> string \<Rightarrow>
     ('k, snapshot_module_address \<times> path \<times> debug_sections \<times> u8 list) prog" where
  "snapshot_frame_debug fs regular so frame mp changed =
    thenM (validate_snapshot_inspection_frame so frame)
    (thenM (validate_snapshot_frame_lookup_pc frame)
    (bindM (snapshot_frame_lookup_pc frame) (\<lambda>lookup_pc.
    bindM (resolve_snapshot_module_address fs regular (so_core so) lookup_pc mp) (\<lambda>owner.
    if sa_module_path owner \<noteq> sf_module_path frame then throwM (LogicError changed)
    else bindM (resolve_debug_file fs regular mp (sa_module_path owner)) (\<lambda>debug_path.
      bindM (read_debug_sections fs (bytes_text debug_path)) (\<lambda>ds.
      bindM (read_debug_ranges fs (bytes_text debug_path)) (\<lambda>ranges.
      returnM (owner, debug_path, ds, ranges))))))))"

definition discover_inline_call_chain ::
  "'k files \<Rightarrow> (path \<Rightarrow> bool) \<Rightarrow> snapshot_object \<Rightarrow> snapshot_frame \<Rightarrow> module_paths \<Rightarrow> ('k, inline_context list) prog" where
  "discover_inline_call_chain fs regular so frame mp =
    bindM (snapshot_frame_debug fs regular so frame mp ''snapshot inline discovery module ownership changed'')
      (\<lambda>(owner, debug_path, ds, ranges).
    over_units ds ''DWARF inline parser did not advance to the next unit''
      (discover_inline_unit fs ds ranges (sa_virtual_address owner) (sa_module_path owner) debug_path)
      (returnM []))"

definition discover_snapshot_local_values ::
  "'k files \<Rightarrow> (path \<Rightarrow> bool) \<Rightarrow> snapshot_object \<Rightarrow> snapshot_frame \<Rightarrow> module_paths \<Rightarrow>
     ('k, local_discovery_entry list) prog" where
  "discover_snapshot_local_values fs regular so frame mp =
    bindM (snapshot_frame_debug fs regular so frame mp ''snapshot local discovery module ownership changed'')
      (\<lambda>(owner, debug_path, ds, ranges).
    over_units ds ''DWARF parser did not advance to the next unit''
      (discover_scoped_local_catalogue_unit ds ranges (sa_virtual_address owner))
      (throwM (RuntimeError
        ''snapshot local discovery PC is not covered by a supported DWARF4/5 subprogram'')))"

definition discover_inline_local_values ::
  "'k files \<Rightarrow> (path \<Rightarrow> bool) \<Rightarrow> snapshot_object \<Rightarrow> snapshot_frame \<Rightarrow> nat \<Rightarrow> module_paths \<Rightarrow>
     ('k, local_discovery_entry list) prog" where
  "discover_inline_local_values fs regular so frame inline_die_offset mp =
    bindM (snapshot_frame_debug fs regular so frame mp ''snapshot inline local discovery module ownership changed'')
      (\<lambda>(owner, debug_path, ds, ranges).
    over_units ds ''DWARF inline-local parser did not advance to the next unit''
      (discover_inline_locals_unit ds ranges (sa_virtual_address owner) inline_die_offset)
      (throwM (RuntimeError ''selected inline DIE is unavailable in the owning debug file'')))"

section \<open>A frame of a live process\<close>

definition validate_inspection_frame :: "'k os \<Rightarrow> inspection_frame \<Rightarrow> ('k world, unit) prog" where
  "validate_inspection_frame os f = bindM dbgM (\<lambda>d.
    if p_state (d_process d) \<noteq> PS_Stopped
    then throwM (LogicError ''inspection-frame local-value lookup requires a stopped tracee'')
    else if if_process_pid f \<noteq> debugger_pid d \<or> if_tid f \<noteq> p_current_tid (d_process d)
    then throwM (LogicError ''inspection frame belongs to a different process/TID domain'')
    else if if_origin_stop_sequence f \<noteq> si_sequence (d_stop_info d)
    then throwM (LogicError ''inspection frame is stale after debugger stop changed'')
    else bindM (registers os) (\<lambda>live.
      if rip live \<noteq> if_origin_runtime_pc f \<or> rsp live \<noteq> if_origin_stack_pointer f \<or>
         (\<exists>fp \<in> set_option (if_origin_frame_pointer f). rbp live \<noteq> fp)
      then throwM (LogicError ''inspection frame is stale after execution state changed'')
      else if if_runtime_pc f = 0 \<or> if_stack_pointer f = 0 \<or> if_module_path f = []
      then throwM (InvalidArgument ''inspection frame is incomplete'')
      else returnM ()))"

definition discover_local_values ::
  "'k os \<Rightarrow> 'k files \<Rightarrow> elf_file \<Rightarrow> inspection_frame \<Rightarrow> ('k world, local_discovery_entry list) prog" where
  "discover_local_values os fs preferred_elf f = thenM (validate_inspection_frame os f)
    (let module_path = (if if_module_path f = [] then ef_path preferred_elf else if_module_path f) in
     on_kern (bindM (open_elf fs module_path) (\<lambda>elf.
       bindM (load_bias fs elf (if_process_pid f)) (\<lambda>bias.
       if if_runtime_pc f < bias
       then throwM (RuntimeError ''inspection-frame local discovery PC is below module load bias'')
       else bindM (read_debug_sections fs (ef_path elf)) (\<lambda>ds.
         bindM (read_debug_ranges fs (ef_path elf)) (\<lambda>ranges.
         over_units ds ''DWARF local-discovery parser did not advance to the next unit''
           (discover_scoped_local_catalogue_unit ds ranges (if_runtime_pc f - bias))
           (throwM (RuntimeError
             ''inspection-frame local discovery PC is not covered by a supported DWARF4/5 subprogram'')))))))) "

end
