(* ===== verification/DwarfValues.thy ===== *)
theory DwarfValues
  imports DwarfTypes InlineScopes CoreNotes
begin

text \<open>
  Values of variables in a core, from \<^verbatim>\<open>src/src/dwarf/source_lookup_impl.inc\<close> (locations, decoding),
  \<^verbatim>\<open>src/src/dwarf/source_lookup_snapshot_impl.inc\<close> (the names of a subprogram) and
  \<^verbatim>\<open>src/src/dwarf/source_lookup.cpp\<close>, \<^verbatim>\<open>src/src/dwarf/inline_member.hpp\<close> (the names of an inlined call).
  \<^verbatim>\<open>std::overflow_error\<close> is a \<open>RuntimeError\<close>; an address has 64 bits, so the checks that a 64-bit number fits in one
  never fire. Checked and signed additions are those of the call-frame reader, which has the same functions.
\<close>

abbreviation (input) kDwAtLocation :: u64 where "kDwAtLocation \<equiv> 0x02"
abbreviation (input) kDwAtFrameBase :: u64 where "kDwAtFrameBase \<equiv> 0x40"
abbreviation (input) kDwLleEndOfList :: u8 where "kDwLleEndOfList \<equiv> 0x00"
abbreviation (input) kDwLleOffsetPair :: u8 where "kDwLleOffsetPair \<equiv> 0x04"
abbreviation (input) kDwLleBaseAddress :: u8 where "kDwLleBaseAddress \<equiv> 0x06"
abbreviation (input) kDwOpAddr :: u8 where "kDwOpAddr \<equiv> 0x03"
abbreviation (input) kDwOpConstu :: u8 where "kDwOpConstu \<equiv> 0x10"
abbreviation (input) kDwOpXor :: u8 where "kDwOpXor \<equiv> 0x27"
abbreviation (input) kDwOpReg1 :: u8 where "kDwOpReg1 \<equiv> 0x51"
abbreviation (input) kDwOpReg2 :: u8 where "kDwOpReg2 \<equiv> 0x52"
abbreviation (input) kDwOpReg4 :: u8 where "kDwOpReg4 \<equiv> 0x54"
abbreviation (input) kDwOpReg5 :: u8 where "kDwOpReg5 \<equiv> 0x55"
abbreviation (input) kSnapshotDwOpRsp :: u8 where "kSnapshotDwOpRsp \<equiv> 0x57"
abbreviation (input) kSnapshotDwOpR12 :: u8 where "kSnapshotDwOpR12 \<equiv> 0x5c"
abbreviation (input) kSnapshotDwOpXmm0 :: u8 where "kSnapshotDwOpXmm0 \<equiv> 0x61"
abbreviation (input) kDwOpBreg3 :: u8 where "kDwOpBreg3 \<equiv> 0x73"
abbreviation (input) kDwOpFbreg :: u8 where "kDwOpFbreg \<equiv> 0x91"
abbreviation (input) kDwOpPiece :: u8 where "kDwOpPiece \<equiv> 0x93"
abbreviation (input) kDwOpCallFrameCfa :: u8 where "kDwOpCallFrameCfa \<equiv> 0x9c"
abbreviation (input) kDwOpStackValue :: u8 where "kDwOpStackValue \<equiv> 0x9f"

section \<open>Location lists\<close>

text \<open>The loops over the entries of a location list; the cursor is the state, the fuel the size of the section.\<close>

fun dwarf4_location_loop :: "nat \<Rightarrow> u8 list \<Rightarrow> u64 \<Rightarrow> u64 \<Rightarrow> u8 list reader" where
  "dwarf4_location_loop 0 locations virtual_pc base_address = divergeM"
| "dwarf4_location_loop (Suc n) locations virtual_pc base_address = bindM getM (\<lambda>start.
    if \<not> start < length locations then throwM (RuntimeError ''local value has no location for the current PC'')
    else bindM (di_u64 locations (length locations) ''DWARF4 location-list begin'') (\<lambda>range_begin.
      bindM (di_u64 locations (length locations) ''DWARF4 location-list end'') (\<lambda>range_end.
      if range_begin = 0 \<and> range_end = 0
      then throwM (RuntimeError ''local value has no location for the current PC'')
      else if range_begin = - 1 then dwarf4_location_loop n locations virtual_pc range_end
      else bindM (di_u16 locations (length locations) ''DWARF4 location expression length'') (\<lambda>len.
        bindM getM (\<lambda>cursor.
        if unat len > length locations - cursor
        then throwM (RuntimeError ''DWARF4 location expression extends past .debug_loc'')
        else bindM (add_unsigned base_address range_begin ''location-list range begin'') (\<lambda>absolute_begin.
          bindM (add_unsigned base_address range_end ''location-list range end'') (\<lambda>absolute_end.
          if absolute_end < absolute_begin then throwM (RuntimeError ''DWARF4 location-list range is reversed'')
          else if virtual_pc \<ge> absolute_begin \<and> virtual_pc < absolute_end
          then returnM (take (unat len) (drop cursor locations))
          else thenM (modifyM (\<lambda>c. c + unat len)) (dwarf4_location_loop n locations virtual_pc base_address))))))))"

definition active_dwarf4_location_expression :: "debug_sections \<Rightarrow> u64 \<Rightarrow> u64 \<Rightarrow> u64 \<Rightarrow> ('s, u8 list) prog" where
  "active_dwarf4_location_expression ds offset virtual_pc initial_base =
    (if ds_locations ds = [] then throwM (RuntimeError ''local value location list requires .debug_loc'')
     else if unat offset \<ge> length (ds_locations ds)
     then throwM (RuntimeError ''local value location-list offset is out of range'')
     else at_cursor (unat offset)
       (dwarf4_location_loop (length (ds_locations ds) + 1) (ds_locations ds) virtual_pc initial_base))"

fun contribution_loop :: "nat \<Rightarrow> debug_sections \<Rightarrow> nat \<Rightarrow> nat \<Rightarrow> ('s, loclists_contribution) prog" where
  "contribution_loop 0 ds wanted start = divergeM"
| "contribution_loop (Suc n) ds wanted start =
    (if \<not> start < length (ds_location_lists ds)
     then throwM (RuntimeError ''DWARF5 location-list offset is outside all contributions'')
     else bindM (loclists_contribution_at ds start) (\<lambda>contribution.
       if wanted \<ge> lc_offsets_base contribution \<and> wanted < lc_end contribution then returnM contribution
       else if lc_end contribution \<le> start then throwM (RuntimeError ''.debug_loclists parser did not advance'')
       else contribution_loop n ds wanted (lc_end contribution)))"

definition loclists_contribution_for_offset :: "debug_sections \<Rightarrow> u64 \<Rightarrow> ('s, loclists_contribution) prog" where
  "loclists_contribution_for_offset ds offset =
    contribution_loop (length (ds_location_lists ds) + 1) ds (unat offset) 0"

fun dwarf5_location_loop :: "nat \<Rightarrow> u8 list \<Rightarrow> nat \<Rightarrow> u64 \<Rightarrow> u64 \<Rightarrow> u8 list reader" where
  "dwarf5_location_loop 0 tab limit virtual_pc base_address = divergeM"
| "dwarf5_location_loop (Suc n) tab limit virtual_pc base_address = bindM getM (\<lambda>start.
    if \<not> start < limit then throwM (RuntimeError ''local value has no location for the current PC'')
    else bindM (di_u8 tab limit ''DWARF5 location-list entry'') (\<lambda>entry.
    if entry = kDwLleEndOfList then throwM (RuntimeError ''local value has no location for the current PC'')
    else if entry = kDwLleBaseAddress then
      bindM (di_u64 tab limit ''DW_LLE_base_address'') (dwarf5_location_loop n tab limit virtual_pc)
    else if entry \<noteq> kDwLleOffsetPair
    then throwM (RuntimeError (''unsupported DWARF5 location-list entry: '' @ to_string (unat entry)))
    else bindM (di_uleb tab limit ''DW_LLE_offset_pair begin'') (\<lambda>range_begin.
      bindM (di_uleb tab limit ''DW_LLE_offset_pair end'') (\<lambda>range_end.
      bindM (di_uleb tab limit ''DWARF5 location expression length'') (\<lambda>len.
      bindM getM (\<lambda>cursor.
      if unat len > limit - cursor
      then throwM (RuntimeError ''DWARF5 location expression extends past contribution'')
      else bindM (add_unsigned base_address range_begin ''DWARF5 location range begin'') (\<lambda>absolute_begin.
        bindM (add_unsigned base_address range_end ''DWARF5 location range end'') (\<lambda>absolute_end.
        if absolute_end < absolute_begin then throwM (RuntimeError ''DWARF5 location-list range is reversed'')
        else if virtual_pc \<ge> absolute_begin \<and> virtual_pc < absolute_end
        then returnM (take (unat len) (drop cursor tab))
        else thenM (modifyM (\<lambda>c. c + unat len)) (dwarf5_location_loop n tab limit virtual_pc base_address)))))))))"

definition active_dwarf5_location_expression :: "debug_sections \<Rightarrow> u64 \<Rightarrow> u64 \<Rightarrow> u64 \<Rightarrow> ('s, u8 list) prog" where
  "active_dwarf5_location_expression ds offset virtual_pc initial_base =
    bindM (loclists_contribution_for_offset ds offset) (\<lambda>contribution. at_cursor (unat offset)
      (dwarf5_location_loop (lc_end contribution + 1) (ds_location_lists ds) (lc_end contribution) virtual_pc initial_base))"

definition active_location_expression :: "debug_sections \<Rightarrow> u64 \<Rightarrow> u64 \<Rightarrow> u64 \<Rightarrow> u16 \<Rightarrow> ('s, u8 list) prog" where
  "active_location_expression ds offset virtual_pc initial_base unit_version =
    (if unit_version = 4 then active_dwarf4_location_expression ds offset virtual_pc initial_base
     else if unit_version = 5 then active_dwarf5_location_expression ds offset virtual_pc initial_base
     else throwM (RuntimeError ''unsupported DWARF unit version for location list''))"

section \<open>Decoding\<close>

definition decode_integer :: "u8 list \<Rightarrow> nat \<Rightarrow> nat \<Rightarrow> ('s, u64) prog" where
  "decode_integer bytes offset byte_size =
    (if byte_size = 0 \<or> byte_size > 8 \<or> offset > length bytes \<or> byte_size > length bytes - offset
     then throwM (RuntimeError ''local integer decode exceeds owned storage'')
     else returnM (le_word (take byte_size (drop offset bytes))))"

definition bounded_bit_mask :: "nat \<Rightarrow> ('s, u64) prog" where
  "bounded_bit_mask bits = (if bits = 0 \<or> bits > 64 then throwM (LogicError ''bit-field width is out of range'')
     else returnM (if bits = 64 then - 1 else push_bit bits 1 - 1))"

text \<open>\<^verbatim>\<open>bytes[index]\<close>.\<close>

definition byte_at :: "u8 list \<Rightarrow> nat \<Rightarrow> ('s, u8) prog" where
  "byte_at bytes index = (if index < length bytes then returnM (bytes ! index)
     else throwM (UndefinedBehaviour ''vector index out of range''))"

fun bit_field_loop :: "u8 list \<Rightarrow> nat \<Rightarrow> nat list \<Rightarrow> u64 \<Rightarrow> ('s, u64) prog" where
  "bit_field_loop bytes bit_offset [] raw = returnM raw"
| "bit_field_loop bytes bit_offset (b # bs) raw =
    bindM (byte_at bytes ((bit_offset + b) div 8)) (\<lambda>byte.
    bit_field_loop bytes bit_offset bs
      (if drop_bit ((bit_offset + b) mod 8) byte AND 1 \<noteq> 0 then raw OR push_bit b 1 else raw))"

definition decode_bounded_bit_field :: "u8 list \<Rightarrow> struct_member_type \<Rightarrow> ('s, u64) prog" where
  "decode_bounded_bit_field bytes member = (case mt_bit_slice member of
     None \<Rightarrow> throwM (LogicError ''bit-field member lost bounded integer metadata'')
   | Some bits \<Rightarrow>
       if mt_kind member \<noteq> LK_Integer \<or> mt_pointee_type member \<noteq> None \<or> mt_enum_type member \<noteq> None \<or>
          mt_members member \<noteq> [] \<or> mt_byte_size member = 0 \<or> mt_byte_size member > 8
       then throwM (LogicError ''bit-field member lost bounded integer metadata'')
       else let storage_bits = mt_byte_size member * 8; width = bs_bit_size bits in
         if width = 0 \<or> width > storage_bits \<or> width > 64 \<or> bs_bit_offset bits > length bytes * 8 \<or>
            width > length bytes * 8 - bs_bit_offset bits
         then throwM (LogicError ''bit-field slice exceeds immutable aggregate bytes'')
         else bindM (bit_field_loop bytes (bs_bit_offset bits) [0..<width] 0) (\<lambda>all_bits.
           bindM (bounded_bit_mask width) (\<lambda>mask.
           let raw = all_bits AND mask in
           if mt_is_signed member \<and> width < storage_bits \<and> drop_bit (width - 1) raw AND 1 \<noteq> 0
           then bindM (bounded_bit_mask storage_bits) (\<lambda>storage_mask. returnM ((raw OR NOT mask) AND storage_mask))
           else returnM raw)))"

text \<open>\<^verbatim>\<open>1 << bits\<close> is undefined for 64 bits and more.\<close>

definition truncate_integer :: "u64 \<Rightarrow> nat \<Rightarrow> ('s, u64) prog" where
  "truncate_integer v byte_size = (if byte_size = 8 then returnM v
     else if byte_size * 8 \<ge> 64 then throwM (UndefinedBehaviour ''shift count'')
     else returnM (v AND (push_bit (byte_size * 8) 1 - 1)))"

definition plain_integer_member :: "struct_member_type \<Rightarrow> bool" where
  "plain_integer_member m \<longleftrightarrow> mt_kind m = LK_Integer \<and> mt_pointee_type m = None \<and> mt_bit_slice m = None \<and>
     mt_enum_type m = None \<and> mt_members m = []"

definition integer_struct_member :: "struct_member_type \<Rightarrow> u64 \<Rightarrow> struct_member" where
  "integer_struct_member m raw =
    Struct_member (mt_name m) raw (mt_byte_size m) (mt_is_signed m) LK_Integer None None None [] (mt_offset m)"

definition materialize_terminal :: "u8 list \<Rightarrow> nat \<Rightarrow> struct_member_type \<Rightarrow> struct_member_type \<Rightarrow> ('s, struct_member) prog" where
  "materialize_terminal bytes outer_size member terminal =
    (if \<not> plain_integer_member terminal \<or> mt_byte_size terminal = 0 \<or> mt_byte_size terminal > 8 \<or>
        mt_offset terminal > mt_byte_size member \<or> mt_byte_size terminal > mt_byte_size member - mt_offset terminal
     then throwM (LogicError ''nested aggregate terminal is outside the bounded scalar model'')
     else if mt_offset terminal > u64_max - mt_offset member
     then throwM (RuntimeError ''nested aggregate terminal offset overflows'')
     else let absolute_offset = mt_offset member + mt_offset terminal in
       if absolute_offset > outer_size \<or> mt_byte_size terminal > outer_size - absolute_offset \<or>
          absolute_offset > length bytes \<or> mt_byte_size terminal > length bytes - absolute_offset
       then throwM (LogicError ''nested aggregate terminal exceeds outer storage'')
       else bindM (decode_integer bytes absolute_offset (mt_byte_size terminal)) (\<lambda>raw.
         returnM (integer_struct_member terminal raw)))"

definition materialize_bounded_nested_structure_member ::
  "u8 list \<Rightarrow> nat \<Rightarrow> struct_member_type \<Rightarrow> ('s, struct_member) prog" where
  "materialize_bounded_nested_structure_member bytes outer_size member =
    (if mt_kind member \<noteq> LK_Structure \<or> mt_byte_size member = 0 \<or> mt_byte_size member > kMaxLocalStructSize \<or>
        mt_offset member > outer_size \<or> mt_byte_size member > outer_size - mt_offset member \<or>
        mt_pointee_type member \<noteq> None \<or> mt_bit_slice member \<noteq> None \<or> mt_enum_type member \<noteq> None \<or>
        mt_members member = [] \<or> length (mt_members member) > kMaxLocalStructMembers
     then throwM (LogicError ''nested aggregate member violates bounded layout ownership'')
     else bindM (mapM (materialize_terminal bytes outer_size member) (mt_members member)) (\<lambda>members.
       returnM (Struct_member (mt_name member) 0 (mt_byte_size member) False LK_Structure None None None members (mt_offset member))))"

text \<open>One turn of the loop over the members, the same in the function on registers and in the one on memory but for a
  message.\<close>

definition materialize_member :: "string \<Rightarrow> u8 list \<Rightarrow> nat \<Rightarrow> struct_member_type \<Rightarrow> ('s, struct_member) prog" where
  "materialize_member unexpected bytes outer_size member =
    (if mt_kind member = LK_Structure then materialize_bounded_nested_structure_member bytes outer_size member
     else if mt_members member \<noteq> [] then throwM (LogicError unexpected)
     else bindM (if mt_bit_slice member \<noteq> None then decode_bounded_bit_field bytes member
                 else decode_integer bytes (mt_offset member) (mt_byte_size member)) (\<lambda>raw.
       returnM (Struct_member (mt_name member) raw (mt_byte_size member) (mt_is_signed member) (mt_kind member)
         (mt_pointee_type member) (mt_bit_slice member) (mt_enum_type member) [] (mt_offset member))))"

definition decode_structure :: "path \<Rightarrow> u8 list \<Rightarrow> local_value_type \<Rightarrow> u8 list \<Rightarrow> ('s, local_value) prog" where
  "decode_structure module_path name t bytes =
    (if vt_kind t \<noteq> LK_Structure \<or> length bytes \<noteq> vt_byte_size t
     then throwM (RuntimeError ''local struct bytes do not match owned aggregate storage'')
     else bindM (mapM (materialize_member ''non-structure member unexpectedly carries nested metadata'' bytes (vt_byte_size t))
         (vt_members t)) (\<lambda>members.
       returnM ((scalar_value module_path name 0 (vt_byte_size t) False LK_Structure)\<lparr>lv_members := members\<rparr>)))"

section \<open>Values in pieces of registers\<close>

definition store_piece :: "u8 list \<Rightarrow> nat \<Rightarrow> nat \<Rightarrow> u64 \<Rightarrow> ('s, u8 list) prog" where
  "store_piece bytes offset width v =
    (if (width \<noteq> 4 \<and> width \<noteq> 8) \<or> offset > length bytes \<or> width > length bytes - offset
     then throwM (LogicError ''register-piece materializer received an invalid proven piece extent'')
     else returnM (take offset bytes @ map (\<lambda>i. ucast (drop_bit (i * 8) v AND 0xff)) [0..<width] @ drop (offset + width) bytes))"

definition read_op :: "u8 list \<Rightarrow> string \<Rightarrow> u8 reader" where
  "read_op expression what = bindM getM (\<lambda>cursor.
     if cursor \<ge> length expression then throwM (RuntimeError (''register-piece local is missing '' @ what))
     else thenM (modifyM (\<lambda>c. c + 1)) (returnM (expression ! cursor)))"

definition require_piece :: "u8 list \<Rightarrow> nat \<Rightarrow> string \<Rightarrow> unit reader" where
  "require_piece expression expected what = bindM (read_op expression what) (\<lambda>op.
     if op \<noteq> kDwOpPiece then throwM (RuntimeError (''register-piece local requires DW_OP_piece after '' @ what))
     else bindM (di_uleb expression (length expression) what) (\<lambda>width.
       if unat width \<noteq> expected
       then throwM (RuntimeError (''register-piece local has an unsupported '' @ what @ '' width''))
       else returnM ()))"

definition require_end :: "u8 list \<Rightarrow> string \<Rightarrow> 'a \<Rightarrow> 'a reader" where
  "require_end expression trailing result = bindM getM (\<lambda>cursor.
     if cursor \<noteq> length expression then throwM (RuntimeError trailing) else returnM result)"

definition int_member_at :: "struct_member_type \<Rightarrow> nat \<Rightarrow> bool" where
  "int_member_at m offset \<longleftrightarrow> plain_integer_member m \<and> mt_offset m = offset \<and> mt_byte_size m = 4"

definition proven_union :: "local_value_type \<Rightarrow> bool" where
  "proven_union t = (case vt_members t of
     [a, b] \<Rightarrow> vt_kind t = LK_Union \<and> vt_array_type t = None \<and> vt_enum_type t = None \<and>
       mt_name a = text_bytes ''signed_value'' \<and> mt_name b = text_bytes ''unsigned_value'' \<and>
       int_member_at a 0 \<and> int_member_at b 0 \<and> mt_is_signed a \<and> \<not> mt_is_signed b
   | _ \<Rightarrow> False)"

definition proven_structure :: "local_value_type \<Rightarrow> bool" where
  "proven_structure t = (case vt_members t of
     [a, b] \<Rightarrow> vt_kind t = LK_Structure \<and> int_member_at a 0 \<and> int_member_at b 4
   | _ \<Rightarrow> False)"

definition proven_array :: "local_value_type \<Rightarrow> bool" where
  "proven_array t = (case vt_array_type t of
     None \<Rightarrow> False
   | Some a \<Rightarrow> vt_kind t = LK_Array \<and> vt_members t = [] \<and> at_element_count a = 2 \<and> at_element_byte_size a = 4 \<and>
       at_element_is_signed a \<and> at_element_kind a = LK_Integer)"

text \<open>The registers of the pieces, each with its width: what the expression says before any register is read.\<close>

definition union_pieces :: "u8 list \<Rightarrow> (u8 \<times> nat) list reader" where
  "union_pieces expression = bindM (read_op expression ''the union register'') (\<lambda>op.
     if op \<noteq> kDwOpReg1 \<and> op \<noteq> kDwOpReg2
     then throwM (RuntimeError ''4-byte union register requires compiler-proven RDX or RCX ownership'')
     else thenM (if op = kDwOpReg1 then require_piece expression 4 ''GCC union 4-byte piece'' else returnM ())
       (require_end expression ''unsupported trailing operations after 4-byte register union'' [(op, 4)]))"

definition wide_pieces :: "u8 list \<Rightarrow> (u8 \<times> nat) list reader" where
  "wide_pieces expression = bindM (read_op expression ''the first register'') (\<lambda>op.
     if op \<noteq> kDwOpReg5
     then throwM (RuntimeError ''16-byte register-piece local requires compiler-proven DW_OP_reg5 first'')
     else thenM (require_piece expression 8 ''first 8-byte piece'')
       (bindM (read_op expression ''the second register'') (\<lambda>op2.
       if op2 \<noteq> kDwOpReg4
       then throwM (RuntimeError ''16-byte register-piece local requires compiler-proven DW_OP_reg4 second'')
       else thenM (require_piece expression 8 ''second 8-byte piece'')
         (require_end expression ''unsupported trailing operations after 16-byte register-piece local'' [(op, 8), (op2, 8)]))))"

definition pair_pieces :: "u8 list \<Rightarrow> (u8 \<times> nat) list reader" where
  "pair_pieces expression = bindM (read_op expression ''the first 4-byte register'') (\<lambda>op.
     if op \<noteq> kDwOpReg1 \<and> op \<noteq> kDwOpReg2
     then throwM (RuntimeError ''8-byte register-piece local requires compiler-proven RDX/RCX pieces'')
     else thenM (require_piece expression 4 ''first 4-byte piece'')
       (bindM (read_op expression ''the second 4-byte register'') (\<lambda>op2.
       if (op = kDwOpReg1 \<and> op2 \<noteq> kDwOpReg2) \<or> (op = kDwOpReg2 \<and> op2 \<noteq> kDwOpReg1)
       then throwM (RuntimeError ''8-byte register-piece local requires the opposite RDX/RCX register second'')
       else thenM (require_piece expression 4 ''second 4-byte piece'')
         (require_end expression ''unsupported trailing operations after 8-byte register-piece local'' [(op, 4), (op2, 4)]))))"

definition register_pieces :: "u8 list \<Rightarrow> local_value_type \<Rightarrow> ('s, (u8 \<times> nat) list) prog" where
  "register_pieces expression t = at_cursor 0
    (if vt_byte_size t = 4 then
       (if \<not> proven_union t
        then throwM (RuntimeError ''4-byte register value requires the compiler-proven signed/unsigned union shape'')
        else union_pieces expression)
     else if vt_byte_size t = 16 then
       (if vt_kind t \<noteq> LK_Structure
        then throwM (RuntimeError ''16-byte register-piece local requires the proven structure shape'')
        else wide_pieces expression)
     else if vt_byte_size t = 8 then
       (if \<not> proven_structure t \<and> \<not> proven_array t
        then throwM (RuntimeError ''8-byte register-piece local requires the compiler-proven two-int32 structure/array shape'')
        else pair_pieces expression)
     else throwM (RuntimeError
       ''register-piece local is outside the proven 4-byte union, 8-byte, or 16-byte typed-value shapes''))"

fun store_pieces :: "(u8 \<Rightarrow> ('s, u64) prog) \<Rightarrow> nat \<Rightarrow> (u8 \<times> nat) list \<Rightarrow> u8 list \<Rightarrow> ('s, u8 list) prog" where
  "store_pieces register offset [] bytes = returnM bytes"
| "store_pieces register offset ((op, width) # ps) bytes = bindM (register op) (\<lambda>v.
    bindM (store_piece bytes offset width v) (store_pieces register (offset + width) ps))"

definition evaluate_register_piece_value ::
  "u8 list \<Rightarrow> (u8 \<Rightarrow> ('s, u64) prog) \<Rightarrow> local_value_type \<Rightarrow> ('s, u8 list) prog" where
  "evaluate_register_piece_value expression register t = bindM (register_pieces expression t) (\<lambda>ps.
     store_pieces register 0 ps (replicate (vt_byte_size t) 0))"

section \<open>Addresses\<close>

definition evaluate_breg3_xor_stack_value :: "u8 list \<Rightarrow> u64 \<Rightarrow> ('s, u64) prog" where
  "evaluate_breg3_xor_stack_value expression rbx_value =
    (if expression = [] \<or> hd expression \<noteq> kDwOpBreg3
     then throwM (RuntimeError ''local value location is not the compiler-proven DW_OP_breg3 XOR form'')
     else at_cursor 1 (bindM (di_sleb expression (length expression) ''DW_OP_breg3 offset'') (\<lambda>offset. bindM getM (\<lambda>c.
       if c \<ge> length expression \<or> expression ! c \<noteq> kDwOpConstu
       then throwM (RuntimeError ''DW_OP_breg3 XOR value requires the compiler-proven DW_OP_constu'')
       else thenM (modifyM (\<lambda>c. c + 1))
         (bindM (di_uleb expression (length expression) ''DW_OP_constu value'') (\<lambda>constant. bindM getM (\<lambda>c.
         if c \<ge> length expression \<or> expression ! c \<noteq> kDwOpXor
         then throwM (RuntimeError ''DW_OP_breg3 XOR value requires the compiler-proven DW_OP_xor'')
         else if c + 1 \<ge> length expression \<or> expression ! (c + 1) \<noteq> kDwOpStackValue
         then throwM (RuntimeError ''DW_OP_breg3 XOR value requires the compiler-proven trailing DW_OP_stack_value'')
         else if c + 2 \<noteq> length expression
         then throwM (RuntimeError ''unsupported trailing operations after DW_OP_breg3 XOR value'')
         else bindM (add_signed rbx_value (sint offset) ''DW_OP_breg3 XOR base'') (\<lambda>base. returnM (base XOR constant)))))))))"

definition decode_snapshot_address :: "u8 list \<Rightarrow> ('s, u64) prog" where
  "decode_snapshot_address expression =
    (if length expression \<noteq> 9
     then throwM (RuntimeError ''snapshot DW_OP_addr requires one exact x86-64 address operand'')
     else returnM (le_word (tl expression)))"

definition decode_snapshot_scalar :: "snapshot_memory_read \<Rightarrow> nat \<Rightarrow> ('s, u64) prog" where
  "decode_snapshot_scalar memory byte_size =
    (if byte_size = 0 \<or> byte_size > 8 \<or> length (sm_bytes memory) \<noteq> byte_size
     then throwM (RuntimeError ''snapshot scalar memory width is unsupported'')
     else returnM (le_word (sm_bytes memory)))"

definition decode_snapshot_fbreg_offset :: "u8 list \<Rightarrow> ('s, int) prog" where
  "decode_snapshot_fbreg_offset expression =
    (if expression = [] \<or> hd expression \<noteq> kDwOpFbreg
     then throwM (RuntimeError ''snapshot stack local requires one compiler-proven DW_OP_fbreg expression'')
     else at_cursor 1 (bindM (di_sleb expression (length expression) ''snapshot DW_OP_fbreg offset'') (\<lambda>offset.
       require_end expression ''snapshot DW_OP_fbreg does not support trailing operations'' (sint offset))))"

definition snapshot_frame_base ::
  "'k files \<Rightarrow> (path \<Rightarrow> bool) \<Rightarrow> die list \<Rightarrow> nat \<Rightarrow> snapshot_object \<Rightarrow> snapshot_frame \<Rightarrow> module_paths \<Rightarrow>
     snapshot_module_address \<Rightarrow> ('k, u64) prog" where
  "snapshot_frame_base fs regular dies subprogram so frame mp owner = bindM (die_at dies subprogram) (\<lambda>d.
    let unproven = RuntimeError ''snapshot DW_OP_fbreg requires one compiler-proven DW_AT_frame_base operation'' in
    case attribute d kDwAtFrameBase of
      None \<Rightarrow> throwM unproven
    | Some fb \<Rightarrow>
        if av_form fb \<noteq> kDwFormExprloc \<or> length (av_expression fb) \<noteq> 1 then throwM unproven
        else if hd (av_expression fb) = kSnapshotDwOpRsp then
          (case ir_rsp (sf_registers frame) of
             None \<Rightarrow> throwM (RuntimeError ''snapshot DW_OP_reg7 frame base requires immutable RSP ownership'')
           | Some sp \<Rightarrow>
               if sp \<noteq> sf_stack_pointer frame
               then throwM (LogicError ''snapshot inspection-frame RSP ownership does not match its stack pointer'')
               else returnM sp)
        else if hd (av_expression fb) \<noteq> kDwOpCallFrameCfa
        then throwM (RuntimeError ''snapshot DW_OP_fbreg has an unsupported DW_AT_frame_base operation'')
        else bindM (open_eh_frame fs (bytes_text (sa_module_file_path owner))) (\<lambda>cfi.
          if \<not> ef_available cfi then throwM (RuntimeError ''snapshot DW_OP_call_frame_cfa requires owner .eh_frame'')
          else bindM (caller_frame_at cfi
              (\<lambda>address len. bindM (read_snapshot_memory fs regular (so_core so) mp address len) (\<lambda>m. returnM (sm_bytes m)))
              (sa_virtual_address owner)
              \<lparr>ec_instruction_pointer = sf_runtime_pc frame, ec_stack_pointer = sf_stack_pointer frame,
                ec_frame_pointer = sf_frame_pointer frame, ec_rbx = ir_rbx (sf_registers frame)\<rparr>) (\<lambda>caller. case caller of
            None \<Rightarrow> throwM (RuntimeError ''snapshot CFI did not cover compiler-proven DW_OP_call_frame_cfa'')
          | Some c \<Rightarrow> returnM (ec_stack_pointer c))))"

section \<open>Materialising\<close>

definition materialize_snapshot_xmm_value ::
  "'k files \<Rightarrow> snapshot_object \<Rightarrow> snapshot_frame \<Rightarrow> snapshot_module_address \<Rightarrow> u8 list \<Rightarrow> local_value_type \<Rightarrow> u8 list \<Rightarrow>
     ('k, local_value) prog" where
  "materialize_snapshot_xmm_value fs so frame owner name t expression =
    (if vt_kind t \<noteq> LK_Floating \<or> (vt_byte_size t \<noteq> 4 \<and> vt_byte_size t \<noteq> 8)
     then throwM (RuntimeError ''snapshot XMM register location requires a bounded floating scalar type'')
     else if length expression \<noteq> 1
     then throwM (RuntimeError ''snapshot XMM local requires one exact compiler-proven DW_OP_reg expression'')
     else if hd expression \<noteq> kSnapshotDwOpXmm0
     then throwM (RuntimeError ''snapshot XMM local currently supports only compiler-proven DW_OP_reg17 (xmm0)'')
     else bindM (if sf_index frame = 0
         then thenM (snapshot_thread so (sf_thread_tid frame))
           (bindM (read_core_floating_point_state fs (so_path so) (sf_thread_tid frame)) (\<lambda>floating. case floating of
              None \<Rightarrow> throwM (RuntimeError ''selected core thread has no NT_FPREGSET state for XMM source recovery'')
            | Some f \<Rightarrow>
                if fp_xmm f = []
                then throwM (RuntimeError ''snapshot XMM register number is outside the FPREGSET model'')
                else returnM (hd (fp_xmm f))))
         else case ir_xmm0 (sf_registers frame) of
           None \<Rightarrow> throwM (RuntimeError ''historical snapshot frame has no restored XMM0 ownership'')
         | Some x \<Rightarrow> returnM x) (\<lambda>xmm.
       returnM ((scalar_value (sa_module_path owner) name (le_word (take (vt_byte_size t) xmm)) (vt_byte_size t) False LK_Floating)
         \<lparr>lv_storage := LS_CoreRegister\<rparr>)))"

definition array_layout_ok :: "local_value_type \<Rightarrow> bool" where
  "array_layout_ok t = (case vt_array_type t of None \<Rightarrow> False
     | Some a \<Rightarrow> vt_members t = [] \<and> at_element_count a \<noteq> 0 \<and> at_element_count a \<le> kMaxLocalArrayElements \<and>
         at_element_byte_size a \<noteq> 0 \<and> at_element_byte_size a \<le> 8 \<and> at_element_kind a = LK_Integer \<and>
         vt_byte_size t = at_element_count a * at_element_byte_size a)"

definition materialize_array_element :: "u8 list \<Rightarrow> array_type \<Rightarrow> nat \<Rightarrow> ('s, array_element) prog" where
  "materialize_array_element bytes a index =
    bindM (decode_integer bytes (index * at_element_byte_size a) (at_element_byte_size a)) (\<lambda>raw.
    returnM \<lparr>ae_raw_value = raw, ae_byte_size = at_element_byte_size a, ae_is_signed = at_element_is_signed a, ae_kind = LK_Integer\<rparr>)"

definition materialize_bounded_array_bytes :: "path \<Rightarrow> u8 list \<Rightarrow> local_value_type \<Rightarrow> u8 list \<Rightarrow> ('s, local_value) prog" where
  "materialize_bounded_array_bytes module_path name t bytes =
    (if vt_kind t \<noteq> LK_Array \<or> \<not> array_layout_ok t \<or> length bytes \<noteq> vt_byte_size t
     then throwM (RuntimeError ''bounded fixed-array bytes exceed the canonical array model'')
     else let a = the (vt_array_type t) in
       bindM (mapM (materialize_array_element bytes a) [0..<at_element_count a]) (\<lambda>elements.
       returnM ((scalar_value module_path name 0 (vt_byte_size t) False LK_Array)
         \<lparr>lv_elements := elements, lv_array_type := vt_array_type t\<rparr>)))"

definition union_layout_ok :: "local_value_type \<Rightarrow> bool" where
  "union_layout_ok t \<longleftrightarrow> vt_byte_size t \<noteq> 0 \<and> vt_byte_size t \<le> kMaxLocalStructSize \<and> vt_members t \<noteq> [] \<and>
     length (vt_members t) \<le> kMaxLocalStructMembers \<and> vt_array_type t = None"

definition materialize_union_member :: "u8 list \<Rightarrow> nat \<Rightarrow> struct_member_type \<Rightarrow> ('s, struct_member) prog" where
  "materialize_union_member bytes union_size m =
    (if mt_offset m \<noteq> 0 \<or> \<not> plain_integer_member m \<or> mt_byte_size m = 0 \<or> mt_byte_size m > 8 \<or> mt_byte_size m > union_size
     then throwM (LogicError ''bounded union member violates shared-storage semantics'')
     else bindM (decode_integer bytes 0 (mt_byte_size m)) (\<lambda>raw. returnM (integer_struct_member m raw)))"

definition materialize_bounded_union_bytes :: "path \<Rightarrow> u8 list \<Rightarrow> local_value_type \<Rightarrow> u8 list \<Rightarrow> ('s, local_value) prog" where
  "materialize_bounded_union_bytes module_path name t bytes =
    (if vt_kind t \<noteq> LK_Union \<or> \<not> union_layout_ok t \<or> vt_enum_type t \<noteq> None \<or> length bytes \<noteq> vt_byte_size t
     then throwM (RuntimeError ''bounded union bytes exceed the canonical overlapping-storage model'')
     else bindM (mapM (materialize_union_member bytes (vt_byte_size t)) (vt_members t)) (\<lambda>members.
       returnM ((scalar_value module_path name 0 (vt_byte_size t) False LK_Union)\<lparr>lv_members := members\<rparr>)))"

definition enum_metadata_ok :: "local_value_type \<Rightarrow> bool" where
  "enum_metadata_ok t = (case vt_enum_type t of None \<Rightarrow> False
     | Some e \<Rightarrow> et_byte_size e = vt_byte_size t \<and> et_is_signed e = vt_is_signed t \<and> et_enumerators e \<noteq> [])"

text \<open>The value in the bytes, before its storage is recorded.\<close>

definition materialize_bytes :: "path \<Rightarrow> u8 list \<Rightarrow> local_value_type \<Rightarrow> snapshot_memory_read \<Rightarrow> ('s, local_value) prog" where
  "materialize_bytes module_path name t memory =
    (if vt_kind t = LK_Structure then
       (if vt_byte_size t = 0 \<or> vt_byte_size t > kMaxLocalStructSize \<or> length (sm_bytes memory) \<noteq> vt_byte_size t
        then throwM (RuntimeError ''snapshot aggregate bytes exceed the bounded structure model'')
        else bindM (mapM (materialize_member ''snapshot non-structure member unexpectedly carries nested metadata''
            (sm_bytes memory) (vt_byte_size t)) (vt_members t)) (\<lambda>members.
          returnM ((scalar_value module_path name 0 (vt_byte_size t) False LK_Structure)\<lparr>lv_members := members\<rparr>)))
     else if vt_kind t = LK_Union then materialize_bounded_union_bytes module_path name t (sm_bytes memory)
     else if vt_kind t = LK_Array then materialize_bounded_array_bytes module_path name t (sm_bytes memory)
     else if vt_array_type t \<noteq> None
     then throwM (LogicError ''non-array snapshot value unexpectedly carries array metadata'')
     else if vt_kind t = LK_Enumeration \<and> \<not> enum_metadata_ok t
     then throwM (LogicError ''snapshot enum value lost bounded compiler type metadata'')
     else if vt_kind t \<noteq> LK_Enumeration \<and> vt_enum_type t \<noteq> None
     then throwM (LogicError ''non-enum snapshot value unexpectedly carries enum metadata'')
     else bindM (decode_snapshot_scalar memory (vt_byte_size t)) (\<lambda>raw.
       returnM ((scalar_value module_path name raw (vt_byte_size t) (vt_is_signed t) (vt_kind t))
         \<lparr>lv_enum_type := (if vt_kind t = LK_Enumeration then vt_enum_type t else None)\<rparr>)))"

definition materialize_snapshot_memory_value ::
  "path \<Rightarrow> u8 list \<Rightarrow> local_value_type \<Rightarrow> snapshot_memory_read \<Rightarrow> bool \<Rightarrow> ('s, local_value) prog" where
  "materialize_snapshot_memory_value module_path name t memory require_owner_match =
    bindM (materialize_bytes module_path name t memory) (\<lambda>result.
    if sm_provenance memory = MP_Core then returnM (result\<lparr>lv_storage := LS_CoreMemory\<rparr>)
    else if require_owner_match \<and> sm_module_path memory \<noteq> module_path
    then throwM (LogicError ''snapshot local artifact ownership changed during value read'')
    else returnM (result\<lparr>lv_storage := LS_RuntimeArtifact, lv_storage_module_path := sm_module_path memory,
      lv_storage_file_path := sm_module_file_path memory, lv_storage_file_offset := sm_artifact_file_offset memory\<rparr>))"

text \<open>The first check that a member of the pointee of a pointer fails, in the order of the source.\<close>

definition pointee_member_fault :: "local_value_type \<Rightarrow> struct_member_type \<Rightarrow> nat" where
  "pointee_member_fault t m =
    (if mt_byte_size m = 0 \<or> mt_byte_size m > 8 \<or> mt_offset m > vt_byte_size t \<or> mt_byte_size m > vt_byte_size t - mt_offset m then 1
     else if mt_kind m = LK_Integer then (if mt_pointee_type m \<noteq> None then 2 else 0)
     else if mt_kind m = LK_Pointer then
       (if mt_byte_size m \<noteq> 8 \<or> mt_is_signed m \<or>
           (case mt_pointee_type m of None \<Rightarrow> True | Some p \<Rightarrow> pt_byte_size p = 0 \<or> pt_byte_size p > 8) then 3 else 0)
     else 4)"

fun check_pointee_members :: "(string \<Rightarrow> exn) \<Rightarrow> string list \<Rightarrow> local_value_type \<Rightarrow> struct_member_type list \<Rightarrow> ('s, unit) prog" where
  "check_pointee_members err messages t [] = returnM ()"
| "check_pointee_members err messages t (m # ms) =
    (if pointee_member_fault t m \<noteq> 0 then throwM (err (messages ! (pointee_member_fault t m - 1)))
     else check_pointee_members err messages t ms)"

definition check_pointer_metadata :: "local_value_type \<Rightarrow> ('s, unit) prog" where
  "check_pointer_metadata p =
    (if vt_kind p = LK_Integer then
       (if vt_byte_size p = 0 \<or> vt_byte_size p > 8 \<or> vt_members p \<noteq> []
        then throwM (LogicError ''bounded pointer value has invalid integer pointee metadata'') else returnM ())
     else if vt_kind p = LK_Structure then
       (if vt_byte_size p = 0 \<or> vt_byte_size p > kMaxLocalStructSize \<or> length (vt_members p) > kMaxLocalStructMembers
        then throwM (LogicError ''bounded pointer value has invalid structure pointee metadata'')
        else check_pointee_members LogicError [''bounded pointer value has an out-of-range structure member'',
          ''bounded integer structure member unexpectedly has pointee metadata'',
          ''bounded pointer structure member has invalid pointee metadata'',
          ''bounded structure member has an unsupported direct member kind''] p (vt_members p))
     else throwM (LogicError ''bounded pointer value has an unsupported pointee kind''))"

definition attach_pointer_metadata :: "local_value_type option \<Rightarrow> local_value \<Rightarrow> ('s, local_value) prog" where
  "attach_pointer_metadata pointee v =
    (if lv_kind v \<noteq> LK_Pointer then returnM v
     else case pointee of
       None \<Rightarrow> throwM (LogicError ''bounded pointer value lost its pointee metadata'')
     | Some p \<Rightarrow> thenM (check_pointer_metadata p) (returnM (v\<lparr>lv_pointee_type := Some p\<rparr>)))"

definition location_expression ::
  "debug_sections \<Rightarrow> attribute_value \<Rightarrow> u64 \<Rightarrow> u64 \<Rightarrow> u16 \<Rightarrow> string \<Rightarrow> ('s, u8 list) prog" where
  "location_expression ds location virtual_pc base version unsupported =
    (if av_form location = kDwFormExprloc then returnM (av_expression location)
     else if av_form location = kDwFormSecOffset \<or> av_form location = kDwFormLoclistx
     then active_location_expression ds (av_number location) virtual_pc base version
     else throwM (RuntimeError unsupported))"

section \<open>Values of an inlined call\<close>

text \<open>The loop that picks the entry of the name: the index and the depth of the best one so far. A name that is found is
  bound at once, so the message for a name without a binding is never used.\<close>

fun inline_value_loop ::
  "die list \<Rightarrow> nat \<Rightarrow> u64 \<Rightarrow> u8 list \<Rightarrow> u64 \<Rightarrow> u16 \<Rightarrow> u8 list \<Rightarrow> nat list \<Rightarrow> (nat \<times> nat) option \<Rightarrow> ('s, (nat \<times> nat) option) prog" where
  "inline_value_loop dies inline_index pc ranges base version name [] best = returnM best"
| "inline_value_loop dies inline_index pc ranges base version name (i # is) best =
    (let skip = inline_value_loop dies inline_index pc ranges base version name is best in
     bindM (die_at dies i) (\<lambda>d.
     if \<not> is_local d then skip
     else bindM (attribute_with_abstract_origin dies i kDwAtName) (\<lambda>local_name.
       if map_option av_text local_name \<noteq> Some name then skip
       else bindM (inline_local_scope_depth dies i inline_index pc ranges base version) (\<lambda>depth. case depth of
         None \<Rightarrow> skip
       | Some depth \<Rightarrow>
           if best = None \<or> depth > snd (the best)
           then inline_value_loop dies inline_index pc ranges base version name is (Some (i, depth))
           else if depth = snd (the best)
           then throwM (RuntimeError (''ambiguous selected-inline local at equal lexical depth: '' @ bytes_text name))
           else skip))))"

definition validate_selected_inline_structure_type :: "local_value_type \<Rightarrow> ('s, unit) prog" where
  "validate_selected_inline_structure_type t =
    (if vt_kind t \<noteq> LK_Structure then returnM ()
     else if vt_byte_size t = 0 \<or> vt_byte_size t > kMaxLocalStructSize \<or> vt_members t = [] \<or>
             length (vt_members t) > kMaxLocalStructMembers
     then throwM (RuntimeError ''selected-inline structure exceeds the bounded canonical model'')
     else let check = (\<lambda>index.
         if mt_name (vt_members t ! index) = []
         then throwM (RuntimeError ''selected-inline structure has an unnamed direct member'')
         else if mt_name (vt_members t ! index) \<in> mt_name ` set (drop (index + 1) (vt_members t))
         then throwM (RuntimeError ''selected-inline structure has duplicate member names'')
         else returnM ()) in
       thenM (mapM check [0..<length (vt_members t)]) (returnM ()))"

definition signed_int32 :: "local_value_type \<Rightarrow> bool" where
  "signed_int32 t \<longleftrightarrow> vt_kind t = LK_Integer \<and> vt_byte_size t = 4 \<and> vt_is_signed t \<and> vt_members t = [] \<and>
     vt_array_type t = None \<and> vt_enum_type t = None"

definition unsigned_enum32 :: "enum_type option \<Rightarrow> bool" where
  "unsigned_enum32 e = (case e of None \<Rightarrow> False
     | Some t \<Rightarrow> et_byte_size t = 4 \<and> \<not> et_is_signed t \<and> et_name t \<noteq> [] \<and> et_enumerators t \<noteq> [])"

definition bit_field_shape :: "struct_member_type list \<Rightarrow> bool" where
  "bit_field_shape ms \<longleftrightarrow> list_all (\<lambda>m. mt_kind m = LK_Integer \<and> mt_bit_slice m \<noteq> None \<and> mt_pointee_type m = None \<and>
     mt_enum_type m = None \<and> mt_members m = []) ms"

definition one_terminal_structure :: "struct_member_type \<Rightarrow> bool" where
  "one_terminal_structure m \<longleftrightarrow> mt_kind m = LK_Structure \<and> mt_pointee_type m = None \<and> mt_bit_slice m = None \<and>
     mt_enum_type m = None \<and> length (mt_members m) = 1 \<and> list_all plain_integer_member (mt_members m)"

definition nested_shape :: "struct_member_type list \<Rightarrow> bool" where
  "nested_shape ms = (case ms of
     [a, b] \<Rightarrow> (plain_integer_member a \<and> one_terminal_structure b) \<or> (one_terminal_structure a \<and> plain_integer_member b)
   | _ \<Rightarrow> False)"

definition pointer_shape :: "struct_member_type list \<Rightarrow> bool" where
  "pointer_shape ms = (case ms of
     [m] \<Rightarrow> mt_kind m = LK_Pointer \<and> mt_offset m = 0 \<and> mt_byte_size m = 8 \<and>
       (case mt_pointee_type m of None \<Rightarrow> False | Some p \<Rightarrow> pt_byte_size p = 4 \<and> pt_is_signed p) \<and>
       mt_bit_slice m = None \<and> mt_enum_type m = None \<and> mt_members m = []
   | _ \<Rightarrow> False)"

definition enum_shape :: "struct_member_type list \<Rightarrow> bool" where
  "enum_shape ms = (case ms of
     [direct, mode] \<Rightarrow> int_member_at direct 0 \<and> mt_is_signed direct \<and> mt_kind mode = LK_Enumeration \<and> mt_offset mode = 4 \<and>
       mt_byte_size mode = 4 \<and> \<not> mt_is_signed mode \<and> mt_pointee_type mode = None \<and> mt_bit_slice mode = None \<and>
       unsigned_enum32 (mt_enum_type mode) \<and> mt_members mode = []
   | _ \<Rightarrow> False)"

definition frame_zero_fbreg_value_eligible :: "local_value_type \<Rightarrow> local_value_type option \<Rightarrow> bool" where
  "frame_zero_fbreg_value_eligible t pointee = (case vt_kind t of
     LK_Floating \<Rightarrow> vt_byte_size t = 8 \<and> \<not> vt_is_signed t \<and> vt_members t = [] \<and> vt_array_type t = None \<and>
       vt_enum_type t = None \<and> pointee = None
   | LK_Pointer \<Rightarrow> vt_byte_size t = 8 \<and> \<not> vt_is_signed t \<and> vt_members t = [] \<and> vt_array_type t = None \<and>
       vt_enum_type t = None \<and> (case pointee of None \<Rightarrow> False | Some p \<Rightarrow> signed_int32 p)
   | LK_Enumeration \<Rightarrow> vt_byte_size t = 4 \<and> \<not> vt_is_signed t \<and> vt_members t = [] \<and> vt_array_type t = None \<and>
       unsigned_enum32 (vt_enum_type t)
   | LK_Array \<Rightarrow> vt_byte_size t = 8 \<and> proven_array t
   | LK_Union \<Rightarrow> (case vt_members t of
       [a, b] \<Rightarrow> vt_byte_size t = 4 \<and> vt_array_type t = None \<and> mt_name a = text_bytes ''signed_value'' \<and> int_member_at a 0 \<and>
         mt_is_signed a \<and> mt_name b = text_bytes ''unsigned_value'' \<and> int_member_at b 0 \<and> \<not> mt_is_signed b
     | _ \<Rightarrow> False)
   | LK_Structure \<Rightarrow> vt_members t \<noteq> [] \<and> vt_array_type t = None \<and>
       (bit_field_shape (vt_members t) \<or> nested_shape (vt_members t) \<or> pointer_shape (vt_members t) \<or> enum_shape (vt_members t))
   | LK_Integer \<Rightarrow> False)"

text \<open>The registers an inlined value may be in, at frame zero.\<close>

definition inline_register :: "user_regs \<Rightarrow> string \<Rightarrow> u8 \<Rightarrow> ('s, u64) prog" where
  "inline_register regs unproven op = (if op = kDwOpReg1 then returnM (rdx regs) else if op = kDwOpReg2 then returnM (rcx regs)
     else throwM (RuntimeError unproven))"

definition typed_register_value ::
  "'k files \<Rightarrow> snapshot_module_address \<Rightarrow> u8 list \<Rightarrow> local_value_type \<Rightarrow> u8 list \<Rightarrow> ('k, local_value) prog" where
  "typed_register_value fs owner name t bytes = bindM
    (if vt_kind t = LK_Structure then
       bindM (open_elf fs (bytes_text (sa_module_file_path owner))) (\<lambda>_. decode_structure (sa_module_path owner) name t bytes)
     else if vt_kind t = LK_Array then materialize_bounded_array_bytes (sa_module_path owner) name t bytes
     else materialize_bounded_union_bytes (sa_module_path owner) name t bytes)
    (\<lambda>result. returnM (result\<lparr>lv_storage := LS_CoreRegister\<rparr>))"

definition scalar_register_value ::
  "snapshot_module_address \<Rightarrow> u8 list \<Rightarrow> local_value_type \<Rightarrow> local_value_type option \<Rightarrow> u64 \<Rightarrow> ('s, local_value) prog" where
  "scalar_register_value owner name t pointee raw = bindM (truncate_integer raw (vt_byte_size t)) (\<lambda>v.
     let result = (scalar_value (sa_module_path owner) name v (vt_byte_size t) (vt_is_signed t) (vt_kind t))\<lparr>lv_storage := LS_CoreRegister\<rparr> in
     if vt_kind t = LK_Enumeration then
       (if vt_enum_type t = None then throwM (LogicError ''selected-inline register enum lost canonical type metadata'')
        else returnM (result\<lparr>lv_enum_type := vt_enum_type t\<rparr>))
     else if vt_kind t = LK_Pointer then
       (if pointee = None then throwM (LogicError ''selected-inline register pointer lost canonical pointee metadata'')
        else attach_pointer_metadata pointee result)
     else returnM result)"

text \<open>A value at an offset from the frame base.\<close>

definition fbreg_memory ::
  "'k files \<Rightarrow> (path \<Rightarrow> bool) \<Rightarrow> die list \<Rightarrow> nat \<Rightarrow> snapshot_object \<Rightarrow> snapshot_frame \<Rightarrow> module_paths \<Rightarrow> snapshot_module_address \<Rightarrow>
     u8 list \<Rightarrow> nat \<Rightarrow> string \<Rightarrow> ('k, snapshot_memory_read) prog" where
  "fbreg_memory fs regular dies subprogram so frame mp owner expression byte_size what =
    bindM (snapshot_frame_base fs regular dies subprogram so frame mp owner) (\<lambda>base.
    bindM (decode_snapshot_fbreg_offset expression) (\<lambda>offset.
    bindM (add_signed base offset what) (\<lambda>address.
    read_snapshot_memory fs regular (so_core so) mp address byte_size)))"

definition inline_value_at ::
  "'k files \<Rightarrow> (path \<Rightarrow> bool) \<Rightarrow> die list \<Rightarrow> nat \<Rightarrow> snapshot_object \<Rightarrow> snapshot_frame \<Rightarrow> module_paths \<Rightarrow> snapshot_module_address \<Rightarrow>
     u8 list \<Rightarrow> local_value_type \<Rightarrow> local_value_type option \<Rightarrow> u8 list \<Rightarrow> ('k, local_value) prog" where
  "inline_value_at fs regular dies subprogram so frame mp owner name t pointee expression =
    (if expression = []
     then throwM (RuntimeError ''selected-inline value requires one exact compiler-proven location operation'')
     else if sf_index frame \<noteq> 0 \<or> (frame_zero_fbreg_value_eligible t pointee \<and> hd expression = kDwOpFbreg) then
       (if hd expression \<noteq> kDwOpFbreg
        then throwM (RuntimeError ''caller-frame selected-inline value currently requires compiler-proven DW_OP_fbreg'')
        else bindM (fbreg_memory fs regular dies subprogram so frame mp owner expression (vt_byte_size t)
            ''caller-frame selected-inline DW_OP_fbreg runtime address'') (\<lambda>memory.
          bindM (materialize_snapshot_memory_value (sa_module_path owner) name t memory True) (attach_pointer_metadata pointee)))
     else if vt_kind t = LK_Structure \<or> vt_kind t = LK_Array \<or> vt_kind t = LK_Union then
       bindM (snapshot_thread so (sf_thread_tid frame)) (\<lambda>r.
       bindM (evaluate_register_piece_value expression (inline_register (ct_registers (tf_thread r))
           ''frame-zero selected-inline typed value requested an unproven register piece'') t)
         (typed_register_value fs owner name t))
     else if length expression \<noteq> 1
     then throwM (RuntimeError ''frame-zero selected-inline value requires one exact compiler-proven register operation'')
     else bindM (snapshot_thread so (sf_thread_tid frame)) (\<lambda>r.
       bindM (inline_register (ct_registers (tf_thread r)) (''frame-zero selected-inline value currently requires compiler-proven '' @
           ''DW_OP_reg1 (rdx) or DW_OP_reg2 (rcx)'') (hd expression))
         (scalar_register_value owner name t pointee)))"

text \<open>The value of the entry \<open>value_index\<close>; \<open>subprogram\<close> owns the address.\<close>

definition inline_value_of_entry ::
  "'k files \<Rightarrow> (path \<Rightarrow> bool) \<Rightarrow> debug_sections \<Rightarrow> die list \<Rightarrow> nat \<Rightarrow> u64 \<Rightarrow> u16 \<Rightarrow> snapshot_object \<Rightarrow> snapshot_frame \<Rightarrow> module_paths \<Rightarrow>
     snapshot_module_address \<Rightarrow> u64 \<Rightarrow> u8 list \<Rightarrow> nat \<Rightarrow> ('k, local_value) prog" where
  "inline_value_of_entry fs regular ds dies subprogram base version so frame mp owner virtual_pc name value_index =
    bindM (die_at dies value_index) (\<lambda>d.
    bindM (attribute_with_abstract_origin dies value_index kDwAtType) (\<lambda>type_link.
    case attribute d kDwAtLocation of
      None \<Rightarrow> throwM (RuntimeError ''selected-inline local has no DW_AT_location'')
    | Some location \<Rightarrow> (case ref4_link type_link of
        None \<Rightarrow> throwM (RuntimeError ''selected-inline local has no supported DW_FORM_ref4 type'')
      | Some type_offset \<Rightarrow>
          bindM (resolve_bounded_root_value_type dies type_offset) (\<lambda>root.
          let t = rt_value_type root in
          thenM (validate_selected_inline_structure_type t)
          (if (vt_kind t = LK_Integer \<or> vt_kind t = LK_Pointer) \<and> (vt_byte_size t = 0 \<or> vt_byte_size t > 8)
           then throwM (RuntimeError ''selected-inline value materialization requires a bounded scalar'')
           else bindM (location_expression ds location virtual_pc base version
               ''selected-inline value has no supported DW_AT_location form'')
             (inline_value_at fs regular dies subprogram so frame mp owner name t (rt_pointee_type root)))))))"

definition inspect_inline_scalar_unit ::
  "'k files \<Rightarrow> (path \<Rightarrow> bool) \<Rightarrow> debug_sections \<Rightarrow> u8 list \<Rightarrow> snapshot_object \<Rightarrow> snapshot_frame \<Rightarrow> module_paths \<Rightarrow>
     snapshot_module_address \<Rightarrow> u64 \<Rightarrow> nat \<Rightarrow> u8 list \<Rightarrow> nat \<Rightarrow> ('k, local_value option \<times> nat) prog" where
  "inspect_inline_scalar_unit fs regular ds ranges so frame mp owner virtual_pc inline_die_offset name unit_start =
    bindM (parse_unit_dies ds unit_start) (\<lambda>(dies, next_unit, unit_version).
    case die_index_by_offset dies inline_die_offset of
      None \<Rightarrow> returnM (None, next_unit)
    | Some inline_index \<Rightarrow>
        bindM (check_inline_owner dies inline_index virtual_pc ranges unit_version) (\<lambda>(unit_base, subprogram).
        bindM (inline_value_loop dies inline_index virtual_pc ranges unit_base unit_version name [0..<length dies] None) (\<lambda>best.
        case best of
          None \<Rightarrow> throwM (RuntimeError (''local value is not owned by the selected inline context: '' @ bytes_text name))
        | Some (value_index, _) \<Rightarrow>
            bindM (inline_value_of_entry fs regular ds dies subprogram unit_base unit_version so frame mp owner virtual_pc name value_index)
              (\<lambda>v. returnM (Some v, next_unit)))))"

definition inspect_inline_local_value ::
  "'k files \<Rightarrow> (path \<Rightarrow> bool) \<Rightarrow> snapshot_object \<Rightarrow> snapshot_frame \<Rightarrow> nat \<Rightarrow> u8 list \<Rightarrow> module_paths \<Rightarrow> ('k, local_value) prog" where
  "inspect_inline_local_value fs regular so frame inline_die_offset name mp =
    (if name = [] then throwM (InvalidArgument ''selected-inline local name must not be empty'')
     else bindM (snapshot_frame_debug fs regular so frame mp ''selected-inline scalar module ownership changed'')
       (\<lambda>(owner, debug_path, ds, ranges).
     over_units ds ''DWARF selected-inline scalar parser did not advance to the next unit''
       (inspect_inline_scalar_unit fs regular ds ranges so frame mp owner (sa_virtual_address owner) inline_die_offset name)
       (throwM (RuntimeError ''selected inline DIE is unavailable in the owning debug file''))))"

section \<open>Values of a subprogram\<close>

text \<open>The low address of the first entry without parent that has one.\<close>

definition root_low_pc :: "die list \<Rightarrow> u64" where
  "root_low_pc dies = (case find (\<lambda>d. die_parent d = None \<and> map_option av_form (attribute d kDwAtLowPc) = Some kDwFormAddr) dies of
     None \<Rightarrow> 0 | Some d \<Rightarrow> (case attribute d kDwAtLowPc of None \<Rightarrow> 0 | Some low \<Rightarrow> av_number low))"

fun covering_subprogram_loop :: "u64 \<Rightarrow> nat \<Rightarrow> die list \<Rightarrow> nat option \<Rightarrow> ('s, nat option) prog" where
  "covering_subprogram_loop pc index [] found = returnM found"
| "covering_subprogram_loop pc index (d # ds) found =
    bindM (if die_tag d \<noteq> kDwTagSubprogram then returnM False else die_contains_pc d pc) (\<lambda>inside.
    if \<not> inside then covering_subprogram_loop pc (index + 1) ds found
    else if found \<noteq> None
    then throwM (RuntimeError ''snapshot inspection frame PC matches multiple DWARF subprograms'')
    else covering_subprogram_loop pc (index + 1) ds (Some index))"

text \<open>The entry of the name and its depth so far, and whether the name is declared in a scope that is not active.\<close>

fun snapshot_value_loop ::
  "die list \<Rightarrow> nat \<Rightarrow> u64 \<Rightarrow> u8 list \<Rightarrow> nat list \<Rightarrow> (nat \<times> nat) option \<Rightarrow> bool \<Rightarrow> ('s, (nat \<times> nat) option \<times> bool) prog" where
  "snapshot_value_loop dies subprogram pc name [] best nested = returnM (best, nested)"
| "snapshot_value_loop dies subprogram pc name (i # is) best nested =
    (let skip = snapshot_value_loop dies subprogram pc name is best nested in
     bindM (die_at dies i) (\<lambda>d.
     if \<not> is_local d then skip
     else bindM (attribute_with_abstract_origin dies i kDwAtName) (\<lambda>die_name.
       if map_option av_text die_name \<noteq> Some name then skip
       else bindM (active_scope_depth dies i subprogram pc) (\<lambda>depth. case depth of
         None \<Rightarrow> bindM (is_descendant_of dies i subprogram) (\<lambda>below.
           snapshot_value_loop dies subprogram pc name is best (nested \<or> below))
       | Some depth \<Rightarrow>
           if best = None \<or> depth > snd (the best)
           then snapshot_value_loop dies subprogram pc name is (Some (i, depth)) nested
           else if depth = snd (the best)
           then throwM (RuntimeError (''ambiguous local value in snapshot inspection-frame lexical scope: '' @ bytes_text name))
           else skip))))"

text \<open>A scalar in a register the frame owns.\<close>

definition owned_register_value ::
  "snapshot_module_address \<Rightarrow> u8 list \<Rightarrow> local_value_type \<Rightarrow> local_value_type option \<Rightarrow> u8 list \<Rightarrow> u64 option \<Rightarrow> string \<Rightarrow> string \<Rightarrow>
     ('s, local_value) prog" where
  "owned_register_value owner name t pointee expression register reg unowned =
    (if length expression \<noteq> 1
     then throwM (RuntimeError (''snapshot '' @ reg @ '' requires one exact compiler-proven register operation''))
     else if vt_kind t \<in> {LK_Structure, LK_Union, LK_Array, LK_Enumeration, LK_Floating} \<or> vt_byte_size t = 0 \<or> vt_byte_size t > 8
     then throwM (RuntimeError (''snapshot '' @ reg @ '' requires a bounded integer/pointer scalar value''))
     else case register of
       None \<Rightarrow> throwM (RuntimeError (''snapshot '' @ reg @ '' requires immutable '' @ unowned @ '' ownership''))
     | Some r \<Rightarrow> bindM (truncate_integer r (vt_byte_size t)) (\<lambda>raw.
         attach_pointer_metadata pointee
           ((scalar_value (sa_module_path owner) name raw (vt_byte_size t) (vt_is_signed t) (vt_kind t))\<lparr>lv_storage := LS_CoreRegister\<rparr>)))"

definition piece_register_value ::
  "'k files \<Rightarrow> snapshot_frame \<Rightarrow> snapshot_module_address \<Rightarrow> u8 list \<Rightarrow> local_value_type \<Rightarrow> u8 list \<Rightarrow> ('k, local_value) prog" where
  "piece_register_value fs frame owner name t expression =
    (case (ir_rdi (sf_registers frame), ir_rsi (sf_registers frame)) of
       (Some di, Some si) \<Rightarrow>
         bindM (evaluate_register_piece_value expression (\<lambda>op. if op = kDwOpReg5 then returnM di else if op = kDwOpReg4 then returnM si
             else throwM (RuntimeError ''snapshot historical register-piece local requested an unowned register'')) t) (\<lambda>bytes.
         bindM (open_elf fs (bytes_text (sa_module_file_path owner))) (\<lambda>_.
         bindM (decode_structure (sa_module_path owner) name t bytes) (\<lambda>result.
         returnM (result\<lparr>lv_storage := LS_CoreRegister\<rparr>))))
     | _ \<Rightarrow> throwM (RuntimeError ''snapshot register-piece local requires explicit restored RDI/RSI ownership''))"

text \<open>What \<^verbatim>\<open>DW_OP_fbreg\<close> accepts; the message of the first check that fails.\<close>

definition fbreg_refusal :: "local_value_type \<Rightarrow> string option" where
  "fbreg_refusal t =
    (if vt_kind t = LK_Integer \<or> vt_kind t = LK_Enumeration then
       (if vt_byte_size t = 0 \<or> vt_byte_size t > 8 then Some ''snapshot DW_OP_fbreg scalar width exceeds the bounded model''
        else if vt_kind t = LK_Enumeration \<and> \<not> enum_metadata_ok t
        then Some ''snapshot DW_OP_fbreg enum lost bounded compiler metadata'' else None)
     else if vt_kind t = LK_Structure then
       (if vt_byte_size t = 0 \<or> vt_byte_size t > kMaxLocalStructSize \<or> vt_members t = [] \<or> length (vt_members t) > kMaxLocalStructMembers
        then Some ''snapshot DW_OP_fbreg structure exceeds the bounded aggregate model'' else None)
     else if vt_kind t = LK_Array then
       (if \<not> array_layout_ok t then Some ''snapshot DW_OP_fbreg fixed array exceeds the bounded array model'' else None)
     else if vt_kind t = LK_Union then
       (if \<not> union_layout_ok t then Some ''snapshot DW_OP_fbreg union exceeds the bounded overlapping-storage model'' else None)
     else Some ''snapshot DW_OP_fbreg requires a bounded integer, enum, structure, fixed array, or union local'')"

definition breg3_value ::
  "snapshot_frame \<Rightarrow> snapshot_module_address \<Rightarrow> u8 list \<Rightarrow> local_value_type \<Rightarrow> local_value_type option \<Rightarrow> u8 list \<Rightarrow> ('s, local_value) prog" where
  "breg3_value frame owner name t pointee expression =
    (if vt_kind t \<in> {LK_Structure, LK_Union, LK_Array, LK_Enumeration, LK_Floating}
     then throwM (RuntimeError ''snapshot caller DW_OP_breg3 requires an integer/pointer scalar value'')
     else case ir_rbx (sf_registers frame) of
       None \<Rightarrow> throwM (RuntimeError ''snapshot caller DW_OP_breg3 requires CFI-recovered historical RBX'')
     | Some bx \<Rightarrow> bindM (evaluate_breg3_xor_stack_value expression bx) (\<lambda>v.
         bindM (truncate_integer v (vt_byte_size t)) (\<lambda>raw.
         attach_pointer_metadata pointee (scalar_value (sa_module_path owner) name raw (vt_byte_size t) (vt_is_signed t) (vt_kind t)))))"

definition addr_refusal :: "local_value_type \<Rightarrow> string option" where
  "addr_refusal t =
    (if vt_kind t = LK_Array then Some ''snapshot DW_OP_addr fixed-array materialization is outside current compiler evidence''
     else if vt_kind t = LK_Enumeration then Some ''snapshot DW_OP_addr enum materialization is outside current compiler evidence''
     else if vt_kind t = LK_Union then Some ''snapshot DW_OP_addr union materialization is outside current compiler evidence''
     else if vt_kind t \<noteq> LK_Structure \<and> (vt_byte_size t = 0 \<or> vt_byte_size t > 8)
     then Some ''snapshot DW_OP_addr scalar width exceeds the bounded reader''
     else if vt_kind t = LK_Structure \<and> (vt_byte_size t = 0 \<or> vt_byte_size t > kMaxLocalStructSize)
     then Some ''snapshot DW_OP_addr aggregate width exceeds the bounded reader''
     else None)"

definition addr_value ::
  "'k files \<Rightarrow> (path \<Rightarrow> bool) \<Rightarrow> snapshot_object \<Rightarrow> snapshot_frame \<Rightarrow> module_paths \<Rightarrow> snapshot_module_address \<Rightarrow> u8 list \<Rightarrow>
     local_value_type \<Rightarrow> local_value_type option \<Rightarrow> u8 list \<Rightarrow> ('k, local_value) prog" where
  "addr_value fs regular so frame mp owner name t pointee expression = (case addr_refusal t of
     Some m \<Rightarrow> throwM (RuntimeError m)
   | None \<Rightarrow> bindM (snapshot_frame_lookup_pc frame) (\<lambda>lookup_pc.
       if lookup_pc < sa_virtual_address owner
       then throwM (RuntimeError ''snapshot frame lookup PC is below its module virtual address'')
       else let bias = lookup_pc - sa_virtual_address owner in
         bindM (decode_snapshot_address expression) (\<lambda>virtual_address.
         if unat virtual_address > u64_max - unat bias
         then throwM (RuntimeError ''snapshot DW_OP_addr runtime address overflow'')
         else bindM (read_snapshot_memory fs regular (so_core so) mp (virtual_address + bias) (vt_byte_size t)) (\<lambda>memory.
           bindM (materialize_snapshot_memory_value (sa_module_path owner) name t memory True) (attach_pointer_metadata pointee)))))"

definition snapshot_value_at ::
  "'k files \<Rightarrow> (path \<Rightarrow> bool) \<Rightarrow> die list \<Rightarrow> nat \<Rightarrow> snapshot_object \<Rightarrow> snapshot_frame \<Rightarrow> module_paths \<Rightarrow> snapshot_module_address \<Rightarrow>
     u8 list \<Rightarrow> local_value_type \<Rightarrow> local_value_type option \<Rightarrow> u8 list \<Rightarrow> ('k, local_value) prog" where
  "snapshot_value_at fs regular dies subprogram so frame mp owner name t pointee expression =
    (if expression = [] then throwM (RuntimeError ''snapshot local requires a compiler-proven location form'')
     else let op = hd expression in
       if op = kSnapshotDwOpXmm0 then materialize_snapshot_xmm_value fs so frame owner name t expression
       else if vt_kind t = LK_Structure \<and> op = kDwOpReg5 then piece_register_value fs frame owner name t expression
       else if op = kDwOpReg5
       then owned_register_value owner name t pointee expression (ir_rdi (sf_registers frame)) ''DW_OP_reg5'' ''RDI''
       else if op = kSnapshotDwOpR12
       then owned_register_value owner name t pointee expression (ir_r12 (sf_registers frame)) ''DW_OP_reg12'' ''R12''
       else if op = kDwOpFbreg then (case fbreg_refusal t of
           Some m \<Rightarrow> throwM (RuntimeError m)
         | None \<Rightarrow> bindM (fbreg_memory fs regular dies subprogram so frame mp owner expression (vt_byte_size t)
             ''snapshot DW_OP_fbreg runtime address'') (\<lambda>memory.
             materialize_snapshot_memory_value (sa_module_path owner) name t memory True))
       else if op = kDwOpBreg3 then breg3_value frame owner name t pointee expression
       else if op \<noteq> kDwOpAddr
       then throwM (RuntimeError (if sf_index frame = 0
         then ''snapshot frame-zero local requires compiler-proven XMM0, register-piece, DW_OP_fbreg, DW_OP_reg5, DW_OP_reg12, or DW_OP_addr ownership''
         else ''snapshot caller local requires compiler-proven XMM0, register-piece, DW_OP_fbreg, DW_OP_breg3, DW_OP_reg5, DW_OP_reg12, or DW_OP_addr ownership''))
       else addr_value fs regular so frame mp owner name t pointee expression)"

definition snapshot_value_of_entry ::
  "'k files \<Rightarrow> (path \<Rightarrow> bool) \<Rightarrow> debug_sections \<Rightarrow> die list \<Rightarrow> nat \<Rightarrow> u16 \<Rightarrow> snapshot_object \<Rightarrow> snapshot_frame \<Rightarrow> module_paths \<Rightarrow>
     snapshot_module_address \<Rightarrow> u64 \<Rightarrow> u8 list \<Rightarrow> nat \<Rightarrow> ('k, local_value) prog" where
  "snapshot_value_of_entry fs regular ds dies subprogram version so frame mp owner virtual_pc name value_index =
    bindM (die_at dies value_index) (\<lambda>d.
    bindM (attribute_with_abstract_origin dies value_index kDwAtType) (\<lambda>type_link.
    case attribute d kDwAtLocation of
      None \<Rightarrow> throwM (RuntimeError ''local value has no DW_AT_location'')
    | Some location \<Rightarrow> (case ref4_link type_link of
        None \<Rightarrow> throwM (RuntimeError ''local value has no supported DW_FORM_ref4 type'')
      | Some type_offset \<Rightarrow>
          bindM (resolve_bounded_root_value_type dies type_offset) (\<lambda>root.
          bindM (location_expression ds location virtual_pc (root_low_pc dies) version
            ''local value has no supported DW_AT_location form'')
          (snapshot_value_at fs regular dies subprogram so frame mp owner name (rt_value_type root) (rt_pointee_type root))))))"

definition inspect_snapshot_unit ::
  "'k files \<Rightarrow> (path \<Rightarrow> bool) \<Rightarrow> debug_sections \<Rightarrow> snapshot_object \<Rightarrow> snapshot_frame \<Rightarrow> module_paths \<Rightarrow> snapshot_module_address \<Rightarrow>
     u64 \<Rightarrow> u8 list \<Rightarrow> nat \<Rightarrow> ('k, local_value option \<times> nat) prog" where
  "inspect_snapshot_unit fs regular ds so frame mp owner virtual_pc name unit_start =
    bindM (parse_unit_dies ds unit_start) (\<lambda>(dies, next_unit, unit_version).
    bindM (covering_subprogram_loop virtual_pc 0 dies None) (\<lambda>found. case found of
      None \<Rightarrow> returnM (None, next_unit)
    | Some subprogram \<Rightarrow>
        bindM (snapshot_value_loop dies subprogram virtual_pc name [0..<length dies] None False) (\<lambda>(best, nested). case best of
          None \<Rightarrow> throwM (RuntimeError ((if nested then ''local value is outside the snapshot inspection-frame lexical scope: ''
            else ''local value is not in the snapshot inspection-frame subprogram: '') @ bytes_text name))
        | Some (value_index, _) \<Rightarrow>
            bindM (snapshot_value_of_entry fs regular ds dies subprogram unit_version so frame mp owner virtual_pc name value_index)
              (\<lambda>v. returnM (Some v, next_unit)))))"

definition inspect_local_value ::
  "'k files \<Rightarrow> (path \<Rightarrow> bool) \<Rightarrow> snapshot_object \<Rightarrow> snapshot_frame \<Rightarrow> u8 list \<Rightarrow> module_paths \<Rightarrow> ('k, local_value) prog" where
  "inspect_local_value fs regular so frame name mp =
    (if name = [] then throwM (InvalidArgument ''local variable name must not be empty'')
     else thenM (validate_snapshot_inspection_frame so frame) (thenM (validate_snapshot_frame_lookup_pc frame)
     (bindM (snapshot_frame_lookup_pc frame) (\<lambda>lookup_pc.
     bindM (resolve_snapshot_module_address fs regular (so_core so) lookup_pc mp) (\<lambda>owner.
     if sa_module_path owner \<noteq> sf_module_path frame
     then throwM (LogicError ''snapshot inspection frame module ownership changed'')
     else bindM (resolve_debug_file fs regular mp (sa_module_path owner)) (\<lambda>debug_path.
       bindM (read_debug_sections fs (bytes_text debug_path)) (\<lambda>ds.
       over_units ds ''DWARF parser did not advance to the next unit''
         (inspect_snapshot_unit fs regular ds so frame mp owner (sa_virtual_address owner) name)
         (throwM (RuntimeError ''snapshot inspection-frame lookup PC is not covered by a supported DWARF4/5 subprogram''))))))))) "

definition inspect_local_integer ::
  "'k files \<Rightarrow> (path \<Rightarrow> bool) \<Rightarrow> snapshot_object \<Rightarrow> snapshot_frame \<Rightarrow> u8 list \<Rightarrow> module_paths \<Rightarrow> ('k, local_value) prog" where
  "inspect_local_integer fs regular so frame name mp = bindM (inspect_local_value fs regular so frame name mp) (\<lambda>v.
     if lv_kind v \<noteq> LK_Integer then throwM (RuntimeError (''local value is not an integer scalar: '' @ bytes_text name))
     else returnM v)"

end
