(* ===== verification/PointerValues.thy ===== *)
theory PointerValues
  imports DwarfValues
begin

text \<open>
  Following pointers in a core: \<^verbatim>\<open>dereference_inline_local_pointer\<close> of \<^verbatim>\<open>src/src/dwarf/source_lookup.cpp\<close>, the pointer
  members of \<^verbatim>\<open>src/src/dwarf/inline_member.hpp\<close>, and their counterparts for the names of a subprogram in
  \<^verbatim>\<open>src/src/dwarf/source_lookup_snapshot_impl.inc\<close>.
\<close>

section \<open>Names of an inlined call\<close>

definition starred :: "u8 list \<Rightarrow> u8 list" where
  "starred name = text_bytes ''*'' @ name"

definition dereference_inline_local_pointer ::
  "'k files \<Rightarrow> (path \<Rightarrow> bool) \<Rightarrow> snapshot_object \<Rightarrow> snapshot_frame \<Rightarrow> nat \<Rightarrow> u8 list \<Rightarrow> module_paths \<Rightarrow> ('k, local_value) prog" where
  "dereference_inline_local_pointer fs regular so frame inline_die_offset name mp =
    bindM (inspect_inline_local_value fs regular so frame inline_die_offset name mp) (\<lambda>pointer.
    if lv_kind pointer \<noteq> LK_Pointer
    then throwM (LogicError (''selected-inline local value is not a pointer: '' @ bytes_text name))
    else if \<not> bounded_integer_pointee (lv_pointee_type pointer)
    then throwM (RuntimeError ''selected-inline pointer does not have a bounded integer pointee type'')
    else if lv_raw_value pointer = 0
    then throwM (RuntimeError (''cannot dereference a null selected-inline core pointer: '' @ bytes_text name))
    else let p = the (lv_pointee_type pointer) in
      bindM (read_snapshot_memory fs regular (so_core so) mp (lv_raw_value pointer) (vt_byte_size p)) (\<lambda>memory.
      materialize_snapshot_memory_value (lv_module_path pointer) (starred (lv_name pointer))
        (scalar_type (vt_byte_size p) (vt_is_signed p) LK_Integer) memory False))"

definition inspect_inline_local_pointer_member ::
  "'k files \<Rightarrow> (path \<Rightarrow> bool) \<Rightarrow> snapshot_object \<Rightarrow> snapshot_frame \<Rightarrow> nat \<Rightarrow> u8 list \<Rightarrow> u8 list \<Rightarrow>
   module_paths \<Rightarrow> ('k, local_value) prog" where
  "inspect_inline_local_pointer_member fs regular so frame inline_die_offset name member_name mp =
    (if member_name = [] then throwM (InvalidArgument ''selected-inline pointer member name must not be empty'')
     else bindM (inspect_inline_local_value fs regular so frame inline_die_offset name mp) (\<lambda>pointer.
    bindM (pointer_struct_member pointer name member_name) (\<lambda>m.
    bindM (checked_address (lv_raw_value pointer) (mt_offset m) ''selected-inline structure pointer'') (\<lambda>address.
    bindM (read_snapshot_memory fs regular (so_core so) mp address (mt_byte_size m)) (\<lambda>memory.
    bindM (decode_scalar memory (mt_byte_size m)) (\<lambda>raw.
    let result = attach_storage memory (scalar_value (lv_module_path pointer)
      (lv_name pointer @ text_bytes ''->'' @ member_name) raw (mt_byte_size m) (mt_is_signed m) (mt_kind m)) in
    returnM (if mt_kind m = LK_Pointer
      then result\<lparr>lv_pointee_type := map_option (\<lambda>p. \<lparr>vt_byte_size = pt_byte_size p, vt_is_signed = pt_is_signed p,
             vt_kind = LK_Integer, vt_members = [], vt_array_type = None, vt_enum_type = None\<rparr>) (mt_pointee_type m)\<rparr>
      else result)))))))"

definition dereference_inline_local_pointer_member ::
  "'k files \<Rightarrow> (path \<Rightarrow> bool) \<Rightarrow> snapshot_object \<Rightarrow> snapshot_frame \<Rightarrow> nat \<Rightarrow> u8 list \<Rightarrow> u8 list \<Rightarrow>
   module_paths \<Rightarrow> ('k, local_value) prog" where
  "dereference_inline_local_pointer_member fs regular so frame inline_die_offset name member_name mp =
    bindM (inspect_inline_local_pointer_member fs regular so frame inline_die_offset name member_name mp) (\<lambda>member.
    if lv_kind member \<noteq> LK_Pointer \<or> \<not> bounded_integer_pointee (lv_pointee_type member)
    then throwM (RuntimeError ''selected-inline pointer member does not have a bounded integer pointee'')
    else follow_pointer fs regular (so_core so) mp member (the (lv_pointee_type member)) ''selected-inline pointer-valued member'')"

section \<open>Names of a subprogram\<close>

text \<open>The type of the object a pointer points to, checked once more.\<close>

definition pointee_object_type :: "local_value_type \<Rightarrow> ('s, local_value_type) prog" where
  "pointee_object_type p =
    (if vt_kind p = LK_Integer then
       (if vt_byte_size p = 0 \<or> vt_byte_size p > 8 \<or> vt_members p \<noteq> []
        then throwM (RuntimeError ''pointer does not have a bounded integer pointee type'')
        else returnM (scalar_type (vt_byte_size p) (vt_is_signed p) LK_Integer))
     else if vt_kind p = LK_Structure then
       (if vt_byte_size p = 0 \<or> vt_byte_size p > kMaxLocalStructSize \<or> length (vt_members p) > kMaxLocalStructMembers
        then throwM (RuntimeError ''pointer does not have a bounded structure pointee type'')
        else thenM (check_pointee_members RuntimeError [''pointer structure member exceeds bounded pointee layout'',
            ''integer structure member retained unexpected pointee metadata'',
            ''pointer structure member has invalid bounded metadata'', ''pointer structure member kind is unsupported'']
            p (vt_members p))
          (returnM (aggregate_type (vt_byte_size p) LK_Structure (vt_members p))))
     else throwM (RuntimeError ''pointer pointee kind is unsupported for bounded dereference''))"

definition dereference_local_pointer ::
  "'k files \<Rightarrow> (path \<Rightarrow> bool) \<Rightarrow> snapshot_object \<Rightarrow> snapshot_frame \<Rightarrow> u8 list \<Rightarrow> module_paths \<Rightarrow> ('k, local_value) prog" where
  "dereference_local_pointer fs regular so frame name mp =
    bindM (inspect_local_value fs regular so frame name mp) (\<lambda>pointer.
    if lv_kind pointer \<noteq> LK_Pointer then throwM (RuntimeError (''local value is not a pointer: '' @ bytes_text name))
    else case lv_pointee_type pointer of
      None \<Rightarrow> throwM (RuntimeError ''pointer does not have bounded pointee metadata'')
    | Some p \<Rightarrow>
        if lv_raw_value pointer = 0
        then throwM (RuntimeError (''cannot dereference a null core pointer: '' @ bytes_text name))
        else bindM (pointee_object_type p) (\<lambda>t.
          bindM (read_snapshot_memory fs regular (so_core so) mp (lv_raw_value pointer) (vt_byte_size t)) (\<lambda>memory.
          bindM (materialize_snapshot_memory_value (lv_module_path pointer) (starred (lv_name pointer)) t memory False) (\<lambda>result.
          if lv_kind result = LK_Structure \<and> length (lv_members result) \<noteq> length (vt_members p)
          then throwM (LogicError ''bounded structure materialization changed member count'')
          else returnM result))))"

definition inspect_local_pointer_member ::
  "'k files \<Rightarrow> (path \<Rightarrow> bool) \<Rightarrow> snapshot_object \<Rightarrow> snapshot_frame \<Rightarrow> u8 list \<Rightarrow> u8 list \<Rightarrow> module_paths \<Rightarrow> ('k, local_value) prog" where
  "inspect_local_pointer_member fs regular so frame name member_name mp =
    (if member_name = [] then throwM (InvalidArgument ''pointer member name must not be empty'')
     else bindM (inspect_local_value fs regular so frame name mp) (\<lambda>pointer.
       let refused = RuntimeError (''local value is not a pointer to a bounded structure: '' @ bytes_text name) in
       case lv_pointee_type pointer of
         None \<Rightarrow> throwM refused
       | Some p \<Rightarrow>
           if lv_kind pointer \<noteq> LK_Pointer \<or> vt_kind p \<noteq> LK_Structure then throwM refused
           else bindM (dereference_local_pointer fs regular so frame name mp) (\<lambda>object.
             if lv_kind object \<noteq> LK_Structure \<or> length (lv_members object) \<noteq> length (vt_members p)
             then throwM (LogicError ''bounded containing structure lost member ownership'')
             else case find (\<lambda>m. mt_name m = member_name) (vt_members p) of
               None \<Rightarrow> throwM (RuntimeError (''bounded structure has no member named: '' @ bytes_text member_name))
             | Some m \<Rightarrow> (case mt_pointee_type m of
                 None \<Rightarrow> throwM (RuntimeError (''bounded structure member is not a supported pointer: '' @ bytes_text member_name))
               | Some q \<Rightarrow>
                   if mt_kind m \<noteq> LK_Pointer
                   then throwM (RuntimeError (''bounded structure member is not a supported pointer: '' @ bytes_text member_name))
                   else case find (\<lambda>v. me_name v = member_name) (lv_members object) of
                     None \<Rightarrow> throwM (LogicError ''bounded structure materialization lost the selected member'')
                   | Some v \<Rightarrow>
                       let result = (scalar_value (lv_module_path pointer) (lv_name pointer @ text_bytes ''->'' @ member_name)
                           (me_raw_value v) (mt_byte_size m) False LK_Pointer)
                           \<lparr>lv_storage := lv_storage object, lv_storage_module_path := lv_storage_module_path object,
                             lv_storage_file_path := lv_storage_file_path object,
                             lv_storage_file_offset := lv_storage_file_offset object\<rparr> in
                       if lv_storage object = LS_RuntimeArtifact \<and> mt_offset m > u64_max - lv_storage_file_offset object
                       then throwM (RuntimeError ''pointer member artifact offset overflow'')
                       else attach_pointer_metadata (Some (scalar_type (pt_byte_size q) (pt_is_signed q) LK_Integer))
                         (if lv_storage object = LS_RuntimeArtifact
                          then result\<lparr>lv_storage_file_offset := lv_storage_file_offset object + mt_offset m\<rparr> else result)))))"

definition dereference_local_pointer_member ::
  "'k files \<Rightarrow> (path \<Rightarrow> bool) \<Rightarrow> snapshot_object \<Rightarrow> snapshot_frame \<Rightarrow> u8 list \<Rightarrow> u8 list \<Rightarrow> module_paths \<Rightarrow> ('k, local_value) prog" where
  "dereference_local_pointer_member fs regular so frame name member_name mp =
    bindM (inspect_local_pointer_member fs regular so frame name member_name mp) (\<lambda>member.
    let refused = RuntimeError ''pointer member does not have a bounded integer pointee'' in
    case lv_pointee_type member of
      None \<Rightarrow> throwM refused
    | Some p \<Rightarrow>
        if vt_kind p \<noteq> LK_Integer \<or> vt_byte_size p = 0 \<or> vt_byte_size p > 8 then throwM refused
        else if lv_raw_value member = 0
        then throwM (RuntimeError ''cannot dereference a null pointer-valued structure member'')
        else bindM (read_snapshot_memory fs regular (so_core so) mp (lv_raw_value member) (vt_byte_size p)) (\<lambda>memory.
          materialize_snapshot_memory_value (lv_module_path member) (dereferenced_name (lv_name member))
            (scalar_type (vt_byte_size p) (vt_is_signed p) LK_Integer) memory False))"

end
