(* ===== verification/CoreSession.thy ===== *)
theory CoreSession
  imports SnapshotInspect PointerValues
begin

text \<open>
  The class \<^verbatim>\<open>CoreInspectionSession\<close> of \<^verbatim>\<open>src/src/snapshot/session.hpp\<close>: a core, the trace of the selected thread, the
  selected frame and the selected inline context. The state of an operation is the file system and the session.
\<close>

record core_session =
  cx_snapshot :: snapshot_object
  cx_module_paths :: module_paths
  cx_startup_info :: "core_startup_info option"
  cx_max_frames :: nat
  cx_selected_tid :: pid
  cx_trace :: snapshot_trace
  cx_selected_frame :: nat
  cx_inline_context :: "inline_context option"
  cx_inline_index :: "nat option"

type_synonym ('k, 'a) session_prog = "('k \<times> core_session, 'a) prog"

definition on_disk :: "('k, 'a) prog \<Rightarrow> ('k, 'a) session_prog" where
  "on_disk = zoomM fst (\<lambda>k p. (k, snd p))"

definition sessionM :: "('k, core_session) session_prog" where
  "sessionM = bindM getM (\<lambda>(k, cx). returnM cx)"

definition update_session :: "(core_session \<Rightarrow> core_session) \<Rightarrow> ('k, unit) session_prog" where
  "update_session f = modifyM (\<lambda>(k, cx). (k, f cx))"

section \<open>Construction\<close>

definition open_core_snapshot :: "'k files \<Rightarrow> nat \<Rightarrow> string \<Rightarrow> ('k, snapshot_object) prog" where
  "open_core_snapshot fs address path = bindM (read_binary_file fs path) (\<lambda>bytes.
     bindM (parse_core bytes) (\<lambda>cs. returnM \<lparr>so_address = address, so_path = path, so_core = cs\<rparr>))"

definition validate_frame :: "snapshot_object \<Rightarrow> snapshot_frame \<Rightarrow> ('s, unit) prog" where
  "validate_frame so f = thenM (validate_snapshot_inspection_frame so f) (validate_snapshot_frame_lookup_pc f)"

fun validate_frames :: "snapshot_object \<Rightarrow> snapshot_frame list \<Rightarrow> ('s, unit) prog" where
  "validate_frames so [] = returnM ()"
| "validate_frames so (f # fs) = thenM (validate_frame so f) (validate_frames so fs)"

definition validate_trace :: "core_session \<Rightarrow> ('s, unit) prog" where
  "validate_trace cx =
    (if sp_frames (cx_trace cx) = [] then throwM (RuntimeError ''core inspection produced no snapshot frames'')
     else thenM (validate_frames (cx_snapshot cx) (sp_frames (cx_trace cx)))
       (if sf_thread_tid (hd (sp_frames (cx_trace cx))) \<noteq> cx_selected_tid cx
        then throwM (LogicError ''core inspection trace belongs to a different thread'') else returnM ()))"

text \<open>\<open>address\<close> is where the session places its snapshot.\<close>

definition init_session ::
  "'k files \<Rightarrow> (path \<Rightarrow> bool) \<Rightarrow> nat \<Rightarrow> string \<Rightarrow> module_paths \<Rightarrow> nat \<Rightarrow> ('k, core_session) prog" where
  "init_session fs regular address core_path mp max_frames =
    bindM (open_core_snapshot fs address core_path) (\<lambda>so.
    bindM (read_core_startup_info fs (so_path so) (so_core so)) (\<lambda>startup.
    bindM (crashed_thread so) (\<lambda>r.
    bindM (build_snapshot_inspection_frames fs regular so r max_frames mp) (\<lambda>trace.
    let cx = \<lparr>cx_snapshot = so, cx_module_paths = mp, cx_startup_info = startup, cx_max_frames = max_frames,
      cx_selected_tid = cs_crashed_tid (so_core so), cx_trace = trace, cx_selected_frame = 0,
      cx_inline_context = None, cx_inline_index = None\<rparr> in
    thenM (validate_trace cx) (returnM cx)))))"

section \<open>Operations\<close>

definition selected_frame :: "('k, snapshot_frame) session_prog" where
  "selected_frame = bindM sessionM (\<lambda>cx.
     if cx_selected_frame cx < length (sp_frames (cx_trace cx))
     then returnM (sp_frames (cx_trace cx) ! cx_selected_frame cx)
     else throwM (OutOfRange ''vector::at''))"

definition validate_selected_frame :: "snapshot_frame \<Rightarrow> ('k, unit) session_prog" where
  "validate_selected_frame f = bindM sessionM (\<lambda>cx.
     thenM (validate_frame (cx_snapshot cx) f)
       (if sf_thread_tid f \<noteq> cx_selected_tid cx
        then throwM (LogicError ''selected core frame belongs to a different thread'') else returnM ()))"

definition session_find_symbol ::
  "'k files \<Rightarrow> (path \<Rightarrow> bool) \<Rightarrow> u64 \<Rightarrow> ('k, snapshot_resolved_symbol option) session_prog" where
  "session_find_symbol fs regular pc = bindM sessionM (\<lambda>cx. on_disk
     (find_snapshot_symbol_by_runtime_address fs regular (so_core (cx_snapshot cx)) pc (cx_module_paths cx)))"

definition session_find_source ::
  "'k files \<Rightarrow> (path \<Rightarrow> bool) \<Rightarrow> u64 \<Rightarrow> ('k, snapshot_resolved_source option) session_prog" where
  "session_find_source fs regular pc = bindM sessionM (\<lambda>cx. on_disk
     (find_snapshot_source_by_runtime_address fs regular (so_core (cx_snapshot cx)) pc (cx_module_paths cx)))"

definition find_frame_symbol ::
  "'k files \<Rightarrow> (path \<Rightarrow> bool) \<Rightarrow> snapshot_frame \<Rightarrow> ('k, snapshot_resolved_symbol option) session_prog" where
  "find_frame_symbol fs regular f = thenM (validate_selected_frame f)
     (bindM (snapshot_frame_lookup_pc f) (session_find_symbol fs regular))"

definition find_frame_source ::
  "'k files \<Rightarrow> (path \<Rightarrow> bool) \<Rightarrow> snapshot_frame \<Rightarrow> ('k, snapshot_resolved_source option) session_prog" where
  "find_frame_source fs regular f = thenM (validate_selected_frame f)
     (bindM (snapshot_frame_lookup_pc f) (session_find_source fs regular))"

definition session_read_memory ::
  "'k files \<Rightarrow> (path \<Rightarrow> bool) \<Rightarrow> u64 \<Rightarrow> nat \<Rightarrow> ('k, snapshot_memory_read) session_prog" where
  "session_read_memory fs regular address len = bindM sessionM (\<lambda>cx. on_disk
     (read_snapshot_memory fs regular (so_core (cx_snapshot cx)) (cx_module_paths cx) address len))"

definition inline_contexts :: "'k files \<Rightarrow> (path \<Rightarrow> bool) \<Rightarrow> ('k, inline_context list) session_prog" where
  "inline_contexts fs regular = bindM selected_frame (\<lambda>f. thenM (validate_selected_frame f)
     (bindM sessionM (\<lambda>cx. on_disk (discover_inline_call_chain fs regular (cx_snapshot cx) f (cx_module_paths cx)))))"

definition select_inline_context :: "'k files \<Rightarrow> (path \<Rightarrow> bool) \<Rightarrow> nat \<Rightarrow> ('k, unit) session_prog" where
  "select_inline_context fs regular index = bindM (inline_contexts fs regular) (\<lambda>contexts.
     if index \<ge> length contexts then throwM (OutOfRange ''core inline-context index is out of range'')
     else update_session (\<lambda>cx. cx\<lparr>cx_inline_context := Some (contexts ! index), cx_inline_index := Some index\<rparr>))"

definition clear_inline_context :: "('k, unit) session_prog" where
  "clear_inline_context = update_session (\<lambda>cx. cx\<lparr>cx_inline_context := None, cx_inline_index := None\<rparr>)"

definition select_thread :: "'k files \<Rightarrow> (path \<Rightarrow> bool) \<Rightarrow> pid \<Rightarrow> ('k, unit) session_prog" where
  "select_thread fs regular tid = bindM sessionM (\<lambda>cx.
     bindM (snapshot_thread (cx_snapshot cx) tid) (\<lambda>r.
     bindM (on_disk (build_snapshot_inspection_frames fs regular (cx_snapshot cx) r (cx_max_frames cx)
         (cx_module_paths cx))) (\<lambda>trace.
     if sp_frames trace = [] then throwM (RuntimeError ''core thread inspection produced no snapshot frames'')
     else thenM (validate_frame (cx_snapshot cx) (hd (sp_frames trace)))
       (thenM (update_session (\<lambda>cx. cx\<lparr>cx_trace := trace, cx_selected_tid := tid, cx_selected_frame := 0\<rparr>))
         clear_inline_context))))"

definition select_frame :: "nat \<Rightarrow> ('k, unit) session_prog" where
  "select_frame index = bindM sessionM (\<lambda>cx.
     if index \<ge> length (sp_frames (cx_trace cx)) then throwM (OutOfRange ''core frame index is out of range'')
     else let f = sp_frames (cx_trace cx) ! index in
       thenM (validate_frame (cx_snapshot cx) f)
         (if sf_thread_tid f \<noteq> cx_selected_tid cx
          then throwM (LogicError ''core frame belongs to a different selected thread'')
          else thenM (update_session (\<lambda>cx. cx\<lparr>cx_selected_frame := index\<rparr>)) clear_inline_context))"

text \<open>The common start of the members on local values: the selected frame, validated, and the selected inline context,
  which has to be of the module of the frame.\<close>

definition checked_selection :: "('k, snapshot_frame \<times> inline_context option) session_prog" where
  "checked_selection = bindM selected_frame (\<lambda>f. thenM (validate_selected_frame f) (bindM sessionM (\<lambda>cx.
     case cx_inline_context cx of
       None \<Rightarrow> returnM (f, None)
     | Some c \<Rightarrow>
         if ix_module_path c \<noteq> sf_module_path f
         then throwM (LogicError ''selected inline context belongs to a different module'')
         else returnM (f, Some c))))"

text \<open>A member on local values calls one function for a selected inline context, with the offset of its entry, and
  another one for the frame itself.\<close>

definition on_selection ::
  "(snapshot_object \<Rightarrow> snapshot_frame \<Rightarrow> nat \<Rightarrow> module_paths \<Rightarrow> ('k, 'a) prog) \<Rightarrow>
   (snapshot_object \<Rightarrow> snapshot_frame \<Rightarrow> module_paths \<Rightarrow> ('k, 'a) prog) \<Rightarrow> ('k, 'a) session_prog" where
  "on_selection of_inline of_frame = bindM checked_selection (\<lambda>(f, context). bindM sessionM (\<lambda>cx. on_disk (case context of
       Some c \<Rightarrow> of_inline (cx_snapshot cx) f (ix_die_offset c) (cx_module_paths cx)
     | None \<Rightarrow> of_frame (cx_snapshot cx) f (cx_module_paths cx))))"

definition session_locals :: "'k files \<Rightarrow> (path \<Rightarrow> bool) \<Rightarrow> ('k, local_discovery_entry list) session_prog" where
  "session_locals fs regular = on_selection
     (\<lambda>so f offset mp. discover_inline_local_values fs regular so f offset mp)
     (\<lambda>so f mp. discover_snapshot_local_values fs regular so f mp)"

definition session_inspect_value :: "'k files \<Rightarrow> (path \<Rightarrow> bool) \<Rightarrow> u8 list \<Rightarrow> ('k, local_value) session_prog" where
  "session_inspect_value fs regular name = on_selection
     (\<lambda>so f offset mp. inspect_inline_local_value fs regular so f offset name mp)
     (\<lambda>so f mp. inspect_local_value fs regular so f name mp)"

definition session_dereference_value :: "'k files \<Rightarrow> (path \<Rightarrow> bool) \<Rightarrow> u8 list \<Rightarrow> ('k, local_value) session_prog" where
  "session_dereference_value fs regular name = on_selection
     (\<lambda>so f offset mp. dereference_inline_local_pointer fs regular so f offset name mp)
     (\<lambda>so f mp. dereference_local_pointer fs regular so f name mp)"

definition session_inspect_pointer_member :: "'k files \<Rightarrow> (path \<Rightarrow> bool) \<Rightarrow> u8 list \<Rightarrow> u8 list \<Rightarrow> ('k, local_value) session_prog" where
  "session_inspect_pointer_member fs regular name member_name = on_selection
     (\<lambda>so f offset mp. inspect_inline_local_pointer_member fs regular so f offset name member_name mp)
     (\<lambda>so f mp. inspect_local_pointer_member fs regular so f name member_name mp)"

definition session_dereference_pointer_member :: "'k files \<Rightarrow> (path \<Rightarrow> bool) \<Rightarrow> u8 list \<Rightarrow> u8 list \<Rightarrow> ('k, local_value) session_prog" where
  "session_dereference_pointer_member fs regular name member_name = on_selection
     (\<lambda>so f offset mp. dereference_inline_local_pointer_member fs regular so f offset name member_name mp)
     (\<lambda>so f mp. dereference_local_pointer_member fs regular so f name member_name mp)"

definition session_inspect_aggregate_member :: "'k files \<Rightarrow> (path \<Rightarrow> bool) \<Rightarrow> u8 list \<Rightarrow> u8 list \<Rightarrow> ('k, local_value) session_prog" where
  "session_inspect_aggregate_member fs regular name member_name =
     bindM (session_inspect_value fs regular name) (\<lambda>v. inspect_local_aggregate_member v member_name)"

definition session_inspect_nested_aggregate_member ::
  "'k files \<Rightarrow> (path \<Rightarrow> bool) \<Rightarrow> u8 list \<Rightarrow> u8 list \<Rightarrow> u8 list \<Rightarrow> ('k, local_value) session_prog" where
  "session_inspect_nested_aggregate_member fs regular name outer inner =
     bindM (session_inspect_value fs regular name) (\<lambda>v. inspect_local_nested_aggregate_member v outer inner)"

definition session_inspect_union_member :: "'k files \<Rightarrow> (path \<Rightarrow> bool) \<Rightarrow> u8 list \<Rightarrow> u8 list \<Rightarrow> ('k, local_value) session_prog" where
  "session_inspect_union_member fs regular name member_name =
     bindM (session_inspect_value fs regular name) (\<lambda>v. inspect_local_union_member v member_name)"

definition session_inspect_array_element :: "'k files \<Rightarrow> (path \<Rightarrow> bool) \<Rightarrow> u8 list \<Rightarrow> nat \<Rightarrow> ('k, local_value) session_prog" where
  "session_inspect_array_element fs regular name index =
     bindM (session_inspect_value fs regular name) (\<lambda>v. inspect_local_array_element v index)"

definition session_dereference_aggregate_member :: "'k files \<Rightarrow> (path \<Rightarrow> bool) \<Rightarrow> u8 list \<Rightarrow> u8 list \<Rightarrow> ('k, local_value) session_prog" where
  "session_dereference_aggregate_member fs regular name member_name =
     bindM (session_inspect_value fs regular name) (\<lambda>v. bindM sessionM (\<lambda>cx. on_disk
       (dereference_local_aggregate_member fs regular (so_core (cx_snapshot cx)) v member_name (cx_module_paths cx))))"

end
