(* ===== verification/SignalFrameProps.thy ===== *)
theory SignalFrameProps
  imports SignalFrame EhFrameSafety CfiUnwindProps
begin

text \<open>
  The signal index ends on every section without leaving it, and agrees with the evaluator of
  \<^verbatim>\<open>EhFrame\<close>: the two scans run in step as long as the evaluator accepts what it reads, so a frame it
  evaluates is never taken for a signal frame.
\<close>

section \<open>The index ends inside the section\<close>

lemma read_signed_pointer_Ok:
  "read_signed_pointer bytes limit encoding what c = (Ok v, c') \<longleftrightarrow>
    read_signed_encoded_value bytes limit encoding what c = (Ok v, c')"
  by (simp add: read_signed_pointer_def read_signed_encoded_value_def Ok_run)

lemma reads_signed_pointer [reads_intros]:
  assumes "limit \<le> length bytes"
  shows "reads 0 limit (read_signed_pointer bytes limit encoding what)"
  unfolding read_signed_pointer_def
  by (intro reads_if reads_throwM reads_bindM0 reads_returnM
      reads_weaken [OF reads_fixed(3) [OF assms]] reads_weaken [OF reads_fixed(4) [OF assms]]) simp_all

lemma reads_metadata_augmentation_loop:
  assumes "limit \<le> length bytes"
  shows "reads 0 limit (metadata_augmentation_loop bytes limit chs found sig)"
proof (induction chs arbitrary: found sig)
  case Nil
  then show ?case by (simp add: reads_returnM)
next
  case (Cons ch chs)
  note byte = reads_weaken [OF reads_fixed(1) [OF assms], of 0, simplified]
  show ?case
    unfolding metadata_augmentation_loop.simps
    by (intro reads_if reads_throwM reads_bindM0 reads_thenM0 reads_signed_pointer assms byte Cons) simp_all
qed

lemma twp_parse_cie_metadata:
  assumes limit: "limit \<le> length bytes" and "c \<le> limit"
  shows "twp (parse_cie_metadata bytes limit) (\<lambda>_ _. True) (\<lambda>e _. no_ub e) c"
proof -
  have aug: "reads 0 a (metadata_augmentation_loop bytes a chs found sig)" if "a \<le> limit" for a chs found sig
    by (rule reads_metadata_augmentation_loop) (use that limit in simp)
  show ?thesis
    unfolding parse_cie_metadata_def Let_def using assms(2)
    by (auto simp: twp_simps limit simp del: One_nat_def
        intro!: twp_read [OF reads_fixed(1) [OF limit]] twp_read [OF reads_leb(1) [OF limit]]
          twp_read [OF reads_leb(2) [OF limit]] twp_read [OF reads_c_string [OF limit]] twp_read [OF aug])
qed

lemma twp_fde_range:
  assumes limit: "limit \<le> length sec" and "c \<le> limit"
  shows "twp (fde_range sec sva limit encoding) (\<lambda>_ _. True) (\<lambda>e _. no_ub e) c"
proof -
  note read = twp_read [OF reads_signed_pointer [OF limit]]
  show ?thesis
    unfolding fde_range_def Let_def using assms(2) by (auto simp: twp_simps intro!: read twp_add_signed)
qed

lemma twp_signal_entry:
  "twp (signal_entry sec sva target)
    (\<lambda>r x. r = None \<longrightarrow> length sec - fst x < length sec - entry) (\<lambda>e _. no_ub e) (entry, cies)"
proof -
  have limit: "entry + 4 + le_nat raw \<le> length sec"
    if "\<not> le_nat raw > length sec - (entry + 4)" "entry + 4 \<le> length sec" for raw
    using that by simp
  have ptr: "reads 4 e (read_u32 eh_dialect sec e what)" if "e \<le> length sec" for e what
    by (rule reads_fixed(3) [OF that])
  show ?thesis
    unfolding signal_entry_def signal_fde_def Let_def
    by (auto simp: twp_simps twp_read_at twp_from_cursor twp_at_cursor not_less
        intro!: twp_read [OF ptr] twp_parse_cie_metadata [THEN twp_mono] twp_fde_range [THEN twp_mono] limit)
qed

lemma inspects_is_signal_frame [inspects_intros]: "inspects (is_signal_frame ix target)"
proof -
  let ?sec = "ef_section ix"
  have "twp (loopM (length ?sec + 1) (signal_entry ?sec sva target)) (\<lambda>_ _. True) (\<lambda>e _. no_ub e) (0, smap_empty)"
    for sva
  proof (rule twp_loopM [where I = "\<lambda>_. True" and \<mu> = "\<lambda>x. length ?sec - fst x"])
    fix x :: signal_scan
    show "twp (signal_entry ?sec sva target) (\<lambda>r s'. case r of Some y \<Rightarrow> True | None \<Rightarrow> True \<and>
        length ?sec - fst s' < length ?sec - fst x) (\<lambda>e _. no_ub e) x"
      by (cases x) (auto intro!: twp_mono [OF twp_signal_entry] split: option.split)
  qed simp_all
  then show ?thesis
    by (auto simp: is_signal_frame_def inspects_def twp_simps twp_zoomM simp del: loopM.simps)
qed

section \<open>The two scans run in step\<close>

definition metadata_of :: "cie \<Rightarrow> cie_metadata" where
  "metadata_of ci = \<lparr>cd_fde_encoding = fde_encoding ci, cd_signal_frame = False\<rparr>"

abbreviation metadata_map :: "(nat, cie) smap \<Rightarrow> (nat, cie_metadata) smap" where
  "metadata_map \<equiv> smap_map (\<lambda>_. metadata_of)"

lemma metadata_map_emplace: "metadata_map (smap_emplace k ci cies) = smap_emplace k (metadata_of ci) (metadata_map cies)"
proof -
  have "metadata_map (smap_assign k ci cies) = smap_assign k (metadata_of ci) (metadata_map cies)"
    by (induction k ci cies rule: smap_assign.induct) (auto simp: smap_map_def)
  then show ?thesis by (simp add: smap_emplace_def smap_find_map)
qed

lemma metadata_augmentation_follows:
  "augmentation_loop bytes aug_end chs found c = (Ok r, c') \<Longrightarrow>
    metadata_augmentation_loop bytes aug_end chs found False c = (Ok (r, False), c')"
  by (induction chs arbitrary: found c)
    (auto simp: Ok_run thenM_def read_signed_pointer_Ok split: if_splits)

lemma parse_cie_metadata_follows:
  "parse_cie bytes end_pos c = (Ok ci, c') \<Longrightarrow> parse_cie_metadata bytes end_pos c = (Ok (metadata_of ci), c')"
  unfolding parse_cie_def parse_cie_metadata_def Let_def metadata_of_def
  by (fastforce simp: Ok_run dest: metadata_augmentation_follows split: if_splits option.splits)

lemma fde_range_follows:
  assumes "parse_fde sec sva end_pos ci c = (Ok rng, c')"
  shows "\<exists>c''. fde_range sec sva end_pos (fde_encoding ci) c = (Ok rng, c'')"
  using assms unfolding parse_fde_def Let_def
  by (clarsimp simp: Ok_run thenM_def split: if_splits)
    (simp add: fde_range_def Let_def Ok_run read_signed_pointer_Ok)

lemma at_cursor_Ok: "at_cursor c m s = (Ok a, s') \<longleftrightarrow> s' = s \<and> (\<exists>c'. m c = (Ok a, c'))"
  by (auto simp: at_cursor_def prod_eq_iff)

lemma from_cursor_Ok: "from_cursor c m s = (Ok (a, c'), s') \<longleftrightarrow> s' = s \<and> m c = (Ok a, c')"
  by (auto simp: from_cursor_def at_cursor_Ok Ok_run)

lemma modifyM_Ok: "modifyM f s = (Ok u, s') \<longleftrightarrow> s' = f s"
  by (auto simp: modifyM_def)

lemma signal_fde_follows:
  assumes "scan_fde sec sva target rd rr ptr content cursor end_pos cies (s, entry, cies) = (Ok r, s', scan')"
  shows "(case r of
      Some found \<Rightarrow> \<exists>x. signal_fde sec sva target ptr content cursor end_pos (metadata_map cies) (entry, metadata_map cies) = (Ok (Some False), x)
    | None \<Rightarrow> signal_fde sec sva target ptr content cursor end_pos (metadata_map cies) (entry, metadata_map cies) =
        (Ok None, fst scan', metadata_map (snd scan')))"
proof -
  obtain ci start len instrs where found: "\<not> ptr > content" "smap_find cies (content - ptr) = Some ci"
    and fde: "parse_fde sec sva end_pos ci cursor = (Ok (start, len), instrs)"
    and rest: "(if target \<ge> start \<and> target < start + len then r \<noteq> None else r = None \<and> scan' = (end_pos, cies))"
    using assms unfolding scan_fde_def next_entry_def
    by (auto simp: Ok_run thenM_def from_cursor_Ok modifyM_Ok simp del: not_less split: option.splits if_splits)
  have "at_cursor cursor (fde_range sec sva end_pos (fde_encoding ci)) s = (Ok (start, len), s)" for s :: signal_scan
    using fde_range_follows [OF fde] by (simp add: at_cursor_Ok)
  with found rest show ?thesis
    by (auto simp: signal_fde_def smap_find_map metadata_of_def run_simps split: option.split if_splits)
qed

text \<open>One turn: when the evaluator goes on, so does the index, with the same CIEs; when the evaluator
  returns, the index answers that the frame is no signal frame.\<close>

lemma signal_entry_follows:
  assumes "scan_entry sec sva target rd rr (s, entry, cies) = (Ok r, s', entry', cies')"
  shows "(case r of
      Some found \<Rightarrow> \<exists>x. signal_entry sec sva target (entry, metadata_map cies) = (Ok (Some False), x)
    | None \<Rightarrow> signal_entry sec sva target (entry, metadata_map cies) = (Ok None, entry', metadata_map cies'))"
proof (cases "entry < length sec")
  case False
  then show ?thesis using assms by (auto simp: scan_entry_def signal_entry_def run_simps)
next
  case True
  let ?len = "le_nat (take 4 (drop entry sec))"
  let ?stop = "entry + 4 + ?len"
  have fits: "\<not> (entry > length sec \<or> 4 > length sec - entry)"
    using True assms by (auto simp: scan_entry_def read_at_def Ok_run split: if_splits)
  show ?thesis
  proof (cases "?len = 0")
    case True
    with assms fits \<open>entry < length sec\<close> show ?thesis
      by (auto simp: scan_entry_def signal_entry_def Let_def read_at_def run_simps)
  next
    case False
    with assms True fits obtain ptr cursor where
      len: "?len \<noteq> 0xffffffff" "\<not> ?len > length sec - (entry + 4)"
      and ptr: "read_u32 eh_dialect sec ?stop ''CIE pointer'' (entry + 4) = (Ok ptr, cursor)"
      and rest: "(if ptr = 0 then (\<exists>ci c'. parse_cie sec ?stop cursor = (Ok ci, c') \<and> r = None \<and> s' = s \<and>
             entry' = ?stop \<and> cies' = smap_emplace entry ci cies)
         else scan_fde sec sva target rd rr (unat ptr) (entry + 4) cursor ?stop cies (s, entry, cies) = (Ok r, s', entry', cies'))"
      by (auto simp: scan_entry_def Let_def read_at_def Ok_run thenM_def next_entry_def from_cursor_Ok at_cursor_Ok
          modifyM_Ok simp del: not_less split: if_splits)
    have "signal_entry sec sva target (entry, metadata_map cies) =
      (if ptr = 0 then bindM (at_cursor cursor (parse_cie_metadata sec ?stop)) (\<lambda>ci.
          thenM (modifyM (\<lambda>(e, cies). (?stop, smap_emplace entry ci cies))) (returnM None))
        else signal_fde sec sva target (unat ptr) (entry + 4) cursor ?stop (metadata_map cies)) (entry, metadata_map cies)"
      using True fits False len ptr
      by (simp add: signal_entry_def Let_def read_at_def run_simps from_cursor_def at_cursor_def)
    then show ?thesis
      using rest signal_fde_follows [of sec sva target rd rr "unat ptr" "entry + 4" cursor ?stop cies s entry r s' "(entry', cies')"]
      by (auto simp: run_simps at_cursor_def metadata_map_emplace dest!: parse_cie_metadata_follows
          split: if_splits option.splits)
  qed
qed

lemma signal_scan_follows:
  assumes "loopM n (scan_entry sec sva target rd rr) (s, entry, cies) = (Ok r, s')"
  shows "\<exists>x. loopM n (signal_entry sec sva target) (entry, metadata_map cies) = (Ok False, x)"
  using assms
proof (induction n arbitrary: s entry cies)
  case 0
  then show ?case by (simp add: divergeM_def)
next
  case (Suc n)
  then obtain q s1 entry1 cies1 where turn: "scan_entry sec sva target rd rr (s, entry, cies) = (Ok q, s1, entry1, cies1)"
    and rest: "(case q of Some x \<Rightarrow> returnM x | None \<Rightarrow> loopM n (scan_entry sec sva target rd rr)) (s1, entry1, cies1) = (Ok r, s')"
    by (auto simp: Ok_run)
  show ?case
  proof (cases q)
    case None
    with signal_entry_follows [OF turn] Suc.IH [of s1 entry1 cies1] rest show ?thesis by (auto simp: Ok_run)
  next
    case (Some x)
    with signal_entry_follows [OF turn] show ?thesis by (fastforce simp: Ok_run)
  qed
qed


text \<open>C28. The signal index agrees with the evaluator. Looking up a frame in the index ends without
  out-of-bounds access and changes nothing; and whenever the call-frame evaluator of the same section recovers
  or passes over the frame at an address, whatever memory and registers answer, the index says that the frame is
  no signal frame.\<close>

theorem evaluated_frame_is_no_signal_frame:
  assumes "ef_available ef"
    and "evaluate_frame (ef_section ef) (ef_virtual_address ef) target rd rr s = (Ok found, s')"
  shows "is_signal_frame ef target k = (Ok False, k)"
proof -
  obtain t where "loopM (length (ef_section ef) + 1) (scan_entry (ef_section ef) (ef_virtual_address ef) target rd rr)
      (s, 0, smap_empty) = (Ok found, t)"
    using assms(2) by (auto simp: evaluate_frame_def with_local_def simp del: loopM.simps split: prod.splits)
  from signal_scan_follows [OF this] show ?thesis
    using assms(1) by (auto simp: is_signal_frame_def zoomM_def smap_map_def smap_empty_def simp del: loopM.simps)
qed

section \<open>A section with one function\<close>

text \<open>A CIE with augmentation \<^verbatim>\<open>zR\<close> and an FDE for \<open>0x1000\<close> to \<open>0x1010\<close>: the CFA is \<^verbatim>\<open>rsp + 8\<close>, the return
  address lies below it.\<close>

definition example_section :: "u8 list" where
  "example_section = [0x14, 0, 0, 0, 0, 0, 0, 0, 1, 0x7a, 0x52, 0, 1, 0x78, 0x10, 1, 0x1b, 0x0c, 7, 8, 0x90, 1, 0, 0,
     0x10, 0, 0, 0, 0x1c, 0, 0, 0, 0xe0, 0xef, 0xff, 0xff, 0x10, 0, 0, 0, 0, 0, 0, 0]"

definition example_cfi :: eh_frame where
  "example_cfi = \<lparr>ef_section = example_section, ef_virtual_address = 0x2000, ef_available = True\<rparr>"

definition example_cie :: cie where
  "example_cie = \<lparr>code_alignment = 1, data_alignment = - 8, return_register = 16, fde_encoding = 0x1b,
     instructions_begin = 17, instructions_end = 24\<rparr>"

definition example_row :: cfi_state where
  "example_row = \<lparr>cfa_defined = True, cfa_register = 7, cfa_offset = 8,
     rules = [(16, \<lparr>rr_kind = RK_Offset, rr_offset = - 8\<rparr>)]\<rparr>"

definition example_frame :: evaluated_frame where
  "example_frame = \<lparr>ev_state = example_row, ev_cfa = 0x7008, ev_return_address = 0x401004\<rparr>"

definition example_memory :: "unit cfi_memory_reader" where
  "example_memory address n = returnM [4, 0x10, 0x40, 0, 0, 0, 0, 0]"

definition example_register :: "u64 \<Rightarrow> (unit, u64) prog" where
  "example_register reg = returnM 0x7000"

lemma example_reads:
  "length example_section = 44" "parse_cie example_section 24 8 = (Ok example_cie, 17)"
  "read_u32 eh_dialect example_section 24 what 4 = (Ok 0, 8)"
  "read_u32 eh_dialect example_section 44 what 28 = (Ok 0x1c, 32)"
  "read_signed_encoded_value example_section 44 0x1b what 32 = (Ok (- 0x1020), 36)"
  "read_signed_encoded_value example_section 44 0x1b what 36 = (Ok 0x10, 40)"
  "read_uleb eh_dialect example_section 44 40 = (Ok 0, 41)"
  by code_simp+

lemma example_lengths:
  "read_at eh_dialect 4 example_section 0 what s = (Ok [0x14, 0, 0, 0], s)"
  "read_at eh_dialect 4 example_section 24 what s = (Ok [0x10, 0, 0, 0], s)" for s :: "unit \<times> scan"
  by code_simp+

lemma example_fde: "parse_fde example_section 0x2000 44 example_cie 32 = (Ok (0x1000, 0x10), 41)"
  by (simp add: parse_fde_def run_simps example_cie_def example_reads add_signed_def)

lemma example_rows:
  "fst (execute example_section 17 24 example_cie empty_cfi_state None 0x1000 (- 1) s) = Ok example_row"
  "fst (execute example_section 41 44 example_cie example_row (Some example_row) 0x1000 0x1004 s) = Ok example_row"
  by code_simp+

lemma example_covering:
  "evaluate_covering example_section example_cie 41 44 0x1000 0x1004 example_memory example_register () =
    (Ok example_frame, ())"
proof -
  have run: "fst r = a \<longleftrightarrow> r = (a, snd r)" for r :: "cfi_state outcome \<times> unit" and a by (cases r) auto
  show ?thesis
    using example_rows [of "()", unfolded run]
    by (simp add: evaluate_covering_def run_simps example_row_def example_frame_def add_signed_def example_cie_def
        smap_find_def read_cfi_slot_def catchM_def read_u64_exact_def example_memory_def example_register_def)
qed

lemma example_evaluates:
  "evaluate_frame example_section 0x2000 0x1004 example_memory example_register () = (Ok (Some example_frame), ())"
proof -
  have cie: "scan_entry example_section 0x2000 0x1004 example_memory example_register ((), 0, smap_empty) =
      (Ok None, (), 24, [(0, example_cie)])"
    by (simp add: scan_entry_def run_simps example_lengths example_reads from_cursor_def at_cursor_def next_entry_def
        smap_emplace_def smap_empty_def)
  have fde: "scan_entry example_section 0x2000 0x1004 example_memory example_register ((), 24, [(0, example_cie)]) =
      (Ok (Some (Some example_frame)), (), 24, [(0, example_cie)])"
    by (simp add: scan_entry_def run_simps example_lengths example_reads scan_fde_def smap_find_def from_cursor_def
        at_cursor_def example_fde zoomM_def example_covering)
  have "loopM (Suc (Suc 43)) (scan_entry example_section 0x2000 0x1004 example_memory example_register) ((), 0, smap_empty) =
      (Ok (Some example_frame), (), 24, [(0, example_cie)])"
    by (simp only: loopM.simps) (simp add: run_simps cie fde)
  then show ?thesis
    by (simp add: evaluate_frame_def with_local_def example_reads)
qed

theorem evaluated_frame_is_no_signal_frame_witness: "is_signal_frame example_cfi 0x1004 () = (Ok False, ())"
  by (rule evaluated_frame_is_no_signal_frame [where rd = example_memory and rr = example_register and s = "()"])
    (simp_all add: example_cfi_def example_evaluates)

end
