(* ===== verification/CoreSnapshotProps.thy ===== *)
theory CoreSnapshotProps
  imports CoreSnapshot ElfFileProps
begin

text \<open>
  Properties of core files: parsing is total and stays inside the file, a parsed core is consistent,
  its memory is read exactly through the segment that contains the address, and the early exit of
  the mapping search loses nothing.
\<close>

unbundle bit_operations_syntax

section \<open>The invariant of a core\<close>

definition segments_ok :: "u8 list \<Rightarrow> load_segment list \<Rightarrow> bool" where
  "segments_ok bytes segs \<longleftrightarrow> (\<forall>seg \<in> set segs. ls_address seg + ls_memory_size seg \<le> u64_max \<and>
     ls_file_size seg \<le> ls_memory_size seg \<and> ls_file_offset seg + ls_file_size seg \<le> length bytes)"

definition threads_ok :: "core_thread list \<Rightarrow> user_regs option \<Rightarrow> pid \<Rightarrow> int \<Rightarrow> bool" where
  "threads_ok threads regs crashed sig \<longleftrightarrow> distinct (map ct_tid threads) \<and> (\<forall>t \<in> set threads. ct_tid t > 0) \<and>
     (case threads of
        [] \<Rightarrow> regs = None
      | t # ts \<Rightarrow> ct_is_crashed t \<and> (\<forall>u \<in> set ts. \<not> ct_is_crashed u) \<and>
          regs = Some (ct_registers t) \<and> crashed = ct_tid t \<and> sig = ct_signal_number t)"

definition core_inv :: "u8 list \<Rightarrow> core_snapshot \<Rightarrow> bool" where
  "core_inv bytes cs \<longleftrightarrow> cs_bytes cs = bytes \<and> segments_ok bytes (cs_segments cs) \<and>
     threads_ok (cs_threads cs) (cs_registers cs) (cs_crashed_tid cs) (cs_signal_number cs) \<and>
     (\<forall>m \<in> set (cs_mappings cs). cm_start m < cm_end m)"

lemma core_inv_updates:
  "core_inv bytes (cs\<lparr>cs_process_info := p\<rparr>) = core_inv bytes cs"
  "core_inv bytes (cs\<lparr>cs_crash_info := c\<rparr>) = core_inv bytes cs"
  by (auto simp: core_inv_def)

lemma core_inv_bytes: "core_inv bytes cs \<Longrightarrow> cs_bytes cs = bytes"
  by (simp add: core_inv_def)

lemma core_inv_mappings:
  "core_inv bytes cs \<Longrightarrow> \<forall>m \<in> set ms. cm_start m < cm_end m \<Longrightarrow> core_inv bytes (cs\<lparr>cs_mappings := ms\<rparr>)"
  by (simp add: core_inv_def)

lemma threads_ok_add:
  assumes "core_inv bytes cs" and "tid > 0" and "\<forall>t \<in> set (cs_threads cs). ct_tid t \<noteq> tid"
    and "cs' = cs\<lparr>cs_threads := cs_threads cs @ [\<lparr>ct_tid = tid, ct_signal_number = sig, ct_registers = regs,
           ct_is_crashed = (cs_threads cs = [])\<rparr>]\<rparr>"
  shows "core_inv bytes (if cs_threads cs = []
    then cs'\<lparr>cs_registers := Some regs, cs_crashed_tid := tid, cs_signal_number := sig\<rparr> else cs')"
  using assms by (cases "cs_threads cs") (auto simp: core_inv_def threads_ok_def)

section \<open>Every note is parsed inside the file\<close>

lemma twp_checked_add:
  "((left \<le> u64_max \<Longrightarrow> left + right \<le> u64_max) \<Longrightarrow> Q (left + right) s) \<Longrightarrow> (\<And>m. E (RuntimeError m) s) \<Longrightarrow>
    twp (checked_add left right what) Q E s"
  by (auto simp: checked_add_def twp_simps)

lemma twp_checked_mul:
  "(Q (left * right) s) \<Longrightarrow> (\<And>m. E (RuntimeError m) s) \<Longrightarrow> twp (checked_mul left right what) Q E s"
  by (auto simp: checked_mul_def twp_simps)

lemma twp_align4:
  "(\<And>w. v \<le> w \<Longrightarrow> Q w s) \<Longrightarrow> (\<And>m. E (RuntimeError m) s) \<Longrightarrow> twp (align4 v what) Q E s"
proof -
  assume Q: "\<And>w. v \<le> w \<Longrightarrow> Q w s" and E: "\<And>m. E (RuntimeError m) s"
  have "v \<le> (v + 3) - (v + 3) mod 4" by linarith
  then show ?thesis unfolding align4_def twp_bindM using Q E
    by (auto simp: twp_simps intro!: twp_checked_add)
qed

lemma twp_read_note_u64:
  "(\<And>v. Q v s) \<Longrightarrow> (\<And>m. E (RuntimeError m) s) \<Longrightarrow> twp (read_note_u64 bytes offset limit what) Q E s"
  by (auto simp: read_note_u64_def twp_simps intro!: twp_require_range)

lemma twp_raw_mappings:
  assumes "\<And>raw. \<forall>(start, stop, off) \<in> set raw. start < stop \<Longrightarrow> Q raw s" and "\<And>m. E (RuntimeError m) s"
  shows "twp (raw_mappings bytes triples_offset desc_end index n) Q E s"
  using assms
proof (induction n arbitrary: index Q)
  case 0
  then show ?case by (simp add: twp_simps)
next
  case (Suc n)
  show ?case
    by (auto simp: twp_simps Let_def Suc.prems intro!: twp_read_note_u64 Suc.IH Suc.prems(1))
qed

lemma twp_path_step:
  assumes "desc_end \<le> length bytes"
  shows "twp (path_step bytes desc_end)
    (\<lambda>r s'. r = None \<longrightarrow> desc_end - fst s' < desc_end - fst s) (\<lambda>_ _. False) s"
  using assms by (cases s) (auto simp: path_step_def twp_def)

lemma twp_read_mapping_path:
  assumes "desc_end \<le> length bytes" and "\<And>p c'. Q p c'" and "\<And>m c'. E (RuntimeError m) c'"
  shows "twp (read_mapping_path bytes desc_end) Q E c"
proof -
  have "twp (loopM (desc_end - c + 1) (path_step bytes desc_end)) (\<lambda>_ _. True) (\<lambda>_ _. False) (c, [])"
  proof (rule twp_loopM [where I = "\<lambda>_. True" and \<mu> = "\<lambda>p. desc_end - fst p"])
    fix p :: "nat \<times> u8 list"
    show "twp (path_step bytes desc_end) (\<lambda>r s'. case r of Some x \<Rightarrow> True | None \<Rightarrow> True \<and>
        desc_end - fst s' < desc_end - fst p) (\<lambda>_ _. False) p"
      by (rule twp_mono [OF twp_path_step [OF assms(1)]]) (auto split: option.split)
  qed simp_all
  then show ?thesis
    unfolding read_mapping_path_def
    by (auto simp: twp_simps twp_with_local assms(2,3) simp del: loopM.simps intro: twp_mono)
qed

lemma twp_named_mappings:
  assumes "desc_end \<le> length bytes" and "\<forall>(start, stop, off) \<in> set raw. start < stop"
    and "\<And>ms c'. \<forall>m \<in> set ms. cm_start m < cm_end m \<Longrightarrow> Q ms c'" and "\<And>m c'. E (RuntimeError m) c'"
  shows "twp (named_mappings bytes desc_end page_size raw) Q E c"
  using assms
proof (induction raw arbitrary: c Q)
  case Nil
  then show ?case by (simp add: twp_simps)
next
  case (Cons r raw)
  obtain start stop off where r: "r = (start, stop, off)" by (cases r)
  show ?case
    unfolding r named_mappings.simps twp_simps
    using Cons.prems r
    by (intro twp_read_mapping_path twp_checked_mul Cons.IH) (auto simp: twp_simps)
qed

lemma twp_file_note:
  assumes "core_inv bytes cs" and "desc_offset + descsz \<le> length bytes"
  shows "twp (file_note desc_offset descsz cs) (\<lambda>cs' _. core_inv bytes cs') (\<lambda>e _. no_ub e) s"
  unfolding file_note_def Let_def using assms
  by (auto simp: twp_simps twp_at_cursor core_inv_bytes core_inv_mappings
      intro!: twp_checked_add twp_checked_mul twp_read_note_u64 twp_raw_mappings twp_named_mappings)

lemma twp_parse_note:
  assumes "core_inv bytes cs" and "desc_offset + descsz \<le> length bytes"
  shows "twp (parse_note owner type desc_offset descsz cs) (\<lambda>cs' _. core_inv bytes cs') (\<lambda>e _. no_ub e) s"
  unfolding parse_note_def prstatus_note_def prpsinfo_note_def siginfo_note_def Let_def
  using assms threads_ok_add [OF assms(1)]
  by (auto simp: twp_simps core_inv_updates intro!: twp_read_struct twp_file_note)

lemma twp_note_step:
  assumes "core_inv bytes (snd p)" and "end_pos \<le> length bytes"
  shows "twp (note_step end_pos) (\<lambda>r p'. case r of Some cs \<Rightarrow> core_inv bytes cs
      | None \<Rightarrow> core_inv bytes (snd p') \<and> end_pos - fst p' < end_pos - fst p) (\<lambda>e _. no_ub e) p"
proof (cases p)
  case (Pair cursor cs)
  have fits: "nhdr_size \<le> end_pos - cursor \<Longrightarrow> np \<le> end_pos - (cursor + nhdr_size) \<Longrightarrow>
      dp \<le> end_pos - (cursor + nhdr_size + np) \<Longrightarrow> d \<le> dp \<Longrightarrow> cursor < end_pos \<Longrightarrow>
      cursor + nhdr_size + np + d \<le> length bytes" for np dp d
    using assms(2) by simp
  show ?thesis
    using assms(1) unfolding Pair note_step_def note_owner_def Let_def
    by (auto simp: twp_simps not_less
        intro!: twp_read_struct twp_align4 twp_require_range twp_parse_note [THEN twp_mono] fits)
qed

lemma twp_parse_notes:
  assumes "core_inv bytes cs" and "offset + len \<le> length bytes"
  shows "twp (parse_notes offset len cs)
    (\<lambda>cs' s'. core_inv bytes cs' \<and> sorted (map mapping_key (cs_mappings cs')) \<and> s' = s) (\<lambda>e s'. no_ub e \<and> s' = s) s"
proof -
  have "twp (loopM (len + 1) (note_step (offset + len))) (\<lambda>cs' _. core_inv bytes cs') (\<lambda>e _. no_ub e) (offset, cs)"
    by (rule twp_loopM [where I = "\<lambda>p. core_inv bytes (snd p)" and \<mu> = "\<lambda>p. offset + len - fst p"])
      (use assms in \<open>auto intro!: twp_note_step\<close>)
  then show ?thesis
    unfolding parse_notes_def
    by (auto simp: twp_simps twp_at_cursor twp_with_local simp del: loopM.simps
        intro!: twp_checked_add core_inv_mappings elim!: twp_mono) (auto simp: core_inv_def)
qed

text \<open>During the scan of the program headers the mappings stay sorted.\<close>

definition scan_inv :: "u8 list \<Rightarrow> core_snapshot \<Rightarrow> bool" where
  "scan_inv bytes cs \<longleftrightarrow> core_inv bytes cs \<and> sorted (map mapping_key (cs_mappings cs))"

lemma segments_ok_add:
  "core_inv bytes cs \<Longrightarrow> v + m \<le> u64_max \<Longrightarrow> f \<le> m \<Longrightarrow> off + f \<le> length bytes \<Longrightarrow>
    core_inv bytes (cs\<lparr>cs_segments := cs_segments cs @
      [\<lparr>ls_address = v, ls_file_offset = off, ls_file_size = f, ls_memory_size = m\<rparr>]\<rparr>)"
  by (auto simp: core_inv_def segments_ok_def)

lemma decode_phdr_bounds: "ph_vaddr (decode_phdr raw) \<le> u64_max"
  using field_less [of 16 8 raw] by (simp add: decode_phdr_def)

lemma twp_load_core_segment:
  assumes "scan_inv bytes cs"
  shows "twp (load_core_segment (decode_phdr raw) cs) (\<lambda>cs' s'. scan_inv bytes cs' \<and> s' = s) (\<lambda>e s'. no_ub e \<and> s' = s) s"
  unfolding load_core_segment_def using assms decode_phdr_bounds [of raw]
  by (auto simp: twp_simps scan_inv_def core_inv_bytes not_less
      intro!: twp_checked_add twp_require_range twp_parse_notes segments_ok_add)

lemma twp_core_segment_loop:
  "scan_inv bytes cs \<Longrightarrow>
    twp (core_segment_loop phoff index n cs) (\<lambda>cs' s'. scan_inv bytes cs' \<and> s' = s) (\<lambda>e s'. no_ub e \<and> s' = s) s"
proof (induction n arbitrary: index cs)
  case (Suc n)
  then show ?case
    by (auto simp: twp_simps intro!: twp_read_struct twp_mono [OF twp_load_core_segment])
qed (simp add: twp_simps)

text \<open>A usable core: consistent, with a crashed thread whose instruction pointer is mapped.\<close>

definition core_ok :: "core_snapshot \<Rightarrow> bool" where
  "core_ok cs \<longleftrightarrow> scan_inv (cs_bytes cs) cs \<and> cs_threads cs \<noteq> [] \<and> cs_segments cs \<noteq> [] \<and>
     mapping_for_address cs (rip (ct_registers (hd (cs_threads cs)))) \<noteq> None \<and>
     (\<forall>c. cs_crash_info cs = Some c \<longrightarrow> cc_signal_number c = ct_signal_number (hd (cs_threads cs))) \<and>
     (\<forall>p. cs_process_info cs = Some p \<longrightarrow> cp_pid p \<in> ct_tid ` set (cs_threads cs))"

lemma twp_check_core:
  assumes "scan_inv bytes cs"
  shows "twp (check_core cs) (\<lambda>cs' s'. cs' = cs \<and> core_ok cs \<and> s' = s) (\<lambda>e s'. no_ub e \<and> s' = s) s"
proof -
  have "cs_registers cs = Some (ct_registers (hd (cs_threads cs))) \<and>
      cs_signal_number cs = ct_signal_number (hd (cs_threads cs))" if "cs_threads cs \<noteq> []"
    using assms that by (cases "cs_threads cs") (auto simp: scan_inv_def core_inv_def threads_ok_def)
  moreover have "cs_bytes cs = bytes" using assms by (simp add: scan_inv_def core_inv_bytes)
  ultimately show ?thesis
    unfolding check_core_def using assms
    by (auto simp: twp_simps core_ok_def intro: rev_image_eqI split: option.splits)
qed

lemma twp_parse_core:
  "twp (parse_core bytes) (\<lambda>cs s'. cs_bytes cs = bytes \<and> core_ok cs \<and> s' = s) (\<lambda>e s'. no_ub e \<and> s' = s) s"
proof -
  have start: "scan_inv bytes \<lparr>cs_bytes = bytes, cs_segments = [], cs_mappings = [], cs_threads = [],
      cs_crash_info = None, cs_process_info = None, cs_registers = None, cs_crashed_tid = - 1,
      cs_signal_number = 0\<rparr>"
    by (simp add: scan_inv_def core_inv_def segments_ok_def threads_ok_def)
  show ?thesis
    unfolding parse_core_def
    by (auto simp: twp_simps Let_def scan_inv_def core_inv_bytes
        intro!: twp_read_struct twp_checked_mul twp_require_range twp_mono [OF twp_core_segment_loop [OF start]]
          twp_mono [OF twp_check_core [of bytes]])
qed

text \<open>C33. Opening a core file is total on every byte sequence: it ends, never reads outside the file,
  and either throws or returns a consistent core: distinct positive thread ids, exactly the first
  thread marked crashed and its registers selected, segments whose bytes lie in the file and whose
  addresses do not overflow, sorted non-empty file mappings, and the crash address mapped.\<close>

theorem parse_core_total:
  "twp (parse_core bytes) (\<lambda>cs _. cs_bytes cs = bytes \<and> core_ok cs) (\<lambda>e _. no_ub e) s"
  by (rule twp_mono [OF twp_parse_core]) auto

text \<open>A small core: one thread, one segment of three captured bytes, one file mapping.\<close>

definition example_core :: core_snapshot where
  "example_core = \<lparr>cs_bytes = [0x11, 0x22, 0x33, 0x44], cs_segments = [\<lparr>ls_address = 0x401000,
     ls_file_offset = 1, ls_file_size = 3, ls_memory_size = 16\<rparr>],
     cs_mappings = [\<lparr>cm_start = 0x400000, cm_end = 0x402000, cm_file_offset = 0, cm_path = [0x61]\<rparr>],
     cs_threads = [\<lparr>ct_tid = 77, ct_signal_number = 11, ct_registers = zero_regs\<lparr>rip := 0x401000\<rparr>,
       ct_is_crashed = True\<rparr>],
     cs_crash_info = None, cs_process_info = None, cs_registers = Some (zero_regs\<lparr>rip := 0x401000\<rparr>),
     cs_crashed_tid = 77, cs_signal_number = 11\<rparr>"

lemma example_core_ok: "core_ok example_core"
  by (simp add: core_ok_def scan_inv_def core_inv_def segments_ok_def threads_ok_def example_core_def
      mapping_for_address_def)

section \<open>Reading captured memory\<close>

definition in_segment :: "nat \<Rightarrow> load_segment \<Rightarrow> bool" where
  "in_segment a seg \<longleftrightarrow> ls_address seg \<le> a \<and> a < ls_address seg + ls_memory_size seg"

text \<open>The reference: the first segment that contains the first byte decides.\<close>

definition captured :: "core_snapshot \<Rightarrow> nat \<Rightarrow> nat \<Rightarrow> u8 list option" where
  "captured cs a len = (case find (in_segment a) (cs_segments cs) of
     None \<Rightarrow> None
   | Some seg \<Rightarrow> if a + len \<le> ls_address seg + ls_file_size seg
       then Some (take len (drop (ls_file_offset seg + (a - ls_address seg)) (cs_bytes cs))) else None)"

lemma segment_loop_find:
  assumes "segments_ok bytes segs" and "length bytes \<le> u64_max" and "0 < len"
  shows "segment_loop bytes a (a + len) len segs s = (case find (in_segment a) segs of
      None \<Rightarrow> (Throw (RuntimeError ''core memory range is unmapped''), s)
    | Some seg \<Rightarrow>
        if a + len > ls_address seg + ls_memory_size seg
        then (Throw (RuntimeError ''core memory read spans PT_LOAD boundary''), s)
        else if a + len > ls_address seg + ls_file_size seg
        then (Throw (RuntimeError ''core memory range is not captured in PT_LOAD file bytes''), s)
        else (Ok (take len (drop (ls_file_offset seg + (a - ls_address seg)) bytes)), s))"
  using assms(1)
proof (induction segs)
  case (Cons seg segs)
  then have seg: "ls_address seg + ls_memory_size seg \<le> u64_max" "ls_file_size seg \<le> ls_memory_size seg"
    "ls_file_offset seg + ls_file_size seg \<le> length bytes" and rest: "segments_ok bytes segs"
    by (simp_all add: segments_ok_def)
  have add: "checked_add x y what t = (Ok (x + y), t)" if "x + y \<le> u64_max" for x y what and t :: 'a
    using that by (auto simp: checked_add_def returnM_def)
  show ?case
  proof (cases "in_segment a seg")
    case False
    then show ?thesis
      using Cons.IH [OF rest] add [OF seg(1)] by (auto simp: bindM_def in_segment_def not_le not_less)
  next
    case True
    have "x \<le> u64_max" if "x \<le> ls_address seg + ls_memory_size seg" for x using that seg(1) by linarith
    then have ends: "ls_address seg + ls_file_size seg \<le> u64_max" using seg(2) by simp
    have offs: "ls_file_offset seg + (a - ls_address seg) + len \<le> length bytes"
      if "a + len \<le> ls_address seg + ls_file_size seg" using that seg(3) True by (simp add: in_segment_def)
    have small: "ls_file_offset seg + (a - ls_address seg) \<le> u64_max"
      if "a + len \<le> ls_address seg + ls_file_size seg" using offs [OF that] assms(2) by linarith
    show ?thesis
      using True add [OF seg(1)] add [OF ends] add [OF small] offs
      by (auto simp: bindM_def thenM_def in_segment_def throwM_def returnM_def require_range_def not_less)
  qed
qed (simp add: throwM_def)

lemma core_read_captured:
  assumes "core_ok cs" and "length (cs_bytes cs) \<le> u64_max" and "0 < len" and "unat a + len \<le> u64_max"
  shows "case captured cs (unat a) len of
      Some bs \<Rightarrow> core_read_memory cs a len s = (Ok bs, s) \<and> length bs = len
    | None \<Rightarrow> \<exists>m. core_read_memory cs a len s = (Throw (RuntimeError m), s)"
proof -
  have segs: "segments_ok (cs_bytes cs) (cs_segments cs)"
    using assms(1) by (simp add: core_ok_def scan_inv_def core_inv_def)
  have stop: "checked_add (unat a) len ''core memory read range'' s = (Ok (unat a + len), s)"
    using assms(4) by (auto simp: checked_add_def returnM_def)
  have inside: "ls_file_offset seg + (unat a - ls_address seg) + len \<le> length (cs_bytes cs) \<and>
      unat a + len \<le> ls_address seg + ls_memory_size seg"
    if "find (in_segment (unat a)) (cs_segments cs) = Some seg"
      and "unat a + len \<le> ls_address seg + ls_file_size seg" for seg
  proof -
    have "seg \<in> set (cs_segments cs)" "in_segment (unat a) seg"
      using that(1) by (auto simp: find_Some_iff)
    with segs that(2) show ?thesis by (auto simp: segments_ok_def in_segment_def)
  qed
  show ?thesis
    using assms(3) inside
    by (fastforce simp: core_read_memory_def bindM_def stop segment_loop_find [OF segs assms(2,3)] captured_def
        split: option.splits)
qed

text \<open>C34. Reading memory of a parsed core returns exactly the bytes the first segment containing the
  address captured for the range, and throws exactly when the range is not captured there; the
  overflow and file-bound checks on the way never fire.\<close>

theorem core_read_memory_exact:
  assumes "core_ok cs" and "length (cs_bytes cs) \<le> u64_max" and "0 < len" and "unat a + len \<le> u64_max"
  shows "case captured cs (unat a) len of
      Some bs \<Rightarrow> core_read_memory cs a len s = (Ok bs, s) \<and> length bs = len
    | None \<Rightarrow> \<exists>m. core_read_memory cs a len s = (Throw (RuntimeError m), s)"
  by (rule core_read_captured [OF assms])

theorem core_read_memory_exact_witness:
  "core_read_memory example_core 0x401001 2 () = (Ok [0x33, 0x44], ())"
  using core_read_memory_exact [OF example_core_ok, of 2 "0x401001" "()"]
  by (simp add: example_core_def captured_def in_segment_def)

section \<open>File mappings\<close>

text \<open>The mapping search stops at the first mapping that starts above the address; on a parsed core
  this loses nothing: it returns what an exhaustive search would.\<close>

theorem mapping_for_address_exhaustive:
  assumes "core_ok cs"
  shows "mapping_for_address cs a =
    find (\<lambda>m. cm_start m \<le> unat a \<and> unat a < cm_end m) (cs_mappings cs)"
proof -
  have "sorted (map mapping_key (cs_mappings cs))" using assms by (simp add: core_ok_def scan_inv_def)
  then have "mapping_loop v (cs_mappings cs) = find (\<lambda>m. cm_start m \<le> v \<and> v < cm_end m) (cs_mappings cs)" for v
  proof (induction "cs_mappings cs" arbitrary: cs)
    case (Cons m ms)
    have "find (\<lambda>m. cm_start m \<le> v \<and> v < cm_end m) (m # ms) = None" if "cm_start m > v"
      using that Cons.prems Cons.hyps(2) [symmetric]
      by (auto simp: find_None_iff mapping_key_def less_eq_prod_def)
    with Cons.hyps(1) [of "cs\<lparr>cs_mappings := ms\<rparr>"] Cons.prems Cons.hyps(2) [symmetric] show ?case
      by (auto simp: not_less)
  qed simp
  then show ?thesis by (simp add: mapping_for_address_def)
qed

theorem mapping_for_address_exhaustive_witness:
  "map_option cm_path (mapping_for_address example_core 0x401234) = Some [0x61]"
  using mapping_for_address_exhaustive [OF example_core_ok, of "0x401234"]
  by (simp add: example_core_def)

end
