(* ===== verification/SnapshotPathsProps.thy ===== *)
theory SnapshotPathsProps
  imports SnapshotPaths CfiUnwindProps SourcePathProps
begin

text \<open>
  Reading a debug link never leaves the file, the checksum tells files apart that differ in a single byte, and
  a debug companion is accepted only with the name and checksum its module records.
\<close>

unbundle bit_operations_syntax

section \<open>The checksum\<close>

lemma xor_cancel: "x XOR z = y XOR z \<longleftrightarrow> x = y" "z XOR x = z XOR y \<longleftrightarrow> x = y" for x y z :: "'a::len word"
proof -
  show "x XOR z = y XOR z \<longleftrightarrow> x = y" by (metis xor.assoc xor_self_eq xor.right_neutral)
  then show "z XOR x = z XOR y \<longleftrightarrow> x = y" by (simp add: xor.commute)
qed

lemma crc_bit_eq: "crc_bit x = drop_bit 1 x XOR (if odd x then 0xedb88320 else 0)"
  by (simp add: crc_bit_def and_one_eq mod_2_eq_odd)

lemma crc_bit_top: "bit (crc_bit x) 31 \<longleftrightarrow> odd x"
proof -
  have "\<not> bit (drop_bit 1 x) 31" by (auto simp: bit_drop_bit_eq dest: bit_imp_le_length)
  moreover have "bit (0xedb88320 :: u32) 31" by simp
  ultimately show ?thesis by (simp add: crc_bit_eq bit_xor_iff)
qed

lemma crc_bit_inj: "inj crc_bit"
proof (rule injI)
  fix x y assume eq: "crc_bit x = crc_bit y"
  then have parity: "odd x = odd y" by (metis crc_bit_top)
  with eq have "drop_bit 1 x = drop_bit 1 y" by (auto simp: crc_bit_eq xor_cancel split: if_splits)
  then have "x div 2 = y div 2" by (simp add: drop_bit_eq_div)
  moreover have "x mod 2 = y mod 2" using parity by (simp add: mod_2_eq_odd)
  ultimately show "x = y" by (metis div_mult_mod_eq)
qed

lemma crc_byte_inj: "crc_byte x b = crc_byte y b \<longleftrightarrow> x = y"
proof -
  have "inj (crc_bit ^^ 8)" by (rule inj_fn [OF crc_bit_inj])
  then show ?thesis by (simp add: crc_byte_def inj_eq xor_cancel)
qed

lemma ucast_byte_inj: "(ucast (a :: u8) :: u32) = ucast b \<longleftrightarrow> a = b"
proof
  assume "(ucast a :: u32) = ucast b"
  then have "unat (ucast a :: u32) = unat (ucast b :: u32)" by simp
  moreover have "unat (ucast c :: u32) = unat c" for c :: u8
    using unsigned_less [of c, where 'a = nat] by (simp add: unsigned_ucast_eq take_bit_nat_eq_self)
  ultimately show "a = b" by (simp add: word_unat_eq_iff)
qed simp

lemma crc_byte_differs: "crc_byte x a = crc_byte x b \<longleftrightarrow> a = b"
proof -
  have "inj (crc_bit ^^ 8)" by (rule inj_fn [OF crc_bit_inj])
  then show ?thesis by (simp add: crc_byte_def inj_eq ucast_byte_inj xor_cancel)
qed

lemma foldl_crc_inj: "foldl crc_byte x bs = foldl crc_byte y bs \<longleftrightarrow> x = y"
  by (induction bs arbitrary: x y) (simp_all add: crc_byte_inj)

lemma crc32_one_byte: "crc32 (pre @ a # post) = crc32 (pre @ b # post) \<longleftrightarrow> a = b"
  by (simp add: crc32_def foldl_crc_inj crc_byte_differs xor_cancel)

text \<open>The files that differ from a file in one byte.\<close>

definition one_byte_variants :: "u8 list \<Rightarrow> u8 list set" where
  "one_byte_variants bytes = {pre @ b # post | pre a b post. bytes = pre @ a # post \<and> b \<noteq> a}"

section \<open>Reading the debug link\<close>

lemma inspects_artifact_range: "inspects (artifact_range bytes offset len what)"
  unfolding artifact_range_def by (intro inspects_intros) simp_all

lemma inspects_section_name:
  assumes "sh_offset strings + sh_size strings \<le> length bytes"
  shows "inspects (section_name bytes strings offset)"
  unfolding section_name_def Let_def using assms by (intro inspects_intros) simp_all

lemma inspects_parse_debuglink: "inspects (parse_debuglink sec)"
  unfolding parse_debuglink_def Let_def by (intro inspects_intros) simp_all

lemma inspects_debuglink_loop:
  assumes "sh_offset names + sh_size names \<le> length bytes"
  shows "inspects (debuglink_loop bytes names found sections)"
proof (induction sections arbitrary: found)
  case Nil
  then show ?case by (simp, intro inspects_intros)
next
  case (Cons s rest)
  then show ?case
    unfolding debuglink_loop.simps
    by (intro inspects_intros inspects_section_name [OF assms] inspects_artifact_range inspects_parse_debuglink) simp_all
qed

lemma inspects_names_range:
  assumes "\<And>u. offset + len \<le> length bytes \<Longrightarrow> inspects (m u)"
  shows "inspects (bindM (artifact_range bytes offset len what) m)"
  unfolding inspects_def using assms
  by (auto simp: artifact_range_def twp_simps inspects_def not_less not_le split: if_splits)

lemma inspects_parse_gnu_debuglink [inspects_intros]: "inspects (parse_gnu_debuglink bytes)"
  unfolding parse_gnu_debuglink_def Let_def thenM_def
  by (intro inspects_intros inspects_read_at inspects_read_sections inspects_names_range inspects_debuglink_loop) simp_all

lemma inspects_read_gnu_debuglink [inspects_intros]: "inspects (read_gnu_debuglink fs path)"
  unfolding read_gnu_debuglink_def read_artifact_def
  by (intro inspects_intros) (auto intro: inspects_intros split: file_contents.split)

lemma inspects_gnu_debuglink_crc32 [inspects_intros]: "inspects (gnu_debuglink_crc32 fs path)"
  unfolding gnu_debuglink_crc32_def
  by (intro inspects_intros) (auto intro: inspects_intros split: file_contents.split)

lemma inspects_resolve_module [inspects_intros]: "inspects (resolve_module regular mp recorded)"
  unfolding resolve_module_def by (intro inspects_intros) simp_all

lemma inspects_check_companion [inspects_intros]: "inspects (check_companion fs runtime companion found)"
  unfolding check_companion_def by (intro inspects_intros) simp_all

lemma check_companion_Ok:
  "check_companion fs runtime companion found k = (Ok p, k') \<longleftrightarrow> p = companion \<and> k' = k \<and>
    (\<exists>link bytes. found = Some link \<and> path_filename companion = gl_filename link \<and>
      fs_contents fs (bytes_text companion) k = Contents bytes \<and> crc32 bytes = gl_crc32 link)"
  by (auto simp: check_companion_def gnu_debuglink_crc32_def Ok_run split: option.splits if_splits file_contents.splits)

lemma read_gnu_debuglink_Ok:
  "read_gnu_debuglink fs path k = (Ok found, k') \<longleftrightarrow>
    (\<exists>bytes. fs_contents fs (bytes_text path) k = Contents bytes \<and> parse_gnu_debuglink bytes k = (Ok found, k'))"
  by (auto simp: read_gnu_debuglink_def read_artifact_def Ok_run split: file_contents.splits)

lemma inspects_resolve_debug_file [inspects_intros]: "inspects (resolve_debug_file fs regular mp recorded)"
  unfolding resolve_debug_file_def Let_def by (intro inspects_intros) simp_all

text \<open>C27. A debug companion is accepted only with proof. Whatever the files hold, resolving a debug file ends
  without out-of-bounds access; when it returns, it returns the module file itself if no companion is
  configured, and otherwise the configured companion, which is a regular file whose name and checksum are those
  of the \<^verbatim>\<open>.gnu_debuglink\<close> section of the module. No file that differs from the accepted companion in a
  single byte has that checksum.\<close>

theorem debug_companion_verified:
  "twp (resolve_debug_file fs regular mp recorded)
    (\<lambda>p k'. k' = k \<and> (\<exists>runtime. resolve_module regular mp recorded k = (Ok runtime, k) \<and>
       (case find (\<lambda>d. dg_recorded_module d = lexically_normal recorded) (mp_debug_files mp) of
          None \<Rightarrow> p = runtime
        | Some d \<Rightarrow> p = dg_local_debug_file d \<and> regular p \<and>
            (\<exists>module companion link. fs_contents fs (bytes_text runtime) k = Contents module \<and>
              parse_gnu_debuglink module k = (Ok (Some link), k) \<and> path_filename p = gl_filename link \<and>
              fs_contents fs (bytes_text p) k = Contents companion \<and> crc32 companion = gl_crc32 link \<and>
              gl_crc32 link \<notin> crc32 ` one_byte_variants companion))))
    (\<lambda>e k'. no_ub e \<and> k' = k) k" (is "twp _ ?Q _ k")
proof (rule inspects_cases [OF inspects_resolve_debug_file, of fs regular mp recorded k])
  fix p assume run: "resolve_debug_file fs regular mp recorded k = (Ok p, k)"
  let ?companion = "find (\<lambda>d. dg_recorded_module d = lexically_normal recorded) (mp_debug_files mp)"
  obtain runtime where r: "resolve_module regular mp recorded k = (Ok runtime, k)"
    and rest: "(case ?companion of None \<Rightarrow> returnM runtime
      | Some d \<Rightarrow> if \<not> regular (dg_local_debug_file d) then throwM (RuntimeError (''snapshot debug companion is unavailable: '' @ bytes_text (dg_local_debug_file d)))
        else bindM (read_gnu_debuglink fs runtime) (check_companion fs runtime (dg_local_debug_file d))) k = (Ok p, k)"
    using run unfolding resolve_debug_file_def Let_def
    by (auto simp: inspects_bindM_Ok [OF inspects_resolve_module])
  have "?Q p k"
  proof (cases ?companion)
    case None
    then show ?thesis using r rest by (simp add: Ok_run)
  next
    case (Some d)
    with rest obtain module link companion where p: "p = dg_local_debug_file d" "regular p"
      and "fs_contents fs (bytes_text runtime) k = Contents module" "parse_gnu_debuglink module k = (Ok (Some link), k)"
      and "path_filename p = gl_filename link" "fs_contents fs (bytes_text p) k = Contents companion"
      and crc: "crc32 companion = gl_crc32 link"
      by (auto simp: inspects_bindM_Ok [OF inspects_read_gnu_debuglink] check_companion_Ok read_gnu_debuglink_Ok Ok_run
          split: if_splits)
    moreover have "gl_crc32 link \<notin> crc32 ` one_byte_variants companion"
      using crc crc32_one_byte by (fastforce simp: one_byte_variants_def)
    ultimately show ?thesis using r Some by auto
  qed
  then show ?thesis using run by (simp add: twp_def)
qed (simp add: twp_def)

end
