(* ===== verification/SnapshotMemoryProps.thy ===== *)
theory SnapshotMemoryProps
  imports SnapshotMemory CoreSnapshotProps SnapshotPathsProps
begin

text \<open>
  Every byte a snapshot read returns is the byte the core captured or, when the core captured none of the range,
  the byte of the mapped file at the matching offset.
\<close>

text \<open>The byte the core captured at an address.\<close>

definition captured_byte :: "core_snapshot \<Rightarrow> nat \<Rightarrow> u8 option" where
  "captured_byte cs a = map_option hd (captured cs a 1)"

lemma core_read_byte:
  assumes "core_ok cs" and "length (cs_bytes cs) \<le> u64_max" and "unat a < u64_max"
  shows "case captured_byte cs (unat a) of
      Some b \<Rightarrow> core_read_memory cs a 1 s = (Ok [b], s)
    | None \<Rightarrow> \<exists>m. core_read_memory cs a 1 s = (Throw (RuntimeError m), s)"
proof -
  have bound: "unat a + 1 \<le> u64_max" using assms(3) by simp
  show ?thesis
    using core_read_captured [OF assms(1,2) _ bound, of s]
    by (auto simp: captured_byte_def length_Suc_conv split: option.splits)
qed

definition capture_result :: "u8 option list \<Rightarrow> u8 list \<times> bool \<times> bool \<Rightarrow> u8 list \<times> bool \<times> bool" where
  "capture_result found acc = (fst acc @ map (case_option 0 id) found, fst (snd acc) \<or> (\<exists>x \<in> set found. x \<noteq> None),
     snd (snd acc) \<or> None \<in> set found)"

lemma capture_loop_exact:
  assumes "core_ok cs" and "length (cs_bytes cs) \<le> u64_max" and "unat a + index + n \<le> u64_max"
  shows "capture_loop cs a index n acc s =
    (Ok (capture_result (map (\<lambda>i. captured_byte cs (unat a + i)) [index..<index + n]) acc), s)"
  using assms(3)
proof (induction n arbitrary: index acc)
  case 0
  then show ?case by (cases acc) (simp add: returnM_def capture_result_def)
next
  case (Suc n)
  obtain bytes c om where acc: "acc = (bytes, c, om)" by (cases acc)
  have at: "unat (a + of_nat index) = unat a + index"
    using Suc.prems by (simp add: unat_word_ariths unat_of_nat)
  have byte: "case captured_byte cs (unat a + index) of
      Some b \<Rightarrow> core_read_memory cs (a + of_nat index) 1 s = (Ok [b], s)
    | None \<Rightarrow> \<exists>m. core_read_memory cs (a + of_nat index) 1 s = (Throw (RuntimeError m), s)"
    using core_read_byte [OF assms(1,2), of "a + of_nat index" s] Suc.prems by (simp add: at)
  have rest: "capture_loop cs a (Suc index) n acc s =
      (Ok (capture_result (map (\<lambda>i. captured_byte cs (unat a + i)) [Suc index..<index + Suc n]) acc), s)" for acc
    using Suc.IH [of "Suc index" acc] Suc.prems by simp
  have upt: "[index..<index + Suc n] = index # [Suc index..<index + Suc n]" by (simp add: upt_rec)
  show ?case
    unfolding acc capture_loop.simps upt
    using byte rest
    by (auto simp: bindM_def catch_runtime_error_def catchM_def returnM_def capture_result_def
        simp del: upt_Suc split: option.splits)
qed

lemma inspects_read_artifact_range: "inspects (read_artifact_range fs file_path file_offset len)"
  unfolding read_artifact_range_def by (auto intro!: inspects_intros split: file_contents.split)

lemma inspects_read_omitted: "inspects (read_omitted fs regular cs mp address len)"
  unfolding read_omitted_def Let_def by (intro inspects_intros inspects_read_artifact_range) simp_all

text \<open>What a read from the file of the module returns.\<close>

definition read_from_artifact ::
  "'k files \<Rightarrow> (path \<Rightarrow> bool) \<Rightarrow> core_snapshot \<Rightarrow> module_paths \<Rightarrow> u64 \<Rightarrow> nat \<Rightarrow> 'k \<Rightarrow> snapshot_memory_read \<Rightarrow> bool" where
  "read_from_artifact fs regular cs mp a len k r \<longleftrightarrow> (\<exists>m file.
     mapping_for_address cs a = Some m \<and> unat a + len \<le> cm_end m \<and> sm_module_path r = cm_path m \<and>
     resolve_module regular mp (cm_path m) k = (Ok (sm_module_file_path r), k) \<and>
     fs_contents fs (bytes_text (sm_module_file_path r)) k = Contents file \<and>
     sm_artifact_file_offset r = cm_file_offset m + (unat a - cm_start m) \<and>
     sm_artifact_file_offset r + len \<le> length file \<and>
     sm_bytes r = take len (drop (sm_artifact_file_offset r) file))"

lemma read_artifact_range_Ok:
  "read_artifact_range fs file_path file_offset len k = (Ok bytes, k') \<longleftrightarrow> k' = k \<and> (\<exists>file.
    fs_contents fs (bytes_text file_path) k = Contents file \<and> file_offset + len \<le> length file \<and>
    bytes = take len (drop file_offset file))"
  unfolding read_artifact_range_def
  by (cases "fs_contents fs (bytes_text file_path) k") (auto simp: Ok_run not_less split: if_splits)

lemma read_omitted_Ok:
  assumes "read_omitted fs regular cs mp a len k = (Ok r, k')"
  shows "read_from_artifact fs regular cs mp a len k r \<and> sm_provenance r = MP_RuntimeArtifact"
  using assms unfolding read_omitted_def Let_def read_from_artifact_def
  by (auto simp: inspects_bindM_Ok [OF inspects_resolve_module] inspects_bindM_Ok [OF inspects_read_artifact_range]
      read_artifact_range_Ok returnM_def throwM_def not_less split: option.splits if_splits)

lemma captured_list:
  assumes "None \<notin> set found"
  shows "map (case_option 0 id) found = map the found" "map Some (map the found) = found"
  using assms by (induction found) (auto split: option.split)

lemma read_snapshot_memory_run:
  assumes "core_ok cs" and "length (cs_bytes cs) \<le> u64_max" and "0 < len" "len \<le> kMaxReadLength"
    and "unat a + len \<le> u64_max" and found: "found = map (\<lambda>i. captured_byte cs (unat a + i)) [0..<len]"
  shows "read_snapshot_memory fs regular cs mp a len k = (if None \<notin> set found
     then (Ok \<lparr>sm_bytes = map the found, sm_provenance = MP_Core, sm_module_path = [],
                sm_module_file_path = [], sm_artifact_file_offset = 0\<rparr>, k)
     else if (\<exists>x \<in> set found. x \<noteq> None)
     then (Throw (RuntimeError ''snapshot memory range mixes captured and omitted bytes; artifact fallback refused''), k)
     else read_omitted fs regular cs mp a len k)"
proof -
  have "capture_loop cs a 0 len ([], False, False) k = (Ok (capture_result found ([], False, False)), k)"
    using capture_loop_exact [OF assms(1,2), of a 0 len "([], False, False)" k] assms(5) by (simp add: found)
  then show ?thesis
    using assms(3-5)
    by (auto simp: read_snapshot_memory_def bindM_def capture_result_def captured_list(1) returnM_def throwM_def)
qed

text \<open>C18. A snapshot memory read is exact. On a parsed core, a read of up to 4096 bytes that returns
  gives as many bytes as asked for: either each is the byte the core captured there, or the core captured none of them
  and they are the bytes of the mapped file, at the offset that corresponds to the address; it
  throws only when some byte was not captured, and changes nothing.\<close>

theorem read_snapshot_memory_exact:
  assumes "core_ok cs" and "length (cs_bytes cs) \<le> u64_max" and "0 < len" "len \<le> kMaxReadLength"
    and "unat a + len \<le> u64_max"
  shows "twp (read_snapshot_memory fs regular cs mp a len)
    (\<lambda>r k'. k' = k \<and> length (sm_bytes r) = len \<and> (case sm_provenance r of
       MP_Core \<Rightarrow> map Some (sm_bytes r) = map (\<lambda>i. captured_byte cs (unat a + i)) [0..<len]
     | MP_RuntimeArtifact \<Rightarrow> read_from_artifact fs regular cs mp a len k r \<and>
         map (\<lambda>i. captured_byte cs (unat a + i)) [0..<len] = replicate len None))
    (\<lambda>e k'. no_ub e \<and> k' = k \<and> None \<in> set (map (\<lambda>i. captured_byte cs (unat a + i)) [0..<len])) k"
proof -
  define found where "found = map (\<lambda>i. captured_byte cs (unat a + i)) [0..<len]"
  have len: "length found = len" by (simp add: found_def)
  note run = read_snapshot_memory_run [OF assms found_def, of fs regular mp k]
  have "twp (read_snapshot_memory fs regular cs mp a len)
      (\<lambda>r k'. k' = k \<and> length (sm_bytes r) = len \<and> (case sm_provenance r of
         MP_Core \<Rightarrow> map Some (sm_bytes r) = found
       | MP_RuntimeArtifact \<Rightarrow> read_from_artifact fs regular cs mp a len k r \<and> found = replicate len None))
      (\<lambda>e k'. no_ub e \<and> k' = k \<and> None \<in> set found) k"
  proof (cases "None \<in> set found \<and> \<not> (\<exists>x \<in> set found. x \<noteq> None)")
    case True
    then have none: "found = replicate len None" using len by (auto intro!: replicate_eqI)
    from True have "read_snapshot_memory fs regular cs mp a len k = read_omitted fs regular cs mp a len k"
      by (simp add: run)
    with True none show ?thesis
      by (cases rule: inspects_cases [OF inspects_read_omitted, of fs regular cs mp a len k])
        (auto simp: twp_def read_from_artifact_def dest!: read_omitted_Ok)
  next
    case False
    then show ?thesis using run len captured_list(2) [of found] by (auto simp: twp_def)
  qed
  then show ?thesis by (simp only: found_def)
qed

text \<open>The example core omits the bytes from \<open>0x401003\<close> on; its module has them in the file.\<close>

definition example_module_core :: core_snapshot where
  "example_module_core = example_core\<lparr>cs_mappings :=
     [\<lparr>cm_start = 0x401000, cm_end = 0x402000, cm_file_offset = 2, cm_path = [slash, 0x61]\<rparr>]\<rparr>"

definition example_files :: "unit files" where
  "example_files = \<lparr>fs_canonical = (\<lambda>_. None), fs_equivalent = (\<lambda>_ _. None),
     fs_contents = (\<lambda>_ _. Contents [0, 1, 2, 3, 4, 5, 6, 7, 8, 9]), fs_page_size = 4096, fs_maps = (\<lambda>_ _. None)\<rparr>"

lemma example_module_core_ok: "core_ok example_module_core"
  by (simp add: core_ok_def scan_inv_def core_inv_def segments_ok_def threads_ok_def example_core_def
      example_module_core_def mapping_for_address_def)

lemma example_module_core_read:
  "read_snapshot_memory example_files (\<lambda>_. True) example_module_core identity_module_paths 0x401004 2 () =
    (Ok \<lparr>sm_bytes = [6, 7], sm_provenance = MP_RuntimeArtifact, sm_module_path = [slash, 0x61],
       sm_module_file_path = [slash, 0x61], sm_artifact_file_offset = 6\<rparr>, ())"
proof -
  have found: "[None, None] = map (\<lambda>i. captured_byte example_module_core (unat (0x401004 :: u64) + i)) [0..<2]"
    by (simp add: upt_rec captured_byte_def captured_def in_segment_def example_module_core_def example_core_def)
  have path: "lexically_normal [slash, 0x61] = [slash, 0x61]" "path_is_absolute [slash, 0x61]" by code_simp+
  show ?thesis
    by (subst read_snapshot_memory_run [OF example_module_core_ok _ _ _ _ found])
      (simp_all add: example_module_core_def example_core_def read_omitted_def mapping_for_address_def bindM_def
        read_artifact_range_def returnM_def getM_def example_files_def resolve_module_def module_candidate_def
        identity_module_paths_def path)
qed

theorem read_snapshot_memory_exact_witness:
  "\<exists>r. read_snapshot_memory example_files (\<lambda>_. True) example_module_core identity_module_paths 0x401004 2 () = (Ok r, ()) \<and>
    read_from_artifact example_files (\<lambda>_. True) example_module_core identity_module_paths 0x401004 2 () r"
  using read_snapshot_memory_exact [OF example_module_core_ok, of 2 "0x401004" example_files "\<lambda>_. True" identity_module_paths "()"]
    example_module_core_read
  by (simp add: twp_def example_module_core_def example_core_def)

end
