(* ===== verification/CoreNotesProps.thy ===== *)
theory CoreNotesProps
  imports CoreNotes CoreSnapshotProps CfiUnwindProps
begin

text \<open>
  Both note readers end on every file without leaving it, and the start-up information that is returned is the
  auxiliary vector itself: each field is the entry of its type, and addresses belong to mapped files.
\<close>

unbundle bit_operations_syntax

section \<open>The walk\<close>

lemma twp_core_read_struct:
  "(\<And>b. Q b s) \<Longrightarrow> (\<And>m. E (RuntimeError m) s) \<Longrightarrow> twp (core_read_struct width bytes offset what) Q E s"
  by (simp add: core_read_struct_def twp_simps)

lemma twp_copy_bytes:
  "offset + width \<le> length bytes \<Longrightarrow> (\<And>b. Q b s) \<Longrightarrow> twp (copy_bytes width bytes offset) Q E s"
  by (simp add: copy_bytes_def twp_simps)

lemma twp_core_align4:
  "(\<And>w. v \<le> w \<Longrightarrow> Q w s) \<Longrightarrow> (\<And>m. E (RuntimeError m) s) \<Longrightarrow> twp (core_align4 nd v) Q E s"
proof -
  assume Q: "\<And>w. v \<le> w \<Longrightarrow> Q w s" and E: "\<And>m. E (RuntimeError m) s"
  have "v \<le> (v + 3) - (v + 3) mod 4" by linarith
  with Q E show ?thesis by (auto simp: core_align4_def twp_simps)
qed

lemma twp_core_note_owner:
  "(\<And>o'. Q o' s) \<Longrightarrow> (\<And>m. E (RuntimeError m) s) \<Longrightarrow> twp (core_note_owner nd bytes offset len) Q E s"
  by (simp add: core_note_owner_def twp_simps)

lemma twp_next_note:
  assumes "end_pos \<le> length bytes" and "cursor < end_pos"
    and "\<And>Q E s. nhdr_size \<le> end_pos - cursor \<Longrightarrow> (\<And>b. Q b s) \<Longrightarrow> (\<And>m. E (RuntimeError m) s) \<Longrightarrow> twp (copy cursor) Q E s"
    and "\<And>note. cursor < nt_next note \<Longrightarrow> nt_next note \<le> end_pos \<Longrightarrow>
      nt_desc_offset note + nt_descsz note \<le> end_pos \<Longrightarrow> Q note s"
    and "\<And>m. E (RuntimeError m) s"
  shows "twp (next_note nd copy bytes end_pos cursor) Q E s"
  unfolding next_note_def Let_def using assms(1,2)
  by (auto simp: twp_simps not_less assms(5) intro!: assms(3) twp_core_align4 twp_core_note_owner assms(4,5))

section \<open>Floating-point registers\<close>

lemma twp_fp_note: "twp (fp_note bytes target note sc) (\<lambda>_ _. True) (\<lambda>e _. no_ub e) s"
  unfolding fp_note_def
  by (auto simp: twp_simps intro!: twp_core_read_struct split: option.split)

lemma twp_fp_note_step:
  assumes "end_pos \<le> length bytes"
  shows "twp (fp_note_step bytes target end_pos) (\<lambda>r p'. r = None \<longrightarrow> end_pos - fst p' < end_pos - fst p)
    (\<lambda>e _. no_ub e) p"
  unfolding fp_note_step_def using assms
  by (cases p) (auto simp: twp_simps intro!: twp_next_note twp_core_read_struct twp_mono [OF twp_fp_note])

lemma inspects_fp_segment_loop: "inspects (fp_segment_loop bytes target phoff index n sc)"
proof (induction n arbitrary: index sc)
  case (Suc n)
  have walk: "inspects (at_cursor start (with_local sc (loopM (len + 1) (fp_note_step bytes target (start + len)))))"
    if "start + len \<le> length bytes" for start len
  proof -
    have "twp (loopM (len + 1) (fp_note_step bytes target (start + len))) (\<lambda>_ _. True) (\<lambda>e _. no_ub e) (start, sc)"
    proof (rule twp_loopM [where I = "\<lambda>_. True" and \<mu> = "\<lambda>p. start + len - fst p"])
      fix p :: "nat \<times> fp_scan"
      show "twp (fp_note_step bytes target (start + len)) (\<lambda>r s'. case r of Some x \<Rightarrow> True | None \<Rightarrow> True \<and>
          start + len - fst s' < start + len - fst p) (\<lambda>e _. no_ub e) p"
        by (rule twp_mono [OF twp_fp_note_step [OF that]]) (auto split: option.split)
    qed simp_all
    then show ?thesis by (intro inspects_at_cursor) (simp add: twp_with_local del: loopM.simps)
  qed
  show ?case
    unfolding fp_segment_loop.simps core_read_struct_def Let_def
    by (intro inspects_intros walk Suc) auto
qed (simp add: inspects_intros)

lemma inspects_read_core_bytes [inspects_intros]: "inspects (read_core_bytes nd fs path)"
  unfolding read_core_bytes_def by (intro inspects_intros) (auto intro: inspects_intros split: file_contents.split)

lemma inspects_read_core_floating_point_state [inspects_intros]:
  "inspects (read_core_floating_point_state fs path tid)"
  unfolding read_core_floating_point_state_def parse_floating_point_state_def core_read_struct_def Let_def
  by (intro inspects_intros inspects_fp_segment_loop) simp_all

section \<open>The auxiliary vector\<close>

definition auxv_reflects :: "core_startup_info \<Rightarrow> bool" where
  "auxv_reflects info \<longleftrightarrow> (let entry = map_of (su_entries info) in
     su_entry_point info = entry AT_ENTRY \<and> su_program_headers info = entry AT_PHDR \<and>
     su_program_header_count info = entry AT_PHNUM \<and> su_page_size info = entry AT_PAGESZ \<and>
     su_interpreter_base info = entry AT_BASE \<and> entry AT_NULL = None)"

definition startup_ok :: "core_snapshot \<Rightarrow> core_startup_info \<Rightarrow> bool" where
  "startup_ok cs info \<longleftrightarrow> auxv_reflects info \<and>
     pred_option (\<lambda>a. a \<noteq> 0 \<and> owned_address cs a) (su_entry_point info) \<and>
     pred_option (\<lambda>a. a \<noteq> 0 \<and> owned_address cs a) (su_program_headers info) \<and>
     pred_option (\<lambda>a. a = 0 \<or> owned_address cs a) (su_interpreter_base info) \<and>
     su_program_header_count info \<noteq> Some 0 \<and>
     pred_option (\<lambda>p. \<exists>k. unat p = 2 ^ k) (su_page_size info)"

lemma map_of_snoc: "map_of (xs @ [(k, v)]) j = (case map_of xs j of Some w \<Rightarrow> Some w | None \<Rightarrow> if j = k then Some v else None)"
  by (auto simp: map_add_def split: option.split)

lemma twp_auxv_entry:
  assumes "auxv_reflects info" and "type \<noteq> AT_NULL"
  shows "twp (auxv_entry type v info) (\<lambda>info' _. auxv_reflects info') (\<lambda>e _. no_ub e) s"
  using assms unfolding auxv_entry_def auxv_reflects_def assign_once_def
  by (auto simp: twp_simps Let_def map_of_snoc simp del: map_of_append split: option.splits)

lemma twp_auxv_loop:
  assumes "auxv_reflects info" and "desc_offset + (index + n) * 16 \<le> length bytes"
  shows "twp (auxv_loop bytes desc_offset index n info) (\<lambda>r _. auxv_reflects (fst r)) (\<lambda>e _. no_ub e) s"
  using assms
proof (induction n arbitrary: index info s)
  case (Suc n)
  then show ?case
    by (auto simp: twp_simps intro!: twp_copy_bytes twp_mono [OF twp_auxv_entry])
qed (simp add: twp_simps)

lemma nat_power_of_two: "0 < n \<Longrightarrow> n AND (n - 1) = 0 \<Longrightarrow> \<exists>k. n = 2 ^ k" for n :: nat
proof (induction n rule: less_induct)
  case (less n)
  show ?case
  proof (cases "even n")
    case True
    then obtain m where m: "n = 2 * m" by (rule evenE)
    with less.prems have "0 < m" by simp
    then have "(2 * m - 1) div 2 = m - 1" by (cases m) auto
    with less.prems(2) have "m AND (m - 1) = 0" unfolding m by (subst (asm) and_rec) simp
    with less.IH [of m] m \<open>0 < m\<close> obtain k where "m = 2 ^ k" by auto
    with m have "n = 2 ^ Suc k" by simp
    then show ?thesis by (rule exI)
  next
    case False
    then obtain m where m: "n = 2 * m + 1" by (rule oddE)
    with less.prems(2) have "m = 0" by (subst (asm) and_rec) simp
    with m have "n = 2 ^ 0" by simp
    then show ?thesis by (rule exI)
  qed
qed

lemma power_of_two:
  fixes p :: u64
  assumes "p \<noteq> 0" and "p AND (p - 1) = 0"
  shows "\<exists>k. unat p = 2 ^ k"
proof -
  have pos: "0 < unat p" using assms(1) by (simp add: unat_gt_0)
  have "unat (p - 1) = unat p - 1" using assms(1) by (metis unat_minus_one)
  moreover have "unat (p AND (p - 1)) = unat p AND unat (p - 1)" by (simp add: unsigned_and_eq)
  ultimately show ?thesis using nat_power_of_two [OF pos] assms(2) by simp
qed

lemma twp_check_startup:
  assumes "auxv_reflects info"
  shows "twp (check_startup cs info) (\<lambda>info' _. startup_ok cs info') (\<lambda>e _. no_ub e) s"
  using assms unfolding check_startup_def startup_ok_def
  by (auto simp: twp_simps power_of_two split: option.splits)

definition startup_found_ok :: "core_snapshot \<Rightarrow> core_startup_info option \<Rightarrow> bool" where
  "startup_found_ok cs result \<longleftrightarrow> pred_option (startup_ok cs) result"

lemma twp_auxv_note:
  assumes "startup_found_ok cs result"
  shows "twp (auxv_note cs bytes note result) (\<lambda>result' _. startup_found_ok cs result') (\<lambda>e _. no_ub e) s"
proof -
  have "auxv_reflects \<lparr>su_entry_point = None, su_program_headers = None, su_program_header_count = None,
      su_page_size = None, su_interpreter_base = None, su_entries = []\<rparr>"
    by (simp add: auxv_reflects_def)
  then show ?thesis
    unfolding auxv_note_def using assms
    by (auto simp: twp_simps startup_found_ok_def case_prod_beta not_less
        intro!: twp_mono [OF twp_auxv_loop] twp_mono [OF twp_check_startup])
qed

lemma twp_startup_note_step:
  assumes "end_pos \<le> length bytes" and "startup_found_ok cs (snd p)"
  shows "twp (startup_note_step cs bytes end_pos) (\<lambda>r p'. case r of Some result \<Rightarrow> startup_found_ok cs result
      | None \<Rightarrow> startup_found_ok cs (snd p') \<and> end_pos - fst p' < end_pos - fst p) (\<lambda>e _. no_ub e) p"
  unfolding startup_note_step_def using assms
  by (cases p) (auto simp: twp_simps intro!: twp_next_note twp_copy_bytes twp_mono [OF twp_auxv_note])

lemma twp_startup_segment_loop:
  "startup_found_ok cs result \<Longrightarrow> twp (startup_segment_loop cs bytes phoff index n result)
    (\<lambda>result' s'. startup_found_ok cs result' \<and> s' = s) (\<lambda>e s'. no_ub e \<and> s' = s) s"
proof (induction n arbitrary: index result)
  case (Suc n)
  have walk: "twp (at_cursor start (with_local result (loopM (len + 1) (startup_note_step cs bytes (start + len)))))
      (\<lambda>r s'. startup_found_ok cs r \<and> s' = s) (\<lambda>e s'. no_ub e \<and> s' = s) s"
    if "start + len \<le> length bytes" for start len
  proof -
    have "twp (loopM (len + 1) (startup_note_step cs bytes (start + len))) (\<lambda>r _. startup_found_ok cs r)
        (\<lambda>e _. no_ub e) (start, result)"
      by (rule twp_loopM [where I = "\<lambda>p. startup_found_ok cs (snd p)" and \<mu> = "\<lambda>p. start + len - fst p"])
        (use Suc.prems twp_startup_note_step [OF that] in auto)
    then show ?thesis by (simp add: twp_at_cursor twp_with_local del: loopM.simps)
  qed
  show ?case
    unfolding startup_segment_loop.simps Let_def
    by (auto simp: twp_simps not_less Suc.prems simp del: loopM.simps
        intro!: twp_copy_bytes twp_mono [OF walk [simplified]] Suc.IH)
qed (simp add: twp_simps)

lemma twp_read_core_startup_info:
  "twp (read_core_startup_info fs path cs)
    (\<lambda>result k'. k' = k \<and> pred_option (startup_ok cs) result) (\<lambda>e k'. no_ub e \<and> k' = k) k"
  unfolding read_core_startup_info_def parse_startup_info_def Let_def startup_found_ok_def [symmetric]
  by (auto simp: twp_simps intro!: twp_inspects [OF inspects_read_core_bytes] twp_copy_bytes
      twp_mono [OF twp_startup_segment_loop]) (simp add: startup_found_ok_def)

text \<open>Reading the auxiliary vector of a core ends on every file without reading outside it, and changes
  nothing. What it returns reflects the vector: entry point, program headers, their count, page size
  and interpreter base are the entries of their type and no \<^verbatim>\<open>AT_NULL\<close> is listed; the entry point and the program
  headers lie in a mapped file, as does a non-zero interpreter base; the page size is a power of two and the
  count is not zero.\<close>

theorem read_core_startup_info_sound:
  "twp (read_core_startup_info fs path cs)
    (\<lambda>result k'. k' = k \<and> pred_option (startup_ok cs) result) (\<lambda>e k'. no_ub e \<and> k' = k) k"
  by (rule twp_read_core_startup_info)

end
