(* ===== verification/SnapshotInspectProps.thy ===== *)
theory SnapshotInspectProps
  imports SnapshotInspect SignalFrameProps SnapshotMemoryProps CoreNotesProps
begin

text \<open>
  Unwinding a captured thread ends on every core and module file, and the frames it returns belong to the thread,
  are numbered, ascend the stack and lie in mapped files.
\<close>

section \<open>Looking at modules\<close>

lemma inspects_init_signal_index [inspects_intros]: "inspects (init_signal_index bytes)"
  unfolding init_signal_index_def find_signal_eh_frame_def Let_def
  by (auto intro!: inspects_intros inspects_eh_section_loop simp: not_less)

lemma inspects_open_indexes [inspects_intros]:
  "inspects (open_signal_index fs path)" "inspects (open_eh_frame fs path)"
  unfolding open_signal_index_def open_eh_frame_def init_eh_frame_def by (intro inspects_intros)+

lemma inspects_recover_linux_x86_signal_frame [inspects_intros]:
  "inspects (recover_linux_x86_signal_frame cs a)"
  unfolding recover_linux_x86_signal_frame_def read_signal_slot_def read_signal_xmm0_def Let_def
  by (intro inspects_intros core_memory.rd_inspects) simp_all

lemma inspects_resolve_snapshot_module_address [inspects_intros]:
  "inspects (resolve_snapshot_module_address fs regular cs a mp)"
  unfolding resolve_snapshot_module_address_def Let_def by (intro inspects_intros) simp_all

lemma inspects_snapshot_caller_in [inspects_intros]: "inspects (snapshot_caller_in fs cs cfi ma current)"
  unfolding snapshot_caller_in_def by (intro inspects_intros core_memory.caller_frame_at_inspects)

text \<open>The address lies in the mapping of a file with an absolute name.\<close>

definition in_module :: "core_snapshot \<Rightarrow> u64 \<Rightarrow> path \<Rightarrow> bool" where
  "in_module cs a path \<longleftrightarrow> map_option cm_path (mapping_for_address cs a) = Some path \<and> path \<noteq> [] \<and> hd path = slash"

lemma resolve_snapshot_module_address_in:
  "resolve_snapshot_module_address fs regular cs a mp k = (Ok ma, k') \<Longrightarrow> in_module cs a (sa_module_path ma)"
  unfolding resolve_snapshot_module_address_def in_module_def Let_def
  by (auto simp: inspects_bindM_Ok [OF inspects_resolve_module] inspects_bindM_Ok [OF inspects_open_elf]
      returnM_def throwM_def split: option.splits if_splits)

lemma snapshot_frame_module_path_run:
  "in_module cs a path \<Longrightarrow> snapshot_frame_module_path cs a s = (Ok path, s)"
  by (auto simp: in_module_def snapshot_frame_module_path_def returnM_def split: option.splits)

lemma twp_snapshot_frame_module_path:
  assumes "\<And>path. in_module cs a path \<Longrightarrow> Q path s" and "\<And>e. no_ub e \<Longrightarrow> (\<nexists>path. in_module cs a path) \<Longrightarrow> E e s"
  shows "twp (snapshot_frame_module_path cs a) Q E s"
  using assms by (auto simp: snapshot_frame_module_path_def in_module_def twp_simps split: option.split)

section \<open>Threads\<close>

definition owned_ref :: "snapshot_object \<Rightarrow> thread_ref \<Rightarrow> bool" where
  "owned_ref so r \<longleftrightarrow> tf_owner r = so_address so \<and>
     find_thread (ct_tid (tf_thread r)) 0 (cs_threads (so_core so)) = Some (tf_index r, tf_thread r)"

lemma find_thread_tid: "find_thread tid i ts = Some (j, t) \<Longrightarrow> ct_tid t = tid"
  by (induction ts arbitrary: i) (auto split: if_splits)

lemma snapshot_thread_owned:
  "snapshot_thread so tid s = (Ok r, s') \<Longrightarrow> owned_ref so r \<and> ct_tid (tf_thread r) = tid \<and> s' = s"
  by (auto simp: snapshot_thread_def owned_ref_def returnM_def throwM_def split: option.splits prod.splits;
      frule find_thread_tid; simp)

lemma owned_ref_run: "owned_ref so r \<Longrightarrow> snapshot_thread so (ct_tid (tf_thread r)) s = (Ok r, s)"
  by (simp add: snapshot_thread_def owned_ref_def returnM_def)

section \<open>Traces\<close>

definition frame_of_thread :: "snapshot_object \<Rightarrow> core_thread \<Rightarrow> snapshot_frame \<Rightarrow> bool" where
  "frame_of_thread so t f \<longleftrightarrow> sf_owner_snapshot f = so_address so \<and> sf_thread_tid f = ct_tid t \<and>
     sf_thread_signal_number f = ct_signal_number t \<and> sf_origin_runtime_pc f = rip (ct_registers t) \<and>
     sf_origin_stack_pointer f = rsp (ct_registers t) \<and> sf_origin_frame_pointer f = Some (rbp (ct_registers t)) \<and>
     in_module (so_core so) (sf_runtime_pc f) (sf_module_path f)"

definition trace_frames_ok :: "snapshot_object \<Rightarrow> core_thread \<Rightarrow> snapshot_frame list \<Rightarrow> bool" where
  "trace_frames_ok so t frames \<longleftrightarrow> frames \<noteq> [] \<and> map sf_index frames = [0..<length frames] \<and>
     sorted_wrt (<) (map sf_stack_pointer frames) \<and> list_all (frame_of_thread so t) frames \<and>
     sf_pc_ownership (hd frames) = PO_ExactInstruction \<and> sf_runtime_pc (hd frames) = rip (ct_registers t) \<and>
     sf_stack_pointer (hd frames) = rsp (ct_registers t)"

lemma trace_frames_ok_snoc:
  assumes "trace_frames_ok so t frames" and "sf_stack_pointer (last frames) < sf_stack_pointer f"
    and "sf_index f = length frames" and "frame_of_thread so t f"
  shows "trace_frames_ok so t (frames @ [f])"
proof -
  have "sf_stack_pointer g < sf_stack_pointer f" if "g \<in> set frames" for g
    using assms(1,2) that
    by (cases frames rule: rev_cases) (auto simp: trace_frames_ok_def sorted_wrt_append)
  then show ?thesis using assms by (auto simp: trace_frames_ok_def sorted_wrt_append)
qed

text \<open>How a trace ends: the limit of frames exactly when it is reached.\<close>

definition stop_reason_ok :: "nat \<Rightarrow> snapshot_trace \<Rightarrow> bool" where
  "stop_reason_ok max_frames tr \<longleftrightarrow> length (sp_frames tr) \<le> max_frames \<and> (case sp_stop_reason tr of
     CU_FrameLimit \<Rightarrow> length (sp_frames tr) = max_frames
   | CU_NoFrameInfo \<Rightarrow> length (sp_frames tr) = 1 \<and> 1 < max_frames
   | CU_EndOfChain \<Rightarrow> 1 < length (sp_frames tr) \<and> length (sp_frames tr) < max_frames
   | CU_InvalidFrameState \<Rightarrow> length (sp_frames tr) < max_frames)"

lemma twp_make_snapshot_inspection_frame:
  assumes "owned_ref so r"
    and "\<And>f. frame_of_thread so (tf_thread r) f \<Longrightarrow> sf_index f = index \<Longrightarrow>
      sf_runtime_pc f = ec_instruction_pointer (sc_cursor c) \<Longrightarrow> sf_stack_pointer f = ec_stack_pointer (sc_cursor c) \<Longrightarrow>
      sf_pc_ownership f = sc_pc_ownership c \<Longrightarrow> Q f s"
    and "\<And>e. no_ub e \<Longrightarrow> (\<nexists>path. in_module (so_core so) (ec_instruction_pointer (sc_cursor c)) path) \<Longrightarrow> E e s"
  shows "twp (make_snapshot_inspection_frame so r index c) Q E s"
  unfolding make_snapshot_inspection_frame_def Let_def twp_bindM
  by (simp add: twp_def [of "snapshot_thread _ _"] owned_ref_run [OF assms(1)] same_thread_def)
    (auto simp: twp_simps frame_of_thread_def intro!: twp_snapshot_frame_module_path assms(2,3))

lemma twp_resolve_snapshot_module_address:
  assumes "\<And>ma. in_module cs a (sa_module_path ma) \<Longrightarrow> Q ma k" and "\<And>e. no_ub e \<Longrightarrow> E e k"
  shows "twp (resolve_snapshot_module_address fs regular cs a mp) Q E k"
  by (cases rule: inspects_cases [OF inspects_resolve_snapshot_module_address, of fs regular cs a mp k])
    (auto simp: twp_def assms dest: resolve_snapshot_module_address_in)

definition next_caller_ok :: "core_snapshot \<Rightarrow> nat \<Rightarrow> eh_frame_cursor \<Rightarrow> cfi_stop_reason + snapshot_caller \<Rightarrow> bool" where
  "next_caller_ok cs n current next = (case next of
     Inl reason \<Rightarrow> reason = CU_InvalidFrameState \<or> reason = (if n = 1 then CU_NoFrameInfo else CU_EndOfChain)
   | Inr c \<Rightarrow> ec_stack_pointer current < ec_stack_pointer (sc_cursor c) \<and>
       (\<exists>path. in_module cs (ec_instruction_pointer (sc_cursor c)) path))"

lemma next_snapshot_caller_ends:
  "twp (next_snapshot_caller fs regular cs mp n current) (\<lambda>next k'. k' = k \<and> next_caller_ok cs n current next)
    (\<lambda>_ _. False) k"
  unfolding next_snapshot_caller_def Let_def catch_exception_def
  by (auto simp: twp_simps twp_catchM next_caller_ok_def not_le
      intro!: twp_resolve_snapshot_module_address twp_inspects [OF inspects_open_indexes(2)]
        twp_inspects [OF inspects_snapshot_caller_in])

lemma twp_snapshot_frame_loop:
  assumes "owned_ref so r" and "trace_frames_ok so (tf_thread r) frames"
    and "sf_stack_pointer (last frames) = ec_stack_pointer current"
  shows "twp (snapshot_frame_loop fs regular so mp r n current frames)
    (\<lambda>tr k'. k' = k \<and> trace_frames_ok so (tf_thread r) (sp_frames tr) \<and> stop_reason_ok (length frames + n) tr)
    (\<lambda>_ _. False) k"
  using assms(2,3)
proof (induction n arbitrary: current frames)
  case 0
  then show ?case by (simp add: twp_simps stop_reason_ok_def)
next
  case (Suc n)
  have nonempty: "length frames = 1 \<or> Suc 0 < length frames"
    using Suc.prems(1) by (cases frames) (auto simp: trace_frames_ok_def)
  have step: "twp (make_snapshot_inspection_frame so r (length frames) c)
      (\<lambda>f. twp (snapshot_frame_loop fs regular so mp r n (sc_cursor c) (frames @ [f]))
        (\<lambda>tr k'. k' = k \<and> trace_frames_ok so (tf_thread r) (sp_frames tr) \<and> stop_reason_ok (length frames + Suc n) tr)
        (\<lambda>_ _. False)) (\<lambda>_ _. False) k"
    if "next_caller_ok (so_core so) (length frames) current (Inr c)" for c
    using that Suc.prems
    by (intro twp_make_snapshot_inspection_frame [OF assms(1)])
      (auto simp: next_caller_ok_def intro!: twp_mono [OF Suc.IH] trace_frames_ok_snoc)
  show ?case
    unfolding snapshot_frame_loop.simps twp_bindM
    by (rule twp_mono [OF next_snapshot_caller_ends])
      (use Suc.prems step nonempty in \<open>auto simp: twp_simps next_caller_ok_def stop_reason_ok_def split: sum.splits if_splits\<close>)
qed

lemma twp_build_snapshot_inspection_frames:
  assumes "owned_ref so r"
  shows "twp (build_snapshot_inspection_frames fs regular so r max_frames mp)
    (\<lambda>tr k'. k' = k \<and> trace_frames_ok so (tf_thread r) (sp_frames tr) \<and> stop_reason_ok max_frames tr)
    (\<lambda>e k'. k' = k \<and> no_ub e \<and>
       (max_frames = 0 \<or> (\<nexists>path. in_module (so_core so) (rip (ct_registers (tf_thread r))) path))) k"
proof -
  let ?current = "thread_cursor (tf_thread r)"
  have single: "trace_frames_ok so (tf_thread r) [f]"
    if "frame_of_thread so (tf_thread r) f" "sf_index f = 0" "sf_pc_ownership f = PO_ExactInstruction"
      "sf_runtime_pc f = ec_instruction_pointer ?current" "sf_stack_pointer f = ec_stack_pointer ?current" for f
    using that by (simp add: trace_frames_ok_def thread_cursor_def Let_def)
  have ip: "ec_instruction_pointer ?current = rip (ct_registers (tf_thread r))"
    by (simp add: thread_cursor_def Let_def)
  show ?thesis
    unfolding build_snapshot_inspection_frames_def twp_simps Let_def
    by (simp add: twp_def [of "snapshot_thread _ _"] owned_ref_run [OF assms] same_thread_def)
      (auto simp: twp_simps plain_caller_def ip stop_reason_ok_def
        intro!: twp_make_snapshot_inspection_frame [OF assms] single twp_mono [OF twp_snapshot_frame_loop [OF assms]])
qed

text \<open>C17. Unwinding a captured thread is total and sound. For a thread of the core whose instruction pointer lies in
  a mapped file with an absolute name, and any limit above zero, the unwinder returns whatever the files and the
  stack hold, and changes nothing. The frames start with the captured registers, are numbered
  from zero, belong to the thread and the snapshot, strictly ascend the stack and lie in mapped files named by an
  absolute path; the limit is reported exactly when it is reached, and missing frame information only for the
  first frame.\<close>

theorem snapshot_trace_sound:
  assumes "snapshot_thread so tid k = (Ok r, k)" and "0 < max_frames"
    and "in_module (so_core so) (rip (ct_registers (tf_thread r))) path"
  shows "twp (build_snapshot_inspection_frames fs regular so r max_frames mp)
    (\<lambda>tr k'. k' = k \<and> trace_frames_ok so (tf_thread r) (sp_frames tr) \<and> stop_reason_ok max_frames tr) (\<lambda>_ _. False) k"
proof -
  have "owned_ref so r" using snapshot_thread_owned [OF assms(1)] by simp
  from twp_build_snapshot_inspection_frames [OF this, of fs regular max_frames mp k] show ?thesis
    by (rule twp_mono) (use assms(2,3) in auto)
qed

definition example_object :: snapshot_object where
  "example_object = \<lparr>so_address = 1, so_path = ''core'', so_core = example_module_core\<rparr>"

definition example_ref :: thread_ref where
  "example_ref = \<lparr>tf_owner = 1, tf_index = 0, tf_thread = hd (cs_threads example_core)\<rparr>"

lemma example_thread: "snapshot_thread example_object 77 s = (Ok example_ref, s)"
  by (simp add: snapshot_thread_def example_object_def example_ref_def example_module_core_def example_core_def returnM_def)

theorem snapshot_trace_sound_witness:
  "\<exists>tr. build_snapshot_inspection_frames example_files (\<lambda>_. True) example_object example_ref 8 identity_module_paths () =
      (Ok tr, ()) \<and> sf_runtime_pc (hd (sp_frames tr)) = 0x401000 \<and> length (sp_frames tr) \<le> 8"
proof -
  have "in_module (so_core example_object) (rip (ct_registers (tf_thread example_ref))) [slash, 0x61]"
    by (simp add: in_module_def example_object_def example_ref_def example_module_core_def example_core_def
        mapping_for_address_def)
  from snapshot_trace_sound [OF example_thread _ this, of 8 example_files "\<lambda>_. True" identity_module_paths]
  show ?thesis
    by (auto simp: twp_def trace_frames_ok_def stop_reason_ok_def example_ref_def example_core_def
        split: prod.splits outcome.splits)
qed

end
