(* ===== verification/DebugInfoProps.thy ===== *)
theory DebugInfoProps
  imports DebugInfo LineTableSafety
begin

text \<open>
  The reader of debug information on arbitrary bytes: it ends, stays in bounds, and yields entries in the order of
  their offsets whose parents come before them, so that the walks up the parents end.
\<close>

section \<open>Readers\<close>

lemma reads_di:
  assumes "limit \<le> length bytes"
  shows "reads 1 limit (di_u8 bytes limit what)" "reads 2 limit (di_u16 bytes limit what)"
    "reads 4 limit (di_u32 bytes limit what)" "reads 8 limit (di_u64 bytes limit what)"
    "reads 1 limit (di_uleb bytes limit what)" "reads 1 limit (di_sleb bytes limit what)"
  unfolding di_u8_def di_u16_def di_u32_def di_u64_def di_uleb_def di_sleb_def
  by (rule reads_fixed [OF assms] reads_leb [OF assms])+

lemma reads_di0:
  assumes "limit \<le> length bytes"
  shows "reads 0 limit (di_u8 bytes limit what)" "reads 0 limit (di_u16 bytes limit what)"
    "reads 0 limit (di_u32 bytes limit what)" "reads 0 limit (di_u64 bytes limit what)"
    "reads 0 limit (di_uleb bytes limit what)" "reads 0 limit (di_sleb bytes limit what)"
  by (rule reads_weaken [OF reads_di(1) [OF assms]] reads_weaken [OF reads_di(2) [OF assms]]
      reads_weaken [OF reads_di(3) [OF assms]] reads_weaken [OF reads_di(4) [OF assms]]
      reads_weaken [OF reads_di(5) [OF assms]] reads_weaken [OF reads_di(6) [OF assms]]; simp)+

lemma inspects_number_at [inspects_intros]: "inspects (di_number_at width bytes offset what)"
  unfolding di_number_at_def read_at_def by (intro inspects_intros) simp

lemma inspects_string_at: "offset \<le> length bytes \<Longrightarrow> inspects (string_at bytes offset what)"
  unfolding string_at_def
  by (rule inspects_at_cursor, rule twp_mono [OF readsD [OF reads_c_string [OF order_refl]]]) auto

lemma reads_inspects: "inspects m \<Longrightarrow> reads 0 limit m"
  by (auto simp: reads_def intro!: twp_inspects [of m])

section \<open>Abbreviations\<close>

lemma twp_beside:
  assumes "reads k limit m" and "fst s \<le> limit"
    and "\<And>a c'. fst s + k \<le> c' \<Longrightarrow> c' \<le> limit \<Longrightarrow> Q a (c', snd s)" and "\<And>e s'. no_ub e \<Longrightarrow> E e s'"
  shows "twp (beside m) Q E s"
  unfolding beside_def twp_zoomM by (rule twp_mono [OF readsD [OF assms(1,2)]]) (auto intro: assms(3,4))

lemma reads_attribute_specs: "reads 0 (length bytes) (read_attribute_specs bytes)"
proof -
  have step: "twp (attribute_spec_step bytes)
      (\<lambda>r s'. fst s' \<le> length bytes \<and> c \<le> fst s' \<and> (r = None \<longrightarrow> c < fst s')) (\<lambda>e _. no_ub e) (c, l)"
    if "c \<le> length bytes" for c l
    unfolding attribute_spec_step_def append_local_def using that
    by (auto simp: twp_simps intro!: twp_beside [OF reads_di(5) [OF order_refl]] twp_beside [OF reads_di(6) [OF order_refl]])
  show ?thesis
    using twp_local_loop [OF step]
    by (auto simp: reads_def read_attribute_specs_def twp_simps simp del: loopM.simps)
qed

lemma inspects_parse_abbreviations [inspects_intros]: "inspects (parse_abbreviations bytes offset)"
proof -
  have step: "twp (abbreviation_step bytes)
      (\<lambda>r s'. fst s' \<le> length bytes \<and> c \<le> fst s' \<and> (r = None \<longrightarrow> c < fst s')) (\<lambda>e _. no_ub e) (c, l)"
    if "c \<le> length bytes" for c l
    unfolding abbreviation_step_def using that
    by (auto simp: twp_simps intro!: twp_beside [OF reads_di(5) [OF order_refl]] twp_beside [OF reads_di(1) [OF order_refl]]
        twp_beside [OF reads_attribute_specs])
  show ?thesis
    unfolding parse_abbreviations_def using twp_mono [OF twp_local_loop [OF step, of offset smap_empty]]
    by (auto intro!: inspects_intros inspects_at_cursor simp del: loopM.simps)
qed

section \<open>Attributes\<close>

lemma reads_number_form:
  assumes "unit_end \<le> length info"
  shows "reads 0 unit_end (read_number_form spec info unit_end unit_start address_size)"
  unfolding read_number_form_def
  by (intro reads_if reads_bindM0 reads_di0 reads_returnM reads_throwM assms) simp_all

lemma reads_exprloc:
  assumes "unit_end \<le> length info"
  shows "reads 0 unit_end (read_exprloc info unit_end)"
  unfolding reads_def read_exprloc_def
  by (auto simp: twp_simps intro!: twp_read [OF reads_di(5) [OF assms]])

lemma reads_attribute:
  assumes "unit_end \<le> length (ds_info ds)"
  shows "reads 0 unit_end (read_attribute spec ds unit_end unit_start address_size)"
proof -
  have str: "reads 0 unit_end (if b then throwM (RuntimeError m) else bindM (string_at bytes n w) (\<lambda>t. returnM (f t)))"
    if "\<not> b \<Longrightarrow> n \<le> length bytes" for n bytes b m w f
    using that by (cases b) (auto intro!: reads_throwM reads_inspects inspects_intros inspects_string_at)
  show ?thesis
    unfolding read_attribute_def Let_def
    by (intro reads_if reads_bindM0 reads_di0 reads_any reads_exprloc reads_number_form reads_returnM assms str) auto
qed

lemma reads_attributes:
  assumes "unit_end \<le> length (ds_info ds)"
  shows "reads 0 unit_end (read_attributes specs ds unit_end unit_start address_size)"
  by (induction specs) (auto intro!: reads_bindM0 reads_attribute reads_returnM assms)

section \<open>Entries\<close>

text \<open>Every parent comes before its child.\<close>

definition dies_ok :: "die list \<Rightarrow> bool" where
  "dies_ok dies \<longleftrightarrow> (\<forall>i < length dies. \<forall>p. die_parent (dies ! i) = Some p \<longrightarrow> p < i)"

text \<open>The entries of a unit: in the order of their offsets, which lie between two bounds.\<close>

definition unit_ok :: "nat \<Rightarrow> nat \<Rightarrow> die list \<Rightarrow> bool" where
  "unit_ok lo hi dies \<longleftrightarrow> dies_ok dies \<and> sorted_wrt (<) (map die_offset dies) \<and>
     (\<forall>d \<in> set dies. lo \<le> die_offset d \<and> die_offset d < hi)"

lemma dies_ok_snoc: "dies_ok dies \<Longrightarrow> (\<forall>p. die_parent d = Some p \<longrightarrow> p < length dies) \<Longrightarrow> dies_ok (dies @ [d])"
  by (auto simp: dies_ok_def nth_append less_Suc_eq)

definition parse_ok :: "nat \<Rightarrow> nat \<times> die_parse \<Rightarrow> bool" where
  "parse_ok lo s \<longleftrightarrow> lo \<le> fst s \<and> unit_ok lo (fst s) (dp_dies (snd s)) \<and>
     (\<forall>q \<in> set (dp_parents (snd s)). q < length (dp_dies (snd s)))"

lemma unit_ok_mono: "unit_ok lo c dies \<Longrightarrow> c \<le> c' \<Longrightarrow> unit_ok lo c' dies"
  by (auto simp: unit_ok_def)

lemma unit_ok_snoc:
  "unit_ok lo c dies \<Longrightarrow> lo \<le> c \<Longrightarrow> c < c' \<Longrightarrow> die_offset d = c \<Longrightarrow> (\<forall>p. die_parent d = Some p \<longrightarrow> p < length dies) \<Longrightarrow>
    unit_ok lo c' (dies @ [d])"
  by (auto simp: unit_ok_def sorted_wrt_append intro: dies_ok_snoc)

lemma twp_die_step:
  assumes limit: "unit_end \<le> length (ds_info ds)" and ok: "parse_ok lo s" and "fst s \<le> unit_end"
  shows "twp (die_step ds abbrevs unit_end unit_start address_size)
    (\<lambda>r s'. case r of Some dies \<Rightarrow> fst s' \<le> unit_end \<and> unit_ok lo unit_end dies
      | None \<Rightarrow> (parse_ok lo s' \<and> fst s' \<le> unit_end) \<and> unit_end - fst s' < unit_end - fst s) (\<lambda>e _. no_ub e) s"
proof -
  obtain c p where s: "s = (c, p)" by (cases s)
  have parents: "\<forall>q \<in> set (tl (dp_parents p)). q < length (dp_dies p)"
    "dp_parents p \<noteq> [] \<Longrightarrow> hd (dp_parents p) < length (dp_dies p)"
    using ok by (cases "dp_parents p"; simp add: parse_ok_def s)+
  have parents': "\<forall>q \<in> set (dp_parents p). q < Suc (length (dp_dies p))"
    using ok by (auto simp: parse_ok_def s less_Suc_eq)
  have unit: "unit_ok lo c' (dp_dies p)" if "c \<le> c'" for c'
    using ok that by (auto simp: parse_ok_def s intro: unit_ok_mono)
  show ?thesis
    unfolding die_step_def s Let_def using ok assms(3) parents'
    by (auto simp: twp_simps parse_ok_def s parents unit
        intro!: twp_beside [OF reads_di(5) [OF limit]] twp_beside [OF reads_attributes [OF limit]]
          unit_ok_snoc [OF unit [OF order_refl]] split: option.split if_splits)
qed

lemma list_all2_dies_ok:
  assumes "list_all2 (\<lambda>d d'. die_offset d' = die_offset d \<and> die_parent d' = die_parent d) dies dies'"
    and "unit_ok lo hi dies"
  shows "unit_ok lo hi dies'"
proof -
  have offsets: "map die_offset dies' = map die_offset dies" and len: "length dies' = length dies"
    using assms(1) by (induction rule: list_all2_induct) auto
  have "die_offset ` set dies = die_offset ` set dies'" by (metis offsets image_set)
  moreover have "dies_ok dies'" if "dies_ok dies"
    using assms(1) that by (auto simp: dies_ok_def list_all2_conv_all_nth)
  moreover have "\<forall>x \<in> die_offset ` set dies. lo \<le> x \<and> x < hi" using assms(2) by (simp add: unit_ok_def)
  ultimately show ?thesis using assms(2) by (auto simp: unit_ok_def offsets)
qed

section \<open>Index tables\<close>

lemma inspects_add_unsigned [inspects_intros]: "inspects (add_unsigned base offset what)"
  unfolding add_unsigned_def by (intro inspects_intros) simp

lemma inspects_indexed_string [inspects_intros]: "inspects (indexed_string ds base index)"
  unfolding indexed_string_def Let_def by (intro inspects_intros inspects_string_at) auto

lemma inspects_indexed_address [inspects_intros]: "inspects (indexed_address ds base index)"
  unfolding indexed_address_def Let_def by (intro inspects_intros) auto

lemma inspects_loclists_contribution_at [inspects_intros]: "inspects (loclists_contribution_at ds start)"
  unfolding loclists_contribution_at_def Let_def by (intro inspects_intros) auto

lemma inspects_indexed_loclist_offset [inspects_intros]: "inspects (indexed_loclist_offset ds base index)"
  unfolding indexed_loclist_offset_def by (intro inspects_intros) auto

lemma inspects_index_base [inspects_intros]: "inspects (index_base base message)"
  unfolding index_base_def by (intro inspects_intros) auto

lemma inspects_resolve_index: "inspects (resolve_index ds root v)"
  unfolding resolve_index_def by (intro inspects_intros)

lemma twp_mapM:
  assumes "\<And>x. x \<in> set xs \<Longrightarrow> twp (f x) (\<lambda>y s'. R x y \<and> s' = s) (\<lambda>e s'. no_ub e \<and> s' = s) s"
  shows "twp (mapM f xs) (\<lambda>ys s'. list_all2 R xs ys \<and> s' = s) (\<lambda>e s'. no_ub e \<and> s' = s) s"
  using assms
proof (induction xs)
  case (Cons x xs)
  have rest: "twp (mapM f xs) (\<lambda>ys s'. list_all2 R xs ys \<and> s' = s) (\<lambda>e s'. no_ub e \<and> s' = s) s"
    using Cons by simp
  show ?case
    by (auto simp: twp_simps intro!: twp_mono [OF Cons.prems] twp_mono [OF rest])
qed (simp add: twp_simps)

lemma inspects_mapM: "(\<And>x. x \<in> set xs \<Longrightarrow> inspects (f x)) \<Longrightarrow> inspects (mapM f xs)"
  by (induction xs) (auto intro!: inspects_intros)

lemma twp_resolve_dwarf5_indexes:
  assumes "unit_ok lo hi dies"
  shows "twp (resolve_dwarf5_indexes ds dies) (\<lambda>dies' s'. unit_ok lo hi dies' \<and> s' = s) (\<lambda>e s'. no_ub e \<and> s' = s) s"
proof -
  let ?R = "\<lambda>d d'. die_offset d' = die_offset d \<and> die_parent d' = die_parent d"
  have "twp (bindM (mapM (resolve_index ds (hd dies)) (die_attributes d)) (\<lambda>vs. returnM (d\<lparr>die_attributes := vs\<rparr>)))
      (\<lambda>d' s'. ?R d d' \<and> s' = s) (\<lambda>e s'. no_ub e \<and> s' = s) s" for d
    by (auto simp: twp_simps intro!: twp_inspects [OF inspects_mapM] inspects_resolve_index)
  then show ?thesis
    unfolding resolve_dwarf5_indexes_def
    by (auto simp: twp_simps intro: list_all2_dies_ok [OF _ assms] intro!: twp_mono [OF twp_mapM [where R = ?R]])
qed

section \<open>Units\<close>

lemma reads_unit_header:
  assumes "unit_end \<le> length info"
  shows "reads 0 unit_end (read_unit_header info unit_end)"
  unfolding read_unit_header_def
  by (intro reads_bindM0 reads_if reads_throwM reads_returnM reads_di0 assms) simp_all

lemma twp_die_loop:
  assumes limit: "unit_end \<le> length (ds_info ds)" and "c \<le> unit_end"
  shows "twp (with_local \<lparr>dp_dies = [], dp_parents = []\<rparr> (loopM (Suc (unit_end - c))
      (die_step ds abbrevs unit_end unit_start address_size)))
    (\<lambda>dies c'. c' \<le> unit_end \<and> unit_ok c unit_end dies) (\<lambda>e _. no_ub e) c"
proof -
  have "twp (loopM (Suc (unit_end - c)) (die_step ds abbrevs unit_end unit_start address_size))
      (\<lambda>dies s'. fst s' \<le> unit_end \<and> unit_ok c unit_end dies) (\<lambda>e _. no_ub e) (c, \<lparr>dp_dies = [], dp_parents = []\<rparr>)"
    by (rule twp_loopM [where I = "\<lambda>s. parse_ok c s \<and> fst s \<le> unit_end" and \<mu> = "\<lambda>s. unit_end - fst s"])
      (use assms in \<open>auto simp: parse_ok_def unit_ok_def dies_ok_def intro!: twp_die_step\<close>)
  then show ?thesis by (simp add: twp_with_local del: loopM.simps)
qed

lemma twp_parse_unit_dies:
  assumes "unit_start \<le> length (ds_info ds)"
  shows "twp (parse_unit_dies ds unit_start)
    (\<lambda>(dies, next_unit, version) s'. s' = s \<and> unit_start < next_unit \<and> next_unit \<le> length (ds_info ds) \<and>
       unit_ok unit_start next_unit dies) (\<lambda>e s'. no_ub e \<and> s' = s) s"
proof -
  have loop: "twp (with_local \<lparr>dp_dies = [], dp_parents = []\<rparr> (loopM (Suc (e - c)) (die_step ds table e unit_start sz)))
      (\<lambda>dies c'. unit_ok unit_start e dies) (\<lambda>e _. no_ub e) c"
    if "e \<le> length (ds_info ds)" "c \<le> e" "unit_start \<le> c" for table e sz c
    by (rule twp_mono [OF twp_die_loop]) (use that in \<open>auto simp: unit_ok_def\<close>)
  have header: "twp (read_unit_header (ds_info ds) e) Q E c"
    if "e \<le> length (ds_info ds)" "c \<le> e" "\<And>h c'. c \<le> c' \<Longrightarrow> c' \<le> e \<Longrightarrow> Q h c'" "\<And>e c. no_ub e \<Longrightarrow> E e c" for e c Q E
    by (rule twp_read [OF reads_unit_header]) (use that in auto)
  show ?thesis
    unfolding parse_unit_dies_def twp_at_cursor Let_def using assms
    by (auto simp: twp_simps simp del: loopM.simps intro!: twp_read [OF reads_di(3) [OF order_refl]] header
        twp_inspects [OF inspects_parse_abbreviations] twp_mono [OF loop] twp_mono [OF twp_resolve_dwarf5_indexes])
qed

section \<open>Walks up the parents\<close>

definition parent_of :: "die list \<Rightarrow> (nat \<times> nat) set" where
  "parent_of dies = {(i, p). i < length dies \<and> die_parent (dies ! i) = Some p}"

lemma die_at_run: "i < length dies \<Longrightarrow> die_at dies i s = (Ok (dies ! i), s)"
  by (simp add: die_at_def returnM_def)

lemma inspects_die_at: "i < length dies \<Longrightarrow> inspects (die_at dies i)"
  unfolding die_at_def by (simp add: inspects_intros)

lemma bind_die_at: "i < length dies \<Longrightarrow> bindM (die_at dies i) f = f (dies ! i)"
  by (simp add: bindM_def die_at_def returnM_def)

text \<open>A parent that is left to visit is below the turns that are left.\<close>

definition upward :: "nat \<Rightarrow> die list \<Rightarrow> nat option \<Rightarrow> bool" where
  "upward n dies q \<longleftrightarrow> dies_ok dies \<and> n \<le> length dies \<and> (\<forall>p \<in> set_option q. p < n)"

lemma upward_parent: "dies_ok dies \<Longrightarrow> i < length dies \<Longrightarrow> upward (length dies) dies (die_parent (dies ! i))"
  by (auto simp: upward_def dies_ok_def)

lemma upward_Suc:
  assumes "upward (Suc n) dies (Some p)"
  shows "p < length dies" and "upward n dies (die_parent (dies ! p))"
proof -
  from assms show p: "p < length dies" by (simp add: upward_def)
  have "q < n" if "die_parent (dies ! p) = Some q" for q
  proof -
    have "q < p" using that p assms by (simp add: upward_def dies_ok_def)
    with assms show ?thesis by (simp add: upward_def)
  qed
  with assms show "upward n dies (die_parent (dies ! p))" by (auto simp: upward_def)
qed

lemma upward_0: "\<not> upward 0 dies (Some p)"
  by (simp add: upward_def)

lemma parent_rtrancl:
  "p < length dies \<Longrightarrow> p \<noteq> a \<Longrightarrow>
    (p, a) \<in> (parent_of dies)\<^sup>* \<longleftrightarrow> (\<exists>q. die_parent (dies ! p) = Some q \<and> (q, a) \<in> (parent_of dies)\<^sup>*)"
  by (auto simp: parent_of_def elim: converse_rtranclE intro: converse_rtrancl_into_rtrancl)

lemma descendant_loop_run:
  "upward n dies q \<Longrightarrow> descendant_loop n dies q a s = (Ok (\<exists>p. q = Some p \<and> (p, a) \<in> (parent_of dies)\<^sup>*), s)"
proof (induction n dies q a rule: descendant_loop.induct)
  case (1 n dies a)
  then show ?case by (simp add: returnM_def)
next
  case (2 dies p a)
  then show ?case by (simp add: upward_0)
next
  case (3 n dies p a)
  note p = upward_Suc [OF 3(2)]
  show ?case
  proof (cases "p = a")
    case True
    then show ?thesis by (simp add: returnM_def)
  next
    case False
    with p 3(1) [OF False] show ?thesis by (simp add: bind_die_at parent_rtrancl)
  qed
qed

text \<open>\<^verbatim>\<open>is_descendant_of\<close> decides the transitive closure of the parent relation.\<close>

lemma is_descendant_of_run:
  assumes "dies_ok dies" and "i < length dies"
  shows "is_descendant_of dies i a s = (Ok ((i, a) \<in> (parent_of dies)\<^sup>+), s)"
proof -
  have "(i, a) \<in> (parent_of dies)\<^sup>+ \<longleftrightarrow> (\<exists>p. die_parent (dies ! i) = Some p \<and> (p, a) \<in> (parent_of dies)\<^sup>*)"
    using assms(2) by (auto simp: trancl_unfold_left parent_of_def)
  then show ?thesis
    using assms by (simp add: is_descendant_of_def bind_die_at descendant_loop_run upward_parent)
qed

lemma parent_of_less:
  assumes "dies_ok dies" and "(i, p) \<in> (parent_of dies)\<^sup>+"
  shows "p < i"
proof -
  have step: "q < p" if "(p, q) \<in> parent_of dies" for p q
    using that assms(1) by (auto simp: parent_of_def dies_ok_def)
  from assms(2) show ?thesis by (induction rule: trancl_induct) (auto dest: step less_trans)
qed

lemma inspects_is_descendant_of: "dies_ok dies \<Longrightarrow> i < length dies \<Longrightarrow> inspects (is_descendant_of dies i a)"
  by (simp add: inspects_def twp_def is_descendant_of_run)

lemma die_index_loop_bound: "die_index_loop offset i dies = Some j \<Longrightarrow> i \<le> j \<and> j < i + length dies"
  by (induction offset i dies rule: die_index_loop.induct) (auto split: if_splits)

lemma die_index_bound: "die_index_by_offset dies offset = Some j \<Longrightarrow> j < length dies"
  by (auto simp: die_index_by_offset_def dest: die_index_loop_bound)

lemma inspects_abstract_origin_loop: "i < length dies \<Longrightarrow> inspects (abstract_origin_loop n dies i name)"
  by (induction n dies i name rule: abstract_origin_loop.induct)
    (auto simp: bind_die_at dest: die_index_bound intro!: inspects_intros)

lemma inspects_attribute_with_abstract_origin:
  "i < length dies \<Longrightarrow> inspects (attribute_with_abstract_origin dies i name)"
  by (simp only: attribute_with_abstract_origin_def inspects_abstract_origin_loop)

lemma inspects_die_contains_pc [inspects_intros]: "inspects (die_contains_pc d pc)"
  unfolding die_contains_pc_def by (auto intro!: inspects_intros split: option.split)

text \<open>A walk only looks when each of its turns does.\<close>

lemma inspects_walk:
  assumes "\<And>n a. inspects (f n None a)"
    and "\<And>n p a. p < length dies \<Longrightarrow> (\<And>b. inspects (f n (die_parent (dies ! p)) b)) \<Longrightarrow> inspects (f (Suc n) (Some p) a)"
    and "upward n dies q"
  shows "inspects (f n q a)"
  using assms(3)
proof (induction n arbitrary: q a)
  case 0
  then show ?case using assms(1) by (cases q) (auto simp: upward_0)
next
  case (Suc n)
  then show ?case by (cases q) (auto intro: assms(1,2) dest: upward_Suc)
qed

lemma inspects_scope_depth_loop: "upward n dies q \<Longrightarrow> inspects (scope_depth_loop n dies q sub pc depth)"
  by (rule inspects_walk [where f = "\<lambda>n q depth. scope_depth_loop n dies q sub pc depth"])
    (auto simp: bind_die_at intro!: inspects_intros split: option.split)

lemma inspects_active_scope_depth:
  "dies_ok dies \<Longrightarrow> i < length dies \<Longrightarrow> inspects (active_scope_depth dies i sub pc)"
  by (simp add: active_scope_depth_def bind_die_at inspects_scope_depth_loop upward_parent)

section \<open>Sections\<close>

lemma inspects_named_section_loop:
  "sh_offset names + sh_size names \<le> length bytes \<Longrightarrow> inspects (named_section_loop bytes wanted names sections result)"
proof (induction sections arbitrary: result)
  case (Cons s rest)
  have "inspects (at_cursor (sh_offset names + sh_name s) (read_c_string bytes (sh_offset names + sh_size names) what))"
    if "sh_name s < sh_size names" for what
    by (rule inspects_at_cursor, rule twp_mono [OF readsD [OF reads_c_string]]) (use that Cons.prems in auto)
  with Cons show ?case by (auto simp: require_range_def intro!: inspects_intros)
qed (simp add: inspects_intros)

lemma inspects_named_sections: "inspects (named_sections bytes wanted)"
  unfolding named_sections_def Let_def
  by (rule inspectsI)
    (auto simp: twp_simps twp_read_at intro!: twp_read_sections twp_require_range twp_inspects [OF inspects_named_section_loop])

lemma inspects_read_named_sections [inspects_intros]: "inspects (read_named_sections fs path wanted)"
  unfolding read_named_sections_def read_binary_file_def
  by (auto intro!: inspects_intros inspects_named_sections split: file_contents.split)

lemma inspects_read_debug_sections [inspects_intros]: "inspects (read_debug_sections fs path)"
  unfolding read_debug_sections_def by (auto intro!: inspects_intros split: option.split)

end
