(* ===== verification/InlineScopesProps.thy ===== *)
theory InlineScopesProps
  imports InlineScopes DebugInfoProps SnapshotInspectProps
begin

text \<open>
  What the discovery of inlined calls and of local names finds: exactly the inlined subroutines around an address, as
  one chain, and exactly the innermost declaration of each name. Both end on every file, read only inside it and change
  nothing; opening the line table may overflow the signed line register.
\<close>

section \<open>Looking only\<close>

lemma reads_range_list_loop: "reads 0 (length ranges) (range_list_loop n ranges pc base)"
  by (induction n arbitrary: base)
    (auto intro!: reads_bindM0 reads_di0 reads_throwM reads_returnM reads_inspects [OF inspects_add_unsigned])

lemma inspects_bounded_range_list [inspects_intros]:
  "inspects (bounded_range_list_contains_pc d pc ranges base version)"
  unfolding bounded_range_list_contains_pc_def
  by (intro inspects_intros inspects_at_cursor twp_mono [OF readsD [OF reads_range_list_loop]]) auto

lemma inspects_inline_scope [inspects_intros]: "inspects (inline_scope_contains_pc d pc ranges base version)"
  unfolding inline_scope_contains_pc_def by (auto intro!: inspects_intros split: option.split)

lemma inspects_compilation_unit_base [inspects_intros]: "inspects (compilation_unit_base dies)"
  unfolding compilation_unit_base_def by (intro inspects_intros) simp

lemma inspects_crosses_loop: "upward n dies q \<Longrightarrow> inspects (crosses_loop n dies q sub)"
  by (rule inspects_walk [where f = "\<lambda>n q _. crosses_loop n dies q sub"]) (auto simp: bind_die_at intro!: inspects_intros)

lemma inspects_inline_depth_loop: "upward n dies q \<Longrightarrow> inspects (inline_depth_loop n dies q sub depth)"
  by (rule inspects_walk [where f = "\<lambda>n q depth. inline_depth_loop n dies q sub depth"])
    (auto simp: bind_die_at intro!: inspects_intros)

lemma inspects_inline_scope_depth_loop:
  "upward n dies q \<Longrightarrow> inspects (inline_scope_depth_loop n dies q i pc ranges base version depth)"
  by (rule inspects_walk [where f = "\<lambda>n q depth. inline_scope_depth_loop n dies q i pc ranges base version depth"])
    (auto simp: bind_die_at intro!: inspects_intros)

lemma inspects_walks:
  assumes "dies_ok dies" and "i < length dies"
  shows "inspects (crosses_inline_scope dies i sub)" "inspects (inline_depth_from_physical dies i sub)"
    "inspects (inline_local_scope_depth dies i j pc ranges base version)"
  using assms
  by (simp_all add: crosses_inline_scope_def inline_depth_from_physical_def inline_local_scope_depth_def bind_die_at
      inspects_crosses_loop inspects_inline_depth_loop inspects_inline_scope_depth_loop upward_parent)

lemma inspects_find_virtual_file [inspects_intros]: "inspects (find_virtual_file t a i)"
proof -
  have "inspects (owner_loop a rs owner)" for rs owner
    by (induction rs arbitrary: owner) (auto intro!: inspects_intros split: option.split)
  then show ?thesis unfolding find_virtual_file_def Let_def by (intro inspects_intros) auto
qed

text \<open>A program that only looks, with its result.\<close>

lemma twp_looks:
  "inspects m \<Longrightarrow> (\<And>a. m s = (Ok a, s) \<Longrightarrow> Q a s) \<Longrightarrow> (\<And>e. no_ub e \<Longrightarrow> E e s) \<Longrightarrow> twp m Q E s"
  by (cases rule: inspects_cases [of m s]) (auto simp: twp_def)

lemma twp_run: "m s = (Ok a, s) \<Longrightarrow> Q a s \<Longrightarrow> twp m Q E s"
  by (simp add: twp_def)

section \<open>The subprogram of an address\<close>

text \<open>The entries with a tag whose ranges contain the address.\<close>

definition owners :: "die list \<Rightarrow> u64 \<Rightarrow> u64 \<Rightarrow> u8 list \<Rightarrow> u64 \<Rightarrow> u16 \<Rightarrow> 's \<Rightarrow> nat set" where
  "owners dies tag pc ranges base version s = {i. i < length dies \<and> die_tag (dies ! i) = tag \<and>
     inline_scope_contains_pc (dies ! i) pc ranges base version s = (Ok True, s)}"

lemma twp_physical_subprogram_loop:
  assumes "dies = before @ ds" and "set_option result = {i \<in> owners dies kDwTagSubprogram pc ranges base version s. i < length before}"
  shows "twp (physical_subprogram_loop pc ranges base version (length before) ds result)
    (\<lambda>r s'. s' = s \<and> set_option r = owners dies kDwTagSubprogram pc ranges base version s) (\<lambda>e s'. no_ub e \<and> s' = s) s"
  using assms
proof (induction ds arbitrary: before result)
  case Nil
  then show ?case by (auto simp: twp_simps owners_def)
next
  case (Cons d ds)
  let ?O = "owners dies kDwTagSubprogram pc ranges base version s"
  have at: "dies ! length before = d" using Cons.prems(1) by simp
  have later: "dies = (before @ [d]) @ ds" using Cons.prems(1) by simp
  have split: "{i \<in> ?O. i < length (before @ [d])} = {i \<in> ?O. i < length before} \<union> (?O \<inter> {length before})"
    by auto
  have skip: "twp (physical_subprogram_loop pc ranges base version (Suc (length before)) ds result)
      (\<lambda>r s'. s' = s \<and> set_option r = ?O) (\<lambda>e s'. no_ub e \<and> s' = s) s" if "length before \<notin> ?O"
    using Cons.IH [OF later, of result] Cons.prems(2) that unfolding split by simp
  have take: "twp (physical_subprogram_loop pc ranges base version (Suc (length before)) ds (Some (length before)))
      (\<lambda>r s'. s' = s \<and> set_option r = ?O) (\<lambda>e s'. no_ub e \<and> s' = s) s" if "length before \<in> ?O" "result = None"
    using Cons.IH [OF later, of "Some (length before)"] Cons.prems(2) that unfolding split by auto
  have own: "length before \<in> ?O \<longleftrightarrow> die_tag d = kDwTagSubprogram \<and> inline_scope_contains_pc d pc ranges base version s = (Ok True, s)"
    using Cons.prems(1) by (simp add: owners_def at)
  show ?case
    using skip take own
    by (auto simp: twp_simps intro!: twp_looks [OF inspects_inline_scope])
qed

lemma twp_find_physical_subprogram:
  "twp (find_physical_subprogram dies pc ranges base version)
    (\<lambda>r s'. s' = s \<and> set_option r = owners dies kDwTagSubprogram pc ranges base version s) (\<lambda>e s'. no_ub e \<and> s' = s) s"
  unfolding find_physical_subprogram_def
  using twp_physical_subprogram_loop [of dies "[]" dies None pc ranges base version s] by simp

section \<open>The chain of inlined calls\<close>

text \<open>The inlined subroutines of a subprogram around the address.\<close>

definition inlines :: "die list \<Rightarrow> nat \<Rightarrow> u64 \<Rightarrow> u8 list \<Rightarrow> u64 \<Rightarrow> u16 \<Rightarrow> 's \<Rightarrow> nat set" where
  "inlines dies sub pc ranges base version s =
    {i \<in> owners dies kDwTagInlinedSubroutine pc ranges base version s. (i, sub) \<in> (parent_of dies)\<^sup>+}"

lemma twp_inline_candidates:
  assumes ok: "dies_ok dies" and "\<forall>i \<in> set is. i < length dies"
  shows "twp (inline_candidates dies pc ranges base version sub is)
    (\<lambda>cs s'. s' = s \<and> set (map fst cs) = set is \<inter> inlines dies sub pc ranges base version s)
    (\<lambda>e s'. no_ub e \<and> s' = s) s"
  using assms(2)
proof (induction "is")
  case Nil
  then show ?case by (simp add: twp_simps)
next
  case (Cons i "is")
  let ?I = "inlines dies sub pc ranges base version s"
  from Cons.prems have i: "i < length dies" by simp
  from Cons have rest: "twp (inline_candidates dies pc ranges base version sub is)
      (\<lambda>cs s'. s' = s \<and> set (map fst cs) = set is \<inter> ?I) (\<lambda>e s'. no_ub e \<and> s' = s) s" by simp
  have mem: "i \<in> ?I \<longleftrightarrow> die_tag (dies ! i) = kDwTagInlinedSubroutine \<and> (i, sub) \<in> (parent_of dies)\<^sup>+ \<and>
      inline_scope_contains_pc (dies ! i) pc ranges base version s = (Ok True, s)"
    using i by (auto simp: inlines_def owners_def)
  have skip: "twp (inline_candidates dies pc ranges base version sub is)
      (\<lambda>cs s'. s' = s \<and> set (map fst cs) = set (i # is) \<inter> ?I) (\<lambda>e s'. no_ub e \<and> s' = s) s" if "i \<notin> ?I"
    using rest that by simp
  have take: "twp (inline_candidates dies pc ranges base version sub is)
      (\<lambda>cs s'. s' = s \<and> set (map fst ((i, d) # cs)) = set (i # is) \<inter> ?I) (\<lambda>e s'. no_ub e \<and> s' = s) s"
    if "i \<in> ?I" for d
    by (rule twp_mono [OF rest]) (use that in auto)
  show ?case
    unfolding inline_candidates.simps Let_def bind_die_at [OF i] using skip take [unfolded list.map fst_conv] mem
    by (auto simp: twp_simps is_descendant_of_run [OF ok i] twp_def [of "is_descendant_of _ _ _"]
        intro!: twp_looks [OF inspects_inline_scope] twp_inspects [OF inspects_walks(2) [OF ok i]])
qed

lemma inlines_bound: "i \<in> inlines dies sub pc ranges base version s \<Longrightarrow> i < length dies"
  by (simp add: inlines_def owners_def)

lemma twp_all_inline_candidates:
  assumes "dies_ok dies"
  shows "twp (inline_candidates dies pc ranges base version sub [0..<length dies])
    (\<lambda>cs s'. s' = s \<and> set (map fst cs) = inlines dies sub pc ranges base version s \<and> (\<forall>c \<in> set cs. fst c < length dies))
    (\<lambda>e s'. no_ub e \<and> s' = s) s"
proof -
  have "{0..<length dies} \<inter> inlines dies sub pc ranges base version s = inlines dies sub pc ranges base version s"
    by (auto simp: inlines_bound)
  moreover have "\<forall>c \<in> set cs. fst c < length dies" if "fst ` set cs = inlines dies sub pc ranges base version s"
    for cs :: "(nat \<times> nat) list"
    using that by (metis image_eqI inlines_bound)
  ultimately show ?thesis by (intro twp_mono [OF twp_inline_candidates [OF assms]]) auto
qed

lemma twp_check_chain:
  assumes ok: "dies_ok dies" and "\<forall>c \<in> set cs. fst c < length dies"
  shows "twp (check_chain dies n prev cs)
    (\<lambda>_ s'. s' = s \<and> map snd cs = [Suc n..<Suc n + length cs] \<and>
       successively (\<lambda>i j. (j, i) \<in> (parent_of dies)\<^sup>+) (case_option [] (\<lambda>p. [p]) prev @ map fst cs))
    (\<lambda>e s'. no_ub e \<and> s' = s) s"
  using assms(2)
proof (induction cs arbitrary: n prev)
  case Nil
  then show ?case by (cases prev) (simp_all add: twp_simps)
next
  case (Cons c cs)
  obtain i d where c: "c = (i, d)" by (cases c)
  with Cons.prems have i: "i < length dies" by simp
  have upt: "[Suc n..<Suc n + length (c # cs)] = Suc n # [Suc (Suc n)..<Suc (Suc n) + length cs]"
    by (simp add: upt_rec)
  have "twp (check_chain dies (Suc n) (Some i) cs)
      (\<lambda>_ s'. s' = s \<and> map snd cs = [Suc (Suc n)..<Suc (Suc n) + length cs] \<and>
        successively (\<lambda>i j. (j, i) \<in> (parent_of dies)\<^sup>+) (i # map fst cs)) (\<lambda>e s'. no_ub e \<and> s' = s) s"
    using Cons.IH [of "Suc n" "Some i"] Cons.prems by simp
  note rest = twp_mono [OF this]
  show ?case
    unfolding c upt [unfolded c] using i
    by (auto simp: twp_simps twp_def [of "is_descendant_of _ _ _"] is_descendant_of_run [OF ok i] simp del: upt_Suc
        intro!: rest split: option.split)
qed

text \<open>What a unit contributes: the entries, the subprogram that alone owns the address, and the chain of all inlined
  subroutines around the address, outermost first, each inside the one before it.\<close>

definition unit_inlines ::
  "debug_sections \<Rightarrow> u8 list \<Rightarrow> u64 \<Rightarrow> path \<Rightarrow> 's \<Rightarrow> inline_context list \<Rightarrow> bool" where
  "unit_inlines ds ranges pc module_path s contexts \<longleftrightarrow> (\<exists>start dies after version base sub is.
     parse_unit_dies ds start s = (Ok (dies, after, version), s) \<and> compilation_unit_base dies s = (Ok base, s) \<and>
     owners dies kDwTagSubprogram pc ranges base version s = {sub} \<and>
     set is = inlines dies sub pc ranges base version s \<and>
     successively (\<lambda>i j. (j, i) \<in> (parent_of dies)\<^sup>+) is \<and> length is \<le> kMaxInlineContexts \<and>
     map ix_die_offset contexts = map (\<lambda>i. die_offset (dies ! i)) is \<and> map ix_depth contexts = [0..<length is] \<and>
     (\<forall>c \<in> set contexts. ix_module_path c = module_path \<and> ix_name c \<noteq> [] \<and> sl_line (ix_call_site c) \<noteq> 0))"

lemma twp_inline_context_of:
  assumes "fst c < length dies"
  shows "twp (inline_context_of dies lines pc module_path c)
    (\<lambda>x s'. (ix_die_offset x = die_offset (dies ! fst c) \<and> ix_depth x = snd c - 1 \<and> ix_module_path x = module_path \<and>
       ix_name x \<noteq> [] \<and> sl_line (ix_call_site x) \<noteq> 0) \<and> s' = s) (\<lambda>e s'. no_ub e \<and> s' = s) s"
  unfolding inline_context_of_def bind_die_at [OF assms]
  by (auto simp: twp_simps intro!: twp_inspects [OF inspects_attribute_with_abstract_origin [OF assms]]
      twp_inspects [OF inspects_find_virtual_file] split: option.split)

lemma twp_open_line_table:
  "twp (open_line_table fs path) (\<lambda>t s'. s' = s) (\<lambda>e s'. in_bounds e \<and> s' = s) s"
  unfolding open_line_table_def
  by (auto simp: twp_simps no_ub_in_bounds intro!: twp_inspects [OF inspects_read_binary_file] twp_mono [OF twp_parse_line_table])

lemma chain_contexts:
  assumes "list_all2 (\<lambda>c x. ix_die_offset x = die_offset (dies ! fst c) \<and> ix_depth x = snd c - Suc 0 \<and> P x) cs contexts"
    and "map snd cs = [Suc 0..<Suc (length cs)]"
  shows "map ix_die_offset contexts = map (\<lambda>i. die_offset (dies ! i)) (map fst cs)"
    "map ix_depth contexts = [0..<length (map fst cs)]" "\<forall>x \<in> set contexts. P x"
proof -
  have "map ix_depth contexts = map (\<lambda>d. d - Suc 0) (map snd cs)" "\<forall>x \<in> set contexts. P x"
    "map ix_die_offset contexts = map (\<lambda>i. die_offset (dies ! i)) (map fst cs)"
    using assms(1) by (induction rule: list_all2_induct) auto
  moreover have "map (\<lambda>d. d - Suc 0) [Suc 0..<Suc n] = [0..<n]" for n
    by (induction n) auto
  ultimately show "map ix_die_offset contexts = map (\<lambda>i. die_offset (dies ! i)) (map fst cs)"
    "map ix_depth contexts = [0..<length (map fst cs)]" "\<forall>x \<in> set contexts. P x"
    by (simp_all add: assms(2) del: upt_Suc)
qed

lemma twp_discover_inline_unit:
  assumes "start \<le> length (ds_info ds)"
  shows "twp (discover_inline_unit fs ds ranges pc module_path debug_path start)
    (\<lambda>(r, after) s'. s' = s \<and> start < after \<and>
       pred_option (unit_inlines ds ranges pc module_path s) r)
    (\<lambda>e s'. in_bounds e \<and> s' = s) s"
  using twp_parse_unit_dies [OF assms, of s]
proof (cases rule: twp_cases)
  case (throws e s')
  then show ?thesis by (simp add: discover_inline_unit_def bindM_def twp_def no_ub_in_bounds)
next
  case (returns u s')
  obtain dies after version where u: "u = (dies, after, version)" by (cases u)
  from returns have run: "parse_unit_dies ds start s = (Ok (dies, after, version), s)"
    and after: "start < after" and ok: "dies_ok dies"
    by (auto simp: u unit_ok_def)
  have contexts: "unit_inlines ds ranges pc module_path s contexts"
    if "compilation_unit_base dies s = (Ok base, s)" "{sub} = owners dies kDwTagSubprogram pc ranges base version s"
      "fst ` set cs = inlines dies sub pc ranges base version s" "\<not> kMaxInlineContexts < length cs"
      "map snd (sort_key snd cs) = [Suc 0..<Suc (length cs)]"
      "successively (\<lambda>i j. (j, i) \<in> (parent_of dies)\<^sup>+) (map fst (sort_key snd cs))"
      "list_all2 (\<lambda>c x. ix_die_offset x = die_offset (dies ! fst c) \<and> ix_depth x = snd c - Suc 0 \<and> ix_module_path x = module_path \<and>
         ix_name x \<noteq> [] \<and> sl_line (ix_call_site x) \<noteq> 0) (sort_key snd cs) contexts" for base sub cs contexts
    unfolding unit_inlines_def using that(1-4,6) chain_contexts [OF that(7), unfolded length_sort, OF that(5)] run
    by (intro exI [of _ start] exI [of _ dies] exI [of _ after] exI [of _ version] exI [of _ base] exI [of _ sub]
        exI [of _ "map fst (sort_key snd cs)"]) auto
  have none: "unit_inlines ds ranges pc module_path s []"
    if "compilation_unit_base dies s = (Ok base, s)" "{sub} = owners dies kDwTagSubprogram pc ranges base version s"
      "{} = inlines dies sub pc ranges base version s" for base sub
    using contexts [OF that(1,2), of "[]" "[]"] that(3) by simp
  show ?thesis
    unfolding discover_inline_unit_def Let_def twp_bindM
    by (rule twp_run, rule run)
      (auto simp: twp_simps after no_ub_in_bounds simp del: upt_Suc
        intro!: twp_looks [OF inspects_compilation_unit_base] twp_mono [OF twp_find_physical_subprogram]
          twp_mono [OF twp_all_inline_candidates [OF ok]] twp_mono [OF twp_check_chain [OF ok]] twp_mono [OF twp_open_line_table]
          twp_mono [OF twp_mapM [OF twp_inline_context_of]], (rule none contexts; assumption)+)
qed

section \<open>Over the units\<close>

lemma twp_unit_loop:
  assumes "\<And>start. start < bound \<Longrightarrow> twp (visit start) (\<lambda>(r, after) s'. s' = s \<and> start < after \<and> pred_option P r)
      (\<lambda>e s'. I e \<and> s' = s) s"
    and "twp finish (\<lambda>r s'. s' = s \<and> (P r \<or> F r)) (\<lambda>e s'. I e \<and> s' = s) s" and "bound - start < n"
    and "\<And>m. I (RuntimeError m)"
  shows "twp (unit_loop n bound stalled visit finish start) (\<lambda>r s'. s' = s \<and> (P r \<or> F r)) (\<lambda>e s'. I e \<and> s' = s) s"
  using assms(3)
proof (induction n arbitrary: start)
  case (Suc n)
  have rest: "twp (unit_loop n bound stalled visit finish after) (\<lambda>r s'. s' = s \<and> (P r \<or> F r)) (\<lambda>e s'. I e \<and> s' = s) s"
    if "start < bound" "start < after" for after
    by (rule Suc.IH) (use that Suc.prems in linarith)
  show ?case
    using rest assms(2,4)
    by (auto simp: twp_simps intro!: twp_mono [OF assms(1)] split: option.split)
qed simp

lemma twp_over_units:
  assumes "\<And>start. start < length (ds_info ds) \<Longrightarrow> twp (visit start)
      (\<lambda>(r, after) s'. s' = s \<and> start < after \<and> pred_option P r) (\<lambda>e s'. I e \<and> s' = s) s"
    and "twp finish (\<lambda>r s'. s' = s \<and> (P r \<or> F r)) (\<lambda>e s'. I e \<and> s' = s) s" and "\<And>m. I (RuntimeError m)"
  shows "twp (over_units ds stalled visit finish) (\<lambda>r s'. s' = s \<and> (P r \<or> F r)) (\<lambda>e s'. I e \<and> s' = s) s"
  unfolding over_units_def by (rule twp_unit_loop [OF assms(1,2) _ assms(3)]) auto

lemma inspects_read_debug_ranges [inspects_intros]: "inspects (read_debug_ranges fs path)"
  unfolding read_debug_ranges_def by (intro inspects_intros)

lemma inspects_validation [inspects_intros]:
  "inspects (validate_snapshot_inspection_frame so frame)" "inspects (snapshot_frame_lookup_pc frame)"
  "inspects (validate_snapshot_frame_lookup_pc frame)"
  unfolding validate_snapshot_inspection_frame_def validate_snapshot_frame_lookup_pc_def
    snapshot_frame_lookup_pc_def snapshot_thread_def Let_def
  by (intro inspects_intros; simp)+

lemma inspects_snapshot_frame_debug: "inspects (snapshot_frame_debug fs regular so frame mp changed)"
  unfolding snapshot_frame_debug_def by (intro inspects_intros) simp

lemma snapshot_frame_debug_owner:
  assumes "snapshot_frame_debug fs regular so frame mp changed k = (Ok (owner, debug_path, ds, ranges), k')"
  shows "sa_module_path owner = sf_module_path frame"
  using assms unfolding snapshot_frame_debug_def thenM_def
  by (auto simp: inspects_bindM_Ok [OF inspects_validation(1)] inspects_bindM_Ok [OF inspects_validation(2)]
      inspects_bindM_Ok [OF inspects_validation(3)] inspects_bindM_Ok [OF inspects_resolve_snapshot_module_address]
      inspects_bindM_Ok [OF inspects_resolve_debug_file] inspects_bindM_Ok [OF inspects_read_debug_sections]
      inspects_bindM_Ok [OF inspects_read_debug_ranges] returnM_def throwM_def split: if_splits)

lemma twp_discover_inline_call_chain:
  "twp (discover_inline_call_chain fs regular so frame mp)
    (\<lambda>contexts k'. k' = k \<and> (contexts = [] \<or> (\<exists>owner debug_path ds ranges.
       snapshot_frame_debug fs regular so frame mp ''snapshot inline discovery module ownership changed'' k =
         (Ok (owner, debug_path, ds, ranges), k) \<and>
       unit_inlines ds ranges (sa_virtual_address owner) (sf_module_path frame) k contexts)))
    (\<lambda>e k'. in_bounds e \<and> k' = k) k"
proof -
  have visit: "twp (over_units ds stalled (discover_inline_unit fs ds ranges pc path debug_path) (returnM []))
      (\<lambda>contexts k'. k' = k \<and> (unit_inlines ds ranges pc path k contexts \<or> contexts = []))
      (\<lambda>e k'. in_bounds e \<and> k' = k) k" for ds stalled ranges pc path debug_path
    by (rule twp_over_units) (auto simp: twp_simps intro!: twp_discover_inline_unit)
  show ?thesis
    unfolding discover_inline_call_chain_def twp_bindM
  proof (rule twp_looks [OF inspects_snapshot_frame_debug], goal_cases)
    case (1 a)
    obtain owner debug_path ds ranges where a: "a = (owner, debug_path, ds, ranges)" by (cases a)
    from snapshot_frame_debug_owner [OF 1 [unfolded a]] have "sa_module_path owner = sf_module_path frame" .
    with 1 show ?case by (auto simp: a intro!: twp_mono [OF visit])
  qed (simp add: no_ub_in_bounds)
qed

text \<open>What a client sees of a context: its position, below 8, and the module of the frame.\<close>

lemma unit_inlines_nth:
  assumes "unit_inlines ds ranges pc module_path s contexts" and "i < length contexts"
  shows "ix_depth (contexts ! i) = i \<and> i < kMaxInlineContexts \<and> ix_module_path (contexts ! i) = module_path"
proof -
  from assms(1) obtain "is" :: "nat list" where depths: "map ix_depth contexts = [0..<length is]" and few: "length is \<le> kMaxInlineContexts"
    and module: "\<forall>c \<in> set contexts. ix_module_path c = module_path"
    by (auto simp: unit_inlines_def)
  from depths have "length contexts = length is" using length_map [of ix_depth contexts] by simp
  moreover have "ix_depth (contexts ! i) = i"
    using assms(2) depths nth_map [of i contexts ix_depth] calculation by simp
  ultimately show ?thesis using assms(2) few module by simp
qed

text \<open>C22. The inlined calls at a frame of a core. The discovery ends on every file, reads only inside it and changes
  nothing. What it returns is empty, or comes from a unit in which exactly one subprogram owns the address, and is then the chain of
  all inlined subroutines of that subprogram around the address: outermost first, each inside the one before, numbered
  from 0, at most 8, each with a name and a call line, in the module of the frame.\<close>

theorem inline_call_chain_exact:
  "twp (discover_inline_call_chain fs regular so frame mp)
    (\<lambda>contexts k'. k' = k \<and> (contexts = [] \<or> (\<exists>owner debug_path ds ranges.
       snapshot_frame_debug fs regular so frame mp ''snapshot inline discovery module ownership changed'' k =
         (Ok (owner, debug_path, ds, ranges), k) \<and>
       unit_inlines ds ranges (sa_virtual_address owner) (sf_module_path frame) k contexts)))
    (\<lambda>e k'. in_bounds e \<and> k' = k) k"
  by (rule twp_mono [OF twp_discover_inline_call_chain]) auto

section \<open>Catalogues\<close>

text \<open>
  Both catalogues scan the entries and enter the declarations they find: \<open>declares i name depth kind\<close> says that entry
  \<open>i\<close> declares \<open>name\<close> at a depth of scopes. The scan is proved once, for any such relation.
\<close>

lemma length_smap_assign_present:
  assumes "smap_wf m" and "smap_find m k = Some v"
  shows "length (smap_assign k w m) = length m"
proof -
  have "length m = card (fst ` set m)" if "smap_wf m" for m :: "('a, 'b) smap"
    using distinct_card [OF smap_wf_distinct [OF that]] by simp
  moreover have "insert k (fst ` set m) = fst ` set m"
    using smap_find_SomeD [OF assms(2)] by (force simp: insert_absorb)
  ultimately show ?thesis
    using assms(1) std.wf_assign [OF assms(1), of k w] by (simp add: smap_fst_assign)
qed

text \<open>The innermost declaration of a name among the entries of a set, when it is the only one at its depth.\<close>

type_synonym declares_rel = "nat \<Rightarrow> u8 list \<Rightarrow> nat \<Rightarrow> local_discovery_kind \<Rightarrow> bool"

definition innermost :: "declares_rel \<Rightarrow> nat set \<Rightarrow> u8 list \<Rightarrow> nat \<Rightarrow> local_discovery_kind \<Rightarrow> bool" where
  "innermost declares I name depth kind \<longleftrightarrow> (\<exists>i \<in> I. declares i name depth kind \<and>
     (\<forall>j \<in> I. \<forall>d k. declares j name d k \<longrightarrow> d \<le> depth \<and> (d = depth \<longrightarrow> j = i)))"

text \<open>The catalogue of a set of entries: at most 64 names, ascending, exactly the declared ones, each with the kind of
  its innermost declaration.\<close>

definition catalogued :: "declares_rel \<Rightarrow> nat set \<Rightarrow> local_discovery_entry list \<Rightarrow> bool" where
  "catalogued declares I entries \<longleftrightarrow> sorted_wrt (<) (map le_name entries) \<and> length entries \<le> kMaxDiscoveredLocals \<and>
     le_name ` set entries = {name. \<exists>i \<in> I. \<exists>d k. declares i name d k} \<and>
     (\<forall>e \<in> set entries. \<exists>d. innermost declares I (le_name e) d (le_kind e))"

text \<open>The table of a scan: for each name nothing, or its innermost declaration.\<close>

definition entry_ok :: "declares_rel \<Rightarrow> nat set \<Rightarrow> u8 list \<Rightarrow> (nat \<times> local_discovery_kind) option \<Rightarrow> bool" where
  "entry_ok declares I name entry = (case entry of None \<Rightarrow> \<forall>i \<in> I. \<forall>d k. \<not> declares i name d k
     | Some e \<Rightarrow> innermost declares I name (fst e) (snd e))"

definition scanned :: "declares_rel \<Rightarrow> nat set \<Rightarrow> catalogue \<Rightarrow> bool" where
  "scanned declares I sel \<longleftrightarrow> smap_wf sel \<and> length sel \<le> kMaxDiscoveredLocals \<and> (\<forall>name. entry_ok declares I name (smap_find sel name))"

locale declaration_scan =
  fixes declares :: "nat \<Rightarrow> u8 list \<Rightarrow> nat \<Rightarrow> local_discovery_kind \<Rightarrow> bool"
  assumes declares_unique: "declares i name depth kind \<Longrightarrow> declares i name' depth' kind' \<Longrightarrow>
    name' = name \<and> depth' = depth \<and> kind' = kind"
begin

lemma scanned_empty: "scanned declares {} smap_empty"
  by (simp add: scanned_def entry_ok_def std.find_empty std.wf_empty) (simp add: smap_empty_def)

lemma entry_ok_other:
  assumes "entry_ok declares I name entry" and "\<And>d k. \<not> declares i name d k"
  shows "entry_ok declares (insert i I) name entry"
  using assms unfolding entry_ok_def innermost_def by (cases entry) (simp_all, metis)

lemma scanned_skip: "scanned declares I sel \<Longrightarrow> (\<And>name d k. \<not> declares i name d k) \<Longrightarrow> scanned declares (insert i I) sel"
  by (simp add: scanned_def entry_ok_other)

lemma innermost_insert:
  assumes "declares i name depth kind" and "\<And>j d k. j \<in> I \<Longrightarrow> declares j name d k \<Longrightarrow> d < depth"
  shows "innermost declares (insert i I) name depth kind"
proof -
  have "d \<le> depth \<and> (d = depth \<longrightarrow> j = i)" if "j \<in> insert i I" "declares j name d k" for j d k
    using that assms(2) [of j d k] declares_unique [OF assms(1), of name d k] by auto
  with assms(1) show ?thesis unfolding innermost_def by blast
qed

lemma innermost_deeper:
  assumes "declares i name depth kind" and "innermost declares I name d k" and "depth < d"
  shows "innermost declares (insert i I) name d k"
  using assms unfolding innermost_def by (simp, metis declares_unique less_imp_le less_not_refl)

lemma innermost_below:
  assumes "innermost declares I name d k" and "d < depth" and "j \<in> I" and "declares j name d' k'"
  shows "d' < depth"
  using assms unfolding innermost_def by (meson le_less_trans)

lemma scanned_enter:
  assumes "scanned declares I sel" and "declares i name depth kind" and "smap_wf sel'" and "length sel' \<le> kMaxDiscoveredLocals"
    and "\<And>l. smap_find sel' l = (if l = name then Some e else smap_find sel l)" and "entry_ok declares (insert i I) name (Some e)"
  shows "scanned declares (insert i I) sel'"
  unfolding scanned_def
proof (intro conjI allI)
  fix l
  show "entry_ok declares (insert i I) l (smap_find sel' l)"
  proof (cases "l = name")
    case True
    with assms(5,6) show ?thesis by simp
  next
    case False
    then have "\<not> declares i l d k" for d k using assms(2) declares_unique by blast
    with False assms(1,5) show ?thesis by (simp add: scanned_def entry_ok_other)
  qed
qed (use assms in simp_all)

lemma twp_catalogue_add:
  assumes scan: "scanned declares I sel" and new: "declares i name depth kind"
  shows "twp (catalogue_add exceeded ambiguous name depth kind sel)
    (\<lambda>sel' s'. s' = s \<and> scanned declares (insert i I) sel') (\<lambda>e s'. no_ub e \<and> s' = s) s"
proof (cases "smap_find sel name")
  case None
  with scan have "j \<in> I \<Longrightarrow> \<not> declares j name d k" for j d k by (auto simp: scanned_def entry_ok_def dest: spec [of _ name])
  then have "entry_ok declares (insert i I) name (Some (depth, kind))"
    by (auto simp: entry_ok_def intro: innermost_insert [OF new])
  moreover have "length (smap_emplace name (depth, kind) sel) \<le> kMaxDiscoveredLocals" if "length sel < kMaxDiscoveredLocals"
    using length_smap_emplace [of name "(depth, kind)" sel] that by simp
  ultimately have "scanned declares (insert i I) (smap_emplace name (depth, kind) sel)" if "length sel < kMaxDiscoveredLocals"
    by (intro scanned_enter [OF scan new, where e = "(depth, kind)"])
      (use scan None that in \<open>auto simp: scanned_def smap_wf_emplace smap_find_emplace\<close>)
  with None show ?thesis by (auto simp: catalogue_add_def twp_simps)
next
  case (Some e)
  with scan have inner: "innermost declares I name (fst e) (snd e)" by (auto simp: scanned_def entry_ok_def dest: spec [of _ name])
  have deeper: "scanned declares (insert i I) (smap_assign name (depth, kind) sel)" if "fst e < depth"
    by (intro scanned_enter [OF scan new, where e = "(depth, kind)"])
      (use scan Some that in \<open>auto simp: scanned_def std.wf_assign std.find_assign length_smap_assign_present entry_ok_def
        intro: innermost_insert [OF new] innermost_below [OF inner]\<close>)
  have hidden: "scanned declares (insert i I) sel" if "depth < fst e"
    by (intro scanned_enter [OF scan new, where e = e])
      (use scan Some that in \<open>auto simp: scanned_def entry_ok_def intro: innermost_deeper [OF new inner]\<close>)
  from Some deeper hidden show ?thesis by (auto simp: catalogue_add_def twp_simps)
qed

lemma scanned_entries:
  assumes "scanned declares I sel"
  shows "catalogued declares I (catalogue_entries sel)"
proof -
  from assms have wf: "smap_wf sel" and len: "length sel \<le> kMaxDiscoveredLocals"
    and ok: "entry_ok declares I name (smap_find sel name)" for name
    by (simp_all add: scanned_def)
  have names: "map le_name (catalogue_entries sel) = map fst sel"
    by (auto simp: catalogue_entries_def)
  have "name \<in> fst ` set sel \<longleftrightarrow> (\<exists>i \<in> I. \<exists>d k. declares i name d k)" for name
    using ok [of name] smap_find_None [of sel name]
    by (cases "smap_find sel name") (auto simp: entry_ok_def innermost_def)
  moreover have "\<exists>d. innermost declares I (le_name e) d (le_kind e)" if "e \<in> set (catalogue_entries sel)" for e
  proof -
    from that obtain name d k where e: "e = \<lparr>le_name = name, le_kind = k\<rparr>" "(name, d, k) \<in> set sel"
      by (auto simp: catalogue_entries_def)
    with wf have "smap_find sel name = Some (d, k)" by (simp add: smap_find_mem)
    with ok [of name] e show ?thesis by (auto simp: entry_ok_def)
  qed
  moreover have "le_name ` set (catalogue_entries sel) = fst ` set sel"
    using arg_cong [OF names, of set] by simp
  ultimately show ?thesis
    unfolding catalogued_def names using wf len
    by (simp add: smap_wf_sorted set_eq_iff) (simp add: catalogue_entries_def)
qed

end

section \<open>The two catalogues\<close>

text \<open>What an entry declares, by the functions the loops call: outside inlined calls for the names of a subprogram,
  inside one of them for the names of an inlined call.\<close>

definition names_entry :: "die list \<Rightarrow> nat \<Rightarrow> 's \<Rightarrow> u8 list \<Rightarrow> local_discovery_kind \<Rightarrow> bool" where
  "names_entry dies i s name kind \<longleftrightarrow> is_local (dies ! i) \<and> kind = local_kind (dies ! i) \<and> name \<noteq> [] \<and>
     (\<exists>v. attribute_with_abstract_origin dies i kDwAtName s = (Ok (Some v), s) \<and> av_text v = name)"

definition scoped_declares :: "die list \<Rightarrow> nat \<Rightarrow> u64 \<Rightarrow> 's \<Rightarrow> declares_rel" where
  "scoped_declares dies sub pc s i name depth kind \<longleftrightarrow> names_entry dies i s name kind \<and>
     crosses_inline_scope dies i sub s = (Ok False, s) \<and> active_scope_depth dies i sub pc s = (Ok (Some depth), s)"

definition inline_declares :: "die list \<Rightarrow> nat \<Rightarrow> u64 \<Rightarrow> u8 list \<Rightarrow> u64 \<Rightarrow> u16 \<Rightarrow> 's \<Rightarrow> declares_rel" where
  "inline_declares dies j pc ranges base version s i name depth kind \<longleftrightarrow> names_entry dies i s name kind \<and>
     inline_local_scope_depth dies i j pc ranges base version s = (Ok (Some depth), s)"

interpretation scoped: declaration_scan "scoped_declares dies sub pc s" for dies sub pc s
  by unfold_locales (auto simp: scoped_declares_def names_entry_def)

interpretation inlined: declaration_scan "inline_declares dies j pc ranges base version s" for dies j pc ranges base version s
  by unfold_locales (auto simp: inline_declares_def names_entry_def)

lemma twp_scoped_catalogue_loop:
  assumes ok: "dies_ok dies" and "\<forall>i \<in> set is. i < length dies" and "scanned (scoped_declares dies sub pc s) I sel"
  shows "twp (scoped_catalogue_loop dies sub pc is sel)
    (\<lambda>sel' s'. s' = s \<and> scanned (scoped_declares dies sub pc s) (I \<union> set is) sel') (\<lambda>e s'. no_ub e \<and> s' = s) s"
  using assms(2,3)
proof (induction "is" arbitrary: I sel)
  case Nil
  then show ?case by (simp add: twp_simps)
next
  case (Cons i "is")
  from Cons.prems have i: "i < length dies" by simp
  have rest: "twp (scoped_catalogue_loop dies sub pc is sel')
      (\<lambda>sel' s'. s' = s \<and> scanned (scoped_declares dies sub pc s) (insert i (I \<union> set is)) sel') (\<lambda>e s'. no_ub e \<and> s' = s) s"
    if "scanned (scoped_declares dies sub pc s) (insert i I) sel'" for sel'
    using Cons.IH [OF _ that] Cons.prems(1) by simp
  note add = twp_mono [OF scoped.twp_catalogue_add [OF Cons.prems(2), of i]]
  show ?case
    unfolding scoped_catalogue_loop.simps Let_def bind_die_at [OF i]
    by (auto simp: twp_simps scoped_declares_def [of _ _ _ _ i] names_entry_def intro!: rest scoped.scanned_skip [OF Cons.prems(2)]
        twp_looks [OF inspects_walks(1) [OF ok i]] twp_looks [OF inspects_attribute_with_abstract_origin [OF i]]
        twp_looks [OF inspects_active_scope_depth [OF ok i]] add split: option.split)
qed

lemma twp_inline_catalogue_loop:
  assumes ok: "dies_ok dies" and "\<forall>i \<in> set is. i < length dies"
    and "scanned (inline_declares dies j pc ranges base version s) I sel"
  shows "twp (inline_catalogue_loop dies j pc ranges base version is sel)
    (\<lambda>sel' s'. s' = s \<and> scanned (inline_declares dies j pc ranges base version s) (I \<union> set is) sel') (\<lambda>e s'. no_ub e \<and> s' = s) s"
  using assms(2,3)
proof (induction "is" arbitrary: I sel)
  case Nil
  then show ?case by (simp add: twp_simps)
next
  case (Cons i "is")
  from Cons.prems have i: "i < length dies" by simp
  have rest: "twp (inline_catalogue_loop dies j pc ranges base version is sel')
      (\<lambda>sel' s'. s' = s \<and> scanned (inline_declares dies j pc ranges base version s) (insert i (I \<union> set is)) sel')
      (\<lambda>e s'. no_ub e \<and> s' = s) s"
    if "scanned (inline_declares dies j pc ranges base version s) (insert i I) sel'" for sel'
    using Cons.IH [OF _ that] Cons.prems(1) by simp
  note add = twp_mono [OF inlined.twp_catalogue_add [OF Cons.prems(2), of i]]
  show ?case
    unfolding inline_catalogue_loop.simps Let_def bind_die_at [OF i]
    by (auto simp: twp_simps inline_declares_def [of _ _ _ _ _ _ _ i] names_entry_def intro!: rest inlined.scanned_skip [OF Cons.prems(2)]
        twp_looks [OF inspects_walks(3) [OF ok i]] twp_looks [OF inspects_attribute_with_abstract_origin [OF i]]
        add split: option.split)
qed

text \<open>The catalogue of a unit, for the subprogram that alone owns the address or for the inlined call at an offset.\<close>

definition unit_scoped_names ::
  "debug_sections \<Rightarrow> u8 list \<Rightarrow> u64 \<Rightarrow> 's \<Rightarrow> local_discovery_entry list \<Rightarrow> bool" where
  "unit_scoped_names ds ranges pc s entries \<longleftrightarrow> (\<exists>start dies after version base sub.
     parse_unit_dies ds start s = (Ok (dies, after, version), s) \<and> compilation_unit_base dies s = (Ok base, s) \<and>
     owners dies kDwTagSubprogram pc ranges base version s = {sub} \<and>
     catalogued (scoped_declares dies sub pc s) {..<length dies} entries)"

definition unit_inline_names ::
  "debug_sections \<Rightarrow> u8 list \<Rightarrow> u64 \<Rightarrow> nat \<Rightarrow> 's \<Rightarrow> local_discovery_entry list \<Rightarrow> bool" where
  "unit_inline_names ds ranges pc offset s entries \<longleftrightarrow> (\<exists>start dies after version base sub i.
     parse_unit_dies ds start s = (Ok (dies, after, version), s) \<and> compilation_unit_base dies s = (Ok base, s) \<and>
     owners dies kDwTagSubprogram pc ranges base version s = {sub} \<and>
     i \<in> inlines dies sub pc ranges base version s \<and> die_offset (dies ! i) = offset \<and>
     catalogued (inline_declares dies i pc ranges base version s) {..<length dies} entries)"

lemma twp_scoped_catalogue:
  assumes "dies_ok dies"
  shows "twp (scoped_catalogue_loop dies sub pc [0..<length dies] smap_empty)
    (\<lambda>sel s'. s' = s \<and> catalogued (scoped_declares dies sub pc s) {..<length dies} (catalogue_entries sel))
    (\<lambda>e s'. no_ub e \<and> s' = s) s"
  using twp_scoped_catalogue_loop [OF assms _ scoped.scanned_empty, of "[0..<length dies]" sub pc s]
  by (rule twp_mono) (auto simp: lessThan_atLeast0 dest: scoped.scanned_entries)

lemma twp_inline_catalogue:
  assumes "dies_ok dies"
  shows "twp (inline_catalogue_loop dies i pc ranges base version [0..<length dies] smap_empty)
    (\<lambda>sel s'. s' = s \<and> catalogued (inline_declares dies i pc ranges base version s) {..<length dies} (catalogue_entries sel))
    (\<lambda>e s'. no_ub e \<and> s' = s) s"
  using twp_inline_catalogue_loop [OF assms _ inlined.scanned_empty, of "[0..<length dies]" i pc ranges base version s]
  by (rule twp_mono) (auto simp: lessThan_atLeast0 dest: inlined.scanned_entries)

lemma twp_discover_scoped_unit:
  assumes "start \<le> length (ds_info ds)"
  shows "twp (discover_scoped_local_catalogue_unit ds ranges pc start)
    (\<lambda>(r, after) s'. s' = s \<and> start < after \<and> pred_option (unit_scoped_names ds ranges pc s) r)
    (\<lambda>e s'. no_ub e \<and> s' = s) s"
  using twp_parse_unit_dies [OF assms, of s]
proof (cases rule: twp_cases)
  case (throws e s')
  then show ?thesis by (simp add: discover_scoped_local_catalogue_unit_def bindM_def twp_def)
next
  case (returns u s')
  obtain dies after version where u: "u = (dies, after, version)" by (cases u)
  from returns have run: "parse_unit_dies ds start s = (Ok (dies, after, version), s)"
    and after: "start < after" and ok: "dies_ok dies"
    by (auto simp: u unit_ok_def)
  have names: "unit_scoped_names ds ranges pc s entries"
    if "compilation_unit_base dies s = (Ok base, s)" "{sub} = owners dies kDwTagSubprogram pc ranges base version s"
      "catalogued (scoped_declares dies sub pc s) {..<length dies} entries" for base sub entries
    unfolding unit_scoped_names_def using that run by metis
  show ?thesis
    unfolding discover_scoped_local_catalogue_unit_def twp_bindM
    by (rule twp_run, rule run)
      (auto simp: twp_simps after intro!: twp_looks [OF inspects_compilation_unit_base]
        twp_mono [OF twp_find_physical_subprogram] twp_mono [OF twp_scoped_catalogue [OF ok]] names)
qed

lemma twp_check_inline_owner:
  assumes ok: "dies_ok dies" and i: "i < length dies"
  shows "twp (check_inline_owner dies i pc ranges version)
    (\<lambda>(base, sub) s'. s' = s \<and> compilation_unit_base dies s = (Ok base, s) \<and>
       owners dies kDwTagSubprogram pc ranges base version s = {sub} \<and> i \<in> inlines dies sub pc ranges base version s)
    (\<lambda>e s'. no_ub e \<and> s' = s) s"
  unfolding check_inline_owner_def bind_die_at [OF i] using i
  by (auto simp: twp_simps twp_def [of "is_descendant_of _ _ _"] is_descendant_of_run [OF ok i] inlines_def owners_def
      intro!: twp_looks [OF inspects_compilation_unit_base] twp_looks [OF inspects_inline_scope]
        twp_mono [OF twp_find_physical_subprogram])

lemma die_index_loop_offset: "die_index_loop offset n ds = Some i \<Longrightarrow> n \<le> i \<and> i < n + length ds \<and> die_offset (ds ! (i - n)) = offset"
  by (induction ds arbitrary: n) (force simp: nth_Cons' split: if_splits)+

lemma die_index_by_offset_Some: "die_index_by_offset dies offset = Some i \<Longrightarrow> i < length dies \<and> die_offset (dies ! i) = offset"
  by (auto simp: die_index_by_offset_def dest: die_index_loop_offset)

lemma twp_discover_inline_locals_unit:
  assumes "start \<le> length (ds_info ds)"
  shows "twp (discover_inline_locals_unit ds ranges pc offset start)
    (\<lambda>(r, after) s'. s' = s \<and> start < after \<and> pred_option (unit_inline_names ds ranges pc offset s) r)
    (\<lambda>e s'. no_ub e \<and> s' = s) s"
  using twp_parse_unit_dies [OF assms, of s]
proof (cases rule: twp_cases)
  case (throws e s')
  then show ?thesis by (simp add: discover_inline_locals_unit_def bindM_def twp_def)
next
  case (returns u s')
  obtain dies after version where u: "u = (dies, after, version)" by (cases u)
  from returns have run: "parse_unit_dies ds start s = (Ok (dies, after, version), s)"
    and after: "start < after" and ok: "dies_ok dies"
    by (auto simp: u unit_ok_def)
  have names: "unit_inline_names ds ranges pc offset s entries"
    if "die_index_by_offset dies offset = Some i" "compilation_unit_base dies s = (Ok base, s)"
      "owners dies kDwTagSubprogram pc ranges base version s = {sub}" "i \<in> inlines dies sub pc ranges base version s"
      "catalogued (inline_declares dies i pc ranges base version s) {..<length dies} entries" for base sub entries i
    unfolding unit_inline_names_def using that(2-5) run die_index_by_offset_Some [OF that(1)] by metis
  show ?thesis
    unfolding discover_inline_locals_unit_def twp_bindM
    by (rule twp_run, rule run)
      (auto simp: twp_simps after intro!: twp_mono [OF twp_check_inline_owner [OF ok]]
        twp_mono [OF twp_inline_catalogue [OF ok]] names dest: die_index_by_offset_Some split: option.split)
qed

text \<open>C23. The names visible at a frame of a core. The discovery ends on every file, reads only inside it, changes nothing and
  has no undefined behaviour. What it returns comes from a unit in which exactly one subprogram owns the address: at most 64
  names in ascending order, exactly the names that variables and parameters of that subprogram, outside inlined calls, declare
  in the scopes around the address, each with the kind of its innermost declaration, which is the only one at its depth.\<close>

theorem snapshot_local_names_exact:
  "twp (discover_snapshot_local_values fs regular so frame mp)
    (\<lambda>entries k'. k' = k \<and> (\<exists>owner debug_path ds ranges.
       snapshot_frame_debug fs regular so frame mp ''snapshot local discovery module ownership changed'' k =
         (Ok (owner, debug_path, ds, ranges), k) \<and> unit_scoped_names ds ranges (sa_virtual_address owner) k entries))
    (\<lambda>e k'. no_ub e \<and> k' = k) k"
proof -
  have visit: "twp (over_units ds stalled (discover_scoped_local_catalogue_unit ds ranges pc) (throwM (RuntimeError m)))
      (\<lambda>entries k'. k' = k \<and> (unit_scoped_names ds ranges pc k entries \<or> False)) (\<lambda>e k'. no_ub e \<and> k' = k) k"
    for ds stalled ranges pc m
    by (rule twp_over_units) (auto simp: twp_simps intro!: twp_discover_scoped_unit)
  show ?thesis
    unfolding discover_snapshot_local_values_def twp_bindM
    by (rule twp_looks [OF inspects_snapshot_frame_debug]) (auto intro!: twp_mono [OF visit])
qed

text \<open>The names visible in an inlined call of a frame of a core. As for a subprogram, the discovery ends, reads only
  inside the file, changes nothing and has no undefined behaviour. What it returns comes from the unit that has the inlined
  subroutine at the given offset; that subroutine is one of those around the address in the only subprogram that owns it, and
  the names are exactly those declared in its scopes around the address, innermost declaration each.\<close>

theorem inline_local_names_exact:
  "twp (discover_inline_local_values fs regular so frame inline_die_offset mp)
    (\<lambda>entries k'. k' = k \<and> (\<exists>owner debug_path ds ranges.
       snapshot_frame_debug fs regular so frame mp ''snapshot inline local discovery module ownership changed'' k =
         (Ok (owner, debug_path, ds, ranges), k) \<and>
       unit_inline_names ds ranges (sa_virtual_address owner) inline_die_offset k entries))
    (\<lambda>e k'. no_ub e \<and> k' = k) k"
proof -
  have visit: "twp (over_units ds stalled (discover_inline_locals_unit ds ranges pc offset) (throwM (RuntimeError m)))
      (\<lambda>entries k'. k' = k \<and> (unit_inline_names ds ranges pc offset k entries \<or> False)) (\<lambda>e k'. no_ub e \<and> k' = k) k"
    for ds stalled ranges pc m offset
    by (rule twp_over_units) (auto simp: twp_simps intro!: twp_discover_inline_locals_unit)
  show ?thesis
    unfolding discover_inline_local_values_def twp_bindM
    by (rule twp_looks [OF inspects_snapshot_frame_debug]) (auto intro!: twp_mono [OF visit])
qed

end
