(* ===== verification/Yields.thy ===== *)
theory Yields
  imports Inspect
begin

text \<open>
  A triple for programs that end, change nothing and have no undefined behaviour, with what they return. It suits the
  readers of debug information, which decide by their input alone.
\<close>

definition yields :: "('s, 'a) prog \<Rightarrow> ('a \<Rightarrow> bool) \<Rightarrow> bool" where
  "yields m P \<longleftrightarrow> (\<forall>s. twp m (\<lambda>a s'. s' = s \<and> P a) (\<lambda>e s'. no_ub e \<and> s' = s) s)"

lemma yieldsD: "yields m P \<Longrightarrow> twp m (\<lambda>a s'. s' = s \<and> P a) (\<lambda>e s'. no_ub e \<and> s' = s) s"
  by (simp add: yields_def)

lemma yields_returnM [simp]: "yields (returnM a) P \<longleftrightarrow> P a"
  by (simp add: yields_def twp_simps)

lemma yields_throwM [simp]: "yields (throwM e) P \<longleftrightarrow> no_ub e"
  by (simp add: yields_def twp_simps)

lemma yields_bindM: "yields m P \<Longrightarrow> (\<And>a. P a \<Longrightarrow> yields (f a) Q) \<Longrightarrow> yields (bindM m f) Q"
  unfolding yields_def twp_simps by (blast intro: twp_mono)

lemma yields_thenM: "yields m P \<Longrightarrow> yields n Q \<Longrightarrow> yields (thenM m n) Q"
  unfolding thenM_def by (rule yields_bindM)

lemma yields_mono: "yields m P \<Longrightarrow> (\<And>a. P a \<Longrightarrow> Q a) \<Longrightarrow> yields m Q"
  unfolding yields_def by (blast intro: twp_mono)

lemma yields_if: "(b \<Longrightarrow> yields m P) \<Longrightarrow> (\<not> b \<Longrightarrow> yields n P) \<Longrightarrow> yields (if b then m else n) P"
  by simp

lemma yields_option:
  "(x = None \<Longrightarrow> yields m P) \<Longrightarrow> (\<And>a. x = Some a \<Longrightarrow> yields (f a) P) \<Longrightarrow> yields (case x of None \<Rightarrow> m | Some a \<Rightarrow> f a) P"
  by (cases x) simp_all

lemmas yields_splits = yields_if yields_option

lemma yields_inspects: "yields m P \<Longrightarrow> inspects m"
  unfolding yields_def inspects_def by (blast intro: twp_mono)

lemma inspects_yields: "inspects m \<longleftrightarrow> yields m (\<lambda>_. True)"
  by (auto simp: yields_def inspects_def)

lemma yields_Ok: "yields m P \<Longrightarrow> m s = (Ok a, s') \<Longrightarrow> s' = s \<and> P a"
  using yieldsD [of m P s] by (simp add: twp_def)

section \<open>Triples at a state\<close>

text \<open>The same at one state, for what is returned in that state.\<close>

definition yields_at :: "'s \<Rightarrow> ('s, 'a) prog \<Rightarrow> ('a \<Rightarrow> bool) \<Rightarrow> bool" where
  "yields_at s m P \<longleftrightarrow> twp m (\<lambda>a s'. s' = s \<and> P a) (\<lambda>e s'. no_ub e \<and> s' = s) s"

lemma yields_at_returnM [simp]: "yields_at s (returnM a) P \<longleftrightarrow> P a"
  by (simp add: yields_at_def twp_simps)

lemma yields_at_throwM [simp]: "yields_at s (throwM e) P \<longleftrightarrow> no_ub e"
  by (simp add: yields_at_def twp_simps)

lemma yields_at_bindM: "yields_at s m P \<Longrightarrow> (\<And>a. P a \<Longrightarrow> yields_at s (f a) Q) \<Longrightarrow> yields_at s (bindM m f) Q"
  unfolding yields_at_def twp_simps by (blast intro: twp_mono)

lemma yields_at_thenM: "yields_at s m P \<Longrightarrow> yields_at s n Q \<Longrightarrow> yields_at s (thenM m n) Q"
  unfolding thenM_def by (rule yields_at_bindM)

lemma yields_at_mono: "yields_at s m P \<Longrightarrow> (\<And>a. P a \<Longrightarrow> Q a) \<Longrightarrow> yields_at s m Q"
  unfolding yields_at_def by (blast intro: twp_mono)

lemma yields_at_yields: "yields m P \<Longrightarrow> yields_at s m P"
  by (simp add: yields_at_def yields_def)

lemma yields_at_inspects: "inspects m \<Longrightarrow> yields_at s m (\<lambda>a. m s = (Ok a, s))"
  by (cases rule: inspects_cases [of m s]) (auto simp: yields_at_def twp_def)

lemma yields_at_if: "(b \<Longrightarrow> yields_at s m P) \<Longrightarrow> (\<not> b \<Longrightarrow> yields_at s n P) \<Longrightarrow> yields_at s (if b then m else n) P"
  by simp

lemma yields_at_option:
  "(x = None \<Longrightarrow> yields_at s m P) \<Longrightarrow> (\<And>a. x = Some a \<Longrightarrow> yields_at s (f a) P) \<Longrightarrow>
     yields_at s (case x of None \<Rightarrow> m | Some a \<Rightarrow> f a) P"
  by (cases x) simp_all

lemmas yields_at_splits = yields_at_if yields_at_option

lemmas looking = yields_at_bindM [OF yields_at_inspects]

lemma yields_at_at: "m s = (Ok a, s) \<Longrightarrow> yields_at s (f a) Q \<Longrightarrow> yields_at s (bindM m f) Q"
  by (simp add: yields_at_def twp_def bindM_def)

end
