(* ===== verification/LocalValuesProps.thy ===== *)
theory LocalValuesProps
  imports LocalValues SnapshotMemoryProps Yields
begin

text \<open>
  Selecting members: what is selected lies inside its owner, and the recorded place of its bytes is the place of the
  owner plus the offset of the member.
\<close>

section \<open>The checks\<close>

lemma yields_validate_pointee: "yields (validate_pointee p what) (\<lambda>_. True)"
  unfolding validate_pointee_def by (intro yields_splits) simp_all

lemma yields_validate_terminal_member:
  "yields (validate_terminal_member m what) (\<lambda>_. 0 < me_byte_size m \<and> me_byte_size m \<le> 8 \<and> me_members m = [] \<and>
     me_kind m \<in> {LK_Integer, LK_Pointer, LK_Enumeration} \<and> (me_kind m = LK_Pointer \<longrightarrow> me_pointee_type m \<noteq> None))"
  unfolding validate_terminal_member_def
  by (intro yields_splits yields_mono [OF yields_validate_pointee]) simp_all

lemma yields_validate_children:
  "yields (validate_children n cs) (\<lambda>_. \<forall>c \<in> set cs. me_offset c + me_byte_size c \<le> n \<and> me_kind c \<noteq> LK_Structure)"
  by (induction cs)
    (auto simp: thenM_def intro!: yields_splits yields_bindM [OF yields_validate_terminal_member] elim!: yields_mono)

text \<open>A member of a structure that may be selected.\<close>

definition selectable :: "local_value \<Rightarrow> u8 list \<Rightarrow> struct_member \<Rightarrow> bool" where
  "selectable v name m \<longleftrightarrow> lv_kind v = LK_Structure \<and> find (\<lambda>m. me_name m = name) (lv_members v) = Some m \<and> name \<noteq> [] \<and>
     0 < me_byte_size m \<and> me_offset m + me_byte_size m \<le> lv_byte_size v \<and>
     me_kind m \<in> {LK_Integer, LK_Pointer, LK_Enumeration, LK_Structure} \<and>
     (me_kind m = LK_Pointer \<longrightarrow> me_pointee_type m \<noteq> None) \<and>
     (me_kind m = LK_Structure \<longrightarrow> (\<forall>c \<in> set (me_members m). me_offset c + me_byte_size c \<le> me_byte_size m \<and> me_kind c \<noteq> LK_Structure))"

lemma yields_aggregate_member: "yields (aggregate_member v name) (selectable v name)"
  unfolding aggregate_member_def thenM_def
  by (intro yields_splits yields_bindM [OF yields_validate_terminal_member] yields_bindM [OF yields_validate_children])
    (auto simp: selectable_def)

section \<open>Provenance\<close>

text \<open>The bytes of \<open>r\<close> are those of \<open>v\<close> from an offset on: in a file, the recorded offset moves and does not wrap.\<close>

definition stored_at :: "local_value \<Rightarrow> nat \<Rightarrow> local_value \<Rightarrow> bool" where
  "stored_at v n r \<longleftrightarrow> lv_module_path r = lv_module_path v \<and> lv_storage r = lv_storage v \<and>
     lv_storage_module_path r = lv_storage_module_path v \<and> lv_storage_file_path r = lv_storage_file_path v \<and>
     (if lv_storage v = LS_RuntimeArtifact then lv_storage_file_offset r = lv_storage_file_offset v + n \<and> lv_storage_file_offset r \<le> u64_max
      else lv_storage_file_offset r = lv_storage_file_offset v)"

lemma stored_at_trans: "stored_at v n r \<Longrightarrow> stored_at r k q \<Longrightarrow> stored_at v (n + k) q"
  by (auto simp: stored_at_def split: if_splits)

text \<open>What a selected member is: the scalar of a member, at its place.\<close>

definition scalar_of :: "u64 \<Rightarrow> nat \<Rightarrow> bool \<Rightarrow> local_value_kind \<Rightarrow> local_value \<Rightarrow> bool" where
  "scalar_of raw byte_size is_signed kind r \<longleftrightarrow> lv_raw_value r = raw \<and> lv_byte_size r = byte_size \<and> lv_is_signed r = is_signed \<and>
     lv_kind r = kind"

lemma yields_copy_storage:
  assumes "lv_storage_file_offset v \<le> u64_max"
  shows "yields (copy_storage v n (scalar_value (lv_module_path v) name raw byte_size is_signed kind))
    (\<lambda>r. stored_at v n r \<and> scalar_of raw byte_size is_signed kind r \<and> lv_members r = [])"
  unfolding copy_storage_def Let_def using assms
  by (intro yields_splits) (auto simp: stored_at_def scalar_of_def scalar_value_def)

lemma stored_at_updates [simp]:
  "stored_at v n (r\<lparr>lv_pointee_type := p\<rparr>) = stored_at v n r" "stored_at v n (r\<lparr>lv_enum_type := e\<rparr>) = stored_at v n r"
  "stored_at v n (r\<lparr>lv_members := ms\<rparr>) = stored_at v n r"
  "scalar_of raw b i k (r\<lparr>lv_pointee_type := p\<rparr>) = scalar_of raw b i k r" "scalar_of raw b i k (r\<lparr>lv_enum_type := e\<rparr>) = scalar_of raw b i k r"
  "scalar_of raw b i k (r\<lparr>lv_members := ms\<rparr>) = scalar_of raw b i k r"
  by (simp_all add: stored_at_def scalar_of_def)

lemma yields_inspect_aggregate_member:
  assumes "lv_storage_file_offset v \<le> u64_max"
  shows "yields (inspect_local_aggregate_member v name) (\<lambda>r. \<exists>m. selectable v name m \<and> stored_at v (me_offset m) r \<and>
    scalar_of (me_raw_value m) (me_byte_size m) (me_is_signed m) (me_kind m) r \<and>
    lv_members r = (if me_kind m = LK_Structure then me_members m else []))"
  unfolding inspect_local_aggregate_member_def
proof (intro yields_bindM [OF yields_aggregate_member] yields_bindM [OF yields_copy_storage [OF assms]] yields_splits, goal_cases)
qed (auto simp: selectable_def)

text \<open>The recorded offset of a value stays in 64 bits: a value as the other functions make them.\<close>

lemma stored_at_bound: "stored_at v n r \<Longrightarrow> lv_storage_file_offset v \<le> u64_max \<Longrightarrow> lv_storage_file_offset r \<le> u64_max"
  by (auto simp: stored_at_def split: if_splits)

lemma yields_inspect_nested_member:
  assumes "lv_storage_file_offset v \<le> u64_max"
  shows "yields (inspect_local_nested_aggregate_member v outer inner) (\<lambda>r. \<exists>m c. selectable v outer m \<and> me_kind m = LK_Structure \<and>
    find (\<lambda>c. me_name c = inner) (me_members m) = Some c \<and> me_offset m + me_offset c + me_byte_size c \<le> lv_byte_size v \<and>
    stored_at v (me_offset m + me_offset c) r \<and> scalar_of (me_raw_value c) (me_byte_size c) (me_is_signed c) (me_kind c) r \<and>
    me_kind c \<noteq> LK_Structure)"
  unfolding inspect_local_nested_aggregate_member_def
proof (intro yields_bindM [OF yields_inspect_aggregate_member [OF assms]] yields_splits, goal_cases)
  case (1 nested)
  then show ?case by simp
next
  case (2 nested)
  then obtain m where m: "selectable v outer m" "stored_at v (me_offset m) nested" "me_kind m = LK_Structure"
    "scalar_of (me_raw_value m) (me_byte_size m) (me_is_signed m) (me_kind m) nested" "lv_members nested = me_members m"
    by (auto simp: scalar_of_def)
  note inner = yields_inspect_aggregate_member [OF stored_at_bound [OF m(2) assms], of inner]
  show ?case
  proof (intro yields_bindM [OF inner] yields_splits, goal_cases)
    case (2 r)
    then obtain c where c: "selectable nested inner c" "stored_at nested (me_offset c) r"
      "scalar_of (me_raw_value c) (me_byte_size c) (me_is_signed c) (me_kind c) r" by blast
    have "me_offset m + me_offset c + me_byte_size c \<le> lv_byte_size v"
      using c(1) m(1,4) by (auto simp: selectable_def scalar_of_def)
    with 2 c m stored_at_trans [OF m(2) c(2)] show ?case
      by (auto simp: selectable_def scalar_of_def intro!: exI [of _ m] exI [of _ c])
  qed simp
qed

text \<open>C26. Selecting a member of a member. From a structure whose recorded file offset fits in 64 bits, selecting \<open>outer.inner\<close> has no
  undefined behaviour and changes nothing; what it returns is the scalar of the first member named \<open>inner\<close> of the first
  member named \<open>outer\<close>, which is a structure; its bytes lie inside the bytes of the structure, and the recorded place is the
  place of the structure plus both offsets, without wrap-around.\<close>

theorem nested_member_exact:
  assumes "lv_storage_file_offset v \<le> u64_max"
  shows "twp (inspect_local_nested_aggregate_member v outer inner) (\<lambda>r s'. s' = s \<and> (\<exists>m c.
      find (\<lambda>m. me_name m = outer) (lv_members v) = Some m \<and> me_kind m = LK_Structure \<and>
      find (\<lambda>c. me_name c = inner) (me_members m) = Some c \<and> me_kind c \<noteq> LK_Structure \<and>
      me_offset m + me_offset c + me_byte_size c \<le> lv_byte_size v \<and> stored_at v (me_offset m + me_offset c) r \<and>
      scalar_of (me_raw_value c) (me_byte_size c) (me_is_signed c) (me_kind c) r))
    (\<lambda>e s'. no_ub e \<and> s' = s) s"
  by (rule yieldsD [OF yields_mono [OF yields_inspect_nested_member [OF assms]]]) (auto simp: selectable_def)

text \<open>A structure of 8 bytes, \<open>s.p.x\<close> at offset 4 + 2, read from a file at offset 4096.\<close>

definition nested_value :: local_value where
  "nested_value = (scalar_value [] [0x73] 0 8 False LK_Structure)\<lparr>
     lv_members := [Struct_member [0x70] 0 4 False LK_Structure None None None
       [Struct_member [0x78] 7 2 True LK_Integer None None None [] 2] 4],
     lv_storage := LS_RuntimeArtifact, lv_storage_file_offset := 4096\<rparr>"

theorem nested_member_exact_witness:
  "lv_storage_file_offset nested_value \<le> u64_max \<and>
   (\<exists>r. inspect_local_nested_aggregate_member nested_value [0x70] [0x78] () = (Ok r, ()) \<and> lv_raw_value r = 7 \<and>
      lv_storage_file_offset r = 4102)"
proof -
  have bound: "lv_storage_file_offset nested_value \<le> u64_max" by (simp add: nested_value_def)
  obtain r where run: "inspect_local_nested_aggregate_member nested_value [0x70] [0x78] () = (Ok r, ())"
    by (simp add: nested_value_def inspect_local_nested_aggregate_member_def inspect_local_aggregate_member_def aggregate_member_def
        copy_storage_def scalar_value_def validate_terminal_member_def Let_def bindM_def thenM_def returnM_def)
  with bound nested_member_exact [OF bound, of "[0x70]" "[0x78]" "()"] show ?thesis
    by (auto simp: twp_def stored_at_def scalar_of_def nested_value_def scalar_value_def)
qed

section \<open>Looking only\<close>

lemma yields_copy: "yields (copy_storage v n r) (\<lambda>_. True)"
  unfolding copy_storage_def Let_def by (intro yields_splits) simp_all

lemma yields_aggregate_selection: "yields (inspect_local_aggregate_member v name) (\<lambda>_. True)"
  unfolding inspect_local_aggregate_member_def
  by (intro yields_bindM [OF yields_aggregate_member] yields_bindM [OF yields_copy] yields_splits) (auto simp: selectable_def)

lemma yields_selected_union_member: "yields (union_member v name) (\<lambda>_. True)"
  unfolding union_member_def by (intro yields_splits) simp_all

lemma inspects_aggregate_selection: "inspects (inspect_local_aggregate_member v name)"
  by (rule yields_inspects [OF yields_aggregate_selection])

lemma inspects_nested_selection: "inspects (inspect_local_nested_aggregate_member v outer inner)"
  unfolding inspect_local_nested_aggregate_member_def
  by (intro inspects_intros inspects_aggregate_selection) simp_all

lemma inspects_union_selection: "inspects (inspect_local_union_member v name)"
  unfolding inspect_local_union_member_def
  by (intro inspects_intros yields_inspects [OF yields_selected_union_member] yields_inspects [OF yields_copy])

lemma inspects_element_selection: "inspects (inspect_local_array_element v i)"
  unfolding inspect_local_array_element_def Let_def inspects_yields
  by (intro yields_splits yields_copy) simp_all

end
