(* ===== verification/ExampleCore.thy ===== *)
theory ExampleCore
  imports CoreNotes
begin

text \<open>
  A core file of one thread, one load segment and one file mapping, byte by byte, and what the parser makes of it.
\<close>

definition core_ehdr :: "u8 list" where
  "core_ehdr = [0x7f, 0x45, 0x4c, 0x46, 2, 1, 1, 0, 0, 0, 0, 0, 0, 0, 0, 0, 4, 0, 62, 0, 1, 0, 0, 0,
     0, 0, 0, 0, 0, 0, 0, 0, 64, 0, 0, 0, 0, 0, 0, 0, 0, 0, 0, 0, 0, 0, 0, 0,
     0, 0, 0, 0, 64, 0, 56, 0, 2, 0, 64, 0, 0, 0, 0, 0]"

text \<open>The notes lie at 176, the four captured bytes at 596.\<close>

definition core_phdrs :: "u8 list" where
  "core_phdrs =
    [4, 0, 0, 0, 0, 0, 0, 0, 176, 0, 0, 0, 0, 0, 0, 0, 0, 0, 0, 0, 0, 0, 0, 0, 0, 0, 0, 0, 0, 0, 0, 0,
     0xa4, 1, 0, 0, 0, 0, 0, 0, 0, 0, 0, 0, 0, 0, 0, 0, 0, 0, 0, 0, 0, 0, 0, 0,
     1, 0, 0, 0, 0, 0, 0, 0, 0x54, 2, 0, 0, 0, 0, 0, 0, 16, 0, 0, 0, 0, 0, 0, 0, 0, 0, 0, 0, 0, 0, 0, 0,
     4, 0, 0, 0, 0, 0, 0, 0, 16, 0, 0, 0, 0, 0, 0, 0, 0, 0, 0, 0, 0, 0, 0, 0]"

definition core_prstatus :: "u8 list" where
  "core_prstatus = replicate 12 0 @ [11, 0] @ replicate 18 0 @ [77, 0, 0, 0] @ replicate 204 0 @
     [16, 0, 0, 0, 0, 0, 0, 0] @ replicate 16 0 @ [32, 0, 0, 0, 0, 0, 0, 0] @ replicate 64 0"

definition core_nt_file :: "u8 list" where
  "core_nt_file = [1, 0, 0, 0, 0, 0, 0, 0, 1, 0, 0, 0, 0, 0, 0, 0, 0, 0, 0, 0, 0, 0, 0, 0,
     64, 0, 0, 0, 0, 0, 0, 0, 0, 0, 0, 0, 0, 0, 0, 0, 0x2f, 0x61, 0, 0]"

definition core_owner :: "u8 list" where
  "core_owner = [0x43, 0x4f, 0x52, 0x45, 0, 0, 0, 0]"

definition core_file :: "u8 list" where
  "core_file = core_ehdr @ core_phdrs @
     [5, 0, 0, 0, 0x50, 1, 0, 0, 1, 0, 0, 0] @ core_owner @ core_prstatus @
     [5, 0, 0, 0, 43, 0, 0, 0, 0x45, 0x4c, 0x49, 0x46] @ core_owner @ core_nt_file @ [1, 2, 3, 4]"

section \<open>Parsing\<close>

lemma core_file_length: "length core_file = 600" by code_simp

lemma pieces:
  "take 64 core_file = core_ehdr"
  "take 56 (drop 64 core_file) = take 56 core_phdrs"
  "take 56 (drop 120 core_file) = drop 56 core_phdrs"
  "take 12 (drop 176 core_file) = [5, 0, 0, 0, 0x50, 1, 0, 0, 1, 0, 0, 0]"
  "take 5 (drop 188 core_file) = [0x43, 0x4f, 0x52, 0x45, 0]"
  "take 336 (drop 196 core_file) = core_prstatus"
  "take 12 (drop 532 core_file) = [5, 0, 0, 0, 43, 0, 0, 0, 0x45, 0x4c, 0x49, 0x46]"
  "take 5 (drop 544 core_file) = [0x43, 0x4f, 0x52, 0x45, 0]"
  "take 8 (drop 552 core_file) = [1, 0, 0, 0, 0, 0, 0, 0]"
  "take 8 (drop 560 core_file) = [1, 0, 0, 0, 0, 0, 0, 0]"
  "take 8 (drop 568 core_file) = [0, 0, 0, 0, 0, 0, 0, 0]"
  "take 8 (drop 576 core_file) = [64, 0, 0, 0, 0, 0, 0, 0]"
  "take 8 (drop 584 core_file) = [0, 0, 0, 0, 0, 0, 0, 0]"
  "core_file ! 592 = 0x2f" "core_file ! 593 = 0x61" "core_file ! 594 = 0"
  by code_simp+

lemma pr: "int_field 32 core_prstatus = 77" "short_field 12 core_prstatus = 11"
  "decode_registers 112 core_prstatus = zero_regs\<lparr>rip := 16, rsp := 32\<rparr>"
  by code_simp+

definition parsed_core :: core_snapshot where
  "parsed_core = \<lparr>cs_bytes = core_file, cs_segments = [\<lparr>ls_address = 16, ls_file_offset = 596, ls_file_size = 4, ls_memory_size = 16\<rparr>],
     cs_mappings = [\<lparr>cm_start = 0, cm_end = 64, cm_file_offset = 0, cm_path = [0x2f, 0x61]\<rparr>],
     cs_threads = [\<lparr>ct_tid = 77, ct_signal_number = 11, ct_registers = zero_regs\<lparr>rip := 16, rsp := 32\<rparr>, ct_is_crashed = True\<rparr>],
     cs_crash_info = None, cs_process_info = None, cs_registers = Some (zero_regs\<lparr>rip := 16, rsp := 32\<rparr>),
     cs_crashed_tid = 77, cs_signal_number = 11\<rparr>"

lemma read_core_file:
  "offset + width \<le> 600 \<Longrightarrow> read_struct width core_file offset s = (Ok (take width (drop offset core_file)), s)"
  by (auto simp: read_struct_def read_at_def core_file_length returnM_def)

lemma four: "loopM 4 body = loopM (Suc (Suc (Suc (Suc 0)))) body" by (simp add: eval_nat_numeral)

lemma path_run: "read_mapping_path core_file 595 592 = (Ok [0x2f, 0x61], 595)"
proof -
  have "path_step core_file 595 (592, []) = (Ok None, 593, [0x2f])"
    "path_step core_file 595 (593, [0x2f]) = (Ok None, 594, [0x2f, 0x61])"
    "path_step core_file 595 (594, [0x2f, 0x61]) = (Ok (Some ([0x2f, 0x61], True)), 595, [0x2f, 0x61])"
    by (simp_all add: path_step_def pieces core_file_length)
  then have "loopM 4 (path_step core_file 595) (592, []) = (Ok ([0x2f, 0x61], True), 595, [0x2f, 0x61])"
    by (simp add: four run_simps)
  then show ?thesis by (simp add: read_mapping_path_def run_simps with_local_def)
qed

lemma range_run: "offset + len \<le> 600 \<Longrightarrow> require_range core_file offset len what s = (Ok (), s)"
  by (auto simp: require_range_def core_file_length returnM_def)

lemma note_u64_run: "offset + 8 \<le> limit \<Longrightarrow> limit \<le> 600 \<Longrightarrow>
   read_note_u64 core_file offset limit what s = (Ok (le_nat (take 8 (drop offset core_file))), s)"
  by (auto simp: read_note_u64_def run_simps range_run field_def)

lemma file_note_run:
  "cs_bytes cs = core_file \<Longrightarrow> cs_mappings cs = [] \<Longrightarrow> file_note 552 43 cs s =
    (Ok (cs\<lparr>cs_mappings := [\<lparr>cm_start = 0, cm_end = 64, cm_file_offset = 0, cm_path = [0x2f, 0x61]\<rparr>]\<rparr>), s)"
  by (simp add: file_note_def checked_add_def checked_mul_def run_simps note_u64_run pieces at_cursor_def path_run)

definition empty_core :: core_snapshot where
  "empty_core = \<lparr>cs_bytes = core_file, cs_segments = [], cs_mappings = [], cs_threads = [], cs_crash_info = None,
     cs_process_info = None, cs_registers = None, cs_crashed_tid = - 1, cs_signal_number = 0\<rparr>"

definition noted_core :: core_snapshot where
  "noted_core = parsed_core\<lparr>cs_segments := []\<rparr>"

lemma first_note: "note_step 596 (176, empty_core) =
    (Ok None, 532, noted_core\<lparr>cs_mappings := []\<rparr>)"
  by (simp add: note_step_def run_simps empty_core_def read_core_file pieces field_def align4_def checked_add_def
      note_owner_def range_run text_bytes_def parse_note_def prstatus_note_def Let_def pr noted_core_def parsed_core_def)

lemma second_note: "note_step 596 (532, noted_core\<lparr>cs_mappings := []\<rparr>) = (Ok None, 596, noted_core)"
  by (simp add: note_step_def run_simps read_core_file pieces field_def align4_def checked_add_def
      note_owner_def range_run text_bytes_def parse_note_def file_note_run noted_core_def parsed_core_def)

lemma last_note: "note_step 596 (596, noted_core) = (Ok (Some noted_core), 596, noted_core)"
  by (simp add: note_step_def run_simps)

lemma notes_run: "parse_notes 176 420 empty_core s = (Ok noted_core, s)"
proof -
  have "loopM (Suc (Suc (Suc 418))) (note_step 596) (176, empty_core) = (Ok noted_core, 596, noted_core)"
    by (simp only: loopM.simps) (simp add: run_simps first_note second_note last_note)
  then show ?thesis
    by (simp add: parse_notes_def checked_add_def run_simps at_cursor_def with_local_def noted_core_def parsed_core_def)
qed

lemma phdr_run:
  "decode_phdr (take 56 core_phdrs) = \<lparr>ph_type = 4, ph_offset = 176, ph_vaddr = 0, ph_filesz = 420, ph_memsz = 0\<rparr>"
  "decode_phdr (drop 56 core_phdrs) = \<lparr>ph_type = 1, ph_offset = 596, ph_vaddr = 16, ph_filesz = 4, ph_memsz = 16\<rparr>"
  by (simp_all add: decode_phdr_def field_def core_phdrs_def)

lemma ehdr_run:
  "has_elf_magic (decode_ehdr core_ehdr)" "is_elf64_lsb (decode_ehdr core_ehdr)" "e_ident (decode_ehdr core_ehdr) ! 6 = 1"
  "e_version (decode_ehdr core_ehdr) = 1" "e_type (decode_ehdr core_ehdr) = 4" "e_machine (decode_ehdr core_ehdr) = 62"
  "e_phnum (decode_ehdr core_ehdr) = 2" "e_phentsize (decode_ehdr core_ehdr) = 56" "e_phoff (decode_ehdr core_ehdr) = 64"
  by (simp_all add: decode_ehdr_def field_def core_ehdr_def has_elf_magic_def is_elf64_lsb_def)

text \<open>The parser accepts the file.\<close>

lemma parse_core_file: "parse_core core_file s = (Ok parsed_core, s)"
proof -
  have two: "core_segment_loop phoff i 2 = core_segment_loop phoff i (Suc (Suc 0))" for phoff i
    by (simp add: eval_nat_numeral)
  have bytes: "cs_bytes empty_core = core_file" "cs_bytes noted_core = core_file" "cs_segments noted_core = []"
    by (simp_all add: empty_core_def noted_core_def parsed_core_def)
  have segs: "core_segment_loop 64 0 2 empty_core s = (Ok parsed_core, s)"
    by (simp add: two run_simps read_core_file wrap64_def load_core_segment_def phdr_run range_run notes_run pieces
        bytes checked_add_def) (simp add: noted_core_def parsed_core_def)
  show ?thesis
    by (simp add: parse_core_def Let_def run_simps read_core_file pieces ehdr_run checked_mul_def range_run
        empty_core_def [symmetric] segs) (simp add: check_core_def parsed_core_def returnM_def mapping_for_address_def)
qed

section \<open>Start-up information\<close>

lemma copy_core_file:
  "offset + width \<le> 600 \<Longrightarrow> copy_bytes width core_file offset s = (Ok (take width (drop offset core_file)), s)"
  by (simp add: copy_bytes_def core_file_length returnM_def)

lemma owner_run:
  "offset + len \<le> 600 \<Longrightarrow> core_note_owner nd core_file offset len s =
    (Ok (takeWhile (\<lambda>c. c \<noteq> 0) (take len (drop offset core_file))), s)"
  by (auto simp: core_note_owner_def core_file_length returnM_def)

lemma startup_notes:
  "startup_note_step cs core_file 596 (176, None) = (Ok None, 532, None)"
  "startup_note_step cs core_file 596 (532, None) = (Ok None, 596, None)"
  "startup_note_step cs core_file 596 (596, None) = (Ok (Some None), 596, None)"
  by (simp_all add: startup_note_step_def next_note_def Let_def run_simps copy_core_file pieces field_def core_align4_def
      owner_run text_bytes_def auxv_note_def)

text \<open>The file has no auxiliary vector.\<close>

lemma parse_startup_file: "parse_startup_info cs core_file s = (Ok None, s)"
proof -
  have two: "startup_segment_loop cs core_file phoff i 2 = startup_segment_loop cs core_file phoff i (Suc (Suc 0))" for phoff i
    by (simp add: eval_nat_numeral)
  have walk: "loopM (Suc (Suc (Suc 418))) (startup_note_step cs core_file 596) (176, None) = (Ok None, 596, None)"
    by (simp only: loopM.simps) (simp add: run_simps startup_notes)
  have "startup_segment_loop cs core_file 64 0 2 None s = (Ok None, s)"
    using walk
    by (simp add: two Let_def run_simps copy_core_file wrap64_def phdr_run pieces at_cursor_def with_local_def
        core_file_length)
  then show ?thesis
    by (simp add: parse_startup_info_def Let_def run_simps copy_core_file pieces ehdr_run core_file_length)
qed

end
