(* ===== verification/CoreSessionProps.thy ===== *)
theory CoreSessionProps
  imports CoreSession SnapshotInspectProps InlineScopesProps LocalValuesProps ExampleCore
begin

text \<open>
  A session over a core keeps its selection consistent: the trace belongs to the selected thread, the selected frame
  is one of the trace, and an inline context is selected exactly when an index is.
\<close>

section \<open>The invariant\<close>

definition session_ok :: "core_session \<Rightarrow> bool" where
  "session_ok cx \<longleftrightarrow> core_ok (so_core (cx_snapshot cx)) \<and>
     (\<exists>r. owned_ref (cx_snapshot cx) r \<and> ct_tid (tf_thread r) = cx_selected_tid cx \<and>
        trace_frames_ok (cx_snapshot cx) (tf_thread r) (sp_frames (cx_trace cx))) \<and>
     stop_reason_ok (cx_max_frames cx) (cx_trace cx) \<and>
     cx_selected_frame cx < length (sp_frames (cx_trace cx)) \<and>
     pred_option (startup_ok (so_core (cx_snapshot cx))) (cx_startup_info cx) \<and>
     (case cx_inline_context cx of
        None \<Rightarrow> cx_inline_index cx = None
      | Some c \<Rightarrow> cx_inline_index cx = Some (ix_depth c) \<and> ix_depth c < kMaxInlineContexts \<and>
          ix_module_path c = sf_module_path (sp_frames (cx_trace cx) ! cx_selected_frame cx))"

lemma session_ok_updates:
  "session_ok cx \<Longrightarrow> session_ok (cx\<lparr>cx_inline_context := None, cx_inline_index := None\<rparr>)"
  "session_ok cx \<Longrightarrow> ix_depth c = i \<Longrightarrow> i < kMaxInlineContexts \<Longrightarrow>
     ix_module_path c = sf_module_path (sp_frames (cx_trace cx) ! cx_selected_frame cx) \<Longrightarrow>
     session_ok (cx\<lparr>cx_inline_context := Some c, cx_inline_index := Some i\<rparr>)"
  "session_ok cx \<Longrightarrow> i < length (sp_frames (cx_trace cx)) \<Longrightarrow>
     session_ok (cx\<lparr>cx_selected_frame := i, cx_inline_context := None, cx_inline_index := None\<rparr>)"
  by (simp_all add: session_ok_def)

section \<open>Construction\<close>

lemma inspects_validate_frame [inspects_intros]: "inspects (validate_frame so f)"
  unfolding validate_frame_def validate_snapshot_inspection_frame_def validate_snapshot_frame_lookup_pc_def
    snapshot_frame_lookup_pc_def snapshot_thread_def Let_def
  by (intro inspects_intros) simp_all

lemma inspects_validate_frames [inspects_intros]: "inspects (validate_frames so fs)"
  by (induction fs) (auto intro!: inspects_intros)

lemma inspects_validate_trace [inspects_intros]: "inspects (validate_trace cx)"
  unfolding validate_trace_def by (intro inspects_intros) simp_all

lemma core_ok_crashed:
  assumes "core_ok cs"
  obtains t ts where "cs_threads cs = t # ts" and "cs_crashed_tid cs = ct_tid t"
  using assms by (cases "cs_threads cs") (auto simp: core_ok_def scan_inv_def core_inv_def threads_ok_def)

lemma twp_open_core_snapshot:
  assumes "\<And>cs. core_ok cs \<Longrightarrow> Q \<lparr>so_address = address, so_path = path, so_core = cs\<rparr> k" and "\<And>e. no_ub e \<Longrightarrow> E e k"
  shows "twp (open_core_snapshot fs address path) Q E k"
  unfolding open_core_snapshot_def
  by (auto simp: twp_simps assms intro!: twp_inspects [OF inspects_read_binary_file] twp_mono [OF twp_parse_core])

lemma twp_init_session:
  "twp (init_session fs regular address path mp max_frames) (\<lambda>cx k'. k' = k \<and> session_ok cx) (\<lambda>e k'. no_ub e \<and> k' = k) k"
proof -
  have crashed: "\<exists>r. crashed_thread so k = (Ok r, k) \<and> owned_ref so r \<and> ct_tid (tf_thread r) = cs_crashed_tid (so_core so)"
    if "core_ok (so_core so)" for so and k :: 'a
    by (rule core_ok_crashed [OF that]) (simp add: crashed_thread_def returnM_def owned_ref_def)
  have session: "session_ok \<lparr>cx_snapshot = so, cx_module_paths = mp, cx_startup_info = startup, cx_max_frames = max_frames,
      cx_selected_tid = cs_crashed_tid (so_core so), cx_trace = trace, cx_selected_frame = 0,
      cx_inline_context = None, cx_inline_index = None\<rparr>"
    if "core_ok (so_core so)" "owned_ref so r" "ct_tid (tf_thread r) = cs_crashed_tid (so_core so)"
      "trace_frames_ok so (tf_thread r) (sp_frames trace)" "stop_reason_ok max_frames trace"
      "pred_option (startup_ok (so_core so)) startup" for so r startup trace
    using that by (auto simp: session_ok_def trace_frames_ok_def)
  show ?thesis
    unfolding init_session_def Let_def twp_simps
  proof (rule twp_open_core_snapshot, goal_cases)
    case (1 cs)
    let ?so = "\<lparr>so_address = address, so_path = path, so_core = cs\<rparr>"
    obtain r where r: "crashed_thread ?so k = (Ok r, k)" "owned_ref ?so r" "ct_tid (tf_thread r) = cs_crashed_tid cs"
      using crashed [of ?so k] 1 by auto
    note build = twp_build_snapshot_inspection_frames [OF r(2), of fs regular max_frames mp k]
    show ?case
      by (rule twp_mono [OF twp_read_core_startup_info])
        (auto simp: twp_def [of "crashed_thread _"] r twp_simps intro!: twp_mono [OF build]
          twp_inspects [OF inspects_validate_trace] session [of ?so r, simplified] simp: 1)
  qed simp
qed

section \<open>Commands\<close>

datatype session_command =
    Select_thread pid
  | Select_frame nat
  | Select_inline nat
  | Clear_inline
  | Frame_symbol snapshot_frame
  | Frame_source snapshot_frame
  | Read_memory u64 nat
  | Locals
  | Inspect_value "u8 list"
  | Dereference_value "u8 list"
  | Pointer_member "u8 list" "u8 list"
  | Dereference_pointer_member "u8 list" "u8 list"
  | Aggregate_member "u8 list" "u8 list"
  | Nested_member "u8 list" "u8 list" "u8 list"
  | Union_member "u8 list" "u8 list"
  | Array_element "u8 list" nat
  | Dereference_member "u8 list" "u8 list"

text \<open>Running a command, its result dropped.\<close>

fun run_command ::
  "'k files \<Rightarrow> (path \<Rightarrow> bool) \<Rightarrow> session_command \<Rightarrow> ('k, unit) session_prog" where
  "run_command fs regular (Select_thread tid) = select_thread fs regular tid"
| "run_command fs regular (Select_frame i) = select_frame i"
| "run_command fs regular (Select_inline i) = select_inline_context fs regular i"
| "run_command fs regular Clear_inline = clear_inline_context"
| "run_command fs regular (Frame_symbol f) = thenM (find_frame_symbol fs regular f) (returnM ())"
| "run_command fs regular (Frame_source f) = thenM (find_frame_source fs regular f) (returnM ())"
| "run_command fs regular (Read_memory a n) = thenM (session_read_memory fs regular a n) (returnM ())"
| "run_command fs regular Locals = thenM (session_locals fs regular) (returnM ())"
| "run_command fs regular (Inspect_value n) = thenM (session_inspect_value fs regular n) (returnM ())"
| "run_command fs regular (Dereference_value n) = thenM (session_dereference_value fs regular n) (returnM ())"
| "run_command fs regular (Pointer_member n m) = thenM (session_inspect_pointer_member fs regular n m) (returnM ())"
| "run_command fs regular (Dereference_pointer_member n m) = thenM (session_dereference_pointer_member fs regular n m) (returnM ())"
| "run_command fs regular (Aggregate_member n m) = thenM (session_inspect_aggregate_member fs regular n m) (returnM ())"
| "run_command fs regular (Nested_member n m l) = thenM (session_inspect_nested_aggregate_member fs regular n m l) (returnM ())"
| "run_command fs regular (Union_member n m) = thenM (session_inspect_union_member fs regular n m) (returnM ())"
| "run_command fs regular (Array_element n i) = thenM (session_inspect_array_element fs regular n i) (returnM ())"
| "run_command fs regular (Dereference_member n m) = thenM (session_dereference_aggregate_member fs regular n m) (returnM ())"

text \<open>The sessions a constructor and any sequence of commands, returned or thrown, lead to; files may change
  between the commands.\<close>

inductive session_reachable ::
  "'k files \<Rightarrow> (path \<Rightarrow> bool) \<Rightarrow> core_session \<Rightarrow> bool" for fs regular where
  opened: "init_session fs regular address path mp max_frames k = (Ok cx, k') \<Longrightarrow> session_reachable fs regular cx"
| command: "session_reachable fs regular cx \<Longrightarrow> run_command fs regular c (k, cx) = (r, k', cx') \<Longrightarrow>
    r \<noteq> Diverged \<Longrightarrow> session_reachable fs regular cx'"

lemma wp_on_disk [wp_simps]:
  "wp (on_disk m) Q E = (\<lambda>p. wp m (\<lambda>a k'. Q a (k', snd p)) (\<lambda>e k'. E e (k', snd p)) (fst p))"
  by (auto simp: on_disk_def wp_zoomM fun_eq_iff)

lemma wp_sessionM [wp_simps]: "wp sessionM Q E = (\<lambda>p. Q (snd p) p)"
  by (auto simp: sessionM_def wp_simps fun_eq_iff)

lemma wp_update_session [wp_simps]: "wp (update_session f) Q E = (\<lambda>p. Q () (fst p, f (snd p)))"
  by (auto simp: update_session_def wp_simps fun_eq_iff)

abbreviation keeps_session :: "('k, 'a) session_prog \<Rightarrow> bool" where
  "keeps_session m \<equiv> keeps (\<lambda>p. session_ok (snd p)) m"

lemma keeps_session_parts [keeps_intros]:
  "keeps_session (on_disk m)" "keeps_session sessionM" "keeps_session clear_inline_context"
  by (auto simp: keeps_def wp_simps wp_const clear_inline_context_def session_ok_updates)

lemma keeps_validate_selected_frame [keeps_intros]: "keeps_session (validate_selected_frame f)"
  unfolding validate_selected_frame_def by (intro keeps_intros inspects_keeps inspects_intros)

lemma keeps_selected_frame [keeps_intros]: "keeps_session selected_frame"
  unfolding selected_frame_def by (intro keeps_intros)

lemma keeps_lookups:
  "keeps_session (find_frame_symbol fs regular f)" "keeps_session (find_frame_source fs regular f)"
  "keeps_session (session_read_memory fs regular a n)"
  unfolding find_frame_symbol_def find_frame_source_def session_read_memory_def
    session_find_symbol_def session_find_source_def snapshot_frame_lookup_pc_def
  by (intro keeps_intros)+

lemma keeps_on_selection [keeps_intros]: "keeps_session (on_selection of_inline of_frame)"
  unfolding on_selection_def checked_selection_def by (intro keeps_intros)

lemma keeps_values:
  "keeps_session (session_locals fs regular)" "keeps_session (session_inspect_value fs regular n)"
  "keeps_session (session_dereference_value fs regular n)" "keeps_session (session_inspect_pointer_member fs regular n m)"
  "keeps_session (session_dereference_pointer_member fs regular n m)"
  unfolding session_locals_def session_inspect_value_def session_dereference_value_def session_inspect_pointer_member_def
    session_dereference_pointer_member_def
  by (intro keeps_intros)+

lemma keeps_member_values:
  "keeps_session (session_inspect_aggregate_member fs regular n m)"
  "keeps_session (session_inspect_nested_aggregate_member fs regular n m l)"
  "keeps_session (session_inspect_union_member fs regular n m)" "keeps_session (session_inspect_array_element fs regular n i)"
  "keeps_session (session_dereference_aggregate_member fs regular n m)"
  unfolding session_inspect_aggregate_member_def session_inspect_nested_aggregate_member_def session_inspect_union_member_def
    session_inspect_array_element_def session_dereference_aggregate_member_def
  by (intro keeps_intros keeps_values inspects_keeps [OF inspects_aggregate_selection] inspects_keeps [OF inspects_nested_selection]
      inspects_keeps [OF inspects_union_selection] inspects_keeps [OF inspects_element_selection])+

lemma wp_validate_frame: "(\<And>a. Q a s) \<Longrightarrow> (\<And>e. E e s) \<Longrightarrow> wp (validate_frame so f) Q E s"
  by (rule twp_wp, rule twp_inspects [OF inspects_validate_frame]) auto

text \<open>The selected frame is there, and the contexts offered for it are those of its module, each at its position.\<close>

lemma selected_frame_run:
  "session_ok cx \<Longrightarrow> selected_frame (k, cx) = (Ok (sp_frames (cx_trace cx) ! cx_selected_frame cx), k, cx)"
  by (simp add: session_ok_def selected_frame_def sessionM_def bindM_def getM_def returnM_def)

lemma wp_inline_contexts:
  assumes "session_ok (snd p)"
  shows "wp (inline_contexts fs regular) (\<lambda>contexts p'. snd p' = snd p \<and> (\<forall>c i. i < length contexts \<longrightarrow> c = contexts ! i \<longrightarrow>
       ix_depth c = i \<and> i < kMaxInlineContexts \<and>
       ix_module_path c = sf_module_path (sp_frames (cx_trace (snd p)) ! cx_selected_frame (snd p))))
    (\<lambda>_ p'. snd p' = snd p) p"
proof -
  obtain k cx where p: "p = (k, cx)" by (cases p)
  from assms have run: "selected_frame p = (Ok (sp_frames (cx_trace cx) ! cx_selected_frame cx), p)"
    by (simp add: p selected_frame_run)
  have chain: "wp (discover_inline_call_chain fs regular so frame mp) (\<lambda>contexts k'. k' = k \<and> (\<forall>i < length contexts.
      ix_depth (contexts ! i) = i \<and> i < kMaxInlineContexts \<and> ix_module_path (contexts ! i) = sf_module_path frame))
      (\<lambda>_ _. True) k" for so frame mp k
    by (rule twp_wp, rule twp_mono [OF twp_discover_inline_call_chain]) (auto dest: unit_inlines_nth)
  show ?thesis
    unfolding inline_contexts_def wp_bindM
    by (auto simp: wp_def [of selected_frame] run [unfolded p] wp_simps validate_selected_frame_def p
      intro!: wp_validate_frame wp_mono [OF chain])
qed

lemma keeps_select_inline_context: "keeps_session (select_inline_context fs regular i)"
  unfolding select_inline_context_def
  by (auto simp: keeps_def wp_simps intro!: wp_mono [OF wp_inline_contexts] session_ok_updates)

lemma keeps_select_frame: "keeps_session (select_frame i)"
  unfolding select_frame_def Let_def clear_inline_context_def
  by (auto simp: keeps_def wp_simps session_ok_updates intro!: wp_validate_frame)

lemma session_ok_select:
  assumes "session_ok cx" and "owned_ref (cx_snapshot cx) r"
    and "trace_frames_ok (cx_snapshot cx) (tf_thread r) (sp_frames trace)" and "stop_reason_ok (cx_max_frames cx) trace"
  shows "session_ok (cx\<lparr>cx_trace := trace, cx_selected_tid := ct_tid (tf_thread r), cx_selected_frame := 0,
    cx_inline_context := None, cx_inline_index := None\<rparr>)"
  using assms by (auto simp: session_ok_def trace_frames_ok_def)

lemma wp_snapshot_thread:
  assumes "\<And>r. owned_ref so r \<Longrightarrow> ct_tid (tf_thread r) = tid \<Longrightarrow> Q r s" and "\<And>e. E e s"
  shows "wp (snapshot_thread so tid) Q E s"
proof -
  have "inspects (snapshot_thread so tid)" unfolding snapshot_thread_def by (intro inspects_intros) simp_all
  then show ?thesis
    by (cases rule: inspects_cases [of _ s]) (auto simp: wp_def assms dest!: snapshot_thread_owned)
qed

lemma keeps_core_select_thread: "keeps_session (select_thread fs regular tid)"
proof (rule keepsI)
  fix p :: "'a \<times> core_session" assume ok: "session_ok (snd p)"
  have build: "wp (build_snapshot_inspection_frames fs regular (cx_snapshot (snd p)) r (cx_max_frames (snd p)) (cx_module_paths (snd p)))
      (\<lambda>tr k'. trace_frames_ok (cx_snapshot (snd p)) (tf_thread r) (sp_frames tr) \<and> stop_reason_ok (cx_max_frames (snd p)) tr)
      (\<lambda>_ _. True) k" if "owned_ref (cx_snapshot (snd p)) r" for r k
    by (rule twp_wp, rule twp_mono [OF twp_build_snapshot_inspection_frames [OF that]]) auto
  show "wp (select_thread fs regular tid) (\<lambda>_ p. session_ok (snd p)) (\<lambda>_ p. session_ok (snd p)) p"
    unfolding select_thread_def clear_inline_context_def
    by (auto simp: wp_simps ok intro!: wp_snapshot_thread wp_mono [OF build] wp_validate_frame session_ok_select)
qed

lemma keeps_core_command: "keeps_session (run_command fs regular c)"
  by (cases c) (auto intro!: keeps_intros keeps_lookups keeps_values keeps_member_values keeps_core_select_thread keeps_select_frame keeps_select_inline_context)

text \<open>C16. In every core session, after any commands, returned or thrown, with any files: the core is consistent,
  the trace is a numbered, strictly ascending trace of the selected thread, which is a thread of
  the core; the selected frame is a frame of the trace; the start-up information reflects the auxiliary vector; a
  selected inline context has its depth, below 8, as index and belongs to the module of the selected frame. So asking for
  the selected frame never fails.\<close>

theorem core_session_invariant:
  assumes "session_reachable fs regular cx"
  shows "session_ok cx \<and>
    selected_frame (k, cx) = (Ok (sp_frames (cx_trace cx) ! cx_selected_frame cx), k, cx)"
proof -
  from assms have "session_ok cx"
  proof induction
    case (opened address path mp max_frames k cx k')
    then show ?case using twp_OkD [OF twp_init_session opened] by simp
  next
    case (command cx c k r k' cx')
    have "wp (run_command fs regular c) (\<lambda>_ p. session_ok (snd p)) (\<lambda>_ p. session_ok (snd p)) (k, cx)"
      using keepsD [OF keeps_core_command] command.IH by fastforce
    with command.hyps show ?case by (cases r) (auto simp: wp_def)
  qed
  then show ?thesis by (simp add: selected_frame_run)
qed

text \<open>A session over the example core file, with room for one frame.\<close>

definition core_files :: "unit files" where
  "core_files = example_files\<lparr>fs_contents := (\<lambda>path _. if path = ''core'' then Contents core_file else Cannot_open)\<rparr>"

definition core_frame :: snapshot_frame where
  "core_frame = \<lparr>sf_index = 0, sf_owner_snapshot = 1, sf_thread_tid = 77, sf_thread_signal_number = 11,
     sf_origin_runtime_pc = 16, sf_origin_stack_pointer = 32, sf_origin_frame_pointer = Some 0, sf_runtime_pc = 16,
     sf_stack_pointer = 32, sf_frame_pointer = Some 0, sf_pc_ownership = PO_ExactInstruction, sf_module_path = [slash, 0x61],
     sf_registers = no_registers\<lparr>ir_rbx := Some 0, ir_rbp := Some 0, ir_rsp := Some 32\<rparr>\<rparr>"

definition opened_session :: core_session where
  "opened_session = \<lparr>cx_snapshot = \<lparr>so_address = 1, so_path = ''core'', so_core = parsed_core\<rparr>,
     cx_module_paths = identity_module_paths, cx_startup_info = None, cx_max_frames = 1, cx_selected_tid = 77,
     cx_trace = \<lparr>sp_frames = [core_frame], sp_stop_reason = CU_FrameLimit\<rparr>, cx_selected_frame = 0,
     cx_inline_context = None, cx_inline_index = None\<rparr>"

lemma init_core_session:
  "init_session core_files (\<lambda>_. True) 1 ''core'' identity_module_paths 1 () = (Ok opened_session, ())"
proof -
  let ?so = "\<lparr>so_address = 1, so_path = ''core'', so_core = parsed_core\<rparr>"
  let ?r = "\<lparr>tf_owner = 1, tf_index = 0, tf_thread = hd (cs_threads parsed_core)\<rparr>"
  have so: "open_core_snapshot core_files 1 ''core'' () = (Ok ?so, ())"
    by (simp add: open_core_snapshot_def read_binary_file_def core_files_def run_simps parse_core_file)
  have startup: "read_core_startup_info core_files ''core'' parsed_core () = (Ok None, ())"
    by (simp add: read_core_startup_info_def read_core_bytes_def core_files_def run_simps parse_startup_file)
  have thread: "crashed_thread ?so () = (Ok ?r, ())"
    by (simp add: crashed_thread_def parsed_core_def run_simps)
  have trace: "build_snapshot_inspection_frames core_files (\<lambda>_. True) ?so ?r 1 identity_module_paths () =
      (Ok \<lparr>sp_frames = [core_frame], sp_stop_reason = CU_FrameLimit\<rparr>, ())"
    by (simp add: build_snapshot_inspection_frames_def snapshot_thread_def parsed_core_def run_simps same_thread_def Let_def
        make_snapshot_inspection_frame_def plain_caller_def thread_cursor_def snapshot_frame_module_path_def
        mapping_for_address_def core_frame_def zero_regs_def no_registers_def)
  have valid: "validate_trace opened_session () = (Ok (), ())"
    by (simp add: validate_trace_def opened_session_def validate_frame_def validate_snapshot_inspection_frame_def
        validate_snapshot_frame_lookup_pc_def snapshot_frame_lookup_pc_def snapshot_thread_def parsed_core_def run_simps
        core_frame_def zero_regs_def)
  have "cs_crashed_tid parsed_core = 77" by (simp add: parsed_core_def)
  with so startup thread trace valid show ?thesis
    by (simp add: init_session_def Let_def bindM_def thenM_def returnM_def opened_session_def)
qed

theorem core_session_invariant_witness:
  "session_ok opened_session \<and> selected_frame ((), opened_session) = (Ok core_frame, (), opened_session)"
  using core_session_invariant [OF session_reachable.opened [OF init_core_session], of "()"]
  by (simp add: opened_session_def)

end
