(* ===== verification/DwarfTypesProps.thy ===== *)
theory DwarfTypesProps
  imports DwarfTypes DebugInfoProps Yields
begin

text \<open>
  Every type a resolver returns is well formed, whatever the debug information: sizes are bounded, members lie inside
  their aggregate, and each kind carries exactly its own metadata.
\<close>

unbundle bit_operations_syntax

section \<open>Loops of the resolvers\<close>

lemma yields_type_chain:
  assumes "\<And>i offset. i < length dies \<Longrightarrow> \<not> is_type_wrapper (dies ! i) \<Longrightarrow> yields (resolve i offset) P"
  shows "yields (type_chain n unknown unlinked deep dies type_offset resolve) P"
  by (induction n arbitrary: type_offset)
    (auto simp: bind_die_at [OF die_index_bound] assms dest: die_index_bound split: option.split)

lemma yields_collect:
  assumes "P found" and "\<And>c found. c \<in> set cs \<Longrightarrow> P found \<Longrightarrow> yields (resolve c found) (\<lambda>a. P (found @ [a]))"
  shows "yields (collect resolve cs found) P"
  using assms by (induction cs arbitrary: found) (auto intro: yields_bindM)

lemma children_of_bound: "c \<in> set (children_of dies i) \<Longrightarrow> c < length dies"
  by (auto simp: children_of_def)

section \<open>Well-formed types\<close>

definition enum_ok :: "enum_type \<Rightarrow> bool" where
  "enum_ok t \<longleftrightarrow> et_name t \<noteq> [] \<and> 0 < et_byte_size t \<and> et_byte_size t \<le> 8 \<and> et_enumerators t \<noteq> [] \<and>
     length (et_enumerators t) \<le> kMaxLocalEnumEntries \<and> distinct (map en_name (et_enumerators t)) \<and>
     (\<forall>e \<in> set (et_enumerators t). en_name e \<noteq> [] \<and> unat (en_raw_value e) < 2 ^ (8 * et_byte_size t))"

definition pointee_member_inside :: "nat \<Rightarrow> pointee_member \<Rightarrow> bool" where
  "pointee_member_inside n m \<longleftrightarrow> pm_name m \<noteq> [] \<and> pm_kind m = LK_Integer \<and> 0 < pm_byte_size m \<and> pm_byte_size m \<le> 8 \<and>
     pm_offset m + pm_byte_size m \<le> n"

definition pointee_ok :: "pointee_type \<Rightarrow> bool" where
  "pointee_ok p \<longleftrightarrow> 0 < pt_byte_size p \<and>
     (if pt_kind p = LK_Structure then pt_byte_size p \<le> kMaxLocalStructSize \<and> \<not> pt_is_signed p \<and> pt_members p \<noteq> [] \<and>
        length (pt_members p) \<le> kMaxLocalStructMembers \<and> list_all (pointee_member_inside (pt_byte_size p)) (pt_members p)
      else pt_kind p = LK_Integer \<and> pt_byte_size p \<le> 8 \<and> pt_members p = [])"

text \<open>The members of an aggregate of \<open>n\<close> bytes: integers, pointers, enumerations, bit fields, structures of integers.\<close>

definition integer_member_ok :: "nat \<Rightarrow> struct_member_type \<Rightarrow> bool" where
  "integer_member_ok n m \<longleftrightarrow> (\<exists>name offset byte_size is_signed. name \<noteq> [] \<and> 0 < byte_size \<and> byte_size \<le> 8 \<and>
     offset + byte_size \<le> n \<and> m = Struct_member_type name offset byte_size is_signed LK_Integer None None None [])"

definition direct_member_ok :: "nat \<Rightarrow> struct_member_type \<Rightarrow> bool" where
  "direct_member_ok n m \<longleftrightarrow> integer_member_ok n m \<or>
     (\<exists>name offset p. name \<noteq> [] \<and> offset + 8 \<le> n \<and> pointee_ok p \<and>
        m = Struct_member_type name offset 8 False LK_Pointer (Some p) None None []) \<or>
     (\<exists>name offset t. name \<noteq> [] \<and> offset + et_byte_size t \<le> n \<and> enum_ok t \<and>
        m = Struct_member_type name offset (et_byte_size t) (et_is_signed t) LK_Enumeration None None (Some t) [])"

definition bit_field_ok :: "nat \<Rightarrow> struct_member_type \<Rightarrow> bool" where
  "bit_field_ok n m \<longleftrightarrow> (\<exists>name byte_size is_signed bits. name \<noteq> [] \<and> 0 < byte_size \<and> byte_size \<le> 8 \<and>
     0 < bs_bit_size bits \<and> bs_bit_size bits \<le> 8 * byte_size \<and> bs_bit_offset bits + bs_bit_size bits \<le> 8 * n \<and>
     m = Struct_member_type name (bs_bit_offset bits div 8) byte_size is_signed LK_Integer None (Some bits) None [])"

definition members_ok :: "(struct_member_type \<Rightarrow> bool) \<Rightarrow> struct_member_type list \<Rightarrow> bool" where
  "members_ok ok ms \<longleftrightarrow> ms \<noteq> [] \<and> length ms \<le> kMaxLocalStructMembers \<and> list_all ok ms"

definition nested_member_ok :: "nat \<Rightarrow> struct_member_type \<Rightarrow> bool" where
  "nested_member_ok n m \<longleftrightarrow> (\<exists>name offset byte_size ms. name \<noteq> [] \<and> 0 < byte_size \<and> byte_size \<le> kMaxLocalStructSize \<and>
     offset + byte_size \<le> n \<and> members_ok (integer_member_ok byte_size) ms \<and> distinct (map mt_name ms) \<and>
     m = Struct_member_type name offset byte_size False LK_Structure None None None ms)"

definition member_ok :: "nat \<Rightarrow> struct_member_type \<Rightarrow> bool" where
  "member_ok n m \<longleftrightarrow> bit_field_ok n m \<or> nested_member_ok n m \<or> direct_member_ok n m"

definition array_ok :: "local_value_type \<Rightarrow> bool" where
  "array_ok t \<longleftrightarrow> (\<exists>a. 0 < at_element_count a \<and> at_element_count a \<le> kMaxLocalArrayElements \<and> 0 < at_element_byte_size a \<and>
     at_element_byte_size a \<le> 8 \<and> at_element_kind a = LK_Integer \<and>
     at_element_count a * at_element_byte_size a \<le> kMaxLocalStructSize \<and>
     t = (aggregate_type (at_element_count a * at_element_byte_size a) LK_Array [])\<lparr>vt_array_type := Some a\<rparr>)"

definition union_ok :: "local_value_type \<Rightarrow> bool" where
  "union_ok t \<longleftrightarrow> (\<exists>n ms. 0 < n \<and> n \<le> kMaxLocalStructSize \<and> distinct (map mt_name ms) \<and>
     members_ok (\<lambda>m. integer_member_ok n m \<and> mt_offset m = 0) ms \<and> t = aggregate_type n LK_Union ms)"

definition structure_ok :: "local_value_type \<Rightarrow> bool" where
  "structure_ok t \<longleftrightarrow> (\<exists>n ms. 0 < n \<and> n \<le> kMaxLocalStructSize \<and> members_ok (member_ok n) ms \<and>
     t = aggregate_type n LK_Structure ms)"

definition value_type_ok :: "local_value_type \<Rightarrow> bool" where
  "value_type_ok t \<longleftrightarrow> (case vt_kind t of
     LK_Integer \<Rightarrow> (\<exists>n is_signed. 0 < n \<and> n \<le> 8 \<and> t = scalar_type n is_signed LK_Integer)
   | LK_Pointer \<Rightarrow> t = scalar_type 8 False LK_Pointer
   | LK_Floating \<Rightarrow> t \<in> {scalar_type 4 False LK_Floating, scalar_type 8 False LK_Floating}
   | LK_Enumeration \<Rightarrow> (\<exists>e. enum_ok e \<and> t = (scalar_type (et_byte_size e) (et_is_signed e) LK_Enumeration)\<lparr>vt_enum_type := Some e\<rparr>)
   | LK_Array \<Rightarrow> array_ok t
   | LK_Union \<Rightarrow> union_ok t
   | LK_Structure \<Rightarrow> structure_ok t)"

text \<open>What a pointer of a core points to: an integer, or a structure of direct members with different names.\<close>

definition root_pointee_ok :: "local_value_type \<Rightarrow> bool" where
  "root_pointee_ok t \<longleftrightarrow> (\<exists>n is_signed. 0 < n \<and> n \<le> 8 \<and> t = scalar_type n is_signed LK_Integer) \<or>
     (\<exists>n ms. 0 < n \<and> n \<le> kMaxLocalStructSize \<and> members_ok (direct_member_ok n) ms \<and> distinct (map mt_name ms) \<and>
        t = aggregate_type n LK_Structure ms)"

definition root_type_ok :: "root_type \<Rightarrow> bool" where
  "root_type_ok r \<longleftrightarrow> value_type_ok (rt_value_type r) \<and>
     (if vt_kind (rt_value_type r) = LK_Pointer then pred_option root_pointee_ok (rt_pointee_type r) \<and> rt_pointee_type r \<noteq> None
      else rt_pointee_type r = None)"

section \<open>Integers and enumerations\<close>

lemma entry_size_Some [dest!]: "entry_size d limit = Some n \<Longrightarrow> 0 < n \<and> n \<le> limit"
  by (auto simp: entry_size_def unat_gt_0 split: option.splits if_splits)

lemma entry_name_not_Nil [simp]: "entry_name d \<noteq> Some []"
  by (auto simp: entry_name_def split: option.splits if_splits)

lemma yields_integer_type: "yields (resolve_integer_type dies off) (\<lambda>t. 0 < it_byte_size t \<and> it_byte_size t \<le> 8)"
  unfolding resolve_integer_type_def
  by (rule yields_type_chain) (auto simp: bind_die_at split: option.split)

lemma enum_mask: "v AND (push_bit n 1 - 1) = take_bit n (v :: u64)"
  by (simp add: take_bit_eq_mask mask_eq_exp_minus_1 push_bit_of_1)

lemma yields_enum_raw_value:
  "yields (bounded_enum_raw_value v n) (\<lambda>raw. 0 < n \<and> n \<le> 8 \<and> unat raw < 2 ^ (8 * n))"
proof -
  have "unat (take_bit (n * 8) v) < 2 ^ (8 * n)"
    by (simp add: unsigned_take_bit_eq mult.commute)
  moreover have "unat v < 2 ^ (8 * 8)" using unsigned_less [of v] by simp
  ultimately show ?thesis unfolding bounded_enum_raw_value_def enum_mask by auto
qed

lemma yields_enum_signedness: "yields (enum_signedness dies d n) (\<lambda>_. True)"
  unfolding enum_signedness_def Let_def
  by (auto intro!: yields_bindM [OF yields_integer_type] split: option.split)

lemma yields_enumerators:
  assumes "0 < n" "n \<le> 8"
  shows "yields (collect (resolve_enumerator dies n is_signed) (children_of dies i) [])
    (\<lambda>es. length es \<le> kMaxLocalEnumEntries \<and> distinct (map en_name es) \<and>
      (\<forall>e \<in> set es. en_name e \<noteq> [] \<and> unat (en_raw_value e) < 2 ^ (8 * n)))"
  by (rule yields_collect)
    (auto simp: resolve_enumerator_def bind_die_at children_of_bound
      intro!: yields_bindM [OF yields_enum_raw_value] split: option.split)

lemma yields_enum_type: "yields (resolve_bounded_enum_type dies off) (pred_option enum_ok)"
  unfolding resolve_bounded_enum_type_def
  by (rule yields_type_chain)
    (auto simp: bind_die_at enum_ok_def intro!: yields_bindM [OF yields_enum_signedness] yields_bindM [OF yields_enumerators] split: option.split)

section \<open>Members\<close>

lemma constant_offset_inside: "\<not> n < offset \<Longrightarrow> \<not> n - offset < k \<Longrightarrow> offset + k \<le> (n :: nat)"
  by simp

lemma scalar_member_ok:
  "name \<noteq> [] \<Longrightarrow> 0 < it_byte_size t \<Longrightarrow> it_byte_size t \<le> 8 \<Longrightarrow> offset + it_byte_size t \<le> n \<Longrightarrow>
     integer_member_ok n (scalar_member name offset t)"
  by (auto simp: integer_member_ok_def scalar_member_def)

lemma yields_absolute_bit_offset: "yields (absolute_bit_offset d t n w) (\<lambda>_. True)"
  unfolding absolute_bit_offset_def Let_def by (auto split: option.split)

lemma yields_bit_slice:
  "yields (resolve_bounded_bit_slice d t n) (pred_option (\<lambda>bits. 0 < bs_bit_size bits \<and>
     bs_bit_size bits \<le> 8 * it_byte_size t \<and> bs_bit_offset bits + bs_bit_size bits \<le> 8 * n))"
  unfolding resolve_bounded_bit_slice_def Let_def
  by (auto simp: unat_gt_0 intro!: yields_bindM [OF yields_absolute_bit_offset] split: option.split)

lemma yields_bit_field: "yields (resolve_bounded_bit_field_member_type dies d n) (pred_option (bit_field_ok n))"
  unfolding resolve_bounded_bit_field_member_type_def
  by (auto simp: bit_field_ok_def intro!: yields_bindM [OF yields_integer_type] yields_bindM [OF yields_bit_slice] split: option.split)

lemma yields_union_member:
  "yields (resolve_bounded_union_member_type dies d n) (\<lambda>m. integer_member_ok n m \<and> mt_offset m = 0)"
  unfolding resolve_bounded_union_member_type_def
  by (auto simp: bind_die_at intro!: yields_type_chain yields_bindM [OF yields_integer_type] scalar_member_ok split: option.split) (simp_all add: scalar_member_def)

lemma direct_member_okI:
  "name \<noteq> [] \<Longrightarrow> 0 < it_byte_size i \<Longrightarrow> it_byte_size i \<le> 8 \<Longrightarrow> offset + it_byte_size i \<le> n \<Longrightarrow>
     direct_member_ok n (scalar_member name offset i)"
  "name \<noteq> [] \<Longrightarrow> offset + 8 \<le> n \<Longrightarrow> pointee_ok p \<Longrightarrow>
     direct_member_ok n (Struct_member_type name offset 8 False LK_Pointer (Some p) None None [])"
  "name \<noteq> [] \<Longrightarrow> offset + et_byte_size t \<le> n \<Longrightarrow> enum_ok t \<Longrightarrow>
     direct_member_ok n (Struct_member_type name offset (et_byte_size t) (et_is_signed t) LK_Enumeration None None (Some t) [])"
  by (simp_all add: direct_member_ok_def scalar_member_ok)

lemma aggregate_okI:
  "0 < n \<Longrightarrow> n \<le> kMaxLocalStructSize \<Longrightarrow> distinct (map mt_name ms) \<Longrightarrow>
     members_ok (\<lambda>m. integer_member_ok n m \<and> mt_offset m = 0) ms \<Longrightarrow> union_ok (aggregate_type n LK_Union ms)"
  "0 < n \<Longrightarrow> n \<le> kMaxLocalStructSize \<Longrightarrow> members_ok (member_ok n) ms \<Longrightarrow> structure_ok (aggregate_type n LK_Structure ms)"
  by (auto simp: union_ok_def structure_ok_def)

lemma array_okI:
  "0 < n \<Longrightarrow> n \<le> kMaxLocalArrayElements \<Longrightarrow> 0 < k \<Longrightarrow> k \<le> 8 \<Longrightarrow> n * k \<le> kMaxLocalStructSize \<Longrightarrow>
     array_ok ((aggregate_type (n * k) LK_Array [])\<lparr>vt_array_type := Some \<lparr>at_element_count = n, at_element_byte_size = k,
       at_element_is_signed = is_signed, at_element_kind = LK_Integer\<rparr>\<rparr>)"
  unfolding array_ok_def
  by (rule exI [of _ "\<lparr>at_element_count = n, at_element_byte_size = k, at_element_is_signed = is_signed,
    at_element_kind = LK_Integer\<rparr>"]) simp

text \<open>A loop over members with different names.\<close>

lemma yields_members:
  assumes "\<And>d. yields (resolve d) ok"
  shows "yields (collect (member_step unsupported many duplicate dies resolve) (children_of dies i) [])
    (\<lambda>ms. length ms \<le> kMaxLocalStructMembers \<and> list_all ok ms \<and> distinct (map mt_name ms))"
  by (rule yields_collect) (auto simp: member_step_def bind_die_at children_of_bound intro!: yields_bindM [OF assms])

lemma yields_terminal: "yields (resolve_terminal dies n d) (integer_member_ok n)"
  unfolding resolve_terminal_def
  by (auto intro!: yields_bindM [OF yields_integer_type] scalar_member_ok split: option.split)

lemma yields_nested_member:
  "yields (resolve_bounded_nested_structure_member_type dies d n) (pred_option (nested_member_ok n))"
  unfolding resolve_bounded_nested_structure_member_type_def nested_structure_member_def
  by (auto simp: bind_die_at nested_member_ok_def members_ok_def
      intro!: yields_type_chain yields_bindM [OF yields_members [OF yields_terminal]] constant_offset_inside split: option.split)

lemma yields_pointee_members:
  "yields (collect (resolve_pointee_member dies n) (children_of dies i) [])
    (\<lambda>ms. length ms \<le> kMaxLocalStructMembers \<and> list_all (pointee_member_inside n) ms)"
  by (rule yields_collect)
    (auto simp: resolve_pointee_member_def bind_die_at children_of_bound pointee_member_inside_def
      intro!: yields_bindM [OF yields_integer_type] split: option.split)

lemma yields_pointee_type: "yields (resolve_bounded_pointer_member_pointee_type dies off) pointee_ok"
  unfolding resolve_bounded_pointer_member_pointee_type_def
  by (rule yields_type_chain)
    (auto simp: bind_die_at pointee_ok_def intro!: yields_bindM [OF yields_integer_type] yields_bindM [OF yields_pointee_members] split: option.split)

lemma yields_direct_member: "yields (resolve_bounded_direct_structure_member_type dies n d) (direct_member_ok n)"
  unfolding resolve_bounded_direct_structure_member_type_def direct_member_of_type_def
  by (auto simp: bind_die_at
      intro!: yields_type_chain yields_bindM [OF yields_integer_type] yields_bindM [OF yields_pointee_type]
        yields_bindM [OF yields_enum_type] direct_member_okI constant_offset_inside split: option.split)

lemma yields_structure_members:
  "yields (collect (resolve_structure_member dies n) (children_of dies i) [])
    (\<lambda>ms. length ms \<le> kMaxLocalStructMembers \<and> list_all (member_ok n) ms)"
  by (rule yields_collect)
    (auto simp: resolve_structure_member_def bind_die_at children_of_bound member_ok_def
      intro!: yields_bindM [OF yields_bit_field] yields_bindM [OF yields_nested_member] yields_mono [OF yields_direct_member] split: option.split)

section \<open>Values\<close>

lemma yields_union_type: "yields (resolve_bounded_union_type dies off) (pred_option union_ok)"
  unfolding resolve_bounded_union_type_def
  by (rule yields_type_chain)
    (auto simp: bind_die_at members_ok_def intro!: aggregate_okI yields_bindM [OF yields_members [OF yields_union_member]] split: option.split)

lemma yields_single_subrange:
  "\<forall>c \<in> set cs. c < length dies \<Longrightarrow> pred_option (\<lambda>c. c < length dies) found \<Longrightarrow>
     yields (single_subrange dies cs found) (pred_option (\<lambda>c. c < length dies))"
  by (induction cs arbitrary: found) (auto simp: bind_die_at)

lemma yields_element_count: "yields (subrange_element_count d) (\<lambda>_. True)"
  unfolding subrange_element_count_def by (auto split: option.split)

lemma yields_array_type: "yields (resolve_bounded_fixed_array_type dies off) (pred_option array_ok)"
proof -
  have subrange: "yields (single_subrange dies (children_of dies i) None) (pred_option (\<lambda>c. c < length dies))" for i
    by (rule yields_single_subrange) (auto simp: children_of_bound)
  have inside: "n * k \<le> kMaxLocalStructSize" if "\<not> kMaxLocalStructSize div k < n" "0 < k" for n k :: nat
    using that by (simp add: less_eq_div_iff_mult_less_eq not_less)
  show ?thesis
    unfolding resolve_bounded_fixed_array_type_def Let_def
    by (rule yields_type_chain)
      (auto simp: bind_die_at inside intro!: array_okI yields_bindM [OF yields_integer_type] yields_bindM [OF subrange]
        yields_bindM [OF yields_element_count] split: option.split)
qed

lemma type_kinds [simp]:
  "vt_kind (scalar_type n is_signed k) = k" "vt_kind (aggregate_type n k ms) = k"
  "array_ok t \<Longrightarrow> vt_kind t = LK_Array" "union_ok t \<Longrightarrow> vt_kind t = LK_Union" "structure_ok t \<Longrightarrow> vt_kind t = LK_Structure"
  by (auto simp: array_ok_def union_ok_def structure_ok_def scalar_type_def aggregate_type_def)

lemma value_type_okI:
  "0 < n \<Longrightarrow> n \<le> 8 \<Longrightarrow> value_type_ok (scalar_type n is_signed LK_Integer)"
  "value_type_ok (scalar_type 8 False LK_Pointer)"
  "n = 4 \<or> n = 8 \<Longrightarrow> value_type_ok (scalar_type n False LK_Floating)"
  "enum_ok e \<Longrightarrow> value_type_ok ((scalar_type (et_byte_size e) (et_is_signed e) LK_Enumeration)\<lparr>vt_enum_type := Some e\<rparr>)"
  "array_ok t \<Longrightarrow> value_type_ok t" "union_ok t \<Longrightarrow> value_type_ok t" "structure_ok t \<Longrightarrow> value_type_ok t"
  unfolding value_type_ok_def by auto

lemma yields_value_type_at:
  assumes "i < length dies"
  shows "yields (value_type_at dies i off) (\<lambda>t. value_type_ok t \<and> (vt_kind t = LK_Pointer \<longrightarrow> die_tag (dies ! i) = kDwTagPointerType))"
  unfolding value_type_at_def bind_die_at [OF assms]
  by (auto simp: members_ok_def value_type_okI aggregate_okI
      intro!: yields_bindM [OF yields_integer_type] yields_thenM [OF yields_integer_type]
        yields_bindM [OF yields_enum_type] yields_bindM [OF yields_union_type] yields_bindM [OF yields_array_type]
        yields_bindM [OF yields_structure_members]
      split: option.split)

section \<open>The type at the root of a value\<close>

text \<open>The end of a chain does not depend on the resolver that follows it.\<close>

fun chain_end :: "nat \<Rightarrow> die list \<Rightarrow> u64 \<Rightarrow> (nat \<times> u64) option" where
  "chain_end 0 dies off = None"
| "chain_end (Suc n) dies off = Option.bind (die_index_by_offset dies (unat off)) (\<lambda>i.
    if \<not> is_type_wrapper (dies ! i) then Some (i, off)
    else Option.bind (ref4_link (attribute (dies ! i) kDwAtType)) (chain_end n dies))"

lemma type_chain_dead:
  "chain_end n dies off = None \<Longrightarrow> \<exists>m. type_chain n unknown unlinked deep dies off resolve = throwM (RuntimeError m)"
  by (induction n arbitrary: off)
    (auto simp: bind_die_at [OF die_index_bound] bind_eq_None_conv split: option.split if_splits)

lemma type_chain_end:
  "chain_end n dies off = Some (i, off_end) \<Longrightarrow>
     i < length dies \<and> type_chain n unknown unlinked deep dies off resolve = resolve i off_end"
  by (induction n arbitrary: off)
    (auto simp: bind_die_at [OF die_index_bound] bind_eq_Some_conv dest: die_index_bound split: if_splits)

lemma yields_floating_type:
  "yields (resolve_snapshot_floating_type dies off) (pred_option (\<lambda>t. \<exists>n. (n = 4 \<or> n = 8) \<and> t = scalar_type n False LK_Floating))"
proof -
  have "unat v = 4 \<or> unat v = 8" if "v = 4 \<or> v = 8" for v :: u64 using that by auto
  then show ?thesis
    unfolding resolve_snapshot_floating_type_def
    by (intro yields_type_chain) (auto simp: bind_die_at split: option.split)
qed

lemma root_pointee_okI:
  "0 < n \<Longrightarrow> n \<le> 8 \<Longrightarrow> root_pointee_ok (scalar_type n is_signed LK_Integer)"
  "0 < n \<Longrightarrow> n \<le> kMaxLocalStructSize \<Longrightarrow> members_ok (direct_member_ok n) ms \<Longrightarrow> distinct (map mt_name ms) \<Longrightarrow>
     root_pointee_ok (aggregate_type n LK_Structure ms)"
  by (auto simp: root_pointee_ok_def)

lemma yields_structure_pointee: "yields (resolve_snapshot_structure_pointee_type dies off) root_pointee_ok"
  unfolding resolve_snapshot_structure_pointee_type_def
  by (rule yields_type_chain)
    (auto simp: bind_die_at members_ok_def intro!: root_pointee_okI yields_bindM [OF yields_members [OF yields_direct_member]]
      split: option.split)

lemma yields_pointee_type_at:
  "i < length dies \<Longrightarrow> yields (pointee_type_at dies i off) (\<lambda>t. pred_option root_pointee_ok t \<and> t \<noteq> None)"
  unfolding pointee_type_at_def
  by (auto simp: bind_die_at intro!: root_pointee_okI yields_bindM [OF yields_integer_type] yields_bindM [OF yields_structure_pointee])

lemma yields_pointer_pointee: "yields (resolve_pointer_pointee_type dies off) (pred_option root_pointee_ok)"
  unfolding resolve_pointer_pointee_type_def
  by (rule yields_type_chain)
    (auto simp: bind_die_at intro!: yields_type_chain yields_mono [OF yields_pointee_type_at] split: option.split)

text \<open>No pointee means that the type is not a pointer.\<close>

lemma no_pointee_no_pointer:
  fixes s :: 's
  assumes "resolve_pointer_pointee_type dies off s = (Ok None, s')"
  shows "yields (resolve_value_type dies off :: ('s, local_value_type) prog) (\<lambda>t. value_type_ok t \<and> vt_kind t \<noteq> LK_Pointer)"
proof (cases "chain_end kTypeChainDepth dies off")
  case None
  then obtain m where "resolve_value_type dies off = (throwM (RuntimeError m) :: ('s, local_value_type) prog)"
    unfolding resolve_value_type_def using type_chain_dead by blast
  then show ?thesis by simp
next
  case (Some e)
  obtain i off_end where e: "e = (i, off_end)" by (cases e)
  note ends = type_chain_end [OF Some [unfolded e], THEN conjunct1] type_chain_end [OF Some [unfolded e], THEN conjunct2]
  have "die_tag (dies ! i) \<noteq> kDwTagPointerType"
  proof
    assume pointer: "die_tag (dies ! i) = kDwTagPointerType"
    have "yields (resolve_pointer_pointee_type dies off) (\<lambda>t. t \<noteq> None)"
      unfolding resolve_pointer_pointee_type_def ends(2) bind_die_at [OF ends(1)]
      by (auto simp: pointer simp del: type_chain.simps intro!: yields_type_chain yields_mono [OF yields_pointee_type_at] split: option.split)
    with assms show False using yieldsD [of "resolve_pointer_pointee_type dies off" "\<lambda>t. t \<noteq> None" s] by (simp add: twp_def)
  qed
  with yields_value_type_at [OF ends(1), of off_end] show ?thesis
    unfolding resolve_value_type_def ends(2) by (auto elim: yields_mono)
qed

lemma yields_root_value_type: "yields (resolve_bounded_root_value_type dies type_offset) root_type_ok"
  unfolding yields_def
proof
  fix s
  have none: "twp (resolve_value_type dies type_offset) (\<lambda>t s'. s' = s \<and> value_type_ok t \<and> vt_kind t \<noteq> LK_Pointer)
      (\<lambda>e s'. no_ub e \<and> s' = s) s" if "resolve_pointer_pointee_type dies type_offset s = (Ok None, s)"
    by (rule yieldsD [OF no_pointee_no_pointer [OF that]])
  have pointee: "twp (resolve_pointer_pointee_type dies type_offset)
      (\<lambda>p s'. (s' = s \<and> pred_option root_pointee_ok p) \<and> resolve_pointer_pointee_type dies type_offset s = (Ok p, s))
      (\<lambda>e s'. no_ub e \<and> s' = s) s"
    using yieldsD [OF yields_pointer_pointee, of dies type_offset s] by (auto simp: twp_def split: prod.splits outcome.splits)
  show "twp (resolve_bounded_root_value_type dies type_offset) (\<lambda>r s'. s' = s \<and> root_type_ok r) (\<lambda>e s'. no_ub e \<and> s' = s) s"
    unfolding resolve_bounded_root_value_type_def twp_bindM
    by (rule twp_mono [OF yieldsD [OF yields_floating_type]])
      (auto simp: twp_simps root_type_ok_def value_type_okI intro!: twp_mono [OF pointee] twp_mono [OF none] split: option.split)
qed

text \<open>C24. Every type that is resolved for a value of a core is well formed, whatever the debug information says, and
  resolving has no undefined behaviour, ends and changes nothing: integers and enumerations have 1 to 8 bytes, floating-point
  numbers 4 or 8, pointers 8; aggregates have 1 to 256 bytes and at most 32 members, arrays at most 64 elements; members and
  bit fields lie inside their aggregate; each kind has its own metadata and no other; a pointer, and nothing else, has a
  pointee, an integer or a structure of direct members with different names.\<close>

theorem resolved_types_well_formed:
  "twp (resolve_bounded_root_value_type dies type_offset) (\<lambda>r s'. s' = s \<and> root_type_ok r) (\<lambda>e s'. no_ub e \<and> s' = s) s"
  by (rule yieldsD [OF yields_root_value_type])

end
