(* ===== verification/DwarfValuesProps.thy ===== *)
theory DwarfValuesProps
  imports DwarfValues DwarfTypesProps InlineScopesProps SnapshotMemoryProps
begin

text \<open>
  Values are what their bytes spell. Decoding is compared with a reference: little-endian numbers, and for bit fields
  arithmetic on the number that all bytes spell.
\<close>

unbundle bit_operations_syntax

section \<open>Bit fields\<close>

text \<open>The number that a list of bytes spells, of any length.\<close>

abbreviation le_int :: "u8 list \<Rightarrow> int" where
  "le_int bytes \<equiv> int (le_nat bytes)"

lemma bit_le_int: "bit (le_int bs) n \<longleftrightarrow> n div 8 < length bs \<and> bit (bs ! (n div 8)) (n mod 8)"
proof (induction bs arbitrary: n)
  case (Cons b bs)
  have "le_int (b # bs) = uint b + push_bit 8 (le_int bs)" by (simp add: push_bit_eq_mult)
  also have "\<dots> = uint b OR push_bit 8 (le_int bs)"
    by (rule disjunctive_add) (auto simp: bit_simps dest: bit_imp_le_length)
  finally have "le_int (b # bs) = uint b OR push_bit 8 (le_int bs)" .
  then have "bit (le_int (b # bs)) n \<longleftrightarrow> bit b n \<or> (8 \<le> n \<and> bit (le_int bs) (n - 8))"
    using bit_imp_le_length [of b n] by (auto simp: bit_or_iff bit_push_bit_iff bit_uint_iff)
  then show ?case
  proof (cases "n < 8")
    case False
    then obtain m where "n = m + 8" by (metis add.commute le_add_diff_inverse not_less)
    with Cons.IH [of m] \<open>bit (le_int (b # bs)) n \<longleftrightarrow> _\<close> bit_imp_le_length [of b n] show ?thesis
      by (auto simp: div_add_self2)
  qed simp
qed simp

text \<open>The reference for a bit field: the bits from an offset on, as a signed or unsigned number, in the storage width.\<close>

definition bit_field_number :: "u8 list \<Rightarrow> nat \<Rightarrow> nat \<Rightarrow> bool \<Rightarrow> nat \<Rightarrow> int" where
  "bit_field_number bytes offset width is_signed storage_bits = take_bit storage_bits
     ((if is_signed then signed_take_bit (width - 1) else take_bit width) (drop_bit offset (le_int bytes)))"

lemma drop_bit_and_one: "drop_bit i w AND 1 \<noteq> 0 \<longleftrightarrow> bit (w :: 'a::len word) i"
  by (simp add: and_one_eq odd_iff_mod_2_eq_one [symmetric] bit_iff_odd_drop_bit)

lemma bit_field_loop_run:
  assumes "offset + k \<le> 8 * length bytes" and "k \<le> 64" and "j \<le> k"
  shows "\<exists>w. bit_field_loop bytes offset [j..<k] raw s = (Ok w, s) \<and>
    (\<forall>n < 64. bit w n \<longleftrightarrow> bit raw n \<or> (j \<le> n \<and> n < k \<and> bit (le_int bytes) (offset + n)))"
  using assms(3)
proof (induction "k - j" arbitrary: j raw)
  case 0
  then show ?case by (auto simp: returnM_def)
next
  case (Suc d)
  then have j: "j < k" by simp
  then have at: "(offset + j) div 8 < length bytes" using assms(1) by (simp add: less_mult_imp_div_less)
  let ?raw = "if drop_bit ((offset + j) mod 8) (bytes ! ((offset + j) div 8)) AND 1 \<noteq> 0 then raw OR push_bit j 1 else raw"
  have raw: "bit ?raw n \<longleftrightarrow> bit raw n \<or> (n = j \<and> bit (le_int bytes) (offset + j))" if "n < 64" for n
    using that at by (auto simp: drop_bit_and_one bit_le_int bit_or_iff bit_exp_iff)
  have "d = k - Suc j" "Suc j \<le> k" using Suc.hyps(2) j by auto
  from Suc.hyps(1) [OF this] obtain w where
    w: "bit_field_loop bytes offset [Suc j..<k] ?raw s = (Ok w, s)"
      "\<forall>n < 64. bit w n \<longleftrightarrow> bit ?raw n \<or> (Suc j \<le> n \<and> n < k \<and> bit (le_int bytes) (offset + n))" by blast
  show ?case
    by (rule exI [of _ w]) (use w raw j at in \<open>auto simp: upt_conv_Cons bindM_def byte_at_def returnM_def Suc_le_eq\<close>)
qed

lemma bounded_bit_mask_run: "0 < k \<Longrightarrow> k \<le> 64 \<Longrightarrow> bounded_bit_mask k s = (Ok (mask k), s)"
proof -
  assume k: "0 < k" "k \<le> 64"
  have "(- 1 :: u64) = mask 64" by (simp add: mask_eq_exp_minus_1)
  with k show ?thesis
    by (auto simp: bounded_bit_mask_def returnM_def mask_eq_exp_minus_1 push_bit_of_1)
qed

lemma bit_bit_field_number:
  assumes "0 < width"
  shows "bit (bit_field_number bytes offset width is_signed storage) n \<longleftrightarrow> n < storage \<and>
    (if n < width then bit (le_int bytes) (offset + n) else is_signed \<and> bit (le_int bytes) (offset + (width - 1)))"
proof -
  have "min (width - 1) n = (if n < width then n else width - 1)" using assms by auto
  then show ?thesis
    by (auto simp: bit_field_number_def bit_take_bit_iff bit_signed_take_bit_iff bit_drop_bit_eq)
qed

text \<open>The loop of the source over the bits computes the reference.\<close>

lemma decode_bit_field_run:
  assumes "mt_bit_slice m = Some bits" and "mt_kind m = LK_Integer" "mt_pointee_type m = None" "mt_enum_type m = None" "mt_members m = []"
    and "0 < mt_byte_size m" "mt_byte_size m \<le> 8" "0 < bs_bit_size bits" "bs_bit_size bits \<le> 8 * mt_byte_size m"
    and "bs_bit_offset bits + bs_bit_size bits \<le> 8 * length bytes"
  shows "decode_bounded_bit_field bytes m s = (Ok (word_of_int
    (bit_field_number bytes (bs_bit_offset bits) (bs_bit_size bits) (mt_is_signed m) (8 * mt_byte_size m))), s)"
proof -
  let ?w = "bs_bit_size bits" and ?off = "bs_bit_offset bits" and ?st = "8 * mt_byte_size m"
  let ?r = "word_of_int (bit_field_number bytes ?off ?w (mt_is_signed m) ?st) :: u64"
  have w: "?w \<le> 64" using assms by simp
  obtain v where v: "bit_field_loop bytes ?off [0..<?w] 0 s = (Ok v, s)"
    "\<forall>n < 64. bit v n \<longleftrightarrow> bit (0 :: u64) n \<or> (0 \<le> n \<and> n < ?w \<and> bit (le_int bytes) (?off + n))"
    using bit_field_loop_run [OF assms(10) w, of 0 0 s] by blast
  note masks = bounded_bit_mask_run [OF assms(8) w, of s] bounded_bit_mask_run [of ?st s]
  have sign: "drop_bit (?w - 1) (v AND mask ?w) AND 1 \<noteq> 0 \<longleftrightarrow> bit (le_int bytes) (?off + (?w - 1))"
    using v(2) assms(8) w unfolding drop_bit_and_one by (auto simp: bit_and_iff bit_mask_iff)
  have r: "bit (word_of_int (bit_field_number bytes ?off ?w is_signed ?st) :: u64) n \<longleftrightarrow> n < 64 \<and> n < ?st \<and>
      (if n < ?w then bit (le_int bytes) (?off + n) else is_signed \<and> bit (le_int bytes) (?off + (?w - 1)))" for n is_signed
    by (simp add: bit_word_of_int_iff bit_bit_field_number [OF assms(8)])
  have "v AND mask ?w = ?r" if "\<not> (mt_is_signed m \<and> ?w < ?st \<and> bit (le_int bytes) (?off + (?w - 1)))"
    by (rule bit_word_eqI) (use that v(2) assms(9) in \<open>auto simp: r bit_and_iff bit_mask_iff\<close>)
  moreover have "((v AND mask ?w) OR NOT (mask ?w)) AND mask ?st = ?r"
    if "mt_is_signed m \<and> ?w < ?st \<and> bit (le_int bytes) (?off + (?w - 1))"
    by (rule bit_word_eqI) (use that v(2) in \<open>auto simp: r bit_and_iff bit_or_iff bit_not_iff bit_mask_iff\<close>)
  ultimately show ?thesis
    unfolding decode_bounded_bit_field_def Let_def
    using assms v(1) masks sign
    by (auto simp: bindM_def returnM_def mult.commute)
qed

section \<open>The reference decoding\<close>

definition member_raw :: "u8 list \<Rightarrow> struct_member_type \<Rightarrow> u64" where
  "member_raw bytes m = (case mt_bit_slice m of
     None \<Rightarrow> le_word (take (mt_byte_size m) (drop (mt_offset m) bytes))
   | Some bits \<Rightarrow> word_of_int (bit_field_number bytes (bs_bit_offset bits) (bs_bit_size bits) (mt_is_signed m) (8 * mt_byte_size m)))"

text \<open>A member in the bytes of its aggregate; the members of a nested structure are found from its own offset on.\<close>

definition member_value :: "u8 list \<Rightarrow> struct_member_type \<Rightarrow> struct_member" where
  "member_value bytes m = (if mt_kind m = LK_Structure
     then Struct_member (mt_name m) 0 (mt_byte_size m) False LK_Structure None None None
       (map (\<lambda>t. integer_struct_member t (member_raw (drop (mt_offset m) bytes) t)) (mt_members m)) (mt_offset m)
     else Struct_member (mt_name m) (member_raw bytes m) (mt_byte_size m) (mt_is_signed m) (mt_kind m)
       (mt_pointee_type m) (mt_bit_slice m) (mt_enum_type m) [] (mt_offset m))"

definition element_value :: "u8 list \<Rightarrow> array_type \<Rightarrow> nat \<Rightarrow> array_element" where
  "element_value bytes a i = \<lparr>ae_raw_value = le_word (take (at_element_byte_size a) (drop (i * at_element_byte_size a) bytes)),
     ae_byte_size = at_element_byte_size a, ae_is_signed = at_element_is_signed a, ae_kind = LK_Integer\<rparr>"

text \<open>The value of a type in bytes.\<close>

definition decoded :: "path \<Rightarrow> u8 list \<Rightarrow> local_value_type \<Rightarrow> u8 list \<Rightarrow> local_value" where
  "decoded module_path name t bytes = (case vt_kind t of
     LK_Structure \<Rightarrow> (scalar_value module_path name 0 (vt_byte_size t) False LK_Structure)\<lparr>lv_members := map (member_value bytes) (vt_members t)\<rparr>
   | LK_Union \<Rightarrow> (scalar_value module_path name 0 (vt_byte_size t) False LK_Union)\<lparr>lv_members := map (member_value bytes) (vt_members t)\<rparr>
   | LK_Array \<Rightarrow> (scalar_value module_path name 0 (vt_byte_size t) False LK_Array)
       \<lparr>lv_elements := map (element_value bytes (the (vt_array_type t))) [0..<at_element_count (the (vt_array_type t))],
         lv_array_type := vt_array_type t\<rparr>
   | _ \<Rightarrow> (scalar_value module_path name (le_word bytes) (vt_byte_size t) (vt_is_signed t) (vt_kind t))\<lparr>lv_enum_type := vt_enum_type t\<rparr>)"

lemma mapM_run: "(\<And>x. x \<in> set xs \<Longrightarrow> f x s = (Ok (g x), s)) \<Longrightarrow> mapM f xs s = (Ok (map g xs), s)"
  by (induction xs) (simp_all add: bindM_def returnM_def)

lemma decode_integer_run:
  "0 < n \<Longrightarrow> n \<le> 8 \<Longrightarrow> offset + n \<le> length bytes \<Longrightarrow> decode_integer bytes offset n s = (Ok (le_word (take n (drop offset bytes))), s)"
  by (auto simp: decode_integer_def returnM_def)

lemma integer_member_fields:
  "integer_member_ok n m \<Longrightarrow> plain_integer_member m \<and> 0 < mt_byte_size m \<and> mt_byte_size m \<le> 8 \<and> mt_offset m + mt_byte_size m \<le> n"
  by (auto simp: integer_member_ok_def plain_integer_member_def)

lemma nested_member_run:
  assumes "nested_member_ok n m" and "length bytes = n" and "n \<le> kMaxLocalStructSize"
  shows "materialize_bounded_nested_structure_member bytes n m s = (Ok (member_value bytes m), s)"
proof -
  from assms(1) obtain name offset k ms where m: "m = Struct_member_type name offset k False LK_Structure None None None ms"
    and k: "0 < k" "k \<le> kMaxLocalStructSize" "offset + k \<le> n" and ms: "members_ok (integer_member_ok k) ms"
    by (auto simp: nested_member_ok_def)
  have "materialize_terminal bytes n m t s = (Ok (integer_struct_member t (member_raw (drop (mt_offset m) bytes) t)), s)"
    if "t \<in> set ms" for t
  proof -
    from that ms have t: "plain_integer_member t" "0 < mt_byte_size t" "mt_byte_size t \<le> 8" "mt_offset t + mt_byte_size t \<le> k"
      using integer_member_fields [of k t] by (auto simp: members_ok_def list_all_iff)
    have "decode_integer bytes (offset + mt_offset t) (mt_byte_size t) s =
        (Ok (le_word (take (mt_byte_size t) (drop (mt_offset t) (drop offset bytes)))), s)"
      using t k assms by (subst decode_integer_run) (auto simp: add.commute)
    with t k assms show ?thesis
      by (auto simp: materialize_terminal_def Let_def m bindM_def returnM_def member_raw_def plain_integer_member_def)
  qed
  then have "mapM (materialize_terminal bytes n m) ms s =
      (Ok (map (\<lambda>t. integer_struct_member t (member_raw (drop (mt_offset m) bytes) t)) ms), s)"
    by (rule mapM_run)
  with k ms show ?thesis
    by (auto simp: materialize_bounded_nested_structure_member_def m members_ok_def bindM_def returnM_def member_value_def)
qed

lemma member_run:
  assumes "member_ok n m" and "length bytes = n" and "n \<le> kMaxLocalStructSize"
  shows "materialize_member unexpected bytes n m s = (Ok (member_value bytes m), s)"
  using assms(1) unfolding member_ok_def
proof (elim disjE)
  assume "bit_field_ok n m"
  then obtain name k is_signed bits where m: "m = Struct_member_type name (bs_bit_offset bits div 8) k is_signed LK_Integer None (Some bits) None []"
    and k: "0 < k" "k \<le> 8" "0 < bs_bit_size bits" "bs_bit_size bits \<le> 8 * k" "bs_bit_offset bits + bs_bit_size bits \<le> 8 * n"
    by (auto simp: bit_field_ok_def)
  have "decode_bounded_bit_field bytes m s = (Ok (member_raw bytes m), s)"
    using decode_bit_field_run [of m bits bytes s] k assms(2) by (simp add: m member_raw_def)
  then show ?thesis by (simp add: materialize_member_def m bindM_def returnM_def member_value_def)
next
  assume "nested_member_ok n m"
  with nested_member_run [OF this assms(2,3)] show ?thesis
    by (auto simp: materialize_member_def nested_member_ok_def)
next
  assume "direct_member_ok n m"
  then have "mt_members m = [] \<and> mt_bit_slice m = None \<and> mt_kind m \<noteq> LK_Structure \<and> 0 < mt_byte_size m \<and> mt_byte_size m \<le> 8 \<and>
      mt_offset m + mt_byte_size m \<le> n"
    by (auto simp: direct_member_ok_def integer_member_ok_def enum_ok_def)
  with assms(2) show ?thesis
    by (simp add: materialize_member_def bindM_def returnM_def member_value_def member_raw_def decode_integer_run)
qed

lemma materialize_bytes_run:
  assumes ok: "value_type_ok t" and len: "length (sm_bytes memory) = vt_byte_size t"
  shows "materialize_bytes module_path name t memory s = (Ok (decoded module_path name t (sm_bytes memory)), s)"
proof (cases "vt_kind t")
  case LK_Structure
  with ok obtain n ms where t: "t = aggregate_type n LK_Structure ms" and n: "0 < n" "n \<le> kMaxLocalStructSize" "members_ok (member_ok n) ms"
    by (auto simp: value_type_ok_def structure_ok_def)
  have "mapM (materialize_member u (sm_bytes memory) n) ms s = (Ok (map (member_value (sm_bytes memory)) ms), s)" for u
    using n len by (intro mapM_run member_run) (auto simp: members_ok_def list_all_iff t aggregate_type_def)
  with n len show ?thesis
    by (simp add: materialize_bytes_def t aggregate_type_def decoded_def bindM_def returnM_def)
next
  case LK_Union
  with ok obtain n ms where t: "t = aggregate_type n LK_Union ms" and n: "0 < n" "n \<le> kMaxLocalStructSize"
    and ms: "members_ok (\<lambda>m. integer_member_ok n m \<and> mt_offset m = 0) ms"
    by (auto simp: value_type_ok_def union_ok_def)
  have "materialize_union_member (sm_bytes memory) n m s = (Ok (member_value (sm_bytes memory) m), s)"
    if "integer_member_ok n m" "mt_offset m = 0" for m
    using that len integer_member_fields [of n m]
    by (auto simp: materialize_union_member_def decode_integer_run bindM_def returnM_def integer_member_ok_def integer_struct_member_def
        member_value_def member_raw_def t aggregate_type_def)
  with ms have "mapM (materialize_union_member (sm_bytes memory) n) ms s = (Ok (map (member_value (sm_bytes memory)) ms), s)"
    by (intro mapM_run) (auto simp: members_ok_def list_all_iff)
  with ms n len show ?thesis
    by (simp add: materialize_bytes_def materialize_bounded_union_bytes_def union_layout_ok_def t aggregate_type_def
        decoded_def bindM_def returnM_def members_ok_def)
next
  case LK_Array
  with ok obtain a where t: "t = (aggregate_type (at_element_count a * at_element_byte_size a) LK_Array [])\<lparr>vt_array_type := Some a\<rparr>"
    and a: "0 < at_element_count a" "at_element_count a \<le> kMaxLocalArrayElements" "0 < at_element_byte_size a" "at_element_byte_size a \<le> 8" "at_element_kind a = LK_Integer"
      "at_element_count a * at_element_byte_size a \<le> kMaxLocalStructSize"
    by (auto simp: value_type_ok_def array_ok_def)
  have "materialize_array_element (sm_bytes memory) a i s = (Ok (element_value (sm_bytes memory) a i), s)" if "i < at_element_count a" for i
  proof -
    from that have "i * at_element_byte_size a + at_element_byte_size a \<le> at_element_count a * at_element_byte_size a"
      using mult_le_mono1 [of "Suc i" "at_element_count a" "at_element_byte_size a"] by simp
    with a len show ?thesis
      by (simp add: materialize_array_element_def decode_integer_run bindM_def returnM_def element_value_def t aggregate_type_def)
  qed
  then have "mapM (materialize_array_element (sm_bytes memory) a) [0..<at_element_count a] s =
      (Ok (map (element_value (sm_bytes memory) a) [0..<at_element_count a]), s)"
    by (intro mapM_run) simp
  with a len show ?thesis
    by (simp add: materialize_bytes_def materialize_bounded_array_bytes_def array_layout_ok_def t aggregate_type_def
        decoded_def bindM_def returnM_def)
next
  case LK_Enumeration
  with ok len show ?thesis
    by (auto simp: value_type_ok_def materialize_bytes_def enum_metadata_ok_def enum_ok_def scalar_type_def decode_snapshot_scalar_def
        decoded_def bindM_def returnM_def)
qed (use ok len in \<open>auto simp: value_type_ok_def materialize_bytes_def scalar_type_def decode_snapshot_scalar_def decoded_def
    bindM_def returnM_def\<close>)

text \<open>C25. Bit fields. For every bit field that the type reader lets through, the loop over the bits, which collects them one at a
  time, masks the field and extends its sign by hand, returns what arithmetic gives: the bytes of the aggregate as one number,
  shifted by the offset of the field, cut to its width as a signed or an unsigned number, in the width of its storage.\<close>

theorem bit_field_arithmetic:
  assumes "bit_field_ok (length bytes) m" and "mt_bit_slice m = Some bits"
  shows "decode_bounded_bit_field bytes m s = (Ok (word_of_int
    (bit_field_number bytes (bs_bit_offset bits) (bs_bit_size bits) (mt_is_signed m) (8 * mt_byte_size m))), s)"
  using assms by (intro decode_bit_field_run) (auto simp: bit_field_ok_def)

definition example_bit_field :: struct_member_type where
  "example_bit_field = Struct_member_type [0x66] 0 4 True LK_Integer None (Some \<lparr>bs_bit_offset = 3, bs_bit_size = 9\<rparr>) None []"

theorem bit_field_arithmetic_witness:
  "decode_bounded_bit_field [0xb5, 0xfb] example_bit_field () = (Ok 0xffffff76, ())"
proof -
  have "bit_field_ok (length [0xb5, 0xfb :: u8]) example_bit_field"
    unfolding bit_field_ok_def example_bit_field_def 
    by (rule exI [of _ "[0x66]"], rule exI [of _ "4"], rule exI [of _ True], rule exI [of _ "\<lparr>bs_bit_offset = 3, bs_bit_size = 9\<rparr>"]) simp
  moreover have "mt_bit_slice example_bit_field = Some \<lparr>bs_bit_offset = 3, bs_bit_size = 9\<rparr>"
    by (simp add: example_bit_field_def)
  ultimately have "decode_bounded_bit_field [0xb5, 0xfb] example_bit_field () = (Ok (word_of_int
      (bit_field_number [0xb5, 0xfb] 3 9 True 32)), ())"
    using bit_field_arithmetic [of "[0xb5, 0xfb]" example_bit_field "\<lparr>bs_bit_offset = 3, bs_bit_size = 9\<rparr>" "()"]
    by (simp add: example_bit_field_def)
  moreover have "bit_field_number [0xb5, 0xfb] 3 9 True 32 = 0xffffff76"
    by (simp add: bit_field_number_def drop_bit_eq_div take_bit_eq_mod signed_take_bit_eq_take_bit_shift)
  ultimately show ?thesis by simp
qed

end
