(* ===== verification/SnapshotValuesProps.thy ===== *)
theory SnapshotValuesProps
  imports DwarfValuesProps
begin

text \<open>
  Looking up a variable of a core: on any debug information it ends, stays in bounds and changes nothing, and what it
  returns is the decoding of bytes of a well-formed type.
\<close>

section \<open>Location lists\<close>

lemma twp_dwarf4_location_loop:
  "length locations - c < n \<Longrightarrow> c \<le> length locations \<Longrightarrow>
     twp (dwarf4_location_loop n locations pc base) (\<lambda>_ _. True) (\<lambda>e _. no_ub e) c"
proof (induction n arbitrary: c base)
  case (Suc n)
  have rest: "twp (dwarf4_location_loop n locations pc base) (\<lambda>_ _. True) (\<lambda>e _. no_ub e) c'"
    if "c + 8 \<le> c'" "c' \<le> length locations" "c < length locations" for c' base
    by (rule Suc.IH) (use that Suc.prems in linarith)+
  show ?case
    using Suc.prems(2)
    by (auto simp: twp_simps intro!: twp_read [OF reads_di(4) [OF order_refl]] twp_read [OF reads_di(2) [OF order_refl]]
        twp_inspects [OF inspects_add_unsigned] rest)
qed simp

lemma inspects_dwarf4_location: "inspects (active_dwarf4_location_expression ds offset pc base)"
  unfolding active_dwarf4_location_expression_def
  by (intro inspects_intros inspects_at_cursor twp_dwarf4_location_loop) auto

lemma twp_dwarf5_location_loop:
  assumes "limit \<le> length tab"
  shows "limit - c < n \<Longrightarrow> c \<le> limit \<Longrightarrow> twp (dwarf5_location_loop n tab limit pc base) (\<lambda>_ _. True) (\<lambda>e _. no_ub e) c"
proof (induction n arbitrary: c base)
  case (Suc n)
  have rest: "twp (dwarf5_location_loop n tab limit pc base) (\<lambda>_ _. True) (\<lambda>e _. no_ub e) c'"
    if "c + 1 \<le> c'" "c' \<le> limit" "c < limit" for c' base
    by (rule Suc.IH) (use that Suc.prems in linarith)+
  show ?case
    using Suc.prems(2)
    by (auto simp: twp_simps intro!: twp_read [OF reads_di(1) [OF assms]] twp_read [OF reads_di(4) [OF assms]]
        twp_read [OF reads_di(5) [OF assms]] twp_inspects [OF inspects_add_unsigned] rest)
qed simp

lemma yields_loclists_contribution_at:
  "yields (loclists_contribution_at ds start) (\<lambda>c. lc_end c \<le> length (ds_location_lists ds))"
  unfolding loclists_contribution_at_def Let_def
  by (auto intro!: yields_splits yields_bindM [OF inspects_number_at [unfolded inspects_yields]])

lemma yields_contribution_loop:
  "length (ds_location_lists ds) - start < n \<Longrightarrow>
     yields (contribution_loop n ds wanted start) (\<lambda>c. lc_end c \<le> length (ds_location_lists ds) \<and> wanted < lc_end c)"
proof (induction n arbitrary: start)
  case (Suc n)
  then show ?case by (auto intro!: yields_bindM [OF yields_loclists_contribution_at] Suc.IH)
qed simp

lemma inspects_dwarf5_location: "inspects (active_dwarf5_location_expression ds offset pc base)"
  unfolding active_dwarf5_location_expression_def loclists_contribution_for_offset_def inspects_yields
  by (rule yields_bindM [OF yields_contribution_loop])
    (auto simp flip: inspects_yields simp del: dwarf5_location_loop.simps intro!: inspects_at_cursor twp_dwarf5_location_loop)

lemma inspects_location_expression [inspects_intros]:
  "inspects (location_expression ds location pc base version unsupported)"
  unfolding location_expression_def active_location_expression_def
  by (intro inspects_intros inspects_dwarf4_location inspects_dwarf5_location) simp_all

section \<open>Operands\<close>

lemma inspects_breg3 [inspects_intros]: "inspects (evaluate_breg3_xor_stack_value expression bx)"
  unfolding evaluate_breg3_xor_stack_value_def
  by (intro inspects_intros inspects_at_cursor)
    (auto simp: twp_simps Suc_le_eq intro!: twp_read [OF reads_di(6) [OF order_refl]] twp_read [OF reads_di(5) [OF order_refl]]
      twp_inspects [OF inspects_add_signed])

lemma inspects_fbreg_offset [inspects_intros]: "inspects (decode_snapshot_fbreg_offset expression)"
  unfolding decode_snapshot_fbreg_offset_def require_end_def
  by (intro inspects_intros inspects_at_cursor)
    (auto simp: twp_simps Suc_le_eq intro!: twp_read [OF reads_di(6) [OF order_refl]])

lemma reads_piece:
  "reads 0 (length expression) (read_op expression what)" "reads 0 (length expression) (require_piece expression k what)"
  "reads 0 (length expression) (require_end expression what r)"
proof -
  show op: "reads 0 (length expression) (read_op expression what)" for what
    by (auto simp: reads_def read_op_def twp_simps)
  then show "reads 0 (length expression) (require_piece expression k what)"
    unfolding require_piece_def by (intro reads_bindM0 reads_if reads_throwM reads_returnM reads_di0 op) simp_all
  show "reads 0 (length expression) (require_end expression what r)"
    by (auto simp: reads_def require_end_def twp_simps)
qed

lemma inspects_register_pieces [inspects_intros]: "inspects (register_pieces expression t)"
proof -
  have reads: "reads 0 (length expression) (union_pieces expression)" "reads 0 (length expression) (wide_pieces expression)"
    "reads 0 (length expression) (pair_pieces expression)"
    unfolding union_pieces_def wide_pieces_def pair_pieces_def
    by (intro reads_bindM0 reads_thenM reads_if reads_throwM reads_returnM reads_piece; simp)+
  then show ?thesis
    unfolding register_pieces_def
    by (intro inspects_at_cursor twp_mono [OF readsD [of 0 "length expression"]] reads_if reads_throwM) auto
qed


section \<open>Memory\<close>

lemma yields_capture_loop:
  "yields (capture_loop cs a index n acc) (\<lambda>r. length (fst r) = length (fst acc) + n)"
proof (induction n arbitrary: index acc)
  case (Suc n)
  obtain bytes c om where acc: "acc = (bytes, c, om)" by (cases acc)
  have "yields (catch_runtime_error (bindM (core_read_memory cs (a + of_nat index) 1) (\<lambda>byte. returnM (bytes @ [hd byte], True, om)))
      (returnM (bytes @ [0], c, True))) (\<lambda>r. length (fst r) = Suc (length bytes))"
    unfolding yields_def
  proof
    fix s
    show "twp (catch_runtime_error (bindM (core_read_memory cs (a + of_nat index) 1) (\<lambda>byte. returnM (bytes @ [hd byte], True, om)))
      (returnM (bytes @ [0], c, True))) (\<lambda>r s'. s' = s \<and> length (fst r) = Suc (length bytes)) (\<lambda>e s'. no_ub e \<and> s' = s) s"
      by (cases rule: inspects_cases [OF core_memory.rd_inspects, of cs "a + of_nat index" 1 s])
        (auto simp: twp_def catch_runtime_error_def catchM_def bindM_def returnM_def throwM_def split: exn.split)
  qed
  then show ?case
    by (auto simp: acc intro!: yields_bindM yields_mono [OF Suc.IH])
qed simp

lemma read_omitted_length: "read_omitted fs regular cs mp a len k = (Ok r, k') \<Longrightarrow> length (sm_bytes r) = len"
  using read_omitted_Ok [of fs regular cs mp a len k r k'] by (auto simp: read_from_artifact_def)

lemma yields_read_snapshot_memory:
  "yields (read_snapshot_memory fs regular cs mp a len) (\<lambda>r. length (sm_bytes r) = len)"
proof -
  have "yields (read_omitted fs regular cs mp a len) (\<lambda>r. length (sm_bytes r) = len)"
    by (auto simp: yields_def intro!: twp_looks [OF inspects_read_omitted] read_omitted_length)
  then show ?thesis
    unfolding read_snapshot_memory_def
    by (auto intro!: yields_splits yields_bindM [OF yields_capture_loop])
qed

lemmas inspects_read_snapshot_memory [inspects_intros] = yields_inspects [OF yields_read_snapshot_memory]

text \<open>The memory of a core with the files of its modules, as the reader of the call-frame information.\<close>

interpretation snapshot_memory: cfi_reader
  "\<lambda>address len. bindM (read_snapshot_memory fs regular cs mp address len) (\<lambda>m. returnM (sm_bytes m))" for fs regular cs mp
  by unfold_locales (intro inspects_intros)

lemma inspects_snapshot_frame_base:
  "subprogram < length dies \<Longrightarrow> inspects (snapshot_frame_base fs regular dies subprogram so frame mp owner)"
  unfolding snapshot_frame_base_def Let_def
  by (intro inspects_intros inspects_die_at snapshot_memory.caller_frame_at_inspects) simp_all


section \<open>What a value says of its bytes\<close>

text \<open>A value without the account of its storage and its pointee.\<close>

definition bare :: "local_value \<Rightarrow> local_value" where
  "bare v = v\<lparr>lv_storage := LS_Computed, lv_storage_module_path := [], lv_storage_file_path := [], lv_storage_file_offset := 0,
     lv_pointee_type := None\<rparr>"

text \<open>The account of the storage, when it is memory.\<close>

definition stored_as :: "local_value \<Rightarrow> snapshot_memory_read \<Rightarrow> bool" where
  "stored_as v m = (case sm_provenance m of
     MP_Core \<Rightarrow> lv_storage v = LS_CoreMemory
   | MP_RuntimeArtifact \<Rightarrow> lv_storage v = LS_RuntimeArtifact \<and> sm_module_path m = lv_module_path v \<and>
       lv_storage_module_path v = sm_module_path m \<and> lv_storage_file_path v = sm_module_file_path m \<and>
       lv_storage_file_offset v = sm_artifact_file_offset m)"

definition spells ::
  "'k files \<Rightarrow> (path \<Rightarrow> bool) \<Rightarrow> core_snapshot \<Rightarrow> module_paths \<Rightarrow> 'k \<Rightarrow> path \<Rightarrow> u8 list \<Rightarrow> local_value_type \<Rightarrow> local_value \<Rightarrow> bool" where
  "spells fs regular cs mp k module_path name t v \<longleftrightarrow> (\<exists>bytes. length bytes = vt_byte_size t \<and>
     bare v = decoded module_path name t bytes \<and>
     (lv_storage v = LS_CoreMemory \<or> lv_storage v = LS_RuntimeArtifact \<longrightarrow>
       (\<exists>a m. read_snapshot_memory fs regular cs mp a (vt_byte_size t) k = (Ok m, k) \<and> sm_bytes m = bytes \<and> stored_as v m)))"

text \<open>A value of a type, with its pointee.\<close>

definition read_value ::
  "'k files \<Rightarrow> (path \<Rightarrow> bool) \<Rightarrow> core_snapshot \<Rightarrow> module_paths \<Rightarrow> 'k \<Rightarrow> path \<Rightarrow> u8 list \<Rightarrow> local_value_type \<Rightarrow> local_value_type option \<Rightarrow>
     local_value \<Rightarrow> bool" where
  "read_value fs regular cs mp k module_path name t pointee v \<longleftrightarrow>
     spells fs regular cs mp k module_path name t v \<and> lv_pointee_type v = pointee"

lemma decoded_simps [simp]:
  "lv_kind (decoded path name t bytes) = vt_kind t" "lv_pointee_type (decoded path name t bytes) = None"
  "lv_module_path (decoded path name t bytes) = path" "lv_storage (decoded path name t bytes) = LS_Computed"
  "bare (decoded path name t bytes) = decoded path name t bytes"
  by (auto simp: decoded_def scalar_value_def bare_def split: local_value_kind.split)

lemma bare_simps [simp]:
  "bare (v\<lparr>lv_storage := a\<rparr>) = bare v" "bare (v\<lparr>lv_storage_module_path := p\<rparr>) = bare v" "bare (v\<lparr>lv_storage_file_path := p\<rparr>) = bare v"
  "bare (v\<lparr>lv_storage_file_offset := n\<rparr>) = bare v" "bare (v\<lparr>lv_pointee_type := q\<rparr>) = bare v"
  by (simp_all add: bare_def)


lemma stored_as_pointee [simp]: "stored_as (v\<lparr>lv_pointee_type := q\<rparr>) m = stored_as v m"
  by (cases "sm_provenance m") (simp_all add: stored_as_def)

lemma lv_fields_bare:
  assumes "bare v = decoded path name t bytes"
  shows "lv_kind v = vt_kind t" "lv_module_path v = path"
proof -
  have "lv_kind (bare v) = lv_kind v" "lv_module_path (bare v) = lv_module_path v" by (simp_all add: bare_def)
  with assms show "lv_kind v = vt_kind t" "lv_module_path v = path" by simp_all
qed

lemma yields_check_pointer_metadata: "inspects (check_pointer_metadata p)"
proof -
  have "inspects (check_pointee_members LogicError messages t ms)" for messages t ms
    by (induction ms) (auto intro!: inspects_intros)
  then show ?thesis unfolding check_pointer_metadata_def by (intro inspects_intros) auto
qed

lemma attach_reads:
  assumes "root_type_ok \<lparr>rt_value_type = t, rt_pointee_type = pointee\<rparr>" and "spells fs regular cs mp k path name t v"
    and "lv_pointee_type v = None"
  shows "yields_at k (attach_pointer_metadata pointee v) (read_value fs regular cs mp k path name t pointee)"
proof -
  from assms(2) have kind: "lv_kind v = vt_kind t" by (auto simp: spells_def dest: lv_fields_bare)
  have "spells fs regular cs mp k path name t (v\<lparr>lv_pointee_type := q\<rparr>)" for q
    using assms(2) by (simp add: spells_def)
  with assms kind show ?thesis
    unfolding attach_pointer_metadata_def read_value_def
    by (auto simp: root_type_ok_def intro!: yields_at_thenM [OF yields_at_inspects [OF yields_check_pointer_metadata]]
        split: option.split if_splits)
qed

lemma materialize_reads:
  assumes t: "value_type_ok t" and read: "read_snapshot_memory fs regular cs mp a (vt_byte_size t) k = (Ok m, k)"
  shows "yields_at k (materialize_snapshot_memory_value path name t m True)
    (\<lambda>v. spells fs regular cs mp k path name t v \<and> lv_pointee_type v = None)"
proof -
  from yields_Ok [OF yields_read_snapshot_memory read] have len: "length (sm_bytes m) = vt_byte_size t" by simp
  have "yields_at k (materialize_bytes path name t m) (\<lambda>v. v = decoded path name t (sm_bytes m))"
    by (simp add: yields_at_def twp_def materialize_bytes_run [OF t len])
  moreover have "spells fs regular cs mp k path name t v"
    if "bare v = decoded path name t (sm_bytes m)" "stored_as v m" for v
    unfolding spells_def using len read that by blast
  ultimately show ?thesis
    unfolding materialize_snapshot_memory_value_def
    by (cases "sm_provenance m") (auto simp: stored_as_def intro!: yields_at_bindM)
qed

lemma register_spells:
  assumes "bare v = decoded path name t bytes" and "length bytes = vt_byte_size t" and "lv_storage v \<notin> {LS_CoreMemory, LS_RuntimeArtifact}"
  shows "spells fs regular cs mp k path name t v"
  using assms by (auto simp: spells_def)

lemma fbreg_reads:
  assumes "subprogram < length dies"
  shows "yields_at k (fbreg_memory fs regular dies subprogram so frame mp owner expression n what)
    (\<lambda>m. \<exists>a. read_snapshot_memory fs regular (so_core so) mp a n k = (Ok m, k))"
  unfolding fbreg_memory_def
  by (intro looking inspects_snapshot_frame_base [OF assms] inspects_fbreg_offset inspects_add_signed
      yields_at_mono [OF yields_at_inspects [OF inspects_read_snapshot_memory]]) blast


section \<open>Values in registers\<close>

lemma low_bytes: "n \<le> 8 \<Longrightarrow> \<exists>bytes. length bytes = n \<and> le_word bytes = take_bit (8 * n) (v :: u64)"
proof (intro exI conjI)
  assume n: "n \<le> 8"
  show "le_word (map (\<lambda>i. byte_of i v) [0..<n]) = take_bit (8 * n) v"
    by (rule bit_word_eqI) (use n in \<open>auto simp: bit_le_word bit_byte_of bit_take_bit_iff div_less_iff_less_mult\<close>)
qed simp

lemma yields_truncate_integer: "n \<le> 8 \<Longrightarrow> yields (truncate_integer v n) (\<lambda>r. \<exists>bytes. length bytes = n \<and> r = le_word bytes)"
proof -
  assume n: "n \<le> 8"
  then obtain bytes where bytes: "length bytes = n" "le_word bytes = take_bit (8 * n) v" using low_bytes [of n v] by blast
  show ?thesis
  proof (cases "n = 8")
    case True
    with bytes have "le_word bytes = v" by (simp add: take_bit_word_eq_self)
    with True bytes show ?thesis by (auto simp: truncate_integer_def intro!: exI [of _ bytes])
  next
    case False
    with n have "n < 8" by simp
    with bytes show ?thesis by (auto simp: truncate_integer_def take_bit_eq_mask mask_eq_exp_minus_1 mult.commute intro!: exI [of _ bytes])
  qed
qed

lemma scalar_size: "value_type_ok t \<Longrightarrow> vt_kind t \<notin> {LK_Structure, LK_Union, LK_Array} \<Longrightarrow> vt_byte_size t \<le> 8"
  by (auto simp: value_type_ok_def scalar_type_def enum_ok_def split: local_value_kind.splits)

lemma scalar_decoded:
  assumes "value_type_ok t" and "vt_kind t \<notin> {LK_Structure, LK_Union, LK_Array}"
  shows "decoded path name t bytes =
    (scalar_value path name (le_word bytes) (vt_byte_size t) (vt_is_signed t) (vt_kind t))\<lparr>lv_enum_type := vt_enum_type t\<rparr>"
  using assms by (auto simp: decoded_def split: local_value_kind.splits)

lemma no_enum: "value_type_ok t \<Longrightarrow> vt_kind t \<noteq> LK_Enumeration \<Longrightarrow> vt_enum_type t = None"
  by (auto simp: value_type_ok_def scalar_type_def aggregate_type_def array_ok_def union_ok_def structure_ok_def split: local_value_kind.splits)

text \<open>A scalar of a register: the low bytes of the register.\<close>

lemma scalar_reads:
  assumes "value_type_ok t" and "vt_kind t \<notin> {LK_Structure, LK_Union, LK_Array}" and "length bytes = vt_byte_size t"
    and "v = (scalar_value path name (le_word bytes) (vt_byte_size t) (vt_is_signed t) (vt_kind t))\<lparr>lv_storage := st, lv_enum_type := vt_enum_type t\<rparr>"
    and "st \<notin> {LS_CoreMemory, LS_RuntimeArtifact}"
  shows "spells fs regular cs mp k path name t v \<and> lv_pointee_type v = None"
proof -
  have "bare v = bare (decoded path name t bytes)"
    unfolding scalar_decoded [OF assms(1,2)] assms(4) by (simp add: bare_def)
  with assms(3-5) show ?thesis by (auto simp: scalar_value_def intro: register_spells)
qed

lemma le_word_padded: "le_word (bytes @ replicate n 0) = le_word bytes"
proof -
  have "le_word (replicate n 0) = 0" by (induction n) simp_all
  then show ?thesis by (induction bytes) simp_all
qed

lemma xmm_bytes: "\<exists>bytes. length bytes = n \<and> le_word bytes = le_word (take n xmm)"
  by (rule exI [of _ "take n xmm @ replicate (n - length xmm) 0"]) (simp add: le_word_padded)

lemma yields_store_pieces:
  assumes "\<And>op. inspects (register op)"
  shows "yields (store_pieces register offset ps bytes) (\<lambda>r. length r = length bytes)"
proof (induction ps arbitrary: offset bytes)
  case (Cons p ps)
  have "yields (store_piece bytes offset w v) (\<lambda>r. length r = length bytes)" for w v
    by (auto simp: store_piece_def)
  then show ?case
    by (cases p) (auto intro!: yields_bindM [OF assms [unfolded inspects_yields]] yields_bindM yields_mono [OF Cons.IH])
qed simp

lemma yields_register_piece_value:
  "(\<And>op. inspects (register op)) \<Longrightarrow> yields (evaluate_register_piece_value expression register t) (\<lambda>r. length r = vt_byte_size t)"
  unfolding evaluate_register_piece_value_def
  by (rule yields_bindM [OF inspects_register_pieces [unfolded inspects_yields]]) (auto intro: yields_mono [OF yields_store_pieces])

lemma decode_structure_run:
  assumes ok: "value_type_ok t" and "vt_kind t = LK_Structure" and len: "length bytes = vt_byte_size t"
  shows "decode_structure path name t bytes s = (Ok (decoded path name t bytes), s)"
proof -
  from ok assms(2) obtain n ms where t: "t = aggregate_type n LK_Structure ms" and n: "0 < n" "n \<le> kMaxLocalStructSize" "members_ok (member_ok n) ms"
    by (auto simp: value_type_ok_def structure_ok_def)
  have "mapM (materialize_member u bytes n) ms s = (Ok (map (member_value bytes) ms), s)" for u
    using n len by (intro mapM_run member_run) (auto simp: members_ok_def list_all_iff t aggregate_type_def)
  with n len show ?thesis
    by (simp add: decode_structure_def t aggregate_type_def decoded_def bindM_def returnM_def)
qed

lemma piece_values_run:
  assumes "value_type_ok t" and "length bytes = vt_byte_size t"
  shows "vt_kind t = LK_Array \<Longrightarrow> materialize_bounded_array_bytes path name t bytes s = (Ok (decoded path name t bytes), s)"
    and "vt_kind t = LK_Union \<Longrightarrow> materialize_bounded_union_bytes path name t bytes s = (Ok (decoded path name t bytes), s)"
proof -
  define m where "m = \<lparr>sm_bytes = bytes, sm_provenance = MP_Core, sm_module_path = [], sm_module_file_path = [], sm_artifact_file_offset = 0\<rparr>"
  have "length (sm_bytes m) = vt_byte_size t" by (simp add: m_def assms(2))
  note run = materialize_bytes_run [OF assms(1) this, of path name s]
  show "vt_kind t = LK_Array \<Longrightarrow> materialize_bounded_array_bytes path name t bytes s = (Ok (decoded path name t bytes), s)"
    "vt_kind t = LK_Union \<Longrightarrow> materialize_bounded_union_bytes path name t bytes s = (Ok (decoded path name t bytes), s)"
    using run by (simp_all add: materialize_bytes_def m_def)
qed


section \<open>A value at a location\<close>

lemma inspects_snapshot_thread [inspects_intros]: "inspects (snapshot_thread so tid)"
  unfolding snapshot_thread_def by (intro inspects_intros) simp_all

lemma inspects_inline_register [inspects_intros]: "inspects (inline_register regs unproven op)"
  unfolding inline_register_def by (intro inspects_intros) simp_all

lemma truncated_reads:
  assumes root: "root_type_ok \<lparr>rt_value_type = t, rt_pointee_type = pointee\<rparr>" and kind: "vt_kind t \<notin> {LK_Structure, LK_Union, LK_Array}"
    and st: "st \<notin> {LS_CoreMemory, LS_RuntimeArtifact}"
  shows "yields_at k (bindM (truncate_integer r (vt_byte_size t)) (\<lambda>raw. attach_pointer_metadata pointee
      ((scalar_value path name raw (vt_byte_size t) (vt_is_signed t) (vt_kind t))\<lparr>lv_storage := st, lv_enum_type := vt_enum_type t\<rparr>)))
    (read_value fs regular cs mp k path name t pointee)"
proof -
  from root have t: "value_type_ok t" by (simp add: root_type_ok_def)
  have "yields_at k (attach_pointer_metadata pointee
      ((scalar_value path name (le_word bytes) (vt_byte_size t) (vt_is_signed t) (vt_kind t))\<lparr>lv_storage := st, lv_enum_type := vt_enum_type t\<rparr>))
    (read_value fs regular cs mp k path name t pointee)" if "length bytes = vt_byte_size t" for bytes
    using scalar_reads [OF t kind that _ st, of _ path name fs regular cs mp k] by (intro attach_reads [OF root]) auto
  then show ?thesis
    by (auto intro!: yields_at_bindM [OF yields_at_yields [OF yields_truncate_integer [OF scalar_size [OF t kind]]]])
qed

lemma attach_none: "lv_kind v \<noteq> LK_Pointer \<Longrightarrow> attach_pointer_metadata pointee v = returnM v"
  by (simp add: attach_pointer_metadata_def)

lemma xmm_reads:
  assumes "root_type_ok \<lparr>rt_value_type = t, rt_pointee_type = pointee\<rparr>"
  shows "yields_at k (materialize_snapshot_xmm_value fs so frame owner name t expression)
    (read_value fs regular cs mp k (sa_module_path owner) name t pointee)"
proof -
  have "read_value fs regular cs mp k path name t pointee
      ((scalar_value path name (le_word (take (vt_byte_size t) xmm)) (vt_byte_size t) False LK_Floating)\<lparr>lv_storage := LS_CoreRegister\<rparr>)"
    if kind: "vt_kind t = LK_Floating" for path xmm
  proof -
    obtain bytes where bytes: "length bytes = vt_byte_size t" "le_word bytes = le_word (take (vt_byte_size t) xmm)"
      using xmm_bytes by blast
    from assms kind have t: "value_type_ok t" "pointee = None" "\<not> vt_is_signed t" "vt_enum_type t = None"
      by (auto simp: root_type_ok_def value_type_ok_def scalar_type_def)
    show ?thesis
      unfolding read_value_def using t kind assms
      by (intro conjI scalar_reads [where st = LS_CoreRegister, OF t(1) _ bytes(1), THEN conjunct1])
        (auto simp: bytes scalar_value_def)
  qed
  then show ?thesis
    unfolding materialize_snapshot_xmm_value_def
    by (intro yields_at_if looking inspects_intros) (auto intro: inspects_intros)
qed


lemma truncated_plain_reads:
  assumes root: "root_type_ok \<lparr>rt_value_type = t, rt_pointee_type = pointee\<rparr>"
    and kind: "vt_kind t \<notin> {LK_Structure, LK_Union, LK_Array, LK_Enumeration}" and st: "st \<notin> {LS_CoreMemory, LS_RuntimeArtifact}"
  shows "yields_at k (bindM (truncate_integer r (vt_byte_size t)) (\<lambda>raw. attach_pointer_metadata pointee
      ((scalar_value path name raw (vt_byte_size t) (vt_is_signed t) (vt_kind t))\<lparr>lv_storage := st\<rparr>)))
    (read_value fs regular cs mp k path name t pointee)"
proof -
  from root kind have "vt_enum_type t = None" by (auto simp: root_type_ok_def intro: no_enum)
  with kind show ?thesis
    using truncated_reads [OF root _ st, of k r path name fs regular cs mp] by (simp add: scalar_value_def)
qed

lemma owned_register_reads:
  assumes "root_type_ok \<lparr>rt_value_type = t, rt_pointee_type = pointee\<rparr>"
  shows "yields_at k (owned_register_value owner name t pointee expression register reg unowned)
    (read_value fs regular cs mp k (sa_module_path owner) name t pointee)"
  unfolding owned_register_value_def
  by (intro yields_at_splits) (auto intro!: truncated_plain_reads [OF assms])

lemma breg3_reads:
  assumes "root_type_ok \<lparr>rt_value_type = t, rt_pointee_type = pointee\<rparr>"
  shows "yields_at k (breg3_value frame owner name t pointee expression) (read_value fs regular cs mp k (sa_module_path owner) name t pointee)"
proof -
  have "yields_at k (bindM (truncate_integer r (vt_byte_size t)) (\<lambda>raw. attach_pointer_metadata pointee
      (scalar_value path name raw (vt_byte_size t) (vt_is_signed t) (vt_kind t)))) (read_value fs regular cs mp k path name t pointee)"
    if "vt_kind t \<notin> {LK_Structure, LK_Union, LK_Array, LK_Enumeration, LK_Floating}" for r path
    using truncated_plain_reads [OF assms, of LS_Computed k r path name fs regular cs mp] that by (simp add: scalar_value_def)
  then show ?thesis
    unfolding breg3_value_def by (auto intro!: yields_at_splits looking [OF inspects_breg3])
qed

text \<open>An aggregate in registers.\<close>

lemma piece_reads:
  assumes root: "root_type_ok \<lparr>rt_value_type = t, rt_pointee_type = pointee\<rparr>" and "vt_kind t \<noteq> LK_Pointer" and "length bytes = vt_byte_size t"
  shows "read_value fs regular cs mp k path name t pointee ((decoded path name t bytes)\<lparr>lv_storage := LS_CoreRegister\<rparr>)"
  unfolding read_value_def
proof
  show "spells fs regular cs mp k path name t ((decoded path name t bytes)\<lparr>lv_storage := LS_CoreRegister\<rparr>)"
    by (rule register_spells) (use assms in simp_all)
qed (use root assms(2) in \<open>simp add: root_type_ok_def\<close>)

lemma piece_register_reads:
  assumes root: "root_type_ok \<lparr>rt_value_type = t, rt_pointee_type = pointee\<rparr>" and kind: "vt_kind t = LK_Structure"
  shows "yields_at k (piece_register_value fs frame owner name t expression) (read_value fs regular cs mp k (sa_module_path owner) name t pointee)"
proof -
  from root have t: "value_type_ok t" by (simp add: root_type_ok_def)
  have "inspects (if op = kDwOpReg5 then returnM di else if op = kDwOpReg4 then returnM si else throwM (RuntimeError m))" for op di si m
    by (intro inspects_intros) simp
  note piece = yields_at_bindM [OF yields_at_yields [OF yields_register_piece_value [OF this]]]
  have "yields_at k (bindM (decode_structure path name t bytes) (\<lambda>result. returnM (result\<lparr>lv_storage := LS_CoreRegister\<rparr>)))
      (read_value fs regular cs mp k path name t pointee)" if "length bytes = vt_byte_size t" for path bytes
    using piece_reads [OF root _ that] kind by (simp add: yields_at_def twp_def bindM_def returnM_def decode_structure_run [OF t kind that])
  then show ?thesis
    unfolding piece_register_value_def
    by (auto intro!: piece looking [OF inspects_open_elf] split: option.split)
qed

lemma typed_register_reads:
  assumes root: "root_type_ok \<lparr>rt_value_type = t, rt_pointee_type = pointee\<rparr>" and kind: "vt_kind t \<in> {LK_Structure, LK_Array, LK_Union}"
    and len: "length bytes = vt_byte_size t"
  shows "yields_at k (typed_register_value fs owner name t bytes) (read_value fs regular cs mp k (sa_module_path owner) name t pointee)"
proof -
  from root have t: "value_type_ok t" by (simp add: root_type_ok_def)
  let ?P = "\<lambda>v. v = decoded (sa_module_path owner) name t bytes"
  have runs: "vt_kind t = LK_Structure \<Longrightarrow> yields_at k (decode_structure (sa_module_path owner) name t bytes) ?P"
    "vt_kind t = LK_Array \<Longrightarrow> yields_at k (materialize_bounded_array_bytes (sa_module_path owner) name t bytes) ?P"
    "vt_kind t = LK_Union \<Longrightarrow> yields_at k (materialize_bounded_union_bytes (sa_module_path owner) name t bytes) ?P"
    by (simp_all add: yields_at_def twp_def decode_structure_run [OF t _ len] piece_values_run [OF t len])
  have "yields_at k (if vt_kind t = LK_Structure then
       bindM (open_elf fs (bytes_text (sa_module_file_path owner))) (\<lambda>_. decode_structure (sa_module_path owner) name t bytes)
     else if vt_kind t = LK_Array then materialize_bounded_array_bytes (sa_module_path owner) name t bytes
     else materialize_bounded_union_bytes (sa_module_path owner) name t bytes) ?P"
    using kind by (auto intro!: looking [OF inspects_open_elf] runs)
  then show ?thesis
    unfolding typed_register_value_def
    by (rule yields_at_bindM) (use kind in \<open>auto intro!: piece_reads [OF root _ len]\<close>)
qed

lemma scalar_register_reads:
  fixes k :: 'k
  assumes root: "root_type_ok \<lparr>rt_value_type = t, rt_pointee_type = pointee\<rparr>" and kind: "vt_kind t \<notin> {LK_Structure, LK_Union, LK_Array}"
  shows "yields_at k (scalar_register_value owner name t pointee raw) (read_value fs regular cs mp k (sa_module_path owner) name t pointee)"
proof -
  from root have t: "value_type_ok t" by (simp add: root_type_ok_def)
  let ?v = "\<lambda>r. (scalar_value (sa_module_path owner) name r (vt_byte_size t) (vt_is_signed t) (vt_kind t))
    \<lparr>lv_storage := LS_CoreRegister, lv_enum_type := vt_enum_type t\<rparr>"
  have "scalar_register_value owner name t pointee raw =
      bindM (truncate_integer raw (vt_byte_size t)) (\<lambda>r. attach_pointer_metadata pointee (?v r) :: ('k, local_value) prog)"
    unfolding scalar_register_value_def Let_def
    by (rule arg_cong2 [of _ _ _ _ bindM])
      (use root t no_enum [OF t] in \<open>auto simp: root_type_ok_def attach_none scalar_value_def value_type_ok_def intro!: ext\<close>)
  then show ?thesis using truncated_reads [OF root kind, of LS_CoreRegister] by simp
qed


text \<open>A value in memory.\<close>

lemma memory_reads:
  assumes root: "root_type_ok \<lparr>rt_value_type = t, rt_pointee_type = pointee\<rparr>"
    and read: "read_snapshot_memory fs regular cs mp a (vt_byte_size t) k = (Ok m, k)"
  shows "yields_at k (bindM (materialize_snapshot_memory_value path name t m True) (attach_pointer_metadata pointee))
    (read_value fs regular cs mp k path name t pointee)"
proof (rule yields_at_bindM [OF materialize_reads [OF _ read]])
  show "value_type_ok t" using root by (simp add: root_type_ok_def)
qed (auto intro: attach_reads [OF root])

lemma plain_memory_reads:
  assumes root: "root_type_ok \<lparr>rt_value_type = t, rt_pointee_type = pointee\<rparr>" and "vt_kind t \<noteq> LK_Pointer"
    and read: "read_snapshot_memory fs regular cs mp a (vt_byte_size t) k = (Ok m, k)"
  shows "yields_at k (materialize_snapshot_memory_value path name t m True) (read_value fs regular cs mp k path name t pointee)"
proof (rule yields_at_mono [OF materialize_reads [OF _ read]])
  show "value_type_ok t" using root by (simp add: root_type_ok_def)
  fix v assume "spells fs regular cs mp k path name t v \<and> lv_pointee_type v = None"
  with root assms(2) show "read_value fs regular cs mp k path name t pointee v"
    unfolding read_value_def by (simp add: root_type_ok_def)
qed

lemma addr_reads:
  assumes "root_type_ok \<lparr>rt_value_type = t, rt_pointee_type = pointee\<rparr>"
  shows "yields_at k (addr_value fs regular so frame mp owner name t pointee expression)
    (read_value fs regular (so_core so) mp k (sa_module_path owner) name t pointee)"
  unfolding addr_value_def Let_def decode_snapshot_address_def
  by (intro yields_at_splits looking inspects_intros memory_reads [OF assms]) auto

lemma fbreg_refusal_pointer: "fbreg_refusal t = None \<Longrightarrow> vt_kind t \<noteq> LK_Pointer"
  by (auto simp: fbreg_refusal_def)

lemma snapshot_value_at_reads:
  assumes root: "root_type_ok \<lparr>rt_value_type = t, rt_pointee_type = pointee\<rparr>" and sub: "subprogram < length dies"
  shows "yields_at k (snapshot_value_at fs regular dies subprogram so frame mp owner name t pointee expression)
    (read_value fs regular (so_core so) mp k (sa_module_path owner) name t pointee)"
  unfolding snapshot_value_at_def Let_def
  by (intro yields_at_splits xmm_reads [OF root] piece_register_reads [OF root] owned_register_reads [OF root]
      breg3_reads [OF root] addr_reads [OF root] yields_at_bindM [OF fbreg_reads [OF sub]])
    (auto intro: plain_memory_reads [OF root fbreg_refusal_pointer])

lemma inline_value_at_reads:
  assumes root: "root_type_ok \<lparr>rt_value_type = t, rt_pointee_type = pointee\<rparr>" and sub: "subprogram < length dies"
  shows "yields_at k (inline_value_at fs regular dies subprogram so frame mp owner name t pointee expression)
    (read_value fs regular (so_core so) mp k (sa_module_path owner) name t pointee)"
  unfolding inline_value_at_def
  by (intro yields_at_splits yields_at_bindM [OF fbreg_reads [OF sub]] looking [OF inspects_snapshot_thread]
      looking [OF inspects_inline_register] yields_at_bindM [OF yields_at_yields [OF yields_register_piece_value [OF inspects_inline_register]]]
      typed_register_reads [OF root] scalar_register_reads [OF root])
    (auto intro: memory_reads [OF root])



section \<open>The entry of a name\<close>

text \<open>The choice among the entries of a set: the deepest one, when no other is as deep.\<close>

definition picked :: "(nat \<Rightarrow> nat \<Rightarrow> bool) \<Rightarrow> nat set \<Rightarrow> (nat \<times> nat) option \<Rightarrow> bool" where
  "picked at I best = (case best of
     None \<Rightarrow> \<forall>i \<in> I. \<forall>d. \<not> at i d
   | Some (i, d) \<Rightarrow> i \<in> I \<and> at i d \<and> (\<forall>j \<in> I. \<forall>d'. at j d' \<longrightarrow> d' < d \<or> j = i))"

lemma picked_empty: "picked at {} None"
  by (simp add: picked_def)

lemma picked_skip: "picked at I best \<Longrightarrow> (\<And>d. \<not> at i d) \<Longrightarrow> picked at (insert i I) best"
  by (auto simp: picked_def split: option.splits)

lemma picked_deeper:
  assumes "picked at I best" and "at i d" and "\<And>i d d'. at i d \<Longrightarrow> at i d' \<Longrightarrow> d' = d" and "best = None \<or> snd (the best) < d"
  shows "picked at (insert i I) (Some (i, d))"
proof -
  have "d' < d" if "j \<in> I" "at j d'" for j d'
  proof (cases best)
    case None
    with assms(1) that show ?thesis by (simp add: picked_def)
  next
    case (Some b)
    obtain i\<^sub>b d\<^sub>b where b: "b = (i\<^sub>b, d\<^sub>b)" by (cases b)
    with Some assms(1,4) that have "at i\<^sub>b d\<^sub>b" "d\<^sub>b < d" "d' < d\<^sub>b \<or> j = i\<^sub>b" by (auto simp: picked_def)
    then show ?thesis using assms(3) [of i\<^sub>b d\<^sub>b d'] that(2) by auto
  qed
  with assms(2) show ?thesis by (auto simp: picked_def)
qed

lemma picked_shallower:
  assumes "picked at I best" and "at i d" and "\<And>i d d'. at i d \<Longrightarrow> at i d' \<Longrightarrow> d' = d" and "best \<noteq> None" "d < snd (the best)"
  shows "picked at (insert i I) best"
proof -
  from assms(4) obtain i\<^sub>b d\<^sub>b where b: "best = Some (i\<^sub>b, d\<^sub>b)" by auto
  have "d' < d\<^sub>b" if "at i d'" for d' using assms(3) [OF assms(2) that] assms(5) by (simp add: b)
  then show ?thesis using assms(1) by (simp add: b picked_def)
qed

text \<open>An entry that declares a name, in a scope whose depth the search computes.\<close>

definition declared :: "die list \<Rightarrow> u8 list \<Rightarrow> (nat \<Rightarrow> ('s, nat option) prog) \<Rightarrow> 's \<Rightarrow> nat \<Rightarrow> nat \<Rightarrow> bool" where
  "declared dies name depth_of s i d \<longleftrightarrow> i < length dies \<and> is_local (dies ! i) \<and>
     (\<exists>a. attribute_with_abstract_origin dies i kDwAtName s = (Ok (Some a), s) \<and> av_text a = name) \<and>
     depth_of i s = (Ok (Some d), s)"

lemma declared_unique: "declared dies name f s i d \<Longrightarrow> declared dies name f s i d' \<Longrightarrow> d' = d"
  by (simp add: declared_def)

lemma snapshot_value_loop_picks:
  assumes ok: "dies_ok dies"
  shows "set is \<subseteq> {..<length dies} \<Longrightarrow> picked (declared dies name (\<lambda>i. active_scope_depth dies i sub pc) s) I best \<Longrightarrow>
    yields_at s (snapshot_value_loop dies sub pc name is best nested)
      (\<lambda>r. picked (declared dies name (\<lambda>i. active_scope_depth dies i sub pc) s) (I \<union> set is) (fst r))"
proof (induction "is" arbitrary: I best nested)
  case (Cons i "is")
  define at where "at = declared dies name (\<lambda>i. active_scope_depth dies i sub pc) s"
  from Cons.prems have i: "i < length dies" and rest: "set is \<subseteq> {..<length dies}" by auto
  have unique: "at i d \<Longrightarrow> at i d' \<Longrightarrow> d' = d" for i d d' by (simp add: at_def declared_unique)
  have at_i: "at i d \<longleftrightarrow> is_local (dies ! i) \<and> (\<exists>a. attribute_with_abstract_origin dies i kDwAtName s = (Ok (Some a), s) \<and> av_text a = name) \<and>
      active_scope_depth dies i sub pc s = (Ok (Some d), s)" for d
    by (simp add: at_def declared_def i)
  note prem = Cons.prems(2) [folded at_def] and IH = Cons.IH [OF rest, folded at_def, of "insert i I", simplified]
  note skip = IH [OF picked_skip [OF prem]] and deeper = IH [OF picked_deeper [OF prem _ unique]]
    and shallower = IH [OF picked_shallower [OF prem _ unique]]
  show ?case
    unfolding at_def [symmetric] snapshot_value_loop.simps Let_def bind_die_at [OF i]
    by (intro yields_at_splits looking [OF inspects_attribute_with_abstract_origin [OF i]]
        looking [OF inspects_active_scope_depth [OF ok i]] looking [OF inspects_is_descendant_of [OF ok i]])
      ((rule skip, (auto simp: at_i; fail))[1] | (rule deeper, (auto simp: at_i; fail)+)[1] | (rule shallower, (auto simp: at_i; fail)+)[1] | simp)+
qed simp


lemma inline_value_loop_picks:
  assumes ok: "dies_ok dies"
  shows "set is \<subseteq> {..<length dies} \<Longrightarrow> picked (declared dies name (\<lambda>i. inline_local_scope_depth dies i inl pc ranges base version) s) I best \<Longrightarrow>
    yields_at s (inline_value_loop dies inl pc ranges base version name is best)
      (\<lambda>r. picked (declared dies name (\<lambda>i. inline_local_scope_depth dies i inl pc ranges base version) s) (I \<union> set is) r)"
proof (induction "is" arbitrary: I best)
  case (Cons i "is")
  define at where "at = declared dies name (\<lambda>i. inline_local_scope_depth dies i inl pc ranges base version) s"
  from Cons.prems have i: "i < length dies" and rest: "set is \<subseteq> {..<length dies}" by auto
  have unique: "at i d \<Longrightarrow> at i d' \<Longrightarrow> d' = d" for i d d' by (simp add: at_def declared_unique)
  have at_i: "at i d \<longleftrightarrow> is_local (dies ! i) \<and> (\<exists>a. attribute_with_abstract_origin dies i kDwAtName s = (Ok (Some a), s) \<and> av_text a = name) \<and>
      inline_local_scope_depth dies i inl pc ranges base version s = (Ok (Some d), s)" for d
    by (simp add: at_def declared_def i)
  note prem = Cons.prems(2) [folded at_def] and IH = Cons.IH [OF rest, folded at_def, of "insert i I", simplified]
  note skip = IH [OF picked_skip [OF prem]] and deeper = IH [OF picked_deeper [OF prem _ unique]]
    and shallower = IH [OF picked_shallower [OF prem _ unique]]
  show ?case
    unfolding at_def [symmetric] inline_value_loop.simps Let_def bind_die_at [OF i]
    by (intro yields_at_splits looking [OF inspects_attribute_with_abstract_origin [OF i]]
        looking [OF inspects_walks(3) [OF ok i]])
      ((rule skip, (auto simp: at_i; fail))[1] | (rule deeper, (auto simp: at_i; fail)+)[1] | (rule shallower, (auto simp: at_i; fail)+)[1] | simp)+
qed simp

text \<open>The type that an entry refers to, and a value of it.\<close>

definition entry_value ::
  "'k files \<Rightarrow> (path \<Rightarrow> bool) \<Rightarrow> core_snapshot \<Rightarrow> module_paths \<Rightarrow> path \<Rightarrow> u8 list \<Rightarrow> die list \<Rightarrow> nat \<Rightarrow> 'k \<Rightarrow> local_value \<Rightarrow> bool" where
  "entry_value fs regular cs mp path name dies i k v \<longleftrightarrow> (\<exists>link offset root.
     attribute_with_abstract_origin dies i kDwAtType k = (Ok link, k) \<and> ref4_link link = Some offset \<and>
     resolve_bounded_root_value_type dies offset k = (Ok root, k) \<and> root_type_ok root \<and>
     read_value fs regular cs mp k path name (rt_value_type root) (rt_pointee_type root) v)"

lemma yields_at_root_type:
  "yields_at k (resolve_bounded_root_value_type dies off)
     (\<lambda>r. root_type_ok r \<and> resolve_bounded_root_value_type dies off k = (Ok r, k))"
  using yieldsD [OF yields_root_value_type, of dies off k]
  by (auto simp: yields_at_def twp_def split: prod.splits outcome.splits)

lemma snapshot_value_of_entry_reads:
  assumes i: "i < length dies" and sub: "sub < length dies"
  shows "yields_at k (snapshot_value_of_entry fs regular ds dies sub version so frame mp owner pc name i)
    (entry_value fs regular (so_core so) mp (sa_module_path owner) name dies i k)"
proof -
  have entry: "yields_at k (snapshot_value_at fs regular dies sub so frame mp owner name (rt_value_type r) (rt_pointee_type r) expression)
      (entry_value fs regular (so_core so) mp (sa_module_path owner) name dies i k)"
    if "attribute_with_abstract_origin dies i kDwAtType k = (Ok link, k)" "ref4_link link = Some off"
      "root_type_ok r \<and> resolve_bounded_root_value_type dies off k = (Ok r, k)" for link off r expression
    by (rule yields_at_mono [OF snapshot_value_at_reads [OF _ sub]])
      (use that in \<open>auto simp: root_type_ok_def [of "\<lparr>rt_value_type = _, rt_pointee_type = _\<rparr>"] root_type_ok_def [of r] entry_value_def\<close>)
  show ?thesis
    unfolding snapshot_value_of_entry_def
    by (intro yields_at_splits looking [OF inspects_die_at [OF i]] looking [OF inspects_attribute_with_abstract_origin [OF i]]
        yields_at_bindM [OF yields_at_root_type] looking [OF inspects_location_expression])
      (simp_all add: entry)
qed

lemma inspects_validate_structure: "inspects (validate_selected_inline_structure_type t)"
  unfolding validate_selected_inline_structure_type_def Let_def
  by (intro inspects_intros inspects_mapM) simp_all

lemma inline_value_of_entry_reads:
  assumes i: "i < length dies" and sub: "sub < length dies"
  shows "yields_at k (inline_value_of_entry fs regular ds dies sub base version so frame mp owner pc name i)
    (entry_value fs regular (so_core so) mp (sa_module_path owner) name dies i k)"
proof -
  have entry: "yields_at k (inline_value_at fs regular dies sub so frame mp owner name (rt_value_type r) (rt_pointee_type r) expression)
      (entry_value fs regular (so_core so) mp (sa_module_path owner) name dies i k)"
    if "attribute_with_abstract_origin dies i kDwAtType k = (Ok link, k)" "ref4_link link = Some off"
      "root_type_ok r \<and> resolve_bounded_root_value_type dies off k = (Ok r, k)" for link off r expression
    by (rule yields_at_mono [OF inline_value_at_reads [OF _ sub]])
      (use that in \<open>auto simp: root_type_ok_def [of "\<lparr>rt_value_type = _, rt_pointee_type = _\<rparr>"] root_type_ok_def [of r] entry_value_def\<close>)
  show ?thesis
    unfolding inline_value_of_entry_def Let_def
    by (intro yields_at_splits looking [OF inspects_die_at [OF i]] looking [OF inspects_attribute_with_abstract_origin [OF i]]
        yields_at_bindM [OF yields_at_root_type] looking [OF inspects_location_expression]
        yields_at_thenM [OF yields_at_inspects [OF inspects_validate_structure]])
      (simp_all add: entry)
qed

section \<open>Over the units\<close>

definition covering :: "die list \<Rightarrow> u64 \<Rightarrow> 's \<Rightarrow> nat set" where
  "covering dies pc s = {i. i < length dies \<and> die_tag (dies ! i) = kDwTagSubprogram \<and> die_contains_pc (dies ! i) pc s = (Ok True, s)}"

lemma covering_subprogram_reads:
  assumes "dies = before @ ds" and "set_option found = {i \<in> covering dies pc s. i < length before}"
  shows "yields_at s (covering_subprogram_loop pc (length before) ds found) (\<lambda>r. set_option r = covering dies pc s)"
  using assms
proof (induction ds arbitrary: before found)
  case Nil
  then show ?case by (auto simp: covering_def)
next
  case (Cons d ds)
  let ?C = "covering dies pc s"
  have at: "dies ! length before = d" and later: "dies = (before @ [d]) @ ds" using Cons.prems(1) by simp_all
  have split: "{i \<in> ?C. i < length (before @ [d])} = {i \<in> ?C. i < length before} \<union> (?C \<inter> {length before})" by auto
  have skip: "yields_at s (covering_subprogram_loop pc (length before + 1) ds found) (\<lambda>r. set_option r = ?C)" if "length before \<notin> ?C"
    using Cons.IH [OF later, of found] Cons.prems(2) that unfolding split by simp
  have take: "yields_at s (covering_subprogram_loop pc (length before + 1) ds (Some (length before))) (\<lambda>r. set_option r = ?C)"
    if "length before \<in> ?C" "found = None"
    using Cons.IH [OF later, of "Some (length before)"] Cons.prems(2) that unfolding split by auto
  have own: "length before \<in> ?C \<longleftrightarrow> die_tag d = kDwTagSubprogram \<and> die_contains_pc d pc s = (Ok True, s)"
    using Cons.prems(1) by (simp add: covering_def at)
  have test: "inspects (if die_tag d \<noteq> kDwTagSubprogram then returnM False else die_contains_pc d pc)"
    by (intro inspects_intros)
  show ?case
    unfolding covering_subprogram_loop.simps
    by (intro looking [OF test] yields_at_splits) (use skip take own in \<open>auto simp: returnM_def split: if_splits\<close>)
qed

text \<open>The value of a name of the subprogram, and of an inlined call: of the innermost declaration around the address.\<close>

definition unit_value ::
  "'k files \<Rightarrow> (path \<Rightarrow> bool) \<Rightarrow> core_snapshot \<Rightarrow> module_paths \<Rightarrow> debug_sections \<Rightarrow> u64 \<Rightarrow> path \<Rightarrow> u8 list \<Rightarrow> 'k \<Rightarrow> local_value \<Rightarrow> bool" where
  "unit_value fs regular cs mp ds pc path name k v \<longleftrightarrow> (\<exists>start dies after version sub i depth.
     parse_unit_dies ds start k = (Ok (dies, after, version), k) \<and> covering dies pc k = {sub} \<and>
     picked (declared dies name (\<lambda>i. active_scope_depth dies i sub pc) k) {..<length dies} (Some (i, depth)) \<and>
     entry_value fs regular cs mp path name dies i k v)"

definition unit_inline_value ::
  "'k files \<Rightarrow> (path \<Rightarrow> bool) \<Rightarrow> core_snapshot \<Rightarrow> module_paths \<Rightarrow> debug_sections \<Rightarrow> u8 list \<Rightarrow> u64 \<Rightarrow> nat \<Rightarrow> path \<Rightarrow> u8 list \<Rightarrow> 'k \<Rightarrow> local_value \<Rightarrow> bool" where
  "unit_inline_value fs regular cs mp ds ranges pc offset path name k v \<longleftrightarrow> (\<exists>start dies after version base sub inl i depth.
     parse_unit_dies ds start k = (Ok (dies, after, version), k) \<and> compilation_unit_base dies k = (Ok base, k) \<and>
     owners dies kDwTagSubprogram pc ranges base version k = {sub} \<and>
     inl \<in> inlines dies sub pc ranges base version k \<and> die_offset (dies ! inl) = offset \<and>
     picked (declared dies name (\<lambda>i. inline_local_scope_depth dies i inl pc ranges base version) k) {..<length dies} (Some (i, depth)) \<and>
     entry_value fs regular cs mp path name dies i k v)"


lemma picked_bound: "picked at {..<n} (Some (i, d)) \<Longrightarrow> i < n"
  by (simp add: picked_def)

lemma covering_bound: "{sub} = covering dies pc s \<Longrightarrow> sub < length dies"
  by (auto simp: covering_def)

lemma twp_inspect_snapshot_unit:
  assumes "start \<le> length (ds_info ds)"
  shows "twp (inspect_snapshot_unit fs regular ds so frame mp owner pc name start)
    (\<lambda>(r, after) s'. s' = s \<and> start < after \<and>
       pred_option (unit_value fs regular (so_core so) mp ds pc (sa_module_path owner) name s) r) (\<lambda>e s'. no_ub e \<and> s' = s) s"
  using twp_parse_unit_dies [OF assms, of s]
proof (cases rule: twp_cases)
  case (throws e s')
  then show ?thesis by (simp add: inspect_snapshot_unit_def bindM_def twp_def)
next
  case (returns u s')
  obtain dies after version where u: "u = (dies, after, version)" by (cases u)
  from returns have run: "parse_unit_dies ds start s = (Ok (dies, after, version), s)"
    and after: "start < after" and ok: "dies_ok dies"
    by (auto simp: u unit_ok_def)
  have unit: "unit_value fs regular (so_core so) mp ds pc (sa_module_path owner) name s v"
    if "{sub} = covering dies pc s"
      "picked (declared dies name (\<lambda>i. active_scope_depth dies i sub pc) s) {..<length dies} (Some (i, depth))"
      "entry_value fs regular (so_core so) mp (sa_module_path owner) name dies i s v" for sub i depth v
    unfolding unit_value_def using that run by (intro exI conjI) auto
  note cover = covering_subprogram_reads [of dies "[]" dies None pc s, simplified]
  note pick = snapshot_value_loop_picks [OF ok _ picked_empty, of "[0..<length dies]", simplified, unfolded atLeast0LessThan]
  have "yields_at s (inspect_snapshot_unit fs regular ds so frame mp owner pc name start)
      (\<lambda>x. start < snd x \<and> pred_option (unit_value fs regular (so_core so) mp ds pc (sa_module_path owner) name s) (fst x))"
    unfolding inspect_snapshot_unit_def
    by (rule yields_at_at, rule run, unfold case_prod_conv, rule yields_at_bindM [OF cover])
      (auto simp: after intro!: yields_at_option yields_at_bindM [OF pick] yields_at_bindM [OF snapshot_value_of_entry_reads]
        dest: picked_bound covering_bound, rule unit)
  then show ?thesis by (auto simp: yields_at_def elim!: twp_mono)
qed


lemma twp_inspect_inline_scalar_unit:
  assumes "start \<le> length (ds_info ds)"
  shows "twp (inspect_inline_scalar_unit fs regular ds ranges so frame mp owner pc offset name start)
    (\<lambda>(r, after) s'. s' = s \<and> start < after \<and>
       pred_option (unit_inline_value fs regular (so_core so) mp ds ranges pc offset (sa_module_path owner) name s) r)
    (\<lambda>e s'. no_ub e \<and> s' = s) s"
  using twp_parse_unit_dies [OF assms, of s]
proof (cases rule: twp_cases)
  case (throws e s')
  then show ?thesis by (simp add: inspect_inline_scalar_unit_def bindM_def twp_def)
next
  case (returns u s')
  obtain dies after version where u: "u = (dies, after, version)" by (cases u)
  from returns have run: "parse_unit_dies ds start s = (Ok (dies, after, version), s)"
    and after: "start < after" and ok: "dies_ok dies"
    by (auto simp: u unit_ok_def)
  have owned: "yields_at s (check_inline_owner dies inl pc ranges version) (\<lambda>(base, sub). compilation_unit_base dies s = (Ok base, s) \<and>
      owners dies kDwTagSubprogram pc ranges base version s = {sub} \<and> sub < length dies \<and> inl \<in> inlines dies sub pc ranges base version s)"
    if "inl < length dies" for inl
    using twp_check_inline_owner [OF ok that, of pc ranges version s]
    by (auto simp: yields_at_def owners_def elim!: twp_mono)
  have unit: "unit_inline_value fs regular (so_core so) mp ds ranges pc offset (sa_module_path owner) name s v"
    if "die_index_by_offset dies offset = Some inl" "compilation_unit_base dies s = (Ok base, s)"
      "owners dies kDwTagSubprogram pc ranges base version s = {sub}" "inl \<in> inlines dies sub pc ranges base version s"
      "picked (declared dies name (\<lambda>i. inline_local_scope_depth dies i inl pc ranges base version) s) {..<length dies} (Some (i, depth))"
      "entry_value fs regular (so_core so) mp (sa_module_path owner) name dies i s v" for inl base sub i depth v
    unfolding unit_inline_value_def using that(2-6) die_index_by_offset_Some [OF that(1)] run by (intro exI conjI) auto
  note pick = inline_value_loop_picks [OF ok _ picked_empty, of "[0..<length dies]", simplified, unfolded atLeast0LessThan]
  have "yields_at s (inspect_inline_scalar_unit fs regular ds ranges so frame mp owner pc offset name start)
      (\<lambda>x. start < snd x \<and>
        pred_option (unit_inline_value fs regular (so_core so) mp ds ranges pc offset (sa_module_path owner) name s) (fst x))"
    unfolding inspect_inline_scalar_unit_def
    by (rule yields_at_at, rule run, unfold case_prod_conv)
      (auto simp: after intro!: yields_at_option yields_at_bindM [OF owned] yields_at_bindM [OF pick]
          yields_at_bindM [OF inline_value_of_entry_reads]
        dest: picked_bound die_index_by_offset_Some, rule unit)
  then show ?thesis by (auto simp: yields_at_def elim!: twp_mono)
qed

lemma twp_inspect_local_value:
  "twp (inspect_local_value fs regular so frame name mp)
    (\<lambda>v k'. k' = k \<and> (\<exists>lookup_pc owner debug_path ds.
       snapshot_frame_lookup_pc frame k = (Ok lookup_pc, k) \<and>
       resolve_snapshot_module_address fs regular (so_core so) lookup_pc mp k = (Ok owner, k) \<and>
       resolve_debug_file fs regular mp (sf_module_path frame) k = (Ok debug_path, k) \<and>
       read_debug_sections fs (bytes_text debug_path) k = (Ok ds, k) \<and>
       unit_value fs regular (so_core so) mp ds (sa_virtual_address owner) (sf_module_path frame) name k v))
    (\<lambda>e k'. no_ub e \<and> k' = k) k"
proof -
  have visit: "twp (over_units ds stalled (inspect_snapshot_unit fs regular ds so frame mp owner pc name) (throwM (RuntimeError m)))
      (\<lambda>v k'. k' = k \<and> (unit_value fs regular (so_core so) mp ds pc (sa_module_path owner) name k v \<or> False)) (\<lambda>e k'. no_ub e \<and> k' = k) k"
    for ds stalled pc m owner
    by (rule twp_over_units) (auto simp: twp_simps intro!: twp_inspect_snapshot_unit)
  show ?thesis
    unfolding inspect_local_value_def thenM_def
    by (auto simp: twp_simps intro!: twp_looks [OF inspects_validation(1)] twp_looks [OF inspects_validation(2)]
        twp_looks [OF inspects_validation(3)] twp_looks [OF inspects_resolve_snapshot_module_address]
        twp_looks [OF inspects_resolve_debug_file] twp_looks [OF inspects_read_debug_sections] twp_mono [OF visit])
qed

text \<open>C19. The value of a variable of a core, by name. Whatever the files contain, the search ends, reads only inside them,
  changes nothing and has no undefined behaviour. A value that is returned is of the variable or parameter with the name whose
  scope is the innermost around the address, in a unit where exactly one subprogram covers the address; its type is the one the
  entry refers to, well formed; and it is the decoding of as many bytes as that type has, which, when the value says it is in
  memory, are the bytes that the core, or the file of the owning module, has at an address.\<close>

theorem local_value_exact:
  "twp (inspect_local_value fs regular so frame name mp)
    (\<lambda>v k'. k' = k \<and> (\<exists>lookup_pc owner debug_path ds.
       snapshot_frame_lookup_pc frame k = (Ok lookup_pc, k) \<and>
       resolve_snapshot_module_address fs regular (so_core so) lookup_pc mp k = (Ok owner, k) \<and>
       resolve_debug_file fs regular mp (sf_module_path frame) k = (Ok debug_path, k) \<and>
       read_debug_sections fs (bytes_text debug_path) k = (Ok ds, k) \<and>
       unit_value fs regular (so_core so) mp ds (sa_virtual_address owner) (sf_module_path frame) name k v))
    (\<lambda>e k'. no_ub e \<and> k' = k) k"
  by (rule twp_inspect_local_value)


end
