(* ===== verification/PointerValuesProps.thy ===== *)
theory PointerValuesProps
  imports SnapshotValuesProps PointerValues
begin

text \<open>
  Following a pointer of a core: the object is the decoding of the bytes at the address that the pointer holds.
\<close>

lemma root_pointee_value: "root_pointee_ok p \<Longrightarrow> value_type_ok p"
  unfolding root_pointee_ok_def
proof (elim disjE exE conjE)
  fix n ms assume "0 < n" "n \<le> kMaxLocalStructSize" "members_ok (direct_member_ok n) ms" "p = aggregate_type n LK_Structure ms"
  then have "structure_ok p" by (auto simp: structure_ok_def members_ok_def member_ok_def list_all_iff)
  then show ?thesis by (rule value_type_okI)
qed (simp add: value_type_okI)

text \<open>The type that is checked once more before the object is read is the type itself.\<close>

lemma pointee_object_type_reads:
  assumes "root_pointee_ok p"
  shows "yields (pointee_object_type p) (\<lambda>t. t = p)"
proof -
  have "yields (check_pointee_members RuntimeError messages t ms) (\<lambda>_. True)" for messages t ms
    by (induction ms) auto
  note check = yields_thenM [OF this]
  from assms show ?thesis
    unfolding root_pointee_ok_def pointee_object_type_def
    by (auto simp: scalar_type_def aggregate_type_def members_ok_def intro!: check)
qed

lemma materialize_object:
  assumes t: "value_type_ok t" and read: "read_snapshot_memory fs regular cs mp a (vt_byte_size t) k = (Ok m, k)"
  shows "yields_at k (materialize_snapshot_memory_value path name t m required) (\<lambda>v. bare v = decoded path name t (sm_bytes m))"
proof -
  from yields_Ok [OF yields_read_snapshot_memory read] have len: "length (sm_bytes m) = vt_byte_size t" by simp
  have "yields_at k (materialize_bytes path name t m) (\<lambda>v. v = decoded path name t (sm_bytes m))"
    by (simp add: yields_at_def twp_def materialize_bytes_run [OF t len])
  then show ?thesis
    unfolding materialize_snapshot_memory_value_def by (rule yields_at_bindM) auto
qed

text \<open>A value of the search that is a pointer has a well-formed pointee.\<close>

lemma unit_value_pointee:
  "unit_value fs regular cs mp ds pc path name k v \<Longrightarrow> lv_pointee_type v = Some p \<Longrightarrow> root_pointee_ok p"
  by (auto simp: unit_value_def entry_value_def read_value_def root_type_ok_def split: if_splits)

lemma local_pointee:
  "yields_at k (inspect_local_value fs regular so frame name mp)
    (\<lambda>v. inspect_local_value fs regular so frame name mp k = (Ok v, k) \<and> pred_option root_pointee_ok (lv_pointee_type v))"
  using twp_inspect_local_value [of fs regular so frame name mp k]
  by (auto simp: yields_at_def twp_def option.pred_set elim: unit_value_pointee split: prod.splits outcome.splits)

text \<open>The object of a pointer.\<close>

definition pointed_to ::
  "'k files \<Rightarrow> (path \<Rightarrow> bool) \<Rightarrow> core_snapshot \<Rightarrow> module_paths \<Rightarrow> 'k \<Rightarrow> local_value \<Rightarrow> local_value \<Rightarrow> bool" where
  "pointed_to fs regular cs mp k pointer v \<longleftrightarrow> lv_kind pointer = LK_Pointer \<and> lv_raw_value pointer \<noteq> 0 \<and>
     (\<exists>p m. lv_pointee_type pointer = Some p \<and> root_pointee_ok p \<and>
       read_snapshot_memory fs regular cs mp (lv_raw_value pointer) (vt_byte_size p) k = (Ok m, k) \<and>
       bare v = decoded (lv_module_path pointer) (starred (lv_name pointer)) p (sm_bytes m))"

text \<open>C21. Following a pointer variable of a core. The search ends, changes nothing and has no undefined behaviour. It returns
  only when the variable is a pointer that is not null, and then the decoding, by the type the pointer has for its object, of the
  bytes that the core, or the file of a module, has at the address in the pointer.\<close>

theorem local_pointer_followed:
  "twp (dereference_local_pointer fs regular so frame name mp)
    (\<lambda>v k'. k' = k \<and> (\<exists>pointer. inspect_local_value fs regular so frame name mp k = (Ok pointer, k) \<and>
       pointed_to fs regular (so_core so) mp k pointer v)) (\<lambda>e k'. no_ub e \<and> k' = k) k"
proof -
  have object: "yields_at k (bindM (materialize_snapshot_memory_value (lv_module_path pointer) (starred (lv_name pointer)) p m False)
      (\<lambda>result. if lv_kind result = LK_Structure \<and> length (lv_members result) \<noteq> length (vt_members p)
         then throwM (LogicError msg) else returnM result)) (pointed_to fs regular (so_core so) mp k pointer)"
    if "lv_kind pointer = LK_Pointer" "lv_raw_value pointer \<noteq> 0" "lv_pointee_type pointer = Some p" "root_pointee_ok p"
      "read_snapshot_memory fs regular (so_core so) mp (lv_raw_value pointer) (vt_byte_size p) k = (Ok m, k)" for pointer p m msg
    by (rule yields_at_bindM [OF materialize_object [OF root_pointee_value that(5)]])
      (use that in \<open>auto simp: pointed_to_def\<close>)
  have follow: "yields_at k (bindM (pointee_object_type p) (\<lambda>t.
      bindM (read_snapshot_memory fs regular (so_core so) mp (lv_raw_value pointer) (vt_byte_size t)) (\<lambda>memory.
      bindM (materialize_snapshot_memory_value (lv_module_path pointer) (starred (lv_name pointer)) t memory False) (\<lambda>result.
      if lv_kind result = LK_Structure \<and> length (lv_members result) \<noteq> length (vt_members p)
      then throwM (LogicError msg) else returnM result)))) (pointed_to fs regular (so_core so) mp k pointer)"
    if "lv_kind pointer = LK_Pointer" "lv_raw_value pointer \<noteq> 0" "lv_pointee_type pointer = Some p" "root_pointee_ok p" for pointer p msg
    by (rule yields_at_bindM [OF yields_at_yields [OF pointee_object_type_reads [OF that(4)]]])
      (auto intro!: looking [OF inspects_read_snapshot_memory] object that)
  have "yields_at k (dereference_local_pointer fs regular so frame name mp) (\<lambda>v. \<exists>pointer.
      inspect_local_value fs regular so frame name mp k = (Ok pointer, k) \<and> pointed_to fs regular (so_core so) mp k pointer v)"
    unfolding dereference_local_pointer_def
    by (rule yields_at_bindM [OF local_pointee])
      (auto intro!: yields_at_splits intro: yields_at_mono [OF follow])
  then show ?thesis by (simp add: yields_at_def)
qed

end
