(* ===== verification/Spec2Isabelle.thy ===== *)
theory Spec2Isabelle
  imports ExampleSession CallDecoder FramePointer EhFrameSafety LineTableSafety ElfFileProps SourcePathProps
    ModulesProps SourceMotionProps RegistryProps CoreSessionProps PointerValuesProps
begin

text \<open>
  A verification library for \<^bold>\<open>mini-debugger\<close>, a \<^verbatim>\<open>ptrace\<close> debugger for x86-64 Linux in C++17. All paths are
  relative to the repository; the implementation is in \<^verbatim>\<open>src/src/\<close>.

  \<^bold>\<open>The program.\<close> A \<^verbatim>\<open>Debugger\<close> owns a \<^verbatim>\<open>Process\<close> (the table of traced tasks) and talks to the kernel through the
  functions of \<^verbatim>\<open>ptrace/\<close>. It patches INT3 bytes into the tracee, waits for events, classifies them (breakpoint, step,
  watchpoint, signal, fork, vfork, exec, clone, exit) and steps displaced instructions. On top of it are source-level
  motion (\<^verbatim>\<open>source/\<close>), breakpoints that wait for a shared object (\<^verbatim>\<open>loader/\<close>), the registry of user breakpoints
  (\<^verbatim>\<open>breakpoints/\<close>) and the unwinders (\<^verbatim>\<open>unwind/\<close>). Symbols, lines and call-frame information come from parsers of ELF and
  DWARF files (\<^verbatim>\<open>elf/\<close>, \<^verbatim>\<open>dwarf/\<close>). A core file is inspected without a process (\<^verbatim>\<open>snapshot/\<close>).

  \<^bold>\<open>How it is modelled.\<close> A C++ function is a program of type \<open>('s, 'a) prog\<close>: a function from a state to an outcome
  (\<open>Ok\<close>, \<open>Throw\<close> with the exception, or \<open>Diverged\<close> when a loop used up its fuel) and a state. Structs are records,
  enumerations are datatypes, \<^verbatim>\<open>std::map\<close> is a sorted association list, integers are words or, where the source checks
  every operation, numbers below \<open>2 ^ 64\<close>. An unchecked access outside a vector, a signed overflow or a \<^verbatim>\<open>memcpy\<close> out
  of range throws the pseudo-exception \<open>UndefinedBehaviour\<close>, which no handler catches, so that its absence is a theorem.
  The kernel is the parameter \<open>'k os\<close> (\<^verbatim>\<open>Ptrace\<close>), the file system the parameter \<open>'k files\<close> (\<^verbatim>\<open>ElfFile\<close>);
  what the theorems need of a kernel are named predicates, met by the executable kernel of \<^verbatim>\<open>ReferenceKernel\<close>.

  \<^bold>\<open>Theories.\<close>
  \<^item> \<^verbatim>\<open>Prelude\<close>: programs, \<open>wp\<close> and \<open>twp\<close> (partial and total correctness), \<open>keeps\<close>, bytes of words.
    \<^verbatim>\<open>Inspect\<close>: programs that only look. \<^verbatim>\<open>StdMap\<close>: \<^verbatim>\<open>std::map\<close>, behind the locale \<open>ordered_map\<close>.
  \<^item> \<^verbatim>\<open>Ptrace\<close>, \<^verbatim>\<open>Registers\<close>, \<^verbatim>\<open>Process\<close>: \<^verbatim>\<open>ptrace/ptrace.cpp\<close>, \<^verbatim>\<open>registers/registers.cpp\<close>, \<^verbatim>\<open>process/process.cpp\<close>.
    Shown: the task table stays consistent, attach stops its target, \<^verbatim>\<open>cleanup\<close> never throws, waits are retried.
  \<^item> \<^verbatim>\<open>Debugger\<close>: \<^verbatim>\<open>debugger/debugger.cpp\<close> and \<^verbatim>\<open>memory_mutation.cpp\<close>, one definition per member. \<^verbatim>\<open>DebuggerInv\<close>: the
    session invariant, kept by every command. \<^verbatim>\<open>DebuggerMemory\<close>: the memory the program means (its own bytes under armed
    breakpoints) and what each command does to it. \<^verbatim>\<open>ExampleSession\<close>: a concrete session.
  \<^item> \<^verbatim>\<open>CallDecoder\<close>, \<^verbatim>\<open>FramePointer\<close>: \<^verbatim>\<open>x86/call_decoder.cpp\<close>, \<^verbatim>\<open>unwind/frame_pointer.cpp\<close>.
  \<^item> \<^verbatim>\<open>ByteCursor\<close>, \<^verbatim>\<open>Leb128\<close>, \<^verbatim>\<open>ElfLayout\<close>: the bounded readers that the parsers share, with the round trips of
    LEB128, and the ELF structures.
  \<^item> \<^verbatim>\<open>EhFrame\<close>, \<^verbatim>\<open>EhFrameSafety\<close>: \<^verbatim>\<open>dwarf/eh_frame.cpp\<close>; every scan and every CFA program ends inside the section. The
    locale \<open>cfi_reader\<close> is what the evaluator needs of memory, interpreted for a live tracee and for a core.
    \<^verbatim>\<open>SignalFrame\<close>, \<^verbatim>\<open>SignalFrameProps\<close>: \<^verbatim>\<open>dwarf/eh_frame_signal.hpp\<close> and \<^verbatim>\<open>snapshot/linux_x86_signal_frame.hpp\<close>;
    the index and the evaluator agree on what is a signal frame.
  \<^item> \<^verbatim>\<open>LineTable\<close>, \<^verbatim>\<open>LineTableSafety\<close>: \<^verbatim>\<open>dwarf/line_table.cpp\<close>. \<^verbatim>\<open>ElfFile\<close>, \<^verbatim>\<open>ElfFileProps\<close>: class \<^verbatim>\<open>ElfFile\<close> of
    \<^verbatim>\<open>elf/elf.cpp\<close>. Parsers are total; lookups are exact.
  \<^item> \<^verbatim>\<open>Modules\<close>, \<^verbatim>\<open>CfiUnwind\<close> and their \<^verbatim>\<open>Props\<close>: \<^verbatim>\<open>unwind/cfi.cpp\<close>, module lookups, the CFI backtrace and inspection frames.
  \<^item> \<^verbatim>\<open>SourcePath\<close>, \<^verbatim>\<open>SourceMotion\<close> and their \<^verbatim>\<open>Props\<close>: \<^verbatim>\<open>source/\<close>. The locale \<open>session_operation\<close> collects what step, next and
    finish share.
  \<^item> \<^verbatim>\<open>Deferred\<close>, \<^verbatim>\<open>Registry\<close> and their \<^verbatim>\<open>Props\<close>: \<^verbatim>\<open>loader/deferred_symbol_breakpoints.cpp\<close> and
    \<^verbatim>\<open>breakpoints/user_breakpoint_registry.hpp\<close>. The registry refines an abstract table of processes and ids; the locale
    \<open>request_maker\<close> is what it needs of the deferred controller, for symbols and for source lines.
  \<^item> \<^verbatim>\<open>CoreSnapshot\<close>, \<^verbatim>\<open>CoreNotes\<close> and their \<^verbatim>\<open>Props\<close>: class \<^verbatim>\<open>CoreSnapshot\<close> of \<^verbatim>\<open>elf/elf.cpp\<close>, \<^verbatim>\<open>elf/core_fpregset.hpp\<close>,
    \<^verbatim>\<open>snapshot/startup.hpp\<close>. \<^verbatim>\<open>ExampleCore\<close>: a core file, byte by byte.
  \<^item> \<^verbatim>\<open>SnapshotPaths\<close>, \<^verbatim>\<open>SnapshotMemory\<close>, \<^verbatim>\<open>SnapshotInspect\<close>, \<^verbatim>\<open>CoreSession\<close> and their \<^verbatim>\<open>Props\<close>: \<^verbatim>\<open>snapshot/module_path.hpp\<close>,
    \<^verbatim>\<open>memory.hpp\<close>, \<^verbatim>\<open>inspection.hpp\<close> with \<^verbatim>\<open>frame_lookup.hpp\<close>, \<^verbatim>\<open>session.hpp\<close>. Debug companions are checked, memory is exact,
    traces are total and sound, and the selection of a session stays consistent.
  \<^item> \<^verbatim>\<open>DebugInfo\<close>, \<^verbatim>\<open>InlineScopes\<close>, \<^verbatim>\<open>DwarfTypes\<close>, \<^verbatim>\<open>DwarfValues\<close>, \<^verbatim>\<open>PointerValues\<close>, \<^verbatim>\<open>LocalValues\<close> and their \<^verbatim>\<open>Props\<close> (\<^verbatim>\<open>SnapshotValuesProps\<close>
    for values): the variables of a core, from \<^verbatim>\<open>dwarf/source_lookup.cpp\<close>, the two files it includes, \<^verbatim>\<open>local_value.hpp\<close>,
    \<^verbatim>\<open>inline_member.hpp\<close>: the entries of a unit, inlined calls and visible names, types, values, pointers, members. Shown:
    every search ends and stays in the file; calls and names are exactly those around the address; types are well formed; a
    value is the decoding of the bytes of the innermost declaration. \<^verbatim>\<open>Yields\<close>: triples for such searches. The locale
    \<open>declaration_scan\<close> carries both catalogues of names.

  \<^bold>\<open>Fuel and bounds.\<close> A \<^verbatim>\<open>while\<close> loop is \<open>loopM n body\<close>. Parsers run with the length of what they scan plus one, which the
  totality theorems show to be enough. Loops that depend on the kernel (retried waits, event loops, the run loop of
  deferred breakpoints) take the fuel as an argument, since a kernel may answer without end; theorems about
  them speak of every outcome but \<open>Diverged\<close>, and \<open>waitpid_retry_answers\<close> says which fuel is enough. Unwinders recurse on the
  number of frames they may still add.

  \<^bold>\<open>Not modelled.\<close> The values of variables of a live process (\<^verbatim>\<open>frame_base\<close>, \<^verbatim>\<open>inspect_unit\<close>, \<^verbatim>\<open>inspect_caller_stack_unit\<close> and what only
  they call in \<^verbatim>\<open>dwarf/source_lookup_impl.inc\<close>), which repeat the search and the decoding on the tracee; the two command-line
  programs (\<^verbatim>\<open>cli/\<close>), which read and print text around the library. The child side of \<^verbatim>\<open>fork\<close> never returns to the
  debugger. Allocation does not fail.

  This theory holds the properties of a live session that span \<^verbatim>\<open>Ptrace\<close>, \<^verbatim>\<open>Process\<close> and \<^verbatim>\<open>Debugger\<close>; the others stand in the
  theory of their component.
\<close>

section \<open>Memory and breakpoints\<close>

text \<open>C1. Arming a software breakpoint is invisible to the program: the command returns or throws;
  when it returns, an INT3 is in memory at the address, every installed breakpoint still has its
  INT3, and the memory the program means (the original bytes) is unchanged; when it throws, neither
  memory nor the tables have changed.\<close>

theorem add_breakpoint_transparent:
  assumes "shared_memory_laws os (set (tids (d_process (dbg w)))) mem"
    and "dbg_wf (dbg w)" and "patched (d_breakpoints (dbg w)) (mem (kern w))"
  shows "twp (add_breakpoint os a)
    (\<lambda>i w'. mem (kern w') a = Some 0xcc \<and> patched (d_breakpoints (dbg w')) (mem (kern w')) \<and>
       program_view (d_breakpoints (dbg w')) (mem (kern w')) =
         program_view (d_breakpoints (dbg w)) (mem (kern w)))
    (\<lambda>e w'. mem (kern w') = mem (kern w) \<and> dbg w' = dbg w) w"
  by (intro twpI terminates_intros wp_mono [OF add_breakpoint_view [OF assms]]) auto

theorem add_breakpoint_transparent_witness:
  "fst (add_breakpoint (ref_os 77) 0x401004 example_world) = Ok 1 \<and>
   rk_mem (kern (snd (add_breakpoint (ref_os 77) 0x401004 example_world))) 0x401004 = Some 0xcc"
proof -
  have ok: "fst (add_breakpoint (ref_os 77) 0x401004 example_world) = Ok 1" by code_simp
  with twp_OkD [OF add_breakpoint_transparent [OF example_laws example_wf example_patched]] show ?thesis
    by (metis prod.collapse)
qed

text \<open>C2. Removing a breakpoint while the session is stopped gives the address its original byte back:
  the memory the program means is unchanged, the other breakpoints stay armed and the id is no
  longer listed; when the command throws, nothing has changed.\<close>

theorem remove_breakpoint_transparent:
  assumes "shared_memory_laws os (set (tids (d_process (dbg w)))) mem"
    and "dbg_wf (dbg w)" and "patched (d_breakpoints (dbg w)) (mem (kern w))"
    and "p_state (d_process (dbg w)) = PS_Stopped"
  shows "twp (remove_breakpoint os i)
    (\<lambda>_ w'. program_view (d_breakpoints (dbg w')) (mem (kern w')) =
         program_view (d_breakpoints (dbg w)) (mem (kern w)) \<and>
       patched (d_breakpoints (dbg w')) (mem (kern w')) \<and>
       smap_find (d_breakpoint_ids (dbg w')) i = None)
    (\<lambda>_ w'. mem (kern w') = mem (kern w) \<and> dbg w' = dbg w) w"
  by (intro twpI terminates_intros remove_breakpoint_view assms)

theorem remove_breakpoint_transparent_witness:
  "fst (remove_breakpoint (ref_os 77) 1 example_armed) = Ok True \<and>
   program_view (d_breakpoints (dbg (snd (remove_breakpoint (ref_os 77) 1 example_armed))))
      (rk_mem (kern (snd (remove_breakpoint (ref_os 77) 1 example_armed)))) =
     program_view (d_breakpoints (dbg example_armed)) (rk_mem (kern example_armed))"
proof -
  have "p_state (d_process (dbg example_armed)) = PS_Stopped" by code_simp
  note total = remove_breakpoint_transparent [OF example_laws example_armed_wf example_armed_patched this, of 1]
  have "fst (remove_breakpoint (ref_os 77) 1 example_armed) = Ok True" by code_simp
  with twp_OkD [OF total, of True] show ?thesis by (simp add: prod_eq_iff)
qed

text \<open>C9. Setting a breakpoint and removing it again is the identity on the tracee's memory and on
  both breakpoint tables.\<close>

theorem add_then_remove_breakpoint:
  assumes "shared_memory_laws os (set (tids (d_process (dbg w)))) mem" and "dbg_wf (dbg w)"
  shows "twp (bindM (add_breakpoint os a) (remove_breakpoint os))
    (\<lambda>r w'. r \<and> mem (kern w') = mem (kern w) \<and>
       d_breakpoints (dbg w') = d_breakpoints (dbg w) \<and>
       d_breakpoint_ids (dbg w') = d_breakpoint_ids (dbg w)) (\<lambda>_ _. True) w"
  by (intro twpI terminates_intros add_remove_breakpoint assms)

theorem add_then_remove_breakpoint_witness:
  "rk_mem (kern (snd (bindM (add_breakpoint (ref_os 77) 0x401004) (remove_breakpoint (ref_os 77)) example_world)))
     = rk_mem (kern example_world)"
proof -
  have "fst (bindM (add_breakpoint (ref_os 77) 0x401004) (remove_breakpoint (ref_os 77)) example_world) = Ok True"
    by code_simp
  with twp_OkD [OF add_then_remove_breakpoint [OF example_laws example_wf, of "0x401004"]]
  show ?thesis by (metis prod.collapse)
qed

text \<open>C3. A memory write changes exactly the addressed bytes of the memory the program means, bytes
  under armed breakpoints included, and disarms no breakpoint; a rejected or failing write leaves
  the tables alone and has stored a prefix of the bytes outside the breakpoints.\<close>

theorem write_memory_exact:
  assumes "shared_memory_laws os (set (tids (d_process (dbg w)))) mem"
    and "dbg_wf (dbg w)" and "patched (d_breakpoints (dbg w)) (mem (kern w))"
  shows "twp (write_memory os a bytes)
    (\<lambda>_ w'. program_view (d_breakpoints (dbg w')) (mem (kern w')) =
         program_view (d_breakpoints (dbg w)) (mem (kern w)) ++ map_of (write_cells a bytes) \<and>
       patched (d_breakpoints (dbg w')) (mem (kern w')))
    (\<lambda>_ w'. dbg w' = dbg w \<and> (\<exists>n \<le> length bytes.
       mem (kern w') = written (d_breakpoints (dbg w)) (take n (write_cells a bytes)) (mem (kern w)))) w"
  by (intro twpI terminates_intros write_memory_view assms)

theorem write_memory_exact_witness:
  "fst (write_memory (ref_os 77) 0x401003 [0x11, 0x22] example_armed) = Ok () \<and>
   program_view (d_breakpoints (dbg (snd (write_memory (ref_os 77) 0x401003 [0x11, 0x22] example_armed))))
      (rk_mem (kern (snd (write_memory (ref_os 77) 0x401003 [0x11, 0x22] example_armed)))) 0x401004 = Some 0x22"
proof -
  note total = write_memory_exact [OF example_laws example_armed_wf example_armed_patched, where a = "0x401003" and bytes = "[0x11, 0x22]"]
  have ok: "fst (write_memory (ref_os 77) 0x401003 [0x11, 0x22] example_armed) = Ok ()" by code_simp
  have "map_of (write_cells 0x401003 [0x11, 0x22]) 0x401004 = Some 0x22" by code_simp
  with twp_OkD [OF total, of "()"] ok show ?thesis by (simp add: prod_eq_iff)
qed

text \<open>C8. Restoring all breakpoints, as detaching does, leaves in memory exactly the bytes the program
  means and no breakpoint marked installed; if it throws part way, the program's view of its memory
  is still unchanged.\<close>

theorem restore_all_breakpoints_exact:
  assumes "shared_memory_laws os (set (tids (d_process (dbg w)))) mem" and "dbg_wf (dbg w)"
  shows "twp (restore_all_breakpoints os)
    (\<lambda>_ w'. mem (kern w') = program_view (d_breakpoints (dbg w)) (mem (kern w)) \<and>
       d_pending_step (dbg w') = None \<and>
       (\<forall>a. smap_find (d_breakpoints (dbg w')) a =
          map_option (\<lambda>bp. bp\<lparr>bp_installed := False\<rparr>) (smap_find (d_breakpoints (dbg w)) a)))
    (\<lambda>_ w'. program_view (d_breakpoints (dbg w')) (mem (kern w')) =
       program_view (d_breakpoints (dbg w)) (mem (kern w))) w"
  by (intro twpI terminates_intros restore_all_breakpoints_view assms)

theorem restore_all_breakpoints_exact_witness:
  "fst (restore_all_breakpoints (ref_os 77) example_armed) = Ok () \<and>
   rk_mem (kern (snd (restore_all_breakpoints (ref_os 77) example_armed))) 0x401004 = Some 0xb8"
proof -
  have ok: "fst (restore_all_breakpoints (ref_os 77) example_armed) = Ok ()" by code_simp
  have "program_view (d_breakpoints (dbg example_armed)) (rk_mem (kern example_armed)) 0x401004 = Some 0xb8"
    by code_simp
  with twp_OkD [OF restore_all_breakpoints_exact [OF example_laws example_armed_wf], of "()"] ok
  show ?thesis by (simp add: prod_eq_iff)
qed



text \<open>The second half of a displaced step: reinserting a breakpoint whose byte was temporarily
  restored arms it again, without a change to what the program means or to another breakpoint.\<close>

theorem breakpoint_reinserted:
  assumes "shared_memory_laws os tasks mem" and "t \<in> tasks"
    and "dbg_wf (dbg w)" and "patched (d_breakpoints (dbg w)) (mem (kern w))"
    and "smap_find (d_breakpoints (dbg w)) a = Some bp" and "mem (kern w) a = Some (bp_original_byte bp)"
    and "\<not> bp_installed bp"
  shows "twp (reinsert_breakpoint os a t)
    (\<lambda>_ w'. program_view (d_breakpoints (dbg w')) (mem (kern w')) =
         program_view (d_breakpoints (dbg w)) (mem (kern w)) \<and>
       patched (d_breakpoints (dbg w')) (mem (kern w')) \<and> mem (kern w') a = Some 0xcc)
    (\<lambda>_ w'. mem (kern w') = mem (kern w) \<and> dbg w' = dbg w) w"
  by (intro twpI terminates_intros reinsert_breakpoint_view [OF assms])

definition example_displaced :: "ref_kernel world" where
  "example_displaced = example_armed\<lparr>
     dbg := set_installed False 0x401004 (dbg example_armed), kern := example_kernel\<rparr>"

theorem breakpoint_reinserted_witness:
  "fst (reinsert_breakpoint (ref_os 77) 0x401004 77 example_displaced) = Ok () \<and>
   rk_mem (kern (snd (reinsert_breakpoint (ref_os 77) 0x401004 77 example_displaced))) 0x401004 = Some 0xcc"
proof -
  have run: "fst (reinsert_breakpoint (ref_os 77) 0x401004 77 example_displaced) = Ok ()" by code_simp
  have bps: "d_breakpoints (dbg example_displaced) = [(0x401004, example_breakpoint\<lparr>bp_installed := False\<rparr>)]"
    by code_simp
  have wf: "world_wf example_displaced"
    by (simp add: example_displaced_def set_installed_wf example_armed_wf)
  have patch: "patched_in rk_mem example_displaced"
    by (simp add: patched_def bps smap_find_def)
  have bp: "smap_find (d_breakpoints (dbg example_displaced)) 0x401004
      = Some (example_breakpoint\<lparr>bp_installed := False\<rparr>)" by (simp add: bps smap_find_def)
  have mem: "rk_mem (kern example_displaced) 0x401004
      = Some (bp_original_byte (example_breakpoint\<lparr>bp_installed := False\<rparr>))" by code_simp
  have uninstalled: "\<not> bp_installed (example_breakpoint\<lparr>bp_installed := False\<rparr>)" by simp
  from twp_OkD [OF breakpoint_reinserted [OF ref_shared_memory [of 77 "{77}"] _ wf patch bp mem uninstalled]] run
  show ?thesis by (metis insertI1 prod.collapse)
qed

text \<open>C10. Reading the tracee's memory through a stopped session returns exactly the bytes of the
  range, in order, and changes nothing; when a word of the range is not mapped it throws, and also
  then changes nothing.\<close>

theorem read_memory_exact:
  assumes "shared_memory_laws os (set (tids (d_process (dbg w)))) mem" and "stopped_at_task w"
  shows "if range_mapped (mem (kern w)) a len
    then read_memory os a len w = (Ok (map (\<lambda>i. the (mem (kern w) (a + of_nat i))) [0..<len]), w)
    else \<exists>e. read_memory os a len w = (Throw e, w)"
  using read_memory_ok [OF assms] read_memory_fails [OF assms] by simp

theorem read_memory_exact_witness:
  "read_memory (ref_os 77) 0x401001 3 example_world = (Ok [0x48, 0x89, 0xe5], example_world)"
proof -
  have "stopped_at_task example_world" by code_simp
  moreover have "range_mapped (rk_mem (kern example_world)) 0x401001 3"
  proof -
    have "word_mapped (rk_mem (kern example_world)) 0x401001" by code_simp
    moreover have "8 * j < 3 \<Longrightarrow> j = 0" for j :: nat by simp
    ultimately show ?thesis unfolding range_mapped_def by fastforce
  qed
  ultimately have "read_memory (ref_os 77) 0x401001 3 example_world =
      (Ok (map (\<lambda>i. the (rk_mem (kern example_world) (0x401001 + of_nat i))) [0..<3]), example_world)"
    using read_memory_exact [OF example_laws, where w = example_world and a = "0x401001" and len = 3] by simp
  moreover have "map (\<lambda>i. the (rk_mem (kern example_world) (0x401001 + of_nat i))) [0..<3] = [0x48, 0x89, 0xe5]"
    by code_simp
  ultimately show ?thesis by simp
qed

section \<open>Sessions\<close>

text \<open>C4. The session invariant. From a launch or an attach, after any sequence of commands, returned or
  thrown, and any kernel moves in between: the two breakpoint tables are inverse to each other with
  ids below the next one, a pending displaced step belongs to a listed breakpoint that is not
  installed, at most three process domains are owned and the parked ones have no pending step, and
  the process counts as stopped exactly when one of its tasks is.\<close>

theorem session_invariant:
  assumes "session os w"
  shows "(\<forall>a bp. smap_find (d_breakpoints (dbg w)) a = Some bp \<longrightarrow>
        bp_address bp = a \<and> smap_find (d_breakpoint_ids (dbg w)) (bp_id bp) = Some a) \<and>
      (\<forall>i a. smap_find (d_breakpoint_ids (dbg w)) i = Some a \<longrightarrow> i < next_breakpoint_id (dbg w) \<and>
        (\<exists>bp. smap_find (d_breakpoints (dbg w)) a = Some bp \<and> bp_id bp = i)) \<and>
      (\<forall>p. d_pending_step (dbg w) = Some p \<longrightarrow>
        (\<exists>bp. smap_find (d_breakpoints (dbg w)) (ps_address p) = Some bp \<and> \<not> bp_installed bp)) \<and>
      length (retained_processes (dbg w)) \<le> 2 \<and>
      (\<forall>(p, dmn) \<in> set (retained_processes (dbg w)). d_pending_step dmn = None) \<and>
      (p_state (d_process (dbg w)) = PS_Stopped \<longleftrightarrow>
        (\<exists>t. task_state (d_process (dbg w)) t = Some PS_Stopped))"
proof -
  have wf: "dbg_wf (dbg w)" by (rule session_wf [OF assms])
  have "table_wf (next_breakpoint_id (dbg w)) (d_breakpoints (dbg w)) (d_breakpoint_ids (dbg w))
      (d_pending_step (dbg w))" by (rule dbg_wf_table [OF wf])
  moreover have "length (retained_processes (dbg w)) < 3"
    "\<forall>(p, dmn) \<in> set (retained_processes (dbg w)). d_pending_step dmn = None"
    using wf by (auto simp: dbg_wf_def)
  moreover have "process_wf (d_process (dbg w))" using wf by (simp add: dbg_wf_def domain_wf_def)
  then have "p_state (d_process (dbg w)) = PS_Stopped \<longleftrightarrow>
      (\<exists>t. task_state (d_process (dbg w)) t = Some PS_Stopped)"
    by (rule process_wf_stopped_iff)
  ultimately show ?thesis by (simp add: table_wf_def)
qed

theorem session_invariant_witness:
  "session (ref_os 77) example_launched \<and> p_state (d_process (dbg example_launched)) = PS_Stopped \<and>
   (\<exists>t. task_state (d_process (dbg example_launched)) t = Some PS_Stopped)"
proof -
  have "p_state (d_process (dbg example_launched)) = PS_Stopped"
    by (simp add: example_launched_def launch_run monad_run wait_run smap_run kernel_run example_world_def
        example_kernel_def)
  with session_invariant [OF example_launched_session] example_launched_session show ?thesis by blast
qed

text \<open>C11. A successful attach leaves the process stopped and the requested task traced and
  selected; a failed one throws, and either way the task table is consistent.\<close>

theorem attach_stops_target:
  assumes "process_wf (proc w)"
  shows "wp (attach os n p)
     (\<lambda>_ w'. process_wf (proc w') \<and> p_state (proc w') = PS_Stopped \<and> p_current_tid (proc w') = p \<and>
        task_state (proc w') p \<noteq> None)
     (\<lambda>_ w'. process_wf (proc w')) w"
proof (cases "p > 0")
  case True
  show ?thesis
    by (rule wp_mono [OF wp_attach [OF assms]]) (use True in \<open>auto simp: process_wf_def\<close>)
next
  case False
  with assms show ?thesis by (simp add: attach_def wp_simps)
qed

theorem attach_stops_target_witness:
  "fst (attach (ref_os 77) (Suc 0) 77 \<lparr>proc = new_process 77 Attached, pkern = ref_state (\<lambda>_. None) [(77, 0x137f)]\<rparr>) = Ok () \<and>
   p_state (proc (snd (attach (ref_os 77) (Suc 0) 77
     \<lparr>proc = new_process 77 Attached, pkern = ref_state (\<lambda>_. None) [(77, 0x137f)]\<rparr>))) = PS_Stopped"
proof -
  let ?w = "\<lparr>proc = new_process 77 Attached, pkern = ref_state (\<lambda>_. None) [(77, 0x137f)]\<rparr>"
  have run: "fst (attach (ref_os 77) (Suc 0) 77 ?w) = Ok ()"
    by (simp add: attach_run monad_run wait_run smap_run kernel_run)
  have "process_wf (proc ?w)" by (simp add: new_process_wf)
  from wp_OkD [OF attach_stops_target [OF this]] run show ?thesis by (metis prod.collapse)
qed

text \<open>C29. The destructor path of a process is \<^verbatim>\<open>noexcept\<close>: whatever the kernel answers, cleaning up
  never throws and leaves a consistent task table.\<close>

theorem cleanup_never_throws:
  assumes "process_wf (proc w)"
  shows "wp (cleanup os n) (\<lambda>_ w'. process_wf (proc w')) (\<lambda>_ _. False) w"
  by (rule wp_cleanup [OF assms])

theorem cleanup_never_throws_witness:
  "fst (cleanup (ref_os 77) 5 \<lparr>proc = new_process 77 Launched, pkern = ref_state (\<lambda>_. None) []\<rparr>) = Ok () \<and>
   process_wf (proc (snd (cleanup (ref_os 77) 5 \<lparr>proc = new_process 77 Launched, pkern = ref_state (\<lambda>_. None) []\<rparr>)))"
proof -
  let ?w = "\<lparr>proc = new_process 77 Launched, pkern = ref_state (\<lambda>_. None) []\<rparr>"
  have run: "fst (cleanup (ref_os 77) 5 ?w) = Ok ()" by code_simp
  have "process_wf (proc ?w)" by (simp add: new_process_wf)
  from wp_OkD [OF cleanup_never_throws [OF this]] run show ?thesis by (metis prod.collapse)
qed

section \<open>Instances of component properties\<close>

text \<open>A kernel that interrupts the first wait and answers the second.\<close>

definition interrupting_os :: "nat os" where
  "interrupting_os = \<lparr>
     k_traceme = (\<lambda>k. ((0, 0), k)), k_attach = (\<lambda>t k. ((0, 0), k)), k_detach = (\<lambda>t sig k. ((0, 0), k)),
     k_setoptions = (\<lambda>t opts k. ((0, 0), k)), k_geteventmsg = (\<lambda>t k. ((0, 0), 0)),
     k_cont = (\<lambda>t sig k. ((0, 0), k)), k_singlestep = (\<lambda>t sig k. ((0, 0), k)),
     k_getregs = (\<lambda>t k. ((0, 0), zero_regs)), k_setregs = (\<lambda>t regs k. ((0, 0), k)),
     k_peekuser = (\<lambda>t off k. (0, 0)), k_pokeuser = (\<lambda>t off v k. ((0, 0), k)),
     k_peekdata = (\<lambda>t a k. (0, 0)), k_pokedata = (\<lambda>t a v k. ((0, 0), k)),
     k_waitpid = (\<lambda>t k. if k = 0 then ((-1, 0, EINTR), 1) else ((t, 0x57f, 0), k + 1)),
     k_kill = (\<lambda>t sig k. k), k_fork = (\<lambda>k. ((0, 0), k)), k_task_dir = (\<lambda>p k. None),
     k_task_exists = (\<lambda>p t k. True), k_read_exe = (\<lambda>p k. None)\<rparr>"

theorem waitpid_retry_answers_witness: "waitpid_retry interrupting_os 5 77 0 = (Ok (77, 0x57f, 0), 2)"
proof -
  have "waitpid_retry interrupting_os 5 77 0 =
    (Ok (fst (k_waitpid interrupting_os 77 ((wait_state interrupting_os 77 ^^ 1) 0))),
     (wait_state interrupting_os 77 ^^ Suc 1) 0)"
    by (rule waitpid_retry_answers) (simp_all add: interrupted_def wait_state_def interrupting_os_def)
  then show ?thesis by (simp add: wait_state_def interrupting_os_def)
qed

text \<open>A stack of two linked frames at \<open>0x7000\<close>.\<close>

theorem unwind_frame_pointers_follows_chain_witness:
  "unwind_frame_pointers (ref_os 77) 64 0x1000000 example_unwind =
    (Ok \<lparr>bt_frames = [\<lparr>sf_ip = 0x401004, sf_fp = 0x7000\<rparr>, \<lparr>sf_ip = 0x401009, sf_fp = 0x7010\<rparr>,
       \<lparr>sf_ip = 0x40100a, sf_fp = 0\<rparr>], bt_stop_reason = EndOfChain\<rparr>, example_unwind)"
proof -
  let ?m = "rk_mem (kern example_unwind)"
  have mapped: "word_mapped ?m 0x7000" "word_mapped ?m 0x7008" "word_mapped ?m 0x7010" "word_mapped ?m 0x7018"
    by code_simp+
  have words: "word_at ?m 0x7000 = 0x7010" "word_at ?m 0x7008 = 0x401009" "word_at ?m 0x7010 = 0"
    "word_at ?m 0x7018 = 0x40100a" by code_simp+
  have "frame_chain ?m 0x1000000 0x7010 [\<lparr>sf_ip = 0x40100a, sf_fp = 0\<rparr>]"
    by (rule frame_chain.outermost) (use mapped words in simp_all)
  then have chain: "frame_chain ?m 0x1000000 0x7000 [\<lparr>sf_ip = 0x401009, sf_fp = 0x7010\<rparr>, \<lparr>sf_ip = 0x40100a, sf_fp = 0\<rparr>]"
    by (rule frame_chain.linked [rotated -1]) (use mapped words in simp_all)
  have stopped: "stopped_at_task example_unwind" by code_simp
  then have "registers (ref_os 77) example_unwind = (Ok (zero_regs\<lparr>rip := 0x401004, rbp := 0x7000\<rparr>), example_unwind)"
    by (simp add: registers_def bindM_def stopped_tid_ok on_kern_def zoomM_def ll_get_registers_def ref_os_def)
      (simp add: example_unwind_def)
  from unwind_frame_pointers_follows_chain [OF example_laws stopped this, of "0x1000000"] chain
  show ?thesis by simp
qed

end
